(* ===== verification/Prelude.thy ===== *)
theory Prelude
  imports Main
begin

text \<open>
  The prelude of the development: the result type that stands for the fatal errors and the failed
  \<^verbatim>\<open>LogicalResult\<close>s of the C++ sources, its bind, the two monadic list iterators the loops of the
  sources are written with, and the lemmas on lists the components share.

  \<^item> A call of \<^verbatim>\<open>llvm::report_fatal_error(msg)\<close> ends the process. It is the value \<open>Inl (Fatal msg)\<close>.
  \<^item> A failed \<^verbatim>\<open>LogicalResult\<close> with the diagnostic \<^verbatim>\<open>msg\<close> is \<open>Inl (Failure msg)\<close>.
  \<^item> What C++ leaves undefined (a vector read past its end, a read of bytes that were never
    written) is \<open>Inl (UB what)\<close>: the model never invents a value for it.
  \<^item> \<open>Inl OutOfFuel\<close> marks a run that was cut off (evaluation of a region with too little fuel).
\<close>

named_theorems result_simps \<open>rewrite rules of the result monad\<close>
named_theorems sizes_simps \<open>rewrite rules of the arithmetic on sizes\<close>
named_theorems tensor_simps \<open>rewrite rules of tensor access\<close>

section \<open>Results\<close>

datatype error = Fatal string | Failure string | UB string | OutOfFuel

type_synonym 'a result = "error + 'a"

definition rbind :: "'a result \<Rightarrow> ('a \<Rightarrow> 'b result) \<Rightarrow> 'b result" where
  "rbind m f = (case m of Inl e \<Rightarrow> Inl e | Inr x \<Rightarrow> f x)"

definition guard :: "bool \<Rightarrow> error \<Rightarrow> unit result" where
  "guard b e = (if b then Inr () else Inl e)"

lemma rbind_Inl [simp]: "rbind (Inl e) f = Inl e"
  by (simp add: rbind_def)

lemma rbind_Inr [simp]: "rbind (Inr x) f = f x"
  by (simp add: rbind_def)

lemma rbind_eq_Inr [result_simps]: "rbind m f = Inr y \<longleftrightarrow> (\<exists>x. m = Inr x \<and> f x = Inr y)"
  by (cases m) auto

lemma rbind_InrE [elim]:
  assumes "rbind m f = Inr y"
  obtains x where "m = Inr x" and "f x = Inr y"
  using assms by (cases m) auto

lemma rbind_assoc: "rbind (rbind m f) g = rbind m (\<lambda>x. rbind (f x) g)"
  by (cases m) auto

lemma rbind_Inr_right [simp]: "rbind m Inr = m"
  by (cases m) auto

lemma rbind_cong [fundef_cong]:
  "m = m' \<Longrightarrow> (\<And>x. m' = Inr x \<Longrightarrow> f x = f' x) \<Longrightarrow> rbind m f = rbind m' f'"
  by (cases m') auto

lemma rbind_split:
  "P (rbind m f) \<longleftrightarrow> (\<forall>e. m = Inl e \<longrightarrow> P (Inl e)) \<and> (\<forall>x. m = Inr x \<longrightarrow> P (f x))"
  by (cases m) auto

lemma guard_True [simp]: "guard True e = Inr ()"
  by (simp add: guard_def)

lemma guard_False [simp]: "guard False e = Inl e"
  by (simp add: guard_def)

lemma guard_eq_Inr [result_simps]: "guard b e = Inr u \<longleftrightarrow> b"
  by (auto simp: guard_def)

lemma guard_eq_Inl [result_simps]: "guard b e = Inl d \<longleftrightarrow> \<not> b \<and> d = e"
  by (auto simp: guard_def)

section \<open>Monadic iteration\<close>

fun mapM :: "('a \<Rightarrow> 'b result) \<Rightarrow> 'a list \<Rightarrow> 'b list result" where
  "mapM f [] = Inr []"
| "mapM f (x # xs) = rbind (f x) (\<lambda>y. rbind (mapM f xs) (\<lambda>ys. Inr (y # ys)))"

fun foldM :: "('a \<Rightarrow> 's \<Rightarrow> 's result) \<Rightarrow> 'a list \<Rightarrow> 's \<Rightarrow> 's result" where
  "foldM f [] s = Inr s"
| "foldM f (x # xs) s = rbind (f x s) (foldM f xs)"

text \<open>The C++ subscript \<^verbatim>\<open>v[i]\<close> with an index of a signed type: undefined outside the vector.\<close>

definition vec_nth :: "'a list \<Rightarrow> int \<Rightarrow> 'a result" where
  "vec_nth xs i = (if 0 \<le> i \<and> i < int (length xs) then Inr (xs ! nat i)
                   else Inl (UB ''vector subscript out of range''))"

text \<open>The assignment \<^verbatim>\<open>v[i] = x\<close>.\<close>

definition vec_set :: "'a list \<Rightarrow> int \<Rightarrow> 'a \<Rightarrow> 'a list result" where
  "vec_set xs i x = (if 0 \<le> i \<and> i < int (length xs) then Inr (xs[nat i := x])
                     else Inl (UB ''vector subscript out of range''))"

lemma mapM_cong [fundef_cong]:
  "xs = ys \<Longrightarrow> (\<And>x. x \<in> set ys \<Longrightarrow> f x = g x) \<Longrightarrow> mapM f xs = mapM g ys"
  by (induction xs arbitrary: ys) (auto split: sum.splits)

lemma foldM_cong [fundef_cong]:
  "xs = ys \<Longrightarrow> s = t \<Longrightarrow> (\<And>x s. x \<in> set ys \<Longrightarrow> f x s = g x s) \<Longrightarrow> foldM f xs s = foldM g ys t"
  by (induction xs arbitrary: ys s t) (auto simp: rbind_def split: sum.splits)

lemma mapM_Inr:
  "(\<And>x. x \<in> set xs \<Longrightarrow> f x = Inr (g x)) \<Longrightarrow> mapM f xs = Inr (map g xs)"
  by (induction xs) auto

lemma mapM_eq_Inr:
  "mapM f xs = Inr ys \<longleftrightarrow> length ys = length xs \<and> (\<forall>i < length xs. f (xs ! i) = Inr (ys ! i))"
proof (induction xs arbitrary: ys)
  case Nil
  then show ?case by auto
next
  case (Cons x xs)
  show ?case
    by (cases ys) (auto simp: rbind_eq_Inr Cons.IH nth_Cons' All_less_Suc2)
qed

lemma mapM_length: "mapM f xs = Inr ys \<Longrightarrow> length ys = length xs"
  by (simp add: mapM_eq_Inr)

lemma foldM_append: "foldM f (xs @ ys) s = rbind (foldM f xs s) (foldM f ys)"
  by (induction xs arbitrary: s) (auto simp: rbind_assoc intro: rbind_cong)

lemma foldM_map: "foldM f (map g xs) s = foldM (\<lambda>x. f (g x)) xs s"
  by (induction xs arbitrary: s) (auto intro: rbind_cong)

text \<open>The loop rule: an invariant that every iteration keeps, with the iteration succeeding.\<close>

lemma foldM_invariant:
  assumes "\<And>x s. x \<in> set xs \<Longrightarrow> P s \<Longrightarrow> \<exists>s'. f x s = Inr s' \<and> P s'" and "P s"
  shows "\<exists>s'. foldM f xs s = Inr s' \<and> P s'"
  using assms
proof (induction xs arbitrary: s)
  case Nil
  then show ?case by simp
next
  case (Cons x xs)
  from Cons.prems obtain s1 where "f x s = Inr s1" "P s1" by auto
  with Cons.IH [of s1] Cons.prems show ?case by auto
qed

lemma foldM_unchanged: "(\<And>x. x \<in> set xs \<Longrightarrow> f x s = Inr s) \<Longrightarrow> foldM f xs s = Inr s"
  by (induction xs) simp_all

text \<open>A loop of checks succeeds exactly when every check does.\<close>

lemma foldM_checks: "foldM f xs () = Inr u \<longleftrightarrow> (\<forall>x \<in> set xs. f x () = Inr ())"
  by (induction xs) (auto simp: rbind_eq_Inr)

lemma vec_nth_Inr [simp]: "0 \<le> i \<Longrightarrow> i < int (length xs) \<Longrightarrow> vec_nth xs i = Inr (xs ! nat i)"
  by (simp add: vec_nth_def)

lemma vec_nth_eq_Inr [result_simps]:
  "vec_nth xs i = Inr x \<longleftrightarrow> 0 \<le> i \<and> i < int (length xs) \<and> x = xs ! nat i"
  by (auto simp: vec_nth_def)

lemma vec_nth_int [simp]: "i < length xs \<Longrightarrow> vec_nth xs (int i) = Inr (xs ! i)"
  by (simp add: vec_nth_def)

lemma vec_set_Inr [simp]:
  "0 \<le> i \<Longrightarrow> i < int (length xs) \<Longrightarrow> vec_set xs i x = Inr (xs[nat i := x])"
  by (simp add: vec_set_def)

lemma vec_set_eq_Inr [result_simps]:
  "vec_set xs i x = Inr ys \<longleftrightarrow> 0 \<le> i \<and> i < int (length xs) \<and> ys = xs[nat i := x]"
  by (auto simp: vec_set_def)

section \<open>Lists\<close>

definition upto_int :: "int \<Rightarrow> int list" where
  "upto_int n = [0..n - 1]"

lemma upto_int_set [simp]: "set (upto_int n) = {0..<n}"
  by (auto simp: upto_int_def)

lemma upto_int_length [simp]: "length (upto_int n) = nat n"
  by (simp add: upto_int_def)

lemma upto_int_distinct [simp]: "distinct (upto_int n)"
  by (simp add: upto_int_def)

lemma upto_int_nth [simp]: "i < nat n \<Longrightarrow> upto_int n ! i = int i"
  by (simp add: upto_int_def nth_upto)

lemma upto_int_0 [simp]: "n \<le> 0 \<Longrightarrow> upto_int n = []"
  by (simp add: upto_int_def)

lemma map2_nth [simp]:
  "i < length xs \<Longrightarrow> i < length ys \<Longrightarrow> map2 f xs ys ! i = f (xs ! i) (ys ! i)"
  by simp

lemma length_eq_nth_imp:
  "length xs = length ys \<Longrightarrow> (\<And>i. i < length xs \<Longrightarrow> xs ! i = ys ! i) \<Longrightarrow> xs = ys"
  by (simp add: list_eq_iff_nth_eq)

lemma list_all2_nth_iff:
  "list_all2 P xs ys \<longleftrightarrow> length xs = length ys \<and> (\<forall>i < length xs. P (xs ! i) (ys ! i))"
  by (simp add: list_all2_conv_all_nth)

text \<open>The position that \<^verbatim>\<open>llvm::find\<close> or \<^verbatim>\<open>std::find\<close> returns.\<close>

fun find_index :: "'a \<Rightarrow> 'a list \<Rightarrow> nat option" where
  "find_index x [] = None"
| "find_index x (y # ys) = (if x = y then Some 0 else map_option Suc (find_index x ys))"

lemma find_index_less: "find_index x xs = Some k \<Longrightarrow> k < length xs"
  by (induction xs arbitrary: k) (auto split: if_splits)

lemma find_index_None: "find_index x xs = None \<longleftrightarrow> x \<notin> set xs"
  by (induction xs) auto

lemma find_index_SomeD: "find_index x xs = Some i \<Longrightarrow> i < length xs \<and> xs ! i = x"
  by (induction xs arbitrary: i) (auto split: if_splits)

lemma find_index_Some: "x \<in> set xs \<Longrightarrow> \<exists>k. find_index x xs = Some k \<and> k < length xs \<and> xs ! k = x"
  by (induction xs) auto

lemma find_index_nth: "distinct xs \<Longrightarrow> k < length xs \<Longrightarrow> find_index (xs ! k) xs = Some k"
proof (induction xs arbitrary: k)
  case (Cons x xs)
  then show ?case by (cases k) auto
qed simp

lemma prod_list_pos: "list_all (\<lambda>d. 0 < d) ds \<Longrightarrow> 0 < prod_list (ds :: int list)"
  by (induction ds) auto

end
