(* ===== verification/Index_Space.thy ===== *)
theory Index_Space
  imports Prelude
begin

text \<open>
  \<^verbatim>\<open>stablehlo/reference/Index.{h,cpp}\<close> and \<^verbatim>\<open>Axes.{h,cpp}\<close>: sizes, axes and indices of tensors, their
  arithmetic, and the iterator over an index space in lexicographic order. \<^verbatim>\<open>int64_t\<close> values are
  mathematical integers here; \<open>Tensor\<close> shows that the offsets computed from them stay below the
  number of elements.
\<close>

type_synonym Sizes = "int list"
type_synonym Axes = "int list"
type_synonym Index = "int list"

section \<open>Sizes\<close>

definition Sizes_fill :: "nat \<Rightarrow> int \<Rightarrow> Sizes" where
  "Sizes_fill n element = replicate n element"

fun permute_loop :: "Sizes \<Rightarrow> int list \<Rightarrow> nat \<Rightarrow> Sizes \<Rightarrow> Sizes result" where
  "permute_loop self [] i res = Inr res"
| "permute_loop self (p # ps) i res =
     rbind (vec_nth self p) (\<lambda>v. rbind (vec_set res (int i) v) (permute_loop self ps (Suc i)))"

definition permute :: "Sizes \<Rightarrow> int list \<Rightarrow> Sizes result" where
  "permute self permutation = permute_loop self permutation 0 (Sizes_fill (length self) 0)"

definition inBounds :: "Sizes \<Rightarrow> Sizes \<Rightarrow> bool" where
  "inBounds self bounds \<longleftrightarrow>
     length self = length bounds \<and> list_all (\<lambda>(size, bound). \<not> (size < 0 \<or> bound \<le> size)) (zip self bounds)"

definition Sizes_plus :: "Sizes \<Rightarrow> Sizes \<Rightarrow> Sizes result" where
  "Sizes_plus x y = (if length x \<noteq> length y then Inl (Fatal ''expected same size'') else Inr (map2 (+) x y))"

definition Sizes_plus_scalar :: "Sizes \<Rightarrow> int \<Rightarrow> Sizes result" where
  "Sizes_plus_scalar x y = Sizes_plus x (Sizes_fill (length x) y)"

definition scalar_plus_Sizes :: "int \<Rightarrow> Sizes \<Rightarrow> Sizes result" where
  "scalar_plus_Sizes x y = Sizes_plus_scalar y x"

definition Sizes_minus :: "Sizes \<Rightarrow> Sizes \<Rightarrow> Sizes result" where
  "Sizes_minus x y = (if length x \<noteq> length y then Inl (Fatal ''expected same size'') else Inr (map2 (-) x y))"

definition Sizes_minus_scalar :: "Sizes \<Rightarrow> int \<Rightarrow> Sizes result" where
  "Sizes_minus_scalar x y = Sizes_minus x (Sizes_fill (length x) y)"

definition scalar_minus_Sizes :: "int \<Rightarrow> Sizes \<Rightarrow> Sizes result" where
  "scalar_minus_Sizes x y = Sizes_minus (Sizes_fill (length y) x) y"

definition Sizes_times :: "Sizes \<Rightarrow> Sizes \<Rightarrow> Sizes result" where
  "Sizes_times x y = (if length x \<noteq> length y then Inl (Fatal ''expected same size'') else Inr (map2 (*) x y))"

definition Sizes_times_scalar :: "Sizes \<Rightarrow> int \<Rightarrow> Sizes result" where
  "Sizes_times_scalar x y = Sizes_times x (Sizes_fill (length x) y)"

text \<open>
  The product of a scalar and sizes. The body of this overload in \<^verbatim>\<open>Index.cpp\<close> is \<^verbatim>\<open>return y + x\<close>,
  a sum, and the definition keeps it.
\<close>

definition scalar_times_Sizes :: "int \<Rightarrow> Sizes \<Rightarrow> Sizes result" where
  "scalar_times_Sizes x y = Sizes_plus_scalar y x"

definition Sizes_clamp :: "Sizes \<Rightarrow> Sizes \<Rightarrow> Sizes \<Rightarrow> Sizes result" where
  "Sizes_clamp mn x mx =
     (if length mn \<noteq> length x \<or> length x \<noteq> length mx then Inl (Fatal ''expected same size'')
      else Inr (map2 (\<lambda>v (lo, hi). min (max v lo) hi) x (zip mn mx)))"

definition Sizes_clamp_scalars :: "int \<Rightarrow> Sizes \<Rightarrow> int \<Rightarrow> Sizes result" where
  "Sizes_clamp_scalars mn x mx = Sizes_clamp (Sizes_fill (length x) mn) x (Sizes_fill (length x) mx)"

definition Sizes_clamp_low :: "int \<Rightarrow> Sizes \<Rightarrow> Sizes \<Rightarrow> Sizes result" where
  "Sizes_clamp_low mn x mx = Sizes_clamp (Sizes_fill (length x) mn) x mx"

definition Sizes_clamp_high :: "Sizes \<Rightarrow> Sizes \<Rightarrow> int \<Rightarrow> Sizes result" where
  "Sizes_clamp_high mn x mx = Sizes_clamp mn x (Sizes_fill (length x) mx)"

section \<open>The iterator\<close>

record IndexSpaceIterator =
  it_shape :: Sizes
  it_index :: "Index option"

definition IndexSpaceIterator_end :: "Sizes \<Rightarrow> IndexSpaceIterator" where
  "IndexSpaceIterator_end shape = \<lparr>it_shape = shape, it_index = None\<rparr>"

definition IndexSpaceIterator_at :: "Sizes \<Rightarrow> Index option \<Rightarrow> IndexSpaceIterator" where
  "IndexSpaceIterator_at shape index =
     \<lparr>it_shape = shape,
      it_index = (case index of Some i \<Rightarrow> (if inBounds i shape then Some i else None) | None \<Rightarrow> None)\<rparr>"

definition index_begin :: "Sizes \<Rightarrow> IndexSpaceIterator" where
  "index_begin self =
     (if list_ex (\<lambda>dimSize. dimSize = 0) self then IndexSpaceIterator_end self
      else IndexSpaceIterator_at self (Some (Sizes_fill (length self) 0)))"

definition index_end :: "Sizes \<Rightarrow> IndexSpaceIterator" where
  "index_end self = IndexSpaceIterator_end self"

definition deref :: "IndexSpaceIterator \<Rightarrow> Index result" where
  "deref it = (case it_index it of None \<Rightarrow> Inl (Fatal ''Dereferencing a past-the-end iterator.'') | Some i \<Rightarrow> Inr i)"

text \<open>
  The loop of \<^verbatim>\<open>operator++\<close>, from axis \<open>i - 1\<close> down to axis \<open>0\<close>: \<open>None\<close> is the index that was reset.
\<close>

fun incr_loop :: "Sizes \<Rightarrow> nat \<Rightarrow> Index \<Rightarrow> Index option" where
  "incr_loop shape 0 idx = Some idx"
| "incr_loop shape (Suc i) idx =
     (let v = idx ! i + 1 in
      if shape ! i \<le> v then (if i = 0 then None else incr_loop shape i (idx[i := 0]))
      else Some (idx[i := v]))"

definition incr :: "IndexSpaceIterator \<Rightarrow> IndexSpaceIterator result" where
  "incr it =
     (case it_index it of
        None \<Rightarrow> Inl (Fatal ''Incrementing a past-the-end iterator.'')
      | Some idx \<Rightarrow>
          if it_shape it = [] then Inr (it\<lparr>it_index := None\<rparr>)
          else if length idx \<noteq> length (it_shape it) then Inl (UB ''index subscript out of range'')
          else Inr (it\<lparr>it_index := incr_loop (it_shape it) (length (it_shape it)) idx\<rparr>))"

text \<open>
  What the post-increment \<^verbatim>\<open>it++\<close> gives: the old iterator, and the incremented one as the new state.
\<close>

definition post_incr :: "IndexSpaceIterator \<Rightarrow> (IndexSpaceIterator \<times> IndexSpaceIterator) result" where
  "post_incr it = rbind (incr it) (\<lambda>it'. Inr (it, it'))"

text \<open>
  The values a loop \<^verbatim>\<open>for (it = begin; it != end; ++it)\<close> sees, in order. Every increment makes the
  index lexicographically larger below the shape, so the loop ends.
\<close>

lemma incr_loop_step:
  "incr_loop shape n idx = Some idx' \<Longrightarrow> 0 < n \<Longrightarrow> n \<le> length shape \<Longrightarrow> length idx = length shape \<Longrightarrow>
   length idx' = length idx \<and>
   (\<exists>i < n. take i idx' = take i idx \<and> idx' ! i = idx ! i + 1 \<and> idx ! i + 1 < shape ! i)"
proof (induction shape n idx rule: incr_loop.induct)
  case (1 shape idx)
  then show ?case by simp
next
  case (2 shape i idx)
  show ?case
  proof (cases "shape ! i \<le> idx ! i + 1")
    case False
    with "2.prems" have "idx' = idx[i := idx ! i + 1]" by (simp add: Let_def)
    with False "2.prems" show ?thesis by (auto intro!: exI [of _ i])
  next
    case True
    with "2.prems" have i: "i \<noteq> 0" and eq: "incr_loop shape i (idx[i := 0]) = Some idx'"
      by (auto simp: Let_def split: if_splits)
    from "2.IH" [OF refl True i eq] i "2.prems" obtain j where
      "length idx' = length idx" "j < i" "take j idx' = take j (idx[i := 0])"
      "idx' ! j = idx ! j + 1" "idx ! j + 1 < shape ! j"
      by auto
    then show ?thesis by (auto intro!: exI [of _ j])
  qed
qed

lemma lex_take_nthI:
  assumes "take i xs = take i ys" "xs ! i < ys ! i" "length xs = length ys" "i < length ys"
  shows "(xs, ys) \<in> lex less_than"
proof -
  have "xs = take i ys @ xs ! i # drop (Suc i) xs" "ys = take i ys @ ys ! i # drop (Suc i) ys"
    using assms id_take_nth_drop [of i xs] id_take_nth_drop [of i ys] by auto
  with assms(2,3) show ?thesis unfolding lex_conv by blast
qed

definition iter_rank :: "IndexSpaceIterator \<Rightarrow> nat list" where
  "iter_rank it = (case it_index it of None \<Rightarrow> []
                   | Some idx \<Rightarrow> 1 # map2 (\<lambda>s i. nat (s - i)) (it_shape it) idx)"

lemma incr_iter_rank:
  assumes "it_index it = Some idx" and "incr it = Inr it'"
  shows "(iter_rank it', iter_rank it) \<in> lenlex less_than"
proof (cases "it_index it'")
  case None
  with assms(1) show ?thesis by (simp add: iter_rank_def lenlex_conv)
next
  case (Some idx')
  from assms Some have len: "length idx = length (it_shape it)" and ne: "it_shape it \<noteq> []"
    and sh: "it_shape it' = it_shape it"
    and loop: "incr_loop (it_shape it) (length (it_shape it)) idx = Some idx'"
    by (auto simp: incr_def split: if_splits)
  from incr_loop_step [OF loop] len ne obtain i where
    i: "i < length (it_shape it)" "take i idx' = take i idx" "idx' ! i = idx ! i + 1"
    "idx ! i + 1 < it_shape it ! i" and len': "length idx' = length idx"
    by auto
  define f where "f = map2 (\<lambda>s (i::int). nat (s - i)) (it_shape it)"
  have "take i (f idx') = take i (f idx)" "f idx' ! i < f idx ! i"
    "length (f idx') = length (f idx)" "i < length (f idx)"
    using i len len' by (auto simp: f_def take_map take_zip)
  then have "(f idx', f idx) \<in> lex less_than"
    by (rule lex_take_nthI)
  then show ?thesis
    using assms(1) Some sh by (simp add: iter_rank_def f_def lenlex_conv len len')
qed

function iter_indices :: "IndexSpaceIterator \<Rightarrow> Index list" where
  "iter_indices it =
     (case it_index it of
        None \<Rightarrow> []
      | Some idx \<Rightarrow> idx # (case incr it of Inl _ \<Rightarrow> [] | Inr it' \<Rightarrow> iter_indices it'))"
  by pat_completeness auto
termination
  by (relation "inv_image (lenlex less_than) iter_rank") (auto intro: incr_iter_rank)

declare iter_indices.simps [simp del]

text \<open>The loop \<^verbatim>\<open>for (auto it = shape.index_begin(); it != shape.index_end(); ++it) body\<close>.\<close>

definition forEachIndex :: "Sizes \<Rightarrow> (Index \<Rightarrow> 's \<Rightarrow> 's result) \<Rightarrow> 's \<Rightarrow> 's result" where
  "forEachIndex shape body s = foldM body (iter_indices (index_begin shape)) s"

section \<open>What the iterator enumerates\<close>

text \<open>The index space of a shape as a list, by recursion over the shape: lexicographic order.\<close>

fun index_space :: "Sizes \<Rightarrow> Index list" where
  "index_space [] = [[]]"
| "index_space (n # ns) = concat (map (\<lambda>k. map (Cons k) (index_space ns)) (upto_int n))"

lemma inBounds_Nil [simp]: "inBounds [] []"
  by (simp add: inBounds_def)

lemma inBounds_Cons [simp]: "inBounds (x # xs) (n # ns) \<longleftrightarrow> 0 \<le> x \<and> x < n \<and> inBounds xs ns"
  by (auto simp: inBounds_def)

lemma inBounds_length: "inBounds xs ns \<Longrightarrow> length xs = length ns"
  by (simp add: inBounds_def)

lemma inBounds_nth:
  "inBounds xs ns \<longleftrightarrow> length xs = length ns \<and> (\<forall>i < length ns. 0 \<le> xs ! i \<and> xs ! i < ns ! i)"
  by (auto simp: inBounds_def list_all_length)

lemma inBounds_zeros: "inBounds xs ns \<Longrightarrow> inBounds (replicate (length xs) 0) ns"
  by (auto simp: inBounds_nth intro: order.strict_trans1)

lemma inBounds_Nil_left [simp]: "inBounds [] ns \<longleftrightarrow> ns = []"
  by (auto simp: inBounds_def)

lemma inBounds_Nil_right [simp]: "inBounds xs [] \<longleftrightarrow> xs = []"
  by (auto simp: inBounds_def)

lemma index_space_set: "set (index_space shape) = {i. inBounds i shape}"
proof (induction shape)
  case Nil
  then show ?case by simp
next
  case (Cons n ns)
  have "i \<in> set (index_space (n # ns)) \<longleftrightarrow> inBounds i (n # ns)" for i
    by (cases i) (auto simp: Cons.IH inBounds_def)
  then show ?case by blast
qed

lemma index_space_mem [simp]: "i \<in> set (index_space shape) \<longleftrightarrow> inBounds i shape"
  by (simp add: index_space_set)

lemma distinct_concat_Cons:
  "distinct ks \<Longrightarrow> distinct is \<Longrightarrow> distinct (concat (map (\<lambda>k. map (Cons k) is) ks))"
  by (induction ks) (auto simp: distinct_map)

lemma index_space_distinct [simp]: "distinct (index_space shape)"
  by (induction shape) (simp_all add: distinct_concat_Cons)

text \<open>The successor of an index and the part of the index space from an index on.\<close>

fun next_index :: "Sizes \<Rightarrow> Index \<Rightarrow> Index option" where
  "next_index (n # ns) (x # xs) =
     (case next_index ns xs of
        Some xs' \<Rightarrow> Some (x # xs')
      | None \<Rightarrow> if x + 1 < n then Some ((x + 1) # replicate (length xs) 0) else None)"
| "next_index _ _ = None"

fun space_from :: "Sizes \<Rightarrow> Index \<Rightarrow> Index list" where
  "space_from (n # ns) (x # xs) =
     map (Cons x) (space_from ns xs) @
     concat (map (\<lambda>k. map (Cons k) (index_space ns)) [x + 1..n - 1])"
| "space_from _ _ = [[]]"

lemma space_from_zero: "inBounds (replicate (length shape) 0) shape \<Longrightarrow>
   space_from shape (replicate (length shape) 0) = index_space shape"
proof (induction shape)
  case Nil
  then show ?case by simp
next
  case (Cons n ns)
  then have "upto_int n = 0 # [1..n - 1]" by (simp add: upto_int_def upto_rec1)
  with Cons show ?case by simp
qed

lemma space_from_step:
  "inBounds idx shape \<Longrightarrow>
   space_from shape idx = idx # (case next_index shape idx of None \<Rightarrow> [] | Some i \<Rightarrow> space_from shape i)"
proof (induction shape idx rule: next_index.induct)
  case (1 n ns x xs)
  have xs: "inBounds xs ns" using "1.prems" by simp
  then have zeros: "inBounds (replicate (length xs) 0) ns"
    by (rule inBounds_zeros)
  show ?case
  proof (cases "next_index ns xs")
    case (Some xs')
    with "1.IH" xs show ?thesis by simp
  next
    case None
    have "space_from ns (replicate (length xs) 0) = index_space ns"
      using space_from_zero [of ns] zeros inBounds_length [OF xs] by simp
    moreover have "x + 1 < n \<Longrightarrow> [x + 1..n - 1] = (x + 1) # [x + 1 + 1..n - 1]"
      by (simp add: upto_rec1)
    ultimately show ?thesis using None "1.IH" xs "1.prems" by (simp add: algebra_simps)
  qed
qed auto

text \<open>The carry loop of \<^verbatim>\<open>operator++\<close> computes the successor.\<close>

lemma incr_loop_Cons:
  "0 < i \<Longrightarrow> i \<le> length ns \<Longrightarrow> length xs = length ns \<Longrightarrow>
   incr_loop (n # ns) (Suc i) (x # xs) =
     (case incr_loop ns i xs of
        Some xs' \<Rightarrow> Some (x # xs')
      | None \<Rightarrow> incr_loop (n # ns) 1 (x # replicate i 0 @ drop i xs))"
proof (induction i arbitrary: xs)
  case 0
  then show ?case by simp
next
  case (Suc i)
  show ?case
  proof (cases "ns ! i \<le> xs ! i + 1")
    case False
    then show ?thesis by (simp add: Let_def)
  next
    case True
    have split: "replicate (Suc i) 0 @ drop (Suc i) xs = replicate i 0 @ drop i (xs[i := 0])"
      using Suc.prems by (simp add: replicate_app_Cons_same drop_update_swap Cons_nth_drop_Suc [symmetric] del: replicate_Suc)
        (simp add: replicate_append_same [symmetric])
    show ?thesis
    proof (cases "i = 0")
      case True
      with \<open>ns ! i \<le> xs ! i + 1\<close> Suc.prems show ?thesis by (cases xs) (simp_all add: Let_def)
    next
      case False
      with Suc.IH [of "xs[i := 0]"] Suc.prems True show ?thesis
        unfolding split by (simp add: Let_def)
    qed
  qed
qed

lemma incr_loop_next_index:
  "inBounds idx shape \<Longrightarrow> shape \<noteq> [] \<Longrightarrow> incr_loop shape (length shape) idx = next_index shape idx"
proof (induction shape idx rule: next_index.induct)
  case (1 n ns x xs)
  show ?case
  proof (cases "ns = []")
    case True
    with 1 show ?thesis by (simp add: Let_def)
  next
    case False
    then have "incr_loop ns (length ns) xs = next_index ns xs" using 1 by simp
    with incr_loop_Cons [of "length ns" ns xs n x] False inBounds_length [of xs ns] 1
    show ?thesis by (simp add: Let_def split: option.splits)
  qed
qed auto

lemma next_index_inBounds:
  "next_index shape idx = Some i \<Longrightarrow> inBounds idx shape \<Longrightarrow> inBounds i shape"
proof (induction shape idx arbitrary: i rule: next_index.induct)
  case (1 n ns x xs)
  then show ?case
    by (auto simp: inBounds_zeros split: option.splits if_splits)
qed auto

lemma iter_indices_from:
  "inBounds idx shape \<Longrightarrow> iter_indices \<lparr>it_shape = shape, it_index = Some idx\<rparr> = space_from shape idx"
proof (induction "\<lparr>it_shape = shape, it_index = Some idx\<rparr>" arbitrary: idx rule: iter_indices.induct)
  case 1
  have incr_eq: "incr \<lparr>it_shape = shape, it_index = Some idx\<rparr> =
      Inr \<lparr>it_shape = shape, it_index = next_index shape idx\<rparr>"
    using incr_loop_next_index [OF "1.prems"] inBounds_length [OF "1.prems"]
    by (auto simp: incr_def)
  show ?case
  proof (cases "next_index shape idx")
    case None
    then show ?thesis
      by (simp add: iter_indices.simps [of "\<lparr>it_shape = shape, it_index = Some idx\<rparr>"] incr_eq
          iter_indices.simps [of "\<lparr>it_shape = shape, it_index = None\<rparr>"] space_from_step [OF "1.prems"])
  next
    case (Some i)
    with "1.hyps" [of idx] "1.prems" incr_eq next_index_inBounds [OF Some]
    have "iter_indices \<lparr>it_shape = shape, it_index = Some i\<rparr> = space_from shape i" by simp
    with Some show ?thesis
      by (simp add: iter_indices.simps [of "\<lparr>it_shape = shape, it_index = Some idx\<rparr>"] incr_eq
          space_from_step [OF "1.prems"])
  qed
qed

lemma index_space_empty: "\<not> inBounds (replicate (length shape) 0) shape \<Longrightarrow> index_space shape = []"
  by (induction shape) (auto simp: inBounds_def)

lemma iter_indices_begin: "iter_indices (index_begin shape) = index_space shape"
proof (cases "inBounds (replicate (length shape) 0) shape")
  case True
  then have "\<not> list_ex (\<lambda>d. d = 0) shape"
    by (auto simp: list_ex_iff inBounds_nth in_set_conv_nth)
  with True show ?thesis
    by (simp add: index_begin_def IndexSpaceIterator_at_def Sizes_fill_def iter_indices_from space_from_zero)
next
  case False
  then show ?thesis
    by (simp add: index_space_empty index_begin_def IndexSpaceIterator_at_def IndexSpaceIterator_end_def
        Sizes_fill_def iter_indices.simps)
qed

lemma forEachIndex_foldM: "forEachIndex shape body s = foldM body (index_space shape) s"
  by (simp add: forEachIndex_def iter_indices_begin)

end
