(* ===== verification/Types.thy ===== *)
theory Types
  imports Index_Space
begin

text \<open>
  \<^verbatim>\<open>stablehlo/reference/Types.{h,cpp}\<close>: the element types the interpreter supports. MLIR's builtin types
  are data here: an integer type is its signedness and width, a floating-point type its format, a
  complex type its component type; a ranked tensor type is a shape and an element type.
\<close>

section \<open>MLIR types\<close>

datatype FloatFormat =
    Float4E2M1FN | Float6E2M3FN | Float6E3M2FN
  | Float8E3M4 | Float8E4M3B11FNUZ | Float8E4M3 | Float8E4M3FN | Float8E4M3FNUZ
  | Float8E5M2 | Float8E5M2FNUZ | Float8E8M0FNU
  | Float16 | BFloat16 | Float32 | Float64 | FloatTF32 | Float80 | Float128

datatype Signedness = Signless | Signed | Unsigned

text \<open>A C++ \<^verbatim>\<open>double\<close> literal of an attribute: mantissa and exponent, in lowest terms.\<close>

type_synonym double_attr = "int \<times> int"

text \<open>
  The two quantized types are the uniform ones of MLIR's quant dialect, with the fields the verifiers
  read: storage type, expressed type, storage range, scale and zero point, per tensor or per axis.
\<close>

datatype Type =
    IntegerType Signedness nat
  | FloatType FloatFormat
  | ComplexType Type
  | IndexType
  | UniformQuantizedType (q_storage: Type) (q_expressed: Type) (q_min: int) (q_max: int) double_attr int
  | UniformQuantizedPerAxisType (q_storage: Type) (q_expressed: Type) (q_min: int) (q_max: int)
      (q_scales: "double_attr list") (q_zeroPoints: "int list") (q_dimension: int)

record ShapedType =
  getShape :: Sizes
  getElementType :: Type

fun float_width :: "FloatFormat \<Rightarrow> nat" where
  "float_width Float4E2M1FN = 4"
| "float_width Float6E2M3FN = 6"
| "float_width Float6E3M2FN = 6"
| "float_width Float16 = 16"
| "float_width BFloat16 = 16"
| "float_width FloatTF32 = 19"
| "float_width Float32 = 32"
| "float_width Float64 = 64"
| "float_width Float80 = 80"
| "float_width Float128 = 128"
| "float_width _ = 8"

fun isSignlessInteger :: "Type \<Rightarrow> nat \<Rightarrow> bool" where
  "isSignlessInteger (IntegerType s w) width \<longleftrightarrow> s = Signless \<and> w = width"
| "isSignlessInteger _ width \<longleftrightarrow> False"

fun isUnsignedInteger :: "Type \<Rightarrow> nat \<Rightarrow> bool" where
  "isUnsignedInteger (IntegerType s w) width \<longleftrightarrow> s = Unsigned \<and> w = width"
| "isUnsignedInteger _ width \<longleftrightarrow> False"

fun isIntOrFloat :: "Type \<Rightarrow> bool" where
  "isIntOrFloat (IntegerType _ _) = True"
| "isIntOrFloat (FloatType _) = True"
| "isIntOrFloat _ = False"

text \<open>\<^verbatim>\<open>getIntOrFloatBitWidth\<close>, which MLIR defines for integer and floating-point types only.\<close>

fun getIntOrFloatBitWidth :: "Type \<Rightarrow> nat result" where
  "getIntOrFloatBitWidth (IntegerType _ w) = Inr w"
| "getIntOrFloatBitWidth (FloatType f) = Inr (float_width f)"
| "getIntOrFloatBitWidth _ = Inl (UB ''only integers and floats have a bitwidth'')"

section \<open>Supported types\<close>

definition isSupportedUnsignedIntegerType :: "Type \<Rightarrow> bool" where
  "isSupportedUnsignedIntegerType type \<longleftrightarrow>
     isUnsignedInteger type 2 \<or> isUnsignedInteger type 4 \<or> isUnsignedInteger type 8 \<or>
     isUnsignedInteger type 16 \<or> isUnsignedInteger type 32 \<or> isUnsignedInteger type 64"

definition isSupportedSignedIntegerType :: "Type \<Rightarrow> bool" where
  "isSupportedSignedIntegerType type \<longleftrightarrow>
     isSignlessInteger type 2 \<or> isSignlessInteger type 4 \<or> isSignlessInteger type 8 \<or>
     isSignlessInteger type 16 \<or> isSignlessInteger type 32 \<or> isSignlessInteger type 64"

definition isSupportedBooleanType :: "Type \<Rightarrow> bool" where
  "isSupportedBooleanType type \<longleftrightarrow> isSignlessInteger type 1"

definition isSupportedIntegerType :: "Type \<Rightarrow> bool" where
  "isSupportedIntegerType type \<longleftrightarrow>
     isSupportedUnsignedIntegerType type \<or> isSupportedSignedIntegerType type"

fun isSupportedFloatFormat :: "FloatFormat \<Rightarrow> bool" where
  "isSupportedFloatFormat FloatTF32 = False"
| "isSupportedFloatFormat Float80 = False"
| "isSupportedFloatFormat Float128 = False"
| "isSupportedFloatFormat _ = True"

fun isSupportedFloatType :: "Type \<Rightarrow> bool" where
  "isSupportedFloatType (FloatType f) = isSupportedFloatFormat f"
| "isSupportedFloatType _ = False"

fun isSupportedComplexType :: "Type \<Rightarrow> bool" where
  "isSupportedComplexType (ComplexType t) \<longleftrightarrow> t = FloatType Float32 \<or> t = FloatType Float64"
| "isSupportedComplexType _ \<longleftrightarrow> False"

fun numBits :: "Type \<Rightarrow> nat result" where
  "numBits (ComplexType t) =
     (if isSupportedComplexType (ComplexType t) then rbind (numBits t) (\<lambda>n. Inr (n * 2))
      else getIntOrFloatBitWidth (ComplexType t))"
| "numBits type = getIntOrFloatBitWidth type"

definition isSupportedType :: "Type \<Rightarrow> bool" where
  "isSupportedType type \<longleftrightarrow>
     isSupportedBooleanType type \<or> isSupportedIntegerType type \<or> isSupportedFloatType type \<or>
     isSupportedComplexType type"

lemmas supported_defs =
  isSupportedUnsignedIntegerType_def isSupportedSignedIntegerType_def
  isSupportedBooleanType_def isSupportedIntegerType_def isSupportedType_def

text \<open>The four kinds of supported types exclude each other, so the order of the source's tests is immaterial.\<close>

lemma supported_IntegerType:
  "isSupportedIntegerType t \<longleftrightarrow>
     (\<exists>s w. t = IntegerType s w \<and> (s = Signless \<or> s = Unsigned) \<and> w \<in> {2, 4, 8, 16, 32, 64})"
  by (cases t) (auto simp: supported_defs)

lemma supported_BooleanType: "isSupportedBooleanType t \<longleftrightarrow> t = IntegerType Signless 1"
  by (cases t) (auto simp: supported_defs)

lemma supported_FloatType:
  "isSupportedFloatType t \<longleftrightarrow> (\<exists>f. t = FloatType f \<and> isSupportedFloatFormat f)"
  by (cases t) auto

lemma supported_ComplexType:
  "isSupportedComplexType t \<longleftrightarrow> t = ComplexType (FloatType Float32) \<or> t = ComplexType (FloatType Float64)"
  by (cases t) auto

lemmas supported_iffs =
  supported_IntegerType supported_BooleanType supported_FloatType supported_ComplexType

lemma supported_disjoint:
  "isSupportedIntegerType t \<Longrightarrow>
     \<not> isSupportedBooleanType t \<and> \<not> isSupportedFloatType t \<and> \<not> isSupportedComplexType t"
  "isSupportedBooleanType t \<Longrightarrow>
     \<not> isSupportedIntegerType t \<and> \<not> isSupportedFloatType t \<and> \<not> isSupportedComplexType t"
  "isSupportedFloatType t \<Longrightarrow>
     \<not> isSupportedIntegerType t \<and> \<not> isSupportedBooleanType t \<and> \<not> isSupportedComplexType t"
  "isSupportedComplexType t \<Longrightarrow>
     \<not> isSupportedIntegerType t \<and> \<not> isSupportedBooleanType t \<and> \<not> isSupportedFloatType t"
  by (auto simp: supported_iffs)

lemma signed_not_unsigned:
  "isSupportedSignedIntegerType t \<Longrightarrow> \<not> isSupportedUnsignedIntegerType t"
  by (cases t) (auto simp: supported_defs)

lemma isSupportedFloatFormat_width:
  "isSupportedFloatFormat f \<Longrightarrow> float_width f \<in> {4, 6, 8, 16, 32, 64}"
  by (cases f) auto

end
