(* ===== verification/APInt.thy ===== *)
theory APInt
  imports Prelude
begin

text \<open>
  The integers of explicit width the interpreter computes with (\<^verbatim>\<open>llvm::APInt\<close>): a width and a value
  kept in \<open>[0, 2^w)\<close>, every operation written out on integers with the wrap-around by
  \<open>take_bit w v = v mod 2^w\<close>. \<open>sval\<close> reads the two's complement value. The divisions return a result,
  since dividing by zero is undefined.
\<close>

datatype apint = ApInt (getBitWidth: nat) (uval: int)

definition mkAPInt :: "nat \<Rightarrow> int \<Rightarrow> apint" where
  "mkAPInt w v = ApInt w (take_bit w v)"

definition wf_apint :: "apint \<Rightarrow> bool" where
  "wf_apint x \<longleftrightarrow> 0 \<le> uval x \<and> uval x < 2 ^ getBitWidth x"

definition isNegative :: "apint \<Rightarrow> bool" where
  "isNegative x \<longleftrightarrow> 0 < getBitWidth x \<and> 2 ^ (getBitWidth x - 1) \<le> uval x"

definition sval :: "apint \<Rightarrow> int" where
  "sval x = (if isNegative x then uval x - 2 ^ getBitWidth x else uval x)"

definition isZero :: "apint \<Rightarrow> bool" where
  "isZero x \<longleftrightarrow> uval x = 0"

definition ap_add :: "apint \<Rightarrow> apint \<Rightarrow> apint" where
  "ap_add x y = mkAPInt (getBitWidth x) (uval x + uval y)"

definition ap_sub :: "apint \<Rightarrow> apint \<Rightarrow> apint" where
  "ap_sub x y = mkAPInt (getBitWidth x) (uval x - uval y)"

definition ap_mul :: "apint \<Rightarrow> apint \<Rightarrow> apint" where
  "ap_mul x y = mkAPInt (getBitWidth x) (uval x * uval y)"

definition ap_neg :: "apint \<Rightarrow> apint" where
  "ap_neg x = mkAPInt (getBitWidth x) (- uval x)"

definition ap_abs :: "apint \<Rightarrow> apint" where
  "ap_abs x = (if isNegative x then ap_neg x else x)"

definition ap_and :: "apint \<Rightarrow> apint \<Rightarrow> apint" where
  "ap_and x y = mkAPInt (getBitWidth x) (and (uval x) (uval y))"

definition ap_or :: "apint \<Rightarrow> apint \<Rightarrow> apint" where
  "ap_or x y = mkAPInt (getBitWidth x) (or (uval x) (uval y))"

definition ap_xor :: "apint \<Rightarrow> apint \<Rightarrow> apint" where
  "ap_xor x y = mkAPInt (getBitWidth x) (xor (uval x) (uval y))"

definition ap_not :: "apint \<Rightarrow> apint" where
  "ap_not x = mkAPInt (getBitWidth x) (- uval x - 1)"

text \<open>Division and remainder that round towards zero, as the C family's do.\<close>

definition trunc_div :: "int \<Rightarrow> int \<Rightarrow> int" where
  "trunc_div a b = sgn a * sgn b * (\<bar>a\<bar> div \<bar>b\<bar>)"

definition trunc_mod :: "int \<Rightarrow> int \<Rightarrow> int" where
  "trunc_mod a b = sgn a * (\<bar>a\<bar> mod \<bar>b\<bar>)"

text \<open>Integer division truncates and is undefined for a divisor of zero.\<close>

definition checked_div :: "int \<Rightarrow> int \<Rightarrow> int result" where
  "checked_div x y = (if y = 0 then Inl (UB ''division by zero'') else Inr (trunc_div x y))"

definition checked_mod :: "int \<Rightarrow> int \<Rightarrow> int result" where
  "checked_mod x y = (if y = 0 then Inl (UB ''division by zero'') else Inr (trunc_mod x y))"

definition ap_udiv :: "apint \<Rightarrow> apint \<Rightarrow> apint result" where
  "ap_udiv x y = (if isZero y then Inl (UB ''Divide by zero'')
                  else Inr (mkAPInt (getBitWidth x) (uval x div uval y)))"

definition ap_sdiv :: "apint \<Rightarrow> apint \<Rightarrow> apint result" where
  "ap_sdiv x y = (if isZero y then Inl (UB ''Divide by zero'')
                  else Inr (mkAPInt (getBitWidth x) (trunc_div (sval x) (sval y))))"

definition ap_urem :: "apint \<Rightarrow> apint \<Rightarrow> apint result" where
  "ap_urem x y = (if isZero y then Inl (UB ''Remainder by zero'')
                  else Inr (mkAPInt (getBitWidth x) (uval x mod uval y)))"

definition ap_srem :: "apint \<Rightarrow> apint \<Rightarrow> apint result" where
  "ap_srem x y = (if isZero y then Inl (UB ''Remainder by zero'')
                  else Inr (mkAPInt (getBitWidth x) (trunc_mod (sval x) (sval y))))"

text \<open>Shifts by an amount that is itself an integer value; amounts past the width shift everything out.\<close>

definition ap_shl :: "apint \<Rightarrow> nat \<Rightarrow> apint" where
  "ap_shl x n = (if getBitWidth x \<le> n then ApInt (getBitWidth x) 0
                 else mkAPInt (getBitWidth x) (push_bit n (uval x)))"

definition ap_lshr :: "apint \<Rightarrow> nat \<Rightarrow> apint" where
  "ap_lshr x n = (if getBitWidth x \<le> n then ApInt (getBitWidth x) 0
                  else mkAPInt (getBitWidth x) (drop_bit n (uval x)))"

definition ap_ashr :: "apint \<Rightarrow> nat \<Rightarrow> apint" where
  "ap_ashr x n = (if getBitWidth x \<le> n then mkAPInt (getBitWidth x) (if isNegative x then - 1 else 0)
                  else mkAPInt (getBitWidth x) (drop_bit n (sval x)))"

text \<open>The shift amount of \<^verbatim>\<open>x << y\<close> for two \<^verbatim>\<open>APInt\<close>s, limited to the width of \<open>x\<close>.\<close>

definition shift_amount :: "apint \<Rightarrow> apint \<Rightarrow> nat" where
  "shift_amount x y = nat (min (uval y) (int (getBitWidth x)))"

definition ap_zext :: "apint \<Rightarrow> nat \<Rightarrow> apint" where
  "ap_zext x w = ApInt w (uval x)"

definition ap_extractBits :: "apint \<Rightarrow> nat \<Rightarrow> nat \<Rightarrow> apint" where
  "ap_extractBits x numBits pos = mkAPInt numBits (drop_bit pos (uval x))"

definition ap_umax :: "apint \<Rightarrow> apint \<Rightarrow> apint" where
  "ap_umax x y = (if uval y < uval x then x else y)"

definition ap_umin :: "apint \<Rightarrow> apint \<Rightarrow> apint" where
  "ap_umin x y = (if uval x < uval y then x else y)"

definition ap_smax :: "apint \<Rightarrow> apint \<Rightarrow> apint" where
  "ap_smax x y = (if sval y < sval x then x else y)"

definition ap_smin :: "apint \<Rightarrow> apint \<Rightarrow> apint" where
  "ap_smin x y = (if sval x < sval y then x else y)"

fun bit_count :: "nat \<Rightarrow> int \<Rightarrow> nat" where
  "bit_count 0 v = 0"
| "bit_count (Suc w) v = (if odd v then 1 else 0) + bit_count w (v div 2)"

definition ap_popcount :: "apint \<Rightarrow> nat" where
  "ap_popcount x = bit_count (getBitWidth x) (uval x)"

fun leading_zeros :: "nat \<Rightarrow> int \<Rightarrow> nat" where
  "leading_zeros 0 v = 0"
| "leading_zeros (Suc w) v = (if 2 ^ w \<le> v then 0 else Suc (leading_zeros w v))"

definition ap_countLeadingZeros :: "apint \<Rightarrow> nat" where
  "ap_countLeadingZeros x = leading_zeros (getBitWidth x) (uval x)"

section \<open>Lemmas\<close>

lemma mkAPInt_width [simp]: "getBitWidth (mkAPInt w v) = w"
  by (simp add: mkAPInt_def)

lemma mkAPInt_uval [simp]: "uval (mkAPInt w v) = take_bit w v"
  by (simp add: mkAPInt_def)

lemma wf_mkAPInt [simp, intro]: "wf_apint (mkAPInt w v)"
  by (simp add: wf_apint_def)

lemma wf_take_bit: "wf_apint x \<Longrightarrow> take_bit (getBitWidth x) (uval x) = uval x"
  by (simp add: wf_apint_def take_bit_int_eq_self)

lemma mkAPInt_uval_id: "wf_apint x \<Longrightarrow> mkAPInt (getBitWidth x) (uval x) = x"
  by (simp add: mkAPInt_def wf_take_bit)

lemma take_bit_sval: "wf_apint x \<Longrightarrow> take_bit (getBitWidth x) (sval x) = uval x"
  by (auto simp: sval_def take_bit_eq_mod wf_apint_def isNegative_def)

lemma mkAPInt_sval_id: "wf_apint x \<Longrightarrow> mkAPInt (getBitWidth x) (sval x) = x"
  by (simp add: mkAPInt_def take_bit_sval)

lemma apint_eqI: "getBitWidth x = getBitWidth y \<Longrightarrow> uval x = uval y \<Longrightarrow> x = y"
  by (cases x; cases y) simp

lemma mkAPInt_cong: "take_bit w a = take_bit w b \<Longrightarrow> mkAPInt w a = mkAPInt w b"
  by (simp add: mkAPInt_def)

lemma sval_range:
  assumes "wf_apint x" "0 < getBitWidth x"
  shows "- (2 ^ (getBitWidth x - 1)) \<le> sval x \<and> sval x < 2 ^ (getBitWidth x - 1)"
proof -
  have "(2::int) ^ getBitWidth x = 2 * 2 ^ (getBitWidth x - 1)"
    using assms(2) by (simp flip: power_Suc)
  with assms show ?thesis by (auto simp: sval_def isNegative_def wf_apint_def)
qed

lemma sval_inject: "wf_apint x \<Longrightarrow> wf_apint y \<Longrightarrow> getBitWidth x = getBitWidth y \<Longrightarrow> sval x = sval y \<Longrightarrow> x = y"
  by (metis mkAPInt_sval_id)

end
