(* ===== verification/Element.thy ===== *)
theory Element
  imports Types APInt
begin

text \<open>
  \<^verbatim>\<open>stablehlo/reference/Element.{h,cpp}\<close>: one element of a tensor, a type and a value of the matching
  kind, with the arithmetic of the interpreter. Floating-point values (\<^verbatim>\<open>llvm::APFloat\<close>) and C++ doubles
  are parameters: a \<open>float_api\<close> holds the functions of them that the source calls, and the definitions
  take it as their first argument. Integer and boolean arithmetic is written out.
\<close>

section \<open>The floating-point parameter\<close>

datatype RoundingMode = TowardPositive | TowardNegative | NearestTiesToAway | NearestTiesToEven

datatype StdFn =
  Std_cbrt | Std_exp | Std_expm1 | Std_cos | Std_sin | Std_log | Std_log1p | Std_sqrt | Std_tan | Std_tanh

datatype StdFn2 = Std_atan2 | Std_pow

record ('f, 'd) float_api =
  getSemantics :: "'f \<Rightarrow> FloatFormat"
  fl_add :: "'f \<Rightarrow> 'f \<Rightarrow> 'f"
  fl_sub :: "'f \<Rightarrow> 'f \<Rightarrow> 'f"
  fl_mul :: "'f \<Rightarrow> 'f \<Rightarrow> 'f"
  fl_div :: "'f \<Rightarrow> 'f \<Rightarrow> 'f"
  fl_mod :: "'f \<Rightarrow> 'f \<Rightarrow> 'f"
  fl_neg :: "'f \<Rightarrow> 'f"
  fl_abs :: "'f \<Rightarrow> 'f"
  fl_lt :: "'f \<Rightarrow> 'f \<Rightarrow> bool"
  fl_gt :: "'f \<Rightarrow> 'f \<Rightarrow> bool"
  fl_eq :: "'f \<Rightarrow> 'f \<Rightarrow> bool"
  fl_maximum :: "'f \<Rightarrow> 'f \<Rightarrow> 'f"
  fl_minimum :: "'f \<Rightarrow> 'f \<Rightarrow> 'f"
  fl_isZero :: "'f \<Rightarrow> bool"
  fl_isNegative :: "'f \<Rightarrow> bool"
  fl_isNaN :: "'f \<Rightarrow> bool"
  fl_isFinite :: "'f \<Rightarrow> bool"
  bitcastToAPInt :: "'f \<Rightarrow> apint"
  fl_ofBits :: "FloatFormat \<Rightarrow> apint \<Rightarrow> 'f"
  fl_convert :: "FloatFormat \<Rightarrow> 'f \<Rightarrow> 'f"
  convertFromAPInt :: "FloatFormat \<Rightarrow> apint \<Rightarrow> bool \<Rightarrow> 'f"
  convertToInteger :: "nat \<Rightarrow> bool \<Rightarrow> 'f \<Rightarrow> apint"
  roundToIntegral :: "RoundingMode \<Rightarrow> 'f \<Rightarrow> 'f"
  getInf :: "FloatFormat \<Rightarrow> 'f"
  getNaN :: "FloatFormat \<Rightarrow> 'f"
  getZero :: "FloatFormat \<Rightarrow> 'f"
  convertToDouble :: "'f \<Rightarrow> 'd"
  APFloat_double :: "'d \<Rightarrow> 'f"
  d_lit :: "int \<Rightarrow> 'd"
  d_neg :: "'d \<Rightarrow> 'd"
  d_add :: "'d \<Rightarrow> 'd \<Rightarrow> 'd"
  d_sub :: "'d \<Rightarrow> 'd \<Rightarrow> 'd"
  d_mul :: "'d \<Rightarrow> 'd \<Rightarrow> 'd"
  d_div :: "'d \<Rightarrow> 'd \<Rightarrow> 'd"
  d_fabs :: "'d \<Rightarrow> 'd"
  d_le :: "'d \<Rightarrow> 'd \<Rightarrow> bool"
  std_fn :: "StdFn \<Rightarrow> 'd \<Rightarrow> 'd"
  std_fn2 :: "StdFn2 \<Rightarrow> 'd \<Rightarrow> 'd \<Rightarrow> 'd"
  std_cfn :: "StdFn \<Rightarrow> 'd \<times> 'd \<Rightarrow> 'd \<times> 'd"
  std_cpow :: "'d \<times> 'd \<Rightarrow> 'd \<times> 'd \<Rightarrow> 'd \<times> 'd"
  std_cabs :: "'d \<times> 'd \<Rightarrow> 'd"
  std_cadd :: "'d \<times> 'd \<Rightarrow> 'd \<times> 'd \<Rightarrow> 'd \<times> 'd"
  std_csub :: "'d \<times> 'd \<Rightarrow> 'd \<times> 'd \<Rightarrow> 'd \<times> 'd"
  std_cdiv :: "'d \<times> 'd \<Rightarrow> 'd \<times> 'd \<Rightarrow> 'd \<times> 'd"
  std_csmul :: "'d \<Rightarrow> 'd \<times> 'd \<Rightarrow> 'd \<times> 'd"
  std_csdiv :: "'d \<Rightarrow> 'd \<times> 'd \<Rightarrow> 'd \<times> 'd"

section \<open>Elements\<close>

datatype 'f Value = VInt apint | VBool bool | VFloat 'f | VComplex 'f 'f

record 'f Element =
  getType :: Type
  getValue :: "'f Value"

abbreviation mkElement :: "Type \<Rightarrow> 'f Value \<Rightarrow> 'f Element" where
  "mkElement t v \<equiv> \<lparr>getType = t, getValue = v\<rparr>"

abbreviation i1Type :: Type where
  "i1Type \<equiv> IntegerType Signless 1"

abbreviation unsupported :: error where
  "unsupported \<equiv> Fatal ''Unsupported element type''"

definition Element_int :: "Type \<Rightarrow> apint \<Rightarrow> 'f Element result" where
  "Element_int type value =
     (if \<not> isSupportedIntegerType type then Inl unsupported
      else rbind (getIntOrFloatBitWidth type) (\<lambda>w.
        if w \<noteq> getBitWidth value then Inl (Fatal ''Bit width mismatch'')
        else Inr (mkElement type (VInt value))))"

definition Element_bool :: "Type \<Rightarrow> bool \<Rightarrow> 'f Element result" where
  "Element_bool type value =
     (if \<not> isSupportedBooleanType type then Inl unsupported else Inr (mkElement type (VBool value)))"

fun float_semantics :: "Type \<Rightarrow> FloatFormat option" where
  "float_semantics (FloatType f) = Some f"
| "float_semantics _ = None"

fun complex_component :: "Type \<Rightarrow> Type" where
  "complex_component (ComplexType t) = t"
| "complex_component t = t"

definition Element_float :: "('f, 'd) float_api \<Rightarrow> Type \<Rightarrow> 'f \<Rightarrow> 'f Element result" where
  "Element_float F type value =
     (if \<not> isSupportedFloatType type then Inl unsupported
      else if float_semantics type \<noteq> Some (getSemantics F value)
      then Inl (Fatal ''Semantics mismatch between provided type and float value'')
      else Inr (mkElement type (VFloat value)))"

definition Element_complex :: "('f, 'd) float_api \<Rightarrow> Type \<Rightarrow> 'f \<Rightarrow> 'f \<Rightarrow> 'f Element result" where
  "Element_complex F type re im =
     (if \<not> isSupportedComplexType type then Inl unsupported
      else if float_semantics (complex_component type) \<noteq> Some (getSemantics F re) \<or>
              float_semantics (complex_component type) \<noteq> Some (getSemantics F im)
      then Inl (Fatal ''Semantics mismatch between provided type and complex value'')
      else Inr (mkElement type (VComplex re im)))"

definition getIntegerValue :: "'f Element \<Rightarrow> apint result" where
  "getIntegerValue e =
     (if \<not> isSupportedIntegerType (getType e) then Inl (Fatal ''Element is not an integer'')
      else case getValue e of VInt v \<Rightarrow> Inr v | _ \<Rightarrow> Inl (Fatal ''bad variant access''))"

definition getBooleanValue :: "'f Element \<Rightarrow> bool result" where
  "getBooleanValue e =
     (if \<not> isSupportedBooleanType (getType e) then Inl (Fatal ''Element is not a boolean'')
      else case getValue e of VBool v \<Rightarrow> Inr v | _ \<Rightarrow> Inl (Fatal ''bad variant access''))"

definition getFloatValue :: "'f Element \<Rightarrow> 'f result" where
  "getFloatValue e =
     (if \<not> isSupportedFloatType (getType e) then Inl (Fatal ''Element is not a floating-point'')
      else case getValue e of VFloat v \<Rightarrow> Inr v | _ \<Rightarrow> Inl (Fatal ''bad variant access''))"

definition getComplexValue :: "'f Element \<Rightarrow> ('f \<times> 'f) result" where
  "getComplexValue e =
     (if \<not> isSupportedComplexType (getType e) then Inl (Fatal ''Element is not a complex value'')
      else case getValue e of VComplex re im \<Rightarrow> Inr (re, im) | _ \<Rightarrow> Inl (Fatal ''bad variant access''))"

text \<open>The invariant of the class: the constructors establish it and every operation keeps it.\<close>

definition wf_element :: "('f, 'd) float_api \<Rightarrow> 'f Element \<Rightarrow> bool" where
  "wf_element F e \<longleftrightarrow>
     (case getValue e of
        VInt v \<Rightarrow> isSupportedIntegerType (getType e) \<and> wf_apint v \<and>
                  getIntOrFloatBitWidth (getType e) = Inr (getBitWidth v)
      | VBool b \<Rightarrow> isSupportedBooleanType (getType e)
      | VFloat f \<Rightarrow> isSupportedFloatType (getType e) \<and> float_semantics (getType e) = Some (getSemantics F f)
      | VComplex re im \<Rightarrow> isSupportedComplexType (getType e) \<and>
          float_semantics (complex_component (getType e)) = Some (getSemantics F re) \<and>
          float_semantics (complex_component (getType e)) = Some (getSemantics F im))"

section \<open>Mapping over the value kinds\<close>

definition map_element ::
  "('f, 'd) float_api \<Rightarrow> 'f Element \<Rightarrow> (apint \<Rightarrow> apint result) \<Rightarrow> (bool \<Rightarrow> bool result) \<Rightarrow>
   ('f \<Rightarrow> 'f result) \<Rightarrow> ('f \<times> 'f \<Rightarrow> ('f \<times> 'f) result) \<Rightarrow> 'f Element result" where
  "map_element F el integerFn boolFn floatFn complexFn =
     (let type = getType el in
      if isSupportedIntegerType type then
        rbind (getIntegerValue el) (\<lambda>v. rbind (integerFn v) (Element_int type))
      else if isSupportedBooleanType type then
        rbind (getBooleanValue el) (\<lambda>v. rbind (boolFn v) (Element_bool type))
      else if isSupportedFloatType type then
        rbind (getFloatValue el) (\<lambda>v. rbind (floatFn v) (Element_float F type))
      else if isSupportedComplexType type then
        rbind (getComplexValue el) (\<lambda>v. rbind (complexFn v) (\<lambda>(re, im). Element_complex F type re im))
      else Inl unsupported)"

definition map_element2 ::
  "('f, 'd) float_api \<Rightarrow> 'f Element \<Rightarrow> 'f Element \<Rightarrow> (apint \<Rightarrow> apint \<Rightarrow> apint result) \<Rightarrow>
   (bool \<Rightarrow> bool \<Rightarrow> bool result) \<Rightarrow> ('f \<Rightarrow> 'f \<Rightarrow> 'f result) \<Rightarrow>
   ('f \<times> 'f \<Rightarrow> 'f \<times> 'f \<Rightarrow> ('f \<times> 'f) result) \<Rightarrow> 'f Element result" where
  "map_element2 F lhs rhs integerFn boolFn floatFn complexFn =
     (let type = getType lhs in
      if getType lhs \<noteq> getType rhs then Inl (Fatal ''Element types do not match'')
      else if isSupportedIntegerType type then
        rbind (getIntegerValue lhs) (\<lambda>l. rbind (getIntegerValue rhs) (\<lambda>r.
          rbind (integerFn l r) (Element_int type)))
      else if isSupportedBooleanType type then
        rbind (getBooleanValue lhs) (\<lambda>l. rbind (getBooleanValue rhs) (\<lambda>r.
          rbind (boolFn l r) (Element_bool type)))
      else if isSupportedFloatType type then
        rbind (getFloatValue lhs) (\<lambda>l. rbind (getFloatValue rhs) (\<lambda>r.
          rbind (floatFn l r) (Element_float F type)))
      else if isSupportedComplexType type then
        rbind (getComplexValue lhs) (\<lambda>l. rbind (getComplexValue rhs) (\<lambda>r.
          rbind (complexFn l r) (\<lambda>(re, im). Element_complex F type re im)))
      else Inl unsupported)"

section \<open>Conversions\<close>

text \<open>
  The \<^verbatim>\<open>convert\<close> overloads. The component type of a supported complex type is a floating-point
  type, so the calls the complex branches make go to the scalar branches.
\<close>

definition convert_APFloat_scalar :: "('f, 'd) float_api \<Rightarrow> Type \<Rightarrow> 'f \<Rightarrow> 'f Element result" where
  "convert_APFloat_scalar F type value =
     (if isSupportedBooleanType type then Element_bool type (\<not> fl_isZero F value)
      else if isSupportedIntegerType type then
        rbind (getIntOrFloatBitWidth type) (\<lambda>w.
          Element_int type (convertToInteger F w (isSupportedUnsignedIntegerType type) value))
      else case type of
        FloatType f \<Rightarrow> (if isSupportedFloatType type then Element_float F type (fl_convert F f value)
                        else Inl unsupported)
      | _ \<Rightarrow> Inl unsupported)"

definition convert_Complex :: "('f, 'd) float_api \<Rightarrow> Type \<Rightarrow> 'f \<times> 'f \<Rightarrow> 'f Element result" where
  "convert_Complex F type value =
     (if isSupportedComplexType type then
        rbind (convert_APFloat_scalar F (complex_component type) (fst value)) (\<lambda>realElement.
        rbind (convert_APFloat_scalar F (complex_component type) (snd value)) (\<lambda>imagElement.
        rbind (getFloatValue realElement) (\<lambda>re. rbind (getFloatValue imagElement) (\<lambda>im.
          Element_complex F type re im))))
      else convert_APFloat_scalar F type (fst value))"

definition convert_APFloat :: "('f, 'd) float_api \<Rightarrow> Type \<Rightarrow> 'f \<Rightarrow> 'f Element result" where
  "convert_APFloat F type value =
     (if isSupportedComplexType type
      then convert_Complex F type (value, APFloat_double F (d_lit F 0))
      else convert_APFloat_scalar F type value)"

definition convert_double :: "('f, 'd) float_api \<Rightarrow> Type \<Rightarrow> 'd \<Rightarrow> 'f Element result" where
  "convert_double F type value = convert_APFloat F type (APFloat_double F value)"

definition convert_Complex_double :: "('f, 'd) float_api \<Rightarrow> Type \<Rightarrow> 'd \<times> 'd \<Rightarrow> 'f Element result" where
  "convert_Complex_double F type value =
     convert_Complex F type (APFloat_double F (fst value), APFloat_double F (snd value))"

text \<open>An \<^verbatim>\<open>APSInt\<close> is an integer and the flag that reads it as unsigned.\<close>

definition convert_APSInt_scalar :: "('f, 'd) float_api \<Rightarrow> Type \<Rightarrow> apint \<Rightarrow> bool \<Rightarrow> 'f Element result" where
  "convert_APSInt_scalar F type value isUnsigned =
     (if isSupportedBooleanType type then Element_bool type (\<not> isZero value)
      else if isSupportedIntegerType type then
        rbind (getIntOrFloatBitWidth type) (\<lambda>w.
          Element_int type (mkAPInt w (if isUnsigned then uval value else sval value)))
      else case type of
        FloatType f \<Rightarrow> (if isSupportedFloatType type
                        then Element_float F type (convertFromAPInt F f value (\<not> isUnsigned))
                        else Inl unsupported)
      | _ \<Rightarrow> Inl unsupported)"

definition convert_APSInt :: "('f, 'd) float_api \<Rightarrow> Type \<Rightarrow> apint \<Rightarrow> bool \<Rightarrow> 'f Element result" where
  "convert_APSInt F type value isUnsigned =
     (if isSupportedComplexType type then
        rbind (convert_APSInt_scalar F (complex_component type) value isUnsigned) (\<lambda>floatResult.
        rbind (getFloatValue floatResult) (convert_APFloat F type))
      else convert_APSInt_scalar F type value isUnsigned)"

text \<open>The second argument of the constructor of \<^verbatim>\<open>APSInt\<close> is \<open>isUnsigned\<close>; this overload passes \<open>isSigned\<close> there.\<close>

definition convert_APInt :: "('f, 'd) float_api \<Rightarrow> Type \<Rightarrow> apint \<Rightarrow> bool \<Rightarrow> 'f Element result" where
  "convert_APInt F type value isSigned = convert_APSInt F type value isSigned"

definition convert_int64 :: "('f, 'd) float_api \<Rightarrow> Type \<Rightarrow> int \<Rightarrow> 'f Element result" where
  "convert_int64 F type value = convert_APSInt F type (mkAPInt 64 value) False"

definition convert_uint64 :: "('f, 'd) float_api \<Rightarrow> Type \<Rightarrow> int \<Rightarrow> 'f Element result" where
  "convert_uint64 F type value = convert_APSInt F type (mkAPInt 64 value) True"

definition convert_bool :: "('f, 'd) float_api \<Rightarrow> Type \<Rightarrow> bool \<Rightarrow> 'f Element result" where
  "convert_bool F type value =
     (if isSupportedBooleanType type then Element_bool type value
      else convert_uint64 F type (if value then 1 else 0))"

definition convert_Element :: "('f, 'd) float_api \<Rightarrow> Type \<Rightarrow> 'f Element \<Rightarrow> 'f Element result" where
  "convert_Element F type e =
     (if isSupportedBooleanType (getType e) then rbind (getBooleanValue e) (convert_bool F type)
      else if isSupportedSignedIntegerType (getType e) then
        rbind (getIntegerValue e) (\<lambda>v. convert_int64 F type (sval v))
      else if isSupportedUnsignedIntegerType (getType e) then
        rbind (getIntegerValue e) (\<lambda>v. convert_uint64 F type (uval v))
      else if isSupportedFloatType (getType e) then rbind (getFloatValue e) (convert_APFloat F type)
      else if isSupportedComplexType (getType e) then rbind (getComplexValue e) (convert_Complex F type)
      else Inl unsupported)"

definition getZeroValueOfType :: "('f, 'd) float_api \<Rightarrow> Type \<Rightarrow> 'f Element result" where
  "getZeroValueOfType F type =
     (if isSupportedBooleanType type then convert_bool F type False
      else if isSupportedSignedIntegerType type then convert_int64 F type 0
      else if isSupportedUnsignedIntegerType type then convert_uint64 F type 0
      else if isSupportedFloatType type then convert_APFloat F type (APFloat_double F (d_lit F 0))
      else if isSupportedComplexType type then
        convert_Complex F type (APFloat_double F (d_lit F 0), APFloat_double F (d_lit F 0))
      else Inl unsupported)"

definition mapWithUpcastToDouble ::
  "('f, 'd) float_api \<Rightarrow> 'f Element \<Rightarrow> ('d \<Rightarrow> 'd) \<Rightarrow> ('d \<times> 'd \<Rightarrow> 'd \<times> 'd) \<Rightarrow> 'f Element result" where
  "mapWithUpcastToDouble F el floatFn complexFn =
     (let type = getType el in
      if isSupportedFloatType type then
        rbind (getFloatValue el) (\<lambda>v. convert_double F type (floatFn (convertToDouble F v)))
      else if isSupportedComplexType type then
        rbind (getComplexValue el) (\<lambda>(re, im).
          convert_Complex_double F type (complexFn (convertToDouble F re, convertToDouble F im)))
      else Inl unsupported)"

definition mapWithUpcastToDouble2 ::
  "('f, 'd) float_api \<Rightarrow> 'f Element \<Rightarrow> 'f Element \<Rightarrow> ('d \<Rightarrow> 'd \<Rightarrow> 'd) \<Rightarrow>
   ('d \<times> 'd \<Rightarrow> 'd \<times> 'd \<Rightarrow> 'd \<times> 'd) \<Rightarrow> 'f Element result" where
  "mapWithUpcastToDouble2 F lhs rhs floatFn complexFn =
     (let type = getType lhs in
      if getType lhs \<noteq> getType rhs then Inl (Fatal ''Element types do not match'')
      else if isSupportedFloatType type then
        rbind (getFloatValue lhs) (\<lambda>l. rbind (getFloatValue rhs) (\<lambda>r.
          convert_double F type (floatFn (convertToDouble F l) (convertToDouble F r))))
      else if isSupportedComplexType type then
        rbind (getComplexValue lhs) (\<lambda>(lre, lim). rbind (getComplexValue rhs) (\<lambda>(rre, rim).
          convert_Complex_double F type
            (complexFn (convertToDouble F lre, convertToDouble F lim)
                       (convertToDouble F rre, convertToDouble F rim))))
      else Inl unsupported)"

end
