(* ===== verification/Tensor.thy ===== *)
theory Tensor
  imports Element
begin

text \<open>
  \<^verbatim>\<open>stablehlo/reference/Tensor.{h,cpp}\<close>: a tensor is a type and a buffer of bytes, addressed by
  flattening a multi-dimensional index. A byte that was never written is \<open>None\<close>, and reading it is
  undefined, so that a result of an operation is only readable where the operation wrote it.
  Multi-byte values are laid out least significant byte first.
\<close>

section \<open>Sizes in bytes\<close>

fun getElementSizeInBytes :: "Type \<Rightarrow> int result" where
  "getElementSizeInBytes (IntegerType _ w) = Inr (int (max w 8 div 8))"
| "getElementSizeInBytes (FloatType f) = Inr (int (max (float_width f) 8 div 8))"
| "getElementSizeInBytes (ComplexType t) = rbind (getElementSizeInBytes t) (\<lambda>n. Inr (n * 2))"
| "getElementSizeInBytes _ = Inl (Fatal ''Unsupported type'')"

definition getNumElements :: "ShapedType \<Rightarrow> int" where
  "getNumElements type = prod_list (getShape type)"

definition getSizeInBytes :: "ShapedType \<Rightarrow> int result" where
  "getSizeInBytes type =
     rbind (getElementSizeInBytes (getElementType type)) (\<lambda>n. Inr (getNumElements type * n))"

section \<open>Flattening an index\<close>

fun strides_loop :: "Sizes \<Rightarrow> nat \<Rightarrow> int list \<Rightarrow> int list" where
  "strides_loop shape 0 strides = strides"
| "strides_loop shape (Suc i) strides =
     strides_loop shape i (strides[i := strides ! Suc i * shape ! Suc i])"

definition compute_strides :: "Sizes \<Rightarrow> int list" where
  "compute_strides shape =
     strides_loop shape (length shape - 1) ((replicate (length shape) 0)[length shape - 1 := 1])"

definition flattenIndex :: "Sizes \<Rightarrow> Index \<Rightarrow> int result" where
  "flattenIndex shape index =
     (if \<not> inBounds index shape
      then Inl (Fatal ''Incompatible index and shape found while flattening index'')
      else if shape = [] then Inr 0
      else let strides = compute_strides shape in
           Inr (foldl (\<lambda>idx i. idx + strides ! i * index ! i) 0 [0..<length index]))"

section \<open>Bytes of elements\<close>

fun bytes_of :: "nat \<Rightarrow> int \<Rightarrow> int list" where
  "bytes_of 0 v = []"
| "bytes_of (Suc n) v = v mod 256 # bytes_of n (v div 256)"

fun int_of_bytes :: "int list \<Rightarrow> int" where
  "int_of_bytes [] = 0"
| "int_of_bytes (b # bs) = b + 256 * int_of_bytes bs"

text \<open>The part of \<^verbatim>\<open>Tensor::set\<close> that turns an element into the bytes it writes.\<close>

definition element_to_bytes :: "('f, 'd) float_api \<Rightarrow> Type \<Rightarrow> 'f Element \<Rightarrow> int list result" where
  "element_to_bytes F elementType element =
     (case elementType of
        FloatType f \<Rightarrow>
          if \<not> isSupportedFloatFormat f then Inl unsupported
          else rbind (getFloatValue element) (\<lambda>value.
            if float_width f \<le> 8 then Inr (bytes_of 1 (uval (bitcastToAPInt F value)))
            else if f = Float16 \<or> f = BFloat16 then Inr (bytes_of 2 (uval (bitcastToAPInt F value)))
            else if f = Float32 then Inr (bytes_of 4 (uval (bitcastToAPInt F (fl_convert F Float32 value))))
            else Inr (bytes_of 8 (uval (bitcastToAPInt F (fl_convert F Float64 value)))))
      | IntegerType s w \<Rightarrow>
          if isSupportedSignedIntegerType elementType then
            rbind (getIntegerValue element) (\<lambda>value. Inr (bytes_of (max w 8 div 8) (sval value)))
          else if isSupportedUnsignedIntegerType elementType then
            rbind (getIntegerValue element) (\<lambda>value. Inr (bytes_of (max w 8 div 8) (uval value)))
          else if isSupportedBooleanType elementType then
            rbind (getBooleanValue element) (\<lambda>value. Inr [if value then 1 else 0])
          else Inl unsupported
      | ComplexType t \<Rightarrow>
          rbind (getComplexValue element) (\<lambda>(re, im).
            if t = FloatType Float32 then
              Inr (bytes_of 4 (uval (bitcastToAPInt F (fl_convert F Float32 re))) @
                   bytes_of 4 (uval (bitcastToAPInt F (fl_convert F Float32 im))))
            else if t = FloatType Float64 then
              Inr (bytes_of 8 (uval (bitcastToAPInt F (fl_convert F Float64 re))) @
                   bytes_of 8 (uval (bitcastToAPInt F (fl_convert F Float64 im))))
            else Inl unsupported)
      | _ \<Rightarrow> Inl unsupported)"

text \<open>
  The part of \<^verbatim>\<open>Tensor::get\<close> that turns bytes into an element. The 2- and 4-bit integers keep the
  low bits of their byte.
\<close>

definition element_of_bytes :: "('f, 'd) float_api \<Rightarrow> Type \<Rightarrow> int list \<Rightarrow> 'f Element result" where
  "element_of_bytes F elementType bytes =
     (case elementType of
        FloatType f \<Rightarrow>
          if \<not> isSupportedFloatFormat f then Inl unsupported
          else Element_float F elementType (fl_ofBits F f (mkAPInt (float_width f) (int_of_bytes bytes)))
      | IntegerType s w \<Rightarrow>
          if isSupportedIntegerType elementType then
            Element_int elementType (mkAPInt w (int_of_bytes bytes))
          else if isSupportedBooleanType elementType then
            (if int_of_bytes bytes = 0 then Element_bool elementType False
             else if int_of_bytes bytes = 1 then Element_bool elementType True
             else Inl (Fatal ''Unsupported boolean value''))
          else Inl unsupported
      | ComplexType t \<Rightarrow>
          if t = FloatType Float32 then
            Element_complex F elementType
              (fl_ofBits F Float32 (mkAPInt 32 (int_of_bytes (take 4 bytes))))
              (fl_ofBits F Float32 (mkAPInt 32 (int_of_bytes (drop 4 bytes))))
          else if t = FloatType Float64 then
            Element_complex F elementType
              (fl_ofBits F Float64 (mkAPInt 64 (int_of_bytes (take 8 bytes))))
              (fl_ofBits F Float64 (mkAPInt 64 (int_of_bytes (drop 8 bytes))))
          else Inl unsupported
      | _ \<Rightarrow> Inl unsupported)"

section \<open>Tensors\<close>

record Tensor =
  t_type :: ShapedType
  t_data :: "int option list"

abbreviation t_shape :: "Tensor \<Rightarrow> Sizes" where
  "t_shape t \<equiv> getShape (t_type t)"

abbreviation t_elementType :: "Tensor \<Rightarrow> Type" where
  "t_elementType t \<equiv> getElementType (t_type t)"

definition getRank :: "Tensor \<Rightarrow> int" where
  "getRank t = int (length (t_shape t))"

definition getAxes :: "Tensor \<Rightarrow> Axes" where
  "getAxes t = upto_int (getRank t)"

definition newTensor :: "ShapedType \<Rightarrow> Tensor result" where
  "newTensor type =
     rbind (getSizeInBytes type) (\<lambda>n. Inr \<lparr>t_type = type, t_data = replicate (nat n) None\<rparr>)"

text \<open>\<^verbatim>\<open>Tensor::clone\<close>: a new buffer with the same bytes. Tensors are values here, so it is the identity.\<close>

definition clone :: "Tensor \<Rightarrow> Tensor" where
  "clone t = \<lparr>t_type = t_type t, t_data = t_data t\<rparr>"

definition Tensor_get :: "('f, 'd) float_api \<Rightarrow> Tensor \<Rightarrow> Index \<Rightarrow> 'f Element result" where
  "Tensor_get F t index =
     rbind (getElementSizeInBytes (t_elementType t)) (\<lambda>size.
     rbind (flattenIndex (t_shape t) index) (\<lambda>flat.
       let elementPtr = take (nat size) (drop (nat (size * flat)) (t_data t)) in
       if length elementPtr < nat size \<or> list_ex (\<lambda>b. b = None) elementPtr
       then Inl (UB ''read of uninitialized memory'')
       else element_of_bytes F (t_elementType t) (map the elementPtr)))"

definition set_bytes :: "'a list \<Rightarrow> nat \<Rightarrow> 'a list \<Rightarrow> 'a list" where
  "set_bytes data pos bytes = take pos data @ bytes @ drop (pos + length bytes) data"

definition Tensor_set :: "('f, 'd) float_api \<Rightarrow> Tensor \<Rightarrow> Index \<Rightarrow> 'f Element \<Rightarrow> Tensor result" where
  "Tensor_set F t index element =
     rbind (getElementSizeInBytes (t_elementType t)) (\<lambda>size.
     rbind (flattenIndex (t_shape t) index) (\<lambda>flat.
     rbind (element_to_bytes F (t_elementType t) element) (\<lambda>bytes.
       Inr (t\<lparr>t_data := set_bytes (t_data t) (nat (size * flat)) (map Some bytes)\<rparr>))))"

section \<open>The flattened index\<close>

text \<open>Row-major offsets by recursion over the shape: the reference for the stride computation.\<close>

fun flat :: "Sizes \<Rightarrow> Index \<Rightarrow> int" where
  "flat (n # ns) (x # xs) = x * prod_list ns + flat ns xs"
| "flat _ _ = 0"

lemma strides_loop_correct:
  "i < length shape \<Longrightarrow> length strides = length shape \<Longrightarrow>
   (\<And>j. i \<le> j \<Longrightarrow> j < length shape \<Longrightarrow> strides ! j = prod_list (drop (Suc j) shape)) \<Longrightarrow>
   j < length shape \<Longrightarrow> strides_loop shape i strides ! j = prod_list (drop (Suc j) shape)"
proof (induction shape i strides rule: strides_loop.induct)
  case (1 shape strides)
  then show ?case by simp
next
  case (2 shape i strides)
  have step: "strides ! Suc i * shape ! Suc i = prod_list (drop (Suc i) shape)"
    using "2.prems" by (simp add: Cons_nth_drop_Suc [symmetric])
  show ?case
    unfolding strides_loop.simps
  proof (rule "2.IH")
    fix k assume "i \<le> k" "k < length shape"
    with "2.prems" step show "(strides[i := strides ! Suc i * shape ! Suc i]) ! k = prod_list (drop (Suc k) shape)"
      by (cases "k = i") auto
  qed (use "2.prems" in auto)
qed

lemma compute_strides_nth:
  assumes "i < length shape"
  shows "compute_strides shape ! i = prod_list (drop (Suc i) shape)"
proof -
  have "((replicate (length shape) 0)[length shape - 1 := 1]) ! j = prod_list (drop (Suc j) shape)"
    if "length shape - 1 \<le> j" "j < length shape" for j
    using that by (cases "j = length shape - 1") auto
  with assms show ?thesis
    unfolding compute_strides_def by (intro strides_loop_correct) auto
qed

lemma foldl_plus_sum: "foldl (\<lambda>acc i. acc + g i) (a::int) [0..<n] = a + (\<Sum>i<n. g i)"
  by (induction n) auto

lemma flat_sum:
  "length index = length shape \<Longrightarrow>
   flat shape index = (\<Sum>i<length index. prod_list (drop (Suc i) shape) * index ! i)"
proof (induction shape index rule: flat.induct)
  case (1 n ns x xs)
  then show ?case by (simp add: sum.lessThan_Suc_shift del: sum.lessThan_Suc)
qed auto

lemma flattenIndex_flat: "inBounds index shape \<Longrightarrow> flattenIndex shape index = Inr (flat shape index)"
  by (auto simp: flattenIndex_def foldl_plus_sum flat_sum inBounds_length compute_strides_nth Let_def)

lemma flattenIndex_error:
  "\<not> inBounds index shape \<Longrightarrow>
   flattenIndex shape index = Inl (Fatal ''Incompatible index and shape found while flattening index'')"
  by (simp add: flattenIndex_def)

lemma inBounds_prod_pos: "inBounds index shape \<Longrightarrow> 0 < prod_list shape"
proof (induction shape arbitrary: index)
  case (Cons n ns)
  then show ?case by (cases index) force+
qed simp

lemma flat_bounds: "inBounds index shape \<Longrightarrow> 0 \<le> flat shape index \<and> flat shape index < prod_list shape"
proof (induction shape index rule: flat.induct)
  case (1 n ns x xs)
  then have xs: "0 \<le> flat ns xs" "flat ns xs < prod_list ns" and x: "0 \<le> x" "x + 1 \<le> n" by auto
  have "x * prod_list ns + flat ns xs < (x + 1) * prod_list ns"
    using xs by (simp add: distrib_right)
  also have "\<dots> \<le> n * prod_list ns" using x xs by (intro mult_right_mono) auto
  finally show ?case using x xs by simp
qed auto

lemma flat_inj: "inBounds i shape \<Longrightarrow> inBounds j shape \<Longrightarrow> flat shape i = flat shape j \<Longrightarrow> i = j"
proof (induction shape i arbitrary: j rule: flat.induct)
  case (1 n ns x xs)
  then obtain y ys where j: "j = y # ys" by (cases j) auto
  with 1 have b: "0 \<le> flat ns xs" "flat ns xs < prod_list ns" "0 \<le> flat ns ys" "flat ns ys < prod_list ns"
    using flat_bounds [of xs ns] flat_bounds [of ys ns] by auto
  have eq: "x * prod_list ns + flat ns xs = y * prod_list ns + flat ns ys" using 1 j by simp
  have "(x * prod_list ns + flat ns xs) div prod_list ns = x"
    "(y * prod_list ns + flat ns ys) div prod_list ns = y" using b by (simp_all add: div_pos_pos_trivial)
  with eq have "x = y" by simp
  with eq "1.IH" [of ys] "1.prems" j show ?case by simp
qed auto

text \<open>The iterator visits the storage in order: the k-th index has offset k.\<close>

lemma flat_index_space:
  assumes "list_all (\<lambda>d. 0 \<le> d) shape"
  shows "map (flat shape) (index_space shape) = upto_int (prod_list shape)"
  using assms
proof (induction shape)
  case Nil
  then show ?case by (simp add: upto_int_def)
next
  case (Cons n ns)
  let ?p = "prod_list ns"
  from Cons.prems have p: "0 \<le> ?p" by (intro prod_list_nonneg) (auto simp: list_all_iff)
  have shift: "map (\<lambda>y. x * ?p + y) (upto_int ?p) = [x * ?p..(x + 1) * ?p - 1]" for x
    using p by (intro length_eq_nth_imp) (auto simp: distrib_right nth_upto)
  have cat: "concat (map (\<lambda>k. [k * ?p..(k + 1) * ?p - 1]) (map int [0..<m])) = upto_int (int m * ?p)" for m
  proof (induction m)
    case (Suc m)
    have "0 \<le> int m * ?p" using p by simp
    then have "upto_int (int m * ?p) @ [int m * ?p..(int m + 1) * ?p - 1] = [0..(int m + 1) * ?p - 1]"
      using p upto_split1 [of 0 "int m * ?p" "(int m + 1) * ?p - 1"] upto_split2 
      by (cases "?p = 0") (auto simp: upto_int_def upto_split1 [of 0 "int m * ?p"] distrib_right)
    with Suc show ?case by (simp add: upto_int_def algebra_simps)
  qed (simp add: upto_int_def)
  have IH: "map (flat ns) (index_space ns) = upto_int ?p" using Cons by simp
  have n: "upto_int n = map int [0..<nat n]" by (intro length_eq_nth_imp) auto
  have "map (flat (n # ns)) (index_space (n # ns)) =
      concat (map (\<lambda>k. map (\<lambda>y. k * ?p + y) (map (flat ns) (index_space ns))) (upto_int n))"
    by (simp add: map_concat comp_def)
  also have "\<dots> = concat (map (\<lambda>k. [k * ?p..(k + 1) * ?p - 1]) (upto_int n))"
    unfolding IH shift ..
  also have "\<dots> = upto_int (prod_list (n # ns))"
    using cat [of "nat n"] Cons.prems unfolding n by simp
  finally show ?case .
qed

section \<open>Bytes\<close>

lemma bytes_of_length [simp]: "length (bytes_of n v) = n"
  by (induction n arbitrary: v) auto

lemma int_of_bytes_of: "int_of_bytes (bytes_of n v) = v mod 256 ^ n"
proof (induction n arbitrary: v)
  case (Suc n)
  have "v mod (256 * 256 ^ n) = 256 * (v div 256 mod 256 ^ n) + v mod 256"
    by (rule zmod_zmult2_eq) simp
  with Suc show ?case by simp
qed simp

lemma mkAPInt_bytes:
  "w \<le> 8 * n \<Longrightarrow> mkAPInt w (int_of_bytes (bytes_of n v)) = mkAPInt w v"
proof -
  assume "w \<le> 8 * n"
  moreover have "(256::int) ^ n = 2 ^ (8 * n)" by (simp add: power_mult)
  ultimately have "(2::int) ^ w dvd 256 ^ n" by (simp add: le_imp_power_dvd)
  then show ?thesis by (simp add: mkAPInt_def int_of_bytes_of take_bit_eq_mod mod_mod_cancel)
qed

text \<open>
  What the interpreter relies on of the floating-point parameter: the bits of a value have the width
  of its format and determine it, and converting to the format a value already has changes nothing.
\<close>

definition float_bits_ok :: "('f, 'd) float_api \<Rightarrow> bool" where
  "float_bits_ok F \<longleftrightarrow>
     (\<forall>f. isSupportedFloatFormat (getSemantics F f) \<longrightarrow>
        wf_apint (bitcastToAPInt F f) \<and>
        getBitWidth (bitcastToAPInt F f) = float_width (getSemantics F f) \<and>
        fl_ofBits F (getSemantics F f) (bitcastToAPInt F f) = f \<and>
        fl_convert F (getSemantics F f) f = f)"

lemma float_bits_convert:
  "float_bits_ok F \<Longrightarrow> isSupportedFloatFormat (getSemantics F f) \<Longrightarrow> fl_convert F (getSemantics F f) f = f"
  by (simp add: float_bits_ok_def)

text \<open>An element that a tensor of the element type stores and gives back unchanged.\<close>

definition storable :: "('f, 'd) float_api \<Rightarrow> Type \<Rightarrow> 'f Element \<Rightarrow> bool" where
  "storable F t e \<longleftrightarrow>
     (\<exists>bs n. element_to_bytes F t e = Inr bs \<and> getElementSizeInBytes t = Inr n \<and> 0 < n \<and>
            length bs = nat n \<and> element_of_bytes F t bs = Inr e)"

lemma storable_int:
  assumes "wf_element F e" "getValue e = VInt v"
  shows "storable F (getType e) e"
proof -
  from assms obtain s w where t: "getType e = IntegerType s w" "s = Signless \<or> s = Unsigned"
    "w \<in> {2, 4, 8, 16, 32, 64}" and v: "wf_apint v" "getBitWidth v = w"
    by (auto simp: wf_element_def supported_IntegerType)
  have sup: "isSupportedIntegerType (getType e)" using t by (auto simp: supported_IntegerType)
  have w: "w \<le> 8 * (max w 8 div 8)" using t(3) by auto
  have e: "e = mkElement (getType e) (VInt v)" using assms(2) by simp
  have signed: "isSupportedSignedIntegerType (getType e) \<longleftrightarrow> s = Signless"
    and unsigned: "isSupportedUnsignedIntegerType (getType e) \<longleftrightarrow> s = Unsigned"
    using t by (auto simp: supported_defs)
  define bs where "bs = bytes_of (max w 8 div 8) (if s = Signless then sval v else uval v)"
  have "element_to_bytes F (getType e) e = Inr bs"
    using t sup signed unsigned assms(2) by (auto simp: element_to_bytes_def getIntegerValue_def bs_def)
  moreover have "mkAPInt w (int_of_bytes bs) = v"
    using mkAPInt_bytes [OF w] mkAPInt_sval_id [OF v(1)] mkAPInt_uval_id [OF v(1)] v(2) by (auto simp: bs_def)
  then have "element_of_bytes F (getType e) bs = Inr e"
    using sup t v e assms(2) by (auto simp: element_of_bytes_def Element_int_def)
  moreover have "length bs = nat (int (max w 8 div 8))" "0 < int (max w 8 div 8)"
    using t(3) by (auto simp: bs_def)
  ultimately show ?thesis using t by (auto simp: storable_def)
qed

lemma storable_bool:
  assumes "wf_element F e" "getValue e = VBool b"
  shows "storable F (getType e) e"
  using assms
  by (auto simp: wf_element_def storable_def supported_BooleanType element_to_bytes_def
      element_of_bytes_def getBooleanValue_def Element_bool_def supported_defs)

lemma float_bytes:
  assumes "float_bits_ok F" "isSupportedFloatFormat (getSemantics F f)" "float_width (getSemantics F f) \<le> 8 * n"
  shows "fl_ofBits F (getSemantics F f)
      (mkAPInt (float_width (getSemantics F f)) (int_of_bytes (bytes_of n (uval (bitcastToAPInt F f))))) = f"
proof -
  from assms(1,2) have "wf_apint (bitcastToAPInt F f)" "getBitWidth (bitcastToAPInt F f) = float_width (getSemantics F f)"
    "fl_ofBits F (getSemantics F f) (bitcastToAPInt F f) = f" by (auto simp: float_bits_ok_def)
  then show ?thesis using mkAPInt_bytes [OF assms(3)] mkAPInt_uval_id [of "bitcastToAPInt F f"] by simp
qed

lemma storable_float:
  assumes "wf_element F e" "getValue e = VFloat f" "float_bits_ok F"
  shows "storable F (getType e) e"
proof -
  define k where "k = getSemantics F f"
  have t: "getType e = FloatType k" "isSupportedFloatFormat k"
    using assms(1,2) by (auto simp: wf_element_def supported_FloatType k_def)
  have conv: "fl_convert F k f = f" using assms(3) t(2) by (auto simp: float_bits_ok_def k_def)
  define n where "n = max (float_width k) 8 div 8"
  have w: "float_width k \<le> 8 * n" "0 < n" "n = 1 \<longleftrightarrow> float_width k \<le> 8"
    using isSupportedFloatFormat_width [OF t(2)] by (auto simp: n_def)
  have bytes: "element_to_bytes F (getType e) e = Inr (bytes_of n (uval (bitcastToAPInt F f)))"
    using t assms(2) conv by (cases k) (simp_all add: element_to_bytes_def getFloatValue_def n_def)
  have "element_of_bytes F (getType e) (bytes_of n (uval (bitcastToAPInt F f))) = Inr e"
    using t float_bytes [OF assms(3), of f n] w(1) assms(2)
    by (simp add: element_of_bytes_def Element_float_def k_def)
  with bytes w t show ?thesis by (auto simp: storable_def n_def)
qed

lemma storable_complex:
  assumes "wf_element F e" "getValue e = VComplex re im" "float_bits_ok F"
  shows "storable F (getType e) e"
proof -
  obtain k where k: "k = Float32 \<or> k = Float64" "getType e = ComplexType (FloatType k)"
    "getSemantics F re = k" "getSemantics F im = k"
    using assms(1,2) by (auto simp: wf_element_def supported_ComplexType)
  have sup: "isSupportedFloatFormat k" using k(1) by auto
  have conv: "fl_convert F k re = re" "fl_convert F k im = im"
    using float_bits_convert [OF assms(3), of re] float_bits_convert [OF assms(3), of im] k sup by simp_all
  define n where "n = float_width k div 8"
  define bs where "bs = bytes_of n (uval (bitcastToAPInt F re)) @ bytes_of n (uval (bitcastToAPInt F im))"
  have n: "float_width k \<le> 8 * n" using k(1) by (auto simp: n_def)
  have "element_to_bytes F (getType e) e = Inr bs"
    using k assms(2) conv by (auto simp: element_to_bytes_def getComplexValue_def bs_def n_def)
  moreover have "element_of_bytes F (getType e) bs = Inr e"
    using k float_bytes [OF assms(3), of re n] float_bytes [OF assms(3), of im n] n sup assms(2)
    by (auto simp: element_of_bytes_def Element_complex_def bs_def n_def)
  ultimately show ?thesis using k by (auto simp: storable_def bs_def n_def)
qed

lemma wf_element_storable:
  "wf_element F e \<Longrightarrow> float_bits_ok F \<Longrightarrow> storable F (getType e) e"
  by (cases "getValue e") (auto intro: storable_int storable_bool storable_float storable_complex)

section \<open>The store interface\<close>

text \<open>
  What the operations rely on: a store with a fixed type, in which a write at a valid index succeeds,
  is read back and leaves every other index alone. The loops of the operations are sequences of
  writes, and their effect is derived once here.
\<close>

locale indexed_store =
  fixes get :: "'t \<Rightarrow> 'i \<Rightarrow> 'e result"
    and put :: "'t \<Rightarrow> 'i \<Rightarrow> 'e \<Rightarrow> 't result"
    and ty :: "'t \<Rightarrow> 's"
    and valid :: "'s \<Rightarrow> 'i \<Rightarrow> bool"
    and fits :: "'s \<Rightarrow> 'e \<Rightarrow> bool"
    and invar :: "'t \<Rightarrow> bool"
  assumes put_ok: "invar t \<Longrightarrow> valid (ty t) i \<Longrightarrow> fits (ty t) e \<Longrightarrow>
      \<exists>t'. put t i e = Inr t' \<and> invar t' \<and> ty t' = ty t"
    and get_put_same: "invar t \<Longrightarrow> valid (ty t) i \<Longrightarrow> fits (ty t) e \<Longrightarrow> put t i e = Inr t' \<Longrightarrow> get t' i = Inr e"
    and get_put_other: "invar t \<Longrightarrow> valid (ty t) i \<Longrightarrow> fits (ty t) e \<Longrightarrow> put t i e = Inr t' \<Longrightarrow>
      valid (ty t) j \<Longrightarrow> j \<noteq> i \<Longrightarrow> get t' j = get t j"
begin

lemma write_all:
  assumes "invar t"
    and "\<And>x. x \<in> List.set xs \<Longrightarrow> g x = Inr (v x) \<and> valid (ty t) (h x) \<and> fits (ty t) (v x)"
    and "distinct (map h xs)"
  shows "\<exists>t'. foldM (\<lambda>x r. rbind (g x) (put r (h x))) xs t = Inr t' \<and> invar t' \<and> ty t' = ty t \<and>
    (\<forall>x \<in> List.set xs. get t' (h x) = Inr (v x)) \<and>
    (\<forall>i. valid (ty t) i \<longrightarrow> i \<notin> h ` List.set xs \<longrightarrow> get t' i = get t i)"
  using assms
proof (induction xs arbitrary: t)
  case Nil
  then show ?case by simp
next
  case (Cons x xs)
  have x: "g x = Inr (v x)" "valid (ty t) (h x)" "fits (ty t) (v x)" using Cons.prems(2) by auto
  obtain t1 where t1: "put t (h x) (v x) = Inr t1" "invar t1" "ty t1 = ty t"
    using put_ok [OF Cons.prems(1) x(2,3)] by blast
  have xs: "g y = Inr (v y) \<and> valid (ty t1) (h y) \<and> fits (ty t1) (v y)" if "y \<in> List.set xs" for y
    using Cons.prems(2) [of y] that t1(3) by simp
  obtain t' where t': "foldM (\<lambda>x r. rbind (g x) (put r (h x))) xs t1 = Inr t'" "invar t'" "ty t' = ty t1"
    "\<forall>x \<in> List.set xs. get t' (h x) = Inr (v x)"
    "\<forall>i. valid (ty t1) i \<longrightarrow> i \<notin> h ` List.set xs \<longrightarrow> get t' i = get t1 i"
    using Cons.IH [OF t1(2) xs Cons.prems(3) [simplified, THEN conjunct2]] by blast
  have "get t' (h x) = Inr (v x)"
    using t'(5) t1(3) x(2) Cons.prems(3) get_put_same [OF Cons.prems(1) x(2,3) t1(1)] by simp
  moreover have "get t' i = get t i" if "valid (ty t) i" "i \<noteq> h x" "i \<notin> h ` List.set xs" for i
    using t'(5) t1(3) that get_put_other [OF Cons.prems(1) x(2,3) t1(1)] by simp
  ultimately show ?case using t' t1 x by auto
qed

end

definition wf_tensor :: "Tensor \<Rightarrow> bool" where
  "wf_tensor t \<longleftrightarrow> list_all (\<lambda>d. 0 \<le> d) (t_shape t) \<and>
     (\<exists>n. getElementSizeInBytes (t_elementType t) = Inr n \<and> 0 < n \<and>
          length (t_data t) = nat (getNumElements (t_type t) * n))"

lemma set_bytes_length: "pos + length bytes \<le> length data \<Longrightarrow> length (set_bytes data pos bytes) = length data"
  by (simp add: set_bytes_def)

lemma set_bytes_same:
  "pos + length bytes \<le> length data \<Longrightarrow> take (length bytes) (drop pos (set_bytes data pos bytes)) = bytes"
  by (simp add: set_bytes_def)

lemma set_bytes_before:
  "p + n \<le> pos \<Longrightarrow> pos + length bytes \<le> length data \<Longrightarrow> take n (drop p (set_bytes data pos bytes)) = take n (drop p data)"
  by (simp add: set_bytes_def drop_take min_absorb1)

lemma set_bytes_after:
  assumes "pos + length bytes \<le> p" "pos + length bytes \<le> length data"
  shows "take n (drop p (set_bytes data pos bytes)) = take n (drop p data)"
proof -
  have "drop p (set_bytes data pos bytes) = drop (p - (pos + length bytes)) (drop (pos + length bytes) data)"
    using assms by (simp add: set_bytes_def)
  with assms show ?thesis by simp
qed

text \<open>The chunks of two elements of size n at different offsets below m do not meet.\<close>

lemma chunk_bounds:
  fixes n :: int
  assumes "0 < n" "0 \<le> k" "k < m"
  shows "nat (n * k) + nat n \<le> nat (m * n)"
proof -
  have "n * (k + 1) \<le> n * m" using assms by (intro mult_left_mono) auto
  with assms show ?thesis by (simp add: distrib_left nat_add_distrib [symmetric] mult.commute)
qed

lemma chunks_disjoint:
  fixes n :: int
  assumes "0 < n" "0 \<le> k" "0 \<le> l" "k < l"
  shows "nat (n * k) + nat n \<le> nat (n * l)"
  using chunk_bounds [OF assms(1,2,4)] by (simp add: mult.commute)

lemma Tensor_set_ok:
  assumes "wf_tensor t" "inBounds i (t_shape t)" "storable F (t_elementType t) e"
  shows "\<exists>t'. Tensor_set F t i e = Inr t' \<and> wf_tensor t' \<and> t_type t' = t_type t"
proof -
  from assms(1,3) obtain n bs where n: "getElementSizeInBytes (t_elementType t) = Inr n" "0 < n"
    "length (t_data t) = nat (getNumElements (t_type t) * n)"
    and bs: "element_to_bytes F (t_elementType t) e = Inr bs" "length bs = nat n"
    by (auto simp: wf_tensor_def storable_def)
  have "nat (n * flat (t_shape t) i) + nat n \<le> length (t_data t)"
    using chunk_bounds [OF n(2)] flat_bounds [OF assms(2)] n(3) by (simp add: getNumElements_def)
  with n bs assms show ?thesis
    by (simp add: Tensor_set_def flattenIndex_flat wf_tensor_def set_bytes_length)
qed

lemma Tensor_get_set_same:
  assumes "wf_tensor t" "inBounds i (t_shape t)" "storable F (t_elementType t) e" "Tensor_set F t i e = Inr t'"
  shows "Tensor_get F t' i = Inr e"
proof -
  from assms(1,3) obtain n bs where n: "getElementSizeInBytes (t_elementType t) = Inr n" "0 < n"
    "length (t_data t) = nat (getNumElements (t_type t) * n)"
    and bs: "element_to_bytes F (t_elementType t) e = Inr bs" "length bs = nat n"
      "element_of_bytes F (t_elementType t) bs = Inr e"
    by (auto simp: wf_tensor_def storable_def)
  have le: "nat (n * flat (t_shape t) i) + length (map Some bs) \<le> length (t_data t)"
    using chunk_bounds [OF n(2)] flat_bounds [OF assms(2)] n(3) bs(2) by (simp add: getNumElements_def)
  have t': "t' = t\<lparr>t_data := set_bytes (t_data t) (nat (n * flat (t_shape t) i)) (map Some bs)\<rparr>"
    using assms(2,4) n bs by (simp add: Tensor_set_def flattenIndex_flat)
  show ?thesis
    using set_bytes_same [OF le] n bs assms(2)
    by (simp add: Tensor_get_def t' flattenIndex_flat Let_def list_ex_iff comp_def del: length_take length_drop)
qed

lemma Tensor_get_set_other:
  assumes "wf_tensor t" "inBounds i (t_shape t)" "storable F (t_elementType t) e" "Tensor_set F t i e = Inr t'"
    and "inBounds j (t_shape t)" "j \<noteq> i"
  shows "Tensor_get F t' j = Tensor_get F t j"
proof -
  from assms(1,3) obtain n bs where n: "getElementSizeInBytes (t_elementType t) = Inr n" "0 < n"
    "length (t_data t) = nat (getNumElements (t_type t) * n)"
    and bs: "element_to_bytes F (t_elementType t) e = Inr bs" "length bs = nat n"
    by (auto simp: wf_tensor_def storable_def)
  let ?fi = "flat (t_shape t) i" and ?fj = "flat (t_shape t) j"
  have le: "nat (n * ?fi) + length (map Some bs) \<le> length (t_data t)"
    using chunk_bounds [OF n(2)] flat_bounds [OF assms(2)] n(3) bs(2) by (simp add: getNumElements_def)
  have "?fj \<noteq> ?fi" using flat_inj [OF assms(5,2)] assms(6) by auto
  then have "nat (n * ?fj) + nat n \<le> nat (n * ?fi) \<or> nat (n * ?fi) + nat n \<le> nat (n * ?fj)"
    using chunks_disjoint [OF n(2)] flat_bounds [OF assms(2)] flat_bounds [OF assms(5)] by (metis linorder_less_linear)
  then have same: "take (nat n) (drop (nat (n * ?fj)) (set_bytes (t_data t) (nat (n * ?fi)) (map Some bs))) =
      take (nat n) (drop (nat (n * ?fj)) (t_data t))"
    using set_bytes_before [OF _ le] set_bytes_after [OF _ le] bs(2) by (metis length_map)
  have t': "t' = t\<lparr>t_data := set_bytes (t_data t) (nat (n * ?fi)) (map Some bs)\<rparr>"
    using assms(2,4) n bs by (simp add: Tensor_set_def flattenIndex_flat)
  show ?thesis using n assms(5) same by (simp add: Tensor_get_def t' flattenIndex_flat Let_def del: length_take length_drop)
qed

interpretation tensor: indexed_store "Tensor_get F" "Tensor_set F" t_type
    "\<lambda>ty i. inBounds i (getShape ty)" "\<lambda>ty. storable F (getElementType ty)" wf_tensor for F
  by unfold_locales (auto intro: Tensor_set_ok Tensor_get_set_same Tensor_get_set_other)

section \<open>What a tensor denotes\<close>

text \<open>The abstract tensor: a function from the indices of its shape to elements.\<close>

definition denotes :: "('f, 'd) float_api \<Rightarrow> Tensor \<Rightarrow> (Index \<Rightarrow> 'f Element) \<Rightarrow> bool" where
  "denotes F t f \<longleftrightarrow> wf_tensor t \<and>
     (\<forall>i. inBounds i (t_shape t) \<longrightarrow> Tensor_get F t i = Inr (f i) \<and> storable F (t_elementType t) (f i))"

lemma denotes_get: "denotes F t f \<Longrightarrow> inBounds i (t_shape t) \<Longrightarrow> Tensor_get F t i = Inr (f i)"
  by (simp add: denotes_def)

lemma denotes_storable: "denotes F t f \<Longrightarrow> inBounds i (t_shape t) \<Longrightarrow> storable F (t_elementType t) (f i)"
  by (simp add: denotes_def)

lemma denotes_wf: "denotes F t f \<Longrightarrow> wf_tensor t"
  by (simp add: denotes_def)

definition wf_type :: "ShapedType \<Rightarrow> bool" where
  "wf_type ty \<longleftrightarrow> list_all (\<lambda>d. 0 \<le> d) (getShape ty) \<and> (\<exists>n. getElementSizeInBytes (getElementType ty) = Inr n \<and> 0 < n)"

lemma wf_tensor_type: "wf_tensor t \<Longrightarrow> wf_type (t_type t)"
  by (auto simp: wf_tensor_def wf_type_def)

lemma newTensor_ok: "wf_type ty \<Longrightarrow> \<exists>t. newTensor ty = Inr t \<and> wf_tensor t \<and> t_type t = ty"
  by (auto simp: wf_type_def newTensor_def getSizeInBytes_def wf_tensor_def)

lemma isSupportedType_size:
  "isSupportedType t \<Longrightarrow> \<exists>n. getElementSizeInBytes t = Inr n \<and> 0 < n"
  by (auto simp: isSupportedType_def supported_iffs)

lemma wf_type_supported: "isSupportedType t \<Longrightarrow> wf_type \<lparr>getShape = shape, getElementType = t\<rparr> \<longleftrightarrow> list_all (\<lambda>d. 0 \<le> d) shape"
  using isSupportedType_size by (auto simp: wf_type_def)

text \<open>
  The pattern of most operations: \<^verbatim>\<open>Tensor result(resultType); for (it ...) result.set(*it, e(*it))\<close>.
\<close>

definition fill_result ::
  "('f, 'd) float_api \<Rightarrow> ShapedType \<Rightarrow> (Index \<Rightarrow> 'f Element result) \<Rightarrow> Tensor result" where
  "fill_result F resultType e =
     rbind (newTensor resultType) (\<lambda>result.
       forEachIndex (getShape resultType) (\<lambda>i r. rbind (e i) (Tensor_set F r i)) result)"

lemma fill_result_denotes:
  assumes "wf_type ty"
    and "\<And>i. inBounds i (getShape ty) \<Longrightarrow> e i = Inr (f i) \<and> storable F (getElementType ty) (f i)"
  shows "\<exists>r. fill_result F ty e = Inr r \<and> t_type r = ty \<and> denotes F r f"
proof -
  obtain t where t: "newTensor ty = Inr t" "wf_tensor t" "t_type t = ty" using newTensor_ok [OF assms(1)] by blast
  from tensor.write_all [where h = "\<lambda>i. i" and xs = "index_space (getShape ty)" and t = t and g = e and v = f and F = F]
  obtain r where "foldM (\<lambda>i r. rbind (e i) (Tensor_set F r i)) (index_space (getShape ty)) t = Inr r"
    "wf_tensor r" "t_type r = ty" "\<forall>i \<in> List.set (index_space (getShape ty)). Tensor_get F r i = Inr (f i)"
    using assms(2) t by auto
  with t assms(2) show ?thesis by (auto simp: fill_result_def forEachIndex_foldM denotes_def)
qed

text \<open>The loop of \<^verbatim>\<open>makeSplat\<close> and \<^verbatim>\<open>constant\<close> of \<^verbatim>\<open>Ops.cpp\<close>.\<close>

definition makeSplat :: "('f, 'd) float_api \<Rightarrow> ShapedType \<Rightarrow> 'f Element \<Rightarrow> Tensor result" where
  "makeSplat F type initValue = fill_result F type (\<lambda>i. Inr initValue)"

definition constant_of :: "('f, 'd) float_api \<Rightarrow> 'f Element \<Rightarrow> Tensor result" where
  "constant_of F initValue =
     rbind (newTensor \<lparr>getShape = [], getElementType = getType initValue\<rparr>) (\<lambda>result.
       Tensor_set F result [] initValue)"

definition makeSizes :: "('f, 'd) float_api \<Rightarrow> Tensor \<Rightarrow> Sizes result" where
  "makeSizes F tensor =
     (if getRank tensor \<noteq> 1 \<or> (case t_elementType tensor of IntegerType _ _ \<Rightarrow> False | _ \<Rightarrow> True)
      then Inl (Fatal ''makeSizes(Tensor) only accepts integer tensors of rank 1'')
      else forEachIndex (t_shape tensor) (\<lambda>i values.
             rbind (Tensor_get F tensor i) (\<lambda>e. rbind (getIntegerValue e) (\<lambda>v. Inr (values @ [sval v])))) [])"

end
