(* ===== verification/Element_Ops.thy ===== *)
theory Element_Ops
  imports Element
begin

text \<open>
  The operators and functions on elements of \<^verbatim>\<open>stablehlo/reference/Element.cpp\<close>, in the order of the
  source: member operators, then the free functions.
\<close>

section \<open>Operators\<close>

definition el_lnot :: "'f Element \<Rightarrow> 'f Element result" where
  "el_lnot e = rbind (getBooleanValue e) (\<lambda>b. Element_bool i1Type (\<not> b))"

definition el_and :: "('f, 'd) float_api \<Rightarrow> 'f Element \<Rightarrow> 'f Element \<Rightarrow> 'f Element result" where
  "el_and F x y = map_element2 F x y (\<lambda>l r. Inr (ap_and l r)) (\<lambda>l r. Inr (l \<and> r))
     (\<lambda>l r. Inl (Fatal ''float & float is unsupported''))
     (\<lambda>l r. Inl (Fatal ''complex & complex is unsupported''))"

definition el_mul :: "('f, 'd) float_api \<Rightarrow> 'f Element \<Rightarrow> 'f Element \<Rightarrow> 'f Element result" where
  "el_mul F x y = map_element2 F x y (\<lambda>l r. Inr (ap_mul l r)) (\<lambda>l r. Inr (l \<and> r))
     (\<lambda>l r. Inr (fl_mul F l r))
     (\<lambda>l r. Inr (fl_sub F (fl_mul F (fst l) (fst r)) (fl_mul F (snd l) (snd r)),
                 fl_add F (fl_mul F (fst l) (snd r)) (fl_mul F (snd l) (fst r))))"

definition el_add :: "('f, 'd) float_api \<Rightarrow> 'f Element \<Rightarrow> 'f Element \<Rightarrow> 'f Element result" where
  "el_add F x y = map_element2 F x y (\<lambda>l r. Inr (ap_add l r)) (\<lambda>l r. Inr (l \<or> r))
     (\<lambda>l r. Inr (fl_add F l r))
     (\<lambda>l r. Inr (fl_add F (fst l) (fst r), fl_add F (snd l) (snd r)))"

definition el_neg :: "('f, 'd) float_api \<Rightarrow> 'f Element \<Rightarrow> 'f Element result" where
  "el_neg F x = map_element F x (\<lambda>v. Inr (ap_neg v)) (\<lambda>v. Inl (Fatal ''-bool is unsupported''))
     (\<lambda>v. Inr (fl_neg F v)) (\<lambda>v. Inr (fl_neg F (fst v), fl_neg F (snd v)))"

definition el_sub :: "('f, 'd) float_api \<Rightarrow> 'f Element \<Rightarrow> 'f Element \<Rightarrow> 'f Element result" where
  "el_sub F x y = map_element2 F x y (\<lambda>l r. Inr (ap_sub l r))
     (\<lambda>l r. Inl (Fatal ''bool - bool is unsupported''))
     (\<lambda>l r. Inr (fl_sub F l r))
     (\<lambda>l r. Inr (fl_sub F (fst l) (fst r), fl_sub F (snd l) (snd r)))"

definition el_div :: "('f, 'd) float_api \<Rightarrow> 'f Element \<Rightarrow> 'f Element \<Rightarrow> 'f Element result" where
  "el_div F lhs rhs =
     (let type = getType lhs in
      if getType lhs \<noteq> getType rhs then Inl (Fatal ''Element types do not match'')
      else if isSupportedIntegerType type then
        rbind (getIntegerValue lhs) (\<lambda>l. rbind (getIntegerValue rhs) (\<lambda>r.
          rbind (if isSupportedSignedIntegerType type then ap_sdiv l r else ap_udiv l r) (Element_int type)))
      else if isSupportedFloatType type then
        rbind (getFloatValue lhs) (\<lambda>l. rbind (getFloatValue rhs) (\<lambda>r. Element_float F type (fl_div F l r)))
      else if isSupportedComplexType type then
        rbind (getComplexValue lhs) (\<lambda>(lre, lim). rbind (getComplexValue rhs) (\<lambda>(rre, rim).
          let elSemantics = getSemantics F lre;
              resultVal = std_cdiv F (convertToDouble F lre, convertToDouble F lim)
                                     (convertToDouble F rre, convertToDouble F rim)
          in Element_complex F type
               (fl_convert F elSemantics (APFloat_double F (fst resultVal)))
               (fl_convert F elSemantics (APFloat_double F (snd resultVal)))))
      else Inl unsupported)"

definition el_lt :: "('f, 'd) float_api \<Rightarrow> 'f Element \<Rightarrow> 'f Element \<Rightarrow> 'f Element result" where
  "el_lt F x other =
     (let type = getType other in
      if getType x \<noteq> type then Inl (Fatal ''Element types do not match'')
      else if isSupportedIntegerType type then
        rbind (getIntegerValue x) (\<lambda>l. rbind (getIntegerValue other) (\<lambda>r.
          Element_bool i1Type (if isSupportedSignedIntegerType type then sval l < sval r else uval l < uval r)))
      else if isSupportedBooleanType type then
        rbind (getBooleanValue x) (\<lambda>l. rbind (getBooleanValue other) (\<lambda>r. Element_bool i1Type (l < r)))
      else if isSupportedFloatType type then
        rbind (getFloatValue x) (\<lambda>l. rbind (getFloatValue other) (\<lambda>r. Element_bool i1Type (fl_lt F l r)))
      else Inl unsupported)"

definition el_eq :: "('f, 'd) float_api \<Rightarrow> 'f Element \<Rightarrow> 'f Element \<Rightarrow> 'f Element result" where
  "el_eq F x other =
     (let type = getType other in
      if getType x \<noteq> type then Inl (Fatal ''Element types do not match'')
      else if isSupportedIntegerType type then
        rbind (getIntegerValue x) (\<lambda>l. rbind (getIntegerValue other) (\<lambda>r. Element_bool i1Type (uval l = uval r)))
      else if isSupportedBooleanType type then
        rbind (getBooleanValue x) (\<lambda>l. rbind (getBooleanValue other) (\<lambda>r. Element_bool i1Type (l = r)))
      else if isSupportedFloatType type then
        rbind (getFloatValue x) (\<lambda>l. rbind (getFloatValue other) (\<lambda>r. Element_bool i1Type (fl_eq F l r)))
      else if isSupportedComplexType type then
        rbind (getComplexValue x) (\<lambda>l. rbind (getComplexValue other) (\<lambda>r.
          Element_bool i1Type (fl_eq F (fst l) (fst r) \<and> fl_eq F (snd l) (snd r))))
      else Inl unsupported)"

definition el_gt :: "('f, 'd) float_api \<Rightarrow> 'f Element \<Rightarrow> 'f Element \<Rightarrow> 'f Element result" where
  "el_gt F x other =
     (let type = getType other in
      if getType x \<noteq> type then Inl (Fatal ''Element types do not match'')
      else if isSupportedIntegerType type then
        rbind (getIntegerValue x) (\<lambda>l. rbind (getIntegerValue other) (\<lambda>r.
          Element_bool i1Type (if isSupportedSignedIntegerType type then sval r < sval l else uval r < uval l)))
      else if isSupportedBooleanType type then
        rbind (getBooleanValue x) (\<lambda>l. rbind (getBooleanValue other) (\<lambda>r. Element_bool i1Type (r < l)))
      else if isSupportedFloatType type then
        rbind (getFloatValue x) (\<lambda>l. rbind (getFloatValue other) (\<lambda>r. Element_bool i1Type (fl_gt F l r)))
      else Inl unsupported)"

text \<open>The overloaded \<^verbatim>\<open>||\<close> evaluates both operands, as every overloaded operator of C++ does.\<close>

definition el_lor :: "'f Element \<Rightarrow> 'f Element \<Rightarrow> 'f Element result" where
  "el_lor x other =
     rbind (getBooleanValue x) (\<lambda>l.
       if l then Element_bool i1Type True
       else rbind (getBooleanValue other) (\<lambda>r. Element_bool i1Type r))"

definition el_ne :: "('f, 'd) float_api \<Rightarrow> 'f Element \<Rightarrow> 'f Element \<Rightarrow> 'f Element result" where
  "el_ne F x other = rbind (el_eq F x other) el_lnot"

definition el_le :: "('f, 'd) float_api \<Rightarrow> 'f Element \<Rightarrow> 'f Element \<Rightarrow> 'f Element result" where
  "el_le F x other = rbind (el_lt F x other) (\<lambda>a. rbind (el_eq F x other) (el_lor a))"

definition el_ge :: "('f, 'd) float_api \<Rightarrow> 'f Element \<Rightarrow> 'f Element \<Rightarrow> 'f Element result" where
  "el_ge F x other = rbind (el_gt F x other) (\<lambda>a. rbind (el_eq F x other) (el_lor a))"

definition el_xor :: "('f, 'd) float_api \<Rightarrow> 'f Element \<Rightarrow> 'f Element \<Rightarrow> 'f Element result" where
  "el_xor F x y = map_element2 F x y (\<lambda>l r. Inr (ap_xor l r)) (\<lambda>l r. Inr (l \<noteq> r))
     (\<lambda>l r. Inl (Fatal ''float ^ float is unsupported''))
     (\<lambda>l r. Inl (Fatal ''complex ^ complex is unsupported''))"

definition el_or :: "('f, 'd) float_api \<Rightarrow> 'f Element \<Rightarrow> 'f Element \<Rightarrow> 'f Element result" where
  "el_or F x y = map_element2 F x y (\<lambda>l r. Inr (ap_or l r)) (\<lambda>l r. Inr (l \<or> r))
     (\<lambda>l r. Inl (Fatal ''float | float is unsupported''))
     (\<lambda>l r. Inl (Fatal ''complex | complex is unsupported''))"

definition el_not :: "('f, 'd) float_api \<Rightarrow> 'f Element \<Rightarrow> 'f Element result" where
  "el_not F x = map_element F x (\<lambda>v. Inr (ap_not v)) (\<lambda>v. Inr (\<not> v))
     (\<lambda>v. Inl (Fatal ''~float is unsupported'')) (\<lambda>v. Inl (Fatal ''~complex is unsupported''))"

section \<open>Bits\<close>

definition toBits :: "('f, 'd) float_api \<Rightarrow> 'f Element \<Rightarrow> apint result" where
  "toBits F e =
     (let type = getType e in
      if isSupportedBooleanType type then
        rbind (getBooleanValue e) (\<lambda>b. Inr (mkAPInt 1 (if b then 1 else 0)))
      else if isSupportedIntegerType type then getIntegerValue e
      else if isSupportedFloatType type then rbind (getFloatValue e) (\<lambda>f. Inr (bitcastToAPInt F f))
      else if isSupportedComplexType type then
        rbind (getComplexValue e) (\<lambda>(re, im). rbind (numBits type) (\<lambda>n.
          Inr (ap_add (ap_shl (ap_zext (bitcastToAPInt F im) n) (n div 2)) (ap_zext (bitcastToAPInt F re) n))))
      else Inl unsupported)"

text \<open>The branch for the scalar types; the components of a complex type are scalar.\<close>

definition fromBits_scalar :: "('f, 'd) float_api \<Rightarrow> Type \<Rightarrow> apint \<Rightarrow> 'f Element result" where
  "fromBits_scalar F type bits =
     rbind (numBits type) (\<lambda>n.
       if n \<noteq> getBitWidth bits then Inl (Fatal ''numBits(type) != bits.getBitWidth()'')
       else if isSupportedBooleanType type then Element_bool type (\<not> isZero bits)
       else if isSupportedIntegerType type then Element_int type bits
       else case type of
         FloatType f \<Rightarrow> (if isSupportedFloatType type then Element_float F type (fl_ofBits F f bits)
                         else Inl unsupported)
       | _ \<Rightarrow> Inl unsupported)"

definition fromBits :: "('f, 'd) float_api \<Rightarrow> Type \<Rightarrow> apint \<Rightarrow> 'f Element result" where
  "fromBits F type bits =
     (if isSupportedComplexType type then
        rbind (numBits type) (\<lambda>n.
          if n \<noteq> getBitWidth bits then Inl (Fatal ''numBits(type) != bits.getBitWidth()'')
          else rbind (fromBits_scalar F (complex_component type) (ap_extractBits bits (n div 2) 0)) (\<lambda>realElement.
               rbind (fromBits_scalar F (complex_component type) (ap_extractBits bits (n div 2) (n div 2))) (\<lambda>imagElement.
               rbind (getFloatValue realElement) (\<lambda>re. rbind (getFloatValue imagElement) (\<lambda>im.
                 Element_complex F type re im)))))
      else fromBits_scalar F type bits)"

section \<open>Functions\<close>

definition el_abs :: "('f, 'd) float_api \<Rightarrow> 'f Element \<Rightarrow> 'f Element result" where
  "el_abs F el =
     (let type = getType el in
      if isSupportedIntegerType type then rbind (getIntegerValue el) (\<lambda>v. Element_int type (ap_abs v))
      else if isSupportedFloatType type then rbind (getFloatValue el) (\<lambda>v. Element_float F type (fl_abs F v))
      else if isSupportedComplexType type then
        rbind (getComplexValue el) (\<lambda>(re, im).
          convert_double F (complex_component type) (std_cabs F (convertToDouble F re, convertToDouble F im)))
      else Inl unsupported)"

definition areApproximatelyEqual_APFloat :: "('f, 'd) float_api \<Rightarrow> 'f \<Rightarrow> 'f \<Rightarrow> 'f \<Rightarrow> bool" where
  "areApproximatelyEqual_APFloat F f g tolerance =
     (if getSemantics F f \<noteq> getSemantics F g then False
      else if fl_eq F f g then True
      else if \<not> fl_lt F f g \<and> \<not> fl_gt F f g then fl_isNaN F f = fl_isNaN F g
      else if (\<not> (fl_isFinite F f \<and> \<not> fl_isZero F f) \<or> \<not> (fl_isFinite F g \<and> \<not> fl_isZero F g)) \<and>
              \<not> fl_isZero F f \<and> \<not> fl_isZero F g then False
      else if \<not> fl_isFinite F f \<or> \<not> fl_isFinite F g then False
      else d_le F (d_fabs F (d_sub F (convertToDouble F f) (convertToDouble F g))) (convertToDouble F tolerance))"

definition areApproximatelyEqual :: "('f, 'd) float_api \<Rightarrow> 'f Element \<Rightarrow> 'f Element \<Rightarrow> 'f \<Rightarrow> 'f Element result" where
  "areApproximatelyEqual F e1 e2 tolerance =
     (let type = getType e1 in
      if type \<noteq> getType e2 then Inl (Fatal ''Element types do not match'')
      else if isSupportedFloatType type then
        rbind (getFloatValue e1) (\<lambda>f. rbind (getFloatValue e2) (\<lambda>g.
          Element_bool i1Type (areApproximatelyEqual_APFloat F f g tolerance)))
      else if isSupportedComplexType type then
        rbind (getComplexValue e1) (\<lambda>l. rbind (getComplexValue e2) (\<lambda>r.
          Element_bool i1Type (areApproximatelyEqual_APFloat F (fst l) (fst r) tolerance \<and>
                               areApproximatelyEqual_APFloat F (snd l) (snd r) tolerance)))
      else Inl unsupported)"

definition el_cbrt :: "('f, 'd) float_api \<Rightarrow> 'f Element \<Rightarrow> 'f Element result" where
  "el_cbrt F el = mapWithUpcastToDouble F el (std_fn F Std_cbrt)
     (\<lambda>(re, im).
        let theta = d_div F (std_fn2 F Std_atan2 im re) (d_lit F 3)
        in std_csmul F
             (std_fn2 F Std_pow
                (d_add F (std_fn2 F Std_pow re (d_lit F 2)) (std_fn2 F Std_pow im (d_lit F 2)))
                (d_div F (d_lit F 1) (d_lit F 6)))
             (std_fn F Std_cos theta, std_fn F Std_sin theta))"

definition el_ceil :: "('f, 'd) float_api \<Rightarrow> 'f Element \<Rightarrow> 'f Element result" where
  "el_ceil F el = rbind (getFloatValue el) (\<lambda>v. Element_float F (getType el) (roundToIntegral F TowardPositive v))"

definition el_complex :: "('f, 'd) float_api \<Rightarrow> 'f Element \<Rightarrow> 'f Element \<Rightarrow> 'f Element result" where
  "el_complex F e1 e2 =
     (let complexType = ComplexType (getType e1) in
      if isSupportedComplexType complexType then
        rbind (getFloatValue e1) (\<lambda>re. rbind (getFloatValue e2) (\<lambda>im. Element_complex F complexType re im))
      else Inl unsupported)"

definition el_exponential :: "('f, 'd) float_api \<Rightarrow> 'f Element \<Rightarrow> 'f Element result" where
  "el_exponential F el = mapWithUpcastToDouble F el (std_fn F Std_exp) (std_cfn F Std_exp)"

definition el_exponentialMinusOne :: "('f, 'd) float_api \<Rightarrow> 'f Element \<Rightarrow> 'f Element result" where
  "el_exponentialMinusOne F el = mapWithUpcastToDouble F el (std_fn F Std_expm1)
     (\<lambda>e. std_csub F (std_cfn F Std_exp e) (d_lit F 1, d_lit F 0))"

definition el_floor :: "('f, 'd) float_api \<Rightarrow> 'f Element \<Rightarrow> 'f Element result" where
  "el_floor F el = rbind (getFloatValue el) (\<lambda>v. Element_float F (getType el) (roundToIntegral F TowardNegative v))"

definition el_imag :: "('f, 'd) float_api \<Rightarrow> 'f Element \<Rightarrow> 'f Element result" where
  "el_imag F el =
     (if isSupportedFloatType (getType el) then
        rbind (getFloatValue el) (\<lambda>v.
          Element_float F (getType el) (fl_convert F (getSemantics F v) (APFloat_double F (d_lit F 0))))
      else if isSupportedComplexType (getType el) then
        rbind (getComplexValue el) (\<lambda>v. Element_float F (complex_component (getType el)) (snd v))
      else Inl unsupported)"

definition el_isFinite :: "('f, 'd) float_api \<Rightarrow> 'f Element \<Rightarrow> 'f Element result" where
  "el_isFinite F el = rbind (getFloatValue el) (\<lambda>v. Element_bool i1Type (fl_isFinite F v))"

definition el_cosine :: "('f, 'd) float_api \<Rightarrow> 'f Element \<Rightarrow> 'f Element result" where
  "el_cosine F el = mapWithUpcastToDouble F el (std_fn F Std_cos) (std_cfn F Std_cos)"

definition el_log :: "('f, 'd) float_api \<Rightarrow> 'f Element \<Rightarrow> 'f Element result" where
  "el_log F el = mapWithUpcastToDouble F el (std_fn F Std_log) (std_cfn F Std_log)"

definition el_logPlusOne :: "('f, 'd) float_api \<Rightarrow> 'f Element \<Rightarrow> 'f Element result" where
  "el_logPlusOne F el = mapWithUpcastToDouble F el (std_fn F Std_log1p)
     (\<lambda>e. std_cfn F Std_log (std_cadd F e (d_lit F 1, d_lit F 0)))"

definition el_logistic :: "('f, 'd) float_api \<Rightarrow> 'f Element \<Rightarrow> 'f Element result" where
  "el_logistic F el =
     rbind (convert_double F (getType el) (d_lit F 1)) (\<lambda>one.
     rbind (rbind (el_neg F el) (el_exponential F)) (\<lambda>e.
     rbind (el_add F one e) (el_div F one)))"

definition el_sine :: "('f, 'd) float_api \<Rightarrow> 'f Element \<Rightarrow> 'f Element result" where
  "el_sine F el = mapWithUpcastToDouble F el (std_fn F Std_sin) (std_cfn F Std_sin)"

definition el_sqrt :: "('f, 'd) float_api \<Rightarrow> 'f Element \<Rightarrow> 'f Element result" where
  "el_sqrt F el = mapWithUpcastToDouble F el (std_fn F Std_sqrt) (std_cfn F Std_sqrt)"

definition el_tan :: "('f, 'd) float_api \<Rightarrow> 'f Element \<Rightarrow> 'f Element result" where
  "el_tan F el = mapWithUpcastToDouble F el (std_fn F Std_tan) (std_cfn F Std_tan)"

definition el_tanh :: "('f, 'd) float_api \<Rightarrow> 'f Element \<Rightarrow> 'f Element result" where
  "el_tanh F el = mapWithUpcastToDouble F el (std_fn F Std_tanh) (std_cfn F Std_tanh)"

definition el_rsqrt :: "('f, 'd) float_api \<Rightarrow> 'f Element \<Rightarrow> 'f Element result" where
  "el_rsqrt F el = mapWithUpcastToDouble F el
     (\<lambda>e. d_div F (d_lit F 1) (std_fn F Std_sqrt e))
     (\<lambda>e. std_csdiv F (d_lit F 1) (std_cfn F Std_sqrt e))"

definition el_atan2 :: "('f, 'd) float_api \<Rightarrow> 'f Element \<Rightarrow> 'f Element \<Rightarrow> 'f Element result" where
  "el_atan2 F e1 e2 =
     (let type = getType e1 in
      if isSupportedFloatType type then
        rbind (getFloatValue e1) (\<lambda>a. rbind (getFloatValue e2) (\<lambda>b.
          convert_double F type (std_fn2 F Std_atan2 (convertToDouble F a) (convertToDouble F b))))
      else if isSupportedComplexType type then
        rbind (convert_Complex_double F type (d_lit F 0, d_lit F 1)) (\<lambda>i.
        rbind (el_neg F i) (\<lambda>ni.
        rbind (rbind (el_mul F i e1) (el_add F e2)) (\<lambda>num.
        rbind (rbind (el_mul F e2 e2) (\<lambda>a. rbind (el_mul F e1 e1) (el_add F a))) (\<lambda>sq.
        rbind (el_sqrt F sq) (\<lambda>den.
        rbind (rbind (el_div F num den) (el_log F)) (el_mul F ni))))))
      else Inl unsupported)"

definition el_max :: "('f, 'd) float_api \<Rightarrow> 'f Element \<Rightarrow> 'f Element \<Rightarrow> 'f Element result" where
  "el_max F e1 e2 = map_element2 F e1 e2
     (\<lambda>l r. Inr (if isSupportedSignedIntegerType (getType e1) then ap_smax l r else ap_umax l r))
     (\<lambda>l r. Inr (l \<or> r))
     (\<lambda>l r. Inr (fl_maximum F l r))
     (\<lambda>l r. let cmpRes = (if fl_eq F (fst l) (fst r) then fl_gt F (snd l) (snd r) else fl_gt F (fst l) (fst r))
            in Inr (if cmpRes then l else r))"

definition el_min :: "('f, 'd) float_api \<Rightarrow> 'f Element \<Rightarrow> 'f Element \<Rightarrow> 'f Element result" where
  "el_min F e1 e2 = map_element2 F e1 e2
     (\<lambda>l r. Inr (if isSupportedSignedIntegerType (getType e1) then ap_smin l r else ap_umin l r))
     (\<lambda>l r. Inr (l \<and> r))
     (\<lambda>l r. Inr (fl_minimum F l r))
     (\<lambda>l r. let cmpRes = (if fl_eq F (fst l) (fst r) then fl_lt F (snd l) (snd r) else fl_lt F (fst l) (fst r))
            in Inr (if cmpRes then l else r))"

definition el_popcnt :: "('f, 'd) float_api \<Rightarrow> 'f Element \<Rightarrow> 'f Element result" where
  "el_popcnt F el = rbind (getIntegerValue el) (\<lambda>v. convert_uint64 F (getType el) (int (ap_popcount v)))"

text \<open>
  The loop of \<^verbatim>\<open>power\<close> on integers: square and multiply. The exponent loses a bit per iteration. A
  value is never negative, so the test \<open>uval exponent \<le> 0\<close> is \<^verbatim>\<open>exponent.isZero()\<close>.
\<close>

lemma ap_lshr_1_less: "\<not> uval e \<le> 0 \<Longrightarrow> nat (uval (ap_lshr e (Suc 0))) < nat (uval e)"
proof -
  assume pos: "\<not> uval e \<le> 0"
  have "take_bit w (uval e div 2) \<le> uval e div 2" for w
    using pos by (simp add: take_bit_int_less_eq_self_iff)
  moreover have "uval e div 2 < uval e" using pos by simp
  ultimately have "take_bit w (uval e div 2) < uval e" for w by (rule le_less_trans)
  with pos show ?thesis by (simp add: ap_lshr_def drop_bit_Suc)
qed

function power_loop :: "apint \<Rightarrow> apint \<Rightarrow> apint \<Rightarrow> apint" where
  "power_loop result base exponent =
     (if uval exponent \<le> 0 then result
      else power_loop (if isZero (ap_and exponent (mkAPInt (getBitWidth exponent) 1)) then result else ap_mul result base)
             (ap_mul base base) (ap_lshr exponent 1))"
  by pat_completeness auto
termination
  by (relation "measure (\<lambda>(r, b, e). nat (uval e))") (use ap_lshr_1_less in auto)

declare power_loop.simps [simp del]

definition el_power :: "('f, 'd) float_api \<Rightarrow> 'f Element \<Rightarrow> 'f Element \<Rightarrow> 'f Element result" where
  "el_power F e1 e2 =
     (let type = getType e1 in
      if isSupportedIntegerType type then
        let isSigned = isSupportedSignedIntegerType type in
        rbind (getIntegerValue e1) (\<lambda>base. rbind (getIntegerValue e2) (\<lambda>exponent.
          if isSigned \<and> isNegative exponent then
            (if uval (ap_abs base) = 1
             then Element_int type (power_loop (mkAPInt (getBitWidth base) 1) base (ap_abs exponent))
             else convert_int64 F type 0)
          else Element_int type (power_loop (mkAPInt (getBitWidth base) 1) base exponent)))
      else mapWithUpcastToDouble2 F e1 e2 (std_fn2 F Std_pow) (std_cpow F))"

definition el_real :: "('f, 'd) float_api \<Rightarrow> 'f Element \<Rightarrow> 'f Element result" where
  "el_real F el =
     (if isSupportedFloatType (getType el) then Inr el
      else if isSupportedComplexType (getType el) then
        rbind (getComplexValue el) (\<lambda>v. Element_float F (complex_component (getType el)) (fst v))
      else Inl unsupported)"

definition el_rem :: "('f, 'd) float_api \<Rightarrow> 'f Element \<Rightarrow> 'f Element \<Rightarrow> 'f Element result" where
  "el_rem F e1 e2 = map_element2 F e1 e2
     (\<lambda>l r. if isSupportedSignedIntegerType (getType e1) then ap_srem l r else ap_urem l r)
     (\<lambda>l r. Inl (Fatal ''rem(bool, bool) is unsupported''))
     (\<lambda>l r. Inr (fl_mod F l r))
     (\<lambda>l r. Inl (Fatal ''rem(complex, complex) is not implemented''))"

definition el_roundNearestAfz :: "('f, 'd) float_api \<Rightarrow> 'f Element \<Rightarrow> 'f Element result" where
  "el_roundNearestAfz F el =
     rbind (getFloatValue el) (\<lambda>v. Element_float F (getType el) (roundToIntegral F NearestTiesToAway v))"

definition el_roundNearestEven :: "('f, 'd) float_api \<Rightarrow> 'f Element \<Rightarrow> 'f Element result" where
  "el_roundNearestEven F el =
     rbind (getFloatValue el) (\<lambda>v. Element_float F (getType el) (roundToIntegral F NearestTiesToEven v))"

definition el_shiftLeft :: "'f Element \<Rightarrow> 'f Element \<Rightarrow> 'f Element result" where
  "el_shiftLeft e1 e2 = rbind (getIntegerValue e1) (\<lambda>a. rbind (getIntegerValue e2) (\<lambda>b.
     Element_int (getType e1) (ap_shl a (shift_amount a b))))"

definition el_shiftRightLogical :: "'f Element \<Rightarrow> 'f Element \<Rightarrow> 'f Element result" where
  "el_shiftRightLogical e1 e2 = rbind (getIntegerValue e1) (\<lambda>a. rbind (getIntegerValue e2) (\<lambda>b.
     Element_int (getType e1) (ap_lshr a (shift_amount a b))))"

definition el_shiftRightArithmetic :: "'f Element \<Rightarrow> 'f Element \<Rightarrow> 'f Element result" where
  "el_shiftRightArithmetic e1 e2 = rbind (getIntegerValue e1) (\<lambda>a. rbind (getIntegerValue e2) (\<lambda>b.
     Element_int (getType e1) (ap_ashr a (shift_amount a b))))"

definition el_sign :: "('f, 'd) float_api \<Rightarrow> 'f Element \<Rightarrow> 'f Element result" where
  "el_sign F el =
     (let type = getType el in
      if isSupportedIntegerType type then
        rbind (getIntegerValue el) (\<lambda>v.
          if isNegative v then convert_int64 F type (- 1)
          else if isZero v then convert_int64 F type 0
          else convert_int64 F type 1)
      else if isSupportedFloatType type then
        rbind (getFloatValue el) (\<lambda>v.
          if fl_isNaN F v then Inr el
          else if fl_isZero F v \<and> fl_isNegative F v then convert_double F type (d_neg F (d_lit F 0))
          else if fl_isZero F v \<and> \<not> fl_isNegative F v then convert_double F type (d_lit F 0)
          else if fl_isNegative F v then convert_double F type (d_neg F (d_lit F 1))
          else convert_double F type (d_lit F 1))
      else if isSupportedComplexType type then
        rbind (getComplexValue el) (\<lambda>(re, im).
          let sem = getSemantics F re in
          if fl_isNaN F re \<or> fl_isNaN F im then Element_complex F type (getNaN F sem) (getNaN F sem)
          else if fl_isZero F re \<and> fl_isZero F im then Element_complex F type (getZero F sem) (getZero F sem)
          else rbind (el_abs F el) (\<lambda>a. rbind (getFloatValue a) (\<lambda>av.
               rbind (convert_APFloat F type av) (el_div F el))))
      else Inl unsupported)"

section \<open>Bitcasts\<close>

definition bitcastConvertOneToOne :: "('f, 'd) float_api \<Rightarrow> Type \<Rightarrow> 'f Element \<Rightarrow> 'f Element result" where
  "bitcastConvertOneToOne F type el =
     rbind (numBits type) (\<lambda>n. rbind (numBits (getType el)) (\<lambda>m.
       if n \<noteq> m then Inl (Fatal ''Unsupported bitcast conversion'')
       else rbind (toBits F el) (fromBits F type)))"

definition bitcastConvertOneToMany :: "('f, 'd) float_api \<Rightarrow> Type \<Rightarrow> 'f Element \<Rightarrow> 'f Element list result" where
  "bitcastConvertOneToMany F type el =
     rbind (numBits type) (\<lambda>resultNumBits. rbind (numBits (getType el)) (\<lambda>operandNumBits.
       if resultNumBits = 0 then Inl (UB ''modulo by zero'')
       else if operandNumBits mod resultNumBits \<noteq> 0 then Inl (Fatal ''Unsupported bitcast conversion'')
       else mapM (\<lambda>k. rbind (toBits F el) (\<lambda>bits.
                     fromBits F type (ap_extractBits bits resultNumBits (k * resultNumBits))))
              [0..<operandNumBits div resultNumBits]))"

definition bitcastConvertManyToOne :: "('f, 'd) float_api \<Rightarrow> Type \<Rightarrow> 'f Element list \<Rightarrow> 'f Element result" where
  "bitcastConvertManyToOne F type elements =
     rbind (numBits type) (\<lambda>resultNumBits.
     case elements of [] \<Rightarrow> Inl (UB ''vector subscript out of range'')
     | e0 # _ \<Rightarrow> rbind (numBits (getType e0)) (\<lambda>operandNumBits.
       if operandNumBits = 0 then Inl (UB ''modulo by zero'')
       else if resultNumBits mod operandNumBits \<noteq> 0 then Inl (Fatal ''Unsupported bitcast conversion'')
       else rbind (foldM (\<lambda>element resultBits.
                rbind (numBits (getType element)) (\<lambda>m.
                  if operandNumBits \<noteq> m then Inl (Fatal ''All elements must have the same numBits'')
                  else rbind (toBits F element) (\<lambda>operandBits.
                    Inr (ap_add (ap_shl resultBits operandNumBits) (ap_zext operandBits resultNumBits)))))
              (rev elements) (mkAPInt resultNumBits 0))
            (fromBits F type)))"

end
