(* ===== verification/Reduce_Precision.thy ===== *)
theory Reduce_Precision
  imports Element "HOL-Library.Word"
begin

unbundle bit_operations_syntax

text \<open>
  \<^verbatim>\<open>reducePrecision\<close> of \<^verbatim>\<open>stablehlo/reference/Element.cpp\<close>: the bits of a floating-point value are rounded
  to fewer mantissa bits and clamped to fewer exponent bits with 64-bit unsigned arithmetic, which is
  \<^typ>\<open>64 word\<close> here, so that sums wrap as they do in C++. \<^verbatim>\<open>FloatType::getFPMantissaWidth\<close> belongs to MLIR
  and is a parameter.
\<close>

section \<open>The two steps on the bits\<close>

text \<open>\<^verbatim>\<open>1ull << k\<close>, undefined for an amount outside of \<open>[0, 64)\<close>.\<close>

definition shl_1ull :: "int \<Rightarrow> 64 word result" where
  "shl_1ull k = (if 0 \<le> k \<and> k < 64 then Inr (push_bit (nat k) 1) else Inl (UB ''shift out of range''))"

definition reduceMantissa :: "int \<Rightarrow> int \<Rightarrow> 64 word \<Rightarrow> 64 word result" where
  "reduceMantissa srcMantissaBits destMantissaBits intVal =
     (if destMantissaBits < srcMantissaBits then
        rbind (shl_1ull (srcMantissaBits - destMantissaBits)) (\<lambda>lastMantissaBitMask.
          let baseRoundingBias = drop_bit 1 lastMantissaBitMask - 1;
              xLastMantissaBit =
                drop_bit (nat (srcMantissaBits - destMantissaBits)) (intVal AND lastMantissaBitMask);
              xRoundingBias = xLastMantissaBit + baseRoundingBias;
              truncationMask = NOT (lastMantissaBitMask - 1)
          in Inr ((intVal + xRoundingBias) AND truncationMask))
      else Inr intVal)"

definition reduceExponent :: "int \<Rightarrow> int \<Rightarrow> int \<Rightarrow> 64 word \<Rightarrow> 64 word result" where
  "reduceExponent bitWidth srcMantissaBits destExponentBits intVal =
     (let srcExponentBits = bitWidth - srcMantissaBits - 1 in
      if destExponentBits < srcExponentBits then
        rbind (shl_1ull (bitWidth - 1)) (\<lambda>signBitMask.
        rbind (shl_1ull srcExponentBits) (\<lambda>srcExp.
        rbind (shl_1ull (srcExponentBits - 1)) (\<lambda>srcHalf.
        rbind (shl_1ull (destExponentBits - 1)) (\<lambda>destHalf.
          let expBitsMask = push_bit (nat srcMantissaBits) (srcExp - 1);
              exponentBias = srcHalf - 1;
              reducedExponentBias = destHalf - 1;
              reducedMaxExponent = exponentBias + reducedExponentBias;
              reducedMinExponent = exponentBias - reducedExponentBias;
              xExponent = intVal AND expBitsMask;
              xOverflows = (push_bit (nat srcMantissaBits) reducedMaxExponent < xExponent);
              xUnderflows = (xExponent \<le> push_bit (nat srcMantissaBits) reducedMinExponent);
              xSignedZero = intVal AND signBitMask;
              xSignedInf = xSignedZero OR expBitsMask;
              intVal1 = (if xOverflows then xSignedInf else intVal)
          in Inr (if xUnderflows then xSignedZero else intVal1)))))
      else Inr intVal)"

section \<open>On elements\<close>

definition el_reducePrecision ::
  "('f, 'd) float_api \<Rightarrow> (FloatFormat \<Rightarrow> int) \<Rightarrow> 'f Element \<Rightarrow> int \<Rightarrow> int \<Rightarrow> 'f Element result" where
  "el_reducePrecision F fpMantissaWidth el exponentBits mantissaBits =
     rbind (getFloatValue el) (\<lambda>value.
     case getType el of
       FloatType type \<Rightarrow>
         let bitWidth = int (float_width type);
             srcMantissaBits = fpMantissaWidth type - 1
         in rbind (reduceMantissa srcMantissaBits mantissaBits (word_of_int (uval (bitcastToAPInt F value)))) (\<lambda>v1.
            rbind (reduceExponent bitWidth srcMantissaBits exponentBits v1) (\<lambda>v2.
            rbind (Element_float F (getType el) (fl_ofBits F type (mkAPInt (float_width type) (uint v2)))) (\<lambda>reducedResult.
              if fl_isNaN F value then
                (if 0 < mantissaBits then Inr el else Element_float F (getType el) (getInf F type))
              else Inr reducedResult)))
     | _ \<Rightarrow> Inl (UB ''cast<FloatType>''))"

section \<open>Properties\<close>

text \<open>
  Rounding to nearest: the result is the multiple of the truncation unit on the right side of the
  midpoint, with a tie going to the even multiple, as long as the sum does not wrap.
\<close>

lemma and_not_mask_div:
  "x AND NOT (push_bit k 1 - 1 :: 64 word) = push_bit k (drop_bit k x)"
proof -
  have "(push_bit k 1 - 1 :: 64 word) = mask k" by (simp add: mask_eq_exp_minus_1 push_bit_eq_mult)
  then show ?thesis
    by (auto simp: bit_eq_iff bit_and_iff bit_not_iff bit_mask_iff bit_push_bit_iff bit_drop_bit_eq)
qed

end
