(* ===== verification/Ops_Elementwise.thy ===== *)
theory Ops_Elementwise
  imports Tensor Element_Ops Reduce_Precision
begin

text \<open>
  The element-wise operations of \<^verbatim>\<open>stablehlo/reference/Ops.cpp\<close>. Each one creates a tensor of the
  result type and sets every element from the elements of its operands at the same index.
\<close>

section \<open>One and two operands\<close>

definition unaryOp ::
  "('f, 'd) float_api \<Rightarrow> ('f Element \<Rightarrow> 'f Element result) \<Rightarrow> Tensor \<Rightarrow> ShapedType \<Rightarrow> Tensor result" where
  "unaryOp F fn operand resultType = fill_result F resultType (\<lambda>i. rbind (Tensor_get F operand i) fn)"

definition binaryOp ::
  "('f, 'd) float_api \<Rightarrow> ('f Element \<Rightarrow> 'f Element \<Rightarrow> 'f Element result) \<Rightarrow> Tensor \<Rightarrow> Tensor \<Rightarrow> ShapedType \<Rightarrow> Tensor result" where
  "binaryOp F fn lhs rhs resultType =
     fill_result F resultType (\<lambda>i. rbind (Tensor_get F lhs i) (\<lambda>l. rbind (Tensor_get F rhs i) (fn l)))"

definition absOp :: "('f, 'd) float_api \<Rightarrow> Tensor \<Rightarrow> ShapedType \<Rightarrow> Tensor result" where
  "absOp F operand resultType = unaryOp F (el_abs F) operand resultType"

definition cbrtOp :: "('f, 'd) float_api \<Rightarrow> Tensor \<Rightarrow> ShapedType \<Rightarrow> Tensor result" where
  "cbrtOp F operand resultType = unaryOp F (el_cbrt F) operand resultType"

definition ceilOp :: "('f, 'd) float_api \<Rightarrow> Tensor \<Rightarrow> ShapedType \<Rightarrow> Tensor result" where
  "ceilOp F operand resultType = unaryOp F (el_ceil F) operand resultType"

definition cosineOp :: "('f, 'd) float_api \<Rightarrow> Tensor \<Rightarrow> ShapedType \<Rightarrow> Tensor result" where
  "cosineOp F operand resultType = unaryOp F (el_cosine F) operand resultType"

definition expm1Op :: "('f, 'd) float_api \<Rightarrow> Tensor \<Rightarrow> ShapedType \<Rightarrow> Tensor result" where
  "expm1Op F operand resultType = unaryOp F (el_exponentialMinusOne F) operand resultType"

definition exponentialOp :: "('f, 'd) float_api \<Rightarrow> Tensor \<Rightarrow> ShapedType \<Rightarrow> Tensor result" where
  "exponentialOp F operand resultType = unaryOp F (el_exponential F) operand resultType"

definition floorOp :: "('f, 'd) float_api \<Rightarrow> Tensor \<Rightarrow> ShapedType \<Rightarrow> Tensor result" where
  "floorOp F operand resultType = unaryOp F (el_floor F) operand resultType"

definition imagOp :: "('f, 'd) float_api \<Rightarrow> Tensor \<Rightarrow> ShapedType \<Rightarrow> Tensor result" where
  "imagOp F operand resultType = unaryOp F (el_imag F) operand resultType"

definition isFiniteOp :: "('f, 'd) float_api \<Rightarrow> Tensor \<Rightarrow> ShapedType \<Rightarrow> Tensor result" where
  "isFiniteOp F operand resultType = unaryOp F (el_isFinite F) operand resultType"

definition log1pOp :: "('f, 'd) float_api \<Rightarrow> Tensor \<Rightarrow> ShapedType \<Rightarrow> Tensor result" where
  "log1pOp F operand resultType = unaryOp F (el_logPlusOne F) operand resultType"

definition logOp :: "('f, 'd) float_api \<Rightarrow> Tensor \<Rightarrow> ShapedType \<Rightarrow> Tensor result" where
  "logOp F operand resultType = unaryOp F (el_log F) operand resultType"

definition logisticOp :: "('f, 'd) float_api \<Rightarrow> Tensor \<Rightarrow> ShapedType \<Rightarrow> Tensor result" where
  "logisticOp F operand resultType = unaryOp F (el_logistic F) operand resultType"

definition negOp :: "('f, 'd) float_api \<Rightarrow> Tensor \<Rightarrow> ShapedType \<Rightarrow> Tensor result" where
  "negOp F operand resultType = unaryOp F (el_neg F) operand resultType"

definition notOp :: "('f, 'd) float_api \<Rightarrow> Tensor \<Rightarrow> ShapedType \<Rightarrow> Tensor result" where
  "notOp F operand resultType = unaryOp F (el_not F) operand resultType"

definition populationCountOp :: "('f, 'd) float_api \<Rightarrow> Tensor \<Rightarrow> ShapedType \<Rightarrow> Tensor result" where
  "populationCountOp F operand resultType = unaryOp F (el_popcnt F) operand resultType"

definition realOp :: "('f, 'd) float_api \<Rightarrow> Tensor \<Rightarrow> ShapedType \<Rightarrow> Tensor result" where
  "realOp F operand resultType = unaryOp F (el_real F) operand resultType"

definition roundNearestEvenOp :: "('f, 'd) float_api \<Rightarrow> Tensor \<Rightarrow> ShapedType \<Rightarrow> Tensor result" where
  "roundNearestEvenOp F operand resultType = unaryOp F (el_roundNearestEven F) operand resultType"

definition roundOp :: "('f, 'd) float_api \<Rightarrow> Tensor \<Rightarrow> ShapedType \<Rightarrow> Tensor result" where
  "roundOp F operand resultType = unaryOp F (el_roundNearestAfz F) operand resultType"

definition rsqrtOp :: "('f, 'd) float_api \<Rightarrow> Tensor \<Rightarrow> ShapedType \<Rightarrow> Tensor result" where
  "rsqrtOp F operand resultType = unaryOp F (el_rsqrt F) operand resultType"

definition signOp :: "('f, 'd) float_api \<Rightarrow> Tensor \<Rightarrow> ShapedType \<Rightarrow> Tensor result" where
  "signOp F operand resultType = unaryOp F (el_sign F) operand resultType"

definition sineOp :: "('f, 'd) float_api \<Rightarrow> Tensor \<Rightarrow> ShapedType \<Rightarrow> Tensor result" where
  "sineOp F operand resultType = unaryOp F (el_sine F) operand resultType"

definition sqrtOp :: "('f, 'd) float_api \<Rightarrow> Tensor \<Rightarrow> ShapedType \<Rightarrow> Tensor result" where
  "sqrtOp F operand resultType = unaryOp F (el_sqrt F) operand resultType"

definition tanOp :: "('f, 'd) float_api \<Rightarrow> Tensor \<Rightarrow> ShapedType \<Rightarrow> Tensor result" where
  "tanOp F operand resultType = unaryOp F (el_tan F) operand resultType"

definition tanhOp :: "('f, 'd) float_api \<Rightarrow> Tensor \<Rightarrow> ShapedType \<Rightarrow> Tensor result" where
  "tanhOp F operand resultType = unaryOp F (el_tanh F) operand resultType"

definition addOp :: "('f, 'd) float_api \<Rightarrow> Tensor \<Rightarrow> Tensor \<Rightarrow> ShapedType \<Rightarrow> Tensor result" where
  "addOp F lhs rhs resultType = binaryOp F (el_add F) lhs rhs resultType"

definition andOp :: "('f, 'd) float_api \<Rightarrow> Tensor \<Rightarrow> Tensor \<Rightarrow> ShapedType \<Rightarrow> Tensor result" where
  "andOp F lhs rhs resultType = binaryOp F (el_and F) lhs rhs resultType"

definition atan2Op :: "('f, 'd) float_api \<Rightarrow> Tensor \<Rightarrow> Tensor \<Rightarrow> ShapedType \<Rightarrow> Tensor result" where
  "atan2Op F lhs rhs resultType = binaryOp F (el_atan2 F) lhs rhs resultType"

definition complexOp :: "('f, 'd) float_api \<Rightarrow> Tensor \<Rightarrow> Tensor \<Rightarrow> ShapedType \<Rightarrow> Tensor result" where
  "complexOp F lhs rhs resultType = binaryOp F (el_complex F) lhs rhs resultType"

definition divideOp :: "('f, 'd) float_api \<Rightarrow> Tensor \<Rightarrow> Tensor \<Rightarrow> ShapedType \<Rightarrow> Tensor result" where
  "divideOp F lhs rhs resultType = binaryOp F (el_div F) lhs rhs resultType"

definition maxOp :: "('f, 'd) float_api \<Rightarrow> Tensor \<Rightarrow> Tensor \<Rightarrow> ShapedType \<Rightarrow> Tensor result" where
  "maxOp F lhs rhs resultType = binaryOp F (el_max F) lhs rhs resultType"

definition minOp :: "('f, 'd) float_api \<Rightarrow> Tensor \<Rightarrow> Tensor \<Rightarrow> ShapedType \<Rightarrow> Tensor result" where
  "minOp F lhs rhs resultType = binaryOp F (el_min F) lhs rhs resultType"

definition multiplyOp :: "('f, 'd) float_api \<Rightarrow> Tensor \<Rightarrow> Tensor \<Rightarrow> ShapedType \<Rightarrow> Tensor result" where
  "multiplyOp F lhs rhs resultType = binaryOp F (el_mul F) lhs rhs resultType"

definition orOp :: "('f, 'd) float_api \<Rightarrow> Tensor \<Rightarrow> Tensor \<Rightarrow> ShapedType \<Rightarrow> Tensor result" where
  "orOp F lhs rhs resultType = binaryOp F (el_or F) lhs rhs resultType"

definition powerOp :: "('f, 'd) float_api \<Rightarrow> Tensor \<Rightarrow> Tensor \<Rightarrow> ShapedType \<Rightarrow> Tensor result" where
  "powerOp F lhs rhs resultType = binaryOp F (el_power F) lhs rhs resultType"

definition remOp :: "('f, 'd) float_api \<Rightarrow> Tensor \<Rightarrow> Tensor \<Rightarrow> ShapedType \<Rightarrow> Tensor result" where
  "remOp F lhs rhs resultType = binaryOp F (el_rem F) lhs rhs resultType"

definition shiftLeftOp :: "('f, 'd) float_api \<Rightarrow> Tensor \<Rightarrow> Tensor \<Rightarrow> ShapedType \<Rightarrow> Tensor result" where
  "shiftLeftOp F lhs rhs resultType = binaryOp F el_shiftLeft lhs rhs resultType"

definition shiftRightArithmeticOp :: "('f, 'd) float_api \<Rightarrow> Tensor \<Rightarrow> Tensor \<Rightarrow> ShapedType \<Rightarrow> Tensor result" where
  "shiftRightArithmeticOp F lhs rhs resultType = binaryOp F el_shiftRightArithmetic lhs rhs resultType"

definition shiftRightLogicalOp :: "('f, 'd) float_api \<Rightarrow> Tensor \<Rightarrow> Tensor \<Rightarrow> ShapedType \<Rightarrow> Tensor result" where
  "shiftRightLogicalOp F lhs rhs resultType = binaryOp F el_shiftRightLogical lhs rhs resultType"

definition subtractOp :: "('f, 'd) float_api \<Rightarrow> Tensor \<Rightarrow> Tensor \<Rightarrow> ShapedType \<Rightarrow> Tensor result" where
  "subtractOp F lhs rhs resultType = binaryOp F (el_sub F) lhs rhs resultType"

definition xorOp :: "('f, 'd) float_api \<Rightarrow> Tensor \<Rightarrow> Tensor \<Rightarrow> ShapedType \<Rightarrow> Tensor result" where
  "xorOp F lhs rhs resultType = binaryOp F (el_xor F) lhs rhs resultType"

section \<open>Operations with their own loop body\<close>

definition clampOp :: "('f, 'd) float_api \<Rightarrow> Tensor \<Rightarrow> Tensor \<Rightarrow> Tensor \<Rightarrow> ShapedType \<Rightarrow> Tensor result" where
  "clampOp F mn operand mx resultType =
     fill_result F resultType (\<lambda>i.
       rbind (Tensor_get F mn (if getRank mn \<noteq> 0 then i else [])) (\<lambda>minElement.
       rbind (Tensor_get F mx (if getRank mx \<noteq> 0 then i else [])) (\<lambda>maxElement.
       rbind (Tensor_get F operand i) (\<lambda>e. rbind (el_max F e minElement) (\<lambda>m. el_min F m maxElement)))))"

definition clzOp :: "('f, 'd) float_api \<Rightarrow> Tensor \<Rightarrow> ShapedType \<Rightarrow> Tensor result" where
  "clzOp F operand resultType =
     fill_result F resultType (\<lambda>i.
       rbind (Tensor_get F operand i) (\<lambda>e. rbind (getIntegerValue e) (\<lambda>v.
         convert_uint64 F (getElementType resultType) (int (ap_countLeadingZeros v)))))"

datatype ComparisonDirection = EQ | NE | GE | GT | LE | LT

definition compare_elements ::
  "('f, 'd) float_api \<Rightarrow> ComparisonDirection \<Rightarrow> 'f Element \<Rightarrow> 'f Element \<Rightarrow> 'f Element result" where
  "compare_elements F dir l r =
     (case dir of EQ \<Rightarrow> el_eq F l r | NE \<Rightarrow> el_ne F l r | GE \<Rightarrow> el_ge F l r
      | GT \<Rightarrow> el_gt F l r | LE \<Rightarrow> el_le F l r | LT \<Rightarrow> el_lt F l r)"

definition compareOp ::
  "('f, 'd) float_api \<Rightarrow> Tensor \<Rightarrow> Tensor \<Rightarrow> ComparisonDirection \<Rightarrow> ShapedType \<Rightarrow> Tensor result" where
  "compareOp F lhs rhs comparisonDirection resultType =
     binaryOp F (compare_elements F comparisonDirection) lhs rhs resultType"

definition convertOp :: "('f, 'd) float_api \<Rightarrow> Tensor \<Rightarrow> ShapedType \<Rightarrow> Tensor result" where
  "convertOp F operand resultType = unaryOp F (convert_Element F (getElementType resultType)) operand resultType"

definition selectOp :: "('f, 'd) float_api \<Rightarrow> Tensor \<Rightarrow> Tensor \<Rightarrow> Tensor \<Rightarrow> ShapedType \<Rightarrow> Tensor result" where
  "selectOp F pred onTrue onFalse resultType =
     fill_result F resultType (\<lambda>i.
       rbind (Tensor_get F pred (if getRank pred \<noteq> 0 then i else [])) (\<lambda>predValue.
       rbind (getBooleanValue predValue) (\<lambda>b. if b then Tensor_get F onTrue i else Tensor_get F onFalse i)))"

definition reducePrecisionOp ::
  "('f, 'd) float_api \<Rightarrow> (FloatFormat \<Rightarrow> int) \<Rightarrow> Tensor \<Rightarrow> int \<Rightarrow> int \<Rightarrow> ShapedType \<Rightarrow> Tensor result" where
  "reducePrecisionOp F fpMantissaWidth operand exponentBits mantissaBits resultType =
     unaryOp F (\<lambda>e. el_reducePrecision F fpMantissaWidth e exponentBits mantissaBits) operand resultType"

end
