(* ===== verification/Dialect_Base.thy ===== *)
theory Dialect_Base
  imports Types
begin

text \<open>
  \<^verbatim>\<open>stablehlo/dialect/Base.cpp\<close>: dynamic dimensions, bounds of dynamic dimensions in a type's encoding,
  and the rules that merge the dimensions and bounds of several types. A failed \<^verbatim>\<open>LogicalResult\<close>
  or \<^verbatim>\<open>FailureOr\<close> is \<open>Inl (Failure msg)\<close>; the values a diagnostic prints are left out of it.
\<close>

definition kDynamic :: int where
  "kDynamic = - (2 ^ 63)"

definition isDynamicDimSize :: "int \<Rightarrow> bool" where
  "isDynamicDimSize val \<longleftrightarrow> val = kDynamic"

definition isStaticDimSize :: "int \<Rightarrow> bool" where
  "isStaticDimSize val \<longleftrightarrow> \<not> isDynamicDimSize val"

text \<open>
  The encoding of a ranked tensor type: none, the \<^verbatim>\<open>TypeExtensions\<close> attribute of the dialect with one
  bound per dimension, or an attribute of another dialect (sparsity), which has no bounds.
\<close>

datatype Encoding = NoEncoding | TypeExtensions "int list" | OtherEncoding

record RankedTensorType = ShapedType +
  getEncoding :: Encoding

definition mkRankedTensorType :: "int list \<Rightarrow> Type \<Rightarrow> Encoding \<Rightarrow> RankedTensorType" where
  "mkRankedTensorType shape elementType encoding =
     \<lparr>getShape = shape, getElementType = elementType, getEncoding = encoding\<rparr>"

definition rt_rank :: "('a ShapedType_scheme) \<Rightarrow> int" where
  "rt_rank t = int (length (getShape t))"

definition hasStaticShape :: "('a ShapedType_scheme) \<Rightarrow> bool" where
  "hasStaticShape t \<longleftrightarrow> list_all isStaticDimSize (getShape t)"

fun encodingToBounds :: "Encoding \<Rightarrow> int list" where
  "encodingToBounds (TypeExtensions bounds) = bounds"
| "encodingToBounds _ = []"

definition boundsToEncoding :: "Encoding \<Rightarrow> int list \<Rightarrow> Encoding result" where
  "boundsToEncoding prototype bounds =
     (if bounds = [] then Inr prototype
      else if list_all isDynamicDimSize bounds then Inr NoEncoding
      else case prototype of
        NoEncoding \<Rightarrow> Inl (Fatal ''Expect an prototype attribute to obtain the underlying dialect but got none'')
      | TypeExtensions _ \<Rightarrow> Inr (TypeExtensions bounds)
      | OtherEncoding \<Rightarrow> Inl (UB ''cast to HloDialectInterface''))"

section \<open>Merging dimensions and bounds\<close>

definition inferConcatenatedDimAndBound :: "int \<Rightarrow> int \<Rightarrow> int \<Rightarrow> int \<Rightarrow> int \<times> int" where
  "inferConcatenatedDimAndBound leftSize rightSize leftBound rightBound =
     (let isLeftStaticDim = \<not> isDynamicDimSize leftSize;
          isRightStaticDim = \<not> isDynamicDimSize rightSize
      in if isLeftStaticDim \<and> isRightStaticDim then (leftSize + rightSize, kDynamic)
         else let leftSizeOrBound = (if isLeftStaticDim then leftSize else leftBound);
                  rightSizeOrBound = (if isRightStaticDim then rightSize else rightBound)
              in if \<not> isDynamicDimSize leftSizeOrBound \<and> \<not> isDynamicDimSize rightSizeOrBound
                 then (kDynamic, leftSizeOrBound + rightSizeOrBound)
                 else (kDynamic, kDynamic))"

definition inferMostSpecificDimAndBound :: "int \<Rightarrow> int \<Rightarrow> int \<Rightarrow> int \<Rightarrow> int \<Rightarrow> (int \<times> int) result" where
  "inferMostSpecificDimAndBound dim leftSize rightSize leftBound rightBound =
     (let isLeftStaticDim = \<not> isDynamicDimSize leftSize;
          isRightStaticDim = \<not> isDynamicDimSize rightSize;
          isLeftStaticBound = \<not> isDynamicDimSize leftBound;
          isRightStaticBound = \<not> isDynamicDimSize rightBound
      in if isLeftStaticDim \<or> isRightStaticDim then
           if isLeftStaticDim \<and> isRightStaticDim \<and> leftSize \<noteq> rightSize
           then Inl (Failure ''Mismatched dimension sizes'')
           else let inferredSize = (if isLeftStaticDim then leftSize else rightSize);
                    check_bound = (if isLeftStaticBound then leftBound else rightBound)
                in if (isLeftStaticBound \<or> isRightStaticBound) \<and> check_bound < inferredSize
                   then Inl (Failure ''Mismatched dimension size and bound'')
                   else Inr (inferredSize, kDynamic)
         else if isLeftStaticBound \<and> isRightStaticBound then Inr (kDynamic, min leftBound rightBound)
         else Inr (kDynamic, if isLeftStaticBound then leftBound else rightBound))"

definition inferLeastSpecificDimAndBound :: "int \<Rightarrow> int \<Rightarrow> int \<Rightarrow> int \<Rightarrow> int \<Rightarrow> (int \<times> int) result" where
  "inferLeastSpecificDimAndBound dim leftSize rightSize leftBound rightBound =
     (let isLeftStaticDim = \<not> isDynamicDimSize leftSize;
          isRightStaticDim = \<not> isDynamicDimSize rightSize;
          isLeftStaticBound = \<not> isDynamicDimSize leftBound;
          isRightStaticBound = \<not> isDynamicDimSize rightBound
      in if isLeftStaticDim \<or> isRightStaticDim then
           if isLeftStaticDim \<and> isRightStaticDim then
             (if leftSize \<noteq> rightSize then Inl (Failure ''Mismatched dimension sizes'')
              else Inr (leftSize, kDynamic))
           else if isLeftStaticBound \<or> isRightStaticBound then
             Inr (kDynamic, if isLeftStaticDim then max leftSize rightBound else max rightSize leftBound)
           else Inr (kDynamic, kDynamic)
         else if isLeftStaticBound \<and> isRightStaticBound then Inr (kDynamic, max leftBound rightBound)
         else Inr (kDynamic, kDynamic))"

text \<open>
  The two nested loops: over the types after the first, and over the dimensions; the state is the
  sizes and bounds inferred so far.
\<close>

definition merge_type ::
  "(int \<Rightarrow> int \<Rightarrow> int \<Rightarrow> int \<Rightarrow> int \<Rightarrow> (int \<times> int) result) \<Rightarrow> int \<Rightarrow> RankedTensorType \<Rightarrow>
   int list \<times> int list \<Rightarrow> (int list \<times> int list) result" where
  "merge_type inferDimAndBoundFn rank type st =
     foldM (\<lambda>dim (sizes, bounds').
       let bounds = encodingToBounds (getEncoding type) in
       rbind (vec_nth sizes dim) (\<lambda>leftSize.
       rbind (vec_nth (getShape type) dim) (\<lambda>rightSize.
       rbind (vec_nth bounds' dim) (\<lambda>leftBound.
       rbind (if bounds = [] then Inr kDynamic else vec_nth bounds dim) (\<lambda>rightBound.
       rbind (inferDimAndBoundFn dim leftSize rightSize leftBound rightBound) (\<lambda>(size, bound).
       rbind (vec_set sizes dim size) (\<lambda>sizes'.
       rbind (vec_set bounds' dim bound) (\<lambda>bounds''. Inr (sizes', bounds'')))))))))
       (upto_int rank) st"

definition inferTypeWithCustomFn ::
  "RankedTensorType list \<Rightarrow> (int \<Rightarrow> int \<Rightarrow> int \<Rightarrow> int \<Rightarrow> int \<Rightarrow> (int \<times> int) result) \<Rightarrow>
   RankedTensorType result" where
  "inferTypeWithCustomFn rankedTypes inferDimAndBoundFn =
     (case rankedTypes of
        [] \<Rightarrow> Inl (UB ''vector subscript out of range'')
      | first # rest \<Rightarrow>
          let rank = rt_rank first;
              bounds = encodingToBounds (getEncoding first);
              inferredBounds = (if bounds = [] then replicate (nat rank) kDynamic else bounds);
              anyInputHaveBounds = (bounds \<noteq> [])
          in if list_ex (\<lambda>type. rt_rank type \<noteq> rank) rankedTypes
             then Inl (Failure ''Mismatched ranks of types'')
             else rbind (foldM (merge_type inferDimAndBoundFn rank) rest (getShape first, inferredBounds))
               (\<lambda>(sizes, bounds').
                  rbind (boundsToEncoding (getEncoding first) (if anyInputHaveBounds then bounds' else []))
                    (\<lambda>encoding. Inr (mkRankedTensorType sizes (getElementType first) encoding))))"

definition inferLeastSpecificShapedType :: "RankedTensorType list \<Rightarrow> RankedTensorType result" where
  "inferLeastSpecificShapedType inputTypes = inferTypeWithCustomFn inputTypes inferLeastSpecificDimAndBound"

definition inferMostSpecificShapedType :: "RankedTensorType list \<Rightarrow> RankedTensorType result" where
  "inferMostSpecificShapedType inputTypes = inferTypeWithCustomFn inputTypes inferMostSpecificDimAndBound"

end
