(* ===== verification/Type_Inference.thy ===== *)
theory Type_Inference
  imports Dialect_Base
begin

text \<open>
  \<^verbatim>\<open>stablehlo/dialect/TypeInference.cpp\<close>: the shape functions and verifiers of the operations, in the order
  of the source. Every failed check is a branch of the model; the loops over dimensions stop at the
  first failed check, as the source's early returns do.
\<close>

section \<open>Quantization\<close>

fun isQuantizedType :: "Type \<Rightarrow> bool" where
  "isQuantizedType (UniformQuantizedType _ _ _ _ _ _) = True"
| "isQuantizedType (UniformQuantizedPerAxisType _ _ _ _ _ _ _) = True"
| "isQuantizedType _ = False"

fun isUniformQuantizedType :: "Type \<Rightarrow> bool" where
  "isUniformQuantizedType (UniformQuantizedType _ _ _ _ _ _) = True"
| "isUniformQuantizedType _ = False"

fun isPerAxisType :: "Type \<Rightarrow> bool" where
  "isPerAxisType (UniformQuantizedPerAxisType _ _ _ _ _ _ _) = True"
| "isPerAxisType _ = False"

definition verifyBinaryOpQuantizationConstraints :: "Type \<Rightarrow> Type \<Rightarrow> Type \<Rightarrow> unit result" where
  "verifyBinaryOpQuantizationConstraints lhsType rhsType resultType =
     (if \<not> list_all isQuantizedType [lhsType, rhsType, resultType]
      then Inl (Failure ''expects  all operands and results to be either quantized or non-quantized'')
      else if q_storage lhsType \<noteq> q_storage rhsType \<or> q_storage lhsType \<noteq> q_storage resultType
      then Inl (Failure ''mismatched operands and result quantization storage types'')
      else if q_expressed lhsType \<noteq> q_expressed rhsType \<or> q_expressed lhsType \<noteq> q_expressed resultType
      then Inl (Failure ''mismatched operands and result quantization expressed types'')
      else if isPerAxisType lhsType \<or> isPerAxisType rhsType then
        (if \<not> isPerAxisType resultType
         then Inl (Failure ''result is not per_axis quantized but lhs or rhs are'')
         else if isPerAxisType lhsType \<and> q_dimension resultType \<noteq> q_dimension lhsType
         then Inl (Failure ''quantization_dimension of lhs and result are not same'')
         else if isPerAxisType rhsType \<and> q_dimension resultType \<noteq> q_dimension rhsType
         then Inl (Failure ''quantization_dimension of rhs and result are not same'')
         else Inr ())
      else if isPerAxisType resultType
      then Inl (Failure ''result per_axis quantized but none from rhs and lhs are per_axis quantized'')
      else Inr ())"

definition verifyConvolutionDotGeneralCommonQuantizationConstraints :: "Type \<Rightarrow> Type \<Rightarrow> Type \<Rightarrow> unit result" where
  "verifyConvolutionDotGeneralCommonQuantizationConstraints lhsElementType rhsElementType resultElementType =
     (if \<not> isQuantizedType rhsElementType \<or> isQuantizedType lhsElementType \<noteq> isQuantizedType resultElementType
      then Inl (Failure ''rhs should be quantized for quantized operations and is_quantized(lhs)=is_quantized(result) should hold'')
      else if isQuantizedType lhsElementType then
        (if q_storage lhsElementType \<noteq> q_storage rhsElementType
         then Inl (Failure ''mismatched lhs and rhs quantization storage types'')
         else if q_expressed lhsElementType \<noteq> q_expressed rhsElementType \<or>
                 q_expressed lhsElementType \<noteq> q_expressed resultElementType
         then Inl (Failure ''mismatched lhs, rhs and result quantization expressed types'')
         else if isUniformQuantizedType rhsElementType \<and> \<not> isUniformQuantizedType resultElementType
         then Inl (Failure ''mismatched rhs and result quantization granularity'')
         else Inr ())
      else if lhsElementType \<noteq> q_expressed rhsElementType \<or> lhsElementType \<noteq> resultElementType
      then Inl (Failure ''mismatched rhs quantization expressed type and lhs and result element type'')
      else Inr ())"

text \<open>
  The comparison of the scales and zero points zips the two lists. The source compares the number of
  scales of the first type with itself, so the test it writes never fails.
\<close>

definition isSameQuantPerAxisScaleZeroPoint :: "Type \<Rightarrow> Type \<Rightarrow> bool" where
  "isSameQuantPerAxisScaleZeroPoint qty1 qty2 =
     (if \<not> isPerAxisType qty1 \<or> \<not> isPerAxisType qty2 then False
      else if length (q_scales qty1) \<noteq> length (q_scales qty1) then False
      else if list_ex (\<lambda>(l, r). l \<noteq> r) (zip (q_scales qty1) (q_scales qty2)) then False
      else if list_ex (\<lambda>(l, r). l \<noteq> r) (zip (q_zeroPoints qty1) (q_zeroPoints qty2)) then False
      else True)"

definition verifyQPerTensorScaleAndZeroPointConstraints :: "Type \<Rightarrow> Type \<Rightarrow> unit result" where
  "verifyQPerTensorScaleAndZeroPointConstraints ty1 ty2 =
     (if isUniformQuantizedType ty1 \<and> isUniformQuantizedType ty2 \<and> ty1 \<noteq> ty2
      then Inl (Failure ''expect same quantization scale and zero_point'') else Inr ())"

definition verifyQPerAxisScaleAndZeroPointConstraints :: "Type \<Rightarrow> Type \<Rightarrow> unit result" where
  "verifyQPerAxisScaleAndZeroPointConstraints ty1 ty2 =
     (if isPerAxisType ty1 \<and> isPerAxisType ty2 \<and> \<not> isSameQuantPerAxisScaleZeroPoint ty1 ty2
      then Inl (Failure ''expect same quantization scales and zero_points'') else Inr ())"

text \<open>The product of the leading dimensions, in \<^verbatim>\<open>uint64_t\<close> with each factor cut to \<^verbatim>\<open>int32_t\<close>.\<close>

definition to_int32 :: "int \<Rightarrow> int" where
  "to_int32 v = signed_take_bit 31 v"

definition leading_product :: "int list \<Rightarrow> int \<Rightarrow> int" where
  "leading_product shape qDim = fold (\<lambda>dimSize p. (p * to_int32 dimSize) mod 2 ^ 64) (take (nat qDim) shape) 1"

definition verifyReshapeOpQuantizationConstraints :: "RankedTensorType \<Rightarrow> RankedTensorType \<Rightarrow> unit result" where
  "verifyReshapeOpQuantizationConstraints operandTy resultTy =
     (let operandEl = getElementType operandTy; resultEl = getElementType resultTy in
      rbind (verifyQPerTensorScaleAndZeroPointConstraints operandEl resultEl) (\<lambda>_.
      rbind (verifyQPerAxisScaleAndZeroPointConstraints operandEl resultEl) (\<lambda>_.
      if isPerAxisType operandEl \<and> isPerAxisType resultEl then
        rbind (vec_nth (getShape operandTy) (q_dimension operandEl)) (\<lambda>operandSize.
        rbind (vec_nth (getShape resultTy) (q_dimension resultEl)) (\<lambda>resultSize.
          if \<not> isDynamicDimSize operandSize \<and> \<not> isDynamicDimSize resultSize \<and> operandSize \<noteq> resultSize
          then Inl (Failure ''expect same quantization dimension size for operand and result'')
          else if hasStaticShape operandTy \<and> hasStaticShape resultTy \<and>
            leading_product (getShape operandTy) (q_dimension operandEl) \<noteq>
            leading_product (getShape resultTy) (q_dimension resultEl)
          then Inl (Failure ''product of dimensions before quantization dimension must match between operand and result'')
          else Inr ()))
      else Inr ())))"

definition verifyBroadcastInDimOpQuantConstraints ::
  "RankedTensorType \<Rightarrow> RankedTensorType \<Rightarrow> int list \<Rightarrow> unit result" where
  "verifyBroadcastInDimOpQuantConstraints operandType resultType broadcastDimensions =
     (let resultQ = getElementType resultType; operandQ = getElementType operandType in
      if \<not> isPerAxisType resultQ \<or> \<not> isPerAxisType operandQ then Inl (UB ''cast to per-axis quantized type'')
      else rbind (vec_nth broadcastDimensions (q_dimension operandQ)) (\<lambda>mapped.
        if q_dimension resultQ \<noteq> mapped
        then Inl (Failure ''result quantization_dimension not same as broadcast_dimensions'')
        else rbind (vec_nth (getShape operandType) (q_dimension operandQ)) (\<lambda>operandSize.
          if operandSize = 1 then
            rbind (vec_nth (getShape resultType) (q_dimension resultQ)) (\<lambda>resultSize.
              rbind (foldM (\<lambda>i _.
                rbind (vec_nth (q_scales resultQ) i) (\<lambda>rs.
                rbind (vec_nth (q_scales operandQ) 0) (\<lambda>os.
                if rs \<noteq> os then Inl (Failure ''mismatch result scale and operand scale'')
                else rbind (vec_nth (q_zeroPoints resultQ) i) (\<lambda>rz.
                     rbind (vec_nth (q_zeroPoints operandQ) 0) (\<lambda>oz.
                     if rz \<noteq> oz then Inl (Failure ''mismatch result zero_point and operand zero_point'')
                     else Inr ())))))
                (upto_int resultSize) ()) Inr)
          else Inr ())))"

section \<open>Utilities of the shape functions\<close>

fun isUnique_loop :: "int list \<Rightarrow> int list \<Rightarrow> bool" where
  "isUnique_loop [] dimSet = True"
| "isUnique_loop (dim # dims) dimSet = (if dim \<in> set dimSet then False else isUnique_loop dims (dim # dimSet))"

definition isUnique :: "int list \<Rightarrow> bool" where
  "isUnique nums = isUnique_loop nums []"

definition checkDimsDistinct :: "int list \<Rightarrow> int list \<Rightarrow> unit result" where
  "checkDimsDistinct lhsDims rhsDims =
     (if isUnique_loop (lhsDims @ rhsDims) [] then Inr () else Inl (Failure ''has duplicated dimension''))"

definition checkDimInBounds :: "int \<Rightarrow> int \<Rightarrow> bool \<Rightarrow> unit result" where
  "checkDimInBounds dim upperBound upperBoundInclusive =
     (if dim < 0 \<or> upperBound + (if upperBoundInclusive then 1 else 0) \<le> dim
      then Inl (Failure ''Expects dimension to be in range'') else Inr ())"

definition checkDimsInBounds :: "int list \<Rightarrow> int \<Rightarrow> unit result" where
  "checkDimsInBounds dims upperBound =
     foldM (\<lambda>dim _. if dim < 0 \<or> upperBound \<le> dim
                    then Inl (Failure ''Expects each element to be in range'') else Inr ()) dims ()"

fun isFloatType :: "Type \<Rightarrow> bool" where
  "isFloatType (FloatType _) = True"
| "isFloatType _ = False"

definition tensorsHaveSameElType :: "Type list \<Rightarrow> bool \<Rightarrow> bool" where
  "tensorsHaveSameElType types ignoreFpPrecision =
     (case types of [] \<Rightarrow> True
      | t1 # rest \<Rightarrow> list_all (\<lambda>t2. (ignoreFpPrecision \<and> isFloatType t1 \<and> isFloatType t2) \<or> t1 = t2) rest)"

fun getTypeBitWidth :: "Type \<Rightarrow> nat result" where
  "getTypeBitWidth (ComplexType t) = rbind (getTypeBitWidth t) (\<lambda>n. Inr (2 * n))"
| "getTypeBitWidth (UniformQuantizedType st _ _ _ _ _) = getTypeBitWidth st"
| "getTypeBitWidth (UniformQuantizedPerAxisType st _ _ _ _ _ _) = getTypeBitWidth st"
| "getTypeBitWidth t = getIntOrFloatBitWidth t"

definition verifyCompatibleDims :: "int \<Rightarrow> int \<Rightarrow> bool" where
  "verifyCompatibleDims dimSize1 dimSize2 \<longleftrightarrow>
     isDynamicDimSize dimSize1 \<or> isDynamicDimSize dimSize2 \<or> dimSize1 = dimSize2"

definition dilatedBound :: "int \<Rightarrow> int \<Rightarrow> int" where
  "dilatedBound bound dilation = (if bound = 0 then 0 else (bound - 1) * dilation + 1)"

text \<open>C++ division; the callers pass a non-negative numerator and a positive stride.\<close>

definition stridedBound :: "int \<Rightarrow> int \<Rightarrow> int \<Rightarrow> int" where
  "stridedBound bound windowSize stride =
     (if bound = 0 \<or> bound < windowSize then 0 else (bound - windowSize) div stride + 1)"

record WindowDimension =
  wd_size :: int
  wd_stride :: int
  wd_paddingLow :: int
  wd_paddingHigh :: int
  wd_windowDilation :: int
  wd_baseDilation :: int
  wd_windowReversal :: bool

definition verifyWindowSize :: "nat \<Rightarrow> nat \<Rightarrow> unit result" where
  "verifyWindowSize attrSize n =
     (if attrSize = 0 \<or> attrSize = n then Inr ()
      else Inl (Failure ''expects attribute to have same dimension-size as size of window dimensions''))"

definition inferWindowDimension ::
  "int list \<Rightarrow> int list \<Rightarrow> (int \<times> int) list \<Rightarrow> int list \<Rightarrow> int list \<Rightarrow> nat \<Rightarrow> WindowDimension result" where
  "inferWindowDimension windowDimensions windowStrides padding lhsDilation rhsDilation i =
     (let size = windowDimensions ! i;
          stride = (if windowStrides \<noteq> [] then windowStrides ! i else 1);
          baseDilation = (if lhsDilation \<noteq> [] then lhsDilation ! i else 1);
          windowDilation = (if rhsDilation \<noteq> [] then rhsDilation ! i else 1);
          (low, high) = (if padding \<noteq> [] then padding ! i else (0, 0))
      in if \<not> isDynamicDimSize size \<and> size \<le> 0
         then Inl (Failure ''expects window to have positive value for window dimension'')
         else if stride \<le> 0 then Inl (Failure ''expects window to have positive stride'')
         else if baseDilation \<le> 0 then Inl (Failure ''expects window to have positive base dilation factor'')
         else if windowDilation \<le> 0 then Inl (Failure ''expects window to have positive window dilation factor'')
         else Inr \<lparr>wd_size = size, wd_stride = stride, wd_paddingLow = low, wd_paddingHigh = high,
                   wd_windowDilation = windowDilation, wd_baseDilation = baseDilation,
                   wd_windowReversal = False\<rparr>)"

definition verifyWindowAttributesAndInferWindowDimensions ::
  "int list \<Rightarrow> int list \<Rightarrow> (int \<times> int) list \<Rightarrow> int list \<Rightarrow> int list \<Rightarrow> bool list \<Rightarrow>
   WindowDimension list result" where
  "verifyWindowAttributesAndInferWindowDimensions windowDimensions windowStrides padding lhsDilation
     rhsDilation windowReversal =
     (let n = length windowDimensions in
      rbind (verifyWindowSize (length windowStrides) n) (\<lambda>_.
      rbind (verifyWindowSize (length lhsDilation) n) (\<lambda>_.
      rbind (verifyWindowSize (length rhsDilation) n) (\<lambda>_.
      rbind (verifyWindowSize (length padding) n) (\<lambda>_.
      rbind (verifyWindowSize (length windowReversal) n) (\<lambda>_.
        mapM (inferWindowDimension windowDimensions windowStrides padding lhsDilation rhsDilation)
          [0..<n]))))))"

definition inferWindowOutputDim :: "int \<Rightarrow> WindowDimension \<Rightarrow> int" where
  "inferWindowOutputDim base dim =
     (if isDynamicDimSize base \<or> isDynamicDimSize (wd_size dim) then kDynamic
      else let dilatedBase = dilatedBound base (wd_baseDilation dim);
               paddedDilatedBase = wd_paddingLow dim + dilatedBase + wd_paddingHigh dim;
               dilatedWindow = dilatedBound (wd_size dim) (wd_windowDilation dim)
           in stridedBound paddedDilatedBase dilatedWindow (wd_stride dim))"

definition inferWindowOutputShape :: "int list \<Rightarrow> WindowDimension list \<Rightarrow> int list" where
  "inferWindowOutputShape baseShape window = map2 inferWindowOutputDim baseShape window"

definition verifyDimInBounds :: "('a ShapedType_scheme) \<Rightarrow> int \<Rightarrow> unit result" where
  "verifyDimInBounds type dim =
     (if dim < 0 then Inl (Failure ''requires non-negative dimension attribute'')
      else if rt_rank type \<le> dim then Inl (Failure ''requires dimension attribute in range'')
      else Inr ())"

section \<open>Shape functions\<close>

text \<open>The checks of \<open>concatenate\<close> that each input matches the first one outside the concatenated dimension.\<close>

definition checkConcatenateInput :: "RankedTensorType \<Rightarrow> int \<Rightarrow> RankedTensorType \<Rightarrow> unit result" where
  "checkConcatenateInput witnessType dimension type =
     (if rt_rank type \<noteq> rt_rank witnessType then Inl (Failure ''operands do not match rank'')
      else foldM (\<lambda>d _.
        if d \<noteq> dimension \<and> \<not> verifyCompatibleDims (getShape witnessType ! nat d) (getShape type ! nat d)
        then Inl (Failure ''shapes of operands are not compatible at non-concat index'') else Inr ())
        (upto_int (rt_rank witnessType)) ())"

definition concatenate_dim :: "int \<Rightarrow> int \<Rightarrow> int \<Rightarrow> int \<Rightarrow> int \<Rightarrow> int \<Rightarrow> (int \<times> int) result" where
  "concatenate_dim dimension dim leftSize rightSize leftBound rightBound =
     (if dim = dimension then Inr (inferConcatenatedDimAndBound leftSize rightSize leftBound rightBound)
      else inferMostSpecificDimAndBound dim leftSize rightSize leftBound rightBound)"

definition first_encoding :: "RankedTensorType list \<Rightarrow> Encoding" where
  "first_encoding types =
     (case filter (\<lambda>t. getEncoding t \<noteq> NoEncoding) types of [] \<Rightarrow> NoEncoding | t # _ \<Rightarrow> getEncoding t)"

definition inferConcatenateOp :: "RankedTensorType list \<Rightarrow> int \<Rightarrow> RankedTensorType result" where
  "inferConcatenateOp inputTypes dimension =
     (case inputTypes of
        [] \<Rightarrow> Inl (UB ''vector subscript out of range'')
      | witnessType # _ \<Rightarrow>
          let rank = rt_rank witnessType in
          if rank = 0 then Inl (Failure ''rank-0 values cannot be concatenated'')
          else if rank \<le> dimension then Inl (Failure ''dimension is out-of-bounds for input rank'')
          else rbind (foldM (\<lambda>type _. checkConcatenateInput witnessType dimension type) inputTypes ()) (\<lambda>_.
               rbind (vec_set (replicate (nat rank) kDynamic) dimension 0) (\<lambda>inferredSizes.
               rbind (foldM (merge_type (concatenate_dim dimension) rank) inputTypes
                       (inferredSizes, replicate (nat rank) kDynamic)) (\<lambda>(sizes, bounds).
               rbind (boundsToEncoding (first_encoding inputTypes)
                       (if list_ex (\<lambda>t. encodingToBounds (getEncoding t) \<noteq> []) inputTypes then bounds else []))
                 (\<lambda>encoding. Inr (mkRankedTensorType sizes (getElementType witnessType) encoding))))))"

text \<open>MLIR's \<^verbatim>\<open>verifyCompatibleShape\<close> on shapes, and the shape function of \<open>reduce\<close>.\<close>

definition verifyCompatibleShape :: "int list \<Rightarrow> int list \<Rightarrow> bool" where
  "verifyCompatibleShape shape1 shape2 \<longleftrightarrow> list_all2 verifyCompatibleDims shape1 shape2"

fun checkReduceDimensions :: "int \<Rightarrow> int list \<Rightarrow> int list \<Rightarrow> unit result" where
  "checkReduceDimensions rank [] seen = Inr ()"
| "checkReduceDimensions rank (dimension # rest) seen =
     (if dimension < 0 \<or> rank \<le> dimension then Inl (Failure ''Out-of-bounds dimension'')
      else if dimension \<in> set seen then Inl (Failure ''Duplicate reduction dimension: '')
      else checkReduceDimensions rank rest (dimension # seen))"

definition verifyReduceOpInputsAndInferShape ::
  "RankedTensorType list \<Rightarrow> int list \<Rightarrow> (int list \<times> Encoding) result" where
  "verifyReduceOpInputsAndInferShape inputTypes dimensions =
     rbind (vec_nth inputTypes 0) (\<lambda>witnessType.
     rbind (guard (list_all (\<lambda>t. verifyCompatibleShape (getShape witnessType) (getShape t)) (tl inputTypes))
              (Failure ''expects all inputs to have compatible shapes'')) (\<lambda>_.
     rbind (checkReduceDimensions (rt_rank witnessType) dimensions []) (\<lambda>_.
     let kept = filter (\<lambda>d. d \<notin> set dimensions) (upto_int (rt_rank witnessType));
         inputBounds = encodingToBounds (getEncoding witnessType) in
     rbind (mapM (vec_nth (getShape witnessType)) kept) (\<lambda>newDimensions.
     rbind (if inputBounds = [] then Inr [] else mapM (vec_nth inputBounds) kept) (\<lambda>newBounds.
     rbind (if newBounds = [] then Inr NoEncoding else boundsToEncoding (getEncoding witnessType) newBounds) (\<lambda>encoding.
       Inr (newDimensions, encoding)))))))"

definition inferReduceOp ::
  "RankedTensorType list \<Rightarrow> int list \<Rightarrow> Type list \<Rightarrow> RankedTensorType list result" where
  "inferReduceOp inputTypes dimensions accumulatorTypes =
     rbind (verifyReduceOpInputsAndInferShape inputTypes dimensions) (\<lambda>(newDimensions, encoding).
       mapM (\<lambda>inputIdx. rbind (vec_nth accumulatorTypes inputIdx) (\<lambda>elementType.
               Inr (mkRankedTensorType newDimensions elementType encoding)))
         (upto_int (int (length inputTypes))))"

text \<open>\<open>dot_general\<close>.\<close>

definition checkDimsInRange :: "int \<Rightarrow> int list \<Rightarrow> unit result" where
  "checkDimsInRange rank dims =
     (if list_all (\<lambda>i. 0 \<le> i \<and> i < rank) dims then Inr () else Inl (Failure ''value is out of range''))"

definition checkCompatiblePairs :: "string \<Rightarrow> int list \<Rightarrow> int list \<Rightarrow> int list \<Rightarrow> int list \<Rightarrow> unit result" where
  "checkCompatiblePairs msg lhsShape rhsShape lhsDims rhsDims =
     foldM (\<lambda>(lhs, rhs) _.
       if verifyCompatibleDims (lhsShape ! nat lhs) (rhsShape ! nat rhs) then Inr () else Inl (Failure msg))
       (zip lhsDims rhsDims) ()"

definition checkDotGeneralConstraints ::
  "('a ShapedType_scheme) \<Rightarrow> ('b ShapedType_scheme) \<Rightarrow> int list \<Rightarrow> int list \<Rightarrow> int list \<Rightarrow> int list \<Rightarrow> unit result" where
  "checkDotGeneralConstraints lhsType rhsType lhsBatchingDimensions rhsBatchingDimensions
     lhsContractingDimensions rhsContractingDimensions =
     (if length lhsBatchingDimensions \<noteq> length rhsBatchingDimensions
      then Inl (Failure ''lhs and rhs should have the same number of batching dimensions'')
      else if length lhsContractingDimensions \<noteq> length rhsContractingDimensions
      then Inl (Failure ''lhs and rhs should have the same number of contracting dimensions'')
      else rbind (checkDimsDistinct lhsBatchingDimensions lhsContractingDimensions) (\<lambda>_.
           rbind (checkDimsDistinct rhsBatchingDimensions rhsContractingDimensions) (\<lambda>_.
           rbind (checkDimsInRange (rt_rank lhsType) lhsBatchingDimensions) (\<lambda>_.
           rbind (checkDimsInRange (rt_rank lhsType) lhsContractingDimensions) (\<lambda>_.
           rbind (checkDimsInRange (rt_rank rhsType) rhsBatchingDimensions) (\<lambda>_.
           rbind (checkDimsInRange (rt_rank rhsType) rhsContractingDimensions) (\<lambda>_.
           rbind (checkCompatiblePairs ''batching dimension sizes must match for lhs/rhs''
                    (getShape lhsType) (getShape rhsType) lhsBatchingDimensions rhsBatchingDimensions) (\<lambda>_.
           checkCompatiblePairs ''contracting dimension sizes must match for lhs/rhs''
                    (getShape lhsType) (getShape rhsType) lhsContractingDimensions rhsContractingDimensions))))))))"

definition bound_at :: "int list \<Rightarrow> int \<Rightarrow> int result" where
  "bound_at bounds dim = (if bounds = [] then Inr kDynamic else vec_nth bounds dim)"

definition free_dims :: "int \<Rightarrow> int list \<Rightarrow> int list \<Rightarrow> int list" where
  "free_dims rank batching contracting =
     filter (\<lambda>i. i \<notin> set batching \<and> i \<notin> set contracting) (upto_int rank)"

definition inferDotGeneralOp ::
  "RankedTensorType \<Rightarrow> RankedTensorType \<Rightarrow> int list \<Rightarrow> int list \<Rightarrow> int list \<Rightarrow> int list \<Rightarrow>
   (int list \<times> Encoding) result" where
  "inferDotGeneralOp lhsType rhsType lhsBatchingDimensions rhsBatchingDimensions
     lhsContractingDimensions rhsContractingDimensions =
     rbind (checkDotGeneralConstraints lhsType rhsType lhsBatchingDimensions rhsBatchingDimensions
       lhsContractingDimensions rhsContractingDimensions) (\<lambda>_.
     let lhsShape = getShape lhsType; rhsShape = getShape rhsType;
         lhsBounds = encodingToBounds (getEncoding lhsType);
         rhsBounds = encodingToBounds (getEncoding rhsType)
     in rbind (mapM (\<lambda>(lhsDim, rhsDim).
          rbind (bound_at lhsBounds lhsDim) (\<lambda>lhsBound. rbind (bound_at rhsBounds rhsDim) (\<lambda>rhsBound.
          rbind (vec_nth lhsShape lhsDim) (\<lambda>l. rbind (vec_nth rhsShape rhsDim) (\<lambda>r.
            inferMostSpecificDimAndBound 0 l r lhsBound rhsBound)))))
          (zip lhsBatchingDimensions rhsBatchingDimensions)) (\<lambda>batch.
        rbind (mapM (\<lambda>i. rbind (vec_nth lhsShape i) (\<lambda>d. rbind (bound_at lhsBounds i) (\<lambda>b. Inr (d, b))))
          (free_dims (rt_rank lhsType) lhsBatchingDimensions lhsContractingDimensions)) (\<lambda>lhsFree.
        rbind (mapM (\<lambda>i. rbind (vec_nth rhsShape i) (\<lambda>d. rbind (bound_at rhsBounds i) (\<lambda>b. Inr (d, b))))
          (free_dims (rt_rank rhsType) rhsBatchingDimensions rhsContractingDimensions)) (\<lambda>rhsFree.
        let dims = batch @ lhsFree @ rhsFree;
            outputEncoding = (if getEncoding lhsType \<noteq> NoEncoding then getEncoding lhsType else getEncoding rhsType)
        in rbind (boundsToEncoding outputEncoding (map snd dims)) (\<lambda>boundsAttr.
             Inr (map fst dims, boundsAttr))))))"

text \<open>\<open>dynamic_slice\<close> and \<open>dynamic_update_slice\<close>.\<close>

definition inferDynamicSliceOp ::
  "('a ShapedType_scheme) \<Rightarrow> Type list \<Rightarrow> int list \<Rightarrow> ShapedType result" where
  "inferDynamicSliceOp operandType startIndicesTypes sliceSizes =
     (if length startIndicesTypes \<noteq> length sliceSizes
      then Inl (Failure ''has mismatched number of slice sizes and number of start indices'')
      else if rt_rank operandType \<noteq> int (length startIndicesTypes)
      then Inl (Failure ''has mismatched number of start indices and the rank of operand'')
      else if \<not> tensorsHaveSameElType startIndicesTypes True
      then Inl (Failure ''start indices must have same element type'')
      else rbind (foldM (\<lambda>(sliceSize, dimSize) _.
             if sliceSize < 0 then Inl (Failure ''has negative size index to dynamic slice'')
             else if \<not> isDynamicDimSize dimSize \<and> dimSize < sliceSize
             then Inl (Failure ''has slice size greater than dimension size'')
             else Inr ()) (zip sliceSizes (getShape operandType)) ()) (\<lambda>_.
           Inr \<lparr>getShape = sliceSizes, getElementType = getElementType operandType\<rparr>))"

definition inferDynamicUpdateSliceOp ::
  "RankedTensorType \<Rightarrow> ('a ShapedType_scheme) \<Rightarrow> Type list \<Rightarrow> RankedTensorType result" where
  "inferDynamicUpdateSliceOp operandType updateType startIndicesTypes =
     (if rt_rank updateType \<noteq> rt_rank operandType
      then Inl (Failure ''update rank does not match operand rank'')
      else if int (length startIndicesTypes) \<noteq> rt_rank operandType
      then Inl (Failure ''expects number of start_indices to match operand rank'')
      else if \<not> tensorsHaveSameElType startIndicesTypes True
      then Inl (Failure ''start indices must have same element type'')
      else rbind (foldM (\<lambda>(operandDim, updateDim) _.
             if isDynamicDimSize updateDim then Inr ()
             else if isStaticDimSize operandDim then
               (if updateDim < 0 \<or> operandDim < updateDim
                then Inl (Failure ''expects size of update to be in range'') else Inr ())
             else if updateDim < 0 then Inl (Failure ''expects size of update to be non-negative'')
             else Inr ()) (zip (getShape operandType) (getShape updateType)) ()) (\<lambda>_.
           Inr (mkRankedTensorType (getShape operandType) (getElementType operandType) (getEncoding operandType))))"

text \<open>\<open>pad\<close>: the pair of the size and the bound of one result dimension; only one of them is inferred.\<close>

definition pad_dim :: "int \<Rightarrow> int option \<Rightarrow> int \<Rightarrow> int \<Rightarrow> int \<Rightarrow> (int \<times> int) result" where
  "pad_dim inputSize inputBound low high interior =
     (if interior < 0 then Inl (Failure ''Interior padding cannot be negative'')
      else let isStaticDim = \<not> isDynamicDimSize inputSize;
               isStaticBound = (case inputBound of None \<Rightarrow> False | Some b \<Rightarrow> \<not> isDynamicDimSize b)
           in if isStaticDim \<or> isStaticBound then
                let operandSizeOrBound = (if isStaticDim then inputSize else the inputBound);
                    resultSizeOrBound = operandSizeOrBound + low + high + max (operandSizeOrBound - 1) 0 * interior
                in if resultSizeOrBound < 0 then Inl (Failure ''Padding result in negative size or bound'')
                   else if isStaticDim then Inr (resultSizeOrBound, kDynamic)
                   else Inr (kDynamic, resultSizeOrBound)
              else Inr (kDynamic, kDynamic))"

definition inferPadOp ::
  "RankedTensorType \<Rightarrow> int list \<Rightarrow> int list \<Rightarrow> int list \<Rightarrow> RankedTensorType result" where
  "inferPadOp inputType edgePaddingLow edgePaddingHigh interiorPadding =
     (let rank = rt_rank inputType; inputBounds = encodingToBounds (getEncoding inputType) in
      if int (length edgePaddingLow) \<noteq> rank
      then Inl (Failure ''edge_padding_low length must match operand rank'')
      else rbind (mapM (\<lambda>i.
             rbind (vec_nth edgePaddingLow i) (\<lambda>low. rbind (vec_nth edgePaddingHigh i) (\<lambda>high.
             rbind (vec_nth interiorPadding i) (\<lambda>interior.
             rbind (vec_nth (getShape inputType) i) (\<lambda>size.
             rbind (if inputBounds = [] then Inr None else rbind (vec_nth inputBounds i) (\<lambda>b. Inr (Some b))) (\<lambda>bound.
               pad_dim size bound low high interior))))))
             (upto_int rank)) (\<lambda>dims.
           rbind (boundsToEncoding (getEncoding inputType) (if inputBounds = [] then [] else map snd dims)) (\<lambda>encoding.
             Inr (mkRankedTensorType (map fst dims) (getElementType inputType) encoding))))"

text \<open>\<open>slice\<close>; \<^verbatim>\<open>llvm::divideCeil\<close> of a non-negative numerator and a positive denominator.\<close>

definition divideCeil :: "int \<Rightarrow> int \<Rightarrow> int" where
  "divideCeil n d = (n + d - 1) div d"

definition slice_dim :: "int \<Rightarrow> int option \<Rightarrow> int \<Rightarrow> int \<Rightarrow> int \<Rightarrow> int result" where
  "slice_dim inputSize inputBound start limit stride =
     (if start < 0 then Inl (Failure ''negative start index'')
      else let isStaticDim = \<not> isDynamicDimSize inputSize;
               isStaticBound = (case inputBound of None \<Rightarrow> False | Some b \<Rightarrow> \<not> isDynamicDimSize b);
               operandSizeOrBound = (if isStaticDim then inputSize else the inputBound)
           in if (isStaticDim \<or> isStaticBound) \<and> operandSizeOrBound < limit
              then Inl (Failure ''limit index is larger than dimension size or bound'')
              else if limit < start then Inl (Failure ''start index is larger than limit index'')
              else if stride \<le> 0 then Inl (Failure ''stride must be positive'')
              else Inr (divideCeil (limit - start) stride))"

definition inferSliceOp ::
  "RankedTensorType \<Rightarrow> int list \<Rightarrow> int list \<Rightarrow> int list \<Rightarrow> RankedTensorType result" where
  "inferSliceOp rankedTy startIndices limitIndices strides =
     (let rank = rt_rank rankedTy; inputBounds = encodingToBounds (getEncoding rankedTy) in
      if int (length startIndices) \<noteq> rank
      then Inl (Failure ''the number of elements in start_indices does not match the rank of the operand'')
      else rbind (mapM (\<lambda>i.
             rbind (vec_nth startIndices i) (\<lambda>start. rbind (vec_nth limitIndices i) (\<lambda>limit.
             rbind (vec_nth strides i) (\<lambda>stride.
             rbind (vec_nth (getShape rankedTy) i) (\<lambda>size.
             rbind (if inputBounds = [] then Inr None else rbind (vec_nth inputBounds i) (\<lambda>b. Inr (Some b))) (\<lambda>bound.
               slice_dim size bound start limit stride))))))
             (upto_int rank)) (\<lambda>shape.
           rbind (boundsToEncoding (getEncoding rankedTy) (replicate (length inputBounds) kDynamic)) (\<lambda>encoding.
             Inr (mkRankedTensorType shape (getElementType rankedTy) encoding))))"

text \<open>\<open>transpose\<close>; \<^verbatim>\<open>std::is_permutation\<close> counts the occurrences of every element.\<close>

definition is_permutation :: "int list \<Rightarrow> int list \<Rightarrow> bool" where
  "is_permutation rng permutation \<longleftrightarrow>
     length permutation = length rng \<and> list_all (\<lambda>x. count_list permutation x = count_list rng x) rng"

definition inferTransposeOp :: "RankedTensorType \<Rightarrow> int list \<Rightarrow> RankedTensorType result" where
  "inferTransposeOp rankedTy permutation =
     (let rank = rt_rank rankedTy; inputBounds = encodingToBounds (getEncoding rankedTy) in
      if int (length permutation) \<noteq> rank
      then Inl (Failure ''TransposeOp operand rank does not match permutation size'')
      else if \<not> is_permutation (upto_int rank) permutation
      then Inl (Failure ''attribute permutation must be a permutation'')
      else rbind (mapM (vec_nth (getShape rankedTy)) permutation) (\<lambda>resultShape.
           rbind (if inputBounds = [] then Inr [] else mapM (vec_nth inputBounds) permutation) (\<lambda>resultBounds.
           rbind (boundsToEncoding (getEncoding rankedTy) resultBounds) (\<lambda>encoding.
             Inr (mkRankedTensorType resultShape (getElementType rankedTy) encoding)))))"

definition inferReverseOp :: "RankedTensorType \<Rightarrow> RankedTensorType result" where
  "inferReverseOp operandType = Inr operandType"

section \<open>Verifiers\<close>

definition verifyReverseOp :: "('a ShapedType_scheme) \<Rightarrow> int list \<Rightarrow> unit result" where
  "verifyReverseOp operandTy dimensions =
     (if length (remdups dimensions) \<noteq> length dimensions then Inl (Failure ''dimensions should be unique'')
      else foldM (\<lambda>dim _.
        if dim < 0 then Inl (Failure ''all dimensions should be non-negative'')
        else if rt_rank operandTy \<le> dim then Inl (Failure ''all dimensions should be between [0, rank)'')
        else Inr ()) dimensions ())"

definition verifyBroadcastInDimOp :: "RankedTensorType \<Rightarrow> int list \<Rightarrow> RankedTensorType \<Rightarrow> unit result" where
  "verifyBroadcastInDimOp operandType broadcastDimensions resultType =
     rbind (verifyQPerTensorScaleAndZeroPointConstraints (getElementType operandType) (getElementType resultType)) (\<lambda>_.
     if int (length broadcastDimensions) \<noteq> rt_rank operandType
     then Inl (Failure ''broadcast_dimensions size does not match operand rank'')
     else if \<not> isUnique broadcastDimensions
     then Inl (Failure ''broadcast_dimensions should not have duplicates'')
     else rbind (foldM (\<lambda>(dimIndex, dimSize) _.
            if dimIndex < 0 \<or> rt_rank resultType \<le> dimIndex
            then Inl (Failure ''broadcast_dimensions contains invalid value'')
            else if \<not> isDynamicDimSize dimSize \<and> dimSize \<noteq> 1 \<and> dimSize \<noteq> getShape resultType ! nat dimIndex
            then Inl (Failure ''size of operand dimension is not equal to 1 or size of result dimension'')
            else Inr ()) (zip broadcastDimensions (getShape operandType)) ()) (\<lambda>_.
          if isPerAxisType (getElementType resultType)
          then verifyBroadcastInDimOpQuantConstraints operandType resultType broadcastDimensions
          else Inr ()))"

fun isComplexType :: "Type \<Rightarrow> bool" where
  "isComplexType (ComplexType _) = True"
| "isComplexType _ = False"

definition verifyBitcastConvertOp :: "('a ShapedType_scheme) \<Rightarrow> ('b ShapedType_scheme) \<Rightarrow> unit result" where
  "verifyBitcastConvertOp operandType targetType =
     (let targetElt = getElementType targetType; operandElt = getElementType operandType in
      if isComplexType targetElt \<noteq> isComplexType operandElt
      then Inl (Failure ''cannot convert between real and complex types'')
      else rbind (getTypeBitWidth targetElt) (\<lambda>targetEltBitWidth.
           rbind (getTypeBitWidth operandElt) (\<lambda>operandEltBitWidth.
           let (smallerEltShape, biggerEltShape) =
                 (if operandEltBitWidth < targetEltBitWidth then (getShape operandType, getShape targetType)
                  else (getShape targetType, getShape operandType));
               smallerEltBitWidth = min targetEltBitWidth operandEltBitWidth;
               biggerEltBitWidth = max targetEltBitWidth operandEltBitWidth
           in rbind (if operandEltBitWidth \<noteq> targetEltBitWidth then
                 (if length smallerEltShape \<noteq> length biggerEltShape + 1
                  then Inl (Failure ''rank of smaller element type should be 1 more than rank of larger element type'')
                  else if \<not> isDynamicDimSize (last smallerEltShape) \<and>
                          last smallerEltShape * int smallerEltBitWidth \<noteq> int biggerEltBitWidth
                  then Inl (Failure ''requires compatible bit widths'')
                  else Inr (butlast smallerEltShape))
               else Inr smallerEltShape) (\<lambda>smallerEltPrefix.
             foldM (\<lambda>(targetDim, operandDim) _.
               if verifyCompatibleDims targetDim operandDim then Inr ()
               else Inl (Failure ''operand and result shapes must match except for the innermost dimension''))
               (zip smallerEltPrefix biggerEltShape) ()))))"

definition verifyIotaOp :: "int \<Rightarrow> ('a ShapedType_scheme) \<Rightarrow> unit result" where
  "verifyIotaOp iotaDimension shape =
     (if rt_rank shape = 0 then Inl (Failure ''does not support scalars.'')
      else if rt_rank shape \<le> iotaDimension
      then Inl (Failure ''iota dimension cannot go beyond the output rank.'')
      else Inr ())"

definition verifyReshapeOp :: "RankedTensorType \<Rightarrow> RankedTensorType \<Rightarrow> unit result" where
  "verifyReshapeOp operandTy resultTy =
     (if \<not> hasStaticShape operandTy \<or> \<not> hasStaticShape resultTy then Inr ()
      else if prod_list (getShape resultTy) \<noteq> prod_list (getShape operandTy)
      then Inl (Failure ''number of output elements does not match expected number of elements'')
      else if isQuantizedType (getElementType operandTy) \<or> isQuantizedType (getElementType resultTy)
      then verifyReshapeOpQuantizationConstraints operandTy resultTy
      else Inr ())"

end
