(* ===== verification/Ops_Structural.thy ===== *)
theory Ops_Structural
  imports Ops_Elementwise Type_Inference
begin

text \<open>
  The operations of \<^verbatim>\<open>stablehlo/reference/Ops.cpp\<close> that move elements: slices, padding, reshaping, transposing,
  reversing, broadcasting, concatenating, gathering and bit casts. The index arithmetic is the source's, with
  its fatal errors; the overloads that infer their result type call the shape functions of \<open>Type_Inference\<close>.
\<close>

section \<open>Indices held in tensors\<close>

definition evalScalar :: "('f, 'd) float_api \<Rightarrow> Tensor \<Rightarrow> Index \<Rightarrow> int result" where
  "evalScalar F tensor i = rbind (Tensor_get F tensor i) (\<lambda>e. rbind (getIntegerValue e) (\<lambda>v. Inr (sval v)))"

definition evalIndex_scalars :: "('f, 'd) float_api \<Rightarrow> Tensor list \<Rightarrow> Index result" where
  "evalIndex_scalars F scalars = mapM (\<lambda>t. evalScalar F t []) scalars"

definition evalIndex :: "('f, 'd) float_api \<Rightarrow> Tensor \<Rightarrow> Index result" where
  "evalIndex F tensor =
     forEachIndex (t_shape tensor) (\<lambda>i res. rbind (evalScalar F tensor i) (\<lambda>v. Inr (res @ [v]))) []"

definition extractElements :: "int list \<Rightarrow> int list \<Rightarrow> Sizes result" where
  "extractElements arr indices = mapM (vec_nth arr) indices"

text \<open>\<^verbatim>\<open>constant(T value, Type)\<close> at the type \<^verbatim>\<open>double\<close> and at the type \<^verbatim>\<open>int64_t\<close>.\<close>

definition constant_double :: "('f, 'd) float_api \<Rightarrow> 'd \<Rightarrow> Type \<Rightarrow> Tensor result" where
  "constant_double F value elementType = rbind (convert_double F elementType value) (constant_of F)"

definition constant_int64 :: "('f, 'd) float_api \<Rightarrow> int \<Rightarrow> Type \<Rightarrow> Tensor result" where
  "constant_int64 F value elementType = rbind (convert_int64 F elementType value) (constant_of F)"

text \<open>A shape function's failure, reported as a fatal error by the overloads that infer their type.\<close>

definition or_fatal :: "string \<Rightarrow> 'a result \<Rightarrow> 'a result" where
  "or_fatal msg m = (case m of Inl (Failure _) \<Rightarrow> Inl (Fatal msg) | _ \<Rightarrow> m)"

definition as_ranked :: "ShapedType \<Rightarrow> RankedTensorType" where
  "as_ranked ty = mkRankedTensorType (getShape ty) (getElementType ty) NoEncoding"

definition as_shaped :: "RankedTensorType \<Rightarrow> ShapedType" where
  "as_shaped ty = \<lparr>getShape = getShape ty, getElementType = getElementType ty\<rparr>"

section \<open>Slices\<close>

definition sliceOp :: "('f, 'd) float_api \<Rightarrow> Tensor \<Rightarrow> Sizes \<Rightarrow> Sizes \<Rightarrow> ShapedType \<Rightarrow> Tensor result" where
  "sliceOp F operand startIndices strides resultType =
     fill_result F resultType (\<lambda>resultIndex.
       rbind (Sizes_times resultIndex strides) (\<lambda>scaled.
       rbind (Sizes_plus startIndices scaled) (Tensor_get F operand)))"

definition sliceOp_limit :: "('f, 'd) float_api \<Rightarrow> Tensor \<Rightarrow> Sizes \<Rightarrow> Sizes \<Rightarrow> Sizes \<Rightarrow> Tensor result" where
  "sliceOp_limit F operand startIndices limitIndices strides =
     rbind (or_fatal ''Could not infer SliceOp's return type''
              (inferSliceOp (as_ranked (t_type operand)) startIndices limitIndices strides)) (\<lambda>inferred.
       sliceOp F operand startIndices strides (as_shaped inferred))"

definition kColon :: int where
  "kColon = - 1"

definition sliceOp_colon :: "('f, 'd) float_api \<Rightarrow> Tensor \<Rightarrow> Index \<Rightarrow> Tensor result" where
  "sliceOp_colon F operand index =
     rbind (mapM (\<lambda>i. rbind (vec_nth index i) (\<lambda>x.
                    if x = - 1 then rbind (vec_nth (t_shape operand) i) (\<lambda>n. Inr (0, n)) else Inr (x, x + 1)))
              (upto_int (getRank operand))) (\<lambda>ranges.
       sliceOp_limit F operand (map fst ranges) (map snd ranges) (Sizes_fill (length (t_shape operand)) 1))"

definition dynamicSliceOp ::
  "('f, 'd) float_api \<Rightarrow> Tensor \<Rightarrow> Tensor list \<Rightarrow> Sizes \<Rightarrow> ShapedType \<Rightarrow> Tensor result" where
  "dynamicSliceOp F operand startIndices sliceSizes resultType =
     rbind (evalIndex_scalars F startIndices) (\<lambda>start.
     rbind (Sizes_minus (t_shape operand) sliceSizes) (\<lambda>mx.
     rbind (Sizes_clamp_low 0 start mx) (\<lambda>adjustedStartIndices.
       fill_result F resultType (\<lambda>resultIndex.
         rbind (Sizes_plus adjustedStartIndices resultIndex) (Tensor_get F operand)))))"

definition dynamicUpdateSliceOp ::
  "('f, 'd) float_api \<Rightarrow> Tensor \<Rightarrow> Tensor \<Rightarrow> Tensor list \<Rightarrow> ShapedType \<Rightarrow> Tensor result" where
  "dynamicUpdateSliceOp F operand update startIndices resultType =
     rbind (evalIndex_scalars F startIndices) (\<lambda>start.
     rbind (Sizes_minus (t_shape operand) (t_shape update)) (\<lambda>mx.
     rbind (Sizes_clamp_low 0 start mx) (\<lambda>adjustedStartIndices.
       fill_result F resultType (\<lambda>resultIndex.
         rbind (Sizes_minus resultIndex adjustedStartIndices) (\<lambda>updateIndex.
           if inBounds updateIndex (t_shape update) then Tensor_get F update updateIndex
           else Tensor_get F operand resultIndex)))))"

definition split :: "('f, 'd) float_api \<Rightarrow> Tensor \<Rightarrow> int \<Rightarrow> int \<Rightarrow> Tensor list result" where
  "split F x numResults axis =
     rbind (vec_nth (t_shape x) axis) (\<lambda>size.
       if numResults = 0 then Inl (UB ''modulo by zero'')
       else if trunc_mod size numResults \<noteq> 0
       then Inl (Fatal ''input dimension at axis should be divisible by numResults'')
       else let part = trunc_div size numResults; resultShape = (t_shape x)[nat axis := part] in
         mapM (\<lambda>i.
           rbind (constant_double F (d_lit F 0) (IntegerType Signless 64)) (\<lambda>zero.
           rbind (constant_int64 F (i * part) (IntegerType Signless 64)) (\<lambda>start.
             dynamicSliceOp F x ((replicate (length (t_shape x)) zero)[nat axis := start]) resultShape
               \<lparr>getShape = resultShape, getElementType = t_elementType x\<rparr>)))
           (upto_int numResults))"

section \<open>Padding\<close>

definition padOp ::
  "('f, 'd) float_api \<Rightarrow> Tensor \<Rightarrow> Tensor \<Rightarrow> Sizes \<Rightarrow> Sizes \<Rightarrow> ShapedType \<Rightarrow> Tensor result" where
  "padOp F operand paddingValue edgePaddingLow interiorPadding resultType =
     rbind (Tensor_get F paddingValue []) (\<lambda>pad.
     rbind (makeSplat F resultType pad)
       (forEachIndex (t_shape operand) (\<lambda>operandIndex result.
          rbind (Sizes_plus_scalar interiorPadding 1) (\<lambda>stride.
          rbind (Sizes_times operandIndex stride) (\<lambda>scaled.
          rbind (Sizes_plus edgePaddingLow scaled) (\<lambda>resultIndex.
            if inBounds resultIndex (getShape resultType)
            then rbind (Tensor_get F operand operandIndex) (Tensor_set F result resultIndex)
            else Inr result))))))"

definition padOp_high ::
  "('f, 'd) float_api \<Rightarrow> Tensor \<Rightarrow> Tensor \<Rightarrow> Sizes \<Rightarrow> Sizes \<Rightarrow> Sizes \<Rightarrow> Tensor result" where
  "padOp_high F operand paddingValue edgePaddingLow edgePaddingHigh interiorPadding =
     rbind (or_fatal ''Could not infer PadOp's return type''
              (inferPadOp (as_ranked (t_type operand)) edgePaddingLow edgePaddingHigh interiorPadding)) (\<lambda>inferred.
       padOp F operand paddingValue edgePaddingLow interiorPadding (as_shaped inferred))"

section \<open>Rearranging\<close>

definition broadcastInDimOp ::
  "('f, 'd) float_api \<Rightarrow> Tensor \<Rightarrow> Axes \<Rightarrow> ShapedType \<Rightarrow> Tensor result" where
  "broadcastInDimOp F operand broadcastDimensions resultType =
     fill_result F resultType (\<lambda>resultIndex.
       rbind (foldM (\<lambda>d operandIndex.
                rbind (vec_nth (t_shape operand) d) (\<lambda>size.
                  if size = 1 then Inr operandIndex
                  else rbind (vec_nth broadcastDimensions d) (\<lambda>dim.
                       rbind (vec_nth resultIndex dim) (vec_set operandIndex d))))
              (upto_int (getRank operand)) (replicate (length (t_shape operand)) 0))
         (Tensor_get F operand))"

definition concatenateOp ::
  "('f, 'd) float_api \<Rightarrow> Tensor list \<Rightarrow> int \<Rightarrow> ShapedType \<Rightarrow> Tensor result" where
  "concatenateOp F inputs dimension resultType =
     rbind (newTensor resultType) (\<lambda>result.
     rbind (foldM (\<lambda>input (dimensionOffset, r).
              rbind (forEachIndex (t_shape input) (\<lambda>inputIndex r'.
                       rbind (vec_nth inputIndex dimension) (\<lambda>x.
                       rbind (vec_set inputIndex dimension (x + dimensionOffset)) (\<lambda>resultIndex.
                       rbind (Tensor_get F input inputIndex) (Tensor_set F r' resultIndex)))) r) (\<lambda>r'.
              rbind (vec_nth (t_shape input) dimension) (\<lambda>size. Inr (dimensionOffset + size, r'))))
            inputs (0, result))
       (\<lambda>(_, r). Inr r))"

definition iotaOp :: "('f, 'd) float_api \<Rightarrow> int \<Rightarrow> ShapedType \<Rightarrow> Tensor result" where
  "iotaOp F iotaDimension resultType =
     fill_result F resultType (\<lambda>i. rbind (vec_nth i iotaDimension) (convert_int64 F (getElementType resultType)))"

definition getDimensionSizeOp :: "('f, 'd) float_api \<Rightarrow> Tensor \<Rightarrow> int \<Rightarrow> ShapedType \<Rightarrow> Tensor result" where
  "getDimensionSizeOp F operand dimension resultType =
     rbind (newTensor resultType) (\<lambda>result.
     rbind (vec_nth (t_shape operand) dimension) (\<lambda>size.
     rbind (convert_int64 F (getElementType resultType) size) (Tensor_set F result [])))"

definition reverseOp :: "('f, 'd) float_api \<Rightarrow> Tensor \<Rightarrow> Axes \<Rightarrow> ShapedType \<Rightarrow> Tensor result" where
  "reverseOp F operand dimensions resultType =
     fill_result F resultType (\<lambda>resultIndex.
       rbind (foldM (\<lambda>d operandIndex.
                rbind (vec_nth (getShape resultType) d) (\<lambda>size.
                rbind (vec_nth operandIndex d) (\<lambda>x. vec_set operandIndex d (size - x - 1))))
              dimensions resultIndex)
         (Tensor_get F operand))"

definition transposeOp :: "('f, 'd) float_api \<Rightarrow> Tensor \<Rightarrow> Axes \<Rightarrow> ShapedType \<Rightarrow> Tensor result" where
  "transposeOp F operand permutation resultType =
     rbind (newTensor resultType)
       (forEachIndex (t_shape operand) (\<lambda>operandIndex result.
          rbind (mapM (\<lambda>d. rbind (vec_nth permutation d) (vec_nth operandIndex))
                  (upto_int (getRank result))) (\<lambda>resultIndex.
          rbind (Tensor_get F operand operandIndex) (Tensor_set F result resultIndex))))"

text \<open>\<^verbatim>\<open>reshape\<close> walks two iterators in step; a step past the end of the operand is a fatal error.\<close>

definition reshapeOp :: "('f, 'd) float_api \<Rightarrow> Tensor \<Rightarrow> ShapedType \<Rightarrow> Tensor result" where
  "reshapeOp F operand resultType =
     rbind (newTensor resultType) (\<lambda>result.
     rbind (forEachIndex (getShape resultType) (\<lambda>resultIndex (operandIt, r).
              rbind (deref operandIt) (\<lambda>operandIndex.
              rbind (Tensor_get F operand operandIndex) (\<lambda>e.
              rbind (Tensor_set F r resultIndex e) (\<lambda>r'.
              rbind (incr operandIt) (\<lambda>operandIt'. Inr (operandIt', r'))))))
            (index_begin (t_shape operand), result))
       (\<lambda>(_, r). Inr r))"

section \<open>Bit casts\<close>

text \<open>\<^verbatim>\<open>*it++\<close>: the element the iterator points to, and the iterator moved on.\<close>

definition next_of :: "IndexSpaceIterator \<Rightarrow> (Index \<times> IndexSpaceIterator) result" where
  "next_of it = rbind (post_incr it) (\<lambda>(old, it'). rbind (deref old) (\<lambda>i. Inr (i, it')))"

definition bitcastConvertOp :: "('f, 'd) float_api \<Rightarrow> Tensor \<Rightarrow> ShapedType \<Rightarrow> Tensor result" where
  "bitcastConvertOp F operand resultType =
     rbind (newTensor resultType) (\<lambda>result.
     let resultElementType = getElementType resultType in
     rbind (numBits resultElementType) (\<lambda>resultNumBits.
     rbind (numBits (t_elementType operand)) (\<lambda>operandNumBits.
       if resultNumBits < operandNumBits then
         rbind (forEachIndex (t_shape operand) (\<lambda>operandIndex st.
                  rbind (Tensor_get F operand operandIndex) (\<lambda>e.
                  rbind (bitcastConvertOneToMany F resultElementType e) (\<lambda>resultElements.
                    foldM (\<lambda>resultElement (resultIt, r).
                      rbind (next_of resultIt) (\<lambda>(i, resultIt').
                      rbind (Tensor_set F r i resultElement) (\<lambda>r'. Inr (resultIt', r'))))
                      resultElements st)))
                (index_begin (getShape resultType), result))
           (\<lambda>(_, r). Inr r)
       else if operandNumBits < resultNumBits then
         rbind (forEachIndex (getShape resultType) (\<lambda>resultIndex (operandIt, r).
                  rbind (foldM (\<lambda>_ (it, es).
                           rbind (next_of it) (\<lambda>(i, it'). rbind (Tensor_get F operand i) (\<lambda>e. Inr (it', es @ [e]))))
                         [0..<resultNumBits div operandNumBits] (operandIt, [])) (\<lambda>(operandIt', operandElements).
                  rbind (bitcastConvertManyToOne F resultElementType operandElements) (\<lambda>e.
                  rbind (Tensor_set F r resultIndex e) (\<lambda>r'. Inr (operandIt', r')))))
                (index_begin (t_shape operand), result))
           (\<lambda>(_, r). Inr r)
       else forEachIndex (getShape resultType) (\<lambda>i r.
              rbind (Tensor_get F operand i) (\<lambda>e.
              rbind (bitcastConvertOneToOne F resultElementType e) (Tensor_set F r i))) result)))"

section \<open>Gather\<close>

text \<open>
  The indices that \<open>gather\<close> and \<open>scatter\<close> compute in the same way: the index into the start indices, with a colon at
  the index vector dimension; the index along batching dimensions; the offsets spread over the dimensions
  that are not collapsed.
\<close>

definition startIndicesIndex_of :: "Index \<Rightarrow> int \<Rightarrow> Tensor \<Rightarrow> Index" where
  "startIndicesIndex_of batchIndex indexVectorDim startIndices =
     (if indexVectorDim < getRank startIndices
      then take (nat indexVectorDim) batchIndex @ kColon # drop (nat indexVectorDim) batchIndex
      else batchIndex)"

definition fullBatchingIndex_of :: "int \<Rightarrow> Axes \<Rightarrow> Axes \<Rightarrow> Index \<Rightarrow> Index result" where
  "fullBatchingIndex_of rank operandBatchingDims startIndicesBatchingDims startIndicesIndex =
     mapM (\<lambda>d. case find_index d operandBatchingDims of None \<Rightarrow> Inr 0
               | Some iBatching \<Rightarrow> rbind (vec_nth startIndicesBatchingDims (int iBatching)) (vec_nth startIndicesIndex))
       (upto_int rank)"

fun spread_offsets :: "Axes \<Rightarrow> (int \<Rightarrow> bool) \<Rightarrow> Index \<Rightarrow> nat \<Rightarrow> Index result" where
  "spread_offsets [] skip offsetIndex oi = Inr []"
| "spread_offsets (d # ds) skip offsetIndex oi =
     (if skip d then rbind (spread_offsets ds skip offsetIndex oi) (\<lambda>rest. Inr (0 # rest))
      else rbind (vec_nth offsetIndex (int oi)) (\<lambda>x.
           rbind (spread_offsets ds skip offsetIndex (Suc oi)) (\<lambda>rest. Inr (x # rest))))"

definition gather_operandIndex ::
  "('f, 'd) float_api \<Rightarrow> Tensor \<Rightarrow> Tensor \<Rightarrow> Axes \<Rightarrow> Axes \<Rightarrow> Axes \<Rightarrow> Axes \<Rightarrow> Axes \<Rightarrow> int \<Rightarrow> Sizes \<Rightarrow> Axes \<Rightarrow>
   Index \<Rightarrow> Index result" where
  "gather_operandIndex F operand startIndices offsetDims collapsedSliceDims operandBatchingDims
     startIndicesBatchingDims startIndexMap indexVectorDim sliceSizes batchDims resultIndex =
     rbind (mapM (vec_nth resultIndex) batchDims) (\<lambda>batchIndex.
     let startIndicesIndex = startIndicesIndex_of batchIndex indexVectorDim startIndices in
     rbind (sliceOp_colon F startIndices startIndicesIndex) (\<lambda>slice.
     rbind (evalIndex F slice) (\<lambda>startIndex.
     rbind (mapM (\<lambda>dOperand. case find_index dOperand startIndexMap of None \<Rightarrow> Inr 0
                    | Some dStart \<Rightarrow>
                        rbind (vec_nth startIndex (int dStart)) (\<lambda>s.
                        rbind (vec_nth (t_shape operand) dOperand) (\<lambda>n.
                        rbind (vec_nth sliceSizes dOperand) (\<lambda>m.
                          if n - m < 0 then Inl (UB ''std::clamp with hi < lo'')
                          else Inr (min (max s 0) (n - m))))))
              (getAxes operand)) (\<lambda>fullStartIndex.
     rbind (fullBatchingIndex_of (getRank operand) operandBatchingDims startIndicesBatchingDims startIndicesIndex)
       (\<lambda>fullBatchingIndex.
     rbind (mapM (vec_nth resultIndex) offsetDims) (\<lambda>offsetIndex.
     rbind (spread_offsets (getAxes operand) (\<lambda>i. i \<in> set collapsedSliceDims \<or> i \<in> set operandBatchingDims)
              offsetIndex 0) (\<lambda>fullOffsetIndex.
     rbind (Sizes_plus fullStartIndex fullBatchingIndex) (\<lambda>partial.
       Sizes_plus partial fullOffsetIndex))))))))"

definition gatherOp ::
  "('f, 'd) float_api \<Rightarrow> Tensor \<Rightarrow> Tensor \<Rightarrow> Axes \<Rightarrow> Axes \<Rightarrow> Axes \<Rightarrow> Axes \<Rightarrow> Axes \<Rightarrow> int \<Rightarrow> Sizes \<Rightarrow> bool \<Rightarrow>
   ShapedType \<Rightarrow> Tensor result" where
  "gatherOp F operand startIndices offsetDims collapsedSliceDims operandBatchingDims startIndicesBatchingDims
     startIndexMap indexVectorDim sliceSizes indicesAreSorted resultType =
     (let batchDims = filter (\<lambda>d. d \<notin> set offsetDims) (upto_int (int (length (getShape resultType)))) in
      fill_result F resultType (\<lambda>resultIndex.
        rbind (gather_operandIndex F operand startIndices offsetDims collapsedSliceDims operandBatchingDims
                 startIndicesBatchingDims startIndexMap indexVectorDim sliceSizes batchDims resultIndex)
          (Tensor_get F operand)))"

end
