(* ===== verification/Ops_Linear.thy ===== *)
theory Ops_Linear
  imports Ops_Structural
begin

text \<open>
  \<open>dot_general\<close> and \<open>triangular_solve\<close> of \<^verbatim>\<open>stablehlo/reference/Ops.cpp\<close>. The dot product of two slices is computed by a loop
  that advances both indices by hand; it runs with fuel that the number of contracted positions bounds.
\<close>

section \<open>Dot product\<close>

text \<open>
  The lambda \<^verbatim>\<open>incrementIndices\<close>: its loop, from dimension \<open>i - 1\<close> down to \<open>0\<close>, with the new indices and whether it succeeded.
\<close>

fun increment_loop ::
  "Sizes \<Rightarrow> Axes \<Rightarrow> Axes \<Rightarrow> nat \<Rightarrow> Index \<Rightarrow> Index \<Rightarrow> (bool \<times> Index \<times> Index) result" where
  "increment_loop lhsShape lhsContracting rhsContracting 0 lhsIndex rhsIndex = Inr (True, lhsIndex, rhsIndex)"
| "increment_loop lhsShape lhsContracting rhsContracting (Suc i) lhsIndex rhsIndex =
     rbind (vec_nth lhsContracting (int i)) (\<lambda>l.
     rbind (vec_nth rhsContracting (int i)) (\<lambda>r.
     rbind (vec_nth lhsIndex l) (\<lambda>x.
     rbind (vec_set lhsIndex l (x + 1)) (\<lambda>lhsIndex1.
     rbind (vec_nth rhsIndex r) (\<lambda>y.
     rbind (vec_set rhsIndex r (y + 1)) (\<lambda>rhsIndex1.
     rbind (vec_nth lhsShape l) (\<lambda>size.
       if x + 1 < size then Inr (True, lhsIndex1, rhsIndex1)
       else if i = 0 then Inr (False, lhsIndex1, rhsIndex1)
       else rbind (vec_set lhsIndex1 l 0) (\<lambda>lhsIndex2.
            rbind (vec_set rhsIndex1 r 0) (\<lambda>rhsIndex2.
              increment_loop lhsShape lhsContracting rhsContracting i lhsIndex2 rhsIndex2)))))))))"

definition incrementIndices :: "Sizes \<Rightarrow> Axes \<Rightarrow> Axes \<Rightarrow> Index \<Rightarrow> Index \<Rightarrow> (bool \<times> Index \<times> Index) result" where
  "incrementIndices lhsShape lhsContracting rhsContracting lhsIndex rhsIndex =
     (if lhsContracting = [] then Inr (False, lhsIndex, rhsIndex)
      else increment_loop lhsShape lhsContracting rhsContracting (length lhsContracting) lhsIndex rhsIndex)"

definition multiply_add ::
  "('f, 'd) float_api \<Rightarrow> Type \<Rightarrow> Tensor \<Rightarrow> Tensor \<Rightarrow> Index \<Rightarrow> Index \<Rightarrow> 'f Element \<Rightarrow> 'f Element result" where
  "multiply_add F elementType lhs rhs lhsIndex rhsIndex acc =
     rbind (Tensor_get F lhs lhsIndex) (\<lambda>l.
     rbind (convert_Element F elementType l) (\<lambda>l'.
     rbind (Tensor_get F rhs rhsIndex) (\<lambda>r.
     rbind (convert_Element F elementType r) (\<lambda>r'.
     rbind (el_mul F l' r') (el_add F acc)))))"

fun dot_loop ::
  "('f, 'd) float_api \<Rightarrow> Type \<Rightarrow> Tensor \<Rightarrow> Tensor \<Rightarrow> Axes \<Rightarrow> Axes \<Rightarrow> nat \<Rightarrow> Index \<Rightarrow> Index \<Rightarrow> 'f Element \<Rightarrow>
   'f Element result" where
  "dot_loop F elementType lhs rhs lhsContracting rhsContracting 0 lhsIndex rhsIndex acc = Inl OutOfFuel"
| "dot_loop F elementType lhs rhs lhsContracting rhsContracting (Suc fuel) lhsIndex rhsIndex acc =
     rbind (multiply_add F elementType lhs rhs lhsIndex rhsIndex acc) (\<lambda>acc'.
     rbind (incrementIndices (t_shape lhs) lhsContracting rhsContracting lhsIndex rhsIndex)
       (\<lambda>(more, lhsIndex', rhsIndex').
          if more then dot_loop F elementType lhs rhs lhsContracting rhsContracting fuel lhsIndex' rhsIndex' acc'
          else Inr acc'))"

text \<open>
  The assignments \<^verbatim>\<open>index[dims[i]] = resultIndex[resultDim + i]\<close>, for the dimensions in order.
\<close>

definition set_dims :: "Axes \<Rightarrow> Index \<Rightarrow> nat \<Rightarrow> Index \<Rightarrow> Index result" where
  "set_dims dims resultIndex resultDim index =
     foldM (\<lambda>(i, d) index. rbind (vec_nth resultIndex (int (resultDim + i))) (vec_set index d))
       (zip [0..<length dims] dims) index"

definition dotGeneralOp ::
  "('f, 'd) float_api \<Rightarrow> Tensor \<Rightarrow> Tensor \<Rightarrow> Axes \<Rightarrow> Axes \<Rightarrow> Axes \<Rightarrow> Axes \<Rightarrow> ShapedType \<Rightarrow> Tensor result" where
  "dotGeneralOp F lhs rhs lhsBatching rhsBatching lhsContracting rhsContracting resultType =
     (let lhsResultDims = free_dims (getRank lhs) lhsBatching lhsContracting;
          rhsResultDims = free_dims (getRank rhs) rhsBatching rhsContracting;
          fuel = Suc (nat (prod_list (map (\<lambda>d. t_shape lhs ! nat d) lhsContracting))) in
      fill_result F resultType (\<lambda>resultIndex.
        if length rhsBatching < length lhsBatching then Inl (UB ''vector subscript out of range'')
        else
          rbind (set_dims lhsBatching resultIndex 0 (Sizes_fill (length (t_shape lhs)) 0)) (\<lambda>lhsIndex.
          rbind (set_dims (take (length lhsBatching) rhsBatching) resultIndex 0
                   (Sizes_fill (length (t_shape rhs)) 0)) (\<lambda>rhsIndex.
          rbind (set_dims lhsResultDims resultIndex (length lhsBatching) lhsIndex) (\<lambda>lhsIndex.
          rbind (set_dims rhsResultDims resultIndex (length lhsBatching + length lhsResultDims) rhsIndex) (\<lambda>rhsIndex.
          rbind (getZeroValueOfType F (getElementType resultType))
            (dot_loop F (getElementType resultType) lhs rhs lhsContracting rhsContracting fuel lhsIndex rhsIndex)))))))"

definition dotGeneralOp_infer ::
  "('f, 'd) float_api \<Rightarrow> Tensor \<Rightarrow> Tensor \<Rightarrow> Axes \<Rightarrow> Axes \<Rightarrow> Type \<Rightarrow> Tensor result" where
  "dotGeneralOp_infer F lhs rhs lhsContracting rhsContracting resultElementType =
     rbind (or_fatal ''Could not infer DotGeneralOp's return type''
              (inferDotGeneralOp (as_ranked (t_type lhs)) (as_ranked (t_type rhs)) [] [] lhsContracting rhsContracting))
       (\<lambda>(dims, _).
          dotGeneralOp F lhs rhs [] [] lhsContracting rhsContracting
            \<lparr>getShape = dims, getElementType = resultElementType\<rparr>)"

section \<open>Triangular solve\<close>

datatype Transpose = NO_TRANSPOSE | TRANSPOSE | ADJOINT

definition conjugate :: "('f, 'd) float_api \<Rightarrow> Tensor \<Rightarrow> Tensor result" where
  "conjugate F operand =
     (case t_elementType operand of
        ComplexType floatType \<Rightarrow>
          let floatResultType = (t_type operand)\<lparr>getElementType := floatType\<rparr> in
          rbind (realOp F operand floatResultType) (\<lambda>re.
          rbind (imagOp F operand floatResultType) (\<lambda>im.
          rbind (negOp F im floatResultType) (\<lambda>nim. complexOp F re nim (t_type operand))))
      | _ \<Rightarrow> Inl (UB ''cast to ComplexType''))"

text \<open>\<^verbatim>\<open>result_index\<close> and \<^verbatim>\<open>a_index\<close>: an index with the batch index in front and two given positions.\<close>

definition matrix_index :: "int \<Rightarrow> int \<Rightarrow> int \<Rightarrow> Index \<Rightarrow> int \<Rightarrow> int \<Rightarrow> Index result" where
  "matrix_index rank dim1 dim2 batchIndex x1 x2 =
     rbind (vec_set (batchIndex @ Sizes_fill (nat rank - length batchIndex) 0) dim1 x1) (\<lambda>index. vec_set index dim2 x2)"

definition transposed_matrix :: "('f, 'd) float_api \<Rightarrow> Tensor \<Rightarrow> Transpose \<Rightarrow> Tensor result" where
  "transposed_matrix F A transposeA =
     (if transposeA = NO_TRANSPOSE then Inr A
      else
        let rank = getRank A; permutation = getAxes A in
        rbind (vec_nth permutation (rank - 1)) (\<lambda>tmp.
        rbind (vec_nth permutation (rank - 2)) (\<lambda>other.
        rbind (vec_set permutation (rank - 1) other) (\<lambda>permutation.
        rbind (vec_set permutation (rank - 2) tmp) (\<lambda>permutation.
        rbind (transposeOp F A permutation (t_type A)) (\<lambda>tA.
          if transposeA = ADJOINT then conjugate F tA else Inr tA))))))"

text \<open>One row of the substitution: the value of \<open>x\<close> at a position, from the ones already in the result.\<close>

definition solve_row ::
  "('f, 'd) float_api \<Rightarrow> Tensor \<Rightarrow> Tensor \<Rightarrow> bool \<Rightarrow> (Index \<Rightarrow> int \<Rightarrow> int \<Rightarrow> Index result) \<Rightarrow>
   (Index \<Rightarrow> int \<Rightarrow> int \<Rightarrow> Index result) \<Rightarrow> Index \<Rightarrow> int \<Rightarrow> int list \<Rightarrow> int \<Rightarrow> Tensor \<Rightarrow> Tensor result" where
  "solve_row F tA b unitDiagonal result_index a_index batchIndex k js i result =
     rbind (result_index batchIndex i k) (\<lambda>index.
     rbind (Tensor_get F b index) (\<lambda>x0.
     rbind (foldM (\<lambda>j x.
              rbind (a_index batchIndex i j) (\<lambda>ai.
              rbind (Tensor_get F tA ai) (\<lambda>a.
              rbind (result_index batchIndex j k) (\<lambda>ri.
              rbind (Tensor_get F result ri) (\<lambda>xj.
              rbind (el_mul F a xj) (el_sub F x)))))) js x0) (\<lambda>x.
     rbind (if unitDiagonal then Inr x
            else rbind (Tensor_get F tA [i, i]) (el_div F x)) (Tensor_set F result index))))"

definition triangularSolveOp ::
  "('f, 'd) float_api \<Rightarrow> Tensor \<Rightarrow> Tensor \<Rightarrow> bool \<Rightarrow> bool \<Rightarrow> bool \<Rightarrow> Transpose \<Rightarrow> ShapedType \<Rightarrow> Tensor result" where
  "triangularSolveOp F A b leftSide lower unitDiagonal transposeA resultType =
     rbind (newTensor resultType) (\<lambda>result.
     rbind (transposed_matrix F A transposeA) (\<lambda>tA.
     let lower' = (if transposeA = NO_TRANSPOSE then lower else \<not> lower); rank = getRank A in
     rbind (vec_nth (t_shape A) (rank - 1)) (\<lambda>N.
     let dim_i = (if leftSide then rank - 2 else rank - 1); dim_k = (if leftSide then rank - 1 else rank - 2);
         backwards = (leftSide \<noteq> lower');
         is = (if backwards then rev (upto_int N) else upto_int N);
         js = (\<lambda>i. if backwards then rev [i + 1..N - 1] else upto_int i);
         result_index = (\<lambda>batchIndex i k. matrix_index rank dim_k dim_i batchIndex k i);
         a_index = (\<lambda>batchIndex i j. matrix_index rank dim_i dim_k batchIndex i j) in
     rbind (vec_nth (t_shape b) dim_k) (\<lambda>size_k.
     if length (t_shape result) < nat (rank - 2) then Inl (UB ''vector subscript out of range'')
     else
       forEachIndex (take (nat (rank - 2)) (t_shape result)) (\<lambda>batchIndex result.
         foldM (\<lambda>k result.
           foldM (\<lambda>i result. solve_row F tA b unitDiagonal result_index a_index batchIndex k (js i) i result) is result)
           (upto_int size_k) result) result))))"

end
