(* ===== verification/Slice_Correct.thy ===== *)
theory Slice_Correct
  imports Ops_Structural
begin

text \<open>
  Correctness of slices, dynamic slices, updates and padding. An operand denotes a function from the indices of
  its shape to elements; each theorem states which function the result denotes. Since \<open>denotes\<close> asks for
  a readable element at every index, the theorems include that no element is left unset and that no index
  error is raised.
\<close>

section \<open>Results that take every element from an operand\<close>

lemma fill_from_denotes:
  assumes "denotes F operand f" "list_all (\<lambda>d. 0 \<le> d) shape"
    and "\<And>i. inBounds i shape \<Longrightarrow> idx i = Inr (g i) \<and> inBounds (g i) (t_shape operand)"
  shows "\<exists>r. fill_result F \<lparr>getShape = shape, getElementType = t_elementType operand\<rparr>
      (\<lambda>i. rbind (idx i) (Tensor_get F operand)) = Inr r \<and>
    t_type r = \<lparr>getShape = shape, getElementType = t_elementType operand\<rparr> \<and> denotes F r (\<lambda>i. f (g i))"
proof (rule fill_result_denotes)
  show "wf_type \<lparr>getShape = shape, getElementType = t_elementType operand\<rparr>"
    using wf_tensor_type [OF denotes_wf [OF assms(1)]] assms(2) by (simp add: wf_type_def)
qed (use assms(3) denotes_get [OF assms(1)] denotes_storable [OF assms(1)] in simp)

lemma denotes_static:
  assumes "denotes F t f"
  shows "list_all (\<lambda>d. 0 \<le> d) (t_shape t)" "d \<in> set (t_shape t) \<Longrightarrow> \<not> isDynamicDimSize d"
proof -
  show "list_all (\<lambda>d. 0 \<le> d) (t_shape t)" using assms by (auto simp: denotes_def wf_tensor_def)
  then show "d \<in> set (t_shape t) \<Longrightarrow> \<not> isDynamicDimSize d"
    by (auto simp: list_all_iff isDynamicDimSize_def kDynamic_def)
qed

lemma denotes_cong:
  "denotes F t f \<Longrightarrow> (\<And>i. inBounds i (t_shape t) \<Longrightarrow> f i = g i) \<Longrightarrow> denotes F t g"
  by (auto simp: denotes_def)

lemma Sizes_plus_same [simp]: "length x = length y \<Longrightarrow> Sizes_plus x y = Inr (map2 (+) x y)"
  by (simp add: Sizes_plus_def)

lemma Sizes_minus_same [simp]: "length x = length y \<Longrightarrow> Sizes_minus x y = Inr (map2 (-) x y)"
  by (simp add: Sizes_minus_def)

lemma Sizes_times_same [simp]: "length x = length y \<Longrightarrow> Sizes_times x y = Inr (map2 (*) x y)"
  by (simp add: Sizes_times_def)

section \<open>Slices\<close>

lemma divideCeil_bound:
  assumes "0 < d" "0 \<le> x" "x < divideCeil n d"
  shows "x * d < n"
proof -
  have "(x + 1) * d \<le> divideCeil n d * d" using assms by (intro mult_right_mono) auto
  moreover have "divideCeil n d * d \<le> n + d - 1"
    using pos_mod_sign [OF assms(1), of "n + d - 1"] by (simp add: divideCeil_def minus_mod_eq_div_mult [symmetric])
  ultimately show ?thesis by (simp add: distrib_right)
qed

lemma divideCeil_nonneg: "0 < d \<Longrightarrow> 0 \<le> n \<Longrightarrow> 0 \<le> divideCeil n d"
  by (simp add: divideCeil_def pos_imp_zdiv_nonneg_iff)

text \<open>What the shape function accepts, dimension by dimension, for a static shape.\<close>

lemma inferSliceOp_static:
  assumes "inferSliceOp (as_ranked ty) start limit strides = Inr rt"
    and "\<And>d. d \<in> set (getShape ty) \<Longrightarrow> \<not> isDynamicDimSize d"
  shows "length start = length (getShape ty)" "length (getShape rt) = length (getShape ty)"
    "length limit \<ge> length (getShape ty)" "length strides \<ge> length (getShape ty)"
    "getElementType rt = getElementType ty"
    "\<And>k. k < length (getShape ty) \<Longrightarrow> 0 \<le> start ! k \<and> start ! k \<le> limit ! k \<and> limit ! k \<le> getShape ty ! k \<and>
       0 < strides ! k \<and> getShape rt ! k = divideCeil (limit ! k - start ! k) (strides ! k)"
proof -
  let ?n = "length (getShape ty)"
  let ?body = "\<lambda>i. rbind (vec_nth start i) (\<lambda>s. rbind (vec_nth limit i) (\<lambda>l. rbind (vec_nth strides i) (\<lambda>st.
      rbind (vec_nth (getShape ty) i) (\<lambda>size. slice_dim size None s l st))))"
  from assms(1) have len: "length start = ?n" and el: "getElementType rt = getElementType ty"
    and m: "mapM ?body (upto_int (int ?n)) = Inr (getShape rt)"
    by (auto simp: inferSliceOp_def as_ranked_def mkRankedTensorType_def rt_rank_def Let_def boundsToEncoding_def
        split: if_splits)
  show "length start = ?n" "getElementType rt = getElementType ty" by fact+
  show shp: "length (getShape rt) = ?n" using mapM_length [OF m] by simp
  have body: "?body (int k) = Inr (getShape rt ! k)" if "k < ?n" for k
    using m that by (auto simp: mapM_eq_Inr)
  have lens: "k < length limit \<and> k < length strides" if "k < ?n" for k
    using body [OF that] by (auto simp: result_simps)
  show "?n \<le> length limit" using lens by (metis linorder_not_less order_less_irrefl)
  show "?n \<le> length strides" using lens by (metis linorder_not_less order_less_irrefl)
  fix k assume k: "k < ?n"
  have "\<not> isDynamicDimSize (getShape ty ! k)" using assms(2) k by simp
  with body [OF k] lens [OF k] k len
  show "0 \<le> start ! k \<and> start ! k \<le> limit ! k \<and> limit ! k \<le> getShape ty ! k \<and>
       0 < strides ! k \<and> getShape rt ! k = divideCeil (limit ! k - start ! k) (strides ! k)"
    by (auto simp: slice_dim_def Let_def split: if_splits)
qed

lemma slice_dims_denotes:
  assumes "denotes F operand f" "list_all (\<lambda>d. 0 \<le> d) (getShape rty)" "getElementType rty = t_elementType operand"
    and "length start = length (getShape rty)" "length strides = length (getShape rty)"
    and "\<And>i. inBounds i (getShape rty) \<Longrightarrow> inBounds (map2 (+) start (map2 (*) i strides)) (t_shape operand)"
  shows "\<exists>r. sliceOp F operand start strides rty = Inr r \<and> t_type r = rty \<and>
    denotes F r (\<lambda>i. f (map2 (+) start (map2 (*) i strides)))"
proof -
  have "rbind (Sizes_times i strides) (Sizes_plus start) = Inr (map2 (+) start (map2 (*) i strides)) \<and>
      inBounds (map2 (+) start (map2 (*) i strides)) (t_shape operand)" if "inBounds i (getShape rty)" for i
    using assms(4,5) assms(6) [OF that] inBounds_length [OF that] by simp
  moreover have "rty = \<lparr>getShape = getShape rty, getElementType = t_elementType operand\<rparr>" using assms(3) by simp
  ultimately show ?thesis
    using fill_from_denotes [OF assms(1,2), of "\<lambda>i. rbind (Sizes_times i strides) (Sizes_plus start)"
        "\<lambda>i. map2 (+) start (map2 (*) i strides)"]
    by (auto simp: sliceOp_def rbind_assoc)
qed

lemma slice_denotes:
  assumes "denotes F operand f"
    and "inferSliceOp (as_ranked (t_type operand)) start limit strides = Inr rt"
    and "length strides = length start"
  shows "\<exists>r. sliceOp_limit F operand start limit strides = Inr r \<and> t_type r = as_shaped rt \<and>
    t_shape r = map2 (\<lambda>(s, l) d. divideCeil (l - s) d) (zip start limit) strides \<and>
    denotes F r (\<lambda>i. f (map2 (+) start (map2 (*) i strides)))"
proof -
  let ?sh = "t_shape operand"
  note st = inferSliceOp_static [OF assms(2) denotes_static(2) [OF assms(1)], simplified]
  have "inBounds (map2 (+) start (map2 (*) i strides)) ?sh" if i: "inBounds i (getShape rt)" for i
  proof -
    have "start ! k + i ! k * strides ! k < ?sh ! k \<and> 0 \<le> start ! k + i ! k * strides ! k" if k: "k < length ?sh" for k
      using divideCeil_bound [of "strides ! k" "i ! k" "limit ! k - start ! k"] st(6) [OF k] i k st(2)
      by (auto simp: inBounds_nth)
    with st assms(3) inBounds_length [OF i] show ?thesis by (simp add: inBounds_nth)
  qed
  moreover have "list_all (\<lambda>d. 0 \<le> d) (getShape rt)"
    using st(2,6) by (auto simp: list_all_length divideCeil_nonneg)
  moreover have "as_shaped rt = \<lparr>getShape = getShape rt, getElementType = t_elementType operand\<rparr>"
    using st(5) by (simp add: as_shaped_def)
  moreover have "getShape rt = map2 (\<lambda>(s, l) d. divideCeil (l - s) d) (zip start limit) strides"
    using st assms(3) by (intro length_eq_nth_imp) auto
  ultimately show ?thesis
    using slice_dims_denotes [OF assms(1), of "as_shaped rt" start strides] assms(2,3) st(1,2)
    by (auto simp: sliceOp_limit_def or_fatal_def)
qed

text \<open>
  C5: \<open>slice\<close> is sound for its shape function. Whenever \<^verbatim>\<open>inferSliceOp\<close> accepts a static operand type, the interpreter's
  \<open>slice\<close> returns a tensor of the inferred shape whose element at \<open>i\<close> is the operand's element at
  \<open>start + i * strides\<close>; every index it reads is inside the operand.
\<close>

theorem slice_sound:
  assumes "denotes F operand f"
    and "inferSliceOp (as_ranked (t_type operand)) start limit strides = Inr rt"
    and "length strides = length start"
  shows "\<exists>r. sliceOp_limit F operand start limit strides = Inr r \<and> t_type r = as_shaped rt \<and>
    t_shape r = map2 (\<lambda>(s, l) d. divideCeil (l - s) d) (zip start limit) strides \<and>
    denotes F r (\<lambda>i. f (map2 (+) start (map2 (*) i strides)))"
  by (rule slice_denotes [OF assms])

section \<open>Dynamic slices\<close>

text \<open>A list of scalar integer tensors that hold the values \<open>vs\<close>, as the interpreter reads them.\<close>

definition scalars_hold :: "('f, 'd) float_api \<Rightarrow> Tensor list \<Rightarrow> int list \<Rightarrow> bool" where
  "scalars_hold F ts vs \<longleftrightarrow> list_all2 (\<lambda>t v. evalScalar F t [] = Inr v) ts vs"

lemma evalIndex_scalars_hold: "scalars_hold F ts vs \<Longrightarrow> evalIndex_scalars F ts = Inr vs"
  by (auto simp: scalars_hold_def evalIndex_scalars_def mapM_eq_Inr list_all2_conv_all_nth)

lemma scalars_hold_length: "scalars_hold F ts vs \<Longrightarrow> length vs = length ts"
  by (auto simp: scalars_hold_def dest: list_all2_lengthD)

text \<open>The start index that is used: clamped so that a slice of the given size fits.\<close>

definition clamped_start :: "int list \<Rightarrow> Sizes \<Rightarrow> Sizes \<Rightarrow> Index" where
  "clamped_start vs shape sizes = map2 (\<lambda>v m. min (max v 0) m) vs (map2 (-) shape sizes)"

lemma Sizes_clamp_low_start:
  assumes "length vs = length shape" "length sizes = length shape"
  shows "Sizes_clamp_low 0 vs (map2 (-) shape sizes) = Inr (clamped_start vs shape sizes)"
  using assms
  by (auto simp: Sizes_clamp_low_def Sizes_clamp_def Sizes_fill_def clamped_start_def list_eq_iff_nth_eq)

lemma clamped_start_nth:
  "length vs = length shape \<Longrightarrow> length sizes = length shape \<Longrightarrow> k < length shape \<Longrightarrow>
   clamped_start vs shape sizes ! k = min (max (vs ! k) 0) (shape ! k - sizes ! k)"
  by (simp add: clamped_start_def)

lemma clamped_start_length [simp]:
  "length vs = length shape \<Longrightarrow> length sizes = length shape \<Longrightarrow> length (clamped_start vs shape sizes) = length shape"
  by (simp add: clamped_start_def)

lemma clamped_start_inBounds:
  assumes "list_all2 (\<lambda>s n. 0 \<le> s \<and> s \<le> n) sizes shape" "length vs = length shape" "inBounds i sizes"
  shows "inBounds (map2 (+) (clamped_start vs shape sizes) i) shape"
  using assms by (auto simp: inBounds_nth list_all2_conv_all_nth clamped_start_nth)

lemma inferDynamicSliceOp_static:
  assumes "inferDynamicSliceOp ty startTypes sizes = Inr rt"
    and "\<And>d. d \<in> set (getShape ty) \<Longrightarrow> \<not> isDynamicDimSize d"
  shows "rt = \<lparr>getShape = sizes, getElementType = getElementType ty\<rparr>" "length startTypes = length (getShape ty)"
    "list_all2 (\<lambda>s n. 0 \<le> s \<and> s \<le> n) sizes (getShape ty)"
proof -
  let ?check = "\<lambda>(sliceSize, dimSize) (_::unit).
             if sliceSize < 0 then Inl (Failure ''has negative size index to dynamic slice'')
             else if \<not> isDynamicDimSize dimSize \<and> dimSize < sliceSize
             then Inl (Failure ''has slice size greater than dimension size'')
             else Inr ()"
  from assms(1) have *: "length startTypes = length sizes" "length (getShape ty) = length sizes"
    "rt = \<lparr>getShape = sizes, getElementType = getElementType ty\<rparr>"
    "foldM ?check (zip sizes (getShape ty)) () = Inr ()"
    by (auto simp: inferDynamicSliceOp_def rt_rank_def result_simps split: if_splits)
  then show "rt = \<lparr>getShape = sizes, getElementType = getElementType ty\<rparr>" "length startTypes = length (getShape ty)"
    by simp_all
  have "foldM ?check zs u = Inr () \<Longrightarrow> (s, n) \<in> set zs \<Longrightarrow> 0 \<le> s \<and> (isDynamicDimSize n \<or> s \<le> n)" for zs u s n
    by (induction zs arbitrary: u) (auto simp: result_simps split: if_splits)
  from this [OF *(4)] assms(2) *(2) show "list_all2 (\<lambda>s n. 0 \<le> s \<and> s \<le> n) sizes (getShape ty)"
    by (auto simp: list_all2_iff dest: set_zip_rightD)
qed

lemma dynamic_slice_denotes:
  assumes "denotes F operand f" "scalars_hold F startIndices vs"
    and "inferDynamicSliceOp (t_type operand) (map t_elementType startIndices) sizes = Inr rt"
  shows "\<exists>r. dynamicSliceOp F operand startIndices sizes rt = Inr r \<and> t_type r = rt \<and> getShape rt = sizes \<and>
    denotes F r (\<lambda>i. f (map2 (+) (clamped_start vs (t_shape operand) sizes) i))"
proof -
  let ?sh = "t_shape operand"
  note st = inferDynamicSliceOp_static [OF assms(3) denotes_static(2) [OF assms(1)], simplified]
  have len: "length vs = length ?sh" "length sizes = length ?sh"
    using st(2,3) scalars_hold_length [OF assms(2)] by (auto dest: list_all2_lengthD)
  have "list_all (\<lambda>d. 0 \<le> d) sizes" using st(3) by (auto simp: list_all2_conv_all_nth list_all_length)
  with fill_from_denotes [OF assms(1), of sizes "Sizes_plus (clamped_start vs ?sh sizes)"
      "\<lambda>i. map2 (+) (clamped_start vs ?sh sizes) i"] clamped_start_inBounds [OF st(3) len(1)] len st(1)
  show ?thesis
    by (auto simp: dynamicSliceOp_def evalIndex_scalars_hold [OF assms(2)] Sizes_clamp_low_start inBounds_length)
qed

lemma inferDynamicUpdateSliceOp_static:
  assumes "inferDynamicUpdateSliceOp oty uty startTypes = Inr rt"
    and "\<And>d. d \<in> set (getShape oty) \<union> set (getShape uty) \<Longrightarrow> \<not> isDynamicDimSize d"
  shows "getShape rt = getShape oty" "getElementType rt = getElementType oty"
    "length startTypes = length (getShape oty)"
    "list_all2 (\<lambda>s n. 0 \<le> s \<and> s \<le> n) (getShape uty) (getShape oty)"
proof -
  let ?check = "\<lambda>(operandDim, updateDim) (_::unit).
             if isDynamicDimSize updateDim then Inr ()
             else if isStaticDimSize operandDim then
               (if updateDim < 0 \<or> operandDim < updateDim
                then Inl (Failure ''expects size of update to be in range'') else Inr ())
             else if updateDim < 0 then Inl (Failure ''expects size of update to be non-negative'')
             else Inr ()"
  from assms(1) have *: "length startTypes = length (getShape oty)" "length (getShape uty) = length (getShape oty)"
    "rt = mkRankedTensorType (getShape oty) (getElementType oty) (getEncoding oty)"
    "foldM ?check (zip (getShape oty) (getShape uty)) () = Inr ()"
    by (auto simp: inferDynamicUpdateSliceOp_def rt_rank_def result_simps split: if_splits)
  then show "getShape rt = getShape oty" "getElementType rt = getElementType oty"
    "length startTypes = length (getShape oty)"
    by (simp_all add: mkRankedTensorType_def)
  have "foldM ?check zs u = Inr () \<Longrightarrow> (n, s) \<in> set zs \<Longrightarrow>
      isDynamicDimSize s \<or> isDynamicDimSize n \<or> (0 \<le> s \<and> s \<le> n)" for zs u s n
    by (induction zs arbitrary: u) (auto simp: result_simps isStaticDimSize_def split: if_splits)
  from this [OF *(4)] assms(2) *(2) show "list_all2 (\<lambda>s n. 0 \<le> s \<and> s \<le> n) (getShape uty) (getShape oty)"
    by (auto simp: list_all2_conv_all_nth set_zip) (metis nth_mem)+
qed

lemma dynamic_update_slice_denotes:
  assumes "denotes F operand f" "denotes F update g" "scalars_hold F startIndices vs"
    and "t_elementType update = t_elementType operand"
    and "inferDynamicUpdateSliceOp (as_ranked (t_type operand)) (t_type update) (map t_elementType startIndices) = Inr rt"
  shows "\<exists>r. dynamicUpdateSliceOp F operand update startIndices (as_shaped rt) = Inr r \<and>
    t_type r = t_type operand \<and>
    denotes F r (\<lambda>i. let j = map2 (-) i (clamped_start vs (t_shape operand) (t_shape update)) in
                     if inBounds j (t_shape update) then g j else f i)"
proof -
  let ?sh = "t_shape operand" and ?us = "t_shape update"
  let ?st = "clamped_start vs ?sh ?us"
  have ran: "getShape (as_ranked (t_type operand)) = ?sh" "getElementType (as_ranked (t_type operand)) = t_elementType operand"
    by (simp_all add: as_ranked_def mkRankedTensorType_def)
  note st = inferDynamicUpdateSliceOp_static [OF assms(5), unfolded ran, simplified]
  have st': "getShape rt = ?sh" "getElementType rt = t_elementType operand" "length startIndices = length ?sh"
    "list_all2 (\<lambda>s n. 0 \<le> s \<and> s \<le> n) ?us ?sh"
    using st denotes_static(2) [OF assms(1)] denotes_static(2) [OF assms(2)] by blast+
  then have len: "length vs = length ?sh" "length ?us = length ?sh"
    using scalars_hold_length [OF assms(3)] by (auto dest: list_all2_lengthD)
  have ty: "as_shaped rt = t_type operand" using st' by (simp add: as_shaped_def)
  have "wf_type (t_type operand)" by (rule wf_tensor_type [OF denotes_wf [OF assms(1)]])
  from fill_result_denotes [OF this, where F = F and
      e = "\<lambda>i. rbind (Sizes_minus i ?st) (\<lambda>j. if inBounds j ?us then Tensor_get F update j else Tensor_get F operand i)" and
      f = "\<lambda>i. let j = map2 (-) i ?st in if inBounds j ?us then g j else f i"]
  show ?thesis
    using assms(4) len denotes_get [OF assms(1)] denotes_get [OF assms(2)] denotes_storable [OF assms(1)]
      denotes_storable [OF assms(2)]
    by (simp add: dynamicUpdateSliceOp_def evalIndex_scalars_hold [OF assms(3)] Sizes_clamp_low_start inBounds_length ty Let_def)
qed

section \<open>Padding\<close>

lemma makeSplat_denotes:
  assumes "wf_type ty" "storable F (getElementType ty) e"
  shows "\<exists>r. makeSplat F ty e = Inr r \<and> t_type r = ty \<and> denotes F r (\<lambda>i. e)"
  using fill_result_denotes [OF assms(1), of "\<lambda>i. Inr e" "\<lambda>i. e" F] assms(2) by (simp add: makeSplat_def)

lemma foldM_filter:
  "foldM (\<lambda>x s. if P x then g x s else Inr s) xs s = foldM g (filter P xs) s"
  by (induction xs arbitrary: s) (auto intro: rbind_cong)

text \<open>Writing the elements of an operand at the images of some of its indices.\<close>

lemma write_some_denotes:
  assumes r: "denotes F r f0" and op: "denotes F operand f" "t_elementType operand = t_elementType r"
    and h: "\<And>i i'. inBounds i (t_shape operand) \<Longrightarrow> inBounds i' (t_shape operand) \<Longrightarrow> h i = h i' \<Longrightarrow> i = i'"
    and that: "t_shape r0 = t_shape r"
  shows "\<exists>r'. foldM (\<lambda>i r. if inBounds (h i) (t_shape r0) then rbind (Tensor_get F operand i) (Tensor_set F r (h i)) else Inr r)
      (index_space (t_shape operand)) r = Inr r' \<and> t_type r' = t_type r \<and>
    denotes F r' (\<lambda>j. case find (\<lambda>i. h i = j) (index_space (t_shape operand)) of Some i \<Rightarrow> f i | None \<Rightarrow> f0 j)"
proof -
  let ?xs = "filter (\<lambda>i. inBounds (h i) (t_shape r)) (index_space (t_shape operand))"
  let ?sp = "\<lambda>j. case find (\<lambda>i. h i = j) (index_space (t_shape operand)) of Some i \<Rightarrow> f i | None \<Rightarrow> f0 j"
  have dist: "distinct (map h ?xs)" using h by (auto simp: distinct_map inj_on_def)
  from tensor.write_all [where h = h and xs = ?xs and t = r and g = "Tensor_get F operand" and v = f and F = F, OF denotes_wf [OF r] _ dist]
  obtain r' where r': "foldM (\<lambda>i r. rbind (Tensor_get F operand i) (Tensor_set F r (h i))) ?xs r = Inr r'"
    "wf_tensor r'" "t_type r' = t_type r" "\<forall>i \<in> set ?xs. Tensor_get F r' (h i) = Inr (f i)"
    "\<forall>j. inBounds j (t_shape r) \<longrightarrow> j \<notin> h ` set ?xs \<longrightarrow> Tensor_get F r' j = Tensor_get F r j"
    using denotes_get [OF op(1)] denotes_storable [OF op(1)] op(2) by auto
  have *: "Tensor_get F r' j = Inr (?sp j) \<and> storable F (t_elementType r) (?sp j)" if j: "inBounds j (t_shape r)" for j
  proof (cases "find (\<lambda>i. h i = j) (index_space (t_shape operand))")
    case None
    then have "j \<notin> h ` set ?xs" by (auto simp: find_None_iff)
    with None r'(5) j denotes_get [OF r j] denotes_storable [OF r j] show ?thesis by simp
  next
    case (Some i)
    then have "inBounds i (t_shape operand)" "h i = j" by (auto simp: find_Some_iff nth_mem [THEN index_space_mem [THEN iffD1]])
    with Some r'(4) j op(2) denotes_storable [OF op(1)] show ?thesis by auto
  qed
  then show ?thesis using r' that by (auto simp: foldM_filter denotes_def)
qed

text \<open>
  What padding means: the position of the operand index \<open>i\<close>, and the operand index at a position, if there is one.
\<close>

definition pad_position :: "Sizes \<Rightarrow> Sizes \<Rightarrow> Index \<Rightarrow> Index" where
  "pad_position low interior i = map2 (+) low (map2 (*) i (map (\<lambda>n. n + 1) interior))"

definition padded :: "Sizes \<Rightarrow> Sizes \<Rightarrow> Sizes \<Rightarrow> (Index \<Rightarrow> 'e) \<Rightarrow> 'e \<Rightarrow> Index \<Rightarrow> 'e" where
  "padded shape low interior f pad j =
     (case find (\<lambda>i. pad_position low interior i = j) (index_space shape) of Some i \<Rightarrow> f i | None \<Rightarrow> pad)"

lemma pad_position_inj:
  assumes "length low = n" "length interior = n" "list_all (\<lambda>x. 0 \<le> x) interior" "length i = n" "length j = n"
    and "pad_position low interior i = pad_position low interior j"
  shows "i = j"
proof (rule length_eq_nth_imp)
  fix k assume "k < length i"
  with assms have k: "0 \<le> interior ! k" "k < n" by (auto simp: list_all_length)
  have "pad_position low interior i ! k = pad_position low interior j ! k" using assms(6) by simp
  with k assms(1,2,4,5) show "i ! k = j ! k" by (simp add: pad_position_def)
qed (use assms in simp)

lemma inferPadOp_static:
  assumes "inferPadOp (as_ranked ty) low high interior = Inr rt"
    and "\<And>d. d \<in> set (getShape ty) \<Longrightarrow> \<not> isDynamicDimSize d"
  shows "length low = length (getShape ty)" "length (getShape rt) = length (getShape ty)"
    "getElementType rt = getElementType ty"
    "length high \<ge> length (getShape ty)" "length interior \<ge> length (getShape ty)"
    "\<And>k. k < length (getShape ty) \<Longrightarrow> 0 \<le> interior ! k \<and> 0 \<le> getShape rt ! k \<and>
       getShape rt ! k = getShape ty ! k + low ! k + high ! k + max (getShape ty ! k - 1) 0 * interior ! k"
proof -
  let ?n = "length (getShape ty)"
  let ?body = "\<lambda>i. rbind (vec_nth low i) (\<lambda>l. rbind (vec_nth high i) (\<lambda>h. rbind (vec_nth interior i) (\<lambda>m.
      rbind (vec_nth (getShape ty) i) (\<lambda>size. pad_dim size None l h m))))"
  from assms(1) obtain dims where len: "length low = ?n" and el: "getElementType rt = getElementType ty"
    and m: "mapM ?body (upto_int (int ?n)) = Inr dims" and rt: "getShape rt = map fst dims"
    by (auto simp: inferPadOp_def as_ranked_def mkRankedTensorType_def rt_rank_def Let_def boundsToEncoding_def
        split: if_splits)
  show "length low = ?n" "getElementType rt = getElementType ty" by fact+
  show "length (getShape rt) = ?n" using mapM_length [OF m] rt by simp
  have body: "?body (int k) = Inr (dims ! k)" if "k < ?n" for k
    using m that by (auto simp: mapM_eq_Inr)
  have lens: "k < length high \<and> k < length interior" if "k < ?n" for k
    using body [OF that] by (auto simp: result_simps)
  show "?n \<le> length high" using lens by (metis linorder_not_less order_less_irrefl)
  show "?n \<le> length interior" using lens by (metis linorder_not_less order_less_irrefl)
  fix k assume k: "k < ?n"
  have "\<not> isDynamicDimSize (getShape ty ! k)" using assms(2) k by simp
  with body [OF k] lens [OF k] k len mapM_length [OF m]
  show "0 \<le> interior ! k \<and> 0 \<le> getShape rt ! k \<and>
       getShape rt ! k = getShape ty ! k + low ! k + high ! k + max (getShape ty ! k - 1) 0 * interior ! k"
    by (cases "dims ! k") (auto simp: pad_dim_def Let_def rt split: if_splits)
qed

lemma pad_denotes:
  assumes "denotes F operand f" "Tensor_get F paddingValue [] = Inr pad" "storable F (t_elementType operand) pad"
    and "inferPadOp (as_ranked (t_type operand)) low high interior = Inr rt"
    and "length interior = length low"
  shows "\<exists>r. padOp_high F operand paddingValue low high interior = Inr r \<and> t_type r = as_shaped rt \<and>
    denotes F r (padded (t_shape operand) low interior f pad)"
proof -
  let ?sh = "t_shape operand"
  note st = inferPadOp_static [OF assms(4) denotes_static(2) [OF assms(1)], simplified]
  have ty: "as_shaped rt = \<lparr>getShape = getShape rt, getElementType = t_elementType operand\<rparr>"
    using st(3) by (simp add: as_shaped_def)
  have "list_all (\<lambda>d. 0 \<le> d) (getShape rt)" using st(2) conjunct1 [OF conjunct2 [OF st(6)]] by (simp add: list_all_length)
  then have "wf_type (as_shaped rt)"
    using wf_tensor_type [OF denotes_wf [OF assms(1)]] by (simp add: ty wf_type_def)
  with makeSplat_denotes [of "as_shaped rt" F pad] assms(3) ty obtain r0 where r0: "makeSplat F (as_shaped rt) pad = Inr r0"
    "t_type r0 = as_shaped rt" "denotes F r0 (\<lambda>i. pad)" by auto
  have int: "list_all (\<lambda>x. 0 \<le> x) interior" using st assms(5) by (auto simp: list_all_length)
  have inj: "i = i'" if "inBounds i ?sh" "inBounds i' ?sh" "pad_position low interior i = pad_position low interior i'" for i i'
    using pad_position_inj [OF st(1) _ int _ _ that(3)] that st(1) assms(5) by (simp add: inBounds_length)
  let ?body = "\<lambda>i r. rbind (Sizes_plus_scalar interior 1) (\<lambda>stride. rbind (Sizes_times i stride) (\<lambda>scaled.
          rbind (Sizes_plus low scaled) (\<lambda>resultIndex.
            if inBounds resultIndex (getShape (as_shaped rt)) then rbind (Tensor_get F operand i) (Tensor_set F r resultIndex)
            else Inr r)))"
  let ?wr = "\<lambda>i r. if inBounds (pad_position low interior i) (t_shape r0)
      then rbind (Tensor_get F operand i) (Tensor_set F r (pad_position low interior i)) else Inr r"
  have "?body i r = ?wr i r" if "i \<in> set (index_space ?sh)" for i r
    using that st(1) assms(5) r0(2)
    by (simp add: Sizes_plus_scalar_def Sizes_fill_def inBounds_length pad_position_def zip_replicate2 comp_def)
  then have eq: "foldM ?body (index_space ?sh) r0 = foldM ?wr (index_space ?sh) r0" by (intro foldM_cong) simp_all
  have el: "t_elementType operand = t_elementType r0" using r0(2) ty by simp
  obtain r where "foldM ?wr (index_space ?sh) r0 = Inr r"
    "t_type r = as_shaped rt" "denotes F r (padded ?sh low interior f pad)"
    using write_some_denotes [where h = "pad_position low interior", OF r0(3) assms(1) el inj refl]
    unfolding padded_def [abs_def] r0(2) by blast
  then show ?thesis
    using assms(2,4) r0(1) eq by (simp add: padOp_high_def or_fatal_def padOp_def forEachIndex_foldM)
qed

text \<open>
  C6: \<open>pad\<close> is sound for its shape function, negative edge padding included: the operand's element \<open>i\<close> is at
  \<open>low + i * (interior + 1)\<close> if that is inside the inferred shape, every other element is the padding value, and
  the element at every index is set.
\<close>

theorem pad_sound:
  assumes "denotes F operand f" "Tensor_get F paddingValue [] = Inr pad" "storable F (t_elementType operand) pad"
    and "inferPadOp (as_ranked (t_type operand)) low high interior = Inr rt"
    and "length interior = length low"
  shows "\<exists>r. padOp_high F operand paddingValue low high interior = Inr r \<and> t_type r = as_shaped rt \<and>
    denotes F r (padded (t_shape operand) low interior f pad)"
  by (rule pad_denotes [OF assms])

end
