(* ===== verification/Rearrange_Correct.thy ===== *)
theory Rearrange_Correct
  imports Slice_Correct
begin

text \<open>
  Correctness of the operations that rearrange elements: transpose, reverse, broadcast and reshape, stated like those
  of \<open>Slice_Correct\<close>.
\<close>

lemma shaped_eta: "\<lparr>getShape = getShape ty, getElementType = getElementType ty\<rparr> = (ty :: ShapedType)"
  by simp

lemma Tensor_set_type: "Tensor_set F t i e = Inr t' \<Longrightarrow> t_type t' = t_type t"
  by (auto simp: Tensor_set_def result_simps)

section \<open>Loops that build an index\<close>

text \<open>A loop that sets position \<open>d\<close> of a vector in iteration \<open>d\<close>.\<close>

lemma foldM_build:
  assumes "\<And>d v. d < n \<Longrightarrow> length v = n \<Longrightarrow> (\<And>k. d \<le> k \<Longrightarrow> k < n \<Longrightarrow> v ! k = v0 ! k) \<Longrightarrow>
      body (int d) v = Inr (v[d := g d])"
    and "length v0 = n"
  shows "foldM body (upto_int (int n)) v0 = Inr (map g [0..<n])"
proof -
  have upto: "upto_int (int m) = map int [0..<m]" for m by (intro length_eq_nth_imp) auto
  have "m \<le> n \<Longrightarrow> foldM body (map int [0..<m]) v0 = Inr (map g [0..<m] @ drop m v0)" for m
  proof (induction m)
    case (Suc m)
    have split: "drop m v0 = v0 ! m # drop (Suc m) v0"
      using Suc.prems assms(2) by (simp add: Cons_nth_drop_Suc)
    have "body (int m) (map g [0..<m] @ drop m v0) = Inr ((map g [0..<m] @ drop m v0)[m := g m])"
      by (rule assms(1)) (use Suc.prems assms(2) in \<open>auto simp: nth_append\<close>)
    also have "(map g [0..<m] @ drop m v0)[m := g m] = map g [0..<Suc m] @ drop (Suc m) v0"
      unfolding split by (simp add: list_update_append)
    finally show ?case using Suc by (simp add: foldM_append)
  qed simp
  from this [of n] show ?thesis by (simp add: upto assms(2))
qed

section \<open>Transpose\<close>

lemma count_list_distinct: "distinct xs \<Longrightarrow> count_list xs x = (if x \<in> set xs then 1 else 0)"
  by (induction xs) auto

lemma is_permutation_iff:
  "is_permutation (upto_int (int n)) perm \<longleftrightarrow> length perm = n \<and> distinct perm \<and> set perm = {0..<int n}"
proof
  assume perm: "is_permutation (upto_int (int n)) perm"
  then have len: "length perm = n" and cnt: "\<forall>x \<in> {0..<int n}. count_list perm x = 1"
    by (auto simp: is_permutation_def list_all_iff count_list_distinct)
  from cnt have sub: "{0..<int n} \<subseteq> set perm" by (metis count_list_0_iff subsetI zero_neq_one)
  have "card {0..<int n} = n" "card (set perm) \<le> n" using len card_length [of perm] by simp_all
  then have "set perm = {0..<int n}" using sub by (metis List.finite_set card_mono card_subset_eq le_antisym)
  with len show "length perm = n \<and> distinct perm \<and> set perm = {0..<int n}"
    by (simp add: card_distinct)
qed (auto simp: is_permutation_def list_all_iff count_list_distinct)

text \<open>The operand index of a result index: dimension \<open>k\<close> of the operand is where the permutation has \<open>k\<close>.\<close>

definition unpermute :: "Axes \<Rightarrow> Index \<Rightarrow> Index" where
  "unpermute perm j = map (\<lambda>k. j ! the (find_index k perm)) (upto_int (int (length perm)))"

definition permuted :: "Axes \<Rightarrow> Index \<Rightarrow> Index" where
  "permuted perm i = map (\<lambda>p. i ! nat p) perm"

lemma permuted_unpermute:
  assumes "distinct perm" "set perm = {0..<int (length perm)}" "length j = length perm"
  shows "permuted perm (unpermute perm j) = j"
proof (rule length_eq_nth_imp)
  fix k assume k: "k < length (permuted perm (unpermute perm j))"
  then have "perm ! k \<in> {0..<int (length perm)}" using assms(2) by (metis length_map nth_mem permuted_def)
  then have "nat (perm ! k) < length perm" "int (nat (perm ! k)) = perm ! k" by auto
  with k find_index_nth [OF assms(1), of k] show "permuted perm (unpermute perm j) ! k = j ! k"
    by (simp add: permuted_def unpermute_def)
qed (simp add: permuted_def assms(3))

lemma unpermute_permuted:
  assumes "distinct perm" "set perm = {0..<int (length perm)}" "length i = length perm"
  shows "unpermute perm (permuted perm i) = i"
proof (rule length_eq_nth_imp)
  fix k assume k: "k < length (unpermute perm (permuted perm i))"
  then have "int k \<in> set perm" using assms(2) by (simp add: unpermute_def)
  from find_index_Some [OF this] k show "unpermute perm (permuted perm i) ! k = i ! k"
    by (auto simp: permuted_def unpermute_def)
qed (simp add: unpermute_def assms(3))

lemma permuted_inBounds:
  assumes "set perm = {0..<int (length perm)}" "length shape = length perm" "inBounds i shape"
  shows "inBounds (permuted perm i) (permuted perm shape)"
proof -
  have "nat (perm ! k) < length perm" if "k < length perm" for k
    using assms(1) nth_mem [OF that] by auto
  with assms(2,3) show ?thesis by (auto simp: inBounds_nth permuted_def)
qed

lemma unpermute_inBounds:
  assumes "distinct perm" "set perm = {0..<int (length perm)}" "length shape = length perm"
    and "inBounds j (permuted perm shape)"
  shows "inBounds (unpermute perm j) shape"
proof -
  have "length j = length perm" using inBounds_length [OF assms(4)] by (simp add: permuted_def)
  moreover have "0 \<le> j ! the (find_index (int k) perm) \<and> j ! the (find_index (int k) perm) < shape ! k"
    if "k < length perm" for k
  proof -
    have "int k \<in> set perm" using that assms(2) by simp
    from find_index_Some [OF this] obtain m where "find_index (int k) perm = Some m" "m < length perm" "perm ! m = int k"
      by blast
    with assms(4) show ?thesis by (auto simp: inBounds_nth permuted_def)
  qed
  ultimately show ?thesis by (simp add: inBounds_nth unpermute_def assms(3))
qed

text \<open>A loop over the operand that writes each element to its place, when the places are all of the result.\<close>

lemma scatter_all_denotes:
  assumes op: "denotes F operand f" and ty: "wf_type ty" "getElementType ty = t_elementType operand"
    and h: "\<And>i. inBounds i (t_shape operand) \<Longrightarrow> inBounds (h i) (getShape ty) \<and> g (h i) = i"
    and g: "\<And>j. inBounds j (getShape ty) \<Longrightarrow> inBounds (g j) (t_shape operand) \<and> h (g j) = j"
  shows "\<exists>r. rbind (newTensor ty) (foldM (\<lambda>i r. rbind (Tensor_get F operand i) (Tensor_set F r (h i)))
      (index_space (t_shape operand))) = Inr r \<and> t_type r = ty \<and> denotes F r (\<lambda>j. f (g j))"
proof -
  obtain t where t: "newTensor ty = Inr t" "wf_tensor t" "t_type t = ty" using newTensor_ok [OF ty(1)] by blast
  have dist: "distinct (map h (index_space (t_shape operand)))"
    using h by (auto simp: distinct_map inj_on_def) (metis h)
  from tensor.write_all [where h = h and xs = "index_space (t_shape operand)" and t = t and
      g = "Tensor_get F operand" and v = f and F = F, OF t(2) _ dist]
  obtain r where r: "foldM (\<lambda>i r. rbind (Tensor_get F operand i) (Tensor_set F r (h i))) (index_space (t_shape operand)) t = Inr r"
    "wf_tensor r" "t_type r = ty" "\<forall>i. inBounds i (t_shape operand) \<longrightarrow> Tensor_get F r (h i) = Inr (f i)"
    using denotes_get [OF op] denotes_storable [OF op] h ty(2) t(3) by auto
  have "Tensor_get F r j = Inr (f (g j)) \<and> storable F (getElementType ty) (f (g j))" if "inBounds j (getShape ty)" for j
    using r(4) g [OF that] denotes_storable [OF op, of "g j"] ty(2) by (metis (no_types))
  with r t show ?thesis by (auto simp: denotes_def)
qed

lemma inferTransposeOp_static:
  assumes "inferTransposeOp (as_ranked ty) perm = Inr rt"
  shows "length perm = length (getShape ty)" "distinct perm" "set perm = {0..<int (length perm)}"
    "getShape rt = permuted perm (getShape ty)" "getElementType rt = getElementType ty"
proof -
  let ?n = "length (getShape ty)"
  from assms have p: "length perm = ?n" "is_permutation (upto_int (int ?n)) perm"
    and m: "mapM (vec_nth (getShape ty)) perm = Inr (getShape rt)" and el: "getElementType rt = getElementType ty"
    by (auto simp: inferTransposeOp_def as_ranked_def mkRankedTensorType_def rt_rank_def Let_def boundsToEncoding_def
        split: if_splits)
  show "length perm = ?n" "getElementType rt = getElementType ty" by fact+
  show perm: "distinct perm" "set perm = {0..<int (length perm)}" using p by (auto simp: is_permutation_iff)
  have "mapM (vec_nth (getShape ty)) perm = Inr (map (\<lambda>q. getShape ty ! nat q) perm)"
    by (rule mapM_Inr) (use perm p(1) in auto)
  with m show "getShape rt = permuted perm (getShape ty)" by (simp add: permuted_def)
qed

lemma transpose_dims_denotes:
  assumes "denotes F operand f" "length perm = length (t_shape operand)" "distinct perm" "set perm = {0..<int (length perm)}"
    and "getShape rty = permuted perm (t_shape operand)" "getElementType rty = t_elementType operand"
  shows "\<exists>r. transposeOp F operand perm rty = Inr r \<and> t_type r = rty \<and> denotes F r (\<lambda>j. f (unpermute perm j))"
proof -
  let ?sh = "t_shape operand"
  note st = assms(2-4) and ty = assms(5,6)
  have "x \<in> set (permuted perm ?sh) \<Longrightarrow> x \<in> set ?sh" for x
    using st(1,3) by (auto simp: permuted_def)
  then have wf: "wf_type rty"
    using wf_tensor_type [OF denotes_wf [OF assms(1)]] by (auto simp: wf_type_def ty list_all_iff)
  have idx: "mapM (\<lambda>d. rbind (vec_nth perm d) (vec_nth i)) (upto_int (getRank r)) = Inr (permuted perm i)"
    if "inBounds i ?sh" "t_shape r = permuted perm ?sh" for i r
  proof -
    have "perm ! k < int (length perm) \<and> 0 \<le> perm ! k" if "k < length perm" for k
      using st(3) nth_mem [OF that] by auto
    with st(1) that show ?thesis
      by (auto simp: mapM_eq_Inr getRank_def permuted_def inBounds_length)
  qed
  have fold: "foldM (\<lambda>i r. rbind (mapM (\<lambda>d. rbind (vec_nth perm d) (vec_nth i)) (upto_int (getRank r))) (\<lambda>j.
            rbind (Tensor_get F operand i) (Tensor_set F r j))) xs t =
        foldM (\<lambda>i r. rbind (Tensor_get F operand i) (Tensor_set F r (permuted perm i))) xs t"
    if "\<And>i. i \<in> set xs \<Longrightarrow> inBounds i ?sh" "t_shape t = permuted perm ?sh" for xs t
    using that
  proof (induction xs arbitrary: t)
    case (Cons i xs)
    then show ?case by (auto simp: idx rbind_assoc dest: Tensor_set_type intro!: rbind_cong)
  qed simp
  have new: "t_shape t = permuted perm ?sh" if "newTensor rty = Inr t" for t
    using that ty by (auto simp: newTensor_def)
  have eq: "transposeOp F operand perm rty = rbind (newTensor rty)
      (foldM (\<lambda>i r. rbind (Tensor_get F operand i) (Tensor_set F r (permuted perm i))) (index_space ?sh))"
    unfolding transposeOp_def forEachIndex_foldM by (intro rbind_cong refl fold new) simp
  have "inBounds (permuted perm i) (permuted perm ?sh) \<and> unpermute perm (permuted perm i) = i" if "inBounds i ?sh" for i
    using permuted_inBounds [OF st(3) _ that] unpermute_permuted [OF st(2,3), of i] st(1) inBounds_length [OF that] by simp
  moreover have "inBounds (unpermute perm j) ?sh \<and> permuted perm (unpermute perm j) = j" if "inBounds j (permuted perm ?sh)" for j
    using unpermute_inBounds [OF st(2,3) _ that] permuted_unpermute [OF st(2,3), of j] st(1) inBounds_length [OF that]
    by (simp add: permuted_def)
  ultimately show ?thesis
    using scatter_all_denotes [OF assms(1) wf ty(2), where h = "permuted perm" and g = "unpermute perm"] ty eq by auto
qed

lemma transpose_denotes:
  assumes "denotes F operand f"
    and "inferTransposeOp (as_ranked (t_type operand)) perm = Inr rt"
  shows "\<exists>r. transposeOp F operand perm (as_shaped rt) = Inr r \<and> t_shape r = permuted perm (t_shape operand) \<and>
    t_elementType r = t_elementType operand \<and> denotes F r (\<lambda>j. f (unpermute perm j))"
  using transpose_dims_denotes [OF assms(1), of perm "as_shaped rt"] inferTransposeOp_static [OF assms(2)]
  by (auto simp: as_shaped_def)

text \<open>
  C8: \<open>transpose\<close> is sound for its shape function: dimension \<open>k\<close> of the result is dimension \<open>permutation[k]\<close> of the
  operand, in the shape and in every index, and every element of the result is set.
\<close>

theorem transpose_sound:
  assumes "denotes F operand f"
    and "inferTransposeOp (as_ranked (t_type operand)) perm = Inr rt"
  shows "\<exists>r. transposeOp F operand perm (as_shaped rt) = Inr r \<and> t_shape r = permuted perm (t_shape operand) \<and>
    t_elementType r = t_elementType operand \<and> denotes F r (\<lambda>j. f (unpermute perm j))"
  by (rule transpose_denotes [OF assms])

section \<open>Reverse\<close>

definition reversed :: "Sizes \<Rightarrow> Axes \<Rightarrow> Index \<Rightarrow> Index" where
  "reversed shape dims i = map (\<lambda>k. if int k \<in> set dims then shape ! k - i ! k - 1 else i ! k) [0..<length i]"

lemma reverse_loop:
  assumes "distinct dims" "set dims \<subseteq> {0..<int (length shape)}" "length i = length shape"
  shows "foldM (\<lambda>d j. rbind (vec_nth shape d) (\<lambda>size. rbind (vec_nth j d) (\<lambda>x. vec_set j d (size - x - 1)))) dims i =
    Inr (reversed shape dims i)"
  using assms
proof (induction dims arbitrary: i)
  case Nil
  then show ?case by (simp add: reversed_def) (metis map_nth)
next
  case (Cons d dims)
  then have d: "0 \<le> d" "d < int (length shape)" "d \<notin> set dims" by auto
  have "reversed shape dims (i[nat d := shape ! nat d - i ! nat d - 1]) = reversed shape (d # dims) i"
    using d Cons.prems by (auto simp: reversed_def nth_list_update)
  with Cons d show ?case by simp
qed

lemma verifyReverseOp_ok:
  assumes "verifyReverseOp ty dims = Inr ()"
  shows "distinct dims" "set dims \<subseteq> {0..<int (length (getShape ty))}"
proof -
  show "distinct dims"
    using assms by (auto simp: verifyReverseOp_def remdups_id_iff_distinct length_remdups_eq split: if_splits)
  let ?check = "\<lambda>dim (_::unit). if dim < 0 then Inl (Failure ''all dimensions should be non-negative'')
        else if rt_rank ty \<le> dim then Inl (Failure ''all dimensions should be between [0, rank)'') else Inr ()"
  have "foldM ?check ds u = Inr () \<Longrightarrow> set ds \<subseteq> {0..<int (length (getShape ty))}" for ds u
    by (induction ds arbitrary: u) (auto simp: result_simps rt_rank_def split: if_splits)
  moreover have "foldM ?check dims () = Inr ()" using assms by (simp add: verifyReverseOp_def split: if_splits)
  ultimately show "set dims \<subseteq> {0..<int (length (getShape ty))}" by blast
qed

lemma reversed_inBounds: "inBounds i shape \<Longrightarrow> inBounds (reversed shape dims i) shape"
  by (auto simp: inBounds_nth reversed_def)

lemma reversed_reversed: "length i = length shape \<Longrightarrow> reversed shape dims (reversed shape dims i) = i"
  by (rule length_eq_nth_imp) (simp_all add: reversed_def)

lemma reverse_denotes:
  assumes "denotes F operand f" "verifyReverseOp (t_type operand) dims = Inr ()"
  shows "\<exists>r. reverseOp F operand dims (t_type operand) = Inr r \<and> t_type r = t_type operand \<and>
    denotes F r (\<lambda>i. f (reversed (t_shape operand) dims i))"
  using fill_from_denotes [OF assms(1) denotes_static(1) [OF assms(1)], unfolded shaped_eta,
      of "\<lambda>i. foldM (\<lambda>d j. rbind (vec_nth (t_shape operand) d) (\<lambda>size. rbind (vec_nth j d) (\<lambda>x. vec_set j d (size - x - 1)))) dims i"
        "reversed (t_shape operand) dims"]
    reverse_loop [OF verifyReverseOp_ok [OF assms(2)]] reversed_inBounds inBounds_length
  by (simp add: reverseOp_def)

text \<open>
  \<open>reverse\<close> is sound for its verifier: the result has the operand's type, and its element at \<open>i\<close> is the operand's
  element with the index of each reversed dimension counted from the other end.
\<close>

theorem reverse_sound:
  assumes "denotes F operand f" "verifyReverseOp (t_type operand) dims = Inr ()"
  shows "\<exists>r. reverseOp F operand dims (t_type operand) = Inr r \<and> t_type r = t_type operand \<and>
    denotes F r (\<lambda>i. f (reversed (t_shape operand) dims i))"
  by (rule reverse_denotes [OF assms])

section \<open>Broadcast\<close>

definition broadcast_index :: "Sizes \<Rightarrow> Axes \<Rightarrow> Index \<Rightarrow> Index" where
  "broadcast_index shape dims i = map2 (\<lambda>n d. if n = 1 then 0 else i ! nat d) shape dims"

lemma isUnique_loop_distinct: "isUnique_loop xs ys \<Longrightarrow> distinct xs \<and> set xs \<inter> set ys = {}"
  by (induction xs arbitrary: ys) (fastforce split: if_splits)+

lemma isUnique_distinct: "isUnique xs \<Longrightarrow> distinct xs"
  by (auto simp: isUnique_def dest: isUnique_loop_distinct)

lemma verifyBroadcastInDimOp_ok:
  assumes "verifyBroadcastInDimOp oty dims rty = Inr ()"
  shows "length dims = length (getShape oty)"
    "\<And>k. k < length dims \<Longrightarrow> 0 \<le> dims ! k \<and> dims ! k < int (length (getShape rty)) \<and>
      (isDynamicDimSize (getShape oty ! k) \<or> getShape oty ! k = 1 \<or> getShape oty ! k = getShape rty ! nat (dims ! k))"
proof -
  let ?check = "\<lambda>(dimIndex, dimSize) (_::unit).
            if dimIndex < 0 \<or> rt_rank rty \<le> dimIndex
            then Inl (Failure ''broadcast_dimensions contains invalid value'')
            else if \<not> isDynamicDimSize dimSize \<and> dimSize \<noteq> 1 \<and> dimSize \<noteq> getShape rty ! nat dimIndex
            then Inl (Failure ''size of operand dimension is not equal to 1 or size of result dimension'')
            else Inr ()"
  from assms show len: "length dims = length (getShape oty)"
    by (auto simp: verifyBroadcastInDimOp_def rt_rank_def result_simps split: if_splits)
  have ok: "foldM ?check (zip dims (getShape oty)) () = Inr ()"
    using assms by (auto simp: verifyBroadcastInDimOp_def result_simps split: if_splits)
  have "foldM ?check zs u = Inr () \<Longrightarrow> (d, n) \<in> set zs \<Longrightarrow> 0 \<le> d \<and> d < int (length (getShape rty)) \<and>
      (isDynamicDimSize n \<or> n = 1 \<or> n = getShape rty ! nat d)" for zs u d n
    by (induction zs arbitrary: u) (auto simp: result_simps rt_rank_def split: if_splits)
  from this [OF ok] len show "\<And>k. k < length dims \<Longrightarrow> 0 \<le> dims ! k \<and> dims ! k < int (length (getShape rty)) \<and>
      (isDynamicDimSize (getShape oty ! k) \<or> getShape oty ! k = 1 \<or> getShape oty ! k = getShape rty ! nat (dims ! k))"
    by (metis in_set_zip fst_conv snd_conv)
qed

lemma broadcast_dims_denotes:
  assumes "denotes F operand f" "length dims = length (t_shape operand)"
    and "\<And>k. k < length (t_shape operand) \<Longrightarrow> 0 \<le> dims ! k \<and> dims ! k < int (length (getShape rty)) \<and>
      (t_shape operand ! k = 1 \<or> t_shape operand ! k = getShape rty ! nat (dims ! k))"
    and "list_all (\<lambda>d. 0 \<le> d) (getShape rty)" "getElementType rty = t_elementType operand"
  shows "\<exists>r. broadcastInDimOp F operand dims rty = Inr r \<and> t_type r = rty \<and>
    denotes F r (\<lambda>i. f (broadcast_index (t_shape operand) dims i))"
proof -
  let ?sh = "t_shape operand" and ?n = "length (t_shape operand)"
  note ok = assms(2) and dims = assms(3)
  let ?g = "\<lambda>i d. if ?sh ! d = 1 then 0 else i ! nat (dims ! d)"
  have idx: "foldM (\<lambda>d j. rbind (vec_nth ?sh d) (\<lambda>size. if size = 1 then Inr j
        else rbind (vec_nth dims d) (\<lambda>dim. rbind (vec_nth i dim) (vec_set j d)))) (upto_int (int ?n)) (replicate ?n 0) =
      Inr (broadcast_index ?sh dims i)" (is "foldM ?body _ _ = _") if i: "inBounds i (getShape rty)" for i
  proof -
    have "foldM ?body (upto_int (int ?n)) (replicate ?n 0) = Inr (map (?g i) [0..<?n])"
    proof (rule foldM_build)
      fix d and v :: "int list" assume d: "d < ?n" and v: "length v = ?n" "\<And>k. d \<le> k \<Longrightarrow> k < ?n \<Longrightarrow> v ! k = replicate ?n 0 ! k"
      then have "v[d := 0] = v" using v(2) [of d] by (metis list_update_id nth_replicate order_refl)
      with d v(1) dims [OF d] ok(1) inBounds_length [OF i] show "?body (int d) v = Inr (v[d := ?g i d])" by simp
    qed simp
    also have "map (?g i) [0..<?n] = broadcast_index ?sh dims i"
      using ok(1) by (intro length_eq_nth_imp) (simp_all add: broadcast_index_def)
    finally show ?thesis .
  qed
  have "inBounds (broadcast_index ?sh dims i) ?sh" if i: "inBounds i (getShape rty)" for i
  proof -
    have "0 \<le> ?g i k \<and> ?g i k < ?sh ! k" if k: "k < ?n" for k
      using dims [OF k] i by (auto simp: inBounds_nth nat_less_iff)
    with ok(1) show ?thesis by (simp add: inBounds_nth broadcast_index_def)
  qed
  from fill_from_denotes [OF assms(1,4) conjI [OF idx this]]
  show ?thesis by (simp only: broadcastInDimOp_def getRank_def assms(5) [symmetric] shaped_eta)
qed

lemma broadcast_in_dim_denotes:
  assumes "denotes F operand f"
    and "verifyBroadcastInDimOp (as_ranked (t_type operand)) dims (as_ranked rty) = Inr ()"
    and "list_all (\<lambda>d. 0 \<le> d) (getShape rty)" "getElementType rty = t_elementType operand"
  shows "\<exists>r. broadcastInDimOp F operand dims rty = Inr r \<and> t_type r = rty \<and>
    denotes F r (\<lambda>i. f (broadcast_index (t_shape operand) dims i))"
proof -
  have ran: "getShape (as_ranked ty) = getShape ty" for ty by (simp add: as_ranked_def mkRankedTensorType_def)
  note ok = verifyBroadcastInDimOp_ok [OF assms(2), unfolded ran]
  show ?thesis
  proof (rule broadcast_dims_denotes [OF assms(1) ok(1) _ assms(3,4)])
    show "0 \<le> dims ! k \<and> dims ! k < int (length (getShape rty)) \<and> (t_shape operand ! k = 1 \<or> t_shape operand ! k = getShape rty ! nat (dims ! k))"
      if "k < length (t_shape operand)" for k
      using ok that denotes_static(2) [OF assms(1), of "t_shape operand ! k"] by auto
  qed
qed

text \<open>
  C9: \<open>broadcast_in_dim\<close> is sound for its verifier: every element of the result is the operand's element whose index is
  that of the result along \<open>broadcast_dimensions\<close>, and zero in the dimensions of size one.
\<close>

theorem broadcast_in_dim_sound:
  assumes "denotes F operand f"
    and "verifyBroadcastInDimOp (as_ranked (t_type operand)) dims (as_ranked rty) = Inr ()"
    and "list_all (\<lambda>d. 0 \<le> d) (getShape rty)" "getElementType rty = t_elementType operand"
  shows "\<exists>r. broadcastInDimOp F operand dims rty = Inr r \<and> t_type r = rty \<and>
    denotes F r (\<lambda>i. f (broadcast_index (t_shape operand) dims i))"
  by (rule broadcast_in_dim_denotes [OF assms])

end
