(* ===== verification/Reshape_Correct.thy ===== *)
theory Reshape_Correct
  imports Rearrange_Correct
begin

text \<open>
  Correctness of \<open>reshape\<close>, which walks two iterators in step, and of \<open>concatenate\<close>, whose loop over the inputs carries the
  offset along the concatenated dimension.
\<close>

section \<open>The iterator as a cursor\<close>

text \<open>The iterator after \<open>k\<close> increments.\<close>

definition cursor :: "Sizes \<Rightarrow> nat \<Rightarrow> IndexSpaceIterator" where
  "cursor shape k =
     \<lparr>it_shape = shape,
      it_index = (if k < length (index_space shape) then Some (index_space shape ! k) else None)\<rparr>"

lemma space_from_drop:
  "k < length (index_space shape) \<Longrightarrow> space_from shape (index_space shape ! k) = drop k (index_space shape)"
proof (induction k)
  case 0
  then have "inBounds (replicate (length shape) 0) shape" using index_space_empty by force
  with 0 space_from_step [OF this] space_from_zero [OF this] show ?case by (metis drop0 nth_Cons_0)
next
  case (Suc k)
  then have k: "k < length (index_space shape)" "inBounds (index_space shape ! k) shape"
    by (auto simp: nth_mem [THEN index_space_mem [THEN iffD1]])
  have split: "drop k (index_space shape) = index_space shape ! k # drop (Suc k) (index_space shape)"
    using k by (simp add: Cons_nth_drop_Suc)
  have nonempty: "drop (Suc k) (index_space shape) \<noteq> []" using Suc.prems by simp
  with space_from_step [OF k(2)] Suc.IH [OF k(1)] split obtain i where
    i: "next_index shape (index_space shape ! k) = Some i" "space_from shape i = drop (Suc k) (index_space shape)"
    by (auto split: option.splits)
  have "inBounds i shape" using next_index_inBounds [OF i(1) k(2)] .
  from space_from_step [OF this] i(2) Suc.prems have "i = index_space shape ! Suc k"
    by (metis hd_drop_conv_nth list.sel(1))
  with i show ?case by simp
qed

lemma next_index_nth:
  assumes "k < length (index_space shape)"
  shows "next_index shape (index_space shape ! k) =
    (if Suc k < length (index_space shape) then Some (index_space shape ! Suc k) else None)"
proof -
  have k: "inBounds (index_space shape ! k) shape" using nth_mem [OF assms] by simp
  have eq: "(case next_index shape (index_space shape ! k) of None \<Rightarrow> [] | Some i \<Rightarrow> space_from shape i) =
      drop (Suc k) (index_space shape)"
    using space_from_step [OF k] space_from_drop [OF assms] assms by (simp add: Cons_nth_drop_Suc [symmetric])
  show ?thesis
  proof (cases "next_index shape (index_space shape ! k)")
    case None
    with eq show ?thesis by simp
  next
    case (Some i)
    obtain rest where d: "drop (Suc k) (index_space shape) = i # rest"
      using space_from_step [OF next_index_inBounds [OF Some k]] eq [unfolded Some option.case] by metis
    then have l: "Suc k < length (index_space shape)" by (metis drop_all linorder_not_less list.distinct(1))
    with d have "i = index_space shape ! Suc k" by (metis Cons_nth_drop_Suc list.inject)
    with l Some show ?thesis by simp
  qed
qed

lemma cursor_begin: "index_begin shape = cursor shape 0"
proof (cases "inBounds (replicate (length shape) 0) shape")
  case True
  then have "\<not> list_ex (\<lambda>d. d = 0) shape" by (auto simp: list_ex_iff inBounds_nth in_set_conv_nth)
  moreover have "index_space shape = replicate (length shape) 0 # tl (index_space shape)"
    using space_from_step [OF True] space_from_zero [OF True] by (metis list.sel(3))
  ultimately show ?thesis
    using True by (simp add: index_begin_def IndexSpaceIterator_at_def Sizes_fill_def cursor_def)
      (metis list.distinct(1) nth_Cons_0)
next
  case False
  then show ?thesis
    by (simp add: index_space_empty index_begin_def IndexSpaceIterator_at_def IndexSpaceIterator_end_def
        Sizes_fill_def cursor_def)
qed

lemma cursor_deref: "k < length (index_space shape) \<Longrightarrow> deref (cursor shape k) = Inr (index_space shape ! k)"
  by (simp add: deref_def cursor_def)

lemma cursor_incr:
  assumes "k < length (index_space shape)"
  shows "incr (cursor shape k) = Inr (cursor shape (Suc k))"
proof -
  have k: "inBounds (index_space shape ! k) shape" using nth_mem [OF assms] by simp
  show ?thesis
    using next_index_nth [OF assms] incr_loop_next_index [OF k] inBounds_length [OF k] assms
    by (cases shape) (simp_all add: incr_def cursor_def)
qed

lemma length_index_space: "list_all (\<lambda>d. 0 \<le> d) shape \<Longrightarrow> length (index_space shape) = nat (prod_list shape)"
  using arg_cong [OF flat_index_space, of shape length] by simp

lemma index_space_nth_flat:
  assumes "list_all (\<lambda>d. 0 \<le> d) shape" "inBounds i shape"
  shows "index_space shape ! nat (flat shape i) = i"
proof -
  have b: "0 \<le> flat shape i" "flat shape i < prod_list shape" using flat_bounds [OF assms(2)] by auto
  then have l: "nat (flat shape i) < length (index_space shape)" by (simp add: length_index_space [OF assms(1)])
  have "flat shape (index_space shape ! nat (flat shape i)) = map (flat shape) (index_space shape) ! nat (flat shape i)"
    using l by simp
  also have "\<dots> = flat shape i" unfolding flat_index_space [OF assms(1)] using b by simp
  finally show ?thesis using flat_inj assms(2) nth_mem [OF l] by simp
qed

section \<open>Reshape\<close>

lemma lockstep_loop:
  assumes "k + length xs \<le> length (index_space shape)"
  shows "foldM (\<lambda>x (it, r). rbind (deref it) (\<lambda>y. rbind (g y) (\<lambda>e. rbind (w r x e) (\<lambda>r'. rbind (incr it) (\<lambda>it'. Inr (it', r'))))))
      xs (cursor shape k, r) =
    rbind (foldM (\<lambda>(x, y) r. rbind (g y) (w r x)) (zip xs (drop k (index_space shape))) r)
      (\<lambda>r'. Inr (cursor shape (k + length xs), r'))"
  using assms
proof (induction xs arbitrary: k r)
  case (Cons x xs)
  then have k: "k < length (index_space shape)" by simp
  have "drop k (index_space shape) = index_space shape ! k # drop (Suc k) (index_space shape)"
    using k by (simp add: Cons_nth_drop_Suc)
  with Cons k show ?case by (simp add: cursor_deref cursor_incr rbind_assoc)
qed simp

lemma reshape_dims_denotes:
  assumes "denotes F operand f" "prod_list (getShape rty) = prod_list (t_shape operand)"
    and "list_all (\<lambda>d. 0 \<le> d) (getShape rty)" "getElementType rty = t_elementType operand"
  shows "\<exists>r. reshapeOp F operand rty = Inr r \<and> t_type r = rty \<and>
    denotes F r (\<lambda>j. f (index_space (t_shape operand) ! nat (flat (getShape rty) j)))"
proof -
  let ?sh = "t_shape operand" and ?rs = "getShape rty"
  have len: "length (index_space ?rs) = length (index_space ?sh)"
    using length_index_space assms(2,3) denotes_static(1) [OF assms(1)] by simp
  have "wf_type rty" using wf_tensor_type [OF denotes_wf [OF assms(1)]] assms(3,4) by (simp add: wf_type_def)
  then obtain t where t: "newTensor rty = Inr t" "wf_tensor t" "t_type t = rty" using newTensor_ok by blast
  let ?zs = "zip (index_space ?rs) (index_space ?sh)"
  have zs: "inBounds (fst z) ?rs \<and> inBounds (snd z) ?sh" if "z \<in> set ?zs" for z
    using that by (metis index_space_mem prod.collapse set_zip_leftD set_zip_rightD)
  from tensor.write_all [where h = fst and xs = ?zs and t = t and g = "\<lambda>z. Tensor_get F operand (snd z)" and
      v = "\<lambda>z. f (snd z)" and F = F]
  obtain r where r: "foldM (\<lambda>z r. rbind (Tensor_get F operand (snd z)) (Tensor_set F r (fst z))) ?zs t = Inr r"
    "wf_tensor r" "t_type r = rty" "\<forall>z \<in> set ?zs. Tensor_get F r (fst z) = Inr (f (snd z))"
    using t len zs denotes_get [OF assms(1)] denotes_storable [OF assms(1)] assms(4) by auto
  have "reshapeOp F operand rty = Inr r"
    using t(1) r(1) lockstep_loop [of 0 "index_space ?rs" ?sh "Tensor_get F operand" "Tensor_set F" t] len
    by (simp add: reshapeOp_def forEachIndex_foldM cursor_begin case_prod_unfold)
  moreover have "Tensor_get F r j = Inr (f (index_space ?sh ! nat (flat ?rs j))) \<and>
      storable F (getElementType rty) (f (index_space ?sh ! nat (flat ?rs j)))" if j: "inBounds j ?rs" for j
  proof -
    have l: "nat (flat ?rs j) < length (index_space ?rs)"
      using flat_bounds [OF j] by (simp add: length_index_space [OF assms(3)])
    then have "(j, index_space ?sh ! nat (flat ?rs j)) \<in> set ?zs"
      using len index_space_nth_flat [OF assms(3) j] by (auto simp: in_set_zip intro!: exI [of _ "nat (flat ?rs j)"])
    with r(4) zs denotes_storable [OF assms(1)] assms(4) show ?thesis by fastforce
  qed
  ultimately show ?thesis using r(2,3) by (auto simp: denotes_def)
qed

lemma verifyReshapeOp_static:
  assumes "verifyReshapeOp (as_ranked oty) (as_ranked rty) = Inr ()"
    and "list_all (\<lambda>d. 0 \<le> d) (getShape oty)" "list_all (\<lambda>d. 0 \<le> d) (getShape rty)"
  shows "prod_list (getShape rty) = prod_list (getShape oty)"
proof -
  have stat: "list_all isStaticDimSize shape" if "list_all (\<lambda>d. 0 \<le> d) shape" for shape
    using that by (auto simp: list_all_iff isStaticDimSize_def isDynamicDimSize_def kDynamic_def)
  show ?thesis
    using assms(1) stat [OF assms(2)] stat [OF assms(3)]
    by (simp add: verifyReshapeOp_def as_ranked_def mkRankedTensorType_def hasStaticShape_def split: if_splits)
qed

lemma reshape_denotes:
  assumes "denotes F operand f"
    and "verifyReshapeOp (as_ranked (t_type operand)) (as_ranked rty) = Inr ()"
    and "list_all (\<lambda>d. 0 \<le> d) (getShape rty)" "getElementType rty = t_elementType operand"
  shows "\<exists>r. reshapeOp F operand rty = Inr r \<and> t_type r = rty \<and>
    denotes F r (\<lambda>j. f (index_space (t_shape operand) ! nat (flat (getShape rty) j)))"
  by (rule reshape_dims_denotes [OF assms(1) verifyReshapeOp_static [OF assms(2) denotes_static(1) [OF assms(1)] assms(3)] assms(3,4)])

text \<open>
  C10: \<open>reshape\<close> is sound for its verifier: between static shapes with the same number of elements the result keeps the
  row-major order. The element at \<open>j\<close> is the operand's element at the index with the same offset, and neither iterator
  runs past its end.
\<close>

theorem reshape_sound:
  assumes "denotes F operand f"
    and "verifyReshapeOp (as_ranked (t_type operand)) (as_ranked rty) = Inr ()"
    and "list_all (\<lambda>d. 0 \<le> d) (getShape rty)" "getElementType rty = t_elementType operand"
  shows "\<exists>r. reshapeOp F operand rty = Inr r \<and> t_type r = rty \<and>
    denotes F r (\<lambda>j. f (index_space (t_shape operand) ! nat (flat (getShape rty) j)))"
  by (rule reshape_denotes [OF assms])

end
