(* ===== verification/Concat_Correct.thy ===== *)
theory Concat_Correct
  imports Reshape_Correct
begin

text \<open>
  Correctness of \<open>concatenate\<close>: what its shape function infers for static shapes, and that the interpreter's loop, which
  carries the offset along the concatenated dimension, puts every input in its place.
\<close>

section \<open>What the shape function infers\<close>

text \<open>One merge step treats the dimensions independently.\<close>

lemma merge_type_nth:
  assumes "merge_type fn (int n) ty (s, b) = Inr (s', b')" "length s = n" "length b = n"
    and "encodingToBounds (getEncoding ty) = []"
  shows "length s' = n" "length b' = n" "n \<le> length (getShape ty)"
    "\<And>k. k < n \<Longrightarrow> fn (int k) (s ! k) (getShape ty ! k) (b ! k) kDynamic = Inr (s' ! k, b' ! k)"
proof -
  let ?body = "\<lambda>dim (sizes, bounds'). rbind (vec_nth sizes dim) (\<lambda>leftSize. rbind (vec_nth (getShape ty) dim) (\<lambda>rightSize.
       rbind (vec_nth bounds' dim) (\<lambda>leftBound. rbind (fn dim leftSize rightSize leftBound kDynamic) (\<lambda>(size, bound).
       rbind (vec_set sizes dim size) (\<lambda>sizes'. rbind (vec_set bounds' dim bound) (\<lambda>bounds''. Inr (sizes', bounds'')))))))"
  have upto: "upto_int (int n) = map int [0..<n]" by (intro length_eq_nth_imp) auto
  have m: "foldM ?body (map int [0..<n]) (s, b) = Inr (s', b')"
    using assms(1,4) by (simp add: merge_type_def upto cong: foldM_cong)
  have "m \<le> n \<Longrightarrow> foldM ?body (map int [0..<m]) (s, b) = Inr (s1, b1) \<Longrightarrow>
      length s1 = n \<and> length b1 = n \<and>
      (\<forall>k < m. k < length (getShape ty) \<and> fn (int k) (s ! k) (getShape ty ! k) (b ! k) kDynamic = Inr (s1 ! k, b1 ! k)) \<and>
      (\<forall>k. m \<le> k \<longrightarrow> s1 ! k = s ! k \<and> b1 ! k = b ! k)" for m s1 b1
  proof (induction m arbitrary: s1 b1)
    case (Suc m)
    from Suc.prems(2) obtain s0 b0 where st: "foldM ?body (map int [0..<m]) (s, b) = Inr (s0, b0)"
      and body: "?body (int m) (s0, b0) = Inr (s1, b1)"
      by (auto simp: foldM_append result_simps)
    from Suc.IH [OF _ st] Suc.prems(1) have IH: "length s0 = n" "length b0 = n"
      "\<forall>k < m. k < length (getShape ty) \<and> fn (int k) (s ! k) (getShape ty ! k) (b ! k) kDynamic = Inr (s0 ! k, b0 ! k)"
      "\<forall>k. m \<le> k \<longrightarrow> s0 ! k = s ! k \<and> b0 ! k = b ! k" by auto
    from body Suc.prems(1) IH(1,2) obtain x y where xy: "m < length (getShape ty)"
      "fn (int m) (s0 ! m) (getShape ty ! m) (b0 ! m) kDynamic = Inr (x, y)" "s1 = s0[m := x]" "b1 = b0[m := y]"
      by (auto simp: result_simps)
    with IH Suc.prems(1) show ?case by (auto simp: less_Suc_eq nth_list_update)
  qed (use assms(2,3) in auto)
  from this [OF order_refl m] show "length s' = n" "length b' = n" "n \<le> length (getShape ty)"
    "\<And>k. k < n \<Longrightarrow> fn (int k) (s ! k) (getShape ty ! k) (b ! k) kDynamic = Inr (s' ! k, b' ! k)"
    by (auto simp: not_less [symmetric])
qed

text \<open>For a static dimension both rules give a static size and no bound.\<close>

lemma most_specific_static:
  assumes "\<not> isDynamicDimSize r" "inferMostSpecificDimAndBound k l r kDynamic kDynamic = Inr (x, y)"
  shows "x = r \<and> y = kDynamic \<and> (isDynamicDimSize l \<or> l = r)"
  using assms by (auto simp: inferMostSpecificDimAndBound_def Let_def isDynamicDimSize_def split: if_splits)

lemma merge_all_static:
  assumes "foldM (merge_type (concatenate_dim (int d)) (int n)) tys (s, b) = Inr (s', b')"
    and "length s = n" "length b = n" "\<And>k. k < n \<Longrightarrow> b ! k = kDynamic" "d < n" "0 \<le> s ! d"
    and "\<And>ty. ty \<in> set tys \<Longrightarrow> getEncoding ty = NoEncoding \<and> list_all (\<lambda>x. 0 \<le> x) (getShape ty)"
  shows "length s' = n \<and> s' ! d = s ! d + (\<Sum>ty\<leftarrow>tys. getShape ty ! d) \<and>
    (\<forall>k < n. k \<noteq> d \<longrightarrow> (\<forall>ty \<in> set tys. getShape ty ! k = s' ! k) \<and> (0 \<le> s ! k \<or> tys = [] \<longrightarrow> s' ! k = s ! k))"
  using assms
proof (induction tys arbitrary: s b)
  case (Cons ty tys)
  from Cons.prems(1) obtain s1 b1 where m: "merge_type (concatenate_dim (int d)) (int n) ty (s, b) = Inr (s1, b1)"
    and rest: "foldM (merge_type (concatenate_dim (int d)) (int n)) tys (s1, b1) = Inr (s', b')"
    by (auto simp: result_simps)
  have ty: "encodingToBounds (getEncoding ty) = []" "list_all (\<lambda>x. 0 \<le> x) (getShape ty)" using Cons.prems(7) [of ty] by auto
  note mt = merge_type_nth [OF m Cons.prems(2,3) ty(1)]
  have dyn: "\<not> isDynamicDimSize x" if "0 \<le> x" for x using that by (simp add: isDynamicDimSize_def kDynamic_def)
  have nonneg: "0 \<le> getShape ty ! k" if "k < n" for k using ty(2) mt(3) that by (simp add: list_all_length)
  have step: "b1 ! k = kDynamic \<and> (if k = d then s1 ! k = s ! k + getShape ty ! k
      else s1 ! k = getShape ty ! k \<and> (0 \<le> s ! k \<longrightarrow> s1 ! k = s ! k))" if k: "k < n" for k
  proof (cases "k = d")
    case True
    with mt(4) [OF k] dyn [OF nonneg [OF k]] dyn [OF Cons.prems(6)] show ?thesis
      by (simp add: concatenate_dim_def inferConcatenatedDimAndBound_def)
  next
    case False
    with mt(4) [OF k] Cons.prems(4) [OF k] have "inferMostSpecificDimAndBound (int k) (s ! k) (getShape ty ! k) kDynamic kDynamic = Inr (s1 ! k, b1 ! k)"
      by (simp add: concatenate_dim_def)
    from most_specific_static [OF dyn [OF nonneg [OF k]] this] False show ?thesis using dyn by auto
  qed
  have sd: "0 \<le> s1 ! d" using step [OF Cons.prems(5)] Cons.prems(6) nonneg [OF Cons.prems(5)] by simp
  have b1: "\<And>k. k < n \<Longrightarrow> b1 ! k = kDynamic" using step by blast
  have tys: "\<And>ty. ty \<in> set tys \<Longrightarrow> getEncoding ty = NoEncoding \<and> list_all (\<lambda>x. 0 \<le> x) (getShape ty)"
    using Cons.prems(7) by simp
  have other: "s1 ! k = getShape ty ! k" "0 \<le> s ! k \<longrightarrow> s1 ! k = s ! k" "0 \<le> s1 ! k" if "k < n" "k \<noteq> d" for k
    using step [OF that(1)] that(2) nonneg [OF that(1)] by auto
  have IH: "length s' = n" "s' ! d = s1 ! d + (\<Sum>ty\<leftarrow>tys. getShape ty ! d)"
    "\<And>k. k < n \<Longrightarrow> k \<noteq> d \<Longrightarrow> (\<forall>ty \<in> set tys. getShape ty ! k = s' ! k) \<and> (0 \<le> s1 ! k \<or> tys = [] \<longrightarrow> s' ! k = s1 ! k)"
    using Cons.IH [OF rest mt(1,2) b1 Cons.prems(5) sd tys] by blast+
  have "getShape ty ! k = s' ! k" "0 \<le> s ! k \<longrightarrow> s' ! k = s ! k" if "k < n" "k \<noteq> d" for k
    using IH(3) [OF that] other [OF that] by simp_all
  with IH step [OF Cons.prems(5)] show ?case by simp
qed auto

lemma checkConcatenateInputs_rank:
  "foldM (\<lambda>ty (_::unit). checkConcatenateInput w d ty) tys u = Inr () \<Longrightarrow> ty \<in> set tys \<Longrightarrow>
   length (getShape ty) = length (getShape w)"
  by (induction tys arbitrary: u) (auto simp: result_simps checkConcatenateInput_def rt_rank_def split: if_splits)

lemma inferConcatenateOp_static:
  assumes "inferConcatenateOp tys dim = Inr rt"
    and "\<And>ty. ty \<in> set tys \<Longrightarrow> getEncoding ty = NoEncoding \<and> list_all (\<lambda>x. 0 \<le> x) (getShape ty)"
  shows "tys \<noteq> []" "0 \<le> dim" "dim < int (length (getShape rt))" "getElementType rt = getElementType (hd tys)"
    "getShape rt ! nat dim = (\<Sum>ty\<leftarrow>tys. getShape ty ! nat dim)"
    "\<And>ty. ty \<in> set tys \<Longrightarrow> length (getShape ty) = length (getShape rt)"
    "\<And>ty k. ty \<in> set tys \<Longrightarrow> k < length (getShape rt) \<Longrightarrow> k \<noteq> nat dim \<Longrightarrow> getShape ty ! k = getShape rt ! k"
proof -
  from assms(1) obtain w ws where tys: "tys = w # ws" by (cases tys) (auto simp: inferConcatenateOp_def)
  let ?n = "length (getShape w)"
  have noenc: "\<not> list_ex (\<lambda>t. encodingToBounds (getEncoding t) \<noteq> []) tys"
    using assms(2) by (auto simp: list_ex_iff)
  from assms(1) obtain s b where d: "0 \<le> dim" "dim < int ?n"
    and chk: "foldM (\<lambda>ty (_::unit). checkConcatenateInput w dim ty) tys () = Inr ()"
    and m: "foldM (merge_type (concatenate_dim dim) (int ?n)) tys ((replicate ?n kDynamic)[nat dim := 0], replicate ?n kDynamic) = Inr (s, b)"
    and rt: "getShape rt = s" "getElementType rt = getElementType w"
    using noenc unfolding tys
    by (auto simp: inferConcatenateOp_def rt_rank_def Let_def result_simps mkRankedTensorType_def split: if_splits)
  have dn: "dim = int (nat dim)" "nat dim < ?n" using d by auto
  have s: "length s = ?n" "s ! nat dim = (\<Sum>ty\<leftarrow>tys. getShape ty ! nat dim)"
      "\<And>k. k < ?n \<Longrightarrow> k \<noteq> nat dim \<Longrightarrow> (\<forall>ty \<in> set tys. getShape ty ! k = s ! k)"
    using merge_all_static [OF m [unfolded arg_cong [OF dn(1), of concatenate_dim]] _ _ _ dn(2) _ assms(2)] dn(2) by auto
  show "tys \<noteq> []" "0 \<le> dim" "getElementType rt = getElementType (hd tys)" using tys d rt by simp_all
  show "dim < int (length (getShape rt))" "getShape rt ! nat dim = (\<Sum>ty\<leftarrow>tys. getShape ty ! nat dim)"
    using d s rt by simp_all
  fix ty assume ty: "ty \<in> set tys"
  show "length (getShape ty) = length (getShape rt)"
    using checkConcatenateInputs_rank [OF chk ty] s(1) rt(1) by simp
  fix k assume "k < length (getShape rt)" "k \<noteq> nat dim"
  then show "getShape ty ! k = getShape rt ! k" using s(1,3) rt(1) ty by simp
qed

section \<open>The loop of the interpreter\<close>

text \<open>The input and the index in it that a result index stands for, given the sizes along the dimension.\<close>

fun concat_pos :: "nat \<Rightarrow> int list \<Rightarrow> Index \<Rightarrow> nat \<times> Index" where
  "concat_pos d [] j = (0, j)"
| "concat_pos d (n # ns) j =
     (if j ! d < n then (0, j)
      else let (k, i) = concat_pos d ns (j[d := j ! d - n]) in (Suc k, i))"

definition concatenated :: "nat \<Rightarrow> int list \<Rightarrow> (Index \<Rightarrow> 'e) list \<Rightarrow> Index \<Rightarrow> 'e" where
  "concatenated d sizes fs j = (case concat_pos d sizes j of (k, i) \<Rightarrow> (fs ! k) i)"

definition fits_at :: "Sizes \<Rightarrow> nat \<Rightarrow> Sizes \<Rightarrow> bool" where
  "fits_at shape d sh \<longleftrightarrow> length sh = length shape \<and> (\<forall>k < length shape. k \<noteq> d \<longrightarrow> sh ! k = shape ! k)"

lemma shift_inBounds:
  assumes "fits_at shape d sh" "d < length shape" "inBounds i sh" "0 \<le> o'" "o' + sh ! d \<le> shape ! d"
  shows "inBounds (i[d := i ! d + o']) shape"
  using assms by (auto simp: inBounds_nth fits_at_def nth_list_update)

lemma unshift_inBounds:
  assumes "fits_at shape d sh" "d < length shape" "inBounds j shape" "o' \<le> j ! d" "j ! d < o' + sh ! d"
  shows "inBounds (j[d := j ! d - o']) sh"
  using assms by (auto simp: inBounds_nth fits_at_def nth_list_update)

lemma concat_pos_ok:
  assumes "0 \<le> j ! d" "j ! d < sum_list ns" "d < length j"
  shows "\<exists>k i x. concat_pos d ns j = (k, i) \<and> k < length ns \<and> i = j[d := x] \<and> 0 \<le> x \<and> x < ns ! k"
  using assms
proof (induction ns arbitrary: j)
  case (Cons n ns)
  show ?case
  proof (cases "j ! d < n")
    case True
    with Cons.prems show ?thesis by (auto intro!: exI [of _ "j ! d"])
  next
    case False
    with Cons.IH [of "j[d := j ! d - n]"] Cons.prems show ?thesis by auto
  qed
qed simp

definition write_input :: "('f, 'd) float_api \<Rightarrow> nat \<Rightarrow> int \<Rightarrow> Tensor \<Rightarrow> Tensor \<Rightarrow> Tensor result" where
  "write_input F d o' input r =
     foldM (\<lambda>i r. rbind (Tensor_get F input i) (Tensor_set F r (i[d := i ! d + o']))) (index_space (t_shape input)) r"

lemma write_input_ok:
  assumes t: "wf_tensor t" "d < length (t_shape t)" and inp: "denotes F input f" "t_elementType input = t_elementType t"
    and sh: "fits_at (t_shape t) d (t_shape input)" "0 \<le> o'" "o' + t_shape input ! d \<le> t_shape t ! d"
  shows "\<exists>r. write_input F d o' input t = Inr r \<and> wf_tensor r \<and> t_type r = t_type t \<and>
    (\<forall>j. inBounds j (t_shape t) \<longrightarrow> Tensor_get F r j =
       (if o' \<le> j ! d \<and> j ! d < o' + t_shape input ! d then Inr (f (j[d := j ! d - o'])) else Tensor_get F t j))"
proof -
  let ?h = "\<lambda>i. i[d := i ! d + o']" and ?xs = "index_space (t_shape input)"
  have len: "length i = length (t_shape t)" if "inBounds i (t_shape input)" for i
    using inBounds_length [OF that] sh(1) by (simp add: fits_at_def)
  have inv: "(?h i)[d := ?h i ! d - o'] = i" if "inBounds i (t_shape input)" for i
    using len [OF that] t(2) by simp
  have dist: "distinct (map ?h ?xs)"
    unfolding distinct_map by (auto intro!: inj_onI) (metis inv)
  from tensor.write_all [where h = ?h and xs = ?xs and t = t and g = "Tensor_get F input" and v = f and F = F, OF t(1) _ dist]
  obtain r where r: "write_input F d o' input t = Inr r" "wf_tensor r" "t_type r = t_type t"
    "\<forall>i. inBounds i (t_shape input) \<longrightarrow> Tensor_get F r (?h i) = Inr (f i)"
    "\<forall>j. inBounds j (t_shape t) \<longrightarrow> j \<notin> ?h ` {i. inBounds i (t_shape input)} \<longrightarrow> Tensor_get F r j = Tensor_get F t j"
    using shift_inBounds [OF sh(1) t(2) _ sh(2,3)] denotes_get [OF inp(1)] denotes_storable [OF inp(1)] inp(2)
    by (auto simp: write_input_def index_space_set)
  have "Tensor_get F r j = (if o' \<le> j ! d \<and> j ! d < o' + t_shape input ! d then Inr (f (j[d := j ! d - o'])) else Tensor_get F t j)"
    if j: "inBounds j (t_shape t)" for j
  proof (cases "o' \<le> j ! d \<and> j ! d < o' + t_shape input ! d")
    case True
    have "?h (j[d := j ! d - o']) = j" using inBounds_length [OF j] t(2) by simp
    with r(4) unshift_inBounds [OF sh(1) t(2) j] True show ?thesis by metis
  next
    case False
    have "j \<noteq> ?h i" if "inBounds i (t_shape input)" for i
      using False that len [OF that] t(2) sh(1) by (auto simp: inBounds_nth fits_at_def)
    with False r(5) j show ?thesis by auto
  qed
  with r show ?thesis by blast
qed

lemma concat_loop:
  assumes "wf_tensor t" "d < length (t_shape t)" "0 \<le> o'" "list_all2 (denotes F) ts fs"
    and "\<And>x. x \<in> set ts \<Longrightarrow> t_elementType x = t_elementType t \<and> fits_at (t_shape t) d (t_shape x)"
    and "o' + (\<Sum>x\<leftarrow>ts. t_shape x ! d) \<le> t_shape t ! d"
  shows "\<exists>r. foldM (\<lambda>input (o', r). rbind (write_input F d o' input r) (\<lambda>r'. Inr (o' + t_shape input ! d, r'))) ts (o', t) =
      Inr (o' + (\<Sum>x\<leftarrow>ts. t_shape x ! d), r) \<and> wf_tensor r \<and> t_type r = t_type t \<and>
    (\<forall>j. inBounds j (t_shape t) \<longrightarrow> Tensor_get F r j =
       (if o' \<le> j ! d \<and> j ! d < o' + (\<Sum>x\<leftarrow>ts. t_shape x ! d)
        then Inr (concatenated d (map (\<lambda>x. t_shape x ! d) ts) fs (j[d := j ! d - o'])) else Tensor_get F t j))"
  using assms
proof (induction ts arbitrary: t o' fs)
  case (Cons x ts)
  then obtain f fs' where fs: "fs = f # fs'" "denotes F x f" "list_all2 (denotes F) ts fs'" by (auto simp: list_all2_Cons1)
  let ?n = "t_shape x ! d" and ?s = "\<Sum>x\<leftarrow>ts. t_shape x ! d"
  have dims: "0 \<le> t_shape y ! d" if "y \<in> set (x # ts)" "\<exists>g. denotes F y g" for y
    using that denotes_static(1) Cons.prems(2,5) by (fastforce simp: fits_at_def list_all_length)
  have pos: "0 \<le> ?n" "0 \<le> ?s"
    using dims fs(2,3) by (auto intro!: sum_list_nonneg simp: list_all2_conv_all_nth in_set_conv_nth) (metis nth_mem)
  from write_input_ok [OF Cons.prems(1,2) fs(2), of o'] Cons.prems(3,5,6) pos
  obtain r1 where r1: "write_input F d o' x t = Inr r1" "wf_tensor r1" "t_type r1 = t_type t"
    "\<And>j. inBounds j (t_shape t) \<Longrightarrow> Tensor_get F r1 j =
       (if o' \<le> j ! d \<and> j ! d < o' + ?n then Inr (f (j[d := j ! d - o'])) else Tensor_get F t j)" by auto
  from Cons.IH [of r1 "o' + ?n" fs'] r1(2,3) Cons.prems(2,3,5,6) fs(3) pos
  obtain r where r: "foldM (\<lambda>input (o', r). rbind (write_input F d o' input r) (\<lambda>r'. Inr (o' + t_shape input ! d, r'))) ts (o' + ?n, r1) =
      Inr (o' + ?n + ?s, r)" "wf_tensor r" "t_type r = t_type t"
    "\<And>j. inBounds j (t_shape t) \<Longrightarrow> Tensor_get F r j =
       (if o' + ?n \<le> j ! d \<and> j ! d < o' + ?n + ?s
        then Inr (concatenated d (map (\<lambda>x. t_shape x ! d) ts) fs' (j[d := j ! d - (o' + ?n)])) else Tensor_get F r1 j)"
    by auto
  have "Tensor_get F r j = (if o' \<le> j ! d \<and> j ! d < o' + (?n + ?s)
      then Inr (concatenated d (?n # map (\<lambda>x. t_shape x ! d) ts) fs (j[d := j ! d - o'])) else Tensor_get F t j)"
    if j: "inBounds j (t_shape t)" for j
    using r(4) [OF j] r1(4) [OF j] inBounds_length [OF j] Cons.prems(2) pos
    by (auto simp: concatenated_def fs(1) case_prod_unfold Let_def algebra_simps)
  then show ?case using r(1-3) r1(1) by (intro exI [of _ r]) (simp add: add.assoc)
qed auto

lemma concatenate_dims_denotes:
  assumes "list_all2 (denotes F) inputs fs" "inputs \<noteq> []" "0 \<le> dimension" "dimension < int (length (getShape rty))"
    and "\<And>t. t \<in> set inputs \<Longrightarrow> t_elementType t = getElementType rty \<and> fits_at (getShape rty) (nat dimension) (t_shape t)"
    and "getShape rty ! nat dimension = (\<Sum>t\<leftarrow>inputs. t_shape t ! nat dimension)"
  shows "\<exists>r. concatenateOp F inputs dimension rty = Inr r \<and> t_type r = rty \<and>
    denotes F r (concatenated (nat dimension) (map (\<lambda>t. t_shape t ! nat dimension) inputs) fs)"
proof -
  let ?d = "nat dimension"
  have den: "\<exists>f \<in> set fs. denotes F t f" if "t \<in> set inputs" for t
    using that assms(1) by (auto simp: list_all2_conv_all_nth in_set_conv_nth) (metis nth_mem)
  have fit: "fits_at (getShape rty) ?d (t_shape t)" if "t \<in> set inputs" for t using assms(5) [OF that] by simp
  have el: "\<forall>t \<in> set inputs. t_elementType t = getElementType rty" using assms(5) by blast
  note sum = assms(6)
  obtain t0 where t0: "t0 \<in> set inputs" using assms(2) by (cases inputs) auto
  have pos: "0 \<le> t_shape t ! ?d" if "t \<in> set inputs" for t
    using den [OF that] denotes_static(1) fit [OF that] assms(3,4) by (fastforce simp: fits_at_def list_all_length)
  have "0 \<le> getShape rty ! k" if "k < length (getShape rty)" for k
  proof (cases "k = ?d")
    case True
    with sum pos show ?thesis by (auto intro!: sum_list_nonneg)
  next
    case False
    with fit [OF t0] that den [OF t0] denotes_static(1) show ?thesis by (fastforce simp: fits_at_def list_all_length)
  qed
  then have wf: "wf_type rty"
    using den [OF t0] wf_tensor_type denotes_wf el t0 by (fastforce simp: wf_type_def list_all_length)
  then obtain t where t: "newTensor rty = Inr t" "wf_tensor t" "t_type t = rty" using newTensor_ok by blast
  have tsh: "t_shape t = getShape rty" "t_elementType t = getElementType rty" using t(3) by simp_all
  have body: "rbind (forEachIndex (t_shape x) (\<lambda>i r'. rbind (vec_nth i dimension) (\<lambda>v.
          rbind (vec_set i dimension (v + o')) (\<lambda>j. rbind (Tensor_get F x i) (Tensor_set F r' j)))) r) (\<lambda>r'.
        rbind (vec_nth (t_shape x) dimension) (\<lambda>size. Inr (o' + size, r'))) =
      rbind (write_input F ?d o' x r) (\<lambda>r'. Inr (o' + t_shape x ! ?d, r'))" if x: "x \<in> set inputs" for x o' r
  proof -
    have len: "length (t_shape x) = length (getShape rty)" using fit [OF x] by (simp add: fits_at_def)
    have "foldM (\<lambda>i r'. rbind (vec_nth i dimension) (\<lambda>v. rbind (vec_set i dimension (v + o')) (\<lambda>j.
            rbind (Tensor_get F x i) (Tensor_set F r' j)))) (index_space (t_shape x)) r = write_input F ?d o' x r"
      unfolding write_input_def using assms(3,4) len by (intro foldM_cong) (simp_all add: inBounds_length)
    with assms(3,4) len show ?thesis by (simp add: forEachIndex_foldM)
  qed
  let ?loop = "foldM (\<lambda>input (o', r). rbind (write_input F ?d o' input r) (\<lambda>r'. Inr (o' + t_shape input ! ?d, r'))) inputs (0, t)"
  have dl: "?d < length (t_shape t)" using assms(3,4) tsh by simp
  have pre: "t_elementType x = t_elementType t \<and> fits_at (t_shape t) ?d (t_shape x)" if "x \<in> set inputs" for x
    using that fit el tsh by simp
  have le: "0 + (\<Sum>x\<leftarrow>inputs. t_shape x ! ?d) \<le> t_shape t ! ?d" using sum tsh by simp
  obtain r where r: "?loop = Inr (0 + (\<Sum>x\<leftarrow>inputs. t_shape x ! ?d), r)" "wf_tensor r" "t_type r = t_type t"
    "\<And>j. inBounds j (getShape rty) \<Longrightarrow> Tensor_get F r j =
       (if 0 \<le> j ! ?d \<and> j ! ?d < 0 + (\<Sum>x\<leftarrow>inputs. t_shape x ! ?d)
        then Inr (concatenated ?d (map (\<lambda>x. t_shape x ! ?d) inputs) fs (j[?d := j ! ?d - 0])) else Tensor_get F t j)"
    using concat_loop [OF t(2) dl order_refl assms(1) pre le, unfolded tsh(1)] by blast
  have op: "concatenateOp F inputs dimension rty = Inr r"
  proof -
    have "?loop = foldM (\<lambda>x (o', r). rbind (forEachIndex (t_shape x) (\<lambda>i r'. rbind (vec_nth i dimension) (\<lambda>v.
          rbind (vec_set i dimension (v + o')) (\<lambda>j. rbind (Tensor_get F x i) (Tensor_set F r' j)))) r) (\<lambda>r'.
        rbind (vec_nth (t_shape x) dimension) (\<lambda>size. Inr (o' + size, r')))) inputs (0, t)"
      by (intro foldM_cong) (auto simp: body)
    with r(1) t(1) show ?thesis by (simp add: concatenateOp_def)
  qed
  have "Tensor_get F r j = Inr (concatenated ?d (map (\<lambda>x. t_shape x ! ?d) inputs) fs j) \<and>
      storable F (getElementType rty) (concatenated ?d (map (\<lambda>x. t_shape x ! ?d) inputs) fs j)" if j: "inBounds j (getShape rty)" for j
  proof -
    have jd: "0 \<le> j ! ?d" "j ! ?d < (\<Sum>x\<leftarrow>inputs. t_shape x ! ?d)" "?d < length j"
      using j dl tsh(1) unfolding sum [symmetric] by (auto simp: inBounds_nth)
    from concat_pos_ok [OF jd] obtain k x where k: "concat_pos ?d (map (\<lambda>x. t_shape x ! ?d) inputs) j = (k, j[?d := x])"
      "k < length inputs" "0 \<le> x" "x < t_shape (inputs ! k) ! ?d" by auto
    have "inBounds (j[?d := x]) (t_shape (inputs ! k))"
      using k(2-4) jd(3) j fit [of "inputs ! k"] by (auto simp: inBounds_nth fits_at_def nth_list_update)
    moreover have "denotes F (inputs ! k) (fs ! k)" using assms(1) k(2) by (simp add: list_all2_conv_all_nth)
    ultimately show ?thesis
      using r(4) [OF j] jd k el denotes_storable by (fastforce simp: concatenated_def)
  qed
  with op r(2,3) t(3) tsh show ?thesis by (auto simp: denotes_def)
qed

lemma concatenate_denotes:
  assumes "list_all2 (denotes F) inputs fs"
    and "inferConcatenateOp (map (\<lambda>t. as_ranked (t_type t)) inputs) dimension = Inr rt"
    and "\<forall>t \<in> set inputs. t_elementType t = getElementType rt"
  shows "\<exists>r. concatenateOp F inputs dimension (as_shaped rt) = Inr r \<and> t_type r = as_shaped rt \<and>
    denotes F r (concatenated (nat dimension) (map (\<lambda>t. t_shape t ! nat dimension) inputs) fs)"
proof -
  let ?d = "nat dimension" and ?tys = "map (\<lambda>t. as_ranked (t_type t)) inputs"
  have den: "\<exists>f \<in> set fs. denotes F t f" if "t \<in> set inputs" for t
    using that assms(1) by (auto simp: list_all2_conv_all_nth in_set_conv_nth) (metis nth_mem)
  have enc: "getEncoding ty = NoEncoding \<and> list_all (\<lambda>x. 0 \<le> x) (getShape ty)" if "ty \<in> set ?tys" for ty
    using that den denotes_static(1) by (fastforce simp: as_ranked_def mkRankedTensorType_def)
  note st = inferConcatenateOp_static [OF assms(2) enc]
  have ran: "getShape (as_ranked ty) = getShape ty" for ty by (simp add: as_ranked_def mkRankedTensorType_def)
  have fit: "fits_at (getShape rt) ?d (t_shape t)" if "t \<in> set inputs" for t
    using st(6,7) [of "as_ranked (t_type t)"] that by (simp add: fits_at_def ran)
  have sum: "getShape rt ! ?d = (\<Sum>t\<leftarrow>inputs. t_shape t ! ?d)" using st(5) by (simp add: ran comp_def)
  show ?thesis
    using concatenate_dims_denotes [OF assms(1), of dimension "as_shaped rt"] st(1-3) fit sum assms(3)
    by (auto simp: as_shaped_def)
qed

text \<open>
  C7: \<open>concatenate\<close> is sound for its shape function: for static inputs that \<^verbatim>\<open>inferConcatenateOp\<close> accepts, the
  interpreter returns a tensor of the inferred type; the index along the dimension selects the input and the
  index in it, and no element is left unset.
\<close>

theorem concatenate_sound:
  assumes "list_all2 (denotes F) inputs fs"
    and "inferConcatenateOp (map (\<lambda>t. as_ranked (t_type t)) inputs) dimension = Inr rt"
    and "\<forall>t \<in> set inputs. t_elementType t = getElementType rt"
  shows "\<exists>r. concatenateOp F inputs dimension (as_shaped rt) = Inr r \<and> t_type r = as_shaped rt \<and>
    denotes F r (concatenated (nat dimension) (map (\<lambda>t. t_shape t ! nat dimension) inputs) fs)"
  by (rule concatenate_denotes [OF assms])

end
