(* ===== verification/Element_Correct.thy ===== *)
theory Element_Correct
  imports Element_Ops Tensor
begin

text \<open>
  Properties of the elements: the class invariant is kept, integer arithmetic is arithmetic modulo \<open>2^w\<close>, comparison of
  integers is the order of their values, \<open>power\<close> is exponentiation, and bit casts are inverse to each other.
\<close>

section \<open>The class invariant\<close>

named_theorems wf_element_intros \<open>results of the constructors satisfy the class invariant\<close>

lemma Element_int_wf [wf_element_intros]: "Element_int t v = Inr e \<Longrightarrow> wf_apint v \<Longrightarrow> wf_element F e \<and> getType e = t"
  by (auto simp: Element_int_def wf_element_def result_simps split: if_splits)

lemma Element_bool_wf [wf_element_intros]: "Element_bool t v = Inr e \<Longrightarrow> wf_element F e \<and> getType e = t"
  by (auto simp: Element_bool_def wf_element_def split: if_splits)

lemma Element_float_wf [wf_element_intros]: "Element_float F t v = Inr e \<Longrightarrow> wf_element F e \<and> getType e = t"
  by (auto simp: Element_float_def wf_element_def split: if_splits)

lemma Element_complex_wf [wf_element_intros]: "Element_complex F t re im = Inr e \<Longrightarrow> wf_element F e \<and> getType e = t"
  by (auto simp: Element_complex_def wf_element_def split: if_splits)

lemma getIntegerValue_wf: "getIntegerValue e = Inr v \<Longrightarrow> wf_element F e \<Longrightarrow> wf_apint v"
  by (auto simp: getIntegerValue_def wf_element_def split: if_splits Value.splits)

lemma map_element_wf:
  assumes "map_element F x fi fb ff fc = Inr e" "wf_element F x"
    and fi: "\<And>v w. wf_apint v \<Longrightarrow> fi v = Inr w \<Longrightarrow> wf_apint w"
  shows "wf_element F e \<and> getType e = getType x"
proof -
  have int: "wf_element F e \<and> getType e = getType x"
    if "getIntegerValue x = Inr v" "fi v = Inr w" "Element_int (getType x) w = Inr e" for v w
    using Element_int_wf [OF that(3) fi [OF getIntegerValue_wf [OF that(1) assms(2)] that(2)]] .
  show ?thesis
    using assms(1) unfolding map_element_def Let_def result_simps
    by (auto simp: result_simps split: if_splits dest: int Element_bool_wf Element_float_wf Element_complex_wf)
qed

lemma map_element2_wf:
  assumes "map_element2 F x y fi fb ff fc = Inr e" "wf_element F x" "wf_element F y"
    and fi: "\<And>v v' w. wf_apint v \<Longrightarrow> wf_apint v' \<Longrightarrow> fi v v' = Inr w \<Longrightarrow> wf_apint w"
  shows "wf_element F e \<and> getType e = getType x \<and> getType y = getType x"
proof -
  have int: "wf_element F e \<and> getType e = getType x"
    if "getIntegerValue x = Inr v" "getIntegerValue y = Inr v'" "fi v v' = Inr w" "Element_int (getType x) w = Inr e" for v v' w
    using Element_int_wf [OF that(4) fi [OF getIntegerValue_wf [OF that(1) assms(2)] getIntegerValue_wf [OF that(2) assms(3)] that(3)]] .
  show ?thesis
    using assms(1) unfolding map_element2_def Let_def result_simps
    by (auto simp: result_simps split: if_splits dest: int Element_bool_wf Element_float_wf Element_complex_wf)
qed

section \<open>Integer arithmetic\<close>

text \<open>The integer \<open>v\<close> as an element of a type of width \<open>w\<close>.\<close>

definition int_el :: "Signedness \<Rightarrow> nat \<Rightarrow> int \<Rightarrow> 'f Element" where
  "int_el s w v = mkElement (IntegerType s w) (VInt (mkAPInt w v))"

lemma int_el_simps [simp]:
  "getType (int_el s w v) = IntegerType s w" "getValue (int_el s w v) = VInt (mkAPInt w v)"
  by (simp_all add: int_el_def)

lemma getIntegerValue_int_el [simp]:
  "isSupportedIntegerType (IntegerType s w) \<Longrightarrow> getIntegerValue (int_el s w v) = Inr (mkAPInt w v)"
  by (simp add: getIntegerValue_def)

lemma Element_int_el [simp]:
  "isSupportedIntegerType (IntegerType s w) \<Longrightarrow> Element_int (IntegerType s w) (mkAPInt w v) = Inr (int_el s w v)"
  by (simp add: Element_int_def int_el_def)

lemma ap_arith_mkAPInt:
  "ap_add (mkAPInt w a) (mkAPInt w b) = mkAPInt w (a + b)"
  "ap_sub (mkAPInt w a) (mkAPInt w b) = mkAPInt w (a - b)"
  "ap_mul (mkAPInt w a) (mkAPInt w b) = mkAPInt w (a * b)"
  "ap_neg (mkAPInt w a) = mkAPInt w (- a)"
  by (simp_all add: ap_add_def ap_sub_def ap_mul_def ap_neg_def mkAPInt_def take_bit_eq_mod mod_simps)

lemma int_el_arith:
  assumes "isSupportedIntegerType (IntegerType s w)"
  shows "el_add F (int_el s w a) (int_el s w b) = Inr (int_el s w (a + b)) \<and>
    el_sub F (int_el s w a) (int_el s w b) = Inr (int_el s w (a - b)) \<and>
    el_mul F (int_el s w a) (int_el s w b) = Inr (int_el s w (a * b)) \<and>
    el_neg F (int_el s w a) = Inr (int_el s w (- a))"
  using assms
  by (simp add: el_add_def el_sub_def el_mul_def el_neg_def map_element2_def map_element_def ap_arith_mkAPInt)

text \<open>
  Addition, subtraction, multiplication and negation of integer elements are those of the integers modulo \<open>2^w\<close>,
  for every supported width and signedness: reading an integer into an element commutes with them, wrap-around included.
\<close>

theorem integer_arithmetic_modular:
  assumes "isSupportedIntegerType (IntegerType s w)"
  shows "el_add F (int_el s w a) (int_el s w b) = Inr (int_el s w (a + b)) \<and>
    el_sub F (int_el s w a) (int_el s w b) = Inr (int_el s w (a - b)) \<and>
    el_mul F (int_el s w a) (int_el s w b) = Inr (int_el s w (a * b)) \<and>
    el_neg F (int_el s w a) = Inr (int_el s w (- a))"
  by (rule int_el_arith [OF assms])

section \<open>Power\<close>

lemma power_loop_correct:
  "0 < w' \<Longrightarrow> 0 \<le> e \<Longrightarrow> e < 2 ^ w' \<Longrightarrow>
   power_loop (mkAPInt w r) (mkAPInt w b) (ApInt w' e) = mkAPInt w (r * b ^ nat e)"
proof (induction "nat e" arbitrary: r b e rule: less_induct)
  case less
  show ?case
  proof (cases "e = 0")
    case True
    then show ?thesis by (simp add: power_loop.simps)
  next
    case False
    with less.prems have e: "0 < e" "e div 2 < e" "0 \<le> e div 2" "e div 2 < 2 ^ w'" by auto
    have shr: "ap_lshr (ApInt w' e) (Suc 0) = ApInt w' (e div 2)"
    proof (cases "w' \<le> Suc 0")
      case True
      with less.prems have "w' = 1" by simp
      with less.prems e show ?thesis by (simp add: ap_lshr_def)
    next
      case False
      with e show ?thesis by (simp add: ap_lshr_def mkAPInt_def drop_bit_Suc take_bit_int_eq_self)
    qed
    have low: "isZero (ap_and (ApInt w' e) (mkAPInt w' 1)) \<longleftrightarrow> even e"
      using less.prems by (cases "even e") (simp_all add: isZero_def ap_and_def and_one_eq mod_2_eq_odd)
    have pow: "r * b ^ nat e = (if even e then r else r * b) * (b * b) ^ nat (e div 2)"
    proof -
      have "nat e = 2 * nat (e div 2) + (if even e then 0 else 1)"
        using e by (cases "even e") (auto elim!: evenE oddE)
      then show ?thesis by (auto simp: power_add power_mult power2_eq_square)
    qed
    have "power_loop (mkAPInt w r) (mkAPInt w b) (ApInt w' e) =
        power_loop (mkAPInt w (if even e then r else r * b)) (mkAPInt w (b * b)) (ApInt w' (e div 2))"
      using e(1) by (subst power_loop.simps) (simp add: shr low ap_arith_mkAPInt)
    also have "\<dots> = mkAPInt w (r * b ^ nat e)"
      unfolding pow by (rule less.hyps) (use e less.prems in auto)
    finally show ?thesis .
  qed
qed

text \<open>The values a type of width \<open>w\<close> represents without wrap-around.\<close>

definition in_range :: "Signedness \<Rightarrow> nat \<Rightarrow> int \<Rightarrow> bool" where
  "in_range s w v \<longleftrightarrow>
     (if s = Unsigned then 0 \<le> v \<and> v < 2 ^ w else - (2 ^ (w - 1)) \<le> v \<and> v < 2 ^ (w - 1))"

lemma supported_width_pos: "isSupportedIntegerType (IntegerType s w) \<Longrightarrow> 2 \<le> w"
  by (auto simp: supported_IntegerType)

lemma supported_signed_iff:
  "isSupportedIntegerType (IntegerType s w) \<Longrightarrow> isSupportedSignedIntegerType (IntegerType s w) \<longleftrightarrow> s = Signless"
  by (auto simp: supported_IntegerType supported_defs)

lemma supported_signless: "isSupportedIntegerType (IntegerType s w) \<Longrightarrow> s = Signless \<or> s = Unsigned"
  by (auto simp: supported_IntegerType)

lemma two_power_split: "0 < w \<Longrightarrow> (2::int) ^ w = 2 * 2 ^ (w - 1)"
  by (simp flip: power_Suc)

lemma sval_in_range: "s \<noteq> Unsigned \<Longrightarrow> 0 < w \<Longrightarrow> in_range s w v \<Longrightarrow> sval (mkAPInt w v) = v"
proof -
  assume s: "s \<noteq> Unsigned" "0 < w" "in_range s w v"
  note split = two_power_split [OF s(2)]
  show ?thesis
  proof (cases "0 \<le> v")
    case True
    with s split show ?thesis by (simp add: in_range_def sval_def isNegative_def take_bit_int_eq_self)
  next
    case False
    have "take_bit w v = take_bit w (v + 2 ^ w)" by (simp add: take_bit_eq_mod)
    also have "\<dots> = v + 2 ^ w"
      by (rule take_bit_int_eq_self) (use s split False in \<open>simp_all add: in_range_def\<close>)
    finally have "take_bit w v = v + 2 ^ w" .
    with s split False show ?thesis by (simp add: in_range_def sval_def isNegative_def)
  qed
qed

lemma uval_in_range: "in_range Unsigned w v \<Longrightarrow> uval (mkAPInt w v) = v"
  by (simp add: in_range_def take_bit_int_eq_self)

lemma isNegative_in_range:
  assumes "0 < w" "in_range Signless w a"
  shows "isNegative (mkAPInt w a) \<longleftrightarrow> a < 0"
proof -
  have sv: "sval (mkAPInt w a) = a" using sval_in_range [of Signless w a] assms by simp
  have b: "0 \<le> take_bit w a" "take_bit w a < 2 ^ w" by simp_all
  show ?thesis
  proof (cases "isNegative (mkAPInt w a)")
    case True
    then have "take_bit w a - 2 ^ w = a" using sv by (simp add: sval_def)
    then have "a < 0" using b(2) by linarith
    with True show ?thesis by simp
  next
    case False
    then have "take_bit w a = a" using sv by (simp add: sval_def)
    then have "0 \<le> a" using b(1) by linarith
    with False show ?thesis by simp
  qed
qed

lemma abs_uval_one_iff:
  assumes "2 \<le> w" "in_range Signless w a"
  shows "uval (ap_abs (mkAPInt w a)) = 1 \<longleftrightarrow> a = 1 \<or> a = - 1"
proof -
  have w: "0 < w" using assms(1) by simp
  have "(2::int) ^ 1 \<le> 2 ^ (w - 1)" using assms(1) by (intro power_increasing) auto
  then have big: "(2::int) \<le> 2 ^ (w - 1)" by simp
  note neg = isNegative_in_range [OF w assms(2)]
  show ?thesis
  proof (cases "a < 0")
    case True
    with neg assms(2) two_power_split [OF w] show ?thesis
      by (simp add: ap_abs_def ap_arith_mkAPInt in_range_def take_bit_int_eq_self)
  next
    case False
    with neg assms(2) two_power_split [OF w] show ?thesis
      by (simp add: ap_abs_def in_range_def take_bit_int_eq_self)
  qed
qed

text \<open>
  C15: \<open>power\<close> on integers: the square-and-multiply loop computes the power modulo \<open>2^w\<close> for an exponent that is not
  negative; for a negative one the result is the power of the absolute exponent when the base is 1 or -1, and 0 otherwise.
\<close>

theorem power_correct:
  assumes "isSupportedIntegerType (IntegerType s w)" "in_range s w a" "in_range s w e"
  shows "el_power F (int_el s w a) (int_el s w e) =
    Inr (int_el s w (if 0 \<le> e then a ^ nat e else if a = 1 \<or> a = - 1 then a ^ nat (- e) else 0))"
proof -
  have w: "2 \<le> w" "0 < w" using supported_width_pos [OF assms(1)] by auto
  note split = two_power_split [OF w(2)]
  have pow: "power_loop (mkAPInt w 1) (mkAPInt w a) (mkAPInt w n) = mkAPInt w (a ^ nat n)" if "0 \<le> n" "n < 2 ^ w" for n
    using power_loop_correct [of w n w 1 a] that w(2) by (simp add: mkAPInt_def take_bit_int_eq_self)
  show ?thesis
  proof (cases "0 \<le> e")
    case True
    then have "e < 2 ^ w" using assms(3) split by (auto simp: in_range_def split: if_splits)
    moreover have "\<not> (s = Signless \<and> isNegative (mkAPInt w e))"
      using isNegative_in_range [OF w(2), of e] assms(3) True by auto
    ultimately show ?thesis
      using True assms(1) pow [of e] by (auto simp: el_power_def supported_signed_iff Let_def)
  next
    case False
    then have s: "s = Signless" using supported_signless [OF assms(1)] assms(3) by (auto simp: in_range_def)
    have neg: "isNegative (mkAPInt w e)" using isNegative_in_range [OF w(2), of e] assms(3) False s by simp
    have "ap_abs (mkAPInt w e) = mkAPInt w (- e)" using neg by (simp add: ap_abs_def ap_arith_mkAPInt)
    moreover have "- e < 2 ^ w" using assms(3) split s by (auto simp: in_range_def)
    moreover have "convert_int64 F (IntegerType s w) 0 = Inr (int_el s w 0)"
      using assms(1) by (auto simp: convert_int64_def convert_APSInt_def convert_APSInt_scalar_def supported_IntegerType
          supported_BooleanType supported_ComplexType sval_def isNegative_def int_el_def Element_int_def)
    ultimately show ?thesis
      using False s neg abs_uval_one_iff [OF w(1), of a] assms pow [of "- e"]
      by (simp add: el_power_def supported_signed_iff Let_def)
  qed
qed

section \<open>Comparison and conversion\<close>

abbreviation bool_el :: "bool \<Rightarrow> 'f Element" where
  "bool_el b \<equiv> mkElement i1Type (VBool b)"

lemma Element_bool_i1 [simp]:
  "Element_bool i1Type b = Inr (bool_el b)" "Element_bool (IntegerType Signless (Suc 0)) b = Inr (bool_el b)"
  by (simp_all add: Element_bool_def supported_BooleanType)

lemma getBooleanValue_bool_el [simp]:
  "getBooleanValue (bool_el b) = Inr b" "getBooleanValue (mkElement (IntegerType Signless (Suc 0)) (VBool b)) = Inr b"
  by (simp_all add: getBooleanValue_def supported_BooleanType)

lemma read_in_range:
  assumes "isSupportedIntegerType (IntegerType s w)" "in_range s w a"
  shows "(if s = Signless then sval (mkAPInt w a) else uval (mkAPInt w a)) = a"
  using assms supported_signless [OF assms(1)] supported_width_pos [OF assms(1)] sval_in_range [of s w a] uval_in_range [of w a]
  by auto

lemma mkAPInt_in_range_inject:
  assumes "isSupportedIntegerType (IntegerType s w)" "in_range s w a" "in_range s w b"
  shows "uval (mkAPInt w a) = uval (mkAPInt w b) \<longleftrightarrow> a = b"
  using read_in_range [OF assms(1,2)] read_in_range [OF assms(1,3)] by (metis apint_eqI mkAPInt_width)

lemma int_el_compare:
  assumes "isSupportedIntegerType (IntegerType s w)" "in_range s w a" "in_range s w b"
  shows "el_lt F (int_el s w a) (int_el s w b) = Inr (bool_el (a < b)) \<and>
    el_gt F (int_el s w a) (int_el s w b) = Inr (bool_el (b < a)) \<and>
    el_eq F (int_el s w a) (int_el s w b) = Inr (bool_el (a = b)) \<and>
    el_ne F (int_el s w a) (int_el s w b) = Inr (bool_el (a \<noteq> b)) \<and>
    el_le F (int_el s w a) (int_el s w b) = Inr (bool_el (a \<le> b)) \<and>
    el_ge F (int_el s w a) (int_el s w b) = Inr (bool_el (b \<le> a))"
proof -
  note rd = read_in_range [OF assms(1,2)] read_in_range [OF assms(1,3)]
  have lt: "el_lt F (int_el s w a) (int_el s w b) = Inr (bool_el (a < b))"
    using assms(1) rd by (auto simp: el_lt_def supported_signed_iff split: if_splits)
  have gt: "el_gt F (int_el s w a) (int_el s w b) = Inr (bool_el (b < a))"
    using assms(1) rd by (auto simp: el_gt_def supported_signed_iff split: if_splits)
  have eq: "el_eq F (int_el s w a) (int_el s w b) = Inr (bool_el (a = b))"
    using assms(1) mkAPInt_in_range_inject [OF assms] by (simp add: el_eq_def del: mkAPInt_uval)
  show ?thesis
    by (auto simp: el_ne_def el_le_def el_ge_def lt gt eq el_lnot_def el_lor_def)
qed

text \<open>
  The comparisons of integer elements are those of the integers they represent, by the signedness of the type: signed
  for signless types, unsigned for unsigned ones. The derived \<open>!=\<close>, \<open><=\<close> and \<open>>=\<close> agree with the order.
\<close>

theorem integer_comparisons:
  assumes "isSupportedIntegerType (IntegerType s w)" "in_range s w a" "in_range s w b"
  shows "el_lt F (int_el s w a) (int_el s w b) = Inr (bool_el (a < b)) \<and>
    el_gt F (int_el s w a) (int_el s w b) = Inr (bool_el (b < a)) \<and>
    el_eq F (int_el s w a) (int_el s w b) = Inr (bool_el (a = b)) \<and>
    el_ne F (int_el s w a) (int_el s w b) = Inr (bool_el (a \<noteq> b)) \<and>
    el_le F (int_el s w a) (int_el s w b) = Inr (bool_el (a \<le> b)) \<and>
    el_ge F (int_el s w a) (int_el s w b) = Inr (bool_el (b \<le> a))"
  by (rule int_el_compare [OF assms])

lemma convert_int_el:
  assumes "isSupportedIntegerType (IntegerType s w)" "isSupportedIntegerType (IntegerType s' w')" "in_range s w a"
  shows "convert_Element F (IntegerType s' w') (int_el s w a) = Inr (int_el s' w' a)"
proof -
  have w: "w \<le> 64" "0 < w" using assms(1) by (auto simp: supported_IntegerType)
  note rd = read_in_range [OF assms(1,3)]
  have pows: "(2::int) ^ (w - 1) \<le> 2 ^ 63" "(2::int) ^ w \<le> 2 ^ 64"
    using w by (intro power_increasing; simp)+
  have types: "\<not> isSupportedBooleanType (IntegerType s w)" "\<not> isSupportedBooleanType (IntegerType s' w')"
    "\<not> isSupportedComplexType (IntegerType s' w')"
    using assms(1,2) by (auto simp: supported_IntegerType supported_BooleanType supported_ComplexType)
  show ?thesis
  proof (cases "s = Signless")
    case True
    then have "in_range Signless 64 a" using assms(3) pows by (auto simp: in_range_def)
    then have "sval (mkAPInt 64 a) = a" using sval_in_range [of Signless 64 a] by simp
    with True rd types assms(1,2) show ?thesis
      by (simp add: convert_Element_def supported_signed_iff convert_int64_def convert_APSInt_def convert_APSInt_scalar_def)
  next
    case False
    then have s: "s = Unsigned" using supported_signless [OF assms(1)] by simp
    then have "in_range Unsigned 64 a" using assms(3) pows by (auto simp: in_range_def)
    then have "uval (mkAPInt 64 a) = a" by (rule uval_in_range)
    moreover have "isSupportedUnsignedIntegerType (IntegerType s w)" "\<not> isSupportedSignedIntegerType (IntegerType s w)"
      using assms(1) s by (auto simp: supported_IntegerType supported_defs)
    ultimately show ?thesis
      using rd types assms(1,2) s
      by (simp add: convert_Element_def convert_uint64_def convert_APSInt_def convert_APSInt_scalar_def)
  qed
qed

text \<open>
  Converting an integer element to another integer type keeps the value it represents, modulo the target width, through
  the 64-bit intermediate value of the source; widening from a signless type sign-extends, from an unsigned one zero-extends.
\<close>

theorem integer_convert:
  assumes "isSupportedIntegerType (IntegerType s w)" "isSupportedIntegerType (IntegerType s' w')" "in_range s w a"
  shows "convert_Element F (IntegerType s' w') (int_el s w a) = Inr (int_el s' w' a)"
  by (rule convert_int_el [OF assms])

section \<open>Bit casts\<close>

lemma bits_of_float:
  "float_bits_ok F \<Longrightarrow> isSupportedFloatFormat (getSemantics F f) \<Longrightarrow>
   wf_apint (bitcastToAPInt F f) \<and> getBitWidth (bitcastToAPInt F f) = float_width (getSemantics F f) \<and>
   fl_ofBits F (getSemantics F f) (bitcastToAPInt F f) = f"
  by (simp add: float_bits_ok_def)

lemma toBits_wf:
  assumes "wf_element F e" "float_bits_ok F"
  shows "\<exists>b n. toBits F e = Inr b \<and> numBits (getType e) = Inr n \<and> wf_apint b \<and> getBitWidth b = n"
proof (cases "getValue e")
  case (VInt v)
  with assms(1) show ?thesis
    by (auto simp: wf_element_def toBits_def supported_iffs getIntegerValue_def)
next
  case (VBool v)
  with assms(1) show ?thesis
    by (auto simp: wf_element_def toBits_def supported_iffs getBooleanValue_def)
next
  case (VFloat f)
  with assms show ?thesis
    by (auto simp: wf_element_def toBits_def supported_iffs getFloatValue_def bits_of_float)
next
  case (VComplex re im)
  with assms show ?thesis
    by (auto simp: wf_element_def toBits_def supported_iffs getComplexValue_def bits_of_float ap_add_def ap_shl_def ap_zext_def)
qed

lemma split_bits:
  fixes lo hi :: int
  assumes "0 \<le> lo" "lo < 2 ^ h" "0 \<le> hi" "hi < 2 ^ h"
  shows "take_bit h (take_bit (h + h) (push_bit h hi) + lo) = lo"
    "drop_bit h (take_bit (h + h) (push_bit h hi) + lo) = hi"
    "take_bit (h + h) (take_bit (h + h) (push_bit h hi) + lo) = take_bit (h + h) (push_bit h hi) + lo"
proof -
  have "hi * 2 ^ h + lo < (hi + 1) * 2 ^ h" using assms(2) by (simp add: distrib_right)
  also have "\<dots> \<le> 2 ^ h * 2 ^ h" using assms(4) by (intro mult_right_mono) auto
  finally have b: "hi * 2 ^ h + lo < 2 ^ (h + h)" by (simp add: power_add)
  have nn: "0 \<le> hi * 2 ^ h" using assms(3) by simp
  have "hi * 2 ^ h < 2 ^ (h + h)" using b assms(1) by linarith
  then have t: "take_bit (h + h) (push_bit h hi) = hi * 2 ^ h"
    using nn by (simp add: push_bit_eq_mult take_bit_int_eq_self)
  show "take_bit h (take_bit (h + h) (push_bit h hi) + lo) = lo"
    unfolding t using assms(1,2) by (simp add: take_bit_eq_mod)
  show "drop_bit h (take_bit (h + h) (push_bit h hi) + lo) = hi"
    unfolding t using assms(1,2) by (simp add: drop_bit_eq_div)
  show "take_bit (h + h) (take_bit (h + h) (push_bit h hi) + lo) = take_bit (h + h) (push_bit h hi) + lo"
    unfolding t using b nn assms(1) by (intro take_bit_int_eq_self) auto
qed

lemma fromBits_toBits:
  assumes "wf_element F e" "float_bits_ok F" "toBits F e = Inr b"
  shows "fromBits F (getType e) b = Inr e"
proof (cases "getValue e")
  case (VInt v)
  then have t: "isSupportedIntegerType (getType e)" "getIntOrFloatBitWidth (getType e) = Inr (getBitWidth v)"
    using assms(1) by (auto simp: wf_element_def)
  then obtain s w where sw: "getType e = IntegerType s w" by (auto simp: supported_IntegerType)
  have "b = v" using assms(3) t VInt supported_disjoint(1) [OF t(1)] by (simp add: toBits_def getIntegerValue_def Let_def)
  with t VInt supported_disjoint(1) [OF t(1)] sw show ?thesis
    by (simp add: fromBits_def fromBits_scalar_def Element_int_def)
next
  case (VBool v)
  with assms(1,3) show ?thesis
    by (auto simp: wf_element_def toBits_def supported_iffs getBooleanValue_def fromBits_def fromBits_scalar_def Element_bool_def isZero_def)
next
  case (VFloat f)
  then have t: "isSupportedFloatType (getType e)" "getType e = FloatType (getSemantics F f)"
    "isSupportedFloatFormat (getSemantics F f)"
    using assms(1) by (auto simp: wf_element_def supported_FloatType)
  have "b = bitcastToAPInt F f"
    using assms(3) t VFloat supported_disjoint(3) [OF t(1)] by (simp add: toBits_def getFloatValue_def Let_def)
  with t VFloat supported_disjoint(3) [OF t(1)] bits_of_float [OF assms(2) t(3)] show ?thesis
    by (simp add: fromBits_def fromBits_scalar_def Element_float_def)
next
  case (VComplex re im)
  obtain k where k: "k = Float32 \<or> k = Float64" "getType e = ComplexType (FloatType k)" "getSemantics F re = k" "getSemantics F im = k"
    using assms(1) VComplex by (auto simp: wf_element_def supported_ComplexType)
  define h where "h = float_width k"
  have h: "numBits (getType e) = Inr (h + h)" "0 < h" using k by (auto simp: h_def supported_iffs)
  have sup: "isSupportedFloatFormat k" using k(1) by auto
  have re: "wf_apint (bitcastToAPInt F re)" "getBitWidth (bitcastToAPInt F re) = h" "fl_ofBits F k (bitcastToAPInt F re) = re"
    and im: "wf_apint (bitcastToAPInt F im)" "getBitWidth (bitcastToAPInt F im) = h" "fl_ofBits F k (bitcastToAPInt F im) = im"
    using bits_of_float [OF assms(2), of re] bits_of_float [OF assms(2), of im] k sup by (auto simp: h_def)
  have r: "0 \<le> uval (bitcastToAPInt F re)" "uval (bitcastToAPInt F re) < 2 ^ h"
    and i: "0 \<le> uval (bitcastToAPInt F im)" "uval (bitcastToAPInt F im) < 2 ^ h"
    using re im by (auto simp: wf_apint_def)
  note sp = split_bits [OF r i]
  have b: "b = ApInt (h + h) (take_bit (h + h) (push_bit h (uval (bitcastToAPInt F im))) + uval (bitcastToAPInt F re))"
    using assms(3) VComplex k h sp(3)
    by (auto simp: toBits_def supported_iffs getComplexValue_def ap_add_def ap_shl_def ap_zext_def mkAPInt_def)
  have lo: "ap_extractBits b h 0 = bitcastToAPInt F re" and hi: "ap_extractBits b h h = bitcastToAPInt F im"
    using sp re im by (auto simp: b ap_extractBits_def mkAPInt_def wf_take_bit [OF im(1), unfolded im(2)] intro: apint_eqI)
  have sc: "fromBits_scalar F (FloatType k) (bitcastToAPInt F z) = Inr (mkElement (FloatType k) (VFloat z))"
    if "getBitWidth (bitcastToAPInt F z) = h" "fl_ofBits F k (bitcastToAPInt F z) = z" "getSemantics F z = k" for z
    using that k(1) by (auto simp: fromBits_scalar_def supported_iffs Element_float_def h_def)
  have "isSupportedComplexType (getType e)" using k by (auto simp: supported_ComplexType)
  then show ?thesis
    using k h b lo hi sc [OF re(2,3) k(3)] sc [OF im(2,3) k(4)] sup VComplex
    by (auto simp: fromBits_def getFloatValue_def supported_FloatType Element_complex_def)
qed

text \<open>Joining the pieces of \<open>q\<close> bits of a value, from the most significant one down, gives the value back.\<close>

lemma join_bits:
  assumes "0 < q" "q \<le> n" "0 \<le> v" "v < 2 ^ n"
  shows "ap_add (ap_shl (ApInt n (drop_bit q v)) q) (ap_zext (mkAPInt q v) n) = ApInt n v"
proof -
  have id: "push_bit q (drop_bit q v) + take_bit q v = v" by (rule bits_ident)
  have "0 \<le> take_bit q v" by simp
  then have le: "push_bit q (drop_bit q v) \<le> v" using id by linarith
  have ge: "0 \<le> push_bit q (drop_bit q v)" using assms(3) by simp
  have "uval (ap_shl (ApInt n (drop_bit q v)) q) = push_bit q (drop_bit q v)"
  proof (cases "n = q")
    case True
    with assms show ?thesis by (simp add: ap_shl_def drop_bit_eq_div push_bit_eq_mult)
  next
    case False
    with assms le ge show ?thesis by (simp add: ap_shl_def take_bit_int_eq_self)
  qed
  moreover have "getBitWidth (ap_shl (ApInt n (drop_bit q v)) q) = n" by (simp add: ap_shl_def)
  ultimately show ?thesis
    using id assms by (simp add: ap_add_def ap_zext_def mkAPInt_def take_bit_int_eq_self)
qed

lemma piece_element:
  assumes "isSupportedIntegerType (IntegerType s q)"
  shows "fromBits F (IntegerType s q) (ap_extractBits b q i) = Inr (int_el s q (drop_bit i (uval b)))"
    "toBits F (int_el s q v) = Inr (mkAPInt q v)"
  using assms supported_disjoint(1) [OF assms]
  by (simp_all add: fromBits_def fromBits_scalar_def toBits_def Let_def ap_extractBits_def)

text \<open>
  C14: bit casts lose nothing. Casting an element of any kind to the pieces of a narrower integer type whose width divides its
  own gives the right number of pieces, least significant first, and casting these back gives the element.
\<close>

theorem bitcast_round_trip:
  assumes "wf_element F e" "float_bits_ok F" "isSupportedIntegerType (IntegerType s q)"
    and "numBits (getType e) = Inr n" "0 < n" "q dvd n"
  shows "\<exists>es. bitcastConvertOneToMany F (IntegerType s q) e = Inr es \<and> length es = n div q \<and>
    bitcastConvertManyToOne F (getType e) es = Inr e"
proof -
  obtain b where b: "toBits F e = Inr b" "wf_apint b" "getBitWidth b = n"
    using toBits_wf [OF assms(1,2)] assms(4) by auto
  have v: "0 \<le> uval b" "uval b < 2 ^ n" using b by (auto simp: wf_apint_def)
  have q: "0 < q" "q \<le> n" "n mod q = 0"
    using supported_width_pos [OF assms(3)] assms(5,6) by (auto intro: dvd_imp_le)
  define m where "m = n div q"
  have m: "n = m * q" "0 < m" using q assms(5) by (auto simp: m_def elim!: dvdE)
  let ?E = "\<lambda>k. int_el s q (drop_bit (k * q) (uval b)) :: 'a Element"
  let ?step = "\<lambda>el r. rbind (numBits (getType el)) (\<lambda>m. if q \<noteq> m then Inl (Fatal ''All elements must have the same numBits'')
      else rbind (toBits F el) (\<lambda>ob. Inr (ap_add (ap_shl r q) (ap_zext ob n))))"
  have split: "bitcastConvertOneToMany F (IntegerType s q) e = Inr (map ?E [0..<m])"
    using assms(4) q b(1) by (simp add: bitcastConvertOneToMany_def m_def piece_element [OF assms(3)])
      (rule mapM_Inr, simp)
  have join: "j \<le> m \<Longrightarrow> foldM ?step (rev (map ?E [j..<m])) (mkAPInt n 0) = Inr (ApInt n (drop_bit (j * q) (uval b)))" for j
  proof (induction rule: inc_induct)
    case base
    have "drop_bit (m * q) (uval b) = 0" using v m(1) by (simp add: drop_bit_eq_div)
    then show ?case by (simp add: mkAPInt_def)
  next
    case (step j)
    let ?v = "drop_bit (j * q) (uval b)"
    have "uval b div 2 ^ (j * q) \<le> uval b div 1" using v(1) by (intro zdiv_mono2) auto
    then have "0 \<le> ?v" "?v < 2 ^ n" using v by (simp_all add: drop_bit_eq_div pos_imp_zdiv_nonneg_iff)
    from join_bits [OF q(1,2) this] have "ap_add (ap_shl (ApInt n (drop_bit (Suc j * q) (uval b))) q) (ap_zext (mkAPInt q ?v) n) = ApInt n ?v"
      by (simp add: drop_bit_drop_bit add.commute)
    moreover have "[j..<m] = j # [Suc j..<m]" using step.hyps by (simp add: upt_conv_Cons)
    ultimately show ?case
      using step.IH by (simp add: foldM_append piece_element [OF assms(3)])
  qed
  obtain rest where es: "map ?E [0..<m] = ?E 0 # rest" using m(2) by (simp add: upt_conv_Cons)
  have b': "ApInt n (uval b) = b" using b(3) by (cases b) simp
  have "foldM ?step (rev (?E 0 # rest)) (mkAPInt n 0) = Inr b"
    using join [of 0] unfolding es by (simp add: b')
  then have "bitcastConvertManyToOne F (getType e) (?E 0 # rest) = fromBits F (getType e) b"
    using assms(4) q by (simp add: bitcastConvertManyToOne_def)
  then have "bitcastConvertManyToOne F (getType e) (map ?E [0..<m]) = fromBits F (getType e) b"
    unfolding es .
  with split fromBits_toBits [OF assms(1,2) b(1)] show ?thesis by (auto simp: m_def)
qed

end
