(* ===== verification/Dot_Correct.thy ===== *)
theory Dot_Correct
  imports Ops_Linear Reshape_Correct Concat_Correct Element_Correct
begin

text \<open>
  \<open>dot_general\<close>: the hand-written advance of the two indices enumerates the contracted positions in order, so that an
  element of the result is a fold over the index space of the contracting dimensions, and for integers a sum of products.
\<close>

section \<open>Placing positions in an index\<close>

definition place :: "Axes \<Rightarrow> Index \<Rightarrow> Index \<Rightarrow> Index" where
  "place ds ks base =
     map (\<lambda>p. case find_index (int p) ds of Some i \<Rightarrow> ks ! i | None \<Rightarrow> base ! p) [0..<length base]"

abbreviation dims_ok :: "nat \<Rightarrow> Axes \<Rightarrow> bool" where
  "dims_ok n ds \<equiv> distinct ds \<and> (\<forall>d \<in> set ds. 0 \<le> d \<and> d < int n)"

lemma place_length [simp]: "length (place ds ks base) = length base"
  by (simp add: place_def)

lemma place_nth_in:
  assumes "dims_ok (length base) ds" "i < length ds"
  shows "place ds ks base ! nat (ds ! i) = ks ! i"
proof -
  have d: "0 \<le> ds ! i" "ds ! i < int (length base)" using assms nth_mem by blast+
  then have "find_index (int (nat (ds ! i))) ds = Some i" using find_index_nth [of ds i] assms by simp
  with d show ?thesis by (simp add: place_def nat_less_iff)
qed

lemma place_nth_out: "p < length base \<Longrightarrow> int p \<notin> set ds \<Longrightarrow> place ds ks base ! p = base ! p"
  by (simp add: place_def find_index_None [THEN iffD2])

lemma place_update:
  assumes "dims_ok (length base) ds" "i < length ds" "length ks = length ds"
  shows "(place ds ks base)[nat (ds ! i) := v] = place ds (ks[i := v]) base"
proof (rule length_eq_nth_imp)
  fix p assume "p < length ((place ds ks base)[nat (ds ! i) := v])"
  then have p: "p < length base" by simp
  have d: "0 \<le> ds ! i" "ds ! i < int (length base)" using assms(1,2) nth_mem by blast+
  show "(place ds ks base)[nat (ds ! i) := v] ! p = place ds (ks[i := v]) base ! p"
  proof (cases "p = nat (ds ! i)")
    case True
    then show ?thesis using place_nth_in [OF assms(1,2)] p assms(2,3) by simp
  next
    case False
    have "j \<noteq> i" if "find_index (int p) ds = Some j" for j
      using find_index_SomeD [OF that] False by auto
    then show ?thesis using False p by (auto simp: place_def split: option.splits)
  qed
qed simp

lemma place_self:
  assumes "\<And>i. i < length ds \<Longrightarrow> base ! nat (ds ! i) = ks ! i"
  shows "place ds ks base = base"
proof (rule length_eq_nth_imp)
  fix p assume "p < length (place ds ks base)"
  then show "place ds ks base ! p = base ! p"
    using assms find_index_SomeD [of "int p" ds] by (auto simp: place_def split: option.splits) (metis nat_int)
qed simp

section \<open>The advance\<close>

lemma increment_loop_place:
  assumes lc: "dims_ok (length bl) lc" "length bl = length lshape" and rc: "dims_ok (length br) rc"
    and len: "length rc = length lc"
  shows "0 < n \<Longrightarrow> n \<le> length lc \<Longrightarrow> length ks = length lc \<Longrightarrow>
    (\<exists>l r. increment_loop lshape lc rc n (place lc ks bl) (place rc ks br) =
       Inr (case incr_loop (map (\<lambda>d. lshape ! nat d) lc) n ks of
              Some ks' \<Rightarrow> (True, place lc ks' bl, place rc ks' br) | None \<Rightarrow> (False, l, r)))"
proof (induction n arbitrary: ks)
  case (Suc i)
  have i: "i < length lc" "i < length rc" using Suc.prems len by simp_all
  have dl: "0 \<le> lc ! i" "lc ! i < int (length bl)" and dr: "0 \<le> rc ! i" "rc ! i < int (length br)"
    using lc rc i nth_mem by blast+
  have ksr: "length ks = length rc" using Suc.prems(3) len by simp
  have nth: "place lc ks bl ! nat (lc ! i) = ks ! i" "place rc ks br ! nat (rc ! i) = ks ! i"
    using place_nth_in [OF lc(1) i(1)] place_nth_in [OF rc i(2)] by simp_all
  have upd: "(place lc ks bl)[nat (lc ! i) := v] = place lc (ks[i := v]) bl"
    "(place rc ks br)[nat (rc ! i) := v] = place rc (ks[i := v]) br" for v
    using place_update [OF lc(1) i(1) Suc.prems(3)] place_update [OF rc i(2) ksr] by simp_all
  have upd': "(place lc (ks[i := w]) bl)[nat (lc ! i) := v] = place lc (ks[i := v]) bl"
    "(place rc (ks[i := w]) br)[nat (rc ! i) := v] = place rc (ks[i := v]) br" for v w
    using place_update [OF lc(1) i(1), of "ks[i := w]"] place_update [OF rc i(2), of "ks[i := w]"] Suc.prems(3) ksr
    by simp_all
  have step: "increment_loop lshape lc rc (Suc i) (place lc ks bl) (place rc ks br) =
      (if ks ! i + 1 < lshape ! nat (lc ! i) then Inr (True, place lc (ks[i := ks ! i + 1]) bl, place rc (ks[i := ks ! i + 1]) br)
       else if i = 0 then Inr (False, place lc (ks[i := ks ! i + 1]) bl, place rc (ks[i := ks ! i + 1]) br)
       else increment_loop lshape lc rc i (place lc (ks[i := 0]) bl) (place rc (ks[i := 0]) br))"
    using dl dr i lc(2) nth upd upd' by simp
  show ?case
  proof (cases "ks ! i + 1 < lshape ! nat (lc ! i) \<or> i = 0")
    case True then show ?thesis unfolding step using i by (auto simp: Let_def)
  next
    case False
    then show ?thesis unfolding step using Suc.IH [of "ks[i := 0]"] Suc.prems i by (simp add: Let_def)
  qed
qed simp

lemma incrementIndices_place:
  assumes lc: "dims_ok (length bl) lc" "length bl = length lshape" and rc: "dims_ok (length br) rc"
    and len: "length rc = length lc"
    and ks: "inBounds ks (map (\<lambda>d. lshape ! nat d) lc)"
  shows "\<exists>l r. incrementIndices lshape lc rc (place lc ks bl) (place rc ks br) =
       Inr (case next_index (map (\<lambda>d. lshape ! nat d) lc) ks of
              Some ks' \<Rightarrow> (True, place lc ks' bl, place rc ks' br) | None \<Rightarrow> (False, l, r))"
proof (cases "lc = []")
  case True then show ?thesis by (simp add: incrementIndices_def)
next
  case False
  then have "incr_loop (map (\<lambda>d. lshape ! nat d) lc) (length lc) ks = next_index (map (\<lambda>d. lshape ! nat d) lc) ks"
    using incr_loop_next_index [OF ks] by simp
  then show ?thesis
    using increment_loop_place [OF lc rc len, of "length lc" ks] False inBounds_length [OF ks]
    by (simp add: incrementIndices_def)
qed

section \<open>The loop is a fold\<close>

lemma foldM_Nil_eta [simp]: "foldM f [] = Inr"
  by (rule ext) simp

lemma dot_loop_fold:
  assumes lc: "dims_ok (length bl) lc" "length bl = length (t_shape lhs)" and rc: "dims_ok (length br) rc"
    and len: "length rc = length lc"
  shows "inBounds ks (map (\<lambda>d. t_shape lhs ! nat d) lc) \<Longrightarrow>
    length (space_from (map (\<lambda>d. t_shape lhs ! nat d) lc) ks) \<le> fuel \<Longrightarrow>
    dot_loop F ty lhs rhs lc rc fuel (place lc ks bl) (place rc ks br) acc =
    foldM (\<lambda>k. multiply_add F ty lhs rhs (place lc k bl) (place rc k br))
      (space_from (map (\<lambda>d. t_shape lhs ! nat d) lc) ks) acc"
proof (induction fuel arbitrary: ks acc)
  case 0 then show ?case using space_from_step [OF 0(1)] by simp
next
  case (Suc fuel)
  let ?sizes = "map (\<lambda>d. t_shape lhs ! nat d) lc"
  obtain l r where inc: "incrementIndices (t_shape lhs) lc rc (place lc ks bl) (place rc ks br) =
       Inr (case next_index ?sizes ks of Some ks' \<Rightarrow> (True, place lc ks' bl, place rc ks' br) | None \<Rightarrow> (False, l, r))"
    using incrementIndices_place [OF lc rc len Suc.prems(1)] by blast
  show ?case
  proof (cases "next_index ?sizes ks")
    case None
    then show ?thesis using inc space_from_step [OF Suc.prems(1)] by simp
  next
    case (Some ks')
    have ks': "inBounds ks' ?sizes" by (rule next_index_inBounds [OF Some Suc.prems(1)])
    have sp: "space_from ?sizes ks = ks # space_from ?sizes ks'" using space_from_step [OF Suc.prems(1)] Some by simp
    have "length (space_from ?sizes ks') \<le> fuel" using Suc.prems(2) sp by simp
    then show ?thesis using Suc.IH [OF ks'] inc Some unfolding sp by (auto intro: rbind_cong)
  qed
qed

lemma dot_loop_space:
  assumes lc: "dims_ok (length bl) lc" "length bl = length (t_shape lhs)" and rc: "dims_ok (length br) rc"
    and len: "length rc = length lc"
    and zero: "\<And>d. d \<in> set lc \<Longrightarrow> bl ! nat d = 0" "\<And>d. d \<in> set rc \<Longrightarrow> br ! nat d = 0"
    and pos: "list_all (\<lambda>n. 0 < n) (map (\<lambda>d. t_shape lhs ! nat d) lc)"
  shows "dot_loop F ty lhs rhs lc rc (Suc (nat (prod_list (map (\<lambda>d. t_shape lhs ! nat d) lc)))) bl br acc =
    foldM (\<lambda>k. multiply_add F ty lhs rhs (place lc k bl) (place rc k br))
      (index_space (map (\<lambda>d. t_shape lhs ! nat d) lc)) acc"
proof -
  let ?sizes = "map (\<lambda>d. t_shape lhs ! nat d) lc" and ?z = "replicate (length lc) (0 :: int)"
  have z: "inBounds ?z ?sizes" using pos by (auto simp: inBounds_nth list_all_length)
  have sp: "space_from ?sizes ?z = index_space ?sizes" using space_from_zero [of ?sizes] z by simp
  have "list_all (\<lambda>n. 0 \<le> n) ?sizes" using pos by (auto simp: list_all_iff)
  then have fuel: "length (space_from ?sizes ?z) \<le> Suc (nat (prod_list ?sizes))"
    unfolding sp by (simp add: length_index_space)
  have bl: "place lc ?z bl = bl" and br: "place rc ?z br = br"
    using zero len by (auto intro!: place_self)
  show ?thesis using dot_loop_fold [OF lc rc len z fuel] unfolding sp bl br .
qed

section \<open>The fixed positions\<close>

lemma place_snoc:
  assumes "dims_ok (length base) (ds @ [d])" "length ds < length ks"
  shows "place (ds @ [d]) ks base = (place ds ks base)[nat d := ks ! length ds]"
proof (rule length_eq_nth_imp)
  fix p assume "p < length (place (ds @ [d]) ks base)"
  then have p: "p < length base" by simp
  have app: "find_index x (xs @ [y]) = (case find_index x xs of Some i \<Rightarrow> Some i | None \<Rightarrow> if x = y then Some (length xs) else None)"
    for x y and xs :: "int list" by (induction xs) (auto split: option.splits)
  show "place (ds @ [d]) ks base ! p = (place ds ks base)[nat d := ks ! length ds] ! p"
    using p assms find_index_SomeD [of "int p" ds]
    by (auto simp: place_def app nth_list_update split: option.splits)
qed simp

lemma set_dims_place:
  assumes "dims_ok (length index) dims" "off + length dims \<le> length ri"
  shows "set_dims dims ri off index = Inr (place dims (drop off ri) index)"
  using assms
proof (induction dims rule: rev_induct)
  case Nil
  have "place [] (drop off ri) index = index" by (rule place_self) simp
  then show ?case by (simp add: set_dims_def)
next
  case (snoc d ds)
  have IH: "foldM (\<lambda>(i, d) index. rbind (vec_nth ri (int (off + i))) (vec_set index d)) (zip [0..<length ds] ds) index =
      Inr (place ds (drop off ri) index)"
    using snoc.IH snoc.prems by (simp add: set_dims_def)
  have d: "0 \<le> d" "d < int (length index)" using snoc.prems by auto
  show ?case
    using d snoc.prems place_snoc [where base = index and ds = ds and d = d and ks = "drop off ri"]
    by (simp add: set_dims_def foldM_append IH [simplified] nat_int_add)
qed

section \<open>What the shape function accepts\<close>

text \<open>The reference indices: where the element of the result at \<open>i\<close> reads its operands for the contracted position \<open>k\<close>.\<close>

definition dot_index :: "Sizes \<Rightarrow> Axes \<Rightarrow> Axes \<Rightarrow> nat \<Rightarrow> Axes \<Rightarrow> Index \<Rightarrow> Index \<Rightarrow> Index" where
  "dot_index shape batching free off contracting i k =
     place contracting k (place free (drop off i) (place batching i (replicate (length shape) 0)))"

lemma checkDotGeneral_ok:
  assumes "checkDotGeneralConstraints lty rty lb rb lc rc = Inr u"
  shows "length lb = length rb" "length lc = length rc" "distinct (lb @ lc)" "distinct (rb @ rc)"
    "\<forall>d \<in> set (lb @ lc). 0 \<le> d \<and> d < rt_rank lty" "\<forall>d \<in> set (rb @ rc). 0 \<le> d \<and> d < rt_rank rty"
  using assms isUnique_loop_distinct [of "lb @ lc" "[]"] isUnique_loop_distinct [of "rb @ rc" "[]"]
  by (auto simp: checkDotGeneralConstraints_def checkDimsDistinct_def checkDimsInRange_def list_all_iff
      split: if_splits elim!: rbind_InrE)

lemma free_dims_ok:
  "dims_ok (nat rank) (free_dims rank batching contracting)"
  "set (free_dims rank batching contracting) \<inter> set batching = {}"
  "set (free_dims rank batching contracting) \<inter> set contracting = {}"
  by (auto simp: free_dims_def)

lemma inferDotGeneralOp_length:
  assumes "inferDotGeneralOp lty rty lb rb lc rc = Inr (dims, enc)"
  shows "checkDotGeneralConstraints lty rty lb rb lc rc = Inr ()"
    "length dims = length lb + length (free_dims (rt_rank lty) lb lc) + length (free_dims (rt_rank rty) rb rc)"
proof -
  show c: "checkDotGeneralConstraints lty rty lb rb lc rc = Inr ()"
    using assms by (auto simp: inferDotGeneralOp_def elim!: rbind_InrE)
  from assms have "length dims = length (zip lb rb) + length (free_dims (rt_rank lty) lb lc) + length (free_dims (rt_rank rty) rb rc)"
    by (auto simp: inferDotGeneralOp_def Let_def dest!: mapM_length elim!: rbind_InrE)
  then show "length dims = length lb + length (free_dims (rt_rank lty) lb lc) + length (free_dims (rt_rank rty) rb rc)"
    using checkDotGeneral_ok(1) [OF c] by auto
qed

section \<open>Dot general\<close>

lemma fill_result_cong:
  assumes "\<And>i. inBounds i (getShape ty) \<Longrightarrow> e i = e' i"
  shows "fill_result F ty e = fill_result F ty e'"
  unfolding fill_result_def forEachIndex_foldM by (intro rbind_cong foldM_cong refl) (simp add: assms)

lemma dot_base:
  assumes "set lf \<inter> set lc = {}" "set lb \<inter> set lc = {}" "\<forall>d \<in> set lc. 0 \<le> d \<and> d < int n"
  shows "d \<in> set lc \<Longrightarrow> place lf (drop off i) (place lb i (replicate n 0)) ! nat d = 0"
proof -
  assume d: "d \<in> set lc"
  then have "nat d < n" "int (nat d) \<notin> set lf" "int (nat d) \<notin> set lb" using assms by auto
  then show "place lf (drop off i) (place lb i (replicate n 0)) ! nat d = 0" by (simp add: place_nth_out)
qed

text \<open>An element of the result as a fold over the contracted positions.\<close>

definition dot_product ::
  "('f, 'd) float_api \<Rightarrow> Tensor \<Rightarrow> Tensor \<Rightarrow> Axes \<Rightarrow> Axes \<Rightarrow> Axes \<Rightarrow> Axes \<Rightarrow> Type \<Rightarrow> Index \<Rightarrow> 'f Element result" where
  "dot_product F lhs rhs lb rb lc rc elementType i =
     (let lf = free_dims (getRank lhs) lb lc; rf = free_dims (getRank rhs) rb rc in
      rbind (getZeroValueOfType F elementType)
        (foldM (\<lambda>k. multiply_add F elementType lhs rhs
             (dot_index (t_shape lhs) lb lf (length lb) lc i k)
             (dot_index (t_shape rhs) rb rf (length lb + length lf) rc i k))
           (index_space (map (\<lambda>d. t_shape lhs ! nat d) lc))))"

text \<open>The operation with its fixed positions resolved.\<close>

definition dot_base_of :: "Sizes \<Rightarrow> Axes \<Rightarrow> Axes \<Rightarrow> nat \<Rightarrow> Index \<Rightarrow> Index" where
  "dot_base_of shape batching free off i = place free (drop off i) (place batching i (replicate (length shape) 0))"

lemma dot_general_unfold:
  assumes infer: "inferDotGeneralOp (as_ranked (t_type lhs)) (as_ranked (t_type rhs)) lb rb lc rc = Inr (dims, enc)"
    and ty: "getShape ty = dims" and lf: "lf = free_dims (getRank lhs) lb lc" and rf: "rf = free_dims (getRank rhs) rb rc"
  shows "dotGeneralOp F lhs rhs lb rb lc rc ty =
    fill_result F ty (\<lambda>i. rbind (getZeroValueOfType F (getElementType ty))
      (dot_loop F (getElementType ty) lhs rhs lc rc (Suc (nat (prod_list (map (\<lambda>d. t_shape lhs ! nat d) lc))))
        (dot_base_of (t_shape lhs) lb lf (length lb) i) (dot_base_of (t_shape rhs) rb rf (length lb + length lf) i)))"
  unfolding dotGeneralOp_def Let_def lf [symmetric] rf [symmetric]
proof (rule fill_result_cong)
  have rank: "rt_rank (as_ranked (t_type t)) = getRank t" "nat (getRank t) = length (t_shape t)" for t
    by (simp_all add: rt_rank_def as_ranked_def mkRankedTensorType_def getRank_def)
  note check = checkDotGeneral_ok [OF inferDotGeneralOp_length(1) [OF infer], unfolded rank]
  have len: "length dims = length lb + length lf + length rf"
    using inferDotGeneralOp_length(2) [OF infer] by (simp add: rank lf rf)
  have ds: "dims_ok (length (t_shape lhs)) lb" "dims_ok (length (t_shape rhs)) rb"
    "dims_ok (length (t_shape lhs)) lf" "dims_ok (length (t_shape rhs)) rf"
    using check(3-6) free_dims_ok(1) [of "getRank lhs" lb lc] free_dims_ok(1) [of "getRank rhs" rb rc]
    by (simp_all add: getRank_def lf rf)
  fix i assume "inBounds i (getShape ty)"
  then have i: "length i = length lb + length lf + length rf" using inBounds_length ty len by metis
  have "set_dims lb i 0 (Sizes_fill (length (t_shape lhs)) 0) = Inr (place lb i (replicate (length (t_shape lhs)) 0))"
    "set_dims lf i (length lb) (place lb i (replicate (length (t_shape lhs)) 0)) =
       Inr (dot_base_of (t_shape lhs) lb lf (length lb) i)"
    "set_dims rb i 0 (Sizes_fill (length (t_shape rhs)) 0) = Inr (place rb i (replicate (length (t_shape rhs)) 0))"
    "set_dims rf i (length lb + length lf) (place rb i (replicate (length (t_shape rhs)) 0)) =
       Inr (dot_base_of (t_shape rhs) rb rf (length lb + length lf) i)"
    using ds i check(1) by (simp_all add: set_dims_place Sizes_fill_def dot_base_of_def)
  then show "(if length rb < length lb then Inl (UB ''vector subscript out of range'')
        else rbind (set_dims lb i 0 (Sizes_fill (length (t_shape lhs)) 0)) (\<lambda>lhsIndex.
          rbind (set_dims (take (length lb) rb) i 0 (Sizes_fill (length (t_shape rhs)) 0)) (\<lambda>rhsIndex.
          rbind (set_dims lf i (length lb) lhsIndex) (\<lambda>lhsIndex.
          rbind (set_dims rf i (length lb + length lf) rhsIndex) (\<lambda>rhsIndex.
          rbind (getZeroValueOfType F (getElementType ty))
            (dot_loop F (getElementType ty) lhs rhs lc rc (Suc (nat (prod_list (map (\<lambda>d. t_shape lhs ! nat d) lc))))
              lhsIndex rhsIndex)))))) =
      rbind (getZeroValueOfType F (getElementType ty))
      (dot_loop F (getElementType ty) lhs rhs lc rc (Suc (nat (prod_list (map (\<lambda>d. t_shape lhs ! nat d) lc))))
        (dot_base_of (t_shape lhs) lb lf (length lb) i) (dot_base_of (t_shape rhs) rb rf (length lb + length lf) i))"
    using check(1) by (simp del: dot_loop.simps)
qed

lemma dot_general_fold:
  assumes infer: "inferDotGeneralOp (as_ranked (t_type lhs)) (as_ranked (t_type rhs)) lb rb lc rc = Inr (dims, enc)"
    and ty: "getShape ty = dims"
    and pos: "list_all (\<lambda>d. 0 < t_shape lhs ! nat d) lc"
  shows "dotGeneralOp F lhs rhs lb rb lc rc ty =
    fill_result F ty (dot_product F lhs rhs lb rb lc rc (getElementType ty))"
  unfolding dot_general_unfold [OF infer ty refl refl]
proof (rule fill_result_cong)
  fix i
  let ?lf = "free_dims (getRank lhs) lb lc" and ?rf = "free_dims (getRank rhs) rb rc"
  let ?bl = "dot_base_of (t_shape lhs) lb ?lf (length lb) i"
  let ?br = "dot_base_of (t_shape rhs) rb ?rf (length lb + length ?lf) i"
  have rank: "rt_rank (as_ranked (t_type t)) = int (length (t_shape t))" for t
    by (simp add: rt_rank_def as_ranked_def mkRankedTensorType_def)
  note check = checkDotGeneral_ok [OF inferDotGeneralOp_length(1) [OF infer], unfolded rank]
  have "bl ! nat d = 0" if "d \<in> set lc" "bl = ?bl" for d bl
    using that check(3,5) free_dims_ok(3) [of "getRank lhs" lb lc] unfolding that(2) dot_base_of_def
    by (intro dot_base [where lc = lc]) auto
  moreover have "br ! nat d = 0" if "d \<in> set rc" "br = ?br" for d br
    using that check(4,6) free_dims_ok(3) [of "getRank rhs" rb rc] unfolding that(2) dot_base_of_def
    by (intro dot_base [where lc = rc]) auto
  ultimately have "dot_loop F (getElementType ty) lhs rhs lc rc (Suc (nat (prod_list (map (\<lambda>d. t_shape lhs ! nat d) lc)))) ?bl ?br =
      foldM (\<lambda>k. multiply_add F (getElementType ty) lhs rhs (place lc k ?bl) (place rc k ?br))
        (index_space (map (\<lambda>d. t_shape lhs ! nat d) lc))"
    using check(2-6) pos by (intro ext dot_loop_space) (auto simp: dot_base_of_def list_all_iff)
  then show "rbind (getZeroValueOfType F (getElementType ty))
      (dot_loop F (getElementType ty) lhs rhs lc rc (Suc (nat (prod_list (map (\<lambda>d. t_shape lhs ! nat d) lc)))) ?bl ?br) =
    dot_product F lhs rhs lb rb lc rc (getElementType ty) i"
    by (simp add: dot_product_def Let_def dot_index_def dot_base_of_def del: dot_loop.simps)
qed

section \<open>Bounds of the indices\<close>

lemma place_inBounds:
  assumes "length base = length shape" "length ds \<le> length ks" "dims_ok (length shape) ds"
    and "\<And>j. j < length ds \<Longrightarrow> 0 \<le> ks ! j \<and> ks ! j < shape ! nat (ds ! j)"
    and "\<And>p. p < length shape \<Longrightarrow> int p \<notin> set ds \<Longrightarrow> 0 \<le> base ! p \<and> base ! p < shape ! p"
  shows "inBounds (place ds ks base) shape"
  unfolding inBounds_nth
proof (intro conjI allI impI)
  fix p assume p: "p < length shape"
  have "0 \<le> place ds ks base ! p \<and> place ds ks base ! p < shape ! p"
  proof (cases "int p \<in> set ds")
    case True
    then obtain j where j: "j < length ds" "ds ! j = int p" by (auto simp: in_set_conv_nth)
    then have "place ds ks base ! p = ks ! j" using place_nth_in [where base = base and ds = ds and i = j and ks = ks] assms(1,3) by simp
    with assms(4) [OF j(1)] j(2) show ?thesis by simp
  next
    case False then show ?thesis using place_nth_out [of p base ds ks] assms(1) assms(5) [OF p] p by simp
  qed
  then show "0 \<le> place ds ks base ! p" "place ds ks base ! p < shape ! p" by simp_all
qed (use assms in simp)

text \<open>The sizes that the shape function infers for static operands.\<close>

lemma dot_batch_static:
  assumes "mapM (\<lambda>(lhsDim, rhsDim).
          rbind (bound_at [] lhsDim) (\<lambda>lhsBound. rbind (bound_at [] rhsDim) (\<lambda>rhsBound.
          rbind (vec_nth lshape lhsDim) (\<lambda>l. rbind (vec_nth rshape rhsDim) (\<lambda>r.
            inferMostSpecificDimAndBound 0 l r lhsBound rhsBound))))) (zip lb rb) = Inr batch"
    and "list_all (\<lambda>d. 0 \<le> d) lshape" "list_all (\<lambda>d. 0 \<le> d) rshape" "length lb = length rb" "j < length lb"
  shows "fst (batch ! j) = lshape ! nat (lb ! j) \<and> fst (batch ! j) = rshape ! nat (rb ! j)"
proof -
  obtain x y where xy: "batch ! j = (x, y)" by force
  from assms(1,4,5) xy have e: "inferMostSpecificDimAndBound 0 (lshape ! nat (lb ! j)) (rshape ! nat (rb ! j)) kDynamic kDynamic = Inr (x, y)"
    and d: "0 \<le> lb ! j" "lb ! j < int (length lshape)" "0 \<le> rb ! j" "rb ! j < int (length rshape)"
    by (auto simp: mapM_eq_Inr bound_at_def vec_nth_eq_Inr elim!: rbind_InrE allE [of _ j])
  have "0 \<le> lshape ! nat (lb ! j)" "0 \<le> rshape ! nat (rb ! j)"
    using assms(2,3) d by (simp_all add: list_all_length nat_less_iff)
  then have "\<not> isDynamicDimSize (lshape ! nat (lb ! j))" "\<not> isDynamicDimSize (rshape ! nat (rb ! j))"
    by (simp_all add: isDynamicDimSize_def kDynamic_def)
  with most_specific_static [OF _ e] xy show ?thesis by auto
qed

lemma foldM_check:
  "foldM (\<lambda>(a, b) _. if P a b then Inr () else Inl e) zs () = Inr u \<Longrightarrow> \<forall>(a, b) \<in> set zs. P a b"
  by (induction zs) (auto split: if_splits)

lemma dot_contracting_static:
  assumes "checkDotGeneralConstraints lty rty lb rb lc rc = Inr u"
    and "list_all (\<lambda>d. 0 \<le> d) (getShape lty)" "list_all (\<lambda>d. 0 \<le> d) (getShape rty)" "j < length lc"
  shows "getShape lty ! nat (lc ! j) = getShape rty ! nat (rc ! j)"
proof -
  note ok = checkDotGeneral_ok [OF assms(1)]
  have "checkCompatiblePairs ''contracting dimension sizes must match for lhs/rhs''
      (getShape lty) (getShape rty) lc rc = Inr u"
    using assms(1) by (auto simp: checkDotGeneralConstraints_def split: if_splits elim!: rbind_InrE)
  from foldM_check [OF this [unfolded checkCompatiblePairs_def]] have "verifyCompatibleDims (getShape lty ! nat (lc ! j)) (getShape rty ! nat (rc ! j))"
    using assms(4) ok(2) by (force simp: set_zip)
  moreover have "lc ! j \<in> set lc" "rc ! j \<in> set rc" using assms(4) ok(2) by simp_all
  then have "0 \<le> getShape lty ! nat (lc ! j)" "0 \<le> getShape rty ! nat (rc ! j)"
    using assms(2,3) ok(5,6) by (simp_all add: list_all_length rt_rank_def nat_less_iff)
  ultimately show ?thesis by (auto simp: verifyCompatibleDims_def isDynamicDimSize_def kDynamic_def)
qed

lemma dot_dims_static:
  assumes infer: "inferDotGeneralOp (as_ranked (t_type lhs)) (as_ranked (t_type rhs)) lb rb lc rc = Inr (dims, enc)"
    and static: "list_all (\<lambda>d. 0 \<le> d) (t_shape lhs)" "list_all (\<lambda>d. 0 \<le> d) (t_shape rhs)"
    and lf: "lf = free_dims (getRank lhs) lb lc" and rf: "rf = free_dims (getRank rhs) rb rc"
  shows "j < length lb \<Longrightarrow> dims ! j = t_shape lhs ! nat (lb ! j) \<and> dims ! j = t_shape rhs ! nat (rb ! j)"
    "j < length lf \<Longrightarrow> dims ! (length lb + j) = t_shape lhs ! nat (lf ! j)"
    "j < length rf \<Longrightarrow> dims ! (length lb + length lf + j) = t_shape rhs ! nat (rf ! j)"
    "j < length lc \<Longrightarrow> t_shape lhs ! nat (lc ! j) = t_shape rhs ! nat (rc ! j)"
    "length dims = length lb + length lf + length rf"
proof -
  note check = inferDotGeneralOp_length(1) [OF infer]
  note ok = checkDotGeneral_ok [OF check]
  from infer obtain batch lfs rfs where
    batch: "mapM (\<lambda>(lhsDim, rhsDim).
          rbind (bound_at [] lhsDim) (\<lambda>lhsBound. rbind (bound_at [] rhsDim) (\<lambda>rhsBound.
          rbind (vec_nth (t_shape lhs) lhsDim) (\<lambda>l. rbind (vec_nth (t_shape rhs) rhsDim) (\<lambda>r.
            inferMostSpecificDimAndBound 0 l r lhsBound rhsBound))))) (zip lb rb) = Inr batch"
    and lfs: "mapM (\<lambda>i. rbind (vec_nth (t_shape lhs) i) (\<lambda>d. rbind (bound_at [] i) (\<lambda>b. Inr (d, b)))) lf = Inr lfs"
    and rfs: "mapM (\<lambda>i. rbind (vec_nth (t_shape rhs) i) (\<lambda>d. rbind (bound_at [] i) (\<lambda>b. Inr (d, b)))) rf = Inr rfs"
    and dims: "dims = map fst batch @ map fst lfs @ map fst rfs"
    by (auto simp: inferDotGeneralOp_def Let_def as_ranked_def mkRankedTensorType_def rt_rank_def lf rf getRank_def
        elim!: rbind_InrE)
  have len: "length batch = length lb" "length lfs = length lf" "length rfs = length rf"
    using mapM_length [OF batch] mapM_length [OF lfs] mapM_length [OF rfs] ok(1) by simp_all
  show "length dims = length lb + length lf + length rf" using dims len by simp
  show "dims ! j = t_shape lhs ! nat (lb ! j) \<and> dims ! j = t_shape rhs ! nat (rb ! j)" if "j < length lb"
    using dot_batch_static [OF batch static ok(1) that] that dims len by (simp add: nth_append)
  have fst_lfs: "fst (lfs ! k) = t_shape lhs ! nat (lf ! k)" if "k < length lf" for k
    using lfs that by (auto simp: mapM_eq_Inr vec_nth_eq_Inr elim!: rbind_InrE allE [of _ k]) (metis fst_conv)
  have fst_rfs: "fst (rfs ! k) = t_shape rhs ! nat (rf ! k)" if "k < length rf" for k
    using rfs that by (auto simp: mapM_eq_Inr vec_nth_eq_Inr elim!: rbind_InrE allE [of _ k]) (metis fst_conv)
  show "dims ! (length lb + j) = t_shape lhs ! nat (lf ! j)" if "j < length lf"
    using fst_lfs [OF that] that dims len by (simp add: nth_append)
  show "dims ! (length lb + length lf + j) = t_shape rhs ! nat (rf ! j)" if "j < length rf"
    using fst_rfs [OF that] that dims len by (simp add: nth_append)
  show "t_shape lhs ! nat (lc ! j) = t_shape rhs ! nat (rc ! j)" if "j < length lc"
    using dot_contracting_static [OF check] static that ok(2,5,6) by (simp add: as_ranked_def mkRankedTensorType_def)
qed

lemma dot_index_inBounds:
  assumes "dims_ok (length shape) bs" "dims_ok (length shape) fs" "dims_ok (length shape) cs"
    and cover: "\<And>p. p < length shape \<Longrightarrow> int p \<in> set bs \<union> set fs \<union> set cs"
    and len: "length bs \<le> length i" "off + length fs \<le> length i" "length k = length cs"
    and bs: "\<And>j. j < length bs \<Longrightarrow> 0 \<le> i ! j \<and> i ! j < shape ! nat (bs ! j)"
    and fs: "\<And>j. j < length fs \<Longrightarrow> 0 \<le> i ! (off + j) \<and> i ! (off + j) < shape ! nat (fs ! j)"
    and cs: "\<And>j. j < length cs \<Longrightarrow> 0 \<le> k ! j \<and> k ! j < shape ! nat (cs ! j)"
  shows "inBounds (dot_index shape bs fs off cs i k) shape"
proof -
  let ?b1 = "place bs i (replicate (length shape) 0)"
  let ?b2 = "place fs (drop off i) ?b1"
  have b1: "0 \<le> ?b1 ! p \<and> ?b1 ! p < shape ! p" if p: "p < length shape" "int p \<in> set bs" for p
  proof -
    obtain j where j: "j < length bs" "bs ! j = int p" using p(2) by (auto simp: in_set_conv_nth)
    then have "?b1 ! p = i ! j"
      using place_nth_in [where base = "replicate (length shape) 0" and ds = bs and i = j and ks = i] assms(1) by simp
    then show ?thesis using bs [OF j(1)] j(2) by simp
  qed
  have b2: "0 \<le> ?b2 ! p \<and> ?b2 ! p < shape ! p" if p: "p < length shape" "int p \<notin> set cs" for p
  proof (cases "int p \<in> set fs")
    case True
    then obtain j where j: "j < length fs" "fs ! j = int p" by (auto simp: in_set_conv_nth)
    then have "?b2 ! p = i ! (off + j)"
      using place_nth_in [where base = ?b1 and ds = fs and i = j and ks = "drop off i"] assms(2) len(2) by simp
    then show ?thesis using fs [OF j(1)] j(2) by simp
  next
    case False
    then show ?thesis using b1 [OF p(1)] cover [OF p(1)] p place_nth_out [of p ?b1 fs "drop off i"] by auto
  qed
  show ?thesis unfolding dot_index_def using assms(3) len(3) cs b2 by (intro place_inBounds) auto
qed

lemma dot_indices_inBounds:
  assumes infer: "inferDotGeneralOp (as_ranked (t_type lhs)) (as_ranked (t_type rhs)) lb rb lc rc = Inr (dims, enc)"
    and static: "list_all (\<lambda>d. 0 \<le> d) (t_shape lhs)" "list_all (\<lambda>d. 0 \<le> d) (t_shape rhs)"
    and lf: "lf = free_dims (getRank lhs) lb lc" and rf: "rf = free_dims (getRank rhs) rb rc"
    and i: "inBounds i dims" and k: "inBounds k (map (\<lambda>d. t_shape lhs ! nat d) lc)"
  shows "inBounds (dot_index (t_shape lhs) lb lf (length lb) lc i k) (t_shape lhs)"
    "inBounds (dot_index (t_shape rhs) rb rf (length lb + length lf) rc i k) (t_shape rhs)"
proof -
  have rank: "rt_rank (as_ranked (t_type t)) = getRank t" "nat (getRank t) = length (t_shape t)" for t
    by (simp_all add: rt_rank_def as_ranked_def mkRankedTensorType_def getRank_def)
  note ok = checkDotGeneral_ok [OF inferDotGeneralOp_length(1) [OF infer], unfolded rank]
  note dims = dot_dims_static [OF infer static lf rf]
  have len: "length i = length lb + length lf + length rf" "length k = length lc"
    using inBounds_length [OF i] inBounds_length [OF k] dims(5) by simp_all
  have in_i: "0 \<le> i ! j \<and> i ! j < dims ! j" if "j < length lb + length lf + length rf" for j
    using i that dims(5) by (auto simp: inBounds_nth)
  have in_k: "0 \<le> k ! j \<and> k ! j < t_shape lhs ! nat (lc ! j)" if "j < length lc" for j
    using k that by (auto simp: inBounds_nth)
  have ds: "dims_ok (length (t_shape lhs)) lb" "dims_ok (length (t_shape lhs)) lc" "dims_ok (length (t_shape lhs)) lf"
    "dims_ok (length (t_shape rhs)) rb" "dims_ok (length (t_shape rhs)) rc" "dims_ok (length (t_shape rhs)) rf"
    using ok(3-6) free_dims_ok(1) [of "getRank lhs" lb lc] free_dims_ok(1) [of "getRank rhs" rb rc]
    by (simp_all add: getRank_def lf rf)
  have cover: "p < length (t_shape lhs) \<Longrightarrow> int p \<in> set lb \<union> set lf \<union> set lc"
    "p < length (t_shape rhs) \<Longrightarrow> int p \<in> set rb \<union> set rf \<union> set rc" for p
    by (auto simp: lf rf free_dims_def getRank_def)
  have bounds: "0 \<le> i ! j \<and> i ! j < t_shape lhs ! nat (lb ! j)" "0 \<le> i ! j \<and> i ! j < t_shape rhs ! nat (rb ! j)"
    if "j < length lb" for j using in_i [of j] dims(1) [OF that] that by auto
  have lfb: "0 \<le> i ! (length lb + j) \<and> i ! (length lb + j) < t_shape lhs ! nat (lf ! j)" if "j < length lf" for j
    using in_i [of "length lb + j"] dims(2) [OF that] that by auto
  have rfb: "0 \<le> i ! (length lb + length lf + j) \<and> i ! (length lb + length lf + j) < t_shape rhs ! nat (rf ! j)"
    if "j < length rf" for j
    using in_i [of "length lb + length lf + j"] dims(3) [OF that] that by auto
  have rkb: "0 \<le> k ! j \<and> k ! j < t_shape rhs ! nat (rc ! j)" if "j < length rc" for j
    using in_k [of j] dims(4) [of j] that ok(2) by simp
  show "inBounds (dot_index (t_shape lhs) lb lf (length lb) lc i k) (t_shape lhs)"
    using len by (intro dot_index_inBounds ds cover bounds(1) lfb in_k) simp_all
  show "inBounds (dot_index (t_shape rhs) rb rf (length lb + length lf) rc i k) (t_shape rhs)"
    using len ok(1,2) by (intro dot_index_inBounds ds cover bounds(2) rfb rkb) simp_all
qed

lemma dot_dims_nonneg:
  assumes infer: "inferDotGeneralOp (as_ranked (t_type lhs)) (as_ranked (t_type rhs)) lb rb lc rc = Inr (dims, enc)"
    and static: "list_all (\<lambda>d. 0 \<le> d) (t_shape lhs)" "list_all (\<lambda>d. 0 \<le> d) (t_shape rhs)"
  shows "list_all (\<lambda>d. 0 \<le> d) dims"
  unfolding list_all_length
proof (intro allI impI)
  let ?lf = "free_dims (getRank lhs) lb lc" and ?rf = "free_dims (getRank rhs) rb rc"
  have rank: "rt_rank (as_ranked (t_type t)) = int (length (t_shape t))" for t
    by (simp add: rt_rank_def as_ranked_def mkRankedTensorType_def)
  note check = checkDotGeneral_ok [OF inferDotGeneralOp_length(1) [OF infer], unfolded rank]
  note dims = dot_dims_static [OF infer static refl refl]
  have nonneg: "0 \<le> t_shape t ! nat d" if "list_all (\<lambda>d. 0 \<le> d) (t_shape t)" "0 \<le> d" "d < int (length (t_shape t))" for t d
    using that by (simp add: list_all_length nat_less_iff)
  fix j assume j: "j < length dims"
  consider "j < length lb" | k where "j = length lb + k" "k < length ?lf"
    | k where "j = length lb + length ?lf + k" "k < length ?rf"
    using j dims(5) by (metis add.assoc add_less_cancel_left le_Suc_ex not_le)
  then show "0 \<le> dims ! j"
  proof cases
    case 1
    then have "lb ! j \<in> set (lb @ lc)" by simp
    then show ?thesis using nonneg [OF static(1)] check(5) dims(1) [OF 1] by metis
  next
    case 2
    then show ?thesis using nonneg [OF static(1)] free_dims_ok(1) [of "getRank lhs" lb lc] dims(2) nth_mem [OF 2(2)]
      by (simp add: getRank_def)
  next
    case 3
    then show ?thesis using nonneg [OF static(2)] free_dims_ok(1) [of "getRank rhs" rb rc] dims(3) nth_mem [OF 3(2)]
      by (simp add: getRank_def)
  qed
qed

section \<open>Integer dot products\<close>

lemma int_el_storable: "isSupportedIntegerType (IntegerType s w) \<Longrightarrow> storable F (IntegerType s w) (int_el s w v)"
  using storable_int [of F "int_el s w v"] by (simp add: wf_element_def)

lemma zero_int_el: "isSupportedIntegerType (IntegerType s w) \<Longrightarrow> getZeroValueOfType F (IntegerType s w) = Inr (int_el s w 0)"
  by (auto simp: getZeroValueOfType_def convert_int64_def convert_uint64_def convert_APSInt_def convert_APSInt_scalar_def
      supported_defs int_el_def Element_int_def sval_def isNegative_def)

text \<open>A tensor of integers: its elements and their range.\<close>

definition denotes_int :: "('f, 'd) float_api \<Rightarrow> Tensor \<Rightarrow> Signedness \<Rightarrow> nat \<Rightarrow> (Index \<Rightarrow> int) \<Rightarrow> bool" where
  "denotes_int F t s w a \<longleftrightarrow> isSupportedIntegerType (IntegerType s w) \<and> t_elementType t = IntegerType s w \<and>
     denotes F t (\<lambda>i. int_el s w (a i)) \<and> (\<forall>i. inBounds i (t_shape t) \<longrightarrow> in_range s w (a i))"

lemma multiply_add_int:
  assumes "denotes_int F lhs s1 w1 a" "denotes_int F rhs s2 w2 b" "isSupportedIntegerType (IntegerType s w)"
    and "inBounds li (t_shape lhs)" "inBounds ri (t_shape rhs)"
  shows "multiply_add F (IntegerType s w) lhs rhs li ri (int_el s w c) = Inr (int_el s w (c + a li * b ri))"
proof -
  have "Tensor_get F lhs li = Inr (int_el s1 w1 (a li))" "Tensor_get F rhs ri = Inr (int_el s2 w2 (b ri))"
    "convert_Element F (IntegerType s w) (int_el s1 w1 (a li)) = Inr (int_el s w (a li))"
    "convert_Element F (IntegerType s w) (int_el s2 w2 (b ri)) = Inr (int_el s w (b ri))"
    using assms by (auto simp: denotes_int_def denotes_get intro!: convert_int_el)
  then show ?thesis using int_el_arith [OF assms(3), of F] by (simp add: multiply_add_def)
qed

lemma multiply_add_fold:
  assumes "denotes_int F lhs s1 w1 a" "denotes_int F rhs s2 w2 b" "isSupportedIntegerType (IntegerType s w)"
    and "\<And>k. k \<in> set ks \<Longrightarrow> inBounds (li k) (t_shape lhs) \<and> inBounds (ri k) (t_shape rhs)"
  shows "foldM (\<lambda>k. multiply_add F (IntegerType s w) lhs rhs (li k) (ri k)) ks (int_el s w c) =
    Inr (int_el s w (c + (\<Sum>k\<leftarrow>ks. a (li k) * b (ri k))))"
  using assms(4)
proof (induction ks arbitrary: c)
  case (Cons k ks)
  then show ?case using multiply_add_int [OF assms(1-3)] by (simp add: add.assoc)
qed simp

text \<open>The sum of products that an element of the result is.\<close>

definition dot_sum ::
  "Tensor \<Rightarrow> Tensor \<Rightarrow> Axes \<Rightarrow> Axes \<Rightarrow> Axes \<Rightarrow> Axes \<Rightarrow> (Index \<Rightarrow> int) \<Rightarrow> (Index \<Rightarrow> int) \<Rightarrow> Index \<Rightarrow> int" where
  "dot_sum lhs rhs lb rb lc rc a b i =
     (let lf = free_dims (getRank lhs) lb lc; rf = free_dims (getRank rhs) rb rc in
      \<Sum>k\<leftarrow>index_space (map (\<lambda>d. t_shape lhs ! nat d) lc).
        a (dot_index (t_shape lhs) lb lf (length lb) lc i k) *
        b (dot_index (t_shape rhs) rb rf (length lb + length lf) rc i k))"

lemma dot_general_denotes:
  assumes "denotes_int F lhs s1 w1 a" "denotes_int F rhs s2 w2 b" "isSupportedIntegerType (IntegerType s w)"
    and infer: "inferDotGeneralOp (as_ranked (t_type lhs)) (as_ranked (t_type rhs)) lb rb lc rc = Inr (dims, enc)"
    and pos: "list_all (\<lambda>d. 0 < t_shape lhs ! nat d) lc"
  shows "\<exists>r. dotGeneralOp F lhs rhs lb rb lc rc \<lparr>getShape = dims, getElementType = IntegerType s w\<rparr> = Inr r \<and>
    t_shape r = dims \<and> denotes F r (\<lambda>i. int_el s w (dot_sum lhs rhs lb rb lc rc a b i))"
proof -
  let ?ty = "\<lparr>getShape = dims, getElementType = IntegerType s w\<rparr>"
  let ?lf = "free_dims (getRank lhs) lb lc" and ?rf = "free_dims (getRank rhs) rb rc"
  have static: "list_all (\<lambda>d. 0 \<le> d) (t_shape lhs)" "list_all (\<lambda>d. 0 \<le> d) (t_shape rhs)"
    using assms(1,2) by (auto simp: denotes_int_def denotes_def wf_tensor_def)
  have "list_all (\<lambda>d. 0 \<le> d) dims" by (rule dot_dims_nonneg [OF infer static])
  then have wf: "wf_type ?ty" using assms(3) by (simp add: wf_type_supported isSupportedType_def)
  have "dot_product F lhs rhs lb rb lc rc (IntegerType s w) i = Inr (int_el s w (dot_sum lhs rhs lb rb lc rc a b i))"
    if i: "inBounds i dims" for i
    using multiply_add_fold [OF assms(1-3), of "index_space (map (\<lambda>d. t_shape lhs ! nat d) lc)"
        "dot_index (t_shape lhs) lb ?lf (length lb) lc i" "dot_index (t_shape rhs) rb ?rf (length lb + length ?lf) rc i" 0]
      dot_indices_inBounds [OF infer static refl refl i]
    by (simp add: dot_product_def dot_sum_def Let_def zero_int_el [OF assms(3)])
  with fill_result_denotes [OF wf, of "dot_product F lhs rhs lb rb lc rc (IntegerType s w)"
      "\<lambda>i. int_el s w (dot_sum lhs rhs lb rb lc rc a b i)" F] int_el_storable [OF assms(3), where F = F]
  show ?thesis using dot_general_fold [OF infer, of ?ty, where F = F] pos by auto
qed

text \<open>
  C17: \<open>dot_general\<close> on integers. When the shape function accepts the operands and no contracting dimension is empty, the
  result has the inferred type and the element at \<open>i\<close> is the sum, over the contracted positions, of the products of the
  elements that \<open>i\<close> and the position select, modulo the width of the result's element type.
\<close>

theorem dot_general_integer:
  assumes "denotes_int F lhs s1 w1 a" "denotes_int F rhs s2 w2 b" "isSupportedIntegerType (IntegerType s w)"
    and infer: "inferDotGeneralOp (as_ranked (t_type lhs)) (as_ranked (t_type rhs)) lb rb lc rc = Inr (dims, enc)"
    and pos: "list_all (\<lambda>d. 0 < t_shape lhs ! nat d) lc"
  shows "\<exists>r. dotGeneralOp F lhs rhs lb rb lc rc \<lparr>getShape = dims, getElementType = IntegerType s w\<rparr> = Inr r \<and>
    t_shape r = dims \<and> denotes F r (\<lambda>i. int_el s w (dot_sum lhs rhs lb rb lc rc a b i))"
  by (rule dot_general_denotes [OF assms])

text \<open>
  C21: a contracting dimension of size zero. The dot product of empty slices is zero, but the loop of \<open>dot_general\<close> reads its
  first pair before it looks at the sizes: on every result with at least one element the operation ends in the fatal error of
  an access outside the operand.
\<close>

theorem dot_general_empty_contraction:
  assumes "denotes_int F lhs s1 w1 a" "denotes_int F rhs s2 w2 b" "isSupportedIntegerType (IntegerType s w)"
    and infer: "inferDotGeneralOp (as_ranked (t_type lhs)) (as_ranked (t_type rhs)) lb rb lc rc = Inr (dims, enc)"
    and zero: "d \<in> set lc" "t_shape lhs ! nat d = 0" and nonempty: "list_all (\<lambda>n. 0 < n) dims"
  shows "dotGeneralOp F lhs rhs lb rb lc rc \<lparr>getShape = dims, getElementType = IntegerType s w\<rparr> =
    Inl (Fatal ''Incompatible index and shape found while flattening index'')"
proof -
  let ?ty = "\<lparr>getShape = dims, getElementType = IntegerType s w\<rparr>"
  let ?err = "Inl (Fatal ''Incompatible index and shape found while flattening index'')"
  let ?i = "replicate (length dims) (0 :: int)"
  have i0: "inBounds ?i dims" using nonempty by (auto simp: inBounds_nth list_all_length)
  have "index_space dims = space_from dims ?i" using space_from_zero [OF i0] by simp
  then obtain rest where sp: "index_space dims = ?i # rest" using space_from_step [OF i0] by metis
  have "wf_type ?ty" using assms(3) nonempty by (auto simp: wf_type_supported isSupportedType_def list_all_iff)
  then obtain t where "newTensor ?ty = Inr t" using newTensor_ok by blast
  moreover have "\<not> inBounds li (t_shape lhs)" for li
  proof
    assume li: "inBounds li (t_shape lhs)"
    have "d \<in> set (lb @ lc)" using zero(1) by simp
    then have "nat d < length (t_shape lhs)"
      using checkDotGeneral_ok(5) [OF inferDotGeneralOp_length(1) [OF infer]]
      by (auto simp: rt_rank_def as_ranked_def mkRankedTensorType_def nat_less_iff)
    then show False using li zero(2) by (auto simp: inBounds_nth)
  qed
  then have "Tensor_get F lhs li = ?err" for li
    using assms(1) by (auto simp: Tensor_get_def flattenIndex_error denotes_int_def denotes_def wf_tensor_def)
  ultimately show ?thesis
    unfolding dot_general_unfold [OF infer _ refl refl, of ?ty, simplified]
    by (simp add: fill_result_def forEachIndex_foldM sp multiply_add_def zero_int_el [OF assms(3)])
qed

end
