(* ===== verification/Tensor_Correct.thy ===== *)
theory Tensor_Correct
  imports Tensor
begin

text \<open>
  The headline properties of the index spaces and of tensor storage: what the iterator enumerates, that flattening is a
  bijection onto the buffer in iteration order, and that an element written is read back.
\<close>

section \<open>The iterator\<close>

abbreviation lex_less :: "Index \<Rightarrow> Index \<Rightarrow> bool" where
  "lex_less i j \<equiv> (i, j) \<in> lexord {(a, b). a < b}"

lemma sorted_blocks:
  assumes "sorted_wrt (<) ks" "sorted_wrt lex_less xs"
  shows "sorted_wrt lex_less (concat (map (\<lambda>k. map (Cons k) xs) ks))"
  using assms(1)
proof (induction ks)
  case (Cons k ks)
  then show ?case using assms(2)
    by (auto simp: sorted_wrt_append sorted_wrt_map)
qed simp

lemma index_space_sorted: "sorted_wrt lex_less (index_space shape)"
  by (induction shape) (auto simp: upto_int_def intro!: sorted_blocks)

text \<open>
  C1: the loop \<^verbatim>\<open>for (it = index_begin(); it != index_end(); ++it)\<close> ends, and visits exactly the indices inside the shape,
  each once, in lexicographic order; it visits none when a dimension is zero.
\<close>

theorem iterator_enumerates:
  "set (iter_indices (index_begin shape)) = {i. inBounds i shape} \<and>
   distinct (iter_indices (index_begin shape)) \<and> sorted_wrt lex_less (iter_indices (index_begin shape))"
  by (simp add: iter_indices_begin index_space_sorted index_space_set)

section \<open>Storage\<close>

text \<open>
  C2: flattening is a bijection between the indices of a shape and the positions of the buffer, and follows the order of
  the iterator: the offsets of the indices, in iteration order, are 0, 1, 2 and so on up to the number of elements.
\<close>

theorem flatten_enumerates:
  assumes "list_all (\<lambda>d. 0 \<le> d) shape"
  shows "mapM (flattenIndex shape) (iter_indices (index_begin shape)) = Inr (upto_int (prod_list shape))"
proof -
  have "mapM (flattenIndex shape) (index_space shape) = Inr (map (flat shape) (index_space shape))"
    by (rule mapM_Inr) (simp add: flattenIndex_flat)
  with flat_index_space [OF assms] show ?thesis by (simp add: iter_indices_begin)
qed

theorem flatten_enumerates_witness:
  "mapM (flattenIndex [2, 3]) (iter_indices (index_begin [2, 3])) = Inr [0, 1, 2, 3, 4, 5]"
  using flatten_enumerates [of "[2, 3]"] by (simp add: upto_int_def upto.simps)

text \<open>
  C3: writing an element of a tensor's element type at an index inside its shape succeeds, keeps the tensor well formed,
  is read back unchanged, and changes the element at no other index. This holds for every supported type, the integers
  narrower than a byte, floats and complex numbers included.
\<close>

theorem tensor_set_get:
  assumes "wf_tensor t" "inBounds i (t_shape t)"
    and "wf_element F e" "getType e = t_elementType t" "float_bits_ok F"
  shows "\<exists>t'. Tensor_set F t i e = Inr t' \<and> wf_tensor t' \<and> t_type t' = t_type t \<and>
    (\<forall>j. inBounds j (t_shape t) \<longrightarrow> Tensor_get F t' j = (if j = i then Inr e else Tensor_get F t j))"
proof -
  have st: "storable F (t_elementType t) e" using wf_element_storable [OF assms(3,5)] assms(4) by simp
  obtain t' where "Tensor_set F t i e = Inr t'" "wf_tensor t'" "t_type t' = t_type t"
    using Tensor_set_ok [OF assms(1,2) st] by blast
  then show ?thesis
    using Tensor_get_set_same [OF assms(1,2) st] Tensor_get_set_other [OF assms(1,2) st] by auto
qed

text \<open>
  Reading or writing outside the shape is the fatal error of \<^verbatim>\<open>flattenIndex\<close>, never an access to the buffer.
\<close>

theorem tensor_access_out_of_bounds:
  assumes "wf_tensor t" "\<not> inBounds i (t_shape t)"
  shows "Tensor_get F t i = Inl (Fatal ''Incompatible index and shape found while flattening index'') \<and>
    Tensor_set F t i e = Inl (Fatal ''Incompatible index and shape found while flattening index'')"
  using assms by (auto simp: wf_tensor_def Tensor_get_def Tensor_set_def flattenIndex_error)

end
