(* ===== verification/Concrete.thy ===== *)
theory Concrete
  imports Concat_Correct Element_Correct Tensor_Correct
begin

text \<open>
  Concrete inputs for the witnesses of the properties: an instance of the floating-point parameter, and tensors of
  8-bit integers given by the list of their bytes.
\<close>

section \<open>An instance of the floating-point parameter\<close>

text \<open>
  A number system that satisfies what the interpreter relies on: a value is a format and bits, and stands for the
  integer its bits hold; a \<^verbatim>\<open>double\<close> is an integer. Arithmetic wraps at the width of the format. A pair whose bits do
  not have the width of its format counts as a value of a format the interpreter does not support.
\<close>

definition fixed_of :: "FloatFormat \<Rightarrow> int \<Rightarrow> FloatFormat \<times> apint" where
  "fixed_of f v = (f, mkAPInt (float_width f) v)"

definition fixed_api :: "(FloatFormat \<times> apint, int) float_api" where
  "fixed_api =
     \<lparr>getSemantics = (\<lambda>x. if wf_apint (snd x) \<and> getBitWidth (snd x) = float_width (fst x) then fst x else Float128),
      fl_add = (\<lambda>x y. fixed_of (fst x) (sval (snd x) + sval (snd y))),
      fl_sub = (\<lambda>x y. fixed_of (fst x) (sval (snd x) - sval (snd y))),
      fl_mul = (\<lambda>x y. fixed_of (fst x) (sval (snd x) * sval (snd y))),
      fl_div = (\<lambda>x y. fixed_of (fst x) (trunc_div (sval (snd x)) (sval (snd y)))),
      fl_mod = (\<lambda>x y. fixed_of (fst x) (trunc_mod (sval (snd x)) (sval (snd y)))),
      fl_neg = (\<lambda>x. fixed_of (fst x) (- sval (snd x))),
      fl_abs = (\<lambda>x. fixed_of (fst x) \<bar>sval (snd x)\<bar>),
      fl_lt = (\<lambda>x y. sval (snd x) < sval (snd y)),
      fl_gt = (\<lambda>x y. sval (snd y) < sval (snd x)),
      fl_eq = (\<lambda>x y. sval (snd x) = sval (snd y)),
      fl_maximum = (\<lambda>x y. if sval (snd x) < sval (snd y) then y else x),
      fl_minimum = (\<lambda>x y. if sval (snd x) < sval (snd y) then x else y),
      fl_isZero = (\<lambda>x. isZero (snd x)),
      fl_isNegative = (\<lambda>x. isNegative (snd x)),
      fl_isNaN = (\<lambda>x. False),
      fl_isFinite = (\<lambda>x. True),
      bitcastToAPInt = snd,
      fl_ofBits = Pair,
      fl_convert = (\<lambda>f x. if fst x = f then x else fixed_of f (sval (snd x))),
      convertFromAPInt = (\<lambda>f v isSigned. fixed_of f (if isSigned then sval v else uval v)),
      convertToInteger = (\<lambda>w isUnsigned x. mkAPInt w (sval (snd x))),
      roundToIntegral = (\<lambda>mode x. x),
      getInf = (\<lambda>f. fixed_of f (2 ^ (float_width f - 1) - 1)),
      getNaN = (\<lambda>f. fixed_of f 0),
      getZero = (\<lambda>f. fixed_of f 0),
      convertToDouble = (\<lambda>x. sval (snd x)),
      APFloat_double = fixed_of Float64,
      d_lit = (\<lambda>n. n),
      d_neg = uminus, d_add = (+), d_sub = (-), d_mul = (*), d_div = trunc_div, d_fabs = abs, d_le = (\<le>),
      std_fn = (\<lambda>fn x. x),
      std_fn2 = (\<lambda>fn x y. x),
      std_cfn = (\<lambda>fn z. z),
      std_cpow = (\<lambda>x y. x),
      std_cabs = (\<lambda>z. \<bar>fst z\<bar> + \<bar>snd z\<bar>),
      std_cadd = (\<lambda>x y. (fst x + fst y, snd x + snd y)),
      std_csub = (\<lambda>x y. (fst x - fst y, snd x - snd y)),
      std_cdiv = (\<lambda>x y. x),
      std_csmul = (\<lambda>r z. (r * fst z, r * snd z)),
      std_csdiv = (\<lambda>r z. (r, 0))\<rparr>"

lemma fixed_api_bits_ok: "float_bits_ok fixed_api"
  by (auto simp: float_bits_ok_def fixed_api_def)

section \<open>Tensors of bytes\<close>

definition i8 :: "int \<Rightarrow> 'f Element" where
  "i8 v = mkElement (IntegerType Signless 8) (VInt (ApInt 8 v))"

definition i8_type :: "Sizes \<Rightarrow> ShapedType" where
  "i8_type shape = \<lparr>getShape = shape, getElementType = IntegerType Signless 8\<rparr>"

definition i8_tensor :: "Sizes \<Rightarrow> int list \<Rightarrow> Tensor" where
  "i8_tensor shape data = \<lparr>t_type = i8_type shape, t_data = map Some data\<rparr>"

definition byte_tensor_ok :: "Sizes \<Rightarrow> int list \<Rightarrow> bool" where
  "byte_tensor_ok shape data \<longleftrightarrow>
     list_all (\<lambda>d. 0 \<le> d) shape \<and> int (length data) = prod_list shape \<and> list_all (\<lambda>b. 0 \<le> b \<and> b < 256) data"

lemma i8_shape [simp]: "t_shape (i8_tensor shape data) = shape"
  by (simp add: i8_tensor_def i8_type_def)

lemma i8_elementType [simp]: "t_elementType (i8_tensor shape data) = IntegerType Signless 8"
  by (simp add: i8_tensor_def i8_type_def)

lemma i8_type_simps [simp]: "getShape (i8_type shape) = shape" "getElementType (i8_type shape) = IntegerType Signless 8"
  by (simp_all add: i8_type_def)

lemma i8_storable:
  assumes "0 \<le> b" "b < 256"
  shows "storable F (IntegerType Signless 8) (i8 b)" "element_of_bytes F (IntegerType Signless 8) [b] = Inr (i8 b)"
proof -
  have "isSupportedIntegerType (IntegerType Signless 8)" by (simp add: supported_IntegerType)
  then have wf: "wf_element F (i8 b)"
    using assms by (simp add: wf_element_def i8_def wf_apint_def)
  from storable_int [OF this] show "storable F (IntegerType Signless 8) (i8 b)" by (simp add: i8_def)
  show "element_of_bytes F (IntegerType Signless 8) [b] = Inr (i8 b)"
    using assms \<open>isSupportedIntegerType _\<close>
    by (simp add: element_of_bytes_def Element_int_def i8_def mkAPInt_def take_bit_eq_mod)
qed

lemma i8_denotes:
  assumes "byte_tensor_ok shape data"
  shows "denotes F (i8_tensor shape data) (\<lambda>i. i8 (data ! nat (flat shape i)))"
proof -
  have len: "length data = nat (prod_list shape)" and sh: "list_all (\<lambda>d. 0 \<le> d) shape"
    and bytes: "\<And>k. k < length data \<Longrightarrow> 0 \<le> data ! k \<and> data ! k < 256"
    using assms by (auto simp: byte_tensor_ok_def list_all_length)
  have wf: "wf_tensor (i8_tensor shape data)"
    using len sh by (simp add: wf_tensor_def i8_tensor_def i8_type_def getNumElements_def)
  have "Tensor_get F (i8_tensor shape data) i = Inr (i8 (data ! nat (flat shape i))) \<and>
      storable F (IntegerType Signless 8) (i8 (data ! nat (flat shape i)))" if i: "inBounds i shape" for i
  proof -
    have k: "nat (flat shape i) < length data" using flat_bounds [OF i] len by simp
    have "take (Suc 0) (drop (nat (flat shape i)) (map Some data)) = [Some (data ! nat (flat shape i))]"
      using k by (simp add: take_Suc_conv_app_nth drop_map [symmetric] Cons_nth_drop_Suc [symmetric])
    then show ?thesis
      using i8_storable [where F = F] bytes [OF k] i k
      by (simp add: Tensor_get_def i8_tensor_def i8_type_def flattenIndex_flat Let_def)
  qed
  with wf show ?thesis by (simp add: denotes_def)
qed

lemma i8_scalar: "0 \<le> b \<Longrightarrow> b < 256 \<Longrightarrow> evalScalar F (i8_tensor [] [b]) [] = Inr (if b < 128 then b else b - 256)"
  using denotes_get [OF i8_denotes [of "[]" "[b]" F], of "[]"]
  by (simp add: byte_tensor_ok_def evalScalar_def getIntegerValue_def i8_def supported_IntegerType sval_def isNegative_def)

end
