(* ===== verification/Dot_Witness.thy ===== *)
theory Dot_Witness
  imports Dot_Correct Concrete
begin

text \<open>The claims about \<open>dot_general\<close> on two matrices of bytes.\<close>

definition signed_byte :: "int \<Rightarrow> int" where
  "signed_byte b = (if b < 128 then b else b - 256)"

lemma i8_int_el: "0 \<le> b \<Longrightarrow> b < 256 \<Longrightarrow> i8 b = int_el Signless 8 (signed_byte b)"
  by (auto simp: i8_def int_el_def signed_byte_def mkAPInt_def take_bit_eq_mod mod_diff_eq)

lemma signed_byte_range: "0 \<le> b \<Longrightarrow> b < 256 \<Longrightarrow> in_range Signless 8 (signed_byte b)"
  by (auto simp: in_range_def signed_byte_def)

lemma i8_denotes_int:
  assumes "byte_tensor_ok shape data"
  shows "denotes_int F (i8_tensor shape data) Signless 8 (\<lambda>i. signed_byte (data ! nat (flat shape i)))"
proof -
  have b: "0 \<le> data ! nat (flat shape i) \<and> data ! nat (flat shape i) < 256" if "inBounds i shape" for i
    using assms flat_bounds [OF that] by (auto simp: byte_tensor_ok_def list_all_length)
  have "denotes F (i8_tensor shape data) (\<lambda>i. int_el Signless 8 (signed_byte (data ! nat (flat shape i))))"
    by (rule denotes_cong [OF i8_denotes [OF assms]]) (simp add: b i8_int_el)
  with b show ?thesis by (simp add: denotes_int_def supported_IntegerType signed_byte_range)
qed

definition left_matrix :: Tensor where "left_matrix = i8_tensor [2, 2] [1, 2, 3, 252]"

definition right_matrix :: Tensor where "right_matrix = i8_tensor [2, 2] [5, 6, 7, 8]"

lemma matrices_infer:
  "inferDotGeneralOp (as_ranked (t_type left_matrix)) (as_ranked (t_type right_matrix)) [] [] [1] [0] = Inr ([2, 2], NoEncoding)"
  by code_simp

lemma matrices_denote:
  "denotes_int fixed_api left_matrix Signless 8 (\<lambda>i. signed_byte ([1, 2, 3, 252] ! nat (flat [2, 2] i)))"
  "denotes_int fixed_api right_matrix Signless 8 (\<lambda>i. signed_byte ([5, 6, 7, 8] ! nat (flat [2, 2] i)))"
  unfolding left_matrix_def right_matrix_def by (simp_all add: i8_denotes_int byte_tensor_ok_def)

lemma dot_general_integer_witness:
  "\<exists>r. dotGeneralOp fixed_api left_matrix right_matrix [] [] [1] [0] (i8_type [2, 2]) = Inr r \<and>
     Tensor_get fixed_api r [1, 0] = Inr (int_el Signless 8 (3 * 5 + (- 4) * 7))"
proof -
  have sum: "dot_sum left_matrix right_matrix [] [] [1] [0] (\<lambda>i. signed_byte ([1, 2, 3, 252] ! nat (flat [2, 2] i)))
      (\<lambda>i. signed_byte ([5, 6, 7, 8] ! nat (flat [2, 2] i))) [1, 0] = 3 * 5 + (- 4) * 7"
    by code_simp
  have "isSupportedIntegerType (IntegerType Signless 8)" by (simp add: supported_IntegerType)
  from dot_general_integer [OF matrices_denote this matrices_infer]
  obtain r where "dotGeneralOp fixed_api left_matrix right_matrix [] [] [1] [0] (i8_type [2, 2]) = Inr r" "t_shape r = [2, 2]"
    "denotes fixed_api r (\<lambda>i. int_el Signless 8 (dot_sum left_matrix right_matrix [] [] [1] [0]
       (\<lambda>i. signed_byte ([1, 2, 3, 252] ! nat (flat [2, 2] i))) (\<lambda>i. signed_byte ([5, 6, 7, 8] ! nat (flat [2, 2] i))) i))"
    by (auto simp: left_matrix_def i8_type_def)
  then show ?thesis using denotes_get [of fixed_api r _ "[1, 0]"] sum by auto
qed

definition no_columns :: Tensor where "no_columns = i8_tensor [2, 0] []"

definition no_rows :: Tensor where "no_rows = i8_tensor [0, 3] []"

lemma empty_infer:
  "inferDotGeneralOp (as_ranked (t_type no_columns)) (as_ranked (t_type no_rows)) [] [] [1] [0] = Inr ([2, 3], NoEncoding)"
  by code_simp

lemma empty_denote:
  "denotes_int fixed_api no_columns Signless 8 (\<lambda>i. signed_byte ([] ! nat (flat [2, 0] i)))"
  "denotes_int fixed_api no_rows Signless 8 (\<lambda>i. signed_byte ([] ! nat (flat [0, 3] i)))"
  unfolding no_columns_def no_rows_def by (simp_all add: i8_denotes_int byte_tensor_ok_def)

lemma dot_general_empty_contraction_witness:
  "dotGeneralOp fixed_api no_columns no_rows [] [] [1] [0] (i8_type [2, 3]) =
     Inl (Fatal ''Incompatible index and shape found while flattening index'')"
proof -
  have "isSupportedIntegerType (IntegerType Signless 8)" by (simp add: supported_IntegerType)
  from dot_general_empty_contraction [OF empty_denote this empty_infer, of 1]
  show ?thesis by (simp add: no_columns_def i8_type_def)
qed

end
