(* ===== verification/Dynamic_Slice_Correct.thy ===== *)
theory Dynamic_Slice_Correct
  imports Slice_Correct Dot_Correct
begin

text \<open>
  Slices at computed positions, in terms of the integers that the start indices hold. The interpreter reads the bits of a start index as
  a signed number, whatever its type: an unsigned index is read as what it is only while its top bit is clear.
\<close>

section \<open>Start indices\<close>

definition start_values :: "('f, 'd) float_api \<Rightarrow> Tensor list \<Rightarrow> int list \<Rightarrow> bool" where
  "start_values F ts vs \<longleftrightarrow>
     list_all2 (\<lambda>t v. t_shape t = [] \<and> (\<exists>s w. denotes_int F t s w (\<lambda>_. v) \<and> (s = Unsigned \<longrightarrow> v < 2 ^ (w - 1)))) ts vs"


lemma integer_scalar_read:
  assumes "denotes_int F t s w (\<lambda>_. v)" "t_shape t = []"
  shows "evalScalar F t [] = Inr (sval (mkAPInt w v))" "in_range s w v" "2 \<le> w"
proof -
  have d: "denotes F t (\<lambda>_. int_el s w v)" "isSupportedIntegerType (IntegerType s w)" using assms(1) by (simp_all add: denotes_int_def)
  show "evalScalar F t [] = Inr (sval (mkAPInt w v))"
    using denotes_get [OF d(1), of "[]"] assms(2) d(2) by (simp add: evalScalar_def)
  show "in_range s w v" using assms by (simp add: denotes_int_def)
  show "2 \<le> w" using d(2) by (rule supported_width_pos)
qed

lemma start_values_read: "start_values F ts vs \<Longrightarrow> scalars_hold F ts vs"
  unfolding start_values_def scalars_hold_def
proof (erule list.rel_mono_strong)
  fix t v
  assume "t_shape t = [] \<and> (\<exists>s w. denotes_int F t s w (\<lambda>_. v) \<and> (s = Unsigned \<longrightarrow> v < 2 ^ (w - 1)))"
  then obtain s w where t: "t_shape t = []" "denotes_int F t s w (\<lambda>_. v)" "s = Unsigned \<longrightarrow> v < 2 ^ (w - 1)" by blast
  note r = integer_scalar_read [OF t(2,1)]
  have "in_range Signless w v" using r(2) t(3) order_trans [of "- (2 ^ (w - 1))" 0 v] by (auto simp: in_range_def split: if_splits)
  then have "sval (mkAPInt w v) = v" using r(3) by (intro sval_in_range [of Signless]) simp_all
  then show "evalScalar F t [] = Inr v" using r(1) by simp
qed


section \<open>Dynamic slices\<close>

text \<open>
  C11: \<open>dynamic_slice\<close> is sound for its shape function: for an accepted static operand and start indices that hold the integers \<open>vs\<close>, of a
  signed type or of an unsigned type with the top bit clear, it returns a tensor of the slice sizes whose element at \<open>i\<close> is the
  operand's element at the clamped start plus \<open>i\<close>. Unsigned indices with the top bit set are left out: see
  \<open>unsigned_start_read_as_negative\<close>.
\<close>

theorem dynamic_slice_sound:
  assumes "denotes F operand f" "start_values F startIndices vs"
    and "inferDynamicSliceOp (t_type operand) (map t_elementType startIndices) sizes = Inr rt"
  shows "\<exists>r. dynamicSliceOp F operand startIndices sizes rt = Inr r \<and> t_type r = rt \<and> getShape rt = sizes \<and>
    denotes F r (\<lambda>i. f (map2 (+) (clamped_start vs (t_shape operand) sizes) i))"
  using dynamic_slice_denotes [OF assms(1) start_values_read [OF assms(2)] assms(3)] .

text \<open>
  C12: \<open>dynamic_update_slice\<close> is sound for its shape function: the result has the operand's type, the update at the clamped start and
  the operand everywhere else, for start indices of a signed type or of an unsigned type with the top bit clear.
\<close>

theorem dynamic_update_slice_sound:
  assumes "denotes F operand f" "denotes F update g" "start_values F startIndices vs"
    and "t_elementType update = t_elementType operand"
    and "inferDynamicUpdateSliceOp (as_ranked (t_type operand)) (t_type update) (map t_elementType startIndices) = Inr rt"
  shows "\<exists>r. dynamicUpdateSliceOp F operand update startIndices (as_shaped rt) = Inr r \<and>
    t_type r = t_type operand \<and>
    denotes F r (\<lambda>i. let j = map2 (-) i (clamped_start vs (t_shape operand) (t_shape update)) in
                     if inBounds j (t_shape update) then g j else f i)"
  using dynamic_update_slice_denotes [OF assms(1,2) start_values_read [OF assms(3)] assms(4,5)] .


end
