(* ===== verification/Structural_Witness.thy ===== *)
theory Structural_Witness
  imports Dot_Witness Dynamic_Slice_Correct
begin

text \<open>The theorems on the structural operations, applied to small tensors.\<close>

lemmas eval_infer = as_ranked_def mkRankedTensorType_def rt_rank_def upto_int_def as_shaped_def upto.simps
  isDynamicDimSize_def isStaticDimSize_def kDynamic_def boundsToEncoding_def vec_nth_def vec_set_def Let_def

lemmas eval_denotes = flat.simps prod_list.Cons

text \<open>A slice of every second element.\<close>

theorem slice_sound_witness:
  "\<exists>r. sliceOp_limit fixed_api (i8_tensor [5] [10, 20, 30, 40, 50]) [1] [5] [2] = Inr r \<and>
     t_shape r = [2] \<and> Tensor_get fixed_api r [1] = Inr (i8 40)"
proof -
  let ?t = "i8_tensor [5] [10, 20, 30, 40, 50]"
  have d: "denotes fixed_api ?t (\<lambda>i. i8 ([10, 20, 30, 40, 50] ! nat (flat [5] i)))"
    by (rule i8_denotes) (simp add: byte_tensor_ok_def)
  have i: "inferSliceOp (as_ranked (t_type ?t)) [1] [5] [2] =
      Inr (mkRankedTensorType [2] (IntegerType Signless 8) NoEncoding)"
    by (simp add: inferSliceOp_def slice_dim_def divideCeil_def eval_infer)
  from slice_sound [OF d i] obtain r where r: "sliceOp_limit fixed_api ?t [1] [5] [2] = Inr r"
    "t_shape r = [2]" "denotes fixed_api r (\<lambda>i. i8 ([10, 20, 30, 40, 50] ! nat (flat [5] (map2 (+) [1] (map2 (*) i [2])))))"
    by (auto simp: divideCeil_def)
  with denotes_get [OF r(3), of "[1]"] show ?thesis by auto
qed

text \<open>Start indices of one byte.\<close>

lemma i8_start_value: "0 \<le> b \<Longrightarrow> b < 256 \<Longrightarrow> start_values F [i8_tensor [] [b]] [signed_byte b]"
proof -
  assume b: "0 \<le> b" "b < 256"
  then have d: "denotes_int F (i8_tensor [] [b]) Signless 8 (\<lambda>i. signed_byte ([b] ! nat (flat [] i)))"
    by (intro i8_denotes_int) (simp add: byte_tensor_ok_def)
  then have "denotes F (i8_tensor [] [b]) (\<lambda>_. int_el Signless 8 (signed_byte b))"
    unfolding denotes_int_def by (auto elim!: denotes_cong)
  then have "denotes_int F (i8_tensor [] [b]) Signless 8 (\<lambda>_. signed_byte b)"
    using d by (simp add: denotes_int_def signed_byte_range b)
  then show ?thesis unfolding start_values_def by fastforce
qed



text \<open>A dynamic slice whose start index 120 is clamped to 3.\<close>

theorem dynamic_slice_sound_witness:
  "\<exists>r. dynamicSliceOp fixed_api (i8_tensor [5] [10, 20, 30, 40, 50]) [i8_tensor [] [120]] [2] (i8_type [2]) = Inr r \<and>
     Tensor_get fixed_api r [0] = Inr (i8 40)"
proof -
  let ?t = "i8_tensor [5] [10, 20, 30, 40, 50]"
  have d: "denotes fixed_api ?t (\<lambda>i. i8 ([10, 20, 30, 40, 50] ! nat (flat [5] i)))"
    by (rule i8_denotes) (simp add: byte_tensor_ok_def)
  have s: "start_values fixed_api [i8_tensor [] [120]] [120]" using i8_start_value [of 120 fixed_api] by (simp add: signed_byte_def)
  have i: "inferDynamicSliceOp (t_type ?t) (map t_elementType [i8_tensor [] [120]]) [2] = Inr (i8_type [2])"
    by (simp add: inferDynamicSliceOp_def rt_rank_def tensorsHaveSameElType_def i8_type_def)
  from dynamic_slice_sound [OF d s i] obtain r where r:
    "dynamicSliceOp fixed_api ?t [i8_tensor [] [120]] [2] (i8_type [2]) = Inr r" "t_type r = i8_type [2]"
    "denotes fixed_api r (\<lambda>i. i8 ([10, 20, 30, 40, 50] ! nat (flat [5] (map2 (+) (clamped_start [120] [5] [2]) i))))"
    by auto
  with denotes_get [OF r(3), of "[0]"] show ?thesis by (auto simp: clamped_start_def)
qed

text \<open>An update at a negative start index, which is clamped to 0.\<close>

theorem dynamic_update_slice_sound_witness:
  "\<exists>r. dynamicUpdateSliceOp fixed_api (i8_tensor [4] [1, 2, 3, 4]) (i8_tensor [2] [7, 8]) [i8_tensor [] [255]] (i8_type [4]) = Inr r \<and>
     Tensor_get fixed_api r [1] = Inr (i8 8) \<and> Tensor_get fixed_api r [2] = Inr (i8 3)"
proof -
  let ?t = "i8_tensor [4] [1, 2, 3, 4]" and ?u = "i8_tensor [2] [7, 8]"
  have d: "denotes fixed_api ?t (\<lambda>i. i8 ([1, 2, 3, 4] ! nat (flat [4] i)))"
    and u: "denotes fixed_api ?u (\<lambda>i. i8 ([7, 8] ! nat (flat [2] i)))"
    by (rule i8_denotes, simp add: byte_tensor_ok_def)+
  have s: "start_values fixed_api [i8_tensor [] [255]] [- 1]" using i8_start_value [of 255 fixed_api] by (simp add: signed_byte_def)
  have i: "inferDynamicUpdateSliceOp (as_ranked (t_type ?t)) (t_type ?u) (map t_elementType [i8_tensor [] [255]]) =
      Inr (mkRankedTensorType [4] (IntegerType Signless 8) NoEncoding)"
    by (simp add: inferDynamicUpdateSliceOp_def tensorsHaveSameElType_def eval_infer)
  from dynamic_update_slice_sound [OF d u s _ i] obtain r where r:
    "dynamicUpdateSliceOp fixed_api ?t ?u [i8_tensor [] [255]] (i8_type [4]) = Inr r" "t_type r = t_type ?t"
    "denotes fixed_api r (\<lambda>i. let j = map2 (-) i (clamped_start [- 1] [4] [2]) in
       if inBounds j [2] then i8 ([7, 8] ! nat (flat [2] j)) else i8 ([1, 2, 3, 4] ! nat (flat [4] i)))"
    by (auto simp: as_shaped_def mkRankedTensorType_def i8_type_def)
  with denotes_get [OF r(3), of "[1]"] denotes_get [OF r(3), of "[2]"] show ?thesis
    by (auto simp: clamped_start_def)
qed


text \<open>Interior padding, with a negative low edge that removes the first element.\<close>

theorem pad_sound_witness:
  "\<exists>r. padOp_high fixed_api (i8_tensor [3] [1, 2, 3]) (i8_tensor [] [9]) [- 1] [0] [1] = Inr r \<and>
     t_shape r = [4] \<and> Tensor_get fixed_api r [0] = Inr (i8 9) \<and> Tensor_get fixed_api r [1] = Inr (i8 2)"
proof -
  let ?t = "i8_tensor [3] [1, 2, 3]"
  have d: "denotes fixed_api ?t (\<lambda>i. i8 ([1, 2, 3] ! nat (flat [3] i)))"
    and p: "denotes fixed_api (i8_tensor [] [9]) (\<lambda>i. i8 ([9] ! nat (flat [] i)))"
    by (rule i8_denotes, simp add: byte_tensor_ok_def)+
  have i: "inferPadOp (as_ranked (t_type ?t)) [- 1] [0] [1] =
      Inr (mkRankedTensorType [4] (IntegerType Signless 8) NoEncoding)"
    by (simp add: inferPadOp_def pad_dim_def eval_infer)
  have g: "Tensor_get fixed_api (i8_tensor [] [9]) [] = Inr (i8 9)" using denotes_get [OF p, of "[]"] by simp
  have st: "storable fixed_api (t_elementType ?t) (i8 9)" by (simp add: i8_storable)
  from pad_sound [OF d g st i] obtain r where r:
    "padOp_high fixed_api ?t (i8_tensor [] [9]) [- 1] [0] [1] = Inr r" "t_shape r = [4]"
    "denotes fixed_api r (padded [3] [- 1] [1] (\<lambda>i. i8 ([1, 2, 3] ! nat (flat [3] i))) (i8 9))"
    by (auto simp: as_shaped_def mkRankedTensorType_def)
  with denotes_get [OF r(3), of "[0]"] denotes_get [OF r(3), of "[1]"] show ?thesis
    by (auto simp: padded_def pad_position_def upto_int_def upto.simps)
qed

text \<open>The transpose of a 2x3 matrix.\<close>

theorem transpose_sound_witness:
  "\<exists>r. transposeOp fixed_api (i8_tensor [2, 3] [1, 2, 3, 4, 5, 6]) [1, 0] (i8_type [3, 2]) = Inr r \<and>
     Tensor_get fixed_api r [2, 0] = Inr (i8 3)"
proof -
  let ?t = "i8_tensor [2, 3] [1, 2, 3, 4, 5, 6]"
  have d: "denotes fixed_api ?t (\<lambda>i. i8 ([1, 2, 3, 4, 5, 6] ! nat (flat [2, 3] i)))"
    by (rule i8_denotes) (simp add: byte_tensor_ok_def)
  have i: "inferTransposeOp (as_ranked (t_type ?t)) [1, 0] =
      Inr (mkRankedTensorType [3, 2] (IntegerType Signless 8) NoEncoding)"
    by (simp add: inferTransposeOp_def is_permutation_def eval_infer)
  from transpose_sound [OF d i] obtain r where r: "transposeOp fixed_api ?t [1, 0] (i8_type [3, 2]) = Inr r"
    "t_shape r = [3, 2]" "denotes fixed_api r (\<lambda>j. i8 ([1, 2, 3, 4, 5, 6] ! nat (flat [2, 3] (unpermute [1, 0] j))))"
    by (auto simp: as_shaped_def mkRankedTensorType_def i8_type_def permuted_def)
  with denotes_get [OF r(3), of "[2, 0]"] show ?thesis
    by (auto simp: unpermute_def upto_int_def upto.simps)
qed

theorem reverse_sound_witness:
  "\<exists>r. reverseOp fixed_api (i8_tensor [2, 2] [1, 2, 3, 4]) [1] (t_type (i8_tensor [2, 2] [1, 2, 3, 4])) = Inr r \<and>
     Tensor_get fixed_api r [0, 0] = Inr (i8 2)"
proof -
  let ?t = "i8_tensor [2, 2] [1, 2, 3, 4]"
  have d: "denotes fixed_api ?t (\<lambda>i. i8 ([1, 2, 3, 4] ! nat (flat [2, 2] i)))"
    by (rule i8_denotes) (simp add: byte_tensor_ok_def)
  have v: "verifyReverseOp (t_type ?t) [1] = Inr ()" by (simp add: verifyReverseOp_def rt_rank_def)
  from reverse_sound [OF d v] obtain r where r: "reverseOp fixed_api ?t [1] (t_type ?t) = Inr r" "t_type r = t_type ?t"
    "denotes fixed_api r (\<lambda>i. i8 ([1, 2, 3, 4] ! nat (flat [2, 2] (reversed [2, 2] [1] i))))" by auto
  with denotes_get [OF r(3), of "[0, 0]"] show ?thesis by (auto simp: reversed_def)
qed

text \<open>A row of two elements copied to two rows.\<close>

theorem broadcast_in_dim_sound_witness:
  "\<exists>r. broadcastInDimOp fixed_api (i8_tensor [1, 2] [5, 6]) [0, 1] (i8_type [3, 2]) = Inr r \<and>
     Tensor_get fixed_api r [2, 1] = Inr (i8 6)"
proof -
  let ?t = "i8_tensor [1, 2] [5, 6]"
  have d: "denotes fixed_api ?t (\<lambda>i. i8 ([5, 6] ! nat (flat [1, 2] i)))"
    by (rule i8_denotes) (simp add: byte_tensor_ok_def)
  have v: "verifyBroadcastInDimOp (as_ranked (t_type ?t)) [0, 1] (as_ranked (i8_type [3, 2])) = Inr ()"
    by (simp add: verifyBroadcastInDimOp_def verifyQPerTensorScaleAndZeroPointConstraints_def isUnique_def eval_infer)
  from broadcast_in_dim_sound [OF d v] obtain r where r:
    "broadcastInDimOp fixed_api ?t [0, 1] (i8_type [3, 2]) = Inr r" "t_type r = i8_type [3, 2]"
    "denotes fixed_api r (\<lambda>i. i8 ([5, 6] ! nat (flat [1, 2] (broadcast_index [1, 2] [0, 1] i))))" by auto
  with denotes_get [OF r(3), of "[2, 1]"] show ?thesis by (auto simp: broadcast_index_def)
qed

theorem reshape_sound_witness:
  "\<exists>r. reshapeOp fixed_api (i8_tensor [2, 2] [1, 2, 3, 4]) (i8_type [4]) = Inr r \<and>
     Tensor_get fixed_api r [2] = Inr (i8 3)"
proof -
  let ?t = "i8_tensor [2, 2] [1, 2, 3, 4]"
  have d: "denotes fixed_api ?t (\<lambda>i. i8 ([1, 2, 3, 4] ! nat (flat [2, 2] i)))"
    by (rule i8_denotes) (simp add: byte_tensor_ok_def)
  have v: "verifyReshapeOp (as_ranked (t_type ?t)) (as_ranked (i8_type [4])) = Inr ()"
    by (simp add: verifyReshapeOp_def eval_infer)
  from reshape_sound [OF d v] obtain r where r: "reshapeOp fixed_api ?t (i8_type [4]) = Inr r" "t_type r = i8_type [4]"
    "denotes fixed_api r (\<lambda>j. i8 ([1, 2, 3, 4] ! nat (flat [2, 2] (index_space [2, 2] ! nat (flat [4] j)))))" by auto
  have "index_space [2, 2] = [[0, 0], [0, 1], [1, 0], [1, 1]]" by (simp add: upto_int_def upto.simps)
  with r denotes_get [OF r(3), of "[2]"] show ?thesis by (auto simp: numeral_2_eq_2)
qed

text \<open>Two columns and one column side by side.\<close>

theorem concatenate_sound_witness:
  "\<exists>r. concatenateOp fixed_api [i8_tensor [2, 2] [1, 2, 3, 4], i8_tensor [2, 1] [5, 6]] 1 (i8_type [2, 3]) = Inr r \<and>
     Tensor_get fixed_api r [1, 1] = Inr (i8 4) \<and> Tensor_get fixed_api r [1, 2] = Inr (i8 6)"
proof -
  let ?t = "i8_tensor [2, 2] [1, 2, 3, 4]" and ?u = "i8_tensor [2, 1] [5, 6]"
  let ?f = "\<lambda>i. i8 ([1, 2, 3, 4] ! nat (flat [2, 2] i))" and ?g = "\<lambda>i. i8 ([5, 6] ! nat (flat [2, 1] i))"
  have d: "list_all2 (denotes fixed_api) [?t, ?u] [?f, ?g]"
    by (simp add: i8_denotes byte_tensor_ok_def)
  have i: "inferConcatenateOp (map (\<lambda>t. as_ranked (t_type t)) [?t, ?u]) 1 =
      Inr (mkRankedTensorType [2, 3] (IntegerType Signless 8) NoEncoding)"
    by (simp add: inferConcatenateOp_def checkConcatenateInput_def verifyCompatibleDims_def merge_type_def concatenate_dim_def
        inferConcatenatedDimAndBound_def inferMostSpecificDimAndBound_def first_encoding_def eval_infer numeral_2_eq_2)
  from concatenate_sound [OF d i] obtain r where r: "concatenateOp fixed_api [?t, ?u] 1 (i8_type [2, 3]) = Inr r"
    "t_type r = i8_type [2, 3]" "denotes fixed_api r (concatenated 1 [2, 1] [?f, ?g])"
    by (auto simp: as_shaped_def mkRankedTensorType_def i8_type_def)
  with denotes_get [OF r(3), of "[1, 1]"] denotes_get [OF r(3), of "[1, 2]"] show ?thesis
    by (auto simp: concatenated_def numeral_2_eq_2 numeral_3_eq_3)
qed

end
