(* ===== verification/Element_Witness.thy ===== *)
theory Element_Witness
  imports Concrete
begin

text \<open>The theorems on elements and on tensor storage, applied to concrete values.\<close>

lemma i8_supported: "isSupportedIntegerType (IntegerType Signless 8)" "isSupportedIntegerType (IntegerType Unsigned 16)"
  "isSupportedIntegerType (IntegerType Signless 16)"
  by (simp_all add: supported_IntegerType)

lemma i8_wf_element: "0 \<le> b \<Longrightarrow> b < 256 \<Longrightarrow> wf_element F (i8 b)"
  using i8_supported by (simp add: wf_element_def i8_def wf_apint_def)

text \<open>100 + 100 wraps to -56 in eight bits.\<close>

theorem integer_arithmetic_modular_witness:
  "el_add fixed_api (int_el Signless 8 100) (int_el Signless 8 100) = Inr (int_el Signless 8 200) \<and>
   (int_el Signless 8 200 :: (FloatFormat \<times> apint) Element) = int_el Signless 8 (- 56)"
  using integer_arithmetic_modular [OF i8_supported(1), of fixed_api 100 100]
  by (simp add: int_el_def mkAPInt_def take_bit_eq_mod)

theorem power_correct_witness:
  "el_power fixed_api (int_el Signless 8 3) (int_el Signless 8 4) = Inr (int_el Signless 8 81) \<and>
   el_power fixed_api (int_el Signless 8 (- 1)) (int_el Signless 8 (- 3)) = Inr (int_el Signless 8 (- 1))"
  using power_correct [OF i8_supported(1), of 3 4 fixed_api] power_correct [OF i8_supported(1), of "- 1" "- 3" fixed_api]
  by (simp add: in_range_def)

theorem integer_comparisons_witness:
  "el_lt fixed_api (int_el Signless 8 (- 1)) (int_el Signless 8 1) = Inr (bool_el True)"
  using integer_comparisons [OF i8_supported(1), of "- 1" 1 fixed_api] by (simp add: in_range_def)

theorem integer_convert_witness:
  "convert_Element fixed_api (IntegerType Unsigned 16) (int_el Signless 8 (- 1)) = Inr (int_el Unsigned 16 (- 1)) \<and>
   (int_el Unsigned 16 (- 1) :: (FloatFormat \<times> apint) Element) = int_el Unsigned 16 65535"
  using integer_convert [OF i8_supported(1,2), of "- 1" fixed_api]
  by (simp add: in_range_def int_el_def mkAPInt_def take_bit_eq_mod)

theorem bitcast_round_trip_witness:
  "\<exists>es. bitcastConvertOneToMany fixed_api (IntegerType Signless 8) (int_el Signless 16 513) = Inr es \<and>
     length es = 2 \<and> bitcastConvertManyToOne fixed_api (IntegerType Signless 16) es = Inr (int_el Signless 16 513)"
proof -
  have wf: "wf_element fixed_api (int_el Signless 16 513)"
    using i8_supported(3) by (simp add: wf_element_def)
  from bitcast_round_trip [OF wf fixed_api_bits_ok i8_supported(1), of 16] show ?thesis by simp
qed

lemma i8_wf_tensor: "byte_tensor_ok shape data \<Longrightarrow> wf_tensor (i8_tensor shape data)"
  using denotes_wf [OF i8_denotes] by blast

theorem tensor_set_get_witness:
  "\<exists>t. Tensor_set fixed_api (i8_tensor [2] [1, 2]) [1] (i8 7) = Inr t \<and> Tensor_get fixed_api t [1] = Inr (i8 7) \<and>
     Tensor_get fixed_api t [0] = Tensor_get fixed_api (i8_tensor [2] [1, 2]) [0]"
  using tensor_set_get [OF i8_wf_tensor [of "[2]" "[1, 2]"] _ i8_wf_element _ fixed_api_bits_ok, of "[1]" 7]
  by (force simp: byte_tensor_ok_def i8_def)

theorem tensor_access_out_of_bounds_witness:
  "Tensor_get fixed_api (i8_tensor [2] [1, 2]) [2] = Inl (Fatal ''Incompatible index and shape found while flattening index'')"
  using tensor_access_out_of_bounds [OF i8_wf_tensor [of "[2]" "[1, 2]"], of "[2]" fixed_api] by (simp add: byte_tensor_ok_def)

end
