(* ===== verification/Process_Grid.thy ===== *)
theory Process_Grid
  imports Prelude
begin

text \<open>
  \<^verbatim>\<open>stablehlo/reference/ProcessGrid.{h,cpp}\<close>: process identifiers and groups, the communication strategies, the
  queues of \<open>infeed\<close> and \<open>outfeed\<close>, and the two blocking protocols, \<open>rendezvous\<close> and \<open>send\<close>/\<open>recv\<close>. What a process does while it
  holds the mutex of a channel is one step; a step ends where the source releases the mutex, that is, when the
  process starts to wait or returns. A wait that lasts longer than its three seconds is a step to a fatal error. Tensors
  are a type variable here.
\<close>

section \<open>Process identifiers\<close>

datatype ProcessId = ProcessId (replicaId: nat) (partitionId: nat)

instantiation ProcessId :: linorder
begin

definition less_ProcessId :: "ProcessId \<Rightarrow> ProcessId \<Rightarrow> bool" where
  "less_ProcessId x y \<longleftrightarrow>
     replicaId x < replicaId y \<or> replicaId x = replicaId y \<and> partitionId x < partitionId y"

definition less_eq_ProcessId :: "ProcessId \<Rightarrow> ProcessId \<Rightarrow> bool" where
  "less_eq_ProcessId x y \<longleftrightarrow> x < y \<or> x = (y :: ProcessId)"

instance
proof
  fix x y :: ProcessId
  show "x \<le> y \<or> y \<le> x"
    by (cases x; cases y) (auto simp: less_ProcessId_def less_eq_ProcessId_def)
qed (auto simp: less_ProcessId_def less_eq_ProcessId_def)

end

type_synonym ProcessGroup = "ProcessId list"
type_synonym ProcessGroups = "ProcessGroup list"

fun findGroup :: "ProcessGroups \<Rightarrow> ProcessId \<Rightarrow> ProcessGroup option" where
  "findGroup [] processId = None"
| "findGroup (processGroup # rest) processId =
     (if processId \<in> set processGroup then Some processGroup else findGroup rest processId)"

section \<open>Communication strategies\<close>

definition crossPartition :: "nat \<Rightarrow> nat list list \<Rightarrow> ProcessGroups" where
  "crossPartition numReplicas partitionGroups =
     concat (map (\<lambda>partitionGroup. map (\<lambda>replica. map (ProcessId replica) partitionGroup) [0..<numReplicas]) partitionGroups)"

definition crossReplica :: "nat \<Rightarrow> nat list list \<Rightarrow> ProcessGroups" where
  "crossReplica numPartitions replicaGroups =
     concat (map (\<lambda>replicaGroup. map (\<lambda>partition. map (\<lambda>replica. ProcessId replica partition) replicaGroup)
       [0..<numPartitions]) replicaGroups)"

definition crossReplicaAndPartition :: "nat \<Rightarrow> nat list list \<Rightarrow> ProcessGroups" where
  "crossReplicaAndPartition numPartitions replicaGroups =
     map (\<lambda>replicaGroup. concat (map (\<lambda>partition. map (\<lambda>replica. ProcessId replica partition) replicaGroup)
       [0..<numPartitions])) replicaGroups"

definition flattenedIds :: "nat \<Rightarrow> nat list list \<Rightarrow> ProcessGroups result" where
  "flattenedIds numPartitions flattenedIdGroups =
     (if numPartitions = 0 \<and> concat flattenedIdGroups \<noteq> [] then Inl (UB ''division by zero'')
      else Inr (map (map (\<lambda>flattenedId. ProcessId (flattenedId div numPartitions) (flattenedId mod numPartitions)))
             flattenedIdGroups))"

section \<open>Rendezvous results\<close>

text \<open>The \<^verbatim>\<open>std::map\<close> from process identifiers: an association list sorted by its keys.\<close>

type_synonym 'v RendezvousResult = "(ProcessId \<times> 'v list) list"

fun results_insert :: "ProcessId \<Rightarrow> 'v list \<Rightarrow> 'v RendezvousResult \<Rightarrow> 'v RendezvousResult" where
  "results_insert processId tensors [] = [(processId, tensors)]"
| "results_insert processId tensors ((k, v) # rest) =
     (if processId < k then (processId, tensors) # (k, v) # rest
      else if processId = k then (processId, tensors) # rest
      else (k, v) # results_insert processId tensors rest)"

definition results_lookup :: "'v RendezvousResult \<Rightarrow> ProcessId \<Rightarrow> 'v list" where
  "results_lookup results processId = (case map_of results processId of Some v \<Rightarrow> v | None \<Rightarrow> [])"

definition getSortedTensors :: "'v RendezvousResult \<Rightarrow> 'v list list" where
  "getSortedTensors results = map snd results"

text \<open>\<^verbatim>\<open>results_.begin()->second\<close> of an empty map is undefined.\<close>

definition hasMatchingOperandsCount :: "'v RendezvousResult \<Rightarrow> bool result" where
  "hasMatchingOperandsCount results =
     (case results of
        [] \<Rightarrow> Inl (UB ''dereference of the end of a map'')
      | (_, first) # _ \<Rightarrow> Inr (list_all (\<lambda>(_, v). length first = length v) results))"

section \<open>Rendezvous\<close>

record 'v RendezvousState =
  rs_values :: "'v RendezvousResult"
  rs_useCount :: nat
  rs_result :: "'v RendezvousResult"

definition RendezvousState_init :: "'v RendezvousState" where
  "RendezvousState_init = \<lparr>rs_values = [], rs_useCount = 0, rs_result = []\<rparr>"

text \<open>
  The end of \<open>rendezvous\<close>, after the barrier: the use count drops, the result is checked and returned. The last user
  moves it out of the state, which leaves the state's result empty.
\<close>

definition rendezvous_return ::
  "'v RendezvousState \<Rightarrow> ('v RendezvousState \<times> 'v RendezvousResult) result" where
  "rendezvous_return state =
     (let state' = state\<lparr>rs_useCount := rs_useCount state - 1\<rparr> in
      rbind (hasMatchingOperandsCount (rs_result state')) (\<lambda>matching.
        if \<not> matching then Inl (Fatal ''Mismatched number of operands per process'')
        else Inr (if 0 < rs_useCount state' then state' else state'\<lparr>rs_result := []\<rparr>, rs_result state')))"

datatype 'v Outcome = Waits | Returns "'v RendezvousResult"

text \<open>
  The step of a process that calls \<open>rendezvous\<close>. A group of one process does not use the shared state. In a larger
  group the process contributes its operands, and either waits or, being the last one, publishes the result, wakes the
  others and returns. The assignment \<^verbatim>\<open>state.result = std::move(state.values)\<close> goes through the constructor from a
  constant reference, so \<open>values\<close> keeps its contents.
\<close>

definition rendezvous_call ::
  "ProcessGroup \<Rightarrow> ProcessId \<Rightarrow> 'v list \<Rightarrow> 'v RendezvousState \<Rightarrow> ('v RendezvousState \<times> 'v Outcome) result" where
  "rendezvous_call processGroup processId operands state =
     (if length processGroup = 1 then Inr (state, Returns (results_insert processId operands []))
      else
        let state1 = state\<lparr>rs_values := results_insert processId operands (rs_values state),
                           rs_useCount := rs_useCount state + 1\<rparr> in
        if length (rs_values state1) < length processGroup then Inr (state1, Waits)
        else rbind (rendezvous_return (state1\<lparr>rs_result := rs_values state1\<rparr>)) (\<lambda>(state2, r). Inr (state2, Returns r)))"

text \<open>The condition a waiting process waits for.\<close>

definition rendezvous_ready :: "ProcessGroup \<Rightarrow> 'v RendezvousState \<Rightarrow> bool" where
  "rendezvous_ready processGroup state \<longleftrightarrow> length (rs_values state) = length processGroup"

subsection \<open>Executions\<close>

text \<open>
  The processes of a group that meet on one channel: the shared state, the processes that wait, what has happened so far
  (latest event first) and the fatal error that ended the program.
\<close>

datatype 'v Event = Call ProcessId "'v list" | Return ProcessId "'v RendezvousResult"

record 'v RendezvousSystem =
  sys_state :: "'v RendezvousState"
  sys_waiting :: "ProcessId list"
  sys_log :: "'v Event list"
  sys_failure :: "error option"

definition RendezvousSystem_init :: "'v RendezvousSystem" where
  "RendezvousSystem_init =
     \<lparr>sys_state = RendezvousState_init, sys_waiting = [], sys_log = [], sys_failure = None\<rparr>"

inductive rendezvous_step :: "ProcessGroup \<Rightarrow> 'v RendezvousSystem \<Rightarrow> 'v RendezvousSystem \<Rightarrow> bool"
  for processGroup :: ProcessGroup where
  call_waits:
    "sys_failure s = None \<Longrightarrow> p \<in> set processGroup \<Longrightarrow> p \<notin> set (sys_waiting s) \<Longrightarrow>
     rendezvous_call processGroup p operands (sys_state s) = Inr (st, Waits) \<Longrightarrow>
     rendezvous_step processGroup s
       (s\<lparr>sys_state := st, sys_waiting := p # sys_waiting s, sys_log := Call p operands # sys_log s\<rparr>)"
| call_returns:
    "sys_failure s = None \<Longrightarrow> p \<in> set processGroup \<Longrightarrow> p \<notin> set (sys_waiting s) \<Longrightarrow>
     rendezvous_call processGroup p operands (sys_state s) = Inr (st, Returns r) \<Longrightarrow>
     rendezvous_step processGroup s
       (s\<lparr>sys_state := st, sys_log := Return p r # Call p operands # sys_log s\<rparr>)"
| call_fails:
    "sys_failure s = None \<Longrightarrow> p \<in> set processGroup \<Longrightarrow> p \<notin> set (sys_waiting s) \<Longrightarrow>
     rendezvous_call processGroup p operands (sys_state s) = Inl e \<Longrightarrow>
     rendezvous_step processGroup s (s\<lparr>sys_log := Call p operands # sys_log s, sys_failure := Some e\<rparr>)"
| wakes:
    "sys_failure s = None \<Longrightarrow> p \<in> set (sys_waiting s) \<Longrightarrow> rendezvous_ready processGroup (sys_state s) \<Longrightarrow>
     rendezvous_return (sys_state s) = Inr (st, r) \<Longrightarrow>
     rendezvous_step processGroup s
       (s\<lparr>sys_state := st, sys_waiting := remove1 p (sys_waiting s), sys_log := Return p r # sys_log s\<rparr>)"
| wake_fails:
    "sys_failure s = None \<Longrightarrow> p \<in> set (sys_waiting s) \<Longrightarrow> rendezvous_ready processGroup (sys_state s) \<Longrightarrow>
     rendezvous_return (sys_state s) = Inl e \<Longrightarrow>
     rendezvous_step processGroup s (s\<lparr>sys_failure := Some e\<rparr>)"
| times_out:
    "sys_failure s = None \<Longrightarrow> p \<in> set (sys_waiting s) \<Longrightarrow> \<not> rendezvous_ready processGroup (sys_state s) \<Longrightarrow>
     rendezvous_step processGroup s (s\<lparr>sys_failure := Some (Fatal ''rendezvous timed out'')\<rparr>)"

definition rendezvous_reachable :: "ProcessGroup \<Rightarrow> 'v RendezvousSystem \<Rightarrow> bool" where
  "rendezvous_reachable processGroup s = (rendezvous_step processGroup)\<^sup>*\<^sup>* RendezvousSystem_init s"

section \<open>Send and receive\<close>

record 'v SendRecvState =
  sr_result :: "'v list"
  sr_ready :: bool

text \<open>\<open>recv\<close> announces that it is ready and waits for data; then it takes the data and empties the channel.\<close>

definition recv_arrive :: "'v SendRecvState \<Rightarrow> 'v SendRecvState" where
  "recv_arrive ch = ch\<lparr>sr_ready := True\<rparr>"

definition recv_enabled :: "'v SendRecvState \<Rightarrow> bool" where
  "recv_enabled ch \<longleftrightarrow> sr_result ch \<noteq> []"

definition recv_take :: "'v SendRecvState \<Rightarrow> 'v SendRecvState \<times> 'v list" where
  "recv_take ch = (ch\<lparr>sr_result := []\<rparr>, sr_result ch)"

text \<open>\<open>send\<close> waits until the receiver is ready, then stores the data.\<close>

definition send_enabled :: "'v SendRecvState \<Rightarrow> bool" where
  "send_enabled ch \<longleftrightarrow> sr_ready ch"

definition send_put :: "'v list \<Rightarrow> 'v SendRecvState \<Rightarrow> 'v SendRecvState" where
  "send_put inputs ch = ch\<lparr>sr_result := inputs, sr_ready := False\<rparr>"

text \<open>
  One process that sends and one that receives on a channel: whether the receiver is inside \<open>recv\<close>, the messages of the
  calls of \<open>send\<close> that returned and those that \<open>recv\<close> returned, in order.
\<close>

record 'v Channel =
  ch_state :: "'v SendRecvState"
  ch_receiving :: bool
  ch_sent :: "'v list list"
  ch_received :: "'v list list"
  ch_failure :: "error option"

definition Channel_init :: "'v Channel" where
  "Channel_init = \<lparr>ch_state = \<lparr>sr_result = [], sr_ready = False\<rparr>, ch_receiving = False, ch_sent = [],
     ch_received = [], ch_failure = None\<rparr>"

inductive channel_step :: "'v Channel \<Rightarrow> 'v Channel \<Rightarrow> bool" where
  recv_calls:
    "ch_failure c = None \<Longrightarrow> \<not> ch_receiving c \<Longrightarrow>
     channel_step c (c\<lparr>ch_state := recv_arrive (ch_state c), ch_receiving := True\<rparr>)"
| recv_returns:
    "ch_failure c = None \<Longrightarrow> ch_receiving c \<Longrightarrow> recv_enabled (ch_state c) \<Longrightarrow> recv_take (ch_state c) = (st, message) \<Longrightarrow>
     channel_step c (c\<lparr>ch_state := st, ch_receiving := False, ch_received := ch_received c @ [message]\<rparr>)"
| recv_times_out:
    "ch_failure c = None \<Longrightarrow> ch_receiving c \<Longrightarrow> \<not> recv_enabled (ch_state c) \<Longrightarrow>
     channel_step c (c\<lparr>ch_failure := Some (Fatal ''recv timed out'')\<rparr>)"
| send_returns:
    "ch_failure c = None \<Longrightarrow> send_enabled (ch_state c) \<Longrightarrow>
     channel_step c (c\<lparr>ch_state := send_put message (ch_state c), ch_sent := ch_sent c @ [message]\<rparr>)"
| send_times_out:
    "ch_failure c = None \<Longrightarrow> \<not> send_enabled (ch_state c) \<Longrightarrow>
     channel_step c (c\<lparr>ch_failure := Some (Fatal ''send timed out'')\<rparr>)"

definition channel_reachable :: "'v Channel \<Rightarrow> bool" where
  "channel_reachable c = channel_step\<^sup>*\<^sup>* Channel_init c"

section \<open>Queues\<close>

type_synonym 'a ThreadSafeQueue = "'a list"

definition queue_pop :: "'a ThreadSafeQueue \<Rightarrow> ('a ThreadSafeQueue \<times> 'a) result" where
  "queue_pop q = (case q of [] \<Rightarrow> Inl (UB ''front of an empty queue'') | x # xs \<Rightarrow> Inr (xs, x))"

definition queue_push :: "'a \<Rightarrow> 'a ThreadSafeQueue \<Rightarrow> 'a ThreadSafeQueue" where
  "queue_push input q = q @ [input]"

section \<open>The grid\<close>

record ('s, 'v) ProcessGrid =
  numReplicas :: nat
  numPartitions :: nat
  pg_infeed :: "'s ThreadSafeQueue"
  pg_outfeed :: "'v list ThreadSafeQueue"

definition infeed :: "('s, 'v) ProcessGrid \<Rightarrow> (('s, 'v) ProcessGrid \<times> 's) result" where
  "infeed grid = rbind (queue_pop (pg_infeed grid)) (\<lambda>(q, x). Inr (grid\<lparr>pg_infeed := q\<rparr>, x))"

definition outfeed :: "'v list \<Rightarrow> ('s, 'v) ProcessGrid \<Rightarrow> ('s, 'v) ProcessGrid" where
  "outfeed inputs grid = grid\<lparr>pg_outfeed := queue_push inputs (pg_outfeed grid)\<rparr>"

section \<open>Groups partition the processes\<close>

lemma findGroup_Some: "findGroup groups p = Some g \<Longrightarrow> g \<in> set groups \<and> p \<in> set g"
  by (induction groups) (auto split: if_splits)

lemma findGroup_None: "findGroup groups p = None \<longleftrightarrow> p \<notin> set (concat groups)"
  by (induction groups) auto

lemma distinct_concat_unique:
  "distinct (concat gs) \<Longrightarrow> g \<in> set gs \<Longrightarrow> h \<in> set gs \<Longrightarrow> p \<in> set g \<Longrightarrow> p \<in> set h \<Longrightarrow> g = h"
  by (induction gs) auto

lemma distinct_concat_map_blocks:
  assumes "distinct (concat xss)" "distinct ys" "\<And>x x' y y'. f x y = f x' y' \<longleftrightarrow> x = x' \<and> y = y'"
  shows "distinct (concat (concat (map (\<lambda>xs. map (\<lambda>y. map (\<lambda>x. f x y) xs) ys) xss)))"
  using assms(1)
proof (induction xss)
  case (Cons xs xss)
  have xs: "distinct xs" using Cons.prems by simp
  have inner: "distinct zs \<Longrightarrow> distinct (concat (map (\<lambda>y. map (\<lambda>x. f x y) xs) zs))" for zs
    by (induction zs) (auto simp: assms(3) distinct_map xs inj_on_def)
  from Cons inner [OF assms(2)] show ?case by (auto simp: assms(3))
qed simp

lemma crossReplica_distinct: "distinct (concat groups) \<Longrightarrow> distinct (concat (crossReplica n groups))"
  unfolding crossReplica_def by (rule distinct_concat_map_blocks) auto

lemma crossPartition_distinct: "distinct (concat groups) \<Longrightarrow> distinct (concat (crossPartition n groups))"
  unfolding crossPartition_def by (rule distinct_concat_map_blocks) auto

lemma concat_crossReplicaAndPartition:
  "concat (crossReplicaAndPartition n groups) = concat (crossReplica n groups)"
  by (induction groups) (auto simp: crossReplicaAndPartition_def crossReplica_def)

lemma flattenedIds_distinct:
  assumes "0 < n" "distinct (concat groups)" "flattenedIds n groups = Inr gs"
  shows "distinct (concat gs)"
proof -
  let ?f = "\<lambda>i. ProcessId (i div n) (i mod n)"
  have "gs = map (map ?f) groups" using assms(1,3) by (simp add: flattenedIds_def)
  then have "concat gs = map ?f (concat groups)" by (simp add: map_concat)
  moreover have "inj_on ?f (set (concat groups))" by (rule inj_onI) (metis ProcessId.inject div_mod_decomp)
  ultimately show ?thesis using assms(2) by (simp add: distinct_map)
qed

lemma crossReplica_set:
  "set (concat (crossReplica n groups)) = {ProcessId r p | r p. r \<in> set (concat groups) \<and> p < n}"
  unfolding crossReplica_def by force

lemma crossPartition_set:
  "set (concat (crossPartition n groups)) = {ProcessId r p | r p. p \<in> set (concat groups) \<and> r < n}"
  unfolding crossPartition_def by force

end
