(* ===== verification/Values.thy ===== *)
theory Values
  imports Tensor Dialect_Base
begin

text \<open>
  \<^verbatim>\<open>stablehlo/reference/Value.{h,cpp}\<close>, \<^verbatim>\<open>Token.{h,cpp}\<close>, \<^verbatim>\<open>Scope.{h,cpp}\<close> and the function \<open>eval\<close> of \<^verbatim>\<open>Ops.cpp\<close>: the
  values the interpreter computes with, the scopes that hold them, and the evaluation of a region. An operation of a
  region is what its branch of \<open>eval\<close> does to the scope.
\<close>

section \<open>Runtime values\<close>

datatype ValueType = TensorType ShapedType | TokenType | TupleType "ValueType list"

datatype InterpreterValue =
    TensorValue Tensor
  | TokenValue
  | TupleValue "ValueType list" "InterpreterValue list"

fun value_type :: "InterpreterValue \<Rightarrow> ValueType" where
  "value_type (TensorValue t) = TensorType (t_type t)"
| "value_type TokenValue = TokenType"
| "value_type (TupleValue ts vs) = TupleType ts"

fun getTensor :: "InterpreterValue \<Rightarrow> Tensor result" where
  "getTensor (TensorValue t) = Inr t"
| "getTensor _ = Inl (Fatal ''InterpreterValue is not a Tensor.'')"

fun getToken :: "InterpreterValue \<Rightarrow> unit result" where
  "getToken TokenValue = Inr ()"
| "getToken _ = Inl (Fatal ''InterpreterValue is not a Token.'')"

fun getTuple :: "InterpreterValue \<Rightarrow> (ValueType list \<times> InterpreterValue list) result" where
  "getTuple (TupleValue ts vs) = Inr (ts, vs)"
| "getTuple _ = Inl (Fatal ''InterpreterValue is not a Tuple.'')"

definition tupleOp :: "InterpreterValue list \<Rightarrow> ValueType list \<Rightarrow> InterpreterValue" where
  "tupleOp val resultType = TupleValue resultType val"

definition getTupleElementOp :: "ValueType list \<times> InterpreterValue list \<Rightarrow> int \<Rightarrow> InterpreterValue result" where
  "getTupleElementOp operand index = vec_nth (snd operand) index"

definition optimizationBarrierOp :: "InterpreterValue list \<Rightarrow> InterpreterValue list" where
  "optimizationBarrierOp operand = operand"

definition afterAllOp :: "unit list \<Rightarrow> InterpreterValue" where
  "afterAllOp inputs = TokenValue"

section \<open>Scopes\<close>

text \<open>An SSA value is its identity and its type. A scope is a frame followed by the frames of its parents.\<close>

record SsaValue =
  ssa_id :: nat
  ssa_type :: ValueType

type_synonym Frame = "SsaValue \<rightharpoonup> InterpreterValue"
type_synonym Scope = "Frame list"

definition Scope_new :: "Scope \<Rightarrow> Scope" where
  "Scope_new parent = Map.empty # parent"

fun Scope_add :: "SsaValue \<Rightarrow> InterpreterValue \<Rightarrow> Scope \<Rightarrow> Scope result" where
  "Scope_add ssaValue runtimeValue [] = Inl (UB ''null scope'')"
| "Scope_add ssaValue runtimeValue (frame # parents) =
     (if frame ssaValue \<noteq> None then Inl (Fatal ''Duplicate SSA register found in scope'')
      else if ssa_type ssaValue \<noteq> value_type runtimeValue
      then Inl (Fatal ''Expected same type for an SSA register and its evaluated value'')
      else Inr (frame(ssaValue \<mapsto> runtimeValue) # parents))"

definition Scope_add_all :: "SsaValue list \<Rightarrow> InterpreterValue list \<Rightarrow> Scope \<Rightarrow> Scope result" where
  "Scope_add_all ssaValues runtimeValues scope =
     (if length ssaValues \<noteq> length runtimeValues then Inl (UB ''assertion of Scope::add'')
      else foldM (\<lambda>(ssaValue, runtimeValue). Scope_add ssaValue runtimeValue) (zip ssaValues runtimeValues) scope)"

fun Scope_find :: "Scope \<Rightarrow> SsaValue \<Rightarrow> InterpreterValue result" where
  "Scope_find [] ssaValue = Inl (Fatal ''value not found in scope'')"
| "Scope_find (frame # parents) ssaValue =
     (case frame ssaValue of Some v \<Rightarrow> Inr v | None \<Rightarrow> Scope_find parents ssaValue)"

definition Scope_find_all :: "Scope \<Rightarrow> SsaValue list \<Rightarrow> InterpreterValue list result" where
  "Scope_find_all scope ssaValues = mapM (Scope_find scope) ssaValues"

definition findTensor :: "Scope \<Rightarrow> SsaValue \<Rightarrow> Tensor result" where
  "findTensor scope ssaValue = rbind (Scope_find scope ssaValue) getTensor"

definition findTensors :: "Scope \<Rightarrow> SsaValue list \<Rightarrow> Tensor list result" where
  "findTensors scope ssaValues = mapM (findTensor scope) ssaValues"

definition findToken :: "Scope \<Rightarrow> SsaValue \<Rightarrow> unit result" where
  "findToken scope ssaValue = rbind (Scope_find scope ssaValue) getToken"

definition findTokens :: "Scope \<Rightarrow> SsaValue list \<Rightarrow> unit list result" where
  "findTokens scope ssaValues = mapM (findToken scope) ssaValues"

definition findTuple :: "Scope \<Rightarrow> SsaValue \<Rightarrow> (ValueType list \<times> InterpreterValue list) result" where
  "findTuple scope ssaValue = rbind (Scope_find scope ssaValue) getTuple"

section \<open>Regions\<close>

text \<open>
  An operation computes (its results and what its branch does with the scope), or it is one of the two return operations,
  which end the evaluation with the values of their operands.
\<close>

datatype Operation =
    Compute (op_results: "SsaValue list") (op_branch: "Scope \<Rightarrow> Scope result")
  | ReturnOp (op_operands: "SsaValue list")

record Region =
  rg_arguments :: "SsaValue list"
  rg_operations :: "Operation list"

fun static_type :: "ValueType \<Rightarrow> bool" where
  "static_type (TensorType t) = hasStaticShape t"
| "static_type _ = True"

fun eval_operations :: "Operation list \<Rightarrow> Scope \<Rightarrow> InterpreterValue list result" where
  "eval_operations [] scope = Inl (Fatal ''Expected a terminator when evaluating a region'')"
| "eval_operations (ReturnOp operands # rest) scope = Scope_find_all scope operands"
| "eval_operations (Compute results branch # rest) scope =
     (if \<not> list_all (\<lambda>v. static_type (ssa_type v)) results
      then Inl (Fatal ''dynamic result types are not supported at the moment'')
      else rbind (branch scope) (eval_operations rest))"

definition eval :: "Region \<Rightarrow> InterpreterValue list \<Rightarrow> Scope \<Rightarrow> InterpreterValue list result" where
  "eval region args parent =
     (if length (rg_arguments region) \<noteq> length args
      then Inl (Fatal ''Expected same number of block arguments and runtime arguments'')
      else rbind (Scope_add_all (rg_arguments region) args (Scope_new parent)) (eval_operations (rg_operations region)))"

text \<open>The branches of \<open>eval\<close> for operations with one and with two tensor operands and a tensor result.\<close>

definition unary_operation :: "SsaValue \<Rightarrow> SsaValue \<Rightarrow> (Tensor \<Rightarrow> Tensor result) \<Rightarrow> Operation" where
  "unary_operation operandValue resultValue f =
     Compute [resultValue] (\<lambda>scope.
       rbind (findTensor scope operandValue) (\<lambda>operand.
       rbind (f operand) (\<lambda>result. Scope_add resultValue (TensorValue result) scope)))"

definition binary_operation :: "SsaValue \<Rightarrow> SsaValue \<Rightarrow> SsaValue \<Rightarrow> (Tensor \<Rightarrow> Tensor \<Rightarrow> Tensor result) \<Rightarrow> Operation" where
  "binary_operation lhsValue rhsValue resultValue f =
     Compute [resultValue] (\<lambda>scope.
       rbind (findTensor scope lhsValue) (\<lambda>lhs.
       rbind (findTensor scope rhsValue) (\<lambda>rhs.
       rbind (f lhs rhs) (\<lambda>result. Scope_add resultValue (TensorValue result) scope))))"

section \<open>Scopes as environments\<close>

text \<open>
  What evaluation relies on: a binding is found again, and adding one neither changes nor hides another.
\<close>

locale environment =
  fixes add :: "'k \<Rightarrow> 'v \<Rightarrow> 's \<Rightarrow> 's result" and find :: "'s \<Rightarrow> 'k \<Rightarrow> 'v result"
  assumes find_added: "add k v s = Inr s' \<Longrightarrow> find s' k = Inr v"
    and find_other: "add k v s = Inr s' \<Longrightarrow> j \<noteq> k \<Longrightarrow> find s' j = find s j"
begin

lemma add_all_other:
  "foldM (\<lambda>(k, v). add k v) kvs s = Inr s' \<Longrightarrow> j \<notin> fst ` set kvs \<Longrightarrow> find s' j = find s j"
proof (induction kvs arbitrary: s)
  case (Cons kv kvs)
  then obtain s1 where "add (fst kv) (snd kv) s = Inr s1" "foldM (\<lambda>(k, v). add k v) kvs s1 = Inr s'"
    by (auto simp: rbind_eq_Inr split: prod.splits)
  then show ?case using Cons find_other by fastforce
qed simp

lemma add_all_found:
  "foldM (\<lambda>(k, v). add k v) kvs s = Inr s' \<Longrightarrow> distinct (map fst kvs) \<Longrightarrow> (k, v) \<in> set kvs \<Longrightarrow> find s' k = Inr v"
proof (induction kvs arbitrary: s)
  case (Cons kv kvs)
  then obtain s1 where s1: "add (fst kv) (snd kv) s = Inr s1" "foldM (\<lambda>(k, v). add k v) kvs s1 = Inr s'"
    by (auto simp: rbind_eq_Inr split: prod.splits)
  show ?case
  proof (cases "(k, v) = kv")
    case True
    then have "k \<notin> fst ` set kvs" using Cons.prems(2) by force
    then show ?thesis using add_all_other [OF s1(2)] find_added [OF s1(1)] True by auto
  qed (use Cons s1 in auto)
qed simp

end

lemma Scope_find_added: "Scope_add k v s = Inr s' \<Longrightarrow> Scope_find s' k = Inr v"
  by (cases s) (auto split: if_splits)

lemma Scope_find_other: "Scope_add k v s = Inr s' \<Longrightarrow> j \<noteq> k \<Longrightarrow> Scope_find s' j = Scope_find s j"
  by (cases s) (auto split: if_splits)

interpretation scope: environment Scope_add Scope_find
  by unfold_locales (fact Scope_find_added Scope_find_other)+

end
