(* ===== verification/Ops_Region.thy ===== *)
theory Ops_Region
  imports Ops_Structural Values
begin

text \<open>
  The operations of \<^verbatim>\<open>stablehlo/reference/Ops.cpp\<close> that evaluate regions, with the shape function of \<open>reduce\<close>. A region is
  passed as the function \<^verbatim>\<open>args \<mapsto> eval(region, args, fallback, process, &scope)\<close>; the terminator types or argument types that an operation reads
  from the region are further arguments.
\<close>

type_synonym body = "InterpreterValue list \<Rightarrow> InterpreterValue list result"

section \<open>Scalars in and out of regions\<close>

definition scalar_result :: "('f, 'd) float_api \<Rightarrow> InterpreterValue \<Rightarrow> 'f Element result" where
  "scalar_result F v = rbind (getTensor v) (\<lambda>t. Tensor_get F t [])"

definition first_result :: "('f, 'd) float_api \<Rightarrow> InterpreterValue list \<Rightarrow> 'f Element result" where
  "first_result F vs = rbind (vec_nth vs 0) (scalar_result F)"

text \<open>The loop \<^verbatim>\<open>for (auto [result, value] : llvm::zip(results, values)) result.set(index, value.getTensor().get({}))\<close>.\<close>

definition set_results :: "('f, 'd) float_api \<Rightarrow> Index \<Rightarrow> Tensor list \<Rightarrow> InterpreterValue list \<Rightarrow> Tensor list result" where
  "set_results F index results values =
     rbind (mapM (\<lambda>(result, v). rbind (scalar_result F v) (Tensor_set F result index)) (zip results values)) (\<lambda>rs.
       Inr (rs @ drop (length values) results))"

section \<open>Control flow\<close>

definition caseOp :: "('f, 'd) float_api \<Rightarrow> Tensor \<Rightarrow> body list \<Rightarrow> InterpreterValue list result" where
  "caseOp F index branches =
     rbind (evalScalar F index []) (\<lambda>v.
     let indexValue = (if v < 0 \<or> int (length branches) \<le> v then int (length branches) - 1 else v) in
     rbind (vec_nth branches indexValue) (\<lambda>branch. branch []))"

definition ifOp :: "('f, 'd) float_api \<Rightarrow> Tensor \<Rightarrow> body \<Rightarrow> body \<Rightarrow> InterpreterValue list result" where
  "ifOp F pred trueBranch falseBranch =
     rbind (Tensor_get F pred []) (\<lambda>e. rbind (getBooleanValue e) (\<lambda>b. if b then trueBranch [] else falseBranch []))"

text \<open>The condition of \<open>while\<close>, and its loop, with fuel for the number of iterations.\<close>

definition while_condition :: "('f, 'd) float_api \<Rightarrow> body \<Rightarrow> InterpreterValue list \<Rightarrow> bool result" where
  "while_condition F cond results =
     rbind (cond results) (\<lambda>condResults. rbind (first_result F condResults) getBooleanValue)"

fun while_loop ::
  "('f, 'd) float_api \<Rightarrow> body \<Rightarrow> body \<Rightarrow> nat \<Rightarrow> InterpreterValue list \<Rightarrow> InterpreterValue list result" where
  "while_loop F cond body 0 results = Inl OutOfFuel"
| "while_loop F cond body (Suc fuel) results =
     rbind (while_condition F cond results) (\<lambda>continue.
       if continue then rbind (body results) (while_loop F cond body fuel) else Inr results)"

definition whileOp ::
  "('f, 'd) float_api \<Rightarrow> nat \<Rightarrow> InterpreterValue list \<Rightarrow> body \<Rightarrow> body \<Rightarrow> InterpreterValue list result" where
  "whileOp F fuel operand cond body = while_loop F cond body fuel operand"

section \<open>Map and reduce\<close>

definition mapOp ::
  "('f, 'd) float_api \<Rightarrow> Tensor list \<Rightarrow> ShapedType list \<Rightarrow> body \<Rightarrow> ShapedType \<Rightarrow> Tensor result" where
  "mapOp F inputs argumentTypes computation resultType =
     fill_result F resultType (\<lambda>it.
       rbind (mapM (\<lambda>i.
                rbind (vec_nth argumentTypes i) (\<lambda>ty.
                rbind (newTensor ty) (\<lambda>tensor.
                rbind (vec_nth inputs i) (\<lambda>input.
                rbind (Tensor_get F input it) (\<lambda>e.
                rbind (Tensor_set F tensor [] e) (\<lambda>tensor'. Inr (TensorValue tensor')))))))
              (upto_int (int (length inputs)))) (\<lambda>args.
       rbind (computation args) (first_result F)))"

fun drop_dims :: "Axes \<Rightarrow> int \<Rightarrow> Index \<Rightarrow> Index" where
  "drop_dims dimensions axis [] = []"
| "drop_dims dimensions axis (x # xs) =
     (if axis \<in> set dimensions then drop_dims dimensions (axis + 1) xs else x # drop_dims dimensions (axis + 1) xs)"

definition initial_results :: "('f, 'd) float_api \<Rightarrow> ShapedType list \<Rightarrow> Tensor list \<Rightarrow> Tensor list result" where
  "initial_results F resultTypes initValues =
     mapM (\<lambda>(resultType, initValue). rbind (Tensor_get F initValue []) (makeSplat F resultType)) (zip resultTypes initValues)"

definition reduce_args ::
  "('f, 'd) float_api \<Rightarrow> Tensor list \<Rightarrow> Index \<Rightarrow> Tensor list \<Rightarrow> InterpreterValue list result" where
  "reduce_args F tensors index initValues =
     mapM (\<lambda>(t, initValue). rbind (Tensor_get F t index) (\<lambda>e.
             rbind (makeSplat F (t_type initValue) e) (\<lambda>v. Inr (TensorValue v)))) (zip tensors initValues)"

definition reduceOp ::
  "('f, 'd) float_api \<Rightarrow> Tensor list \<Rightarrow> Tensor list \<Rightarrow> Axes \<Rightarrow> body \<Rightarrow> ShapedType list \<Rightarrow> Tensor list result" where
  "reduceOp F inputs initValues dimensions body resultTypes =
     rbind (initial_results F resultTypes initValues) (\<lambda>results.
     rbind (vec_nth inputs 0) (\<lambda>input0.
       forEachIndex (t_shape input0) (\<lambda>inputIt results.
         let resultIndex = drop_dims dimensions 0 inputIt in
         rbind (reduce_args F results resultIndex initValues) (\<lambda>resultArgs.
         rbind (reduce_args F inputs inputIt initValues) (\<lambda>inputArgs.
         rbind (body (resultArgs @ inputArgs)) (set_results F resultIndex results)))) results))"

text \<open>The overload that infers the result types; the accumulator types are the terminator's operand types.\<close>

definition reduceOp_infer ::
  "('f, 'd) float_api \<Rightarrow> Tensor list \<Rightarrow> Tensor list \<Rightarrow> Axes \<Rightarrow> body \<Rightarrow> Type list \<Rightarrow> Tensor list result" where
  "reduceOp_infer F inputs initValues dimensions body accumulatorTypes =
     rbind (or_fatal ''Could not infer ReduceOp's return type''
              (inferReduceOp (map (\<lambda>t. as_ranked (t_type t)) inputs) dimensions accumulatorTypes)) (\<lambda>inferred.
       reduceOp F inputs initValues dimensions body (map as_shaped inferred))"

definition reduceWindowOp ::
  "('f, 'd) float_api \<Rightarrow> Tensor list \<Rightarrow> Tensor list \<Rightarrow> Sizes \<Rightarrow> Sizes \<Rightarrow> Sizes \<Rightarrow> Sizes \<Rightarrow> Sizes \<Rightarrow> Sizes \<Rightarrow> body \<Rightarrow>
   Type list \<Rightarrow> ShapedType list \<Rightarrow> Tensor list result" where
  "reduceWindowOp F inputs initValues windowDimensions windowStrides baseDilations windowDilations paddingLow
     paddingHigh body accumulatorTypes resultTypes =
     rbind (initial_results F resultTypes initValues) (\<lambda>results.
     rbind (mapM (\<lambda>(input, initValue).
              rbind (Sizes_minus_scalar baseDilations 1) (padOp_high F input initValue paddingLow paddingHigh))
            (zip inputs initValues)) (\<lambda>paddedInputs.
     rbind (vec_nth results 0) (\<lambda>result0.
     rbind (vec_nth inputs 0) (\<lambda>input0.
       forEachIndex (t_shape result0) (\<lambda>resultIt results.
         rbind (Sizes_times resultIt windowStrides) (\<lambda>windowStart.
         rbind (Sizes_minus_scalar windowDimensions 1) (\<lambda>lastOffset.
         rbind (Sizes_times lastOffset windowDilations) (\<lambda>dilated.
         rbind (Sizes_plus windowStart dilated) (\<lambda>windowLast.
         rbind (Sizes_plus_scalar windowLast 1) (\<lambda>windowEnd.
         rbind (mapM (\<lambda>paddedInput. sliceOp_limit F paddedInput windowStart windowEnd windowDilations) paddedInputs)
           (\<lambda>windows.
         rbind (reduceOp_infer F windows initValues (getAxes input0) body accumulatorTypes) (\<lambda>reducedValues.
           set_results F resultIt results (map TensorValue reducedValues))))))))) results))))"

section \<open>Scatter\<close>

text \<open>The index into the operand that an update index refers to.\<close>

definition scatter_resultIndex ::
  "('f, 'd) float_api \<Rightarrow> Tensor \<Rightarrow> Tensor \<Rightarrow> Axes \<Rightarrow> Axes \<Rightarrow> Axes \<Rightarrow> Axes \<Rightarrow> Axes \<Rightarrow> int \<Rightarrow> Axes \<Rightarrow> Index \<Rightarrow> Index result"
where
  "scatter_resultIndex F input0 scatterIndices updateWindowDims insertedWindowDims inputBatchingDims
     scatterIndicesBatchingDims scatterDimsToOperandDims indexVectorDim updateScatterDims updateIndex =
     rbind (mapM (vec_nth updateIndex) updateScatterDims) (\<lambda>updateScatterIndex.
     let startIndicesIndex = startIndicesIndex_of updateScatterIndex indexVectorDim scatterIndices in
     rbind (sliceOp_colon F scatterIndices startIndicesIndex) (\<lambda>slice.
     rbind (evalIndex F slice) (\<lambda>startIndex.
     rbind (mapM (\<lambda>dInput. case find_index dInput scatterDimsToOperandDims of None \<Rightarrow> Inr 0
                    | Some dStart \<Rightarrow> vec_nth startIndex (int dStart)) (getAxes input0)) (\<lambda>fullStartIndex.
     rbind (fullBatchingIndex_of (getRank input0) inputBatchingDims scatterIndicesBatchingDims startIndicesIndex)
       (\<lambda>fullBatchingIndex.
     rbind (mapM (vec_nth updateIndex) updateWindowDims) (\<lambda>updateWindowIndex.
     rbind (spread_offsets (getAxes input0) (\<lambda>i. i \<in> set insertedWindowDims \<or> i \<in> set inputBatchingDims)
              updateWindowIndex 0) (\<lambda>fullWindowIndex.
     rbind (Sizes_plus fullStartIndex fullBatchingIndex) (\<lambda>partial.
       Sizes_plus partial fullWindowIndex))))))))"

text \<open>The body of the loop of \<open>scatter\<close>, for the result index that belongs to an update index.\<close>

definition scatter_at ::
  "('f, 'd) float_api \<Rightarrow> Tensor list \<Rightarrow> body \<Rightarrow> Index \<Rightarrow> Index \<Rightarrow> Tensor list \<Rightarrow> Tensor list result" where
  "scatter_at F updates updateComputation updateIndex resultIndex results =
     rbind (vec_nth results 0) (\<lambda>result0.
       if \<not> inBounds resultIndex (t_shape result0) then Inr results
       else
         rbind (mapM (\<lambda>r. rbind (Tensor_get F r resultIndex) (constant_of F)) results) (\<lambda>resultArgs.
         rbind (mapM (\<lambda>u. rbind (Tensor_get F u updateIndex) (constant_of F)) updates) (\<lambda>updateArgs.
         rbind (updateComputation (map TensorValue (resultArgs @ updateArgs))) (set_results F resultIndex results))))"

definition scatterOp ::
  "('f, 'd) float_api \<Rightarrow> Tensor list \<Rightarrow> Tensor \<Rightarrow> Tensor list \<Rightarrow> Axes \<Rightarrow> Axes \<Rightarrow> Axes \<Rightarrow> Axes \<Rightarrow> Axes \<Rightarrow> int \<Rightarrow> body \<Rightarrow>
   Tensor list result" where
  "scatterOp F inputs scatterIndices updates updateWindowDims insertedWindowDims inputBatchingDims
     scatterIndicesBatchingDims scatterDimsToOperandDims indexVectorDim updateComputation =
     rbind (vec_nth updates 0) (\<lambda>update0.
     rbind (vec_nth inputs 0) (\<lambda>input0.
     let updateScatterDims = filter (\<lambda>d. d \<notin> set updateWindowDims) (getAxes update0) in
       forEachIndex (t_shape update0) (\<lambda>updateIndex results.
         rbind (scatter_resultIndex F input0 scatterIndices updateWindowDims insertedWindowDims inputBatchingDims
                  scatterIndicesBatchingDims scatterDimsToOperandDims indexVectorDim updateScatterDims updateIndex)
           (\<lambda>resultIndex. scatter_at F updates updateComputation updateIndex resultIndex results))
         (map clone inputs)))"

text \<open>
  The window of \<open>select_and_scatter\<close> that belongs to an index of the source: the indices inside the operand, in order.
\<close>

definition operand_window :: "Sizes \<Rightarrow> Sizes \<Rightarrow> Sizes \<Rightarrow> Sizes \<Rightarrow> Index \<Rightarrow> Index list result" where
  "operand_window shape windowDimensions windowStrides paddingLow sourceIndex =
     rbind (mapM (\<lambda>windowIndex.
              rbind (Sizes_times sourceIndex windowStrides) (\<lambda>start.
              rbind (Sizes_plus start windowIndex) (\<lambda>position. Sizes_minus position paddingLow)))
            (iter_indices (index_begin windowDimensions))) (\<lambda>indices.
       Inr (filter (\<lambda>i. inBounds i shape) indices))"

definition select_step ::
  "('f, 'd) float_api \<Rightarrow> Tensor \<Rightarrow> body \<Rightarrow> Index \<Rightarrow> ('f Element \<times> Index) option \<Rightarrow> ('f Element \<times> Index) option result" where
  "select_step F operand select operandIndex selected =
     rbind (Tensor_get F operand operandIndex) (\<lambda>currVal.
     let (selectedVal, selectedIndex) = (case selected of None \<Rightarrow> (currVal, operandIndex) | Some s \<Rightarrow> s) in
     rbind (constant_of F selectedVal) (\<lambda>a.
     rbind (constant_of F currVal) (\<lambda>b.
     rbind (select [TensorValue a, TensorValue b]) (\<lambda>selectResult.
     rbind (first_result F selectResult) (\<lambda>e.
     rbind (getBooleanValue e) (\<lambda>keep.
       Inr (if keep then Some (selectedVal, selectedIndex) else Some (currVal, operandIndex))))))))"

definition scatter_step ::
  "('f, 'd) float_api \<Rightarrow> Tensor \<Rightarrow> Tensor \<Rightarrow> body \<Rightarrow> Type list \<Rightarrow> Index \<Rightarrow> Index option \<Rightarrow> Index \<Rightarrow> Tensor \<Rightarrow> Tensor result" where
  "scatter_step F source initValue scatter accumulatorTypes sourceIndex selectedIndex operandIndex result =
     (if Some operandIndex \<noteq> selectedIndex then Inr result
      else
        rbind (newTensor \<lparr>getShape = [2], getElementType = t_elementType initValue\<rparr>) (\<lambda>sourceValues.
        rbind (Tensor_get F source sourceIndex) (\<lambda>s.
        rbind (Tensor_set F sourceValues [0] s) (\<lambda>sourceValues.
        rbind (Tensor_get F result operandIndex) (\<lambda>r.
        rbind (Tensor_set F sourceValues [1] r) (\<lambda>sourceValues.
        rbind (reduceOp_infer F [sourceValues] [initValue] [0] scatter accumulatorTypes) (\<lambda>reducedResult.
        rbind (vec_nth reducedResult 0) (\<lambda>reduced.
        rbind (Tensor_get F reduced []) (Tensor_set F result operandIndex)))))))))"

definition selectAndScatterOp ::
  "('f, 'd) float_api \<Rightarrow> Tensor \<Rightarrow> Tensor \<Rightarrow> Tensor \<Rightarrow> Sizes \<Rightarrow> Sizes \<Rightarrow> Sizes \<Rightarrow> body \<Rightarrow> body \<Rightarrow> Type list \<Rightarrow>
   ShapedType \<Rightarrow> Tensor result" where
  "selectAndScatterOp F operand source initValue windowDimensions windowStrides paddingLow select scatter
     accumulatorTypes resultType =
     rbind (Tensor_get F initValue []) (\<lambda>init.
     rbind (makeSplat F resultType init)
       (forEachIndex (t_shape source) (\<lambda>sourceIt result.
         rbind (operand_window (t_shape operand) windowDimensions windowStrides paddingLow sourceIt) (\<lambda>window.
         rbind (foldM (select_step F operand select) window None) (\<lambda>selected.
           foldM (scatter_step F source initValue scatter accumulatorTypes sourceIt (map_option snd selected))
             window result)))))"

section \<open>Sort\<close>

text \<open>
  \<^verbatim>\<open>std::stable_sort\<close> on handles. Its result is determined when the comparator is a strict weak order; otherwise its behaviour
  is undefined. An error of the comparator on some pair of handles is an error of the sort. \<^verbatim>\<open>std::sort\<close> leaves the order of
  equivalent handles open: it is the parameter \<open>std_sort\<close>.
\<close>

fun insert_by :: "('a \<Rightarrow> 'a \<Rightarrow> bool) \<Rightarrow> 'a \<Rightarrow> 'a list \<Rightarrow> 'a list" where
  "insert_by lt x [] = [x]"
| "insert_by lt x (y # ys) = (if lt y x then y # insert_by lt x ys else x # y # ys)"

definition stable_sort :: "('a \<Rightarrow> 'a \<Rightarrow> bool) \<Rightarrow> 'a list \<Rightarrow> 'a list" where
  "stable_sort lt xs = foldr (insert_by lt) xs []"

definition strict_weak_order :: "('a \<Rightarrow> 'a \<Rightarrow> bool) \<Rightarrow> 'a list \<Rightarrow> bool" where
  "strict_weak_order lt xs \<longleftrightarrow>
     list_all (\<lambda>x. list_all (\<lambda>y. lt x y \<longrightarrow> \<not> lt y x \<and> list_all (\<lambda>z. lt x z \<or> lt z y) xs) xs) xs"

text \<open>The comparator on handles, for the slice through an index.\<close>

definition comparatorTogether ::
  "('f, 'd) float_api \<Rightarrow> Tensor list \<Rightarrow> int \<Rightarrow> body \<Rightarrow> Index \<Rightarrow> int \<Rightarrow> int \<Rightarrow> bool result" where
  "comparatorTogether F inputs adjustedDimension comparator resultIt lhsHandle rhsHandle =
     rbind (vec_set resultIt adjustedDimension lhsHandle) (\<lambda>lhsIndex.
     rbind (vec_set resultIt adjustedDimension rhsHandle) (\<lambda>rhsIndex.
     rbind (mapM (\<lambda>input.
              rbind (Tensor_get F input lhsIndex) (\<lambda>l.
              rbind (constant_of F l) (\<lambda>lhs.
              rbind (Tensor_get F input rhsIndex) (\<lambda>r.
              rbind (constant_of F r) (\<lambda>rhs. Inr [TensorValue lhs, TensorValue rhs]))))) inputs) (\<lambda>args.
     rbind (comparator (concat args)) (\<lambda>comparatorResult.
     rbind (first_result F comparatorResult) getBooleanValue))))"

definition sort_handles ::
  "((int \<Rightarrow> int \<Rightarrow> bool) \<Rightarrow> int list \<Rightarrow> int list) \<Rightarrow> bool \<Rightarrow> (int \<Rightarrow> int \<Rightarrow> bool result) \<Rightarrow> int list \<Rightarrow> int list result" where
  "sort_handles std_sort isStable compare handles =
     rbind (mapM (\<lambda>x. mapM (\<lambda>y. rbind (compare x y) (\<lambda>b. Inr ((x, y), b))) handles) handles) (\<lambda>table.
     let lt = (\<lambda>x y. map_of (concat table) (x, y) = Some True) in
     if strict_weak_order lt handles then Inr (if isStable then stable_sort lt handles else std_sort lt handles)
     else Inl (UB ''comparator is not a strict weak order''))"

definition sort_slice ::
  "('f, 'd) float_api \<Rightarrow> Tensor list \<Rightarrow> int \<Rightarrow> Index \<Rightarrow> int list \<Rightarrow> Tensor list \<Rightarrow> Tensor list result" where
  "sort_slice F inputs adjustedDimension resultIt inputsTogether results =
     foldM (\<lambda>(resultHandle, inputHandle) results.
       mapM (\<lambda>(input, result).
         rbind (vec_set resultIt adjustedDimension inputHandle) (\<lambda>inputIndex.
         rbind (vec_set resultIt adjustedDimension resultHandle) (\<lambda>resultIndex.
         rbind (Tensor_get F input inputIndex) (Tensor_set F result resultIndex))))
         (zip inputs results))
       (zip (upto_int (int (length inputsTogether))) inputsTogether) results"

definition sortOp ::
  "('f, 'd) float_api \<Rightarrow> ((int \<Rightarrow> int \<Rightarrow> bool) \<Rightarrow> int list \<Rightarrow> int list) \<Rightarrow> Tensor list \<Rightarrow> int \<Rightarrow> bool \<Rightarrow> body \<Rightarrow>
   Tensor list result" where
  "sortOp F std_sort inputs dimension isStable comparator =
     rbind (mapM (\<lambda>input. newTensor (t_type input)) inputs) (\<lambda>results.
     rbind (vec_nth inputs 0) (\<lambda>input0.
     let adjustedDimension = (if 0 \<le> dimension then dimension else dimension + getRank input0) in
       forEachIndex (t_shape input0) (\<lambda>resultIt results.
         rbind (vec_nth resultIt adjustedDimension) (\<lambda>position.
           if position \<noteq> 0 then Inr results
           else
             rbind (vec_nth (t_shape input0) adjustedDimension) (\<lambda>size.
             rbind (sort_handles std_sort isStable (comparatorTogether F inputs adjustedDimension comparator resultIt)
                      (upto_int size)) (\<lambda>inputsTogether.
               sort_slice F inputs adjustedDimension resultIt inputsTogether results)))) results))"

end
