(* ===== verification/Collectives.thy ===== *)
theory Collectives
  imports Process_Grid Ops_Region
begin

text \<open>
  The collective operations of \<^verbatim>\<open>stablehlo/reference/Ops.cpp\<close>: every process of a group contributes its operands to a
  rendezvous and computes its results from what all of them contributed. \<^verbatim>\<open>Process\<close> forwards to the process grid; here it
  carries the sizes of the grid and what its calls of \<open>rendezvous\<close> return. How these calls block and what they return
  is the subject of the theory of the process grid.
\<close>

type_synonym TensorResults = "Tensor RendezvousResult"

record Process =
  getId :: ProcessId
  numReplicas :: nat
  numPartitions :: nat
  rendezvous :: "ProcessGroup \<Rightarrow> int \<Rightarrow> Tensor list \<Rightarrow> TensorResults result"

section \<open>Process groups\<close>

text \<open>Collective operations need a process.\<close>

definition the_process :: "string \<Rightarrow> Process option \<Rightarrow> Process result" where
  "the_process message process = (case process of None \<Rightarrow> Inl (Fatal message) | Some p \<Rightarrow> Inr p)"

text \<open>The groups of \<open>all_gather\<close>, \<open>all_reduce\<close>, \<open>collective_reduce\<close> and \<open>reduce_scatter\<close>.\<close>

definition replica_groups :: "Process \<Rightarrow> nat list list \<Rightarrow> int \<Rightarrow> bool \<Rightarrow> ProcessGroups result" where
  "replica_groups process replicaGroups channelId useGlobalDeviceIds =
     (if channelId \<le> 0 then
        if useGlobalDeviceIds then Inr [] else Inr (crossReplica (numPartitions process) replicaGroups)
      else if useGlobalDeviceIds then flattenedIds (numPartitions process) replicaGroups
      else Inr (crossReplicaAndPartition (numPartitions process) replicaGroups))"

text \<open>The groups of \<open>all_to_all\<close>, \<open>collective_broadcast\<close> and \<open>collective_permute\<close>.\<close>

definition channel_groups :: "Process \<Rightarrow> nat list list \<Rightarrow> int \<Rightarrow> ProcessGroups" where
  "channel_groups process groups channelId =
     (if channelId \<le> 0 then crossReplica (numPartitions process) groups else crossPartition (numReplicas process) groups)"

definition own_group :: "Process \<Rightarrow> ProcessGroups \<Rightarrow> ProcessGroup result" where
  "own_group process processGroups =
     (case findGroup processGroups (getId process) of
        None \<Rightarrow> Inl (Fatal ''Failed to find process group with process_id'')
      | Some g \<Rightarrow> Inr g)"

text \<open>The zeros a process outside all groups returns.\<close>

definition zero_tensor :: "('f, 'd) float_api \<Rightarrow> ShapedType \<Rightarrow> Tensor result" where
  "zero_tensor F type =
     rbind (constant_double F (d_lit F 0) (getElementType type)) (\<lambda>zero. broadcastInDimOp F zero [] type)"

section \<open>Gathering\<close>

definition allGatherOp ::
  "('f, 'd) float_api \<Rightarrow> Tensor list \<Rightarrow> int \<Rightarrow> nat list list \<Rightarrow> int \<Rightarrow> bool \<Rightarrow> Process option \<Rightarrow> ShapedType list \<Rightarrow>
   Tensor list result" where
  "allGatherOp F operands allGatherDim replicaGroups channelId useGlobalDeviceIds process resultTypes =
     rbind (the_process ''all_gather is only supported when run via interpreter.run_parallel'' process) (\<lambda>process.
     rbind (replica_groups process replicaGroups channelId useGlobalDeviceIds) (\<lambda>processGroups.
     rbind (own_group process processGroups) (\<lambda>processGroup.
     rbind (rendezvous process processGroup channelId operands) (\<lambda>rendezvousResult.
       mapM (\<lambda>(resultIndex, resultType).
         rbind (mapM (\<lambda>id. vec_nth (results_lookup rendezvousResult id) resultIndex) processGroup) (\<lambda>operandsAtIndex.
           concatenateOp F operandsAtIndex allGatherDim resultType))
         (zip (upto_int (int (length resultTypes))) resultTypes)))))"

definition allToAllOp ::
  "('f, 'd) float_api \<Rightarrow> Tensor list \<Rightarrow> int \<Rightarrow> int \<Rightarrow> int \<Rightarrow> nat list list \<Rightarrow> int \<Rightarrow> Process option \<Rightarrow> ShapedType list \<Rightarrow>
   Tensor list result" where
  "allToAllOp F operands splitDimension concatDimension splitCount replicaGroups channelId process resultTypes =
     rbind (the_process ''all_to_all is only supported when run via interpreter.run_parallel'' process) (\<lambda>process.
     rbind (own_group process (channel_groups process replicaGroups channelId)) (\<lambda>processGroup.
     rbind (rendezvous process processGroup channelId operands) (\<lambda>groupOperands.
       let receiverIndex = int (length (takeWhile (\<lambda>id. id \<noteq> getId process) processGroup)) in
       mapM (\<lambda>(resultIndex, resultType).
         rbind (mapM (\<lambda>sender.
                  rbind (vec_nth (results_lookup groupOperands sender) resultIndex) (\<lambda>operand.
                  rbind (split F operand splitCount splitDimension) (\<lambda>splitParts.
                    vec_nth splitParts receiverIndex))) processGroup) (\<lambda>scatteredParts.
           concatenateOp F scatteredParts concatDimension resultType))
         (zip (upto_int (int (length resultTypes))) resultTypes))))"

section \<open>Reducing\<close>

text \<open>
  One element of the result: the elements of the processes, combined by the region from the first process on. A null tensor
  stands for no element yet.
\<close>

definition reduce_element ::
  "('f, 'd) float_api \<Rightarrow> body \<Rightarrow> Tensor list list \<Rightarrow> int \<Rightarrow> Index \<Rightarrow> 'f Element result" where
  "reduce_element F computation groupOperands resultIndex elementIndex =
     rbind (foldM (\<lambda>processOperands resultElement.
              rbind (vec_nth processOperands resultIndex) (\<lambda>operand.
              rbind (Tensor_get F operand elementIndex) (\<lambda>e.
              rbind (constant_of F e) (\<lambda>operandElement.
                case resultElement of
                  None \<Rightarrow> Inr (Some operandElement)
                | Some t \<Rightarrow>
                    rbind (computation [TensorValue t, TensorValue operandElement]) (\<lambda>values.
                    rbind (vec_nth values 0) (\<lambda>v. rbind (getTensor v) (\<lambda>t'. Inr (Some t'))))))))
              groupOperands None)
       (\<lambda>resultElement. case resultElement of None \<Rightarrow> Inl (UB ''get of a null tensor'') | Some t \<Rightarrow> Tensor_get F t [])"

definition allReduceOp ::
  "('f, 'd) float_api \<Rightarrow> Tensor list \<Rightarrow> nat list list \<Rightarrow> int \<Rightarrow> bool \<Rightarrow> body \<Rightarrow> Process option \<Rightarrow> ShapedType list \<Rightarrow>
   Tensor list result" where
  "allReduceOp F operands replicaGroups channelId useGlobalDeviceIds computation process resultTypes =
     rbind (the_process ''all_reduce is only supported when run via interpreter.run_parallel'' process) (\<lambda>process.
     rbind (replica_groups process replicaGroups channelId useGlobalDeviceIds) (\<lambda>processGroups.
     rbind (own_group process processGroups) (\<lambda>processGroup.
     rbind (rendezvous process processGroup channelId operands) (\<lambda>rendezvousResult.
       mapM (\<lambda>(resultIndex, resultType).
         fill_result F resultType (reduce_element F computation (getSortedTensors rendezvousResult) resultIndex))
         (zip (upto_int (int (length resultTypes))) resultTypes)))))"

text \<open>
  \<open>operands.drop_back(1)\<close> and \<open>operands.back()\<close> of an empty list are undefined. The last operand holds the positions of the
  roots in the group.
\<close>

definition dataOperands :: "bool \<Rightarrow> Tensor list \<Rightarrow> Tensor list result" where
  "dataOperands hasDynamicRoot operands =
     (if \<not> hasDynamicRoot then Inr operands
      else if operands = [] then Inl (UB ''drop_back of an empty array'')
      else Inr (butlast operands))"

definition collectiveReduce_root ::
  "('f, 'd) float_api \<Rightarrow> bool \<Rightarrow> Tensor list \<Rightarrow> ProcessGroup \<Rightarrow> int \<Rightarrow> ProcessId result" where
  "collectiveReduce_root F hasDynamicRoot operands processGroup resultIndex =
     (if hasDynamicRoot then
        rbind (Tensor_get F (last operands) [resultIndex]) (\<lambda>rootIdx.
        rbind (getIntegerValue rootIdx) (\<lambda>v. vec_nth processGroup (uval v)))
      else vec_nth processGroup 0)"

definition collectiveReduceOp ::
  "('f, 'd) float_api \<Rightarrow> Tensor list \<Rightarrow> nat list list \<Rightarrow> int \<Rightarrow> bool \<Rightarrow> bool \<Rightarrow> body \<Rightarrow> Process option \<Rightarrow> ShapedType list \<Rightarrow>
   Tensor list result" where
  "collectiveReduceOp F operands replicaGroups channelId useGlobalDeviceIds hasDynamicRoot computation process resultTypes =
     rbind (the_process ''collective_reduce is only supported when run via interpreter.run_parallel'' process) (\<lambda>process.
     rbind (replica_groups process replicaGroups channelId useGlobalDeviceIds) (\<lambda>processGroups.
     rbind (dataOperands hasDynamicRoot operands) (\<lambda>inputs.
       case findGroup processGroups (getId process) of
         None \<Rightarrow> mapM (zero_tensor F) resultTypes
       | Some processGroup \<Rightarrow>
           rbind (rendezvous process processGroup channelId inputs) (\<lambda>rendezvousResult.
             mapM (\<lambda>(resultIndex, resultType).
               rbind (collectiveReduce_root F hasDynamicRoot operands processGroup resultIndex) (\<lambda>rootId.
                 if getId process \<noteq> rootId then zero_tensor F resultType
                 else fill_result F resultType
                        (reduce_element F computation (getSortedTensors rendezvousResult) resultIndex)))
               (zip (upto_int (int (length resultTypes))) resultTypes)))))"

text \<open>The number of parts is the size of the first group.\<close>

definition reduceScatterOp ::
  "('f, 'd) float_api \<Rightarrow> Tensor \<Rightarrow> int \<Rightarrow> nat list list \<Rightarrow> int \<Rightarrow> bool \<Rightarrow> body \<Rightarrow> Process option \<Rightarrow> ShapedType \<Rightarrow> Tensor result" where
  "reduceScatterOp F operand scatterDimension replicaGroups channelId useGlobalDeviceIds region process returnType =
     rbind (the_process ''reduce_scatter is only supported when run via interpreter.run_parallel'' process) (\<lambda>p.
     rbind (replica_groups p replicaGroups channelId useGlobalDeviceIds) (\<lambda>processGroups.
     rbind (own_group p processGroups) (\<lambda>processGroup.
     rbind (allReduceOp F [operand] replicaGroups channelId useGlobalDeviceIds region process [t_type operand]) (\<lambda>reduced.
     rbind (vec_nth reduced 0) (\<lambda>reducedValue.
     rbind (vec_nth processGroups 0) (\<lambda>first.
     rbind (split F reducedValue (int (length first)) scatterDimension) (\<lambda>parts.
     rbind (newTensor returnType) (\<lambda>result.
       let receiverIndex = length (takeWhile (\<lambda>id. id \<noteq> getId p) processGroup) in
       if receiverIndex < length processGroup then vec_nth parts (int receiverIndex) else Inr result))))))))"

section \<open>Broadcast and permutation\<close>

definition collectiveBroadcast_root ::
  "('f, 'd) float_api \<Rightarrow> bool \<Rightarrow> Tensor list \<Rightarrow> ProcessGroup \<Rightarrow> int \<Rightarrow> ProcessId result" where
  "collectiveBroadcast_root F hasDynamicRoot operands processGroup dataIndex =
     (if hasDynamicRoot then
        rbind (Tensor_get F (last operands) [dataIndex]) (\<lambda>rootIdx.
        rbind (getIntegerValue rootIdx) (\<lambda>v.
          if sval v < 0 \<or> int (length processGroup) \<le> sval v
          then Inl (Fatal ''collective_broadcast dynamic root index out of bounds'')
          else vec_nth processGroup (sval v)))
      else vec_nth processGroup 0)"

definition collectiveBroadcastOp ::
  "('f, 'd) float_api \<Rightarrow> Tensor list \<Rightarrow> nat list list \<Rightarrow> int \<Rightarrow> bool \<Rightarrow> Process option \<Rightarrow> Tensor list result" where
  "collectiveBroadcastOp F operands replicaGroups channelId hasDynamicRoot process =
     rbind (the_process ''collective_broadcast is only supported when run via interpreter.run_parallel'' process) (\<lambda>process.
     rbind (dataOperands hasDynamicRoot operands) (\<lambda>inputs.
       case findGroup (channel_groups process replicaGroups channelId) (getId process) of
         None \<Rightarrow> mapM (\<lambda>dataOperand. zero_tensor F (t_type dataOperand)) inputs
       | Some processGroup \<Rightarrow>
           rbind (rendezvous process processGroup channelId inputs) (\<lambda>rendezResult.
             mapM (\<lambda>dataIndex.
               rbind (collectiveBroadcast_root F hasDynamicRoot operands processGroup dataIndex) (\<lambda>rootId.
                 vec_nth (results_lookup rendezResult rootId) dataIndex))
               (upto_int (int (length inputs))))))"

text \<open>The loop over all pairs: a process may be the source of one and the target of another; the last target counts.\<close>

definition collectivePermute_pair ::
  "Process \<Rightarrow> Tensor \<Rightarrow> int \<Rightarrow> ProcessGroup \<Rightarrow> Tensor option \<Rightarrow> Tensor option result" where
  "collectivePermute_pair process operand channelId processGroup result =
     rbind (vec_nth processGroup 0) (\<lambda>from_id.
     rbind (vec_nth processGroup 1) (\<lambda>to_id.
       if from_id \<noteq> getId process \<and> to_id \<noteq> getId process then Inr result
       else if from_id = to_id then Inr (Some operand)
       else rbind (rendezvous process processGroup channelId [operand]) (\<lambda>rendezvousResult.
              if to_id \<noteq> getId process then Inr result
              else rbind (vec_nth (results_lookup rendezvousResult from_id) 0) (\<lambda>t. Inr (Some t)))))"

definition collectivePermuteOp ::
  "('f, 'd) float_api \<Rightarrow> Tensor \<Rightarrow> nat list list \<Rightarrow> int \<Rightarrow> Process option \<Rightarrow> Tensor result" where
  "collectivePermuteOp F operand sourceTargetPairs channelId process =
     rbind (the_process ''collective_permute is only supported when run via interpreter.run_parallel'' process) (\<lambda>process.
     rbind (foldM (collectivePermute_pair process operand channelId) (channel_groups process sourceTargetPairs channelId) None)
       (\<lambda>result. case result of Some t \<Rightarrow> Inr t | None \<Rightarrow> zero_tensor F (t_type operand)))"

section \<open>Identifiers\<close>

text \<open>\<^verbatim>\<open>constant(APInt(32, value), elementType)\<close> with the type of unsigned 32-bit integers.\<close>

definition id_tensor :: "('f, 'd) float_api \<Rightarrow> nat \<Rightarrow> Tensor result" where
  "id_tensor F v = rbind (convert_APInt F (IntegerType Unsigned 32) (mkAPInt 32 (int v)) False) (constant_of F)"

definition partitionIdOp :: "('f, 'd) float_api \<Rightarrow> Process option \<Rightarrow> Tensor result" where
  "partitionIdOp F process =
     rbind (the_process ''partition_id is only supported when run via interpreter.run_parallel'' process)
       (\<lambda>p. id_tensor F (partitionId (getId p)))"

definition replicaIdOp :: "('f, 'd) float_api \<Rightarrow> Process option \<Rightarrow> Tensor result" where
  "replicaIdOp F process =
     rbind (the_process ''replica_id is only supported when run via interpreter.run_parallel'' process)
       (\<lambda>p. id_tensor F (replicaId (getId p)))"

end
