(* ===== verification/Process_Grid_Correct.thy ===== *)
theory Process_Grid_Correct
  imports Process_Grid
begin

text \<open>
  The communication of processes: groups, the rendezvous as a barrier (what its first use on a channel guarantees, that
  it can complete, and what a second use does), and the order of messages between \<open>send\<close> and \<open>recv\<close>.
\<close>

section \<open>Rendezvous results as maps\<close>

abbreviation keys :: "'v RendezvousResult \<Rightarrow> ProcessId list" where
  "keys m \<equiv> map fst m"

lemma keys_insert_set: "set (keys (results_insert p v m)) = insert p (set (keys m))"
  by (induction p v m rule: results_insert.induct) auto

lemma keys_insert_sorted: "sorted_wrt (<) (keys m) \<Longrightarrow> sorted_wrt (<) (keys (results_insert p v m))"
proof (induction p v m rule: results_insert.induct)
  case (2 p v k w rest)
  show ?case
  proof (cases "p < k")
    case True then show ?thesis using 2 by (auto intro: order.strict_trans)
  next
    case False
    then have "p = k \<or> k < p" by auto
    then show ?thesis using 2 keys_insert_set [of p v rest] by auto
  qed
qed simp

lemma map_of_results_insert:
  "sorted_wrt (<) (keys m) \<Longrightarrow> map_of (results_insert p v m) = (map_of m)(p \<mapsto> v)"
  by (induction p v m rule: results_insert.induct) (auto simp: fun_eq_iff)

lemma sorted_keys_distinct: "sorted_wrt (<) (keys m) \<Longrightarrow> distinct (keys m)"
  by (simp add: strict_sorted_iff)

lemma sorted_keys_length: "sorted_wrt (<) (keys m) \<Longrightarrow> length m = card (set (keys m))"
  using distinct_card [of "keys m"] by (simp add: sorted_keys_distinct)

lemma keys_eq_sort:
  assumes "sorted_wrt (<) (keys m)" "set (keys m) = set g" "distinct g"
  shows "keys m = sort g"
  using assms by (metis sorted_list_of_set_sort_remdups distinct_remdups_id strict_sorted_iff
      sorted_distinct_set_unique distinct_sort set_sort sorted_sort)

lemma results_lookup_iff: "p \<in> set (keys m) \<Longrightarrow> map_of m p = Some (results_lookup m p)"
  by (auto simp: results_lookup_def map_of_eq_None_iff split: option.splits)

definition operand_counts :: "nat \<Rightarrow> 'v RendezvousResult \<Rightarrow> bool" where
  "operand_counts k m \<longleftrightarrow> (\<forall>(p, v) \<in> set m. length v = k)"

lemma hasMatching_cases:
  "m \<noteq> [] \<Longrightarrow> \<exists>b. hasMatchingOperandsCount m = Inr b"
  by (cases m) (auto simp: hasMatchingOperandsCount_def)

lemma hasMatching_count: "m \<noteq> [] \<Longrightarrow> operand_counts k m \<Longrightarrow> hasMatchingOperandsCount m = Inr True"
  by (cases m) (auto simp: hasMatchingOperandsCount_def operand_counts_def list_all_iff)

section \<open>Logs\<close>

fun calls :: "'v Event list \<Rightarrow> (ProcessId \<times> 'v list) list" where
  "calls [] = []"
| "calls (Call p v # log) = (p, v) # calls log"
| "calls (Return p r # log) = calls log"

fun returners :: "'v Event list \<Rightarrow> ProcessId list" where
  "returners [] = []"
| "returners (Call p v # log) = returners log"
| "returners (Return p r # log) = p # returners log"

text \<open>The first use of a channel: no process has called twice.\<close>

definition first_use :: "'v RendezvousSystem \<Rightarrow> bool" where
  "first_use s \<longleftrightarrow> distinct (keys (calls (sys_log s)))"

lemma calls_iff: "(p, v) \<in> set (calls log) \<longleftrightarrow> Call p v \<in> set log"
  by (induction log rule: calls.induct) auto

lemma returners_iff: "p \<in> set (returners log) \<longleftrightarrow> (\<exists>r. Return p r \<in> set log)"
  by (induction log rule: returners.induct) auto

section \<open>The invariant of the first use\<close>

fun returns_ok :: "ProcessGroup \<Rightarrow> 'v Event list \<Rightarrow> bool" where
  "returns_ok g [] = True"
| "returns_ok g (Call p v # log) = returns_ok g log"
| "returns_ok g (Return p r # log) = (returns_ok g log \<and> map_of r = map_of (calls log) \<and>
     sorted_wrt (<) (keys r) \<and> set (keys r) = set g \<and> set (keys (calls log)) = set g)"

lemma returns_ok_append: "returns_ok g (later @ log) \<Longrightarrow> returns_ok g log"
  by (induction later rule: calls.induct) auto

text \<open>\<open>barrier_inv\<close> relates the shared state with the log while no process has called twice.\<close>

definition barrier_inv :: "ProcessGroup \<Rightarrow> 'v RendezvousSystem \<Rightarrow> bool" where
  "barrier_inv g s \<longleftrightarrow>
     (let st = sys_state s; cs = calls (sys_log s) in
      set (keys cs) \<subseteq> set g \<and> returns_ok g (sys_log s) \<and>
      sys_failure s \<in> {None, Some (Fatal ''rendezvous timed out''),
        Some (Fatal ''Mismatched number of operands per process'')} \<and>
      (sys_failure s = None \<longrightarrow>
         sorted_wrt (<) (keys (rs_values st)) \<and> map_of (rs_values st) = map_of cs \<and>
         rs_useCount st = length (sys_waiting s) \<and> distinct (sys_waiting s) \<and>
         set (sys_waiting s) \<union> set (returners (sys_log s)) = set (keys cs) \<and>
         (sys_waiting s \<noteq> [] \<and> set (keys cs) = set g \<longrightarrow> rs_result st = rs_values st)))"

lemma barrier_inv_keys:
  assumes "map_of m = map_of cs" shows "set (keys m) = set (keys cs)"
  using assms by (metis dom_map_of_conv_image_fst list.set_map)

lemma barrier_inv_init: "barrier_inv g RendezvousSystem_init"
  by (simp add: barrier_inv_def RendezvousSystem_init_def RendezvousState_init_def)

lemma rendezvous_return_Inr:
  assumes "rendezvous_return st = Inr (st', r)"
  shows "r = rs_result st" "rs_values st' = rs_values st" "rs_useCount st' = rs_useCount st - 1"
    "0 < rs_useCount st' \<Longrightarrow> rs_result st' = rs_result st"
  using assms by (auto simp: rendezvous_return_def Let_def split: if_splits elim!: rbind_InrE)

lemma rendezvous_return_Inl:
  assumes "rendezvous_return st = Inl e" "rs_result st \<noteq> []"
  shows "e = Fatal ''Mismatched number of operands per process''"
  using assms hasMatching_cases [of "rs_result st"] by (auto simp: rendezvous_return_def Let_def split: if_splits)

lemma rendezvous_return_matching:
  assumes "rs_result st \<noteq> []" "operand_counts k (rs_result st)"
  shows "\<exists>st'. rendezvous_return st = Inr (st', rs_result st)"
  using hasMatching_count [OF assms] by (simp add: rendezvous_return_def Let_def)

lemma barrier_complete:
  assumes "sorted_wrt (<) (keys m)" "set (keys m) \<subseteq> set g" "distinct g"
  shows "length m = length g \<longleftrightarrow> set (keys m) = set g"
proof -
  have "length m = card (set (keys m))" "length g = card (set g)"
    using assms sorted_keys_length distinct_card by fastforce+
  then show ?thesis using assms(2) by (metis List.finite_set card_subset_eq)
qed

text \<open>A call of a process that has not called yet.\<close>

lemma barrier_inv_call:
  assumes inv: "barrier_inv g s" and ok: "sys_failure s = None" and g: "distinct g" "1 < length g" "p \<in> set g"
    and new: "p \<notin> set (keys (calls (sys_log s)))"
    and m: "m = results_insert p v (rs_values (sys_state s))"
  shows "sorted_wrt (<) (keys m)" "map_of m = map_of ((p, v) # calls (sys_log s))"
    "set (keys m) = insert p (set (keys (calls (sys_log s))))" "length m \<le> length g"
    "length m = length g \<longleftrightarrow> insert p (set (keys (calls (sys_log s)))) = set g" "m \<noteq> []"
proof -
  let ?vs = "rs_values (sys_state s)"
  have vs: "sorted_wrt (<) (keys ?vs)" "map_of ?vs = map_of (calls (sys_log s))"
    "set (keys (calls (sys_log s))) \<subseteq> set g"
    using inv ok by (simp_all add: barrier_inv_def Let_def)
  show m1: "sorted_wrt (<) (keys m)" unfolding m by (rule keys_insert_sorted [OF vs(1)])
  show "map_of m = map_of ((p, v) # calls (sys_log s))" unfolding m by (simp add: map_of_results_insert vs)
  show m3: "set (keys m) = insert p (set (keys (calls (sys_log s))))"
    unfolding m keys_insert_set barrier_inv_keys [OF vs(2)] ..
  have sub: "set (keys m) \<subseteq> set g" using m3 vs(3) g(3) by simp
  then show "length m \<le> length g"
    using sorted_keys_length [OF m1] distinct_card [OF g(1)] card_mono by fastforce
  show "length m = length g \<longleftrightarrow> insert p (set (keys (calls (sys_log s)))) = set g"
    using barrier_complete [OF m1 sub g(1)] m3 by simp
  show "m \<noteq> []" using m3 by auto
qed

text \<open>What the three outcomes of a call mean.\<close>

definition contributed :: "ProcessId \<Rightarrow> 'v list \<Rightarrow> 'v RendezvousState \<Rightarrow> 'v RendezvousState" where
  "contributed p v st = st\<lparr>rs_values := results_insert p v (rs_values st), rs_useCount := rs_useCount st + 1\<rparr>"

lemma contributed_simps [simp]:
  "rs_values (contributed p v st) = results_insert p v (rs_values st)"
  "rs_useCount (contributed p v st) = rs_useCount st + 1"
  by (simp_all add: contributed_def)

lemma rendezvous_call_unfold:
  "1 < length g \<Longrightarrow> rendezvous_call g p v st =
     (if length (results_insert p v (rs_values st)) < length g then Inr (contributed p v st, Waits)
      else rbind (rendezvous_return ((contributed p v st)\<lparr>rs_result := results_insert p v (rs_values st)\<rparr>))
             (\<lambda>(st', r). Inr (st', Returns r)))"
  by (simp add: rendezvous_call_def Let_def contributed_def)

lemma barrier_inv_call_waits:
  assumes "barrier_inv g s" "sys_failure s = None" "distinct g" "1 < length g" "p \<in> set g" "p \<notin> set (sys_waiting s)"
    and call: "rendezvous_call g p v (sys_state s) = Inr (st, Waits)"
    and new: "p \<notin> set (keys (calls (sys_log s)))"
  shows "barrier_inv g (s\<lparr>sys_state := st, sys_waiting := p # sys_waiting s, sys_log := Call p v # sys_log s\<rparr>)"
proof -
  note facts = barrier_inv_call [OF assms(1-5) new refl, of v]
  have "st = contributed p v (sys_state s)" "length (results_insert p v (rs_values (sys_state s))) < length g"
    using call assms(4) by (auto simp: rendezvous_call_unfold split: if_splits elim!: rbind_InrE)
  then show ?thesis using assms(1,2,5,6) facts by (auto simp: barrier_inv_def Let_def)
qed

lemma barrier_inv_call_returns:
  assumes "barrier_inv g s" "sys_failure s = None" "distinct g" "1 < length g" "p \<in> set g" "p \<notin> set (sys_waiting s)"
    and call: "rendezvous_call g p v (sys_state s) = Inr (st, Returns r)"
    and new: "p \<notin> set (keys (calls (sys_log s)))"
  shows "barrier_inv g (s\<lparr>sys_state := st, sys_log := Return p r # Call p v # sys_log s\<rparr>)"
proof -
  let ?m = "results_insert p v (rs_values (sys_state s))"
  note facts = barrier_inv_call [OF assms(1-5) new refl, of v]
  have full: "length ?m = length g"
    and ret: "rendezvous_return ((contributed p v (sys_state s))\<lparr>rs_result := ?m\<rparr>) = Inr (st, r)"
    using call assms(4) facts(4) by (auto simp: rendezvous_call_unfold split: if_splits elim!: rbind_InrE)
  have st: "r = ?m" "rs_values st = ?m" "rs_useCount st = rs_useCount (sys_state s)"
    "0 < rs_useCount st \<Longrightarrow> rs_result st = ?m"
    using rendezvous_return_Inr [OF ret] by simp_all
  then show ?thesis using assms(1,2,5,6) facts full by (auto simp: barrier_inv_def Let_def)
qed

lemma barrier_inv_call_fails:
  assumes "barrier_inv g s" "sys_failure s = None" "distinct g" "1 < length g" "p \<in> set g"
    and call: "rendezvous_call g p v (sys_state s) = Inl e"
    and new: "p \<notin> set (keys (calls (sys_log s)))"
  shows "barrier_inv g (s\<lparr>sys_log := Call p v # sys_log s, sys_failure := Some e\<rparr>)"
proof -
  let ?m = "results_insert p v (rs_values (sys_state s))"
  have "rendezvous_return ((contributed p v (sys_state s))\<lparr>rs_result := ?m\<rparr>) = Inl e"
    using call assms(4) by (auto simp: rendezvous_call_unfold rbind_def split: if_splits sum.splits)
  from rendezvous_return_Inl [OF this] have "e = Fatal ''Mismatched number of operands per process''"
    using barrier_inv_call(6) [OF assms(1-5) new refl, of v] by simp
  then show ?thesis using assms(1,2,5) by (auto simp: barrier_inv_def Let_def)
qed

lemma barrier_inv_ready:
  assumes "barrier_inv g s" "sys_failure s = None" "distinct g" "1 < length g" "p \<in> set (sys_waiting s)"
    "rendezvous_ready g (sys_state s)"
  shows "set (keys (calls (sys_log s))) = set g" "rs_result (sys_state s) = rs_values (sys_state s)"
    "rs_result (sys_state s) \<noteq> []"
proof -
  let ?m = "rs_values (sys_state s)"
  have m: "sorted_wrt (<) (keys ?m)" "map_of ?m = map_of (calls (sys_log s))" "set (keys (calls (sys_log s))) \<subseteq> set g"
    using assms(1,2) by (simp_all add: barrier_inv_def Let_def)
  show all: "set (keys (calls (sys_log s))) = set g"
    using barrier_complete [OF m(1) _ assms(3)] m(3) assms(6) barrier_inv_keys [OF m(2)]
    by (simp add: rendezvous_ready_def)
  have "sys_waiting s \<noteq> []" using assms(5) by auto
  then show res: "rs_result (sys_state s) = ?m" using assms(1,2) all by (simp add: barrier_inv_def Let_def)
  show "rs_result (sys_state s) \<noteq> []" using assms(4,6) unfolding res rendezvous_ready_def by auto
qed

lemma barrier_inv_wakes:
  assumes "barrier_inv g s" "sys_failure s = None" "distinct g" "1 < length g" "p \<in> set (sys_waiting s)"
    and ready: "rendezvous_ready g (sys_state s)" and ret: "rendezvous_return (sys_state s) = Inr (st, r)"
  shows "barrier_inv g (s\<lparr>sys_state := st, sys_waiting := remove1 p (sys_waiting s), sys_log := Return p r # sys_log s\<rparr>)"
proof -
  note facts = barrier_inv_ready [OF assms(1-5) ready]
  note st = rendezvous_return_Inr [OF ret]
  have inv: "sorted_wrt (<) (keys (rs_values (sys_state s)))" "map_of (rs_values (sys_state s)) = map_of (calls (sys_log s))"
    "rs_useCount (sys_state s) = length (sys_waiting s)" "distinct (sys_waiting s)"
    "set (sys_waiting s) \<union> set (returners (sys_log s)) = set (keys (calls (sys_log s)))" "returns_ok g (sys_log s)"
    using assms(1,2) by (simp_all add: barrier_inv_def Let_def)
  have "rs_useCount st = length (remove1 p (sys_waiting s))" using st(3) inv(3) assms(5) by (simp add: length_remove1)
  moreover have "remove1 p (sys_waiting s) \<noteq> [] \<Longrightarrow> rs_result st = rs_values st"
    using st(2,4) facts(2) calculation by simp
  moreover have "set (remove1 p (sys_waiting s)) \<union> set (p # returners (sys_log s)) = set (keys (calls (sys_log s)))"
    using inv(4,5) assms(5) by auto
  moreover have "set (keys r) = set g" using barrier_inv_keys [OF inv(2)] facts st(1) by simp
  ultimately show ?thesis using inv st(1,2) facts assms(2) by (simp add: barrier_inv_def Let_def)
qed

lemma barrier_inv_step:
  assumes "rendezvous_step g s t" "first_use s \<Longrightarrow> barrier_inv g s" "distinct g" "1 < length g" "first_use t"
  shows "barrier_inv g t"
  using assms(1)
proof cases
  case (call_waits p v st)
  then show ?thesis using assms by (auto simp: first_use_def intro!: barrier_inv_call_waits)
next
  case (call_returns p v st r)
  then show ?thesis using assms by (auto simp: first_use_def intro!: barrier_inv_call_returns)
next
  case (call_fails p v e)
  then show ?thesis using assms by (auto simp: first_use_def intro!: barrier_inv_call_fails)
next
  case (wakes p st r)
  then show ?thesis using assms by (auto simp: first_use_def intro!: barrier_inv_wakes)
next
  case (wake_fails p e)
  then have inv: "barrier_inv g s" using assms by (simp add: first_use_def)
  from wake_fails rendezvous_return_Inl barrier_inv_ready(3) [OF inv wake_fails(2) assms(3,4) wake_fails(3,4)]
  have "e = Fatal ''Mismatched number of operands per process''" by blast
  then show ?thesis using inv wake_fails(1,2) by (simp add: barrier_inv_def Let_def)
next
  case (times_out p)
  then show ?thesis using assms by (auto simp: first_use_def barrier_inv_def Let_def)
qed

lemma barrier_inv_reachable:
  assumes "rendezvous_reachable g s" "distinct g" "1 < length g" "first_use s"
  shows "barrier_inv g s"
  using assms(1,4) unfolding rendezvous_reachable_def
proof (induction rule: rtranclp_induct)
  case base show ?case by (rule barrier_inv_init)
next
  case (step s t) then show ?case using barrier_inv_step [of g s t] assms(2,3) by blast
qed

section \<open>Completion\<close>

lemma barrier_inv_values:
  assumes "barrier_inv g s" "first_use s" "sys_failure s = None"
  shows "set (rs_values (sys_state s)) = set (calls (sys_log s))"
proof -
  have "sorted_wrt (<) (keys (rs_values (sys_state s)))" "map_of (rs_values (sys_state s)) = map_of (calls (sys_log s))"
    using assms(1,3) by (simp_all add: barrier_inv_def Let_def)
  then show ?thesis
    using assms(2) sorted_keys_distinct map_of_inject_set unfolding first_use_def by metis
qed

lemma results_insert_subset: "set (results_insert p v m) \<subseteq> insert (p, v) (set m)"
  by (induction p v m rule: results_insert.induct) auto

text \<open>
  The states a completion runs through: no error so far, no process called twice, and every process contributed \<open>k\<close>
  tensors.
\<close>

definition on_track :: "ProcessGroup \<Rightarrow> nat \<Rightarrow> 'v RendezvousSystem \<Rightarrow> bool" where
  "on_track g k s \<longleftrightarrow> barrier_inv g s \<and> sys_failure s = None \<and> first_use s \<and> operand_counts k (calls (sys_log s))"

lemma call_progress:
  fixes s :: "'v RendezvousSystem" and v :: "'v list"
  assumes "on_track g k s" "distinct g" "1 < length g" "p \<in> set g" "p \<notin> set (keys (calls (sys_log s)))" "length v = k"
  obtains t where "rendezvous_step g s t" "on_track g k t" "set (keys (calls (sys_log t))) = insert p (set (keys (calls (sys_log s))))"
proof -
  let ?st = "sys_state s" and ?m = "results_insert p v (rs_values (sys_state s))"
  have inv: "barrier_inv g s" and ok: "sys_failure s = None" and first: "first_use s"
    and cnt: "operand_counts k (calls (sys_log s))"
    using assms(1) by (simp_all add: on_track_def)
  have idle: "p \<notin> set (sys_waiting s)" using inv ok assms(5) by (auto simp: barrier_inv_def Let_def)
  have "operand_counts k ?m"
    using results_insert_subset [of p v "rs_values ?st"] cnt assms(6) barrier_inv_values [OF inv first ok]
    by (fastforce simp: operand_counts_def)
  then have "\<exists>st'. rendezvous_return ((contributed p v ?st)\<lparr>rs_result := ?m\<rparr>) = Inr (st', ?m)"
    using rendezvous_return_matching [of "(contributed p v ?st)\<lparr>rs_result := ?m\<rparr>" k]
      barrier_inv_call(6) [OF inv ok assms(2-5) refl, of v] by simp
  then have "\<exists>st o'. rendezvous_call g p v ?st = Inr (st, o')"
    using assms(3) by (auto simp: rendezvous_call_unfold)
  then obtain st o' where call: "rendezvous_call g p v ?st = Inr (st, o')" by blast
  have "\<exists>t. rendezvous_step g s t \<and> sys_failure t = None \<and> calls (sys_log t) = (p, v) # calls (sys_log s)"
  proof (cases o')
    case Waits then show ?thesis using rendezvous_step.call_waits [OF ok assms(4) idle] call ok by fastforce
  next
    case (Returns r) then show ?thesis using rendezvous_step.call_returns [OF ok assms(4) idle] call ok by fastforce
  qed
  then obtain t where t: "rendezvous_step g s t" "sys_failure t = None" "calls (sys_log t) = (p, v) # calls (sys_log s)"
    by blast
  moreover have "first_use t" using t(3) first assms(5) by (simp add: first_use_def)
  moreover have "barrier_inv g t" using barrier_inv_step [OF t(1) inv assms(2,3) \<open>first_use t\<close>] .
  moreover have "operand_counts k (calls (sys_log t))" using t(3) cnt assms(6) by (simp add: operand_counts_def)
  ultimately show ?thesis by (intro that [of t]) (simp_all add: on_track_def)
qed

lemma wake_progress:
  assumes "on_track g k s" "distinct g" "1 < length g" "p \<in> set (sys_waiting s)" "set (keys (calls (sys_log s))) = set g"
  obtains t where "rendezvous_step g s t" "on_track g k t" "calls (sys_log t) = calls (sys_log s)"
    "sys_waiting t = remove1 p (sys_waiting s)"
proof -
  let ?m = "rs_values (sys_state s)"
  have inv: "barrier_inv g s" and ok: "sys_failure s = None" and first: "first_use s"
    and cnt: "operand_counts k (calls (sys_log s))"
    using assms(1) by (simp_all add: on_track_def)
  have m: "sorted_wrt (<) (keys ?m)" "map_of ?m = map_of (calls (sys_log s))"
    using inv ok by (simp_all add: barrier_inv_def Let_def)
  have "set (keys ?m) = set g" using barrier_inv_keys [OF m(2)] assms(5) by simp
  then have ready: "rendezvous_ready g (sys_state s)"
    using barrier_complete [OF m(1) _ assms(2)] by (simp add: rendezvous_ready_def)
  note facts = barrier_inv_ready [OF inv ok assms(2-4) ready]
  have "operand_counts k (rs_result (sys_state s))"
    using cnt barrier_inv_values [OF inv first ok] facts(2) by (simp add: operand_counts_def)
  from rendezvous_return_matching [OF facts(3) this]
  obtain st where ret: "rendezvous_return (sys_state s) = Inr (st, rs_result (sys_state s))" by blast
  let ?t = "s\<lparr>sys_state := st, sys_waiting := remove1 p (sys_waiting s), sys_log := Return p (rs_result (sys_state s)) # sys_log s\<rparr>"
  have step: "rendezvous_step g s ?t" by (rule rendezvous_step.wakes [OF ok assms(4) ready ret])
  have first': "first_use ?t" using first by (simp add: first_use_def)
  have "on_track g k ?t"
    using barrier_inv_step [OF step inv assms(2,3) first'] first' ok cnt by (simp add: on_track_def)
  with step show ?thesis by (intro that [of ?t]) simp_all
qed

lemma all_wake:
  assumes "on_track g k s" "distinct g" "1 < length g" "set (keys (calls (sys_log s))) = set g"
  shows "\<exists>t. (rendezvous_step g)\<^sup>*\<^sup>* s t \<and> on_track g k t \<and> calls (sys_log t) = calls (sys_log s) \<and> sys_waiting t = []"
  using assms(1,4)
proof (induction "length (sys_waiting s)" arbitrary: s)
  case 0 then show ?case by auto
next
  case (Suc n)
  then obtain p where p: "p \<in> set (sys_waiting s)" by (cases "sys_waiting s") auto
  obtain t where t: "rendezvous_step g s t" "on_track g k t" "calls (sys_log t) = calls (sys_log s)"
    "sys_waiting t = remove1 p (sys_waiting s)"
    using wake_progress [OF Suc.prems(1) assms(2,3) p Suc.prems(2)] by blast
  then have "n = length (sys_waiting t)" using Suc.hyps(2) p by (simp add: length_remove1)
  from Suc.hyps(1) [OF this t(2)] t Suc.prems(2) show ?case by (metis converse_rtranclp_into_rtranclp)
qed

lemma all_call:
  fixes s :: "'v RendezvousSystem" and ops :: "ProcessId \<Rightarrow> 'v list"
  assumes "on_track g k s" "distinct g" "1 < length g" "\<And>p. length (ops p) = k"
  shows "\<exists>t. (rendezvous_step g)\<^sup>*\<^sup>* s t \<and> on_track g k t \<and> set (keys (calls (sys_log t))) = set g"
  using assms(1)
proof (induction "card (set g - set (keys (calls (sys_log s))))" arbitrary: s)
  case 0
  then have "set (keys (calls (sys_log s))) = set g" by (auto simp: on_track_def barrier_inv_def Let_def)
  with 0 show ?case by auto
next
  case (Suc n)
  then obtain p where p: "p \<in> set g" "p \<notin> set (keys (calls (sys_log s)))"
    by (metis card_eq_0_iff Diff_iff ex_in_conv nat.distinct(1))
  obtain t where t: "rendezvous_step g s t" "on_track g k t"
    "set (keys (calls (sys_log t))) = insert p (set (keys (calls (sys_log s))))"
    using call_progress [OF Suc.prems assms(2,3) p assms(4)] by blast
  have "n = card (set g - set (keys (calls (sys_log t))))"
    unfolding t(3) using Suc.hyps(2) p by (metis Diff_insert card_Diff_singleton Diff_iff diff_Suc_1)
  from Suc.hyps(1) [OF this t(2)] t(1) show ?case by (metis converse_rtranclp_into_rtranclp)
qed

section \<open>Groups\<close>

lemma findGroup_unique:
  assumes "distinct (concat gs)" "g \<in> set gs" "p \<in> set g"
  shows "findGroup gs p = Some g"
proof (cases "findGroup gs p")
  case None then show ?thesis using assms by (auto simp: findGroup_None)
next
  case (Some h) then show ?thesis using findGroup_Some [OF Some] distinct_concat_unique [OF assms(1,2) _ assms(3)] by auto
qed

text \<open>
  Every process finds its group. If the groups of identifiers are disjoint, \<open>findGroup\<close> on the groups of a strategy
  returns the group the strategy means: for \<open>cross_replica\<close> the replicas of the group in the process's own partition, for
  \<open>cross_partition\<close> the partitions of the group in its own replica, for \<open>cross_replica_and_partition\<close> all partitions of all
  replicas of the group, for \<open>flattened_ids\<close> the processes whose numbers are in the group.
\<close>

theorem strategies_find_group:
  assumes disjoint: "distinct (concat groups)" and g: "g \<in> set groups" "i \<in> set g"
  shows "(j < n \<longrightarrow> findGroup (crossReplica n groups) (ProcessId i j) = Some (map (\<lambda>r. ProcessId r j) g)) \<and>
    (j < n \<longrightarrow> findGroup (crossPartition n groups) (ProcessId j i) = Some (map (ProcessId j) g)) \<and>
    (j < n \<longrightarrow> findGroup (crossReplicaAndPartition n groups) (ProcessId i j) =
       Some (concat (map (\<lambda>p. map (\<lambda>r. ProcessId r p) g) [0..<n]))) \<and>
    (0 < n \<longrightarrow> (\<exists>gs. flattenedIds n groups = Inr gs \<and>
       findGroup gs (ProcessId (i div n) (i mod n)) = Some (map (\<lambda>x. ProcessId (x div n) (x mod n)) g)))"
proof (intro conjI impI)
  assume j: "j < n"
  show "findGroup (crossReplica n groups) (ProcessId i j) = Some (map (\<lambda>r. ProcessId r j) g)"
    using j g by (intro findGroup_unique crossReplica_distinct [OF disjoint]) (fastforce simp: crossReplica_def)+
  show "findGroup (crossPartition n groups) (ProcessId j i) = Some (map (ProcessId j) g)"
    using j g by (intro findGroup_unique crossPartition_distinct [OF disjoint]) (fastforce simp: crossPartition_def)+
  have "distinct (concat (crossReplicaAndPartition n groups))"
    using crossReplica_distinct [OF disjoint] by (simp add: concat_crossReplicaAndPartition)
  then show "findGroup (crossReplicaAndPartition n groups) (ProcessId i j) =
       Some (concat (map (\<lambda>p. map (\<lambda>r. ProcessId r p) g) [0..<n]))"
    using j g by (intro findGroup_unique) (auto simp: crossReplicaAndPartition_def)
next
  assume n: "0 < n"
  define gs where "gs = map (map (\<lambda>x. ProcessId (x div n) (x mod n))) groups"
  have gs: "flattenedIds n groups = Inr gs" using n by (simp add: flattenedIds_def gs_def)
  then have "findGroup gs (ProcessId (i div n) (i mod n)) = Some (map (\<lambda>x. ProcessId (x div n) (x mod n)) g)"
    using g by (intro findGroup_unique flattenedIds_distinct [OF n disjoint gs]) (auto simp: gs_def)
  with gs show "\<exists>gs. flattenedIds n groups = Inr gs \<and>
       findGroup gs (ProcessId (i div n) (i mod n)) = Some (map (\<lambda>x. ProcessId (x div n) (x mod n)) g)" by blast
qed

section \<open>The barrier\<close>

lemma barrier_returns:
  assumes "rendezvous_reachable g s" "distinct g" "1 < length g" "first_use s"
    and log: "sys_log s = later @ Return p r # earlier"
  shows "map fst r = sort g \<and> (\<forall>q \<in> set g. Call q (results_lookup r q) \<in> set earlier)"
proof -
  have "returns_ok g (sys_log s)"
    using barrier_inv_reachable [OF assms(1-4)] by (simp add: barrier_inv_def Let_def)
  then have "returns_ok g (Return p r # earlier)" unfolding log by (rule returns_ok_append)
  then have r: "map_of r = map_of (calls earlier)" "sorted_wrt (<) (keys r)" "set (keys r) = set g" by simp_all
  have "Call q (results_lookup r q) \<in> set earlier" if "q \<in> set g" for q
    using results_lookup_iff [of q r] that r(1,3) map_of_SomeD calls_iff by metis
  with keys_eq_sort [OF r(2,3) assms(2)] show ?thesis by blast
qed

text \<open>
  C18: \<open>rendezvous\<close> is a barrier and all processes agree. In every execution in which no process calls twice, before a call
  returns all processes of the group have called, and the call returns the operands each of them contributed, sorted by
  process identifier.
\<close>

theorem rendezvous_barrier:
  assumes "rendezvous_reachable g s" "distinct g" "1 < length g" "first_use s"
    and log: "sys_log s = later @ Return p r # earlier"
  shows "map fst r = sort g \<and> (\<forall>q \<in> set g. Call q (results_lookup r q) \<in> set earlier)"
  by (rule barrier_returns [OF assms])

text \<open>
  C19: the barrier never gets stuck. From every state without an error in which no process has called twice and every
  process that called contributed \<open>k\<close> tensors, the processes can go on so that all of them return, without an error.
\<close>

theorem rendezvous_completes:
  assumes "rendezvous_reachable g s" "distinct g" "1 < length g" "first_use s" "sys_failure s = None"
    "\<forall>q v. Call q v \<in> set (sys_log s) \<longrightarrow> length v = k"
  shows "\<exists>t. (rendezvous_step g)\<^sup>*\<^sup>* s t \<and> sys_failure t = None \<and> first_use t \<and> sys_waiting t = [] \<and>
    (\<forall>q \<in> set g. \<exists>r. Return q r \<in> set (sys_log t))"
proof -
  have "on_track g k s"
    using assms barrier_inv_reachable [OF assms(1-4)] by (auto simp: on_track_def operand_counts_def calls_iff)
  from all_call [OF this assms(2,3), of "\<lambda>_. replicate k undefined"] obtain t where
    t: "(rendezvous_step g)\<^sup>*\<^sup>* s t" "on_track g k t" "set (keys (calls (sys_log t))) = set g" by auto
  from all_wake [OF t(2) assms(2,3) t(3)] obtain u where
    u: "(rendezvous_step g)\<^sup>*\<^sup>* t u" "on_track g k u" "calls (sys_log u) = calls (sys_log t)" "sys_waiting u = []" by blast
  have "barrier_inv g u" "sys_failure u = None" "first_use u" using u(2) by (simp_all add: on_track_def)
  then have "set (returners (sys_log u)) = set g" using u(3,4) t(3) by (simp add: barrier_inv_def Let_def)
  then show ?thesis
    using t(1) u(1,4) \<open>sys_failure u = None\<close> \<open>first_use u\<close> returners_iff by (metis rtranclp_trans)
qed

text \<open>
  The only errors of the first use of a channel are the time-out and operands that differ in number.
\<close>

theorem rendezvous_errors:
  assumes "rendezvous_reachable g s" "distinct g" "1 < length g" "first_use s" "sys_failure s = Some e"
  shows "e \<in> {Fatal ''rendezvous timed out'', Fatal ''Mismatched number of operands per process''}"
  using barrier_inv_reachable [OF assms(1-4)] assms(5) by (simp add: barrier_inv_def Let_def)

text \<open>
  The second use of a channel is not a barrier. Once every process has called, the next call on the same channel returns
  at once: no other process takes part, and the result holds the operands they contributed to the first use.
\<close>

theorem rendezvous_reuse:
  assumes "rendezvous_reachable g s" "distinct g" "1 < length g" "first_use s" "sys_failure s = None"
    "\<forall>q v. Call q v \<in> set (sys_log s) \<longrightarrow> length v = k" "set (map fst (calls (sys_log s))) = set g"
    "p \<in> set g" "length operands = k"
  shows "\<exists>st r. rendezvous_call g p operands (sys_state s) = Inr (st, Returns r) \<and> results_lookup r p = operands \<and>
    (\<forall>q \<in> set g - {p}. Call q (results_lookup r q) \<in> set (sys_log s))"
proof -
  let ?vs = "rs_values (sys_state s)" and ?m = "results_insert p operands (rs_values (sys_state s))"
  have inv: "barrier_inv g s" by (rule barrier_inv_reachable [OF assms(1-4)])
  have vs: "sorted_wrt (<) (keys ?vs)" "map_of ?vs = map_of (calls (sys_log s))" "set (keys ?vs) = set g"
    using inv assms(5,7) barrier_inv_keys [of ?vs "calls (sys_log s)"] by (simp_all add: barrier_inv_def Let_def)
  have m: "sorted_wrt (<) (keys ?m)" by (rule keys_insert_sorted [OF vs(1)])
  have mg: "set (keys ?m) = set g" unfolding keys_insert_set vs(3) using assms(8) by (rule insert_absorb)
  have mof: "map_of ?m = (map_of (calls (sys_log s)))(p \<mapsto> operands)" using map_of_results_insert [OF vs(1)] vs(2) by simp
  have "\<And>q v. (q, v) \<in> set ?vs \<Longrightarrow> length v = k"
    using barrier_inv_values [OF inv assms(4,5)] assms(6) calls_iff by metis
  then have "operand_counts k ?m"
    using results_insert_subset [of p operands ?vs] assms(9) by (auto simp: operand_counts_def)
  moreover have "?m \<noteq> []" using mg assms(8) by auto
  ultimately have "\<exists>st. rendezvous_return ((contributed p operands (sys_state s))\<lparr>rs_result := ?m\<rparr>) = Inr (st, ?m)"
    using rendezvous_return_matching [of "(contributed p operands (sys_state s))\<lparr>rs_result := ?m\<rparr>" k] by simp
  moreover have "length ?m = length g" using barrier_complete [OF m _ assms(2)] mg by simp
  ultimately have "\<exists>st. rendezvous_call g p operands (sys_state s) = Inr (st, Returns ?m)"
    using assms(3) by (auto simp: rendezvous_call_unfold)
  moreover have "results_lookup ?m p = operands" by (simp add: results_lookup_def mof)
  moreover have "Call q (results_lookup ?m q) \<in> set (sys_log s)" if "q \<in> set g - {p}" for q
    using results_lookup_iff [of q ?m] mg that mof map_of_SomeD calls_iff by (metis DiffE fun_upd_other singletonI)
  ultimately show ?thesis by blast
qed

section \<open>Messages\<close>

definition channel_inv :: "'v Channel \<Rightarrow> bool" where
  "channel_inv c \<longleftrightarrow>
     (let st = ch_state c in
      ch_sent c = ch_received c @ (if sr_result st = [] then [] else [sr_result st]) \<and>
      ch_receiving c = (sr_ready st \<or> sr_result st \<noteq> []) \<and> \<not> (sr_ready st \<and> sr_result st \<noteq> []))"

lemma channel_inv_step:
  assumes "channel_step c d" "[] \<notin> set (ch_sent c) \<Longrightarrow> channel_inv c" "[] \<notin> set (ch_sent d)"
  shows "channel_inv d"
  using assms by (cases rule: channel_step.cases)
    (auto simp: channel_inv_def Let_def recv_arrive_def recv_enabled_def recv_take_def send_enabled_def send_put_def
      split: if_splits)

lemma channel_inv_reachable: "channel_reachable c \<Longrightarrow> [] \<notin> set (ch_sent c) \<Longrightarrow> channel_inv c"
  unfolding channel_reachable_def
proof (induction rule: rtranclp_induct)
  case base show ?case by (simp add: channel_inv_def Channel_init_def)
next
  case (step c d) then show ?case using channel_inv_step [of c d] by blast
qed

lemma deliver_pending:
  assumes "channel_inv c" "ch_failure c = None"
  shows "\<exists>d. channel_step\<^sup>*\<^sup>* c d \<and> ch_failure d = None \<and> sr_ready (ch_state d) \<and> ch_receiving d \<and>
    ch_sent d = ch_sent c \<and> ch_received d = ch_sent c"
proof -
  have idle: "\<exists>d. channel_step b d \<and> ch_failure d = None \<and> sr_ready (ch_state d) \<and> ch_receiving d \<and>
      ch_sent d = ch_sent b \<and> ch_received d = ch_received b" if "ch_failure b = None" "\<not> ch_receiving b" for b :: "'a Channel"
    using recv_calls [OF that] that(1) by (fastforce simp: recv_arrive_def)
  show ?thesis
  proof (cases "sr_result (ch_state c) = []")
    case True
    then show ?thesis
      using assms idle [of c] by (cases "ch_receiving c") (auto simp: channel_inv_def Let_def)
  next
    case False
    then have "ch_receiving c" "recv_enabled (ch_state c)"
      using assms(1) by (simp_all add: channel_inv_def Let_def recv_enabled_def)
    from recv_returns [OF assms(2) this surjective_pairing]
    obtain b where b: "channel_step c b" "ch_failure b = None" "\<not> ch_receiving b" "ch_sent b = ch_sent c" "ch_received b = ch_sent c"
      using assms False by (fastforce simp: channel_inv_def Let_def recv_take_def)
    with idle [OF b(2,3)] show ?thesis by (metis converse_rtranclp_into_rtranclp r_into_rtranclp)
  qed
qed

text \<open>
  C20: messages arrive exactly once and in order. As long as only non-empty lists of tensors are sent, what \<open>recv\<close> has
  returned is what \<open>send\<close> has sent, except for at most one message that is still in the channel.
\<close>

theorem channel_fifo:
  assumes "channel_reachable c" "[] \<notin> set (ch_sent c)"
  shows "ch_sent c = ch_received c @ (if sr_result (ch_state c) = [] then [] else [sr_result (ch_state c)])"
  using channel_inv_reachable [OF assms] by (simp add: channel_inv_def Let_def)

text \<open>
  The channel never gets stuck. From every state without an error, the two processes can go on so that a further
  message is sent and everything sent is received.
\<close>

theorem channel_delivers:
  assumes "channel_reachable c" "[] \<notin> set (ch_sent c)" "ch_failure c = None" "message \<noteq> []"
  shows "\<exists>d. channel_step\<^sup>*\<^sup>* c d \<and> ch_failure d = None \<and> ch_sent d = ch_sent c @ [message] \<and>
    ch_received d = ch_sent c @ [message]"
proof -
  from deliver_pending [OF channel_inv_reachable [OF assms(1,2)] assms(3)]
  obtain b where b: "channel_step\<^sup>*\<^sup>* c b" "ch_failure b = None" "sr_ready (ch_state b)" "ch_receiving b"
    "ch_sent b = ch_sent c" "ch_received b = ch_sent c" by blast
  define d where "d = b\<lparr>ch_state := send_put message (ch_state b), ch_sent := ch_sent b @ [message]\<rparr>"
  have bd: "channel_step b d" unfolding d_def using b(2,3) by (intro send_returns) (simp_all add: send_enabled_def)
  have d: "ch_failure d = None" "ch_receiving d" "recv_enabled (ch_state d)"
    using b assms(4) by (simp_all add: d_def recv_enabled_def send_put_def)
  from recv_returns [OF d surjective_pairing] have "\<exists>e. channel_step d e \<and> ch_failure e = None \<and>
      ch_sent e = ch_sent c @ [message] \<and> ch_received e = ch_sent c @ [message]"
    using b by (fastforce simp: d_def recv_take_def send_put_def)
  with b(1) bd show ?thesis by (meson rtranclp.rtrancl_into_rtrancl)
qed

text \<open>
  An empty message is lost. If \<open>send\<close> sends no tensors, the receiver that waits for it is not woken and the channel
  refuses further messages until another \<open>recv\<close>: the only steps that remain are the time-outs.
\<close>

theorem empty_message_lost:
  assumes "channel_reachable c" "[] \<notin> set (ch_sent c)" "ch_failure c = None" "send_enabled (ch_state c)"
  shows "\<exists>d. channel_step c d \<and> ch_sent d = ch_sent c @ [[]] \<and> ch_failure d = None \<and>
    (\<forall>e. channel_step d e \<longrightarrow> ch_failure e \<in> {Some (Fatal ''recv timed out''), Some (Fatal ''send timed out'')})"
proof -
  let ?d = "c\<lparr>ch_state := send_put [] (ch_state c), ch_sent := ch_sent c @ [[]]\<rparr>"
  have rcv: "ch_receiving c"
    using channel_inv_reachable [OF assms(1,2)] assms(4) by (simp add: channel_inv_def Let_def send_enabled_def)
  have "channel_step ?d e \<Longrightarrow> ch_failure e \<in> {Some (Fatal ''recv timed out''), Some (Fatal ''send timed out'')}" for e
    by (erule channel_step.cases) (auto simp: rcv send_put_def recv_enabled_def send_enabled_def)
  then show ?thesis using send_returns [OF assms(3,4), of "[]"] assms(3)
    by (intro exI [of _ ?d] conjI) simp_all
qed

section \<open>Infeed\<close>

text \<open>A source of items that are taken in order, and the items that a number of reads returns.\<close>

fun reads :: "('q \<Rightarrow> ('q \<times> 'a) result) \<Rightarrow> nat \<Rightarrow> 'q \<Rightarrow> ('q \<times> 'a list) result" where
  "reads pop 0 q = Inr (q, [])"
| "reads pop (Suc n) q = rbind (pop q) (\<lambda>(q1, x). rbind (reads pop n q1) (\<lambda>(q2, xs). Inr (q2, x # xs)))"

locale fifo_source =
  fixes pop :: "'q \<Rightarrow> ('q \<times> 'a) result" and items :: "'q \<Rightarrow> 'a list" and rest :: "'a list \<Rightarrow> 'q \<Rightarrow> 'q" and bad :: error
  assumes pop_empty: "items q = [] \<Longrightarrow> pop q = Inl bad"
    and pop_first: "items q = x # xs \<Longrightarrow> pop q = Inr (rest xs q, x)"
    and items_rest: "items (rest xs q) = xs"
    and rest_rest: "rest xs (rest ys q) = rest xs q"
    and rest_same: "rest (items q) q = q"
begin

lemma reads_in_order: "n \<le> length (items q) \<Longrightarrow> reads pop n q = Inr (rest (drop n (items q)) q, take n (items q))"
proof (induction n arbitrary: q)
  case (Suc n)
  then obtain x xs where q: "items q = x # xs" by (cases "items q") auto
  with Suc.IH [of "rest xs q"] Suc.prems show ?case by (simp add: pop_first [OF q] items_rest rest_rest)
qed (simp add: rest_same)

lemma reads_too_many: "length (items q) < n \<Longrightarrow> reads pop n q = Inl bad"
proof (induction n arbitrary: q)
  case (Suc n)
  then show ?case by (cases "items q") (simp_all add: pop_empty pop_first items_rest)
qed simp

end

interpretation queue: fifo_source queue_pop id "\<lambda>xs q. xs" "UB ''front of an empty queue''"
  by unfold_locales (auto simp: queue_pop_def)

interpretation grid_infeed: fifo_source infeed pg_infeed "\<lambda>xs. pg_infeed_update (\<lambda>_. xs)" "UB ''front of an empty queue''"
  by unfold_locales (auto simp: infeed_def queue_pop_def)

text \<open>
  \<open>infeed\<close> returns the strings of the queue in order, leaves the rest of the grid alone, and is undefined when the queue
  has run out.
\<close>

theorem infeed_in_order:
  "reads infeed n grid =
     (if n \<le> length (pg_infeed grid) then Inr (grid\<lparr>pg_infeed := drop n (pg_infeed grid)\<rparr>, take n (pg_infeed grid))
      else Inl (UB ''front of an empty queue''))"
  by (simp add: grid_infeed.reads_in_order grid_infeed.reads_too_many)

end
