(* ===== verification/Region_Correct.thy ===== *)
theory Region_Correct
  imports Ops_Region Slice_Correct
begin

text \<open>
  The operations that evaluate regions, relative to what the region computes: \<open>reduce\<close> is a fold in iteration order, \<open>map\<close>
  is pointwise, and \<open>while\<close> is iteration, which returns exactly when the condition becomes false.
\<close>

section \<open>Scalars passed to regions\<close>

abbreviation scalar_type :: "Type \<Rightarrow> ShapedType" where
  "scalar_type t \<equiv> \<lparr>getShape = [], getElementType = t\<rparr>"

definition holds_scalar :: "('f, 'd) float_api \<Rightarrow> Type \<Rightarrow> 'f Element \<Rightarrow> InterpreterValue \<Rightarrow> bool" where
  "holds_scalar F ty e v \<longleftrightarrow> (\<exists>t. v = TensorValue t \<and> t_type t = scalar_type ty \<and> denotes F t (\<lambda>_. e))"

definition holds_scalars :: "('f, 'd) float_api \<Rightarrow> Type list \<Rightarrow> 'f Element list \<Rightarrow> InterpreterValue list \<Rightarrow> bool" where
  "holds_scalars F tys es vs \<longleftrightarrow> length es = length tys \<and> length vs = length tys \<and>
     (\<forall>k < length tys. holds_scalar F (tys ! k) (es ! k) (vs ! k))"

lemma holds_scalars_append:
  "holds_scalars F tys es vs \<Longrightarrow> holds_scalars F tys' es' vs' \<Longrightarrow> holds_scalars F (tys @ tys') (es @ es') (vs @ vs')"
  by (auto simp: holds_scalars_def nth_append)

lemma scalar_result_holds:
  assumes "holds_scalar F ty e v"
  shows "scalar_result F v = Inr e" "storable F ty e"
proof -
  obtain t where t: "v = TensorValue t" "t_type t = scalar_type ty" "denotes F t (\<lambda>_. e)"
    using assms by (auto simp: holds_scalar_def)
  then show "scalar_result F v = Inr e" "storable F ty e"
    using denotes_get [OF t(3), of "[]"] denotes_storable [OF t(3), of "[]"] by (simp_all add: scalar_result_def)
qed

text \<open>The region maps scalars of the types \<open>tys\<close> to scalars of the types \<open>rtys\<close> and computes \<open>f\<close>.\<close>

definition region_computes ::
  "('f, 'd) float_api \<Rightarrow> Type list \<Rightarrow> Type list \<Rightarrow> body \<Rightarrow> ('f Element list \<Rightarrow> 'f Element list) \<Rightarrow> bool" where
  "region_computes F tys rtys region f \<longleftrightarrow>
     (\<forall>es vs. holds_scalars F tys es vs \<longrightarrow> (\<exists>rs. region vs = Inr rs \<and> holds_scalars F rtys (f es) rs))"

lemma region_computesD:
  "region_computes F tys rtys region f \<Longrightarrow> holds_scalars F tys es vs \<Longrightarrow> \<exists>rs. region vs = Inr rs \<and> holds_scalars F rtys (f es) rs"
  by (simp add: region_computes_def)

lemma splat_holds:
  assumes "getElementSizeInBytes ty = Inr n" "0 < n" "storable F ty e"
  shows "\<exists>t. makeSplat F (scalar_type ty) e = Inr t \<and> holds_scalar F ty e (TensorValue t)"
proof -
  have "wf_type (scalar_type ty)" using assms(1,2) by (simp add: wf_type_def)
  from makeSplat_denotes [OF this] assms(3) show ?thesis by (auto simp: holds_scalar_def)
qed

section \<open>Several tensors of one shape\<close>

definition denotes_all ::
  "('f, 'd) float_api \<Rightarrow> Sizes \<Rightarrow> Type list \<Rightarrow> Tensor list \<Rightarrow> (Index \<Rightarrow> 'f Element list) \<Rightarrow> bool" where
  "denotes_all F shape tys ts g \<longleftrightarrow> length ts = length tys \<and>
     (\<forall>k < length tys. t_type (ts ! k) = \<lparr>getShape = shape, getElementType = tys ! k\<rparr> \<and> denotes F (ts ! k) (\<lambda>i. g i ! k))"

lemma denotes_update:
  assumes "denotes F t g" "inBounds i (t_shape t)" "storable F (t_elementType t) e"
  shows "\<exists>t'. Tensor_set F t i e = Inr t' \<and> t_type t' = t_type t \<and> denotes F t' (g(i := e))"
proof -
  have wf: "wf_tensor t" using assms(1) by (rule denotes_wf)
  obtain t' where t': "Tensor_set F t i e = Inr t'" "wf_tensor t'" "t_type t' = t_type t"
    using Tensor_set_ok [OF wf assms(2,3)] by blast
  have "Tensor_get F t' j = Inr ((g(i := e)) j) \<and> storable F (t_elementType t) ((g(i := e)) j)" if "inBounds j (t_shape t)" for j
    using Tensor_get_set_same [OF wf assms(2,3) t'(1)] Tensor_get_set_other [OF wf assms(2,3) t'(1) that]
      denotes_get [OF assms(1) that] denotes_storable [OF assms(1) that] assms(3)
    by (cases "j = i") auto
  with t' show ?thesis by (auto simp: denotes_def)
qed

lemma set_results_denotes:
  assumes rs: "denotes_all F shape tys results g" and vs: "holds_scalars F tys es vs" and i: "inBounds i shape"
  shows "\<exists>rs'. set_results F i results vs = Inr rs' \<and> denotes_all F shape tys rs' (g(i := es))"
proof -
  have len: "length results = length tys" "length vs = length tys" using rs vs by (auto simp: denotes_all_def holds_scalars_def)
  have "\<exists>t'. rbind (scalar_result F (vs ! k)) (Tensor_set F (results ! k) i) = Inr t' \<and>
      t_type t' = \<lparr>getShape = shape, getElementType = tys ! k\<rparr> \<and> denotes F t' (\<lambda>j. (g(i := es)) j ! k)"
    if k: "k < length tys" for k
  proof -
    have e: "scalar_result F (vs ! k) = Inr (es ! k)" "storable F (tys ! k) (es ! k)"
      using scalar_result_holds [of F "tys ! k" "es ! k" "vs ! k"] vs k by (simp_all add: holds_scalars_def)
    have "(\<lambda>j. (g(i := es)) j ! k) = (\<lambda>j. g j ! k)(i := es ! k)" by auto
    then show ?thesis
      using denotes_update [of F "results ! k" "\<lambda>j. g j ! k" i "es ! k"] rs k i e by (simp add: denotes_all_def)
  qed
  then obtain t' where t': "\<And>k. k < length tys \<Longrightarrow> rbind (scalar_result F (vs ! k)) (Tensor_set F (results ! k) i) = Inr (t' k) \<and>
      t_type (t' k) = \<lparr>getShape = shape, getElementType = tys ! k\<rparr> \<and> denotes F (t' k) (\<lambda>j. (g(i := es)) j ! k)"
    by metis
  have "mapM (\<lambda>(result, v). rbind (scalar_result F v) (Tensor_set F result i)) (zip results vs) = Inr (map t' [0..<length tys])"
    using len t' by (simp add: mapM_eq_Inr)
  then show ?thesis using len t' by (simp add: set_results_def denotes_all_def)
qed

lemma reduce_args_holds:
  assumes ts: "denotes_all F shape tys ts g" and i: "inBounds i shape"
    and inits: "length initValues = length tys" "\<And>k. k < length tys \<Longrightarrow> t_type (initValues ! k) = scalar_type (tys ! k)"
  shows "\<exists>vs. reduce_args F ts i initValues = Inr vs \<and> holds_scalars F tys (map (\<lambda>k. g i ! k) [0..<length tys]) vs"
proof -
  have "\<exists>t'. rbind (Tensor_get F (ts ! k) i) (\<lambda>e. rbind (makeSplat F (t_type (initValues ! k)) e) (\<lambda>v. Inr (TensorValue v))) =
      Inr t' \<and> holds_scalar F (tys ! k) (g i ! k) t'" if k: "k < length tys" for k
  proof -
    have d: "denotes F (ts ! k) (\<lambda>i. g i ! k)" "t_shape (ts ! k) = shape" "t_elementType (ts ! k) = tys ! k"
      using ts k by (auto simp: denotes_all_def)
    obtain n where "getElementSizeInBytes (tys ! k) = Inr n" "0 < n" using denotes_wf [OF d(1)] d(3) by (auto simp: wf_tensor_def)
    from splat_holds [OF this] denotes_storable [OF d(1)] denotes_get [OF d(1)] i d inits(2) [OF k] show ?thesis by fastforce
  qed
  then obtain t' where t': "\<And>k. k < length tys \<Longrightarrow> rbind (Tensor_get F (ts ! k) i) (\<lambda>e. rbind (makeSplat F (t_type (initValues ! k)) e) (\<lambda>v. Inr (TensorValue v))) =
      Inr (t' k) \<and> holds_scalar F (tys ! k) (g i ! k) (t' k)" by metis
  have "length ts = length tys" using ts by (simp add: denotes_all_def)
  then have "reduce_args F ts i initValues = Inr (map t' [0..<length tys])"
    using t' inits(1) by (simp add: reduce_args_def mapM_eq_Inr)
  with t' show ?thesis by (auto simp: holds_scalars_def)
qed

section \<open>Reduce\<close>

text \<open>What \<open>reduce\<close> computes at an index of the result: the fold over the input indices that it keeps, in iteration order.\<close>

definition reduced ::
  "('f Element list \<Rightarrow> 'f Element list) \<Rightarrow> 'f Element list \<Rightarrow> (Index \<Rightarrow> 'f Element list) \<Rightarrow> Axes \<Rightarrow> Index list \<Rightarrow> Index \<Rightarrow>
   'f Element list" where
  "reduced f init xs dims indices j =
     foldl (\<lambda>acc i. f (acc @ xs i)) init (filter (\<lambda>i. drop_dims dims 0 i = j) indices)"

definition reduce_step ::
  "('f, 'd) float_api \<Rightarrow> Tensor list \<Rightarrow> Tensor list \<Rightarrow> Axes \<Rightarrow> body \<Rightarrow> Index \<Rightarrow> Tensor list \<Rightarrow> Tensor list result" where
  "reduce_step F inputs initValues dimensions body inputIt results =
     (let resultIndex = drop_dims dimensions 0 inputIt in
      rbind (reduce_args F results resultIndex initValues) (\<lambda>resultArgs.
      rbind (reduce_args F inputs inputIt initValues) (\<lambda>inputArgs.
      rbind (body (resultArgs @ inputArgs)) (set_results F resultIndex results))))"

lemma drop_dims_inBounds: "inBounds i shape \<Longrightarrow> inBounds (drop_dims dims a i) (drop_dims dims a shape)"
proof (induction i arbitrary: shape a)
  case (Cons x xs) then show ?case by (cases shape) auto
qed simp

lemma drop_dims_nonneg: "list_all (\<lambda>d. 0 \<le> d) shape \<Longrightarrow> list_all (\<lambda>d. 0 \<le> d) (drop_dims dims a shape)"
  by (induction shape arbitrary: a) auto

lemma map_nth_upt: "length xs = n \<Longrightarrow> map (\<lambda>k. xs ! k) [0..<n] = xs"
  by (rule length_eq_nth_imp) auto

lemma reduce_step_denotes:
  assumes inputs: "denotes_all F shape tys inputs xs" and results: "denotes_all F (drop_dims dims 0 shape) tys results g"
    and lens: "\<And>i. length (xs i) = length tys" "\<And>i. length (g i) = length tys"
    and inits: "length initValues = length tys" "\<And>k. k < length tys \<Longrightarrow> t_type (initValues ! k) = scalar_type (tys ! k)"
    and body: "region_computes F (tys @ tys) tys body f" and i: "inBounds i shape"
  shows "\<exists>rs'. reduce_step F inputs initValues dims body i results = Inr rs' \<and>
    denotes_all F (drop_dims dims 0 shape) tys rs' (g(drop_dims dims 0 i := f (g (drop_dims dims 0 i) @ xs i))) \<and>
    length (f (g (drop_dims dims 0 i) @ xs i)) = length tys"
proof -
  let ?j = "drop_dims dims 0 i"
  have j: "inBounds ?j (drop_dims dims 0 shape)" by (rule drop_dims_inBounds [OF i])
  obtain ra where ra: "reduce_args F results ?j initValues = Inr ra" "holds_scalars F tys (g ?j) ra"
    using reduce_args_holds [OF results j inits] map_nth_upt [OF lens(2)] by auto
  obtain ia where ia: "reduce_args F inputs i initValues = Inr ia" "holds_scalars F tys (xs i) ia"
    using reduce_args_holds [OF inputs i inits] map_nth_upt [OF lens(1)] by auto
  obtain rs where rs: "body (ra @ ia) = Inr rs" "holds_scalars F tys (f (g ?j @ xs i)) rs"
    using region_computesD [OF body holds_scalars_append [OF ra(2) ia(2)]] by blast
  show ?thesis
    using set_results_denotes [OF results rs(2) j] ra(1) ia(1) rs by (auto simp: reduce_step_def holds_scalars_def)
qed

lemma reduce_loop_denotes:
  assumes inputs: "denotes_all F shape tys inputs xs" and lens: "\<And>i. length (xs i) = length tys"
    and inits: "length initValues = length tys" "\<And>k. k < length tys \<Longrightarrow> t_type (initValues ! k) = scalar_type (tys ! k)"
    and body: "region_computes F (tys @ tys) tys body f"
  shows "denotes_all F (drop_dims dims 0 shape) tys results g \<Longrightarrow> (\<And>i. length (g i) = length tys) \<Longrightarrow>
    (\<And>i. i \<in> set is \<Longrightarrow> inBounds i shape) \<Longrightarrow>
    \<exists>rs'. foldM (reduce_step F inputs initValues dims body) is results = Inr rs' \<and>
      denotes_all F (drop_dims dims 0 shape) tys rs' (\<lambda>j. reduced f (g j) xs dims is j)"
proof (induction "is" arbitrary: results g)
  case Nil then show ?case by (simp add: reduced_def)
next
  case (Cons i "is")
  let ?j = "drop_dims dims 0 i"
  let ?g = "g(?j := f (g ?j @ xs i))"
  have i: "inBounds i shape" using Cons.prems(3) by simp
  obtain rs1 where rs1: "reduce_step F inputs initValues dims body i results = Inr rs1"
    "denotes_all F (drop_dims dims 0 shape) tys rs1 ?g" "length (f (g ?j @ xs i)) = length tys"
    using reduce_step_denotes [OF inputs Cons.prems(1) lens Cons.prems(2) inits body i] by blast
  have "\<exists>rs'. foldM (reduce_step F inputs initValues dims body) is rs1 = Inr rs' \<and>
      denotes_all F (drop_dims dims 0 shape) tys rs' (\<lambda>j. reduced f (?g j) xs dims is j)"
    using Cons.prems(2,3) rs1(3) by (intro Cons.IH [OF rs1(2)]) auto
  moreover have "(\<lambda>j. reduced f (?g j) xs dims is j) = (\<lambda>j. reduced f (g j) xs dims (i # is) j)"
    by (auto simp: reduced_def)
  ultimately show ?case using rs1(1) by simp
qed

lemma drop_dims_filter:
  "drop_dims dims a shape =
     map (\<lambda>d. shape ! nat (d - a)) (filter (\<lambda>d. d \<notin> set dims) (map (\<lambda>k. a + int k) [0..<length shape]))"
proof (induction shape arbitrary: a)
  case (Cons n shape)
  have split: "map (\<lambda>k. a + int k) [0..<length (n # shape)] = a # map (\<lambda>k. (a + 1) + int k) [0..<length shape]"
    by (simp add: upt_rec [of 0] map_Suc_upt [symmetric] del: upt_Suc map_Suc_upt)
  show ?case unfolding split by (auto simp: Cons.IH [of "a + 1"] nat_add_distrib)
qed simp

lemma kept_sizes:
  "mapM (vec_nth shape) (filter (\<lambda>d. d \<notin> set dims) (upto_int (int (length shape)))) = Inr (drop_dims dims 0 shape)"
proof -
  have u: "upto_int (int (length shape)) = map (\<lambda>k. 0 + int k) [0..<length shape]" by (rule length_eq_nth_imp) auto
  show ?thesis unfolding drop_dims_filter u by (rule mapM_Inr) auto
qed

lemma as_ranked_simps [simp]:
  "getShape (as_ranked ty) = getShape ty" "getElementType (as_ranked ty) = getElementType ty"
  "getEncoding (as_ranked ty) = NoEncoding" "rt_rank (as_ranked ty) = int (length (getShape ty))"
  by (simp_all add: as_ranked_def mkRankedTensorType_def rt_rank_def)

lemma inferReduceOp_static:
  assumes "inferReduceOp (map (\<lambda>t. as_ranked (t_type t)) inputs) dims tys = Inr rtys"
    and "denotes_all F shape tys inputs xs" "tys \<noteq> []"
  shows "map as_shaped rtys = map (\<lambda>t. \<lparr>getShape = drop_dims dims 0 shape, getElementType = t\<rparr>) tys"
proof -
  have len: "length inputs = length tys" and sh: "t_shape (inputs ! 0) = shape"
    using assms(2,3) by (auto simp: denotes_all_def)
  have "rbind (vec_nth tys i) (\<lambda>t. Inr (mkRankedTensorType (drop_dims dims 0 shape) t NoEncoding)) =
      Inr (mkRankedTensorType (drop_dims dims 0 shape) (tys ! nat i) NoEncoding)" if "i \<in> set (upto_int (int (length tys)))" for i
    using that by simp
  then have out: "mapM (\<lambda>i. rbind (vec_nth tys i) (\<lambda>t. Inr (mkRankedTensorType (drop_dims dims 0 shape) t NoEncoding)))
      (upto_int (int (length tys))) =
      Inr (map (\<lambda>i. mkRankedTensorType (drop_dims dims 0 shape) (tys ! nat i) NoEncoding) (upto_int (int (length tys))))"
    by (rule mapM_Inr)
  have w: "vec_nth (map (\<lambda>t. as_ranked (t_type t)) inputs) 0 = Inr (as_ranked (t_type (inputs ! 0)))"
    using len assms(3) by (simp add: vec_nth_def)
  have "rtys = map (\<lambda>i. mkRankedTensorType (drop_dims dims 0 shape) (tys ! nat i) NoEncoding) (upto_int (int (length tys)))"
    using assms(1) out kept_sizes [of shape dims] len
    by (auto simp: inferReduceOp_def verifyReduceOpInputsAndInferShape_def w sh Let_def elim!: rbind_InrE)
  then show ?thesis
    using len by (auto intro!: length_eq_nth_imp simp: as_shaped_def mkRankedTensorType_def)
qed

lemma reduceOp_steps:
  "reduceOp F inputs initValues dims body rtys =
     rbind (initial_results F rtys initValues) (\<lambda>results. rbind (vec_nth inputs 0) (\<lambda>input0.
       foldM (reduce_step F inputs initValues dims body) (index_space (t_shape input0)) results))"
  by (simp add: reduceOp_def forEachIndex_foldM reduce_step_def [abs_def])

lemma initial_results_denotes:
  assumes "denotes_all F [] tys initValues (\<lambda>_. init)" "list_all (\<lambda>d. 0 \<le> d) shape"
  shows "\<exists>rs. initial_results F (map (\<lambda>t. \<lparr>getShape = shape, getElementType = t\<rparr>) tys) initValues = Inr rs \<and>
    denotes_all F shape tys rs (\<lambda>_. init)"
proof -
  have "\<exists>t'. rbind (Tensor_get F (initValues ! k) []) (makeSplat F \<lparr>getShape = shape, getElementType = tys ! k\<rparr>) = Inr t' \<and>
      t_type t' = \<lparr>getShape = shape, getElementType = tys ! k\<rparr> \<and> denotes F t' (\<lambda>_. init ! k)" if k: "k < length tys" for k
  proof -
    have d: "denotes F (initValues ! k) (\<lambda>_. init ! k)" "t_type (initValues ! k) = scalar_type (tys ! k)"
      using assms(1) k by (auto simp: denotes_all_def)
    have "wf_type \<lparr>getShape = shape, getElementType = tys ! k\<rparr>"
      using denotes_wf [OF d(1)] d(2) assms(2) by (auto simp: wf_tensor_def wf_type_def)
    from makeSplat_denotes [OF this] denotes_get [OF d(1), of "[]"] denotes_storable [OF d(1), of "[]"] d(2)
    show ?thesis by auto
  qed
  then obtain t' where t': "\<And>k. k < length tys \<Longrightarrow>
      rbind (Tensor_get F (initValues ! k) []) (makeSplat F \<lparr>getShape = shape, getElementType = tys ! k\<rparr>) = Inr (t' k) \<and>
      t_type (t' k) = \<lparr>getShape = shape, getElementType = tys ! k\<rparr> \<and> denotes F (t' k) (\<lambda>_. init ! k)" by metis
  have "length initValues = length tys" using assms(1) by (simp add: denotes_all_def)
  then have "initial_results F (map (\<lambda>t. \<lparr>getShape = shape, getElementType = t\<rparr>) tys) initValues = Inr (map t' [0..<length tys])"
    using t' by (simp add: initial_results_def mapM_eq_Inr)
  with t' show ?thesis by (auto simp: denotes_all_def)
qed

lemma reduce_denotes:
  assumes inputs: "denotes_all F shape tys inputs xs" and inits: "denotes_all F [] tys initValues (\<lambda>_. init)"
    and lens: "tys \<noteq> []" "\<And>i. length (xs i) = length tys" "length init = length tys"
    and infer: "inferReduceOp (map (\<lambda>t. as_ranked (t_type t)) inputs) dims tys = Inr rtys"
    and body: "region_computes F (tys @ tys) tys body f"
  shows "\<exists>rs. reduceOp_infer F inputs initValues dims body tys = Inr rs \<and>
    denotes_all F (drop_dims dims 0 shape) tys rs (reduced f init xs dims (index_space shape))"
proof -
  have types: "map as_shaped rtys = map (\<lambda>t. \<lparr>getShape = drop_dims dims 0 shape, getElementType = t\<rparr>) tys"
    by (rule inferReduceOp_static [OF infer inputs lens(1)])
  have in0: "vec_nth inputs 0 = Inr (inputs ! 0)" "t_shape (inputs ! 0) = shape" "wf_tensor (inputs ! 0)"
    using inputs lens(1) by (auto simp: denotes_all_def vec_nth_def denotes_def)
  then have "list_all (\<lambda>d. 0 \<le> d) (drop_dims dims 0 shape)" by (intro drop_dims_nonneg) (auto simp: wf_tensor_def)
  from initial_results_denotes [OF inits this] obtain rs where
    rs: "initial_results F (map as_shaped rtys) initValues = Inr rs" "denotes_all F (drop_dims dims 0 shape) tys rs (\<lambda>_. init)"
    unfolding types by blast
  have it: "length initValues = length tys" "\<And>k. k < length tys \<Longrightarrow> t_type (initValues ! k) = scalar_type (tys ! k)"
    using inits by (auto simp: denotes_all_def)
  obtain rs' where "foldM (reduce_step F inputs initValues dims body) (index_space shape) rs = Inr rs'"
    "denotes_all F (drop_dims dims 0 shape) tys rs' (\<lambda>j. reduced f init xs dims (index_space shape) j)"
    using reduce_loop_denotes [OF inputs lens(2) it body rs(2), of "index_space shape"] lens(3) by auto
  then show ?thesis
    using infer rs(1) in0 by (simp add: reduceOp_infer_def or_fatal_def reduceOp_steps)
qed

text \<open>
  C22: \<open>reduce\<close>. When the shape function accepts the inputs and the region computes \<open>f\<close> on scalars, every element of the results
  is the fold of \<open>f\<close>, from the initial values, over the input elements whose index agrees with it outside the reduced
  dimensions, in iteration order; the results have the inferred types and every element is set.
\<close>

theorem reduce_sound:
  assumes "denotes_all F shape tys inputs xs" "denotes_all F [] tys initValues (\<lambda>_. init)"
    and "tys \<noteq> []" "\<And>i. length (xs i) = length tys" "length init = length tys"
    and "inferReduceOp (map (\<lambda>t. as_ranked (t_type t)) inputs) dims tys = Inr rtys"
    and "region_computes F (tys @ tys) tys body f"
  shows "\<exists>rs. reduceOp_infer F inputs initValues dims body tys = Inr rs \<and>
    denotes_all F (drop_dims dims 0 shape) tys rs (reduced f init xs dims (index_space shape))"
  by (rule reduce_denotes [OF assms])

section \<open>While\<close>

definition while_step :: "('f, 'd) float_api \<Rightarrow> body \<Rightarrow> body \<Rightarrow> InterpreterValue list \<Rightarrow> InterpreterValue list \<Rightarrow> bool" where
  "while_step F cond body v w \<longleftrightarrow> while_condition F cond v = Inr True \<and> body v = Inr w"

lemma while_loop_returns:
  "while_loop F cond body fuel v = Inr r \<longleftrightarrow>
     (\<exists>n < fuel. (while_step F cond body ^^ n) v r \<and> while_condition F cond r = Inr False)"
proof (induction fuel arbitrary: v)
  case (Suc fuel)
  have split: "(\<exists>n < Suc fuel. P n) \<longleftrightarrow> P 0 \<or> (\<exists>n < fuel. P (Suc n))" for P :: "nat \<Rightarrow> bool"
    using less_Suc_eq_0_disj by auto
  have "while_loop F cond body (Suc fuel) v = Inr r \<longleftrightarrow>
      while_condition F cond v = Inr False \<and> v = r \<or>
      (\<exists>w. while_step F cond body v w \<and> while_loop F cond body fuel w = Inr r)"
    by (cases "while_condition F cond v") (auto simp: while_step_def rbind_eq_Inr)
  also have "\<dots> \<longleftrightarrow> (\<exists>n < Suc fuel. (while_step F cond body ^^ n) v r \<and> while_condition F cond r = Inr False)"
    unfolding split Suc.IH by (auto simp: relcompp_apply relpowp_commute simp del: relpowp.simps(2) simp: relpowp_Suc_I2 elim: relpowp_Suc_E2)
  finally show ?case .
qed simp

text \<open>
  C24: \<open>while\<close> terminates exactly when its condition becomes false. With enough fuel the loop returns \<open>r\<close> if and only if some
  number of iterations of the body, each with the condition true, leads from the operands to \<open>r\<close>, where the condition is false;
  the fuel needed is one more than that number.
\<close>

theorem while_iterates:
  "whileOp F fuel operand cond body = Inr r \<longleftrightarrow>
     (\<exists>n < fuel. (while_step F cond body ^^ n) operand r \<and> while_condition F cond r = Inr False)"
  unfolding whileOp_def by (rule while_loop_returns)

end
