(* ===== verification/Sort_Correct.thy ===== *)
theory Sort_Correct
  imports Region_Correct "HOL-Library.Multiset"
begin

text \<open>
  \<open>sort\<close>: the handles of every slice are sorted with respect to the comparator, stably if asked for, and all inputs are
  permuted together by them.
\<close>

section \<open>The stable sort\<close>

definition sorts :: "('a \<Rightarrow> 'a \<Rightarrow> bool) \<Rightarrow> 'a list \<Rightarrow> 'a list \<Rightarrow> bool" where
  "sorts lt xs ys \<longleftrightarrow> mset ys = mset xs \<and> sorted_wrt (\<lambda>x y. \<not> lt y x) ys"

lemma insert_by_mset [simp]: "mset (insert_by lt x ys) = add_mset x (mset ys)"
  by (induction ys) auto

lemma insert_by_set [simp]: "set (insert_by lt x ys) = insert x (set ys)"
  using insert_by_mset [of lt x ys] by (metis set_mset_add_mset_insert set_mset_mset)

lemma stable_sort_mset [simp]: "mset (stable_sort lt xs) = mset xs"
  by (induction xs) (auto simp: stable_sort_def)

lemma stable_sort_set [simp]: "set (stable_sort lt xs) = set xs"
  using stable_sort_mset [of lt xs] by (metis set_mset_mset)

lemma strict_weak_orderD:
  assumes "strict_weak_order lt xs" "x \<in> set xs" "y \<in> set xs" "lt x y"
  shows "\<not> lt y x" "z \<in> set xs \<Longrightarrow> lt x z \<or> lt z y"
  using assms by (auto simp: strict_weak_order_def list_all_iff)

lemma insert_by_sorted:
  assumes "strict_weak_order lt zs" "x \<in> set zs" "set ys \<subseteq> set zs" "sorted_wrt (\<lambda>x y. \<not> lt y x) ys"
  shows "sorted_wrt (\<lambda>x y. \<not> lt y x) (insert_by lt x ys)"
  using assms(3,4)
proof (induction ys)
  case (Cons y ys)
  have mem: "y \<in> set zs" "\<And>z. z \<in> set ys \<Longrightarrow> z \<in> set zs" using Cons.prems by auto
  show ?case
  proof (cases "lt y x")
    case True
    have "\<not> lt x y" using strict_weak_orderD(1) [OF assms(1) mem(1) assms(2) True] .
    then show ?thesis using Cons True by auto
  next
    case False
    have "\<not> lt z x" if "z \<in> set ys" for z
      using strict_weak_orderD(2) [OF assms(1) mem(2) [OF that] assms(2) _ mem(1)] False Cons.prems(2) that by auto
    with False Cons show ?thesis by auto
  qed
qed simp

lemma stable_sort_sorted:
  assumes "strict_weak_order lt zs"
  shows "set xs \<subseteq> set zs \<Longrightarrow> sorted_wrt (\<lambda>x y. \<not> lt y x) (stable_sort lt xs)"
proof (induction xs)
  case (Cons x xs)
  have "stable_sort lt (x # xs) = insert_by lt x (stable_sort lt xs)" by (simp add: stable_sort_def)
  then show ?case using insert_by_sorted [OF assms, of x "stable_sort lt xs"] Cons by simp
qed (simp add: stable_sort_def)

lemma stable_sort_sorts: "strict_weak_order lt xs \<Longrightarrow> sorts lt xs (stable_sort lt xs)"
  by (simp add: sorts_def stable_sort_sorted)

text \<open>Stability: the elements equivalent to a given one keep their order.\<close>

lemma insert_by_stable:
  assumes "strict_weak_order lt zs" "set (x # ys) \<subseteq> set zs" "e \<in> set zs"
  shows "filter (\<lambda>y. \<not> lt e y \<and> \<not> lt y e) (insert_by lt x ys) = filter (\<lambda>y. \<not> lt e y \<and> \<not> lt y e) (x # ys)"
  using assms(2)
proof (induction ys)
  case (Cons y ys)
  have mem: "x \<in> set zs" "y \<in> set zs" using Cons.prems by auto
  show ?case
  proof (cases "lt y x")
    case True
    have "lt y e \<or> lt e x" using strict_weak_orderD(2) [OF assms(1) mem(2,1) True assms(3)] .
    with True Cons show ?thesis by auto
  qed simp
qed simp

lemma stable_sort_stable:
  assumes "strict_weak_order lt zs" "e \<in> set zs"
  shows "set xs \<subseteq> set zs \<Longrightarrow>
    filter (\<lambda>y. \<not> lt e y \<and> \<not> lt y e) (stable_sort lt xs) = filter (\<lambda>y. \<not> lt e y \<and> \<not> lt y e) xs"
proof (induction xs)
  case (Cons x xs)
  have "stable_sort lt (x # xs) = insert_by lt x (stable_sort lt xs)" by (simp add: stable_sort_def)
  then show ?case using insert_by_stable [OF assms(1) _ assms(2), of x "stable_sort lt xs"] Cons by simp
qed (simp add: stable_sort_def)

section \<open>The sorting of handles\<close>

text \<open>What \<open>std::sort\<close> promises for a strict weak order.\<close>

definition std_sort_ok :: "((int \<Rightarrow> int \<Rightarrow> bool) \<Rightarrow> int list \<Rightarrow> int list) \<Rightarrow> bool" where
  "std_sort_ok std_sort \<longleftrightarrow> (\<forall>lt xs. strict_weak_order lt xs \<longrightarrow> sorts lt xs (std_sort lt xs))"

lemma strict_weak_order_cong:
  "(\<And>x y. x \<in> set xs \<Longrightarrow> y \<in> set xs \<Longrightarrow> lt x y = lt' x y) \<Longrightarrow> strict_weak_order lt xs \<longleftrightarrow> strict_weak_order lt' xs"
  by (auto simp: strict_weak_order_def list_all_iff)

definition handles_sorted :: "bool \<Rightarrow> (int \<Rightarrow> int \<Rightarrow> bool) \<Rightarrow> int list \<Rightarrow> int list \<Rightarrow> bool" where
  "handles_sorted isStable lt handles hs \<longleftrightarrow> sorts lt handles hs \<and>
     (isStable \<longrightarrow> (\<forall>e \<in> set handles. filter (\<lambda>y. \<not> lt e y \<and> \<not> lt y e) hs = filter (\<lambda>y. \<not> lt e y \<and> \<not> lt y e) handles))"

lemma handles_sorted_cong:
  assumes "\<And>x y. x \<in> set handles \<Longrightarrow> y \<in> set handles \<Longrightarrow> lt x y = lt' x y" "handles_sorted isStable lt handles hs"
  shows "handles_sorted isStable lt' handles hs"
proof -
  have set: "set hs = set handles" using assms(2) unfolding handles_sorted_def sorts_def by (metis set_mset_mset)
  have "sorted_wrt (\<lambda>x y. \<not> lt' y x) hs"
    by (rule sorted_wrt_mono_rel [of hs "\<lambda>x y. \<not> lt y x"]) (use assms set in \<open>auto simp: handles_sorted_def sorts_def\<close>)
  moreover have "filter (\<lambda>y. \<not> lt' e y \<and> \<not> lt' y e) ys = filter (\<lambda>y. \<not> lt e y \<and> \<not> lt y e) ys"
    if "e \<in> set handles" "set ys = set handles" for e ys using that assms(1) by (intro filter_cong) auto
  ultimately show ?thesis using assms(2) set by (auto simp: handles_sorted_def sorts_def)
qed

lemma map_of_pairs: "x \<in> set xs \<Longrightarrow> y \<in> set ys \<Longrightarrow> map_of (concat (map (\<lambda>x. map (\<lambda>y. ((x, y), f x y)) ys) xs)) (x, y) = Some (f x y)"
proof (induction xs)
  case (Cons a xs)
  have row: "map_of (map (\<lambda>y. ((a, y), f a y)) ys) (b, y) = (if b = a \<and> y \<in> set ys then Some (f a y) else None)" for b
    by (induction ys) auto
  show ?case
  proof (cases "x = a")
    case True then show ?thesis using row [of a] Cons.prems by (simp add: map_add_find_right)
  next
    case False
    then show ?thesis using row [of x] Cons by (simp add: map_add_def)
  qed
qed simp

lemma sort_handles_sorted:
  assumes "\<And>x y. x \<in> set handles \<Longrightarrow> y \<in> set handles \<Longrightarrow> compare x y = Inr (lt x y)"
    and "strict_weak_order lt handles" "std_sort_ok std_sort"
  shows "\<exists>hs. sort_handles std_sort isStable compare handles = Inr hs \<and> handles_sorted isStable lt handles hs"
proof -
  define table where "table = map (\<lambda>x. map (\<lambda>y. ((x, y), lt x y)) handles) handles"
  define lt' where "lt' = (\<lambda>x y. map_of (concat table) (x, y) = Some True)"
  have agree: "lt' x y = lt x y" if "x \<in> set handles" "y \<in> set handles" for x y
    using map_of_pairs [OF that, of lt] by (simp add: lt'_def table_def)
  have table: "mapM (\<lambda>x. mapM (\<lambda>y. rbind (compare x y) (\<lambda>b. Inr ((x, y), b))) handles) handles = Inr table"
    unfolding table_def using assms(1) by (intro mapM_Inr) (simp add: mapM_Inr)
  have swo: "strict_weak_order lt' handles" using strict_weak_order_cong [of handles lt' lt] agree assms(2) by blast
  have "handles_sorted isStable lt' handles (if isStable then stable_sort lt' handles else std_sort lt' handles)"
    using swo assms(3) stable_sort_sorts [OF swo] stable_sort_stable [OF swo]
    by (auto simp: handles_sorted_def std_sort_ok_def)
  from handles_sorted_cong [OF agree this] show ?thesis
    using swo by (cases isStable) (simp_all add: sort_handles_def table Let_def lt'_def [symmetric])
qed

section \<open>The comparator\<close>

definition interleave :: "'a list \<Rightarrow> 'a list \<Rightarrow> 'a list" where
  "interleave ls rs = concat (map2 (\<lambda>l r. [l, r]) ls rs)"

definition comparator_decides ::
  "('f, 'd) float_api \<Rightarrow> Type list \<Rightarrow> body \<Rightarrow> ('f Element list \<Rightarrow> 'f Element list \<Rightarrow> bool) \<Rightarrow> bool" where
  "comparator_decides F tys comparator lt \<longleftrightarrow>
     (\<forall>ls rs args. length ls = length tys \<longrightarrow> length rs = length tys \<longrightarrow>
        holds_scalars F (interleave tys tys) (interleave ls rs) args \<longrightarrow>
        (\<exists>vs e. comparator args = Inr vs \<and> first_result F vs = Inr e \<and> getBooleanValue e = Inr (lt ls rs)))"

lemma element_of_bytes_type: "element_of_bytes F ty bs = Inr e \<Longrightarrow> getType e = ty"
  by (cases ty) (auto simp: element_of_bytes_def Element_int_def Element_bool_def Element_float_def Element_complex_def
      split: if_splits)

lemma storable_type: "storable F ty e \<Longrightarrow> getType e = ty"
  by (auto simp: storable_def intro: element_of_bytes_type)

lemma constant_holds:
  assumes "storable F ty e"
  shows "\<exists>t. constant_of F e = Inr t \<and> holds_scalar F ty e (TensorValue t)"
proof -
  have "wf_type (scalar_type ty)" using assms by (auto simp: storable_def wf_type_def)
  then obtain t where t: "newTensor (scalar_type ty) = Inr t" "wf_tensor t" "t_type t = scalar_type ty"
    using newTensor_ok by blast
  obtain t' where t': "Tensor_set F t [] e = Inr t'" "wf_tensor t'" "t_type t' = t_type t"
    using Tensor_set_ok [OF t(2), of "[]" F e] assms t(3) by auto
  have "Tensor_get F t' [] = Inr e" using Tensor_get_set_same [OF t(2) _ _ t'(1)] assms t(3) by simp
  then have "denotes F t' (\<lambda>_. e)" using t' t(3) assms by (simp add: denotes_def)
  then show ?thesis using t t' storable_type [OF assms] by (auto simp: constant_of_def holds_scalar_def)
qed

lemma holds_scalars_concat:
  "length xs = length tys \<Longrightarrow> length ys = length tys \<Longrightarrow> length vss = length tys \<Longrightarrow>
   (\<And>k. k < length tys \<Longrightarrow> \<exists>l r. vss ! k = [l, r] \<and> holds_scalar F (tys ! k) (xs ! k) l \<and> holds_scalar F (tys ! k) (ys ! k) r) \<Longrightarrow>
   holds_scalars F (interleave tys tys) (interleave xs ys) (concat vss)"
proof (induction tys arbitrary: xs ys vss)
  case Nil then show ?case by (simp add: holds_scalars_def interleave_def)
next
  case (Cons ty tys)
  obtain x xs' y ys' vs vss' where eq: "xs = x # xs'" "ys = y # ys'" "vss = vs # vss'"
    using Cons.prems(1-3) by (cases xs; cases ys; cases vss) auto
  have "holds_scalars F (interleave tys tys) (interleave xs' ys') (concat vss')"
  proof (rule Cons.IH)
    fix k assume "k < length tys"
    then show "\<exists>l r. vss' ! k = [l, r] \<and> holds_scalar F (tys ! k) (xs' ! k) l \<and> holds_scalar F (tys ! k) (ys' ! k) r"
      using Cons.prems(4) [of "Suc k"] eq by simp
  qed (use Cons.prems eq in simp_all)
  moreover obtain l r where "vs = [l, r]" "holds_scalar F ty x l" "holds_scalar F ty y r"
    using Cons.prems(4) [of 0] eq by auto
  then have "holds_scalars F [ty, ty] [x, y] vs" by (auto simp: holds_scalars_def nth_Cons' less_Suc_eq_0_disj)
  ultimately show ?case
    using holds_scalars_append [of F "[ty, ty]" "[x, y]" vs] eq by (simp add: interleave_def)
qed

lemma comparatorTogether_decides:
  assumes inputs: "denotes_all F shape tys inputs xs" and lens: "\<And>i. length (xs i) = length tys"
    and cmp: "comparator_decides F tys comparator lt" and b: "inBounds b shape" "d < length shape"
    and h: "0 \<le> x" "x < shape ! d" "0 \<le> y" "y < shape ! d"
  shows "comparatorTogether F inputs (int d) comparator b x y = Inr (lt (xs (b[d := x])) (xs (b[d := y])))"
proof -
  have len: "length inputs = length tys" "length b = length shape" using inputs b inBounds_length by (auto simp: denotes_all_def)
  have bd: "inBounds (b[d := z]) shape" if "0 \<le> z" "z < shape ! d" for z
    using b that by (auto simp: inBounds_nth nth_list_update)
  let ?arg = "\<lambda>input. rbind (Tensor_get F input (b[d := x])) (\<lambda>l. rbind (constant_of F l) (\<lambda>lhs.
              rbind (Tensor_get F input (b[d := y])) (\<lambda>r. rbind (constant_of F r) (\<lambda>rhs. Inr [TensorValue lhs, TensorValue rhs]))))"
  define vs where "vs = (\<lambda>k. projr (?arg (inputs ! k)))"
  have vs: "?arg (inputs ! k) = Inr (vs k)" "\<exists>l r. vs k = [l, r] \<and> holds_scalar F (tys ! k) (xs (b[d := x]) ! k) l \<and>
      holds_scalar F (tys ! k) (xs (b[d := y]) ! k) r" if k: "k < length tys" for k
  proof -
    have dn: "denotes F (inputs ! k) (\<lambda>i. xs i ! k)" "t_type (inputs ! k) = \<lparr>getShape = shape, getElementType = tys ! k\<rparr>"
      using inputs k by (auto simp: denotes_all_def)
    have get: "Tensor_get F (inputs ! k) (b[d := z]) = Inr (xs (b[d := z]) ! k)" "storable F (tys ! k) (xs (b[d := z]) ! k)"
      if "0 \<le> z" "z < shape ! d" for z
      using denotes_get [OF dn(1), of "b[d := z]"] denotes_storable [OF dn(1), of "b[d := z]"] dn(2) bd [OF that] by simp_all
    from constant_holds [OF get(2) [OF h(1,2)]] constant_holds [OF get(2) [OF h(3,4)]] get(1) h
    show "?arg (inputs ! k) = Inr (vs k)" "\<exists>l r. vs k = [l, r] \<and> holds_scalar F (tys ! k) (xs (b[d := x]) ! k) l \<and>
      holds_scalar F (tys ! k) (xs (b[d := y]) ! k) r" by (auto simp: vs_def)
  qed
  have args: "mapM ?arg inputs = Inr (map vs [0..<length tys])" using vs(1) len by (simp add: mapM_eq_Inr)
  have "holds_scalars F (interleave tys tys) (interleave (xs (b[d := x])) (xs (b[d := y]))) (concat (map vs [0..<length tys]))"
    using vs(2) lens by (intro holds_scalars_concat) simp_all
  then obtain rs e where "comparator (concat (map vs [0..<length tys])) = Inr rs" "first_result F rs = Inr e"
    "getBooleanValue e = Inr (lt (xs (b[d := x])) (xs (b[d := y])))"
    using cmp lens unfolding comparator_decides_def by blast
  then show ?thesis using args b len by (simp add: comparatorTogether_def)
qed

section \<open>Writing the slices\<close>

text \<open>A loop that treats several tensors alike treats each of them alone.\<close>

lemma foldM_mapM_zip:
  assumes "length as = length rs" "length rs' = length rs"
    and "\<And>k. k < length rs \<Longrightarrow> foldM (step (as ! k)) xs (rs ! k) = Inr (rs' ! k)"
  shows "foldM (\<lambda>x rs. mapM (\<lambda>(a, r). step a x r) (zip as rs)) xs rs = Inr rs'"
  using assms
proof (induction xs arbitrary: rs)
  case Nil
  have "rs = rs'" by (rule length_eq_nth_imp) (use Nil in simp_all)
  then show ?case by simp
next
  case (Cons x xs)
  define r1 where "r1 = map (\<lambda>k. projr (step (as ! k) x (rs ! k))) [0..<length rs]"
  have one: "step (as ! k) x (rs ! k) = Inr (r1 ! k)" "foldM (step (as ! k)) xs (r1 ! k) = Inr (rs' ! k)" if "k < length rs" for k
    using Cons.prems(3) [OF that] that by (auto simp: r1_def elim!: rbind_InrE)
  have len: "length r1 = length rs" by (simp add: r1_def)
  have "mapM (\<lambda>(a, r). step a x r) (zip as rs) = Inr r1" using Cons.prems(1) one(1) len by (simp add: mapM_eq_Inr)
  moreover have "foldM (\<lambda>x rs. mapM (\<lambda>(a, r). step a x r) (zip as rs)) xs r1 = Inr rs'"
    using Cons.prems(1,2) one(2) len by (intro Cons.IH) simp_all
  ultimately show ?case by simp
qed

lemma foldM_concat: "foldM f (concat xss) s = foldM (\<lambda>xs. foldM f xs) xss s"
  by (induction xss arbitrary: s) (auto simp: foldM_append intro: rbind_cong)

lemma distinct_concat_rows:
  "distinct bs \<Longrightarrow> (\<And>b. b \<in> set bs \<Longrightarrow> distinct (row b)) \<Longrightarrow>
   (\<And>b c. b \<in> set bs \<Longrightarrow> c \<in> set bs \<Longrightarrow> b \<noteq> c \<Longrightarrow> set (row b) \<inter> set (row c) = {}) \<Longrightarrow> distinct (concat (map row bs))"
proof (induction bs)
  case (Cons b bs) then show ?case by auto
qed simp

text \<open>The writes of the whole operation, in order: the slice, the position in the result and the handle of the input.\<close>

definition sort_writes :: "Sizes \<Rightarrow> nat \<Rightarrow> (Index \<Rightarrow> int list) \<Rightarrow> (Index \<times> int \<times> int) list" where
  "sort_writes shape d hs =
     concat (map (\<lambda>b. map (Pair b) (zip (upto_int (shape ! d)) (hs b))) (filter (\<lambda>b. b ! d = 0) (index_space shape)))"

definition write_one :: "('f, 'd) float_api \<Rightarrow> nat \<Rightarrow> Tensor \<Rightarrow> Index \<times> int \<times> int \<Rightarrow> Tensor \<Rightarrow> Tensor result" where
  "write_one F d input = (\<lambda>(b, rh, ih) r. rbind (Tensor_get F input (b[d := ih])) (Tensor_set F r (b[d := rh])))"

lemma sort_writes_set:
  assumes "d < length shape" "\<And>b. inBounds b shape \<Longrightarrow> b ! d = 0 \<Longrightarrow> mset (hs b) = mset (upto_int (shape ! d))"
  shows "(b, rh, ih) \<in> set (sort_writes shape d hs) \<longleftrightarrow>
    inBounds b shape \<and> b ! d = 0 \<and> 0 \<le> rh \<and> rh < shape ! d \<and> ih = hs b ! nat rh"
proof -
  have len: "length (hs b) = nat (shape ! d)" if "inBounds b shape" "b ! d = 0" for b
    using assms(2) [OF that] mset_eq_length by fastforce
  have "(rh, ih) \<in> set (zip (upto_int (shape ! d)) (hs b)) \<longleftrightarrow> 0 \<le> rh \<and> rh < shape ! d \<and> ih = hs b ! nat rh"
    if "inBounds b shape" "b ! d = 0" for b
  proof
    assume "(rh, ih) \<in> set (zip (upto_int (shape ! d)) (hs b))"
    then show "0 \<le> rh \<and> rh < shape ! d \<and> ih = hs b ! nat rh" using len [OF that] by (auto simp: set_zip)
  next
    assume "0 \<le> rh \<and> rh < shape ! d \<and> ih = hs b ! nat rh"
    then show "(rh, ih) \<in> set (zip (upto_int (shape ! d)) (hs b))"
      using len [OF that] by (auto simp: set_zip intro!: exI [of _ "nat rh"])
  qed
  then show ?thesis by (auto simp: sort_writes_def)
qed

lemma sort_writes_distinct:
  assumes "d < length shape" "\<And>b. inBounds b shape \<Longrightarrow> b ! d = 0 \<Longrightarrow> mset (hs b) = mset (upto_int (shape ! d))"
  shows "distinct (map (\<lambda>(b, rh, ih). b[d := rh]) (sort_writes shape d hs))"
proof -
  let ?bs = "filter (\<lambda>b. b ! d = 0) (index_space shape)"
  let ?row = "\<lambda>b. map (\<lambda>rh. b[d := rh]) (upto_int (shape ! d))"
  have len: "length (hs b) = nat (shape ! d)" if "inBounds b shape" "b ! d = 0" for b
    using assms(2) [OF that] mset_eq_length by fastforce
  have "map (\<lambda>(b, rh, ih). b[d := rh]) (map (Pair b) (zip (upto_int (shape ! d)) (hs b))) = ?row b" if "b \<in> set ?bs" for b
    using len [of b] that by (intro length_eq_nth_imp) auto
  then have "map (\<lambda>(b, rh, ih). b[d := rh]) (sort_writes shape d hs) = concat (map ?row ?bs)"
    unfolding sort_writes_def map_concat map_map comp_def by (intro arg_cong [where f = concat] map_cong refl)
  moreover have "distinct (concat (map ?row ?bs))"
  proof (rule distinct_concat_rows)
    fix b assume "b \<in> set ?bs"
    then have "d < length b" using assms(1) inBounds_length by auto
    then have "inj (\<lambda>rh. b[d := rh])" by (metis injI nth_list_update_eq)
    then have "inj_on (\<lambda>rh. b[d := rh]) (set (upto_int (shape ! d)))" by (rule inj_on_subset) simp
    then show "distinct (?row b)" by (simp add: distinct_map)
  next
    fix b c assume bc: "b \<in> set ?bs" "c \<in> set ?bs" "b \<noteq> c"
    have "b[d := 0] = b" "c[d := 0] = c" using bc by (auto simp: list_update_same_conv) (metis list_update_id)+
    then have "b[d := x] \<noteq> c[d := y]" for x y using bc(3) by (metis list_update_overwrite)
    then show "set (?row b) \<inter> set (?row c) = {}" by auto
  qed simp
  ultimately show ?thesis by simp
qed

lemma write_sorted:
  assumes input: "denotes F input g" "t_shape input = shape" and d: "d < length shape"
    and hs: "\<And>b. inBounds b shape \<Longrightarrow> b ! d = 0 \<Longrightarrow> mset (hs b) = mset (upto_int (shape ! d))"
    and new: "newTensor (t_type input) = Inr t"
  shows "\<exists>t'. foldM (write_one F d input) (sort_writes shape d hs) t = Inr t' \<and> t_type t' = t_type input \<and>
    denotes F t' (\<lambda>i. g (i[d := hs (i[d := 0]) ! nat (i ! d)]))"
proof -
  have t: "wf_tensor t" "t_type t = t_type input"
    using newTensor_ok [OF wf_tensor_type [OF denotes_wf [OF input(1)]]] new by auto
  have mem: "set (hs b) = {0..<shape ! d}" "length (hs b) = nat (shape ! d)" if "inBounds b shape" "b ! d = 0" for b
    using hs [OF that] mset_eq_length [OF hs [OF that]] by (metis set_mset_mset upto_int_set, simp)
  let ?h = "\<lambda>(b, rh, ih). b[d := rh]" and ?v = "\<lambda>(b, rh, ih). g (b[d := ih])"
  have ok: "Tensor_get F input (b[d := ih]) = Inr (g (b[d := ih])) \<and> inBounds (b[d := rh]) shape \<and>
      storable F (t_elementType input) (g (b[d := ih]))" if "(b, rh, ih) \<in> set (sort_writes shape d hs)" for b rh ih
  proof -
    have x: "inBounds b shape" "b ! d = 0" "0 \<le> rh" "rh < shape ! d" "ih = hs b ! nat rh"
      using that sort_writes_set [where hs = hs, OF d hs] by blast+
    have "ih \<in> {0..<shape ! d}" using mem [OF x(1,2)] x by (metis nat_mono_iff nth_mem order_le_less_trans)
    then have "inBounds (b[d := ih]) shape" "inBounds (b[d := rh]) shape"
      using x d by (auto simp: inBounds_nth nth_list_update)
    then show ?thesis using denotes_get [OF input(1)] denotes_storable [OF input(1)] input(2) by auto
  qed
  have one: "write_one F d input = (\<lambda>x r. rbind (case x of (b, rh, ih) \<Rightarrow> Tensor_get F input (b[d := ih])) (Tensor_set F r (?h x)))"
    by (auto simp: write_one_def)
  obtain t' where t': "foldM (write_one F d input) (sort_writes shape d hs) t = Inr t'" "wf_tensor t'" "t_type t' = t_type t"
    "\<forall>x \<in> set (sort_writes shape d hs). Tensor_get F t' (?h x) = Inr (?v x)"
    using tensor.write_all [where F = F and t = t and xs = "sort_writes shape d hs" and v = ?v and h = ?h
        and g = "\<lambda>x. case x of (b, rh, ih) \<Rightarrow> Tensor_get F input (b[d := ih])"] t ok input(2) sort_writes_distinct [where hs = hs, OF d hs]
    unfolding one by fastforce
  have "Tensor_get F t' i = Inr (g (i[d := hs (i[d := 0]) ! nat (i ! d)])) \<and>
      storable F (t_elementType input) (g (i[d := hs (i[d := 0]) ! nat (i ! d)]))" if i: "inBounds i shape" for i
  proof -
    let ?b = "i[d := 0]"
    have id: "0 \<le> i ! d" "i ! d < shape ! d" "length i = length shape" using i d by (auto simp: inBounds_nth)
    then have "inBounds ?b shape" "?b ! d = 0" using i d by (auto simp: inBounds_nth nth_list_update)
    then have m: "(?b, i ! d, hs ?b ! nat (i ! d)) \<in> set (sort_writes shape d hs)"
      using sort_writes_set [where hs = hs, OF d hs] id by blast
    then show ?thesis using t'(4) ok [OF m] by fastforce
  qed
  with t' t(2) input(2) show ?thesis by (auto simp: denotes_def)
qed

section \<open>The operation\<close>

lemma sort_slice_writes:
  assumes "d < length b" "length hs = nat n" "length inputs = length results"
  shows "sort_slice F inputs (int d) b hs results =
    foldM (\<lambda>x rs. mapM (\<lambda>(input, r). write_one F d input x r) (zip inputs rs)) (map (Pair b) (zip (upto_int n) hs)) results"
proof -
  have n: "zip (upto_int (int (length hs))) hs = zip (upto_int n) hs"
    by (rule length_eq_nth_imp) (use assms(2) in auto)
  show ?thesis
    using assms(1) unfolding sort_slice_def n foldM_map
    by (intro foldM_cong mapM_cong refl) (auto simp: write_one_def split: prod.splits)
qed

lemma sort_loop_writes:
  assumes hs: "\<And>b. inBounds b shape \<Longrightarrow> b ! d = 0 \<Longrightarrow>
      sort_handles std_sort isStable (comparatorTogether F inputs (int d) comparator b) (upto_int (shape ! d)) = Inr (hs b) \<and>
      length (hs b) = nat (shape ! d)"
    and d: "d < length shape" and len: "length inputs = length results"
  shows "foldM (\<lambda>b rs. rbind (vec_nth b (int d)) (\<lambda>position. if position \<noteq> 0 then Inr rs
        else rbind (vec_nth shape (int d)) (\<lambda>size.
             rbind (sort_handles std_sort isStable (comparatorTogether F inputs (int d) comparator b) (upto_int size)) (\<lambda>h.
               sort_slice F inputs (int d) b h rs)))) (index_space shape) results =
    foldM (\<lambda>x rs. mapM (\<lambda>(input, r). write_one F d input x r) (zip inputs rs)) (sort_writes shape d hs) results"
    (is "?lhs = foldM ?w _ _")
proof -
  let ?row = "\<lambda>b. map (Pair b) (zip (upto_int (shape ! d)) (hs b))"
  have inv: "length rs = length inputs \<Longrightarrow> ?w x rs = Inr rs' \<Longrightarrow> length rs' = length inputs" for x rs rs'
    using mapM_length by fastforce
  have inv': "length rs = length inputs \<Longrightarrow> foldM ?w xs rs = Inr rs' \<Longrightarrow> length rs' = length inputs" for xs rs rs'
    by (induction xs arbitrary: rs) (auto simp: rbind_eq_Inr dest: inv)
  have "(\<And>b. b \<in> set bs \<Longrightarrow> inBounds b shape) \<Longrightarrow> length rs = length inputs \<Longrightarrow>
      foldM (\<lambda>b rs. rbind (vec_nth b (int d)) (\<lambda>position. if position \<noteq> 0 then Inr rs
        else rbind (vec_nth shape (int d)) (\<lambda>size.
             rbind (sort_handles std_sort isStable (comparatorTogether F inputs (int d) comparator b) (upto_int size)) (\<lambda>h.
               sort_slice F inputs (int d) b h rs)))) bs rs =
      foldM ?w (concat (map ?row (filter (\<lambda>b. b ! d = 0) bs))) rs" for bs rs
  proof (induction bs arbitrary: rs)
    case (Cons b bs)
    have b: "inBounds b shape" "d < length b" using Cons.prems(1) d inBounds_length [of b shape] by auto
    show ?case
    proof (cases "b ! d = 0")
      case True
      have "sort_slice F inputs (int d) b (hs b) rs = foldM ?w (?row b) rs"
        using hs [OF b(1) True] Cons.prems(2) by (intro sort_slice_writes b(2)) simp_all
      then show ?thesis
        using True b d hs [OF b(1) True] Cons inv' [OF Cons.prems(2)]
        by (auto simp: foldM_append intro!: rbind_cong)
    qed (use Cons b in simp)
  qed simp
  from this [of "index_space shape" results] show ?thesis using len by (simp add: sort_writes_def)
qed

lemma write_all_sorted:
  assumes inputs: "denotes_all F shape tys inputs xs" and d: "d < length shape"
    and ms: "\<And>b. inBounds b shape \<Longrightarrow> mset (hs b) = mset (upto_int (shape ! d))"
  shows "\<exists>new rs. mapM (\<lambda>input. newTensor (t_type input)) inputs = Inr new \<and> length new = length tys \<and>
    foldM (\<lambda>x rs. mapM (\<lambda>(input, r). write_one F d input x r) (zip inputs rs)) (sort_writes shape d hs) new = Inr rs \<and>
    denotes_all F shape tys rs (\<lambda>i. xs (i[d := hs (i[d := 0]) ! nat (i ! d)]))"
proof -
  have n: "length inputs = length tys" using inputs by (simp add: denotes_all_def)
  have k: "denotes F (inputs ! k) (\<lambda>i. xs i ! k)" "t_type (inputs ! k) = \<lparr>getShape = shape, getElementType = tys ! k\<rparr>"
    if "k < length tys" for k using inputs that by (auto simp: denotes_all_def)
  define new where "new = map (\<lambda>t. projr (newTensor (t_type t))) inputs"
  have new: "newTensor (t_type (inputs ! j)) = Inr (new ! j)" if "j < length tys" for j
    using newTensor_ok [OF wf_tensor_type [OF denotes_wf [OF k(1) [OF that]]]] that n by (auto simp: new_def)
  define rs where "rs = map (\<lambda>j. projr (foldM (write_one F d (inputs ! j)) (sort_writes shape d hs) (new ! j))) [0..<length tys]"
  have rs: "foldM (write_one F d (inputs ! j)) (sort_writes shape d hs) (new ! j) = Inr (rs ! j) \<and>
    t_type (rs ! j) = \<lparr>getShape = shape, getElementType = tys ! j\<rparr> \<and>
    denotes F (rs ! j) (\<lambda>i. xs (i[d := hs (i[d := 0]) ! nat (i ! d)]) ! j)" if j: "j < length tys" for j
  proof -
    have sh: "t_shape (inputs ! j) = shape" using k(2) [OF j] by simp
    show ?thesis using write_sorted [where hs = hs, OF k(1) [OF j] sh d ms new [OF j]] k(2) [OF j] j by (auto simp: rs_def)
  qed
  have len: "length new = length tys" "length rs = length tys" by (simp_all add: new_def rs_def n)
  have "foldM (\<lambda>x rs. mapM (\<lambda>(input, r). write_one F d input x r) (zip inputs rs)) (sort_writes shape d hs) new = Inr rs"
    using rs len n by (intro foldM_mapM_zip) simp_all
  moreover have "mapM (\<lambda>input. newTensor (t_type input)) inputs = Inr new"
    using new n len by (simp add: mapM_eq_Inr)
  ultimately show ?thesis using rs len by (intro exI [of _ new] exI [of _ rs]) (simp add: denotes_all_def)
qed

text \<open>
  C23: \<open>sort\<close>. If the comparator region decides a strict weak order on the tuples of elements, the operation succeeds, its
  results have the types of the inputs and every element is set: along the dimension, every slice of all results together is
  the slice of the inputs permuted by handles that are sorted with respect to the comparator, and for \<open>is_stable\<close> equivalent
  tuples keep their order. A negative dimension counts from the last one.
\<close>

theorem sort_sound:
  assumes inputs: "denotes_all F shape tys inputs xs" and lens: "tys \<noteq> []" "\<And>i. length (xs i) = length tys"
    and cmp: "comparator_decides F tys comparator lt"
    and swo: "\<And>b. inBounds b shape \<Longrightarrow> strict_weak_order (\<lambda>x y. lt (xs (b[d := x])) (xs (b[d := y]))) (upto_int (shape ! d))"
    and std: "std_sort_ok std_sort"
    and dim: "d < length shape" "dimension = int d \<or> dimension = int d - int (length shape)"
  shows "\<exists>rs hs. sortOp F std_sort inputs dimension isStable comparator = Inr rs \<and>
    denotes_all F shape tys rs (\<lambda>i. xs (i[d := hs (i[d := 0]) ! nat (i ! d)])) \<and>
    (\<forall>b. inBounds b shape \<and> b ! d = 0 \<longrightarrow>
       handles_sorted isStable (\<lambda>x y. lt (xs (b[d := x])) (xs (b[d := y]))) (upto_int (shape ! d)) (hs b))"
proof -
  have in0: "vec_nth inputs 0 = Inr (inputs ! 0)" "t_shape (inputs ! 0) = shape" "length inputs = length tys"
    using inputs lens(1) by (auto simp: denotes_all_def vec_nth_def)
  define hs where "hs = (\<lambda>b. projr (sort_handles std_sort isStable (comparatorTogether F inputs (int d) comparator b) (upto_int (shape ! d))))"
  have hs: "sort_handles std_sort isStable (comparatorTogether F inputs (int d) comparator b) (upto_int (shape ! d)) = Inr (hs b)"
    "handles_sorted isStable (\<lambda>x y. lt (xs (b[d := x])) (xs (b[d := y]))) (upto_int (shape ! d)) (hs b)" if b: "inBounds b shape" for b
  proof -
    have "\<exists>h. sort_handles std_sort isStable (comparatorTogether F inputs (int d) comparator b) (upto_int (shape ! d)) = Inr h \<and>
        handles_sorted isStable (\<lambda>x y. lt (xs (b[d := x])) (xs (b[d := y]))) (upto_int (shape ! d)) h"
      by (rule sort_handles_sorted [OF _ swo [OF b] std])
        (simp add: comparatorTogether_decides [OF inputs lens(2) cmp b dim(1)])
    then show "sort_handles std_sort isStable (comparatorTogether F inputs (int d) comparator b) (upto_int (shape ! d)) = Inr (hs b)"
      "handles_sorted isStable (\<lambda>x y. lt (xs (b[d := x])) (xs (b[d := y]))) (upto_int (shape ! d)) (hs b)"
      by (auto simp: hs_def)
  qed
  have ms: "mset (hs b) = mset (upto_int (shape ! d))" if "inBounds b shape" for b
    using hs(2) [OF that] by (simp add: handles_sorted_def sorts_def)
  have hl: "length (hs b) = nat (shape ! d)" if "inBounds b shape" for b using mset_eq_length [OF ms [OF that]] by simp
  obtain new rs where rs: "mapM (\<lambda>input. newTensor (t_type input)) inputs = Inr new" "length new = length tys"
    "foldM (\<lambda>x rs. mapM (\<lambda>(input, r). write_one F d input x r) (zip inputs rs)) (sort_writes shape d hs) new = Inr rs"
    "denotes_all F shape tys rs (\<lambda>i. xs (i[d := hs (i[d := 0]) ! nat (i ! d)]))"
    using write_all_sorted [where hs = hs, OF inputs dim(1) ms] by blast
  have dd: "(if 0 \<le> dimension then dimension else dimension + getRank (inputs ! 0)) = int d"
    using dim in0(2) by (auto simp: getRank_def)
  have len: "length inputs = length new" using in0(3) rs(2) by simp
  have "sortOp F std_sort inputs dimension isStable comparator = Inr rs"
    unfolding sortOp_def rs(1) in0(1) Let_def rbind_Inr dd in0(2) forEachIndex_foldM
    by (rule trans [OF sort_loop_writes [where hs = hs, OF _ dim(1) len] rs(3)]) (simp add: hs(1) hl)
  with rs(4) hs(2) show ?thesis by blast
qed

end
