(* ===== verification/Collectives_Correct.thy ===== *)
theory Collectives_Correct
  imports Collectives Process_Grid_Correct Concat_Correct Sort_Correct
begin

text \<open>
  The collective operations, composed with the executions of the rendezvous: in every execution in which the processes of a
  group meet on a channel, every process computes its results from the operands all of them contributed.
\<close>

section \<open>What a process receives\<close>

text \<open>
  The processes of the group \<open>g\<close> meet in the execution \<open>s\<close>, each of them contributing \<open>ops q\<close>, and the call of the process \<open>P\<close>
  returned.
\<close>

definition meets :: "ProcessGroup \<Rightarrow> Tensor RendezvousSystem \<Rightarrow> (ProcessId \<Rightarrow> Tensor list) \<Rightarrow> Process \<Rightarrow> int \<Rightarrow> bool" where
  "meets g s ops P channelId \<longleftrightarrow> rendezvous_reachable g s \<and> distinct g \<and> 1 < length g \<and> first_use s \<and>
     (\<forall>q xs. Call q xs \<in> set (sys_log s) \<longrightarrow> xs = ops q) \<and>
     (\<exists>r. Return (getId P) r \<in> set (sys_log s) \<and> rendezvous P g channelId (ops (getId P)) = Inr r)"

lemma meets_result:
  assumes "meets g s ops P channelId"
  obtains r where "rendezvous P g channelId (ops (getId P)) = Inr r"
    "\<And>q. q \<in> set g \<Longrightarrow> results_lookup r q = ops q" "getSortedTensors r = map ops (sort g)"
proof -
  obtain r where r: "Return (getId P) r \<in> set (sys_log s)" "rendezvous P g channelId (ops (getId P)) = Inr r"
    and s: "rendezvous_reachable g s" "distinct g" "1 < length g" "first_use s"
    "\<And>q xs. Call q xs \<in> set (sys_log s) \<Longrightarrow> xs = ops q"
    using assms by (auto simp: meets_def)
  obtain later earlier where log: "sys_log s = later @ Return (getId P) r # earlier"
    using split_list [OF r(1)] by blast
  have keys: "map fst r = sort g" and look: "results_lookup r q = ops q" if "q \<in> set g" for q
    using barrier_returns [OF s(1-4) log] s(5) [of q "results_lookup r q"] that by (auto simp: log)
  then have keys: "map fst r = sort g" using s(3) by (cases g) auto
  have d: "distinct (map fst r)" using keys s(2) by simp
  have "snd x = results_lookup r (fst x)" if "x \<in> set r" for x
  proof -
    have "map_of r (fst x) = Some (snd x)" using that by (intro map_of_is_SomeI [OF d]) simp
    then show ?thesis by (simp add: results_lookup_def)
  qed
  moreover have "fst x \<in> set g" if "x \<in> set r" for x
    using that keys by (metis image_eqI set_map set_sort)
  ultimately have "map snd r = map (\<lambda>x. ops (fst x)) r" using look by auto
  then have "getSortedTensors r = map ops (map fst r)" by (simp add: getSortedTensors_def)
  with r(2) look keys that show thesis by metis
qed

lemma own_group_Some [simp]: "findGroup gs (getId P) = Some g \<Longrightarrow> own_group P gs = Inr g"
  by (simp add: own_group_def)

lemma the_process_Some [simp]: "the_process m (Some P) = Inr P"
  by (simp add: the_process_def)

text \<open>An operation that computes its results one by one.\<close>

lemma mapM_enumerated:
  assumes "\<And>k. k < length tys \<Longrightarrow> \<exists>y. f (int k, tys ! k) = Inr y \<and> Q k y"
  shows "\<exists>ys. mapM f (zip (upto_int (int (length tys))) tys) = Inr ys \<and> length ys = length tys \<and> (\<forall>k < length tys. Q k (ys ! k))"
proof -
  define ys where "ys = map (\<lambda>k. projr (f (int k, tys ! k))) [0..<length tys]"
  have "f (int k, tys ! k) = Inr (ys ! k) \<and> Q k (ys ! k)" if "k < length tys" for k
    using assms [OF that] that by (auto simp: ys_def)
  then show ?thesis by (intro exI [of _ ys]) (auto simp: mapM_eq_Inr ys_def)
qed

section \<open>All-gather\<close>

text \<open>
  C25: \<open>all_gather\<close>. In every execution in which the processes of a group meet, if their operands can be concatenated along the
  gather dimension, every process of the group gets, for each of its operands, the concatenation of the operands of all processes
  in the order of the group, with every element set.
\<close>

theorem all_gather_sound:
  assumes meets: "meets g s ops P channelId"
    and group: "replica_groups P replicaGroups channelId useGlobalDeviceIds = Inr gs" "findGroup gs (getId P) = Some g"
    and data: "\<And>q k. q \<in> set g \<Longrightarrow> k < length rts \<Longrightarrow> k < length (ops q) \<and> denotes F (ops q ! k) (f q k) \<and>
      t_elementType (ops q ! k) = getElementType (rts ! k)"
    and infer: "\<And>k. k < length rts \<Longrightarrow> inferConcatenateOp (map (\<lambda>q. as_ranked (t_type (ops q ! k))) g) dim = Inr (rts ! k)"
  shows "\<exists>results. allGatherOp F (ops (getId P)) dim replicaGroups channelId useGlobalDeviceIds (Some P) (map as_shaped rts) =
      Inr results \<and> length results = length rts \<and>
    (\<forall>k < length rts. t_type (results ! k) = as_shaped (rts ! k) \<and>
       denotes F (results ! k) (concatenated (nat dim) (map (\<lambda>q. t_shape (ops q ! k) ! nat dim) g) (map (\<lambda>q. f q k) g)))"
proof -
  obtain r where r: "rendezvous P g channelId (ops (getId P)) = Inr r" "\<And>q. q \<in> set g \<Longrightarrow> results_lookup r q = ops q"
    using meets_result [OF meets] by blast
  have at: "mapM (\<lambda>q. vec_nth (results_lookup r q) (int k)) g = Inr (map (\<lambda>q. ops q ! k) g)" if "k < length rts" for k
    by (rule mapM_Inr) (simp add: r(2) data that)
  have "\<exists>t. concatenateOp F (map (\<lambda>q. ops q ! k) g) dim (as_shaped (rts ! k)) = Inr t \<and> t_type t = as_shaped (rts ! k) \<and>
      denotes F t (concatenated (nat dim) (map (\<lambda>q. t_shape (ops q ! k) ! nat dim) g) (map (\<lambda>q. f q k) g))"
    if k: "k < length rts" for k
  proof -
    have "list_all2 (denotes F) (map (\<lambda>q. ops q ! k) g) (map (\<lambda>q. f q k) g)"
      using data k by (simp add: list_all2_conv_all_nth)
    from concatenate_denotes [OF this, of dim "rts ! k"] infer [OF k] data k show ?thesis by (simp add: comp_def)
  qed
  then have "\<exists>ys. mapM (\<lambda>(resultIndex, resultType).
         rbind (mapM (\<lambda>q. vec_nth (results_lookup r q) resultIndex) g) (\<lambda>operandsAtIndex.
           concatenateOp F operandsAtIndex dim resultType))
         (zip (upto_int (int (length (map as_shaped rts)))) (map as_shaped rts)) = Inr ys \<and> length ys = length (map as_shaped rts) \<and>
      (\<forall>k < length (map as_shaped rts). t_type (ys ! k) = as_shaped (rts ! k) \<and>
       denotes F (ys ! k) (concatenated (nat dim) (map (\<lambda>q. t_shape (ops q ! k) ! nat dim) g) (map (\<lambda>q. f q k) g)))"
    by (intro mapM_enumerated) (simp add: at)
  then show ?thesis by (simp add: allGatherOp_def group r(1))
qed

section \<open>All-reduce\<close>

lemma reduce_rest:
  assumes region: "region_computes F ([ty] @ [ty]) [ty] computation h"
    and data: "\<And>q. q \<in> set ps \<Longrightarrow> k < length (ops q) \<and> Tensor_get F (ops q ! k) i = Inr (e q) \<and> storable F ty (e q)"
    and acc: "holds_scalar F ty a (TensorValue t)"
  shows "\<exists>t'. foldM (\<lambda>processOperands resultElement.
              rbind (vec_nth processOperands (int k)) (\<lambda>operand.
              rbind (Tensor_get F operand i) (\<lambda>e.
              rbind (constant_of F e) (\<lambda>operandElement.
                case resultElement of
                  None \<Rightarrow> Inr (Some operandElement)
                | Some t \<Rightarrow>
                    rbind (computation [TensorValue t, TensorValue operandElement]) (\<lambda>values.
                    rbind (vec_nth values 0) (\<lambda>v. rbind (getTensor v) (\<lambda>t'. Inr (Some t'))))))))
              (map ops ps) (Some t) = Inr (Some t') \<and>
    holds_scalar F ty (foldl (\<lambda>x q. h [x, e q] ! 0) a ps) (TensorValue t')"
  using data acc
proof (induction ps arbitrary: a t)
  case (Cons p ps)
  obtain c where c: "constant_of F (e p) = Inr c" "holds_scalar F ty (e p) (TensorValue c)"
    using constant_holds [of F ty "e p"] Cons.prems(1) [of p] by auto
  have "holds_scalars F ([ty] @ [ty]) [a, e p] [TensorValue t, TensorValue c]"
    using c(2) Cons.prems(2) by (auto simp: holds_scalars_def less_Suc_eq)
  from region_computesD [OF region this] obtain t' where
    "computation [TensorValue t, TensorValue c] = Inr [TensorValue t']" "holds_scalar F ty (h [a, e p] ! 0) (TensorValue t')"
    by (auto simp: holds_scalars_def holds_scalar_def length_Suc_conv)
  with Cons.IH [of "h [a, e p] ! 0" t'] Cons.prems(1) c(1) show ?case by simp
qed auto

lemma reduce_element_folds:
  assumes "region_computes F ([ty] @ [ty]) [ty] computation h" "ps \<noteq> []"
    and "\<And>q. q \<in> set ps \<Longrightarrow> k < length (ops q) \<and> Tensor_get F (ops q ! k) i = Inr (e q) \<and> storable F ty (e q)"
  shows "reduce_element F computation (map ops ps) (int k) i = Inr (foldl (\<lambda>x q. h [x, e q] ! 0) (e (hd ps)) (tl ps)) \<and>
    storable F ty (foldl (\<lambda>x q. h [x, e q] ! 0) (e (hd ps)) (tl ps))"
proof -
  obtain p qs where ps: "ps = p # qs" using assms(2) by (cases ps) auto
  obtain c where c: "constant_of F (e p) = Inr c" "holds_scalar F ty (e p) (TensorValue c)"
    using constant_holds [of F ty "e p"] assms(3) [of p] ps by auto
  obtain t' where t': "reduce_element F computation (map ops ps) (int k) i = Tensor_get F t' []"
    "holds_scalar F ty (foldl (\<lambda>x q. h [x, e q] ! 0) (e p) qs) (TensorValue t')"
    using reduce_rest [OF assms(1) _ c(2), of qs k ops i e] assms(3) c(1) by (auto simp: reduce_element_def ps)
  with scalar_result_holds [OF t'(2)] show ?thesis by (simp add: ps scalar_result_def)
qed

text \<open>
  C26: \<open>all_reduce\<close>. In every execution in which the processes of a group meet, if the region computes \<open>h\<close> on scalars, every process
  of the group gets the same results: at every index the elements of all processes combined by \<open>h\<close> in the order of their
  identifiers, with every element set. This is the order of the code, \<^verbatim>\<open>getSortedTensors\<close>. The specification, \<^verbatim>\<open>docs/spec.md\<close>, has the
  operands in the order in which the group lists its processes: the two agree for groups in ascending order, and for regions that
  are associative and commutative.
\<close>

theorem all_reduce_sound:
  assumes meets: "meets g s ops P channelId"
    and group: "replica_groups P replicaGroups channelId useGlobalDeviceIds = Inr gs" "findGroup gs (getId P) = Some g"
    and data: "\<And>q k. q \<in> set g \<Longrightarrow> k < length tys \<Longrightarrow> k < length (ops q) \<and> denotes F (ops q ! k) (f q k) \<and> t_type (ops q ! k) = tys ! k"
    and region: "\<And>k. k < length tys \<Longrightarrow>
      region_computes F ([getElementType (tys ! k)] @ [getElementType (tys ! k)]) [getElementType (tys ! k)] computation h"
  shows "\<exists>results. allReduceOp F (ops (getId P)) replicaGroups channelId useGlobalDeviceIds computation (Some P) tys = Inr results \<and>
    length results = length tys \<and>
    (\<forall>k < length tys. t_type (results ! k) = tys ! k \<and>
       denotes F (results ! k) (\<lambda>i. foldl (\<lambda>x q. h [x, f q k i] ! 0) (f (hd (sort g)) k i) (tl (sort g))))"
proof -
  obtain r where r: "rendezvous P g channelId (ops (getId P)) = Inr r" "getSortedTensors r = map ops (sort g)"
    using meets_result [OF meets] by blast
  have g: "g \<noteq> []" using meets by (auto simp: meets_def)
  then have sg: "sort g \<noteq> []" by (metis set_empty2 set_sort)
  have "\<exists>t. fill_result F (tys ! k) (reduce_element F computation (map ops (sort g)) (int k)) = Inr t \<and> t_type t = tys ! k \<and>
      denotes F t (\<lambda>i. foldl (\<lambda>x q. h [x, f q k i] ! 0) (f (hd (sort g)) k i) (tl (sort g)))" if k: "k < length tys" for k
  proof (rule fill_result_denotes)
    have "hd g \<in> set g" using g by simp
    then show "wf_type (tys ! k)" using data [of "hd g" k] k wf_tensor_type [OF denotes_wf] by fastforce
    fix i assume i: "inBounds i (getShape (tys ! k))"
    show "reduce_element F computation (map ops (sort g)) (int k) i =
        Inr (foldl (\<lambda>x q. h [x, f q k i] ! 0) (f (hd (sort g)) k i) (tl (sort g))) \<and>
      storable F (getElementType (tys ! k)) (foldl (\<lambda>x q. h [x, f q k i] ! 0) (f (hd (sort g)) k i) (tl (sort g)))"
      using data [OF _ k] denotes_get [of F _ _ i] denotes_storable [of F _ _ i] i
      by (intro reduce_element_folds region k sg) (metis set_sort)
  qed
  then have "\<exists>ys. mapM (\<lambda>(resultIndex, resultType). fill_result F resultType
        (reduce_element F computation (map ops (sort g)) resultIndex)) (zip (upto_int (int (length tys))) tys) = Inr ys \<and>
      length ys = length tys \<and> (\<forall>k < length tys. t_type (ys ! k) = tys ! k \<and>
        denotes F (ys ! k) (\<lambda>i. foldl (\<lambda>x q. h [x, f q k i] ! 0) (f (hd (sort g)) k i) (tl (sort g))))"
    by (intro mapM_enumerated) simp
  then show ?thesis by (simp add: allReduceOp_def group r)
qed

end
