(* ===== verification/Elementwise_Correct.thy ===== *)
theory Elementwise_Correct
  imports Ops_Elementwise Dot_Correct Sort_Correct
begin

text \<open>
  The element-wise operations on whole tensors: what an operation does to elements it does at every index. The region that
  applies one of them to its two arguments computes the operation on scalars; the regions of \<open>reduce\<close> and the comparators
  of \<open>sort\<close> are of this form.
\<close>

section \<open>Lifting operations on elements to tensors\<close>

lemma unaryOp_denotes:
  assumes "denotes F operand f" "wf_type ty" "getShape ty = t_shape operand"
    and "\<And>i. inBounds i (t_shape operand) \<Longrightarrow> fn (f i) = Inr (h i) \<and> storable F (getElementType ty) (h i)"
  shows "\<exists>r. unaryOp F fn operand ty = Inr r \<and> t_type r = ty \<and> denotes F r h"
proof -
  have "\<exists>r. fill_result F ty (\<lambda>i. rbind (Tensor_get F operand i) fn) = Inr r \<and> t_type r = ty \<and> denotes F r h"
    using denotes_get [OF assms(1)] assms(3,4) by (intro fill_result_denotes assms(2)) simp_all
  then show ?thesis by (simp add: unaryOp_def)
qed

lemma binaryOp_denotes:
  assumes "denotes F lhs f" "denotes F rhs g" "wf_type ty" "getShape ty = t_shape lhs" "t_shape rhs = t_shape lhs"
    and "\<And>i. inBounds i (t_shape lhs) \<Longrightarrow> fn (f i) (g i) = Inr (h i) \<and> storable F (getElementType ty) (h i)"
  shows "\<exists>r. binaryOp F fn lhs rhs ty = Inr r \<and> t_type r = ty \<and> denotes F r h"
proof -
  have "\<exists>r. fill_result F ty (\<lambda>i. rbind (Tensor_get F lhs i) (\<lambda>l. rbind (Tensor_get F rhs i) (fn l))) = Inr r \<and>
      t_type r = ty \<and> denotes F r h"
    using denotes_get [OF assms(1)] denotes_get [OF assms(2)] assms(4-6) by (intro fill_result_denotes assms(3)) simp_all
  then show ?thesis by (simp add: binaryOp_def)
qed

text \<open>The elements a tensor of integers can hold are the integers in the range of its type.\<close>

lemma storable_int_el:
  assumes "isSupportedIntegerType (IntegerType s w)" "storable F (IntegerType s w) e"
  obtains v where "e = int_el s w v" "in_range s w v"
proof -
  obtain x where x: "e = int_el s w x"
    using assms by (auto simp: storable_def element_of_bytes_def Element_int_def int_el_def split: if_splits)
  show thesis
  proof (cases s)
    case Unsigned
    have "in_range s w (x mod 2 ^ w)" "int_el s w (x mod 2 ^ w) = e"
      by (simp_all add: in_range_def Unsigned x int_el_def mkAPInt_def take_bit_eq_mod)
    then show thesis using that by metis
  next
    case Signless
    let ?v = "sval (mkAPInt w x)"
    have w: "0 < w" using assms(1) by (auto simp: supported_IntegerType)
    have "in_range s w ?v" using Signless w sval_range [of "mkAPInt w x"] by (auto simp: in_range_def)
    moreover have "int_el s w ?v = e" using mkAPInt_sval_id [of "mkAPInt w x"] by (simp add: x int_el_def)
    ultimately show thesis using that by metis
  qed (use assms(1) in \<open>auto simp: supported_IntegerType\<close>)
qed

lemma bool_el_storable: "storable F i1Type (bool_el b)"
  by (cases b) (auto simp: storable_def element_to_bytes_def element_of_bytes_def supported_defs Element_bool_def)

section \<open>Integer tensors\<close>

lemma integer_arithmetic_denotes:
  assumes "denotes_int F lhs s w a" "denotes_int F rhs s w b" "t_type rhs = t_type lhs"
  shows "(\<exists>r. addOp F lhs rhs (t_type lhs) = Inr r \<and> t_type r = t_type lhs \<and> denotes F r (\<lambda>i. int_el s w (a i + b i))) \<and>
    (\<exists>r. subtractOp F lhs rhs (t_type lhs) = Inr r \<and> t_type r = t_type lhs \<and> denotes F r (\<lambda>i. int_el s w (a i - b i))) \<and>
    (\<exists>r. multiplyOp F lhs rhs (t_type lhs) = Inr r \<and> t_type r = t_type lhs \<and> denotes F r (\<lambda>i. int_el s w (a i * b i)))"
proof -
  have d: "denotes F lhs (\<lambda>i. int_el s w (a i))" "denotes F rhs (\<lambda>i. int_el s w (b i))" "t_elementType lhs = IntegerType s w"
    "isSupportedIntegerType (IntegerType s w)"
    using assms(1,2) by (auto simp: denotes_int_def)
  note lift = binaryOp_denotes [OF d(1,2) wf_tensor_type [OF denotes_wf [OF d(1)]] refl]
  show ?thesis
    unfolding addOp_def subtractOp_def multiplyOp_def
    using d(3) assms(3) by (intro conjI; intro lift) (simp_all add: int_el_arith d(4) int_el_storable)
qed

text \<open>
  On tensors of one integer type, \<open>add\<close>, \<open>subtract\<close> and \<open>multiply\<close> succeed, return a tensor of that type with every element
  set, and compute the sum, difference and product of the integers at every index, modulo \<open>2^w\<close>.
\<close>

theorem integer_tensor_arithmetic:
  assumes "denotes_int F lhs s w a" "denotes_int F rhs s w b" "t_type rhs = t_type lhs"
  shows "(\<exists>r. addOp F lhs rhs (t_type lhs) = Inr r \<and> t_type r = t_type lhs \<and> denotes F r (\<lambda>i. int_el s w (a i + b i))) \<and>
    (\<exists>r. subtractOp F lhs rhs (t_type lhs) = Inr r \<and> t_type r = t_type lhs \<and> denotes F r (\<lambda>i. int_el s w (a i - b i))) \<and>
    (\<exists>r. multiplyOp F lhs rhs (t_type lhs) = Inr r \<and> t_type r = t_type lhs \<and> denotes F r (\<lambda>i. int_el s w (a i * b i)))"
  by (rule integer_arithmetic_denotes [OF assms])

text \<open>
  \<open>compare\<close> on tensors of one integer type sets every element of a boolean tensor to the comparison of the integers at its
  index, in the order of the type's signedness.
\<close>

theorem integer_tensor_compare:
  assumes "denotes_int F lhs s w a" "denotes_int F rhs s w b" "t_shape rhs = t_shape lhs"
    and "ty = \<lparr>getShape = t_shape lhs, getElementType = i1Type\<rparr>"
  shows "\<exists>r. compareOp F lhs rhs dir ty = Inr r \<and> t_type r = ty \<and>
    denotes F r (\<lambda>i. bool_el (case dir of EQ \<Rightarrow> a i = b i | NE \<Rightarrow> a i \<noteq> b i | GE \<Rightarrow> b i \<le> a i | GT \<Rightarrow> b i < a i
      | LE \<Rightarrow> a i \<le> b i | LT \<Rightarrow> a i < b i))"
proof -
  have d: "denotes F lhs (\<lambda>i. int_el s w (a i))" "denotes F rhs (\<lambda>i. int_el s w (b i))" "isSupportedIntegerType (IntegerType s w)"
    and r: "\<And>i. inBounds i (t_shape lhs) \<Longrightarrow> in_range s w (a i) \<and> in_range s w (b i)"
    using assms(1-3) by (auto simp: denotes_int_def)
  have "wf_type ty" using denotes_static(1) [OF d(1)] by (simp add: assms(4) wf_type_def)
  then show ?thesis
    unfolding compareOp_def
  proof (rule binaryOp_denotes [OF d(1,2)])
    fix i assume "inBounds i (t_shape lhs)"
    from int_el_compare [OF d(3), where F = F] r [OF this] bool_el_storable
    show "compare_elements F dir (int_el s w (a i)) (int_el s w (b i)) =
        Inr (bool_el (case dir of EQ \<Rightarrow> a i = b i | NE \<Rightarrow> a i \<noteq> b i | GE \<Rightarrow> b i \<le> a i | GT \<Rightarrow> b i < a i
          | LE \<Rightarrow> a i \<le> b i | LT \<Rightarrow> a i < b i)) \<and>
      storable F (getElementType ty) (bool_el (case dir of EQ \<Rightarrow> a i = b i | NE \<Rightarrow> a i \<noteq> b i | GE \<Rightarrow> b i \<le> a i
          | GT \<Rightarrow> b i < a i | LE \<Rightarrow> a i \<le> b i | LT \<Rightarrow> a i < b i))"
      by (cases dir) (simp_all add: compare_elements_def assms(4) del: One_nat_def)
  qed (simp_all add: assms(3,4))
qed

section \<open>Regions with one operation\<close>

text \<open>The region of two scalar arguments that returns the result of one operation on them.\<close>

definition binary_region :: "Type \<Rightarrow> Type \<Rightarrow> (Tensor \<Rightarrow> Tensor \<Rightarrow> Tensor result) \<Rightarrow> Region" where
  "binary_region ty rty f =
     (let l = \<lparr>ssa_id = 0, ssa_type = TensorType (scalar_type ty)\<rparr>;
          r = \<lparr>ssa_id = 1, ssa_type = TensorType (scalar_type ty)\<rparr>;
          x = \<lparr>ssa_id = 2, ssa_type = TensorType (scalar_type rty)\<rparr>
      in \<lparr>rg_arguments = [l, r], rg_operations = [binary_operation l r x f, ReturnOp [x]]\<rparr>)"

lemma binary_region_eval:
  assumes "t_type l = scalar_type ty" "t_type r = scalar_type ty" "f l r = Inr x" "t_type x = scalar_type rty"
  shows "eval (binary_region ty rty f) [TensorValue l, TensorValue r] parent = Inr [TensorValue x]"
  using assms by (simp add: eval_def binary_region_def Let_def Scope_add_all_def Scope_new_def binary_operation_def
      hasStaticShape_def findTensor_def Scope_find_all_def)

lemma binary_region_computes:
  assumes "wf_type (scalar_type rty)"
    and "\<And>x y. storable F ty x \<Longrightarrow> storable F ty y \<Longrightarrow> fn x y = Inr (h x y) \<and> storable F rty (h x y)"
  shows "region_computes F ([ty] @ [ty]) [rty] (\<lambda>args. eval (binary_region ty rty (\<lambda>l r. binaryOp F fn l r (scalar_type rty))) args parent)
    (\<lambda>es. [h (es ! 0) (es ! 1)])"
  unfolding region_computes_def
proof (intro allI impI)
  fix es vs assume "holds_scalars F ([ty] @ [ty]) es vs"
  then obtain l r where v: "vs = [TensorValue l, TensorValue r]" "t_type l = scalar_type ty" "t_type r = scalar_type ty"
    "denotes F l (\<lambda>_. es ! 0)" "denotes F r (\<lambda>_. es ! 1)"
    by (auto simp: holds_scalars_def holds_scalar_def length_Suc_conv All_less_Suc)
  have "storable F ty (es ! 0)" "storable F ty (es ! 1)"
    using denotes_storable [OF v(4), of "[]"] denotes_storable [OF v(5), of "[]"] v(2,3) by simp_all
  from assms(2) [OF this] obtain x where x: "binaryOp F fn l r (scalar_type rty) = Inr x" "t_type x = scalar_type rty"
    "denotes F x (\<lambda>_. h (es ! 0) (es ! 1))"
    using binaryOp_denotes [OF v(4,5) assms(1), of fn "\<lambda>_. h (es ! 0) (es ! 1)"] v(2,3) by auto
  from binary_region_eval [where f = "\<lambda>l r. binaryOp F fn l r (scalar_type rty)", OF v(2,3) x(1,2)] x(2,3)
  show "\<exists>rs. eval (binary_region ty rty (\<lambda>l r. binaryOp F fn l r (scalar_type rty))) vs parent = Inr rs \<and>
      holds_scalars F [rty] [h (es ! 0) (es ! 1)] rs"
    by (simp add: v(1) holds_scalars_def holds_scalar_def)
qed

end
