(* ===== verification/Region_Witness.thy ===== *)
theory Region_Witness
  imports Elementwise_Correct Dot_Witness
begin

text \<open>The claims about element-wise operations and about \<open>reduce\<close> and \<open>sort\<close> on matrices of bytes, with the usual regions.\<close>

section \<open>Regions on bytes\<close>

abbreviation i8Type :: Type where "i8Type \<equiv> IntegerType Signless 8"

lemma byte_supported: "isSupportedIntegerType i8Type"
  by (simp add: supported_IntegerType)

definition add_region :: body where
  "add_region = (\<lambda>args. eval (binary_region i8Type i8Type (\<lambda>l r. binaryOp fixed_api (el_add fixed_api) l r (scalar_type i8Type))) args [])"

definition less_region :: body where
  "less_region = (\<lambda>args. eval (binary_region i8Type i1Type
     (\<lambda>l r. binaryOp fixed_api (compare_elements fixed_api LT) l r (scalar_type i1Type))) args [])"

lemma el_add_i8:
  assumes "storable F i8Type x" "storable F i8Type y"
  shows "el_add F x y = Inr (projr (el_add F x y)) \<and> storable F i8Type (projr (el_add F x y))"
proof -
  obtain a where "x = int_el Signless 8 a" by (rule storable_int_el [OF byte_supported assms(1)])
  moreover obtain b where "y = int_el Signless 8 b" by (rule storable_int_el [OF byte_supported assms(2)])
  ultimately show ?thesis
    using int_el_arith [OF byte_supported, of F a b] int_el_storable [OF byte_supported, of F "a + b"] by simp
qed

definition less_i8 :: "'f Element \<Rightarrow> 'f Element \<Rightarrow> bool" where
  "less_i8 x y \<longleftrightarrow> (case (getValue x, getValue y) of (VInt a, VInt b) \<Rightarrow> sval a < sval b | _ \<Rightarrow> False)"

lemma less_int_el: "in_range Signless 8 a \<Longrightarrow> in_range Signless 8 b \<Longrightarrow> less_i8 (int_el Signless 8 a) (int_el Signless 8 b) \<longleftrightarrow> a < b"
  by (simp add: less_i8_def sval_in_range [of Signless 8])

lemma el_lt_i8:
  assumes "storable F i8Type x" "storable F i8Type y"
  shows "compare_elements F LT x y = Inr (bool_el (less_i8 x y)) \<and> storable F i1Type (bool_el (less_i8 x y))"
proof -
  obtain a where "x = int_el Signless 8 a" "in_range Signless 8 a" by (rule storable_int_el [OF byte_supported assms(1)])
  moreover obtain b where "y = int_el Signless 8 b" "in_range Signless 8 b" by (rule storable_int_el [OF byte_supported assms(2)])
  ultimately show ?thesis
    using int_el_compare [OF byte_supported, of a b F] bool_el_storable [of F "a < b"] by (simp add: compare_elements_def less_int_el)
qed

lemma add_region_computes:
  "region_computes fixed_api ([i8Type] @ [i8Type]) [i8Type] add_region (\<lambda>es. [projr (el_add fixed_api (es ! 0) (es ! 1))])"
  unfolding add_region_def by (rule binary_region_computes [OF _ el_add_i8]) (simp_all add: wf_type_def)

lemma less_region_computes:
  "region_computes fixed_api ([i8Type] @ [i8Type]) [i1Type] less_region (\<lambda>es. [bool_el (less_i8 (es ! 0) (es ! 1))])"
  unfolding less_region_def by (rule binary_region_computes [OF _ el_lt_i8]) (simp_all add: wf_type_def)

lemma less_region_decides:
  "comparator_decides fixed_api [i8Type] less_region (\<lambda>ls rs. less_i8 (ls ! 0) (rs ! 0))"
  unfolding comparator_decides_def
proof (intro allI impI)
  fix ls rs :: "(FloatFormat \<times> apint) Element list" and args
  assume len: "length ls = length [i8Type]" "length rs = length [i8Type]"
    and "holds_scalars fixed_api (interleave [i8Type] [i8Type]) (interleave ls rs) args"
  then have "holds_scalars fixed_api ([i8Type] @ [i8Type]) [ls ! 0, rs ! 0] args"
    by (auto simp: interleave_def length_Suc_conv)
  from region_computesD [OF less_region_computes this] obtain vs where vs: "less_region args = Inr vs"
    "holds_scalars fixed_api [i1Type] [bool_el (less_i8 (ls ! 0) (rs ! 0))] vs"
    by auto
  then have "first_result fixed_api vs = Inr (bool_el (less_i8 (ls ! 0) (rs ! 0)))"
    using scalar_result_holds(1) [of fixed_api i1Type _ "vs ! 0"]
    by (auto simp: first_result_def vec_nth_def holds_scalars_def)
  with vs(1) show "\<exists>vs e. less_region args = Inr vs \<and> first_result fixed_api vs = Inr e \<and>
      getBooleanValue e = Inr (less_i8 (ls ! 0) (rs ! 0))" by auto
qed

section \<open>The operations\<close>

lemma integer_tensor_arithmetic_witness:
  "\<exists>r. addOp fixed_api left_matrix right_matrix (i8_type [2, 2]) = Inr r \<and> Tensor_get fixed_api r [1, 1] = Inr (int_el Signless 8 4)"
proof -
  have "t_type right_matrix = t_type left_matrix" "t_type left_matrix = i8_type [2, 2]"
    by (simp_all add: left_matrix_def right_matrix_def i8_tensor_def)
  with integer_tensor_arithmetic [OF matrices_denote] obtain r where
    r: "addOp fixed_api left_matrix right_matrix (i8_type [2, 2]) = Inr r" "t_type r = i8_type [2, 2]"
    "denotes fixed_api r (\<lambda>i. int_el Signless 8 (signed_byte ([1, 2, 3, 252] ! nat (flat [2, 2] i)) +
       signed_byte ([5, 6, 7, 8] ! nat (flat [2, 2] i))))" by auto
  have "signed_byte ([1, 2, 3, 252] ! nat (flat [2, 2] [1, 1])) + signed_byte ([5, 6, 7, 8] ! nat (flat [2, 2] [1, 1])) = 4"
    by code_simp
  with denotes_get [OF r(3), of "[1, 1]"] r show ?thesis by (auto simp: i8_type_def)
qed

lemma integer_tensor_compare_witness:
  "\<exists>r. compareOp fixed_api left_matrix right_matrix LT (scalar_type i1Type \<lparr>getShape := [2, 2]\<rparr>) = Inr r \<and>
     Tensor_get fixed_api r [1, 1] = Inr (bool_el True)"
proof -
  have "t_shape right_matrix = t_shape left_matrix" "scalar_type i1Type \<lparr>getShape := [2, 2]\<rparr> = \<lparr>getShape = t_shape left_matrix, getElementType = i1Type\<rparr>"
    by (simp_all add: left_matrix_def right_matrix_def)
  from integer_tensor_compare [OF matrices_denote this, of LT] obtain r where
    r: "compareOp fixed_api left_matrix right_matrix LT (scalar_type i1Type \<lparr>getShape := [2, 2]\<rparr>) = Inr r"
    "t_type r = scalar_type i1Type \<lparr>getShape := [2, 2]\<rparr>"
    "denotes fixed_api r (\<lambda>i. bool_el (signed_byte ([1, 2, 3, 252] ! nat (flat [2, 2] i)) <
       signed_byte ([5, 6, 7, 8] ! nat (flat [2, 2] i))))" by auto
  have "signed_byte ([1, 2, 3, 252] ! nat (flat [2, 2] [1, 1])) < signed_byte ([5, 6, 7, 8] ! nat (flat [2, 2] [1, 1]))"
    by code_simp
  with denotes_get [OF r(3), of "[1, 1]"] r show ?thesis by auto
qed

text \<open>The matrix as the single input of an operation with several inputs.\<close>

lemma left_matrix_all:
  "denotes_all fixed_api [2, 2] [i8Type] [left_matrix] (\<lambda>i. [int_el Signless 8 (signed_byte ([1, 2, 3, 252] ! nat (flat [2, 2] i)))])"
  using matrices_denote(1) by (simp add: denotes_all_def denotes_int_def) (simp add: left_matrix_def i8_tensor_def i8_type_def)

lemma reduce_sound_witness:
  "\<exists>r. reduceOp_infer fixed_api [left_matrix] [i8_tensor [] [0]] [1] add_region [i8Type] = Inr [r] \<and>
     Tensor_get fixed_api r [1] = Inr (int_el Signless 8 (- 1))"
proof -
  let ?xs = "\<lambda>i. [int_el Signless 8 (signed_byte ([1, 2, 3, 252] ! nat (flat [2, 2] i)))]"
  let ?f = "\<lambda>es. [projr (el_add fixed_api (es ! 0) (es ! 1))]"
  have init: "denotes_all fixed_api [] [i8Type] [i8_tensor [] [0]] (\<lambda>_. [int_el Signless 8 0])"
    using i8_denotes_int [of "[]" "[0]" fixed_api]
    by (simp add: denotes_all_def denotes_int_def byte_tensor_ok_def signed_byte_def i8_tensor_def i8_type_def)
  have infer: "inferReduceOp (map (\<lambda>t. as_ranked (t_type t)) [left_matrix]) [1] [i8Type] =
      Inr [\<lparr>getShape = [2], getElementType = i8Type, getEncoding = NoEncoding\<rparr>]" by code_simp
  obtain rs where rs: "reduceOp_infer fixed_api [left_matrix] [i8_tensor [] [0]] [1] add_region [i8Type] = Inr rs"
    "denotes_all fixed_api (drop_dims [1] 0 [2, 2]) [i8Type] rs
      (reduced ?f [int_el Signless 8 0] ?xs [1] (index_space [2, 2]))"
    using reduce_sound [OF left_matrix_all init _ _ _ infer add_region_computes] by auto
  have sum: "reduced ?f [int_el Signless 8 0] ?xs [1] (index_space [2, 2]) [1] = [int_el Signless 8 (- 1)]" by code_simp
  from rs(2) obtain r where r: "rs = [r]" "t_shape r = [2]"
    "denotes fixed_api r (\<lambda>i. reduced ?f [int_el Signless 8 0] ?xs [1] (index_space [2, 2]) i ! 0)"
    by (auto simp: denotes_all_def length_Suc_conv)
  show ?thesis using denotes_get [OF r(3), of "[1]"] r(2) rs(1) unfolding r(1) sum by auto
qed

text \<open>A sort that satisfies what is assumed of \<^verbatim>\<open>std::sort\<close>: the stable one.\<close>

lemma stable_sort_ok: "std_sort_ok stable_sort"
  by (simp add: std_sort_ok_def stable_sort_sorts)

lemma key_order: "strict_weak_order (\<lambda>x y. (k x :: int) < k y) xs"
  by (auto simp: strict_weak_order_def list_all_iff)

lemma two_handles:
  assumes "handles_sorted isStable lt (upto_int 2) hs" "lt 1 0"
  shows "hs = [1, 0]"
proof -
  have u: "upto_int 2 = [0, 1]" by code_simp
  have ms: "mset hs = {#0, 1#}" and srt: "sorted_wrt (\<lambda>x y. \<not> lt y x) hs"
    using assms(1) by (simp_all add: handles_sorted_def sorts_def u)
  have "length hs = 2" using arg_cong [OF ms, of size] by simp
  then obtain p q where hs: "hs = [p, q]" by (auto simp: numeral_2_eq_2 length_Suc_conv)
  with ms have "p = 0 \<and> q = 1 \<or> p = 1 \<and> q = 0" by (auto simp: add_eq_conv_ex)
  with hs srt assms(2) show ?thesis by auto
qed

lemma sort_sound_witness:
  "\<exists>r. sortOp fixed_api stable_sort [left_matrix] 1 True less_region = Inr [r] \<and>
     Tensor_get fixed_api r [1, 0] = Inr (int_el Signless 8 (- 4)) \<and> Tensor_get fixed_api r [1, 1] = Inr (int_el Signless 8 3)"
proof -
  let ?xs = "\<lambda>i. [int_el Signless 8 (signed_byte ([1, 2, 3, 252] ! nat (flat [2, 2] i))) :: (FloatFormat \<times> apint) Element]"
  let ?lt = "\<lambda>ls rs. less_i8 (ls ! 0) (rs ! 0)"
  have swo: "strict_weak_order (\<lambda>x y. ?lt (?xs (b[1 := x])) (?xs (b[1 := y]))) (upto_int ([2, 2] ! 1))" for b
    unfolding less_i8_def by (simp add: key_order)
  have dim: "1 < length [2 :: int, 2]" "1 = int 1 \<or> 1 = int 1 - int (length [2 :: int, 2])"
    and len: "[i8Type] \<noteq> []" "\<And>i. length (?xs i) = length [i8Type]" by simp_all
  note sound = sort_sound [OF left_matrix_all len less_region_decides swo stable_sort_ok dim, where isStable = True]
  obtain rs hs where rs: "sortOp fixed_api stable_sort [left_matrix] 1 True less_region = Inr rs"
    "denotes_all fixed_api [2, 2] [i8Type] rs (\<lambda>i. ?xs (i[1 := hs (i[1 := 0]) ! nat (i ! 1)]))"
    and sorted: "\<forall>b. inBounds b [2, 2] \<and> b ! 1 = 0 \<longrightarrow> handles_sorted True (\<lambda>x y. ?lt (?xs (b[1 := x])) (?xs (b[1 := y])))
      (upto_int ([2, 2] ! 1)) (hs b)"
    using sound by blast
  have rs3: "handles_sorted True (\<lambda>x y. ?lt (?xs ([1, 0][1 := x])) (?xs ([1, 0][1 := y]))) (upto_int 2) (hs [1, 0])"
    using spec [OF sorted, of "[1, 0]"] by simp
  have "?lt (?xs ([1, 0][1 := 1])) (?xs ([1, 0][1 := 0]))" by code_simp
  from two_handles [OF rs3 this] have h: "hs [1, 0] = [1, 0]" .
  from rs(2) obtain r where r: "rs = [r]" "t_shape r = [2, 2]"
    "denotes fixed_api r (\<lambda>i. ?xs (i[1 := hs (i[1 := 0]) ! nat (i ! 1)]) ! 0)"
    by (auto simp: denotes_all_def length_Suc_conv)
  show ?thesis
    using denotes_get [OF r(3), of "[1, 0]"] denotes_get [OF r(3), of "[1, 1]"] rs(1)
    by (simp add: r(1,2) h numeral_eq_Suc signed_byte_def)
qed

end
