(* ===== verification/Process_Grid_Witness.thy ===== *)
theory Process_Grid_Witness
  imports Process_Grid_Correct
begin

text \<open>
  The claims about the process grid on concrete executions: two processes that meet on a channel, and one message between
  two processes.
\<close>

section \<open>Two processes that meet\<close>

definition two :: ProcessGroup where
  "two = [ProcessId 1 0, ProcessId 0 0]"

definition one_waits :: "nat RendezvousSystem" where
  "one_waits = \<lparr>sys_state = \<lparr>rs_values = [(ProcessId 1 0, [7])], rs_useCount = 1, rs_result = []\<rparr>,
     sys_waiting = [ProcessId 1 0], sys_log = [Call (ProcessId 1 0) [7]], sys_failure = None\<rparr>"

definition met :: "nat RendezvousResult" where
  "met = [(ProcessId 0 0, [5]), (ProcessId 1 0, [7])]"

definition one_returned :: "nat RendezvousSystem" where
  "one_returned = \<lparr>sys_state = \<lparr>rs_values = met, rs_useCount = 1, rs_result = met\<rparr>, sys_waiting = [ProcessId 1 0],
     sys_log = [Return (ProcessId 0 0) met, Call (ProcessId 0 0) [5], Call (ProcessId 1 0) [7]], sys_failure = None\<rparr>"

definition timed_out :: "nat RendezvousSystem" where
  "timed_out = one_waits\<lparr>sys_failure := Some (Fatal ''rendezvous timed out'')\<rparr>"

lemma two_calls:
  "rendezvous_call two (ProcessId 1 0) [7] RendezvousState_init = Inr (sys_state one_waits, Waits)"
  "rendezvous_call two (ProcessId 0 0) [5] (sys_state one_waits) = Inr (sys_state one_returned, Returns met)"
  by (simp_all add: rendezvous_call_def rendezvous_return_def hasMatchingOperandsCount_def RendezvousState_init_def
      one_waits_def one_returned_def met_def two_def less_ProcessId_def)

lemma one_waits_step: "rendezvous_step two RendezvousSystem_init one_waits"
  using call_waits [of RendezvousSystem_init "ProcessId 1 0" two "[7]" "sys_state one_waits"] two_calls(1)
  by (simp add: RendezvousSystem_init_def one_waits_def two_def)

lemma one_returned_step: "rendezvous_step two one_waits one_returned"
  using call_returns [of one_waits "ProcessId 0 0" two "[5]" "sys_state one_returned" met] two_calls(2)
  by (simp add: one_waits_def one_returned_def two_def)

lemma timed_out_step: "rendezvous_step two one_waits timed_out"
  unfolding timed_out_def
  by (rule times_out [of _ "ProcessId 1 0"]) (simp_all add: one_waits_def two_def rendezvous_ready_def)

lemma two_reachable:
  "rendezvous_reachable two one_waits" "rendezvous_reachable two one_returned" "rendezvous_reachable two timed_out"
  using one_waits_step one_returned_step timed_out_step unfolding rendezvous_reachable_def by auto

lemma two_shape: "distinct two" "1 < length two"
  by (simp_all add: two_def)

lemma two_first_use: "first_use one_waits" "first_use one_returned" "first_use timed_out"
  by (simp_all add: first_use_def one_waits_def one_returned_def timed_out_def)

lemma one_returned_log: "sys_log one_returned = [] @ Return (ProcessId 0 0) met # [Call (ProcessId 0 0) [5], Call (ProcessId 1 0) [7]]"
  by (simp add: one_returned_def)

lemma strategies_find_group_witness:
  "findGroup (crossReplica 2 [[0, 2], [1, 3]]) (ProcessId 3 1) = Some [ProcessId 1 1, ProcessId 3 1]"
  using strategies_find_group [of "[[0, 2], [1, 3 :: nat]]" "[1, 3]" 3 1 2] by simp

lemma rendezvous_barrier_witness:
  "map fst met = [ProcessId 0 0, ProcessId 1 0] \<and>
   Call (ProcessId 1 0) (results_lookup met (ProcessId 1 0)) \<in> {Call (ProcessId 0 0) [5], Call (ProcessId 1 0) [7]} \<and>
   Call (ProcessId 0 0) (results_lookup met (ProcessId 0 0)) \<in> {Call (ProcessId 0 0) [5], Call (ProcessId 1 0) [7]}"
  using rendezvous_barrier [OF two_reachable(2) two_shape two_first_use(2) one_returned_log]
  by (simp add: two_def less_eq_ProcessId_def less_ProcessId_def)

lemma one_counts: "\<forall>q v. Call q v \<in> set (sys_log one_waits) \<longrightarrow> length v = 1"
  "\<forall>q v. Call q v \<in> set (sys_log one_returned) \<longrightarrow> length v = 1"
  by (simp_all add: one_waits_def one_returned_def)

lemma rendezvous_completes_witness:
  "\<exists>t. (rendezvous_step two)\<^sup>*\<^sup>* one_waits t \<and> sys_failure t = None \<and> first_use t \<and> sys_waiting t = [] \<and>
    (\<exists>r. Return (ProcessId 1 0) r \<in> set (sys_log t)) \<and> (\<exists>r. Return (ProcessId 0 0) r \<in> set (sys_log t))"
proof -
  have "sys_failure one_waits = None" by (simp add: one_waits_def)
  from rendezvous_completes [OF two_reachable(1) two_shape two_first_use(1) this one_counts(1)]
  show ?thesis by (simp add: two_def)
qed

lemma rendezvous_errors_witness:
  "the (sys_failure timed_out) \<in> {Fatal ''rendezvous timed out'', Fatal ''Mismatched number of operands per process''}"
  using rendezvous_errors [OF two_reachable(3) two_shape two_first_use(3)] by (simp add: timed_out_def)

lemma rendezvous_reuse_witness:
  "\<exists>st r. rendezvous_call two (ProcessId 0 0) [9] (sys_state one_returned) = Inr (st, Returns r) \<and>
    results_lookup r (ProcessId 0 0) = [9] \<and>
    Call (ProcessId 1 0) (results_lookup r (ProcessId 1 0)) \<in> set (sys_log one_returned)"
proof -
  have "sys_failure one_returned = None" by (simp add: one_returned_def)
  from rendezvous_reuse [OF two_reachable(2) two_shape two_first_use(2) this one_counts(2), of "ProcessId 0 0" "[9]"]
  show ?thesis by (auto simp: one_returned_def two_def)
qed

section \<open>One message\<close>

definition listening :: "nat Channel" where
  "listening = Channel_init\<lparr>ch_state := recv_arrive (ch_state Channel_init), ch_receiving := True\<rparr>"

definition in_flight :: "nat Channel" where
  "in_flight = listening\<lparr>ch_state := send_put [4] (ch_state listening), ch_sent := [[4]]\<rparr>"

lemma listening_step: "channel_step Channel_init listening"
  unfolding listening_def by (rule recv_calls) (simp_all add: Channel_init_def)

lemma in_flight_step: "channel_step listening in_flight"
  using send_returns [of listening "[4]"]
  by (simp add: in_flight_def listening_def Channel_init_def send_enabled_def recv_arrive_def)

lemma message_reachable: "channel_reachable listening" "channel_reachable in_flight"
  using listening_step in_flight_step unfolding channel_reachable_def by auto

lemma message_state:
  "ch_sent listening = []" "ch_sent in_flight = [[4]]" "ch_received in_flight = []" "ch_failure listening = None"
  "ch_failure in_flight = None" "sr_result (ch_state in_flight) = [4]" "send_enabled (ch_state listening)"
  by (simp_all add: in_flight_def listening_def Channel_init_def send_enabled_def recv_arrive_def send_put_def)

lemma channel_fifo_witness: "ch_sent in_flight = ch_received in_flight @ [sr_result (ch_state in_flight)]"
  using channel_fifo [OF message_reachable(2)] by (simp add: message_state)

lemma channel_delivers_witness:
  "\<exists>d. channel_step\<^sup>*\<^sup>* in_flight d \<and> ch_failure d = None \<and> ch_sent d = [[4], [6]] \<and> ch_received d = [[4], [6]]"
  using channel_delivers [OF message_reachable(2), of "[6]"] by (simp add: message_state)

lemma empty_message_lost_witness:
  "\<exists>d. channel_step listening d \<and> ch_sent d = [[]] \<and> ch_failure d = None \<and>
    \<not> (\<exists>e. channel_step d e \<and> ch_failure e = None)"
  using empty_message_lost [OF message_reachable(1)] by (fastforce simp: message_state)

end
