(* ===== verification/Collectives_Witness.thy ===== *)
theory Collectives_Witness
  imports Collectives_Correct Region_Witness Process_Grid_Witness
begin

text \<open>The claims about the collective operations on two processes that contribute a matrix of bytes each.\<close>

definition contribution :: "ProcessId \<Rightarrow> Tensor list" where
  "contribution q = (if replicaId q = 1 then [left_matrix] else [right_matrix])"

definition matrices_met :: TensorResults where
  "matrices_met = [(ProcessId 0 0, [right_matrix]), (ProcessId 1 0, [left_matrix])]"

definition left_waits :: "Tensor RendezvousSystem" where
  "left_waits = \<lparr>sys_state = \<lparr>rs_values = [(ProcessId 1 0, [left_matrix])], rs_useCount = 1, rs_result = []\<rparr>,
     sys_waiting = [ProcessId 1 0], sys_log = [Call (ProcessId 1 0) [left_matrix]], sys_failure = None\<rparr>"

definition right_returned :: "Tensor RendezvousSystem" where
  "right_returned = \<lparr>sys_state = \<lparr>rs_values = matrices_met, rs_useCount = 1, rs_result = matrices_met\<rparr>,
     sys_waiting = [ProcessId 1 0],
     sys_log = [Return (ProcessId 0 0) matrices_met, Call (ProcessId 0 0) [right_matrix], Call (ProcessId 1 0) [left_matrix]],
     sys_failure = None\<rparr>"

definition replica_zero :: Process where
  "replica_zero = \<lparr>getId = ProcessId 0 0, numReplicas = 2, numPartitions = 1, rendezvous = (\<lambda>_ _ _. Inr matrices_met)\<rparr>"

lemma matrices_calls:
  "rendezvous_call two (ProcessId 1 0) [left_matrix] RendezvousState_init = Inr (sys_state left_waits, Waits)"
  "rendezvous_call two (ProcessId 0 0) [right_matrix] (sys_state left_waits) = Inr (sys_state right_returned, Returns matrices_met)"
  by (simp_all add: rendezvous_call_def rendezvous_return_def hasMatchingOperandsCount_def RendezvousState_init_def
      left_waits_def right_returned_def matrices_met_def two_def less_ProcessId_def)

lemma matrices_reachable: "rendezvous_reachable two right_returned"
proof -
  have "rendezvous_step two RendezvousSystem_init left_waits"
    using call_waits [of RendezvousSystem_init "ProcessId 1 0" two "[left_matrix]" "sys_state left_waits"] matrices_calls(1)
    by (simp add: RendezvousSystem_init_def left_waits_def two_def)
  moreover have "rendezvous_step two left_waits right_returned"
    using call_returns [of left_waits "ProcessId 0 0" two "[right_matrix]" "sys_state right_returned" matrices_met] matrices_calls(2)
    by (simp add: left_waits_def right_returned_def two_def)
  ultimately show ?thesis unfolding rendezvous_reachable_def by auto
qed

lemma matrices_meet: "meets two right_returned contribution replica_zero 0"
  using matrices_reachable two_shape
  by (auto simp: meets_def first_use_def right_returned_def contribution_def replica_zero_def)

lemma replica_zero_group:
  "replica_groups replica_zero [[1, 0]] 0 False = Inr [two]" "findGroup [two] (getId replica_zero) = Some two"
  by (simp_all add: replica_groups_def crossReplica_def replica_zero_def two_def)

definition matrix_entry :: "ProcessId \<Rightarrow> Index \<Rightarrow> int" where
  "matrix_entry q i = signed_byte ((if replicaId q = 1 then [1, 2, 3, 252] else [5, 6, 7, 8]) ! nat (flat [2, 2] i))"

lemma contribution_denotes:
  assumes "k < Suc 0"
  shows "k < length (contribution q) \<and> denotes fixed_api (contribution q ! k) (\<lambda>i. int_el Signless 8 (matrix_entry q i)) \<and>
    t_type (contribution q ! k) = i8_type [2, 2]"
  using assms matrices_denote
  by (auto simp: contribution_def matrix_entry_def denotes_int_def left_matrix_def right_matrix_def i8_tensor_def)

lemma all_gather_sound_witness:
  "\<exists>t. allGatherOp fixed_api [right_matrix] 0 [[1, 0]] 0 False (Some replica_zero) [i8_type [4, 2]] = Inr [t] \<and>
     Tensor_get fixed_api t [3, 0] = Inr (int_el Signless 8 7)"
proof -
  let ?rt = "\<lparr>getShape = [4, 2], getElementType = i8Type, getEncoding = NoEncoding\<rparr>"
  have infer: "inferConcatenateOp (map (\<lambda>q. as_ranked (t_type (contribution q ! k))) two) 0 = Inr ([?rt] ! k)"
    if "k < length [?rt]" for k
  proof -
    have "inferConcatenateOp (map (\<lambda>q. as_ranked (t_type (contribution q ! 0))) two) 0 = Inr ?rt" by code_simp
    with that show ?thesis by simp
  qed
  have data: "q \<in> set two \<Longrightarrow> k < length [?rt] \<Longrightarrow> k < length (contribution q) \<and>
      denotes fixed_api (contribution q ! k) (\<lambda>i. int_el Signless 8 (matrix_entry q i)) \<and>
      t_elementType (contribution q ! k) = getElementType ([?rt] ! k)" for q k
    using contribution_denotes [of k q] by simp
  have own: "contribution (getId replica_zero) = [right_matrix]" "as_shaped ?rt = i8_type [4, 2]"
    by (simp_all add: contribution_def replica_zero_def as_shaped_def i8_type_def)
  from all_gather_sound [where f = "\<lambda>q k i. int_el Signless 8 (matrix_entry q i)", OF matrices_meet replica_zero_group data infer]
  obtain t where t: "allGatherOp fixed_api [right_matrix] 0 [[1, 0]] 0 False (Some replica_zero) [i8_type [4, 2]] = Inr [t]"
    "t_type t = i8_type [4, 2]" "denotes fixed_api t (concatenated 0 (map (\<lambda>q. t_shape (contribution q ! 0) ! 0) two)
       (map (\<lambda>q i. int_el Signless 8 (matrix_entry q i)) two))"
    by (auto simp: own length_Suc_conv)
  have "concatenated 0 (map (\<lambda>q. t_shape (contribution q ! 0) ! 0) two)
      (map (\<lambda>q i. int_el Signless 8 (matrix_entry q i) :: (FloatFormat \<times> apint) Element) two) [3, 0] = int_el Signless 8 7"
    by code_simp
  with denotes_get [OF t(3), of "[3, 0]"] t(1,2) show ?thesis by (simp add: i8_type_def)
qed

lemma all_reduce_sound_witness:
  "\<exists>t. allReduceOp fixed_api [right_matrix] [[1, 0]] 0 False add_region (Some replica_zero) [i8_type [2, 2]] = Inr [t] \<and>
     Tensor_get fixed_api t [1, 1] = Inr (int_el Signless 8 4)"
proof -
  let ?h = "\<lambda>es. [projr (el_add fixed_api (es ! 0) (es ! 1))]"
  have data: "q \<in> set two \<Longrightarrow> k < length [i8_type [2, 2]] \<Longrightarrow> k < length (contribution q) \<and>
      denotes fixed_api (contribution q ! k) (\<lambda>i. int_el Signless 8 (matrix_entry q i)) \<and>
      t_type (contribution q ! k) = [i8_type [2, 2]] ! k" for q k
    using contribution_denotes [of k q] by simp
  have region: "k < length [i8_type [2, 2]] \<Longrightarrow> region_computes fixed_api
      ([getElementType ([i8_type [2, 2]] ! k)] @ [getElementType ([i8_type [2, 2]] ! k)]) [getElementType ([i8_type [2, 2]] ! k)]
      add_region ?h" for k
    using add_region_computes by simp
  have own: "contribution (getId replica_zero) = [right_matrix]" by (simp add: contribution_def replica_zero_def)
  from all_reduce_sound [where f = "\<lambda>q k i. int_el Signless 8 (matrix_entry q i)", OF matrices_meet replica_zero_group data region]
  obtain t where t: "allReduceOp fixed_api [right_matrix] [[1, 0]] 0 False add_region (Some replica_zero) [i8_type [2, 2]] = Inr [t]"
    "t_type t = i8_type [2, 2]" "denotes fixed_api t (\<lambda>i. foldl (\<lambda>x q. ?h [x, int_el Signless 8 (matrix_entry q i)] ! 0)
       (int_el Signless 8 (matrix_entry (hd (sort two)) i)) (tl (sort two)))"
    by (auto simp: own length_Suc_conv)
  have "foldl (\<lambda>x q. ?h [x, int_el Signless 8 (matrix_entry q [1, 1])] ! 0)
      (int_el Signless 8 (matrix_entry (hd (sort two)) [1, 1])) (tl (sort two)) = int_el Signless 8 4" by code_simp
  with denotes_get [OF t(3), of "[1, 1]"] t(1,2) show ?thesis by simp
qed

end
