(* ===== verification/Vhlo_Version.thy ===== *)
theory Vhlo_Version
  imports Prelude
begin

text \<open>
  \<^verbatim>\<open>stablehlo/dialect/Version.{h,cpp}\<close> and \<open>validateTargetVersion\<close> of \<^verbatim>\<open>stablehlo/transforms/VhloToVersion.cpp\<close>: the versions of the
  VHLO dialect, their text form, the bytecode version each of them maps to, and the compatibility window.
\<close>

section \<open>Versions\<close>

datatype Version = Version (getMajor: int) (getMinor: int) (getPatch: int)

text \<open>The comparisons of \<^verbatim>\<open>std::array\<close> are lexicographic.\<close>

instantiation Version :: linorder
begin

definition less_Version :: "Version \<Rightarrow> Version \<Rightarrow> bool" where
  "less_Version x y \<longleftrightarrow> getMajor x < getMajor y \<or> getMajor x = getMajor y \<and>
     (getMinor x < getMinor y \<or> getMinor x = getMinor y \<and> getPatch x < getPatch y)"

definition less_eq_Version :: "Version \<Rightarrow> Version \<Rightarrow> bool" where
  "less_eq_Version x y \<longleftrightarrow> x < y \<or> x = (y :: Version)"

instance
proof
  fix x y :: Version
  show "x \<le> y \<or> y \<le> x"
    by (cases x; cases y) (auto simp: less_Version_def less_eq_Version_def)
qed (auto simp: less_Version_def less_eq_Version_def)

end

lemma Version_le_iff [simp]:
  "Version a b c \<le> Version a' b' c' \<longleftrightarrow> a < a' \<or> a = a' \<and> (b < b' \<or> b = b' \<and> c \<le> c')"
  by (auto simp: less_eq_Version_def less_Version_def)

lemma Version_less_iff [simp]:
  "Version a b c < Version a' b' c' \<longleftrightarrow> a < a' \<or> a = a' \<and> (b < b' \<or> b = b' \<and> c < c')"
  by (auto simp: less_Version_def)

definition getCurrentVersion :: Version where "getCurrentVersion = Version 1 21 0"

definition getMinimumVersion :: Version where "getMinimumVersion = Version 0 9 0"

section \<open>Text form\<close>

definition is_digit :: "char \<Rightarrow> bool" where
  "is_digit c \<longleftrightarrow> 48 \<le> (of_char c :: nat) \<and> (of_char c :: nat) \<le> 57"

definition digit_value :: "char \<Rightarrow> int" where
  "digit_value c = int (of_char c) - 48"

text \<open>\<^verbatim>\<open>StringRef::getAsInteger\<close> with radix ten fails when the value does not fit 64 bits.\<close>

definition parseNumber :: "string \<Rightarrow> int result" where
  "parseNumber numRef =
     (let num = foldl (\<lambda>n c. 10 * n + digit_value c) 0 numRef in
      if num < 2 ^ 63 then Inr num else Inl (Fatal ''failed to parse version number''))"

text \<open>
  The match of \<^verbatim>\<open>^([0-9]+)\.([0-9]+)\.([0-9]+)$\<close>: since a dot is no digit, every group is the longest run of digits.
\<close>

definition match_group :: "string \<Rightarrow> (string \<times> string) option" where
  "match_group s = (let ds = takeWhile is_digit s in if ds = [] then None else Some (ds, dropWhile is_digit s))"

definition match_dot :: "string \<Rightarrow> string option" where
  "match_dot s = (case s of c # rest \<Rightarrow> if c = CHR ''.'' then Some rest else None | [] \<Rightarrow> None)"

definition versionRegex :: "string \<Rightarrow> (string \<times> string \<times> string) option" where
  "versionRegex s =
     (case match_group s of None \<Rightarrow> None | Some (a, r) \<Rightarrow>
      case match_dot r of None \<Rightarrow> None | Some r \<Rightarrow>
      case match_group r of None \<Rightarrow> None | Some (b, r) \<Rightarrow>
      case match_dot r of None \<Rightarrow> None | Some r \<Rightarrow>
      case match_group r of None \<Rightarrow> None | Some (c, r) \<Rightarrow> if r = [] then Some (a, b, c) else None)"

definition extractVersionNumbers :: "string \<Rightarrow> (int \<times> int \<times> int) result" where
  "extractVersionNumbers versionRef =
     (case versionRegex versionRef of
        None \<Rightarrow> Inl (Failure '''')
      | Some (a, b, c) \<Rightarrow>
          rbind (parseNumber a) (\<lambda>x. rbind (parseNumber b) (\<lambda>y. rbind (parseNumber c) (\<lambda>z. Inr (x, y, z)))))"

definition fromString :: "string \<Rightarrow> Version result" where
  "fromString versionRef = rbind (extractVersionNumbers versionRef) (\<lambda>(x, y, z). Inr (Version x y z))"

fun digits_of :: "nat \<Rightarrow> string" where
  "digits_of n = (if n < 10 then [char_of (48 + n)] else digits_of (n div 10) @ [char_of (48 + n mod 10)])"

declare digits_of.simps [simp del]

definition number_string :: "int \<Rightarrow> string" where
  "number_string n = (if n < 0 then ''-'' @ digits_of (nat (- n)) else digits_of (nat n))"

definition toString :: "Version \<Rightarrow> string" where
  "toString v = number_string (getMajor v) @ ''.'' @ number_string (getMinor v) @ ''.'' @ number_string (getPatch v)"

section \<open>Bytecode versions and the compatibility window\<close>

definition getBytecodeVersion :: "Version \<Rightarrow> int result" where
  "getBytecodeVersion v =
     (if v < Version 0 9 0 then Inl (Failure '''')
      else if v < Version 0 10 0 then Inr 0
      else if v < Version 0 12 0 then Inr 1
      else if v < Version 0 14 0 then Inr 3
      else if v < Version 0 15 0 then Inr 4
      else if v \<le> getCurrentVersion then Inr 6
      else Inl (Failure ''''))"

datatype CompatibilityRequirement = NONE | WEEK_4 | WEEK_12 | MAX_REQUIREMENT

fun fromCompatibilityRequirement :: "CompatibilityRequirement \<Rightarrow> Version" where
  "fromCompatibilityRequirement NONE = getCurrentVersion"
| "fromCompatibilityRequirement WEEK_4 = Version 1 18 0"
| "fromCompatibilityRequirement WEEK_12 = Version 1 16 3"
| "fromCompatibilityRequirement MAX_REQUIREMENT = getMinimumVersion"

text \<open>A failed parse is reported with a message of its own for the empty string; the other errors of parsing are fatal.\<close>

definition validateTargetVersion :: "string \<Rightarrow> Version result" where
  "validateTargetVersion versionRef =
     (case fromString versionRef of
        Inl (Failure _) \<Rightarrow>
          Inl (Failure (if versionRef = [] then ''No target version specified.'' else ''Invalid target version argument''))
      | Inl e \<Rightarrow> Inl e
      | Inr targetVersion \<Rightarrow>
          if targetVersion < getMinimumVersion then Inl (Failure ''target version is less than minimum supported'')
          else if getCurrentVersion < targetVersion then Inl (Failure ''target version is greater than current version'')
          else if getPatch targetVersion \<noteq> 0 then Inr (Version (getMajor targetVersion) (getMinor targetVersion) 0)
          else Inr targetVersion)"

section \<open>Printing and parsing\<close>

lemma digit_char: "n < 10 \<Longrightarrow> is_digit (char_of (48 + n)) \<and> digit_value (char_of (48 + n)) = int n"
  by (simp add: is_digit_def digit_value_def)

lemma digits_of_parse: "list_all is_digit (digits_of n) \<and> digits_of n \<noteq> [] \<and> foldl (\<lambda>n c. 10 * n + digit_value c) 0 (digits_of n) = int n"
proof (induction n rule: digits_of.induct)
  case (1 n)
  show ?case
  proof (cases "n < 10")
    case False
    have "digits_of n = digits_of (n div 10) @ [char_of (48 + n mod 10)]" using False by (simp add: digits_of.simps [of n])
    moreover have "is_digit (char_of (48 + n mod 10))" "digit_value (char_of (48 + n mod 10)) = int (n mod 10)"
      using digit_char [of "n mod 10"] by simp_all
    moreover have "10 * int (n div 10) + int (n mod 10) = int n" by presburger
    ultimately show ?thesis using 1 [OF False] by simp
  qed (use digit_char [of n] in \<open>simp add: digits_of.simps\<close>)
qed

lemma number_string_parse:
  assumes "0 \<le> n" "n < 2 ^ 63"
  shows "parseNumber (number_string n) = Inr n" "match_group (number_string n) = Some (number_string n, [])"
    "match_group (number_string n @ CHR ''.'' # s) = Some (number_string n, CHR ''.'' # s)"
proof -
  have d: "list_all is_digit (number_string n)" "number_string n \<noteq> []"
    "foldl (\<lambda>n c. 10 * n + digit_value c) 0 (number_string n) = n"
    using digits_of_parse [of "nat n"] assms(1) by (simp_all add: number_string_def)
  have all: "\<And>c. c \<in> set (number_string n) \<Longrightarrow> is_digit c" using d(1) by (simp add: list_all_iff)
  show "parseNumber (number_string n) = Inr n" using d(3) assms(2) by (simp add: parseNumber_def)
  have run: "takeWhile is_digit (number_string n @ t) = number_string n @ takeWhile is_digit t"
    "dropWhile is_digit (number_string n @ t) = dropWhile is_digit t" for t
    using all by (simp_all add: takeWhile_append dropWhile_append)
  show "match_group (number_string n) = Some (number_string n, [])"
    unfolding match_group_def Let_def using run [of "[]"] d(2) by (metis append_Nil2 dropWhile.simps(1) takeWhile.simps(1))
  show "match_group (number_string n @ CHR ''.'' # s) = Some (number_string n, CHR ''.'' # s)"
    unfolding match_group_def Let_def run using d(2) by (simp add: is_digit_def)
qed

lemma fromString_toString:
  assumes "0 \<le> a" "a < 2 ^ 63" "0 \<le> b" "b < 2 ^ 63" "0 \<le> c" "c < 2 ^ 63"
  shows "fromString (toString (Version a b c)) = Inr (Version a b c)"
proof -
  note a = number_string_parse [OF assms(1,2)] and b = number_string_parse [OF assms(3,4)] and c = number_string_parse [OF assms(5,6)]
  have "versionRegex (toString (Version a b c)) = Some (number_string a, number_string b, number_string c)"
    by (simp add: versionRegex_def toString_def a(3) b(3) c(2) match_dot_def)
  then show ?thesis by (simp add: fromString_def extractVersionNumbers_def a(1) b(1) c(1))
qed

lemma parseNumber_range:
  assumes "parseNumber s = Inr n" "list_all is_digit s"
  shows "0 \<le> n \<and> n < 2 ^ 63"
proof -
  have digit: "is_digit c \<Longrightarrow> 0 \<le> digit_value c" for c by (simp add: is_digit_def digit_value_def)
  have "0 \<le> m \<Longrightarrow> 0 \<le> foldl (\<lambda>n c. 10 * n + digit_value c) m s" for m
    using assms(2) by (induction s arbitrary: m) (simp_all add: digit)
  then show ?thesis using assms(1) by (auto simp: parseNumber_def Let_def split: if_splits)
qed

lemma match_group_digits: "match_group s = Some (ds, r) \<Longrightarrow> list_all is_digit ds"
  by (auto simp: match_group_def Let_def list_all_iff dest: set_takeWhileD split: if_splits)

lemma fromString_range:
  assumes "fromString s = Inr v"
  shows "0 \<le> getMajor v \<and> getMajor v < 2 ^ 63 \<and> 0 \<le> getMinor v \<and> getMinor v < 2 ^ 63 \<and> 0 \<le> getPatch v \<and> getPatch v < 2 ^ 63"
proof -
  obtain a b c x y z where m: "versionRegex s = Some (a, b, c)" "parseNumber a = Inr x" "parseNumber b = Inr y" "parseNumber c = Inr z"
    "v = Version x y z"
    using assms by (auto simp: fromString_def extractVersionNumbers_def rbind_eq_Inr split: option.splits)
  have "list_all is_digit a" "list_all is_digit b" "list_all is_digit c"
    using m(1) by (auto simp: versionRegex_def split: option.splits prod.splits if_splits dest: match_group_digits)
  then show ?thesis using parseNumber_range m(2-5) by simp
qed

text \<open>
  C29: a version read from a string has three numbers that fit 64 bits, printing it and reading it again gives the same
  version, and every version with such numbers is read back from its text.
\<close>

theorem version_string_round_trip:
  assumes "fromString s = Inr v \<or>
    0 \<le> getMajor v \<and> getMajor v < 2 ^ 63 \<and> 0 \<le> getMinor v \<and> getMinor v < 2 ^ 63 \<and> 0 \<le> getPatch v \<and> getPatch v < 2 ^ 63"
  shows "fromString (toString v) = Inr v"
  using assms fromString_range [of s v] fromString_toString by (cases v) auto

lemma version_string_round_trip_witness: "fromString (toString (Version 1 16 3)) = Inr (Version 1 16 3)"
  by (rule version_string_round_trip [of "''1.016.3''"]) simp

lemma bytecode_window: "(\<exists>n. getBytecodeVersion w = Inr n) \<longleftrightarrow> getMinimumVersion \<le> w \<and> w \<le> getCurrentVersion"
proof -
  have "w \<le> getCurrentVersion" if "w < Version 0 15 0" using that by (cases w) (auto simp: getCurrentVersion_def)
  then have "w \<le> getCurrentVersion" if "w < Version 0 10 0 \<or> w < Version 0 12 0 \<or> w < Version 0 14 0 \<or> w < Version 0 15 0"
    using that by (cases w) (auto simp: getCurrentVersion_def)
  then show ?thesis by (auto simp: getBytecodeVersion_def getMinimumVersion_def not_less)
qed

lemma first_patch_window:
  assumes "fromString s = Inr u" "getMinimumVersion \<le> u" "u \<le> getCurrentVersion"
  shows "getMinimumVersion \<le> Version (getMajor u) (getMinor u) 0 \<and> Version (getMajor u) (getMinor u) 0 \<le> getCurrentVersion"
  using assms(2,3) fromString_range [OF assms(1)] by (cases u) (auto simp: getMinimumVersion_def getCurrentVersion_def)

lemma validate_iff:
  "validateTargetVersion s = Inr v \<longleftrightarrow>
     (\<exists>u. fromString s = Inr u \<and> getMinimumVersion \<le> u \<and> u \<le> getCurrentVersion \<and> v = Version (getMajor u) (getMinor u) 0)"
proof -
  have "getPatch u = 0 \<Longrightarrow> Version (getMajor u) (getMinor u) 0 = u" for u by (cases u) simp
  then show ?thesis by (auto simp: validateTargetVersion_def not_less split: sum.splits error.splits if_splits)
qed

text \<open>
  C30: the compatibility window. A target version is accepted exactly when its text is a version between the minimum and
  the current one; the version used is then the first one of its minor release, lies in the window and has a bytecode
  version. Bytecode versions exist exactly inside the window, and every compatibility requirement gives a version of the
  window.
\<close>

theorem target_version_window:
  "(validateTargetVersion s = Inr v \<longleftrightarrow>
     (\<exists>u. fromString s = Inr u \<and> getMinimumVersion \<le> u \<and> u \<le> getCurrentVersion \<and> v = Version (getMajor u) (getMinor u) 0 \<and>
       getMinimumVersion \<le> v \<and> v \<le> getCurrentVersion \<and> (\<exists>n. getBytecodeVersion v = Inr n))) \<and>
   ((\<exists>n. getBytecodeVersion w = Inr n) \<longleftrightarrow> getMinimumVersion \<le> w \<and> w \<le> getCurrentVersion) \<and>
   getMinimumVersion \<le> fromCompatibilityRequirement r \<and> fromCompatibilityRequirement r \<le> getCurrentVersion"
proof (intro conjI)
  show "validateTargetVersion s = Inr v \<longleftrightarrow>
     (\<exists>u. fromString s = Inr u \<and> getMinimumVersion \<le> u \<and> u \<le> getCurrentVersion \<and> v = Version (getMajor u) (getMinor u) 0 \<and>
       getMinimumVersion \<le> v \<and> v \<le> getCurrentVersion \<and> (\<exists>n. getBytecodeVersion v = Inr n))"
    using validate_iff [of s v] first_patch_window bytecode_window by blast
  show "getMinimumVersion \<le> fromCompatibilityRequirement r" "fromCompatibilityRequirement r \<le> getCurrentVersion"
    by (cases r; simp add: getMinimumVersion_def getCurrentVersion_def)+
qed (rule bytecode_window)

end
