(* ===== verification/Vhlo.thy ===== *)
theory Vhlo
  imports Vhlo_Version Types
begin

text \<open>
  The types and attributes of the VHLO dialect with the versions that introduced them, the legality checks of
  \<^verbatim>\<open>stablehlo/transforms/VhloToVersion.cpp\<close>, the version constraints of \<^verbatim>\<open>stablehlo/dialect/VhloOps.cpp\<close>, and the upgrades and downgrades
  between two versions of an operation. A type or an attribute of another dialect is opaque.
\<close>

section \<open>Types and attributes\<close>

datatype VhloScalar =
    BooleanV1 | IndexV1 | NoneV1 | TokenV1 | WitnessV1
  | FloatBF16V1 | FloatF16V1 | FloatF32V1 | FloatF64V1 | FloatF4E2M1FNV1 | FloatF6E2M3FNV1 | FloatF6E3M2FNV1 | FloatF8E3M4V1
  | FloatF8E4M3V1 | FloatF8E4M3FNV1 | FloatF8E5M2V1 | FloatF8E4M3FNUZV1 | FloatF8E4M3B11FNUZV1 | FloatF8E5M2FNUZV1
  | FloatF8E8M0FNUV1 | FloatTF32V1
  | IntegerSI2V1 | IntegerSI4V1 | IntegerSI8V1 | IntegerSI16V1 | IntegerSI32V1 | IntegerSI64V1
  | IntegerUI2V1 | IntegerUI4V1 | IntegerUI8V1 | IntegerUI16V1 | IntegerUI32V1 | IntegerUI64V1

text \<open>The attributes that hold no other attribute or type; an enumeration attribute is its name and its value.\<close>

datatype VhloLeaf =
    BooleanV1Attr bool | StringV1Attr string | TypeExtensionsV1Attr "int list" | SubAxisInfoV1Attr int int
  | OutputOperandAliasV1Attr "int list" int "int list"
  | ResultAccuracyModeV1Attr string | CustomCallApiVersionV1Attr string | EnumV1Attr string string

datatype VhloType =
    OtherDialectType nat
  | ScalarV1 VhloScalar
  | ComplexV1 VhloType
  | FunctionV1 "VhloType list" "VhloType list"
  | RankedTensorV1 "int list" VhloType "VhloAttr option"
  | FutureV1 "VhloType list"
  | TupleV1 "VhloType list"
  | UniformQuantizedV1 nat VhloType VhloType double_attr int int int
  | UniformQuantizedPerAxisV1 nat VhloType VhloType int "double_attr list" "int list" int int
  | UnrankedTensorV1 VhloType
  | RankedBufferV1 "int list" VhloType
and VhloAttr =
    OtherDialectAttr nat
  | LeafV1 VhloLeaf
  | ArrayV1 "VhloAttr list"
  | DictionaryV1 "(VhloAttr \<times> VhloAttr) list"
  | FloatV1 VhloType double_attr
  | IntegerV1 VhloType int
  | TensorV1 VhloType "int list"
  | TypeV1 VhloType
  | ResultAccuracyV1 double_attr double_attr int VhloAttr
  | AxisRefV1 VhloAttr "VhloAttr option"
  | ReplicaGroupMeshAxesV1 VhloAttr VhloAttr
  | MeshAxisV1 VhloAttr int
  | MeshV1 VhloAttr "VhloAttr option"

section \<open>Versions of types and attributes\<close>

text \<open>
  The versions of \<^verbatim>\<open>VhloTypes.td\<close>, \<^verbatim>\<open>VhloAttrs.td\<close> and \<^verbatim>\<open>VhloEnums.td\<close>. All of them are still supported: the maximal version is the
  current one.
\<close>

fun scalar_minVersion :: "VhloScalar \<Rightarrow> Version" where
  "scalar_minVersion NoneV1 = Version 1 6 0"
| "scalar_minVersion FloatF4E2M1FNV1 = Version 1 8 0"
| "scalar_minVersion FloatF6E2M3FNV1 = Version 1 8 0"
| "scalar_minVersion FloatF6E3M2FNV1 = Version 1 8 0"
| "scalar_minVersion FloatF8E3M4V1 = Version 1 7 0"
| "scalar_minVersion FloatF8E4M3V1 = Version 1 7 0"
| "scalar_minVersion FloatF8E4M3FNUZV1 = Version 0 10 0"
| "scalar_minVersion FloatF8E4M3B11FNUZV1 = Version 0 11 0"
| "scalar_minVersion FloatF8E5M2FNUZV1 = Version 0 10 0"
| "scalar_minVersion FloatF8E8M0FNUV1 = Version 1 8 0"
| "scalar_minVersion FloatTF32V1 = Version 1 6 0"
| "scalar_minVersion IntegerSI2V1 = Version 1 2 0"
| "scalar_minVersion IntegerUI2V1 = Version 1 2 0"
| "scalar_minVersion _ = Version 0 9 0"

fun type_minVersion :: "VhloType \<Rightarrow> Version" where
  "type_minVersion (ScalarV1 s) = scalar_minVersion s"
| "type_minVersion (FutureV1 _) = Version 1 15 0"
| "type_minVersion (UniformQuantizedPerAxisV1 _ _ _ _ _ _ _ _) = Version 0 18 0"
| "type_minVersion (RankedBufferV1 _ _) = Version 1 13 0"
| "type_minVersion _ = Version 0 9 0"

fun leaf_minVersion :: "VhloLeaf \<Rightarrow> Version" where
  "leaf_minVersion (SubAxisInfoV1Attr _ _) = Version 1 16 0"
| "leaf_minVersion (ResultAccuracyModeV1Attr _) = Version 1 9 0"
| "leaf_minVersion _ = Version 0 9 0"

fun attr_minVersion :: "VhloAttr \<Rightarrow> Version" where
  "attr_minVersion (LeafV1 a) = leaf_minVersion a"
| "attr_minVersion (ResultAccuracyV1 _ _ _ _) = Version 1 9 0"
| "attr_minVersion (AxisRefV1 _ _) = Version 1 16 0"
| "attr_minVersion (ReplicaGroupMeshAxesV1 _ _) = Version 1 16 0"
| "attr_minVersion (MeshAxisV1 _ _) = Version 1 16 0"
| "attr_minVersion (MeshV1 _ _) = Version 1 16 0"
| "attr_minVersion _ = Version 0 9 0"

section \<open>Legality\<close>

definition isLegalVersion :: "Version \<Rightarrow> Version \<Rightarrow> Version \<Rightarrow> bool" where
  "isLegalVersion minVersion maxVersion target \<longleftrightarrow> minVersion \<le> target \<and> target \<le> maxVersion"

abbreviation supports :: "Version \<Rightarrow> Version \<Rightarrow> bool" where
  "supports minVersion target \<equiv> isLegalVersion minVersion getCurrentVersion target"

fun isLegalType :: "VhloType \<Rightarrow> Version \<Rightarrow> bool"
  and isLegalAttribute :: "VhloAttr \<Rightarrow> Version \<Rightarrow> bool" where
  "isLegalType (OtherDialectType n) target = True"
| "isLegalType (ScalarV1 s) target = supports (type_minVersion (ScalarV1 s)) target"
| "isLegalType (ComplexV1 t) target = (supports (Version 0 9 0) target \<and> isLegalType t target)"
| "isLegalType (FunctionV1 inputs outputs) target =
     (supports (Version 0 9 0) target \<and> list_all (\<lambda>t. isLegalType t target) inputs \<and> list_all (\<lambda>t. isLegalType t target) outputs)"
| "isLegalType (RankedTensorV1 shape t encoding) target =
     (supports (Version 0 9 0) target \<and> (case encoding of Some a \<Rightarrow> isLegalAttribute a target | None \<Rightarrow> True) \<and> isLegalType t target)"
| "isLegalType (FutureV1 types) target = supports (Version 1 15 0) target"
| "isLegalType (TupleV1 types) target = (supports (Version 0 9 0) target \<and> list_all (\<lambda>t. isLegalType t target) types)"
| "isLegalType (UniformQuantizedV1 flags storage expressed scale zp lo hi) target =
     (supports (Version 0 9 0) target \<and> isLegalType storage target \<and> isLegalType expressed target)"
| "isLegalType (UniformQuantizedPerAxisV1 flags storage expressed dim scales zps lo hi) target = supports (Version 0 18 0) target"
| "isLegalType (UnrankedTensorV1 t) target = (supports (Version 0 9 0) target \<and> isLegalType t target)"
| "isLegalType (RankedBufferV1 shape t) target = (supports (Version 1 13 0) target \<and> isLegalType t target)"
| "isLegalAttribute (OtherDialectAttr n) target = True"
| "isLegalAttribute (LeafV1 a) target = supports (attr_minVersion (LeafV1 a)) target"
| "isLegalAttribute (ArrayV1 as) target = (supports (Version 0 9 0) target \<and> list_all (\<lambda>a. isLegalAttribute a target) as)"
| "isLegalAttribute (DictionaryV1 entries) target =
     (supports (Version 0 9 0) target \<and>
      list_all (\<lambda>entry. isLegalAttribute (fst entry) target \<and> isLegalAttribute (snd entry) target) entries)"
| "isLegalAttribute (FloatV1 t v) target = (supports (Version 0 9 0) target \<and> isLegalType t target)"
| "isLegalAttribute (IntegerV1 t n) target = (supports (Version 0 9 0) target \<and> isLegalType t target)"
| "isLegalAttribute (TensorV1 t bytes) target = (supports (Version 0 9 0) target \<and> isLegalType t target)"
| "isLegalAttribute (TypeV1 t) target = (supports (Version 0 9 0) target \<and> isLegalType t target)"
| "isLegalAttribute (ResultAccuracyV1 atol rtol ulps mode) target =
     (supports (Version 1 9 0) target \<and> isLegalAttribute mode target)"
| "isLegalAttribute (AxisRefV1 name sub) target =
     (supports (Version 1 16 0) target \<and> isLegalAttribute name target \<and>
      (case sub of Some a \<Rightarrow> isLegalAttribute a target | None \<Rightarrow> True))"
| "isLegalAttribute (ReplicaGroupMeshAxesV1 mesh axes) target =
     (supports (Version 1 16 0) target \<and> isLegalAttribute mesh target \<and> isLegalAttribute axes target)"
| "isLegalAttribute (MeshAxisV1 name n) target = supports (Version 1 16 0) target"
| "isLegalAttribute (MeshV1 axes ids) target = supports (Version 1 16 0) target"

section \<open>Constraints and operations\<close>

fun getVhloElementType :: "VhloType \<Rightarrow> VhloType result" where
  "getVhloElementType (RankedTensorV1 shape t encoding) = Inr t"
| "getVhloElementType (UnrankedTensorV1 t) = Inr t"
| "getVhloElementType _ = Inl (UB ''cast to UnrankedTensorV1Type'')"

text \<open>The operations with a version constraint; the attributes it reads are its arguments.\<close>

datatype VersionConstraint =
    NoConstraint
  | ElementTypesMatchConstraint
  | CustomCallConstraint (backend_config: VhloAttr) (api_version: VhloAttr)
  | ConvolutionConstraint
  | DotGeneralConstraint (lhs_precision_type: VhloAttr) (rhs_precision_type: VhloAttr)

definition checkIfOperandAndResultElementTypesMatch :: "VhloType list \<Rightarrow> VhloType list \<Rightarrow> bool result" where
  "checkIfOperandAndResultElementTypesMatch operandTypes resultTypes =
     rbind (mapM getVhloElementType operandTypes) (\<lambda>ins.
     rbind (mapM getVhloElementType resultTypes) (\<lambda>outs. Inr (list_all (\<lambda>(x, y). x = y) (zip ins outs))))"

definition verifyConstraint_0_17_0 :: "VhloType list \<Rightarrow> VhloType list \<Rightarrow> Version \<Rightarrow> bool result" where
  "verifyConstraint_0_17_0 operandTypes resultTypes target =
     rbind (checkIfOperandAndResultElementTypesMatch operandTypes resultTypes) (\<lambda>same. Inr (same \<or> \<not> target < Version 0 17 0))"

fun is_dictionary :: "VhloAttr \<Rightarrow> bool" where
  "is_dictionary (DictionaryV1 entries) = True"
| "is_dictionary _ = False"

fun api_version_value :: "VhloAttr \<Rightarrow> string result" where
  "api_version_value (LeafV1 (CustomCallApiVersionV1Attr v)) = Inr v"
| "api_version_value _ = Inl (UB ''cast to CustomCallApiVersionV1Attr'')"

definition verifyConstraint_1_3_0 :: "VhloAttr \<Rightarrow> VhloAttr \<Rightarrow> Version \<Rightarrow> bool result" where
  "verifyConstraint_1_3_0 backendConfig apiVersion target =
     (if \<not> target < Version 1 3 0 then Inr True
      else if is_dictionary backendConfig then Inr False
      else rbind (api_version_value apiVersion) (\<lambda>v. Inr (v \<noteq> ''API_VERSION_TYPED_FFI'')))"

fun is_future :: "VhloType \<Rightarrow> bool" where
  "is_future (FutureV1 types) = True"
| "is_future _ = False"

definition verifyConstraint_1_17_0 :: "VhloType list \<Rightarrow> Version \<Rightarrow> bool" where
  "verifyConstraint_1_17_0 inputTypes target \<longleftrightarrow> \<not> target < Version 1 17 0 \<or> \<not> list_ex is_future inputTypes"

definition isVhloFp8Type :: "VhloType \<Rightarrow> bool" where
  "isVhloFp8Type type \<longleftrightarrow> type \<in> ScalarV1 ` {FloatF8E3M4V1, FloatF8E4M3V1, FloatF8E4M3FNV1, FloatF8E5M2V1, FloatF8E4M3FNUZV1,
     FloatF8E4M3B11FNUZV1, FloatF8E5M2FNUZV1, FloatF8E8M0FNUV1}"

definition verifyConstraint_1_20_0 :: "VhloType list \<Rightarrow> Version \<Rightarrow> bool result" where
  "verifyConstraint_1_20_0 operandTypes target =
     (if \<not> target < Version 1 20 0 then Inr True
      else case operandTypes of
        lhs # rhs # _ \<Rightarrow>
          rbind (getVhloElementType lhs) (\<lambda>l. rbind (getVhloElementType rhs) (\<lambda>r.
            Inr (\<not> (l \<noteq> r \<and> isVhloFp8Type l \<and> isVhloFp8Type r))))
      | _ \<Rightarrow> Inr False)"

definition verifyConstraint_1_21_0 :: "VhloAttr \<Rightarrow> VhloAttr \<Rightarrow> Version \<Rightarrow> bool" where
  "verifyConstraint_1_21_0 lhsPrecisionType rhsPrecisionType target \<longleftrightarrow>
     \<not> target < Version 1 21 0 \<or>
     lhsPrecisionType \<noteq> TypeV1 (ScalarV1 FloatF8E4M3FNV1) \<and> rhsPrecisionType \<noteq> TypeV1 (ScalarV1 FloatF8E4M3FNV1)"

record VhloOperation =
  op_versions :: "(Version \<times> Version) option"
  op_constraint :: VersionConstraint
  op_attrs :: "VhloAttr list"
  op_operandTypes :: "VhloType list"
  op_resultTypes :: "VhloType list"

definition validateConstraint :: "VhloOperation \<Rightarrow> Version \<Rightarrow> bool result" where
  "validateConstraint op target =
     (case op_constraint op of
        NoConstraint \<Rightarrow> Inr True
      | ElementTypesMatchConstraint \<Rightarrow> verifyConstraint_0_17_0 (op_operandTypes op) (op_resultTypes op) target
      | CustomCallConstraint config api \<Rightarrow>
          if \<not> verifyConstraint_1_17_0 (op_operandTypes op) target then Inr False
          else verifyConstraint_1_3_0 config api target
      | ConvolutionConstraint \<Rightarrow> verifyConstraint_1_20_0 (op_operandTypes op) target
      | DotGeneralConstraint l r \<Rightarrow> Inr (verifyConstraint_1_21_0 l r target))"

definition isLegalOperation :: "VhloOperation \<Rightarrow> Version \<Rightarrow> bool result" where
  "isLegalOperation op target =
     (case op_versions op of
        None \<Rightarrow> Inr True
      | Some (lo, hi) \<Rightarrow>
          if \<not> isLegalVersion lo hi target then Inr False
          else rbind (validateConstraint op target) (\<lambda>ok.
            Inr (ok \<and> list_all (\<lambda>a. isLegalAttribute a target) (op_attrs op) \<and>
              list_all (\<lambda>t. isLegalType t target) (op_operandTypes op) \<and>
              list_all (\<lambda>t. isLegalType t target) (op_resultTypes op))))"

section \<open>Upgrades and downgrades\<close>

text \<open>
  The operations with a hand-written upgrade and downgrade: SSA values and regions are type variables. The second version
  of an operation extends the first one.
\<close>

record ('v, 'r) ScatterOpV1 =
  sc_inputs :: "'v list"
  sc_indices :: 'v
  sc_updates :: "'v list"
  sc_update_window_dims :: VhloAttr
  sc_inserted_window_dims :: VhloAttr
  sc_dims_to_operand_dims :: VhloAttr
  sc_index_vector_dim :: VhloAttr
  sc_indices_are_sorted :: VhloAttr
  sc_unique_indices :: VhloAttr
  sc_update_computation :: 'r
  sc_resultTypes :: "VhloType list"
  sc_discardableAttrs :: "(string \<times> VhloAttr) list"

record ('v, 'r) ScatterOpV2 = "('v, 'r) ScatterOpV1" +
  sc_input_batching_dims :: VhloAttr
  sc_indices_batching_dims :: VhloAttr

definition getEmptyI64Tensor :: VhloAttr where
  "getEmptyI64Tensor = TensorV1 (RankedTensorV1 [0] (ScalarV1 IntegerSI64V1) None) []"

fun isEmptyTensor :: "VhloAttr \<Rightarrow> bool" where
  "isEmptyTensor (TensorV1 t bytes) = (bytes = [])"
| "isEmptyTensor _ = False"

definition getEmptyArray :: VhloAttr where "getEmptyArray = ArrayV1 []"

fun isEmptyArray :: "VhloAttr \<Rightarrow> bool" where
  "isEmptyArray (ArrayV1 as) = (as = [])"
| "isEmptyArray _ = False"

definition ScatterOpV1ToV2 :: "('v, 'r) ScatterOpV1 \<Rightarrow> ('v, 'r) ScatterOpV2" where
  "ScatterOpV1ToV2 op =
     ScatterOpV1.extend op \<lparr>sc_input_batching_dims = getEmptyI64Tensor, sc_indices_batching_dims = getEmptyI64Tensor\<rparr>"

definition ScatterOpV2ToV1 :: "('v, 'r) ScatterOpV2 \<Rightarrow> ('v, 'r) ScatterOpV1 result" where
  "ScatterOpV2ToV1 op =
     (if \<not> isEmptyTensor (sc_indices_batching_dims op) \<or> \<not> isEmptyTensor (sc_input_batching_dims op)
      then Inl (Failure ''non-empty batching dims'') else Inr (ScatterOpV1.truncate op))"

record ('v, 'r) AllReduceOpV1 =
  ar1_operand :: 'v
  ar1_replica_groups :: VhloAttr
  ar1_channel_id :: VhloAttr
  ar1_use_global_device_ids :: VhloAttr
  ar1_computation :: 'r
  ar1_resultType :: VhloType
  ar1_discardableAttrs :: "(string \<times> VhloAttr) list"

record ('v, 'r) AllReduceOpV2 =
  ar2_operands :: "'v list"
  ar2_replica_groups :: VhloAttr
  ar2_channel_id :: VhloAttr
  ar2_use_global_device_ids :: VhloAttr
  ar2_computation :: 'r
  ar2_resultTypes :: "VhloType list"
  ar2_discardableAttrs :: "(string \<times> VhloAttr) list"

definition AllReduceOpV1ToV2 :: "('v, 'r) AllReduceOpV1 \<Rightarrow> ('v, 'r) AllReduceOpV2" where
  "AllReduceOpV1ToV2 op =
     \<lparr>ar2_operands = [ar1_operand op], ar2_replica_groups = ar1_replica_groups op, ar2_channel_id = ar1_channel_id op,
      ar2_use_global_device_ids = ar1_use_global_device_ids op, ar2_computation = ar1_computation op,
      ar2_resultTypes = [ar1_resultType op], ar2_discardableAttrs = ar1_discardableAttrs op\<rparr>"

definition AllReduceOpV2ToV1 :: "('v, 'r) AllReduceOpV2 \<Rightarrow> ('v, 'r) AllReduceOpV1 result" where
  "AllReduceOpV2ToV1 op =
     (case ar2_operands op of
        [operand] \<Rightarrow>
          (case ar2_resultTypes op of
             [] \<Rightarrow> Inl (UB ''front of an empty range'')
           | resultType # _ \<Rightarrow>
               Inr \<lparr>ar1_operand = operand, ar1_replica_groups = ar2_replica_groups op, ar1_channel_id = ar2_channel_id op,
                    ar1_use_global_device_ids = ar2_use_global_device_ids op, ar1_computation = ar2_computation op,
                    ar1_resultType = resultType, ar1_discardableAttrs = ar2_discardableAttrs op\<rparr>)
      | _ \<Rightarrow> Inl (Failure ''multiple operands''))"

record 'v CompositeOpV1 =
  co_inputs :: "'v list"
  co_name :: VhloAttr
  co_attributes :: VhloAttr
  co_decomposition :: VhloAttr
  co_version :: VhloAttr
  co_resultTypes :: "VhloType list"
  co_discardableAttrs :: "(string \<times> VhloAttr) list"

record ('v, 'r) CompositeOpV2 = "'v CompositeOpV1" +
  co_regions :: "'r list"

definition CompositeOpV1ToV2 :: "'v CompositeOpV1 \<Rightarrow> ('v, 'r) CompositeOpV2" where
  "CompositeOpV1ToV2 op = CompositeOpV1.extend op \<lparr>co_regions = []\<rparr>"

definition CompositeOpV2ToV1 :: "('v, 'r) CompositeOpV2 \<Rightarrow>  'v CompositeOpV1 result" where
  "CompositeOpV2ToV1 op =
     (if co_regions op \<noteq> [] then Inl (Failure ''non-empty regions'') else Inr (CompositeOpV1.truncate op))"

record 'v CustomCallOpV1 =
  cc_inputs :: "'v list"
  cc_call_target_name :: VhloAttr
  cc_has_side_effect :: VhloAttr
  cc_backend_config :: VhloAttr
  cc_api_version :: VhloAttr
  cc_called_computations :: VhloAttr
  cc_operand_layouts :: VhloAttr
  cc_result_layouts :: VhloAttr
  cc_output_operand_aliases :: VhloAttr
  cc_resultTypes :: "VhloType list"
  cc_discardableAttrs :: "(string \<times> VhloAttr) list"

record 'v CustomCallOpV2 = "'v CustomCallOpV1" +
  cc_result_tilings :: VhloAttr

definition CustomCallOpV1ToV2 :: "'v CustomCallOpV1 \<Rightarrow> 'v CustomCallOpV2" where
  "CustomCallOpV1ToV2 op = CustomCallOpV1.extend op \<lparr>cc_result_tilings = getEmptyArray\<rparr>"

definition CustomCallOpV2ToV1 :: "'v CustomCallOpV2 \<Rightarrow> 'v CustomCallOpV1 result" where
  "CustomCallOpV2ToV1 op =
     (if \<not> isEmptyArray (cc_result_tilings op) then Inl (Failure ''non-empty result_tilings'')
      else Inr (CustomCallOpV1.truncate op))"

end
