(* ===== verification/Vhlo_Convert.thy ===== *)
theory Vhlo_Convert
  imports Vhlo
begin

text \<open>
  The conversion of types between StableHLO programs and VHLO: \<^verbatim>\<open>stablehlo/dialect/VhloTypes.cpp\<close> with the converters of
  \<^verbatim>\<open>stablehlo/transforms/StablehloLegalizeToVhlo.cpp\<close> and \<^verbatim>\<open>VhloLegalizeToStablehlo.cpp\<close>. A conversion that returns a null type is a
  failure.
\<close>

section \<open>Types of a program\<close>

datatype TensorEncoding = TypeExtensionsAttr "int list" | VhloEncoding VhloAttr | OtherEncodingAttr nat

text \<open>
  The types of the builtin, quant, shape and StableHLO dialects that have a conversion, VHLO types, and types of other dialects. A
  buffer type has a layout and a memory space, or the default ones.
\<close>

datatype ProgramType =
    IntegerTy Signedness nat
  | FloatTy FloatFormat
  | ComplexTy ProgramType
  | IndexTy
  | NoneTy
  | FunctionTy "ProgramType list" "ProgramType list"
  | RankedTensorTy "int list" ProgramType "TensorEncoding option"
  | TupleTy "ProgramType list"
  | UniformQuantizedTy nat ProgramType ProgramType double_attr int int int
  | UniformQuantizedPerAxisTy nat ProgramType ProgramType "double_attr list" "int list" int int int
  | UnrankedTensorTy ProgramType
  | WitnessTy
  | MemRefTy "int list" ProgramType "nat option" "nat option"
  | TokenTy
  | FutureTy "ProgramType list"
  | VhloTy VhloType
  | OtherTy nat

section \<open>StableHLO to VHLO\<close>

definition convertBuiltinIntegerType :: "Signedness \<Rightarrow> nat \<Rightarrow> VhloScalar result" where
  "convertBuiltinIntegerType s w =
     (if s \<noteq> Signless \<and> s \<noteq> Unsigned then Inl (Failure '''')
      else if w = 1 \<and> s = Signless then Inr BooleanV1
      else if w = 2 then Inr (if s = Signless then IntegerSI2V1 else IntegerUI2V1)
      else if w = 4 then Inr (if s = Signless then IntegerSI4V1 else IntegerUI4V1)
      else if w = 8 then Inr (if s = Signless then IntegerSI8V1 else IntegerUI8V1)
      else if w = 16 then Inr (if s = Signless then IntegerSI16V1 else IntegerUI16V1)
      else if w = 32 then Inr (if s = Signless then IntegerSI32V1 else IntegerUI32V1)
      else if w = 64 then Inr (if s = Signless then IntegerSI64V1 else IntegerUI64V1)
      else Inl (Failure ''''))"

fun convertFloatType :: "FloatFormat \<Rightarrow> VhloScalar result" where
  "convertFloatType BFloat16 = Inr FloatBF16V1"
| "convertFloatType Float16 = Inr FloatF16V1"
| "convertFloatType Float32 = Inr FloatF32V1"
| "convertFloatType Float64 = Inr FloatF64V1"
| "convertFloatType Float4E2M1FN = Inr FloatF4E2M1FNV1"
| "convertFloatType Float6E2M3FN = Inr FloatF6E2M3FNV1"
| "convertFloatType Float6E3M2FN = Inr FloatF6E3M2FNV1"
| "convertFloatType Float8E3M4 = Inr FloatF8E3M4V1"
| "convertFloatType Float8E4M3 = Inr FloatF8E4M3V1"
| "convertFloatType Float8E4M3FN = Inr FloatF8E4M3FNV1"
| "convertFloatType Float8E5M2 = Inr FloatF8E5M2V1"
| "convertFloatType Float8E4M3FNUZ = Inr FloatF8E4M3FNUZV1"
| "convertFloatType Float8E4M3B11FNUZ = Inr FloatF8E4M3B11FNUZV1"
| "convertFloatType Float8E5M2FNUZ = Inr FloatF8E5M2FNUZV1"
| "convertFloatType Float8E8M0FNU = Inr FloatF8E8M0FNUV1"
| "convertFloatType FloatTF32 = Inr FloatTF32V1"
| "convertFloatType _ = Inl (Failure '''')"

fun encodingToVhlo :: "TensorEncoding \<Rightarrow> VhloAttr result" where
  "encodingToVhlo (VhloEncoding a) = Inr a"
| "encodingToVhlo (TypeExtensionsAttr bounds) = Inr (LeafV1 (TypeExtensionsV1Attr bounds))"
| "encodingToVhlo (OtherEncodingAttr n) = Inl (Failure '''')"

definition optional :: "('a \<Rightarrow> 'b result) \<Rightarrow> 'a option \<Rightarrow> 'b option result" where
  "optional f x = (case x of None \<Rightarrow> Inr None | Some a \<Rightarrow> rbind (f a) (\<lambda>b. Inr (Some b)))"

text \<open>\<^verbatim>\<open>ComplexV1Type::get\<close> of a null type is undefined. The conversion of a buffer type keeps neither layout nor memory space.\<close>

fun convertToVhlo :: "bool \<Rightarrow> ProgramType \<Rightarrow> VhloType result" where
  "convertToVhlo allowOtherDialects (IntegerTy s w) = rbind (convertBuiltinIntegerType s w) (\<lambda>t. Inr (ScalarV1 t))"
| "convertToVhlo allowOtherDialects (FloatTy f) = rbind (convertFloatType f) (\<lambda>t. Inr (ScalarV1 t))"
| "convertToVhlo allowOtherDialects (ComplexTy t) =
     (case convertToVhlo allowOtherDialects t of Inl e \<Rightarrow> Inl (UB ''complex type of a null type'') | Inr t' \<Rightarrow> Inr (ComplexV1 t'))"
| "convertToVhlo allowOtherDialects IndexTy = Inr (ScalarV1 IndexV1)"
| "convertToVhlo allowOtherDialects NoneTy = Inr (ScalarV1 NoneV1)"
| "convertToVhlo allowOtherDialects (FunctionTy inputs results) =
     rbind (mapM (convertToVhlo allowOtherDialects) inputs) (\<lambda>ins.
     rbind (mapM (convertToVhlo allowOtherDialects) results) (\<lambda>outs. Inr (FunctionV1 ins outs)))"
| "convertToVhlo allowOtherDialects (RankedTensorTy shape t encoding) =
     rbind (optional encodingToVhlo encoding) (\<lambda>e.
     rbind (convertToVhlo allowOtherDialects t) (\<lambda>t'. Inr (RankedTensorV1 shape t' e)))"
| "convertToVhlo allowOtherDialects (TupleTy ts) = rbind (mapM (convertToVhlo allowOtherDialects) ts) (\<lambda>ts'. Inr (TupleV1 ts'))"
| "convertToVhlo allowOtherDialects (UniformQuantizedTy flags storage expressed scale zp lo hi) =
     rbind (convertToVhlo allowOtherDialects storage) (\<lambda>s.
     rbind (convertToVhlo allowOtherDialects expressed) (\<lambda>e. Inr (UniformQuantizedV1 flags s e scale zp lo hi)))"
| "convertToVhlo allowOtherDialects (UniformQuantizedPerAxisTy flags storage expressed scales zps dim lo hi) =
     rbind (convertToVhlo allowOtherDialects storage) (\<lambda>s.
     rbind (convertToVhlo allowOtherDialects expressed) (\<lambda>e. Inr (UniformQuantizedPerAxisV1 flags s e dim scales zps lo hi)))"
| "convertToVhlo allowOtherDialects (UnrankedTensorTy t) =
     rbind (convertToVhlo allowOtherDialects t) (\<lambda>t'. Inr (UnrankedTensorV1 t'))"
| "convertToVhlo allowOtherDialects WitnessTy = Inr (ScalarV1 WitnessV1)"
| "convertToVhlo allowOtherDialects (MemRefTy shape t layout space) =
     rbind (convertToVhlo allowOtherDialects t) (\<lambda>t'. Inr (RankedBufferV1 shape t'))"
| "convertToVhlo allowOtherDialects TokenTy = Inr (ScalarV1 TokenV1)"
| "convertToVhlo allowOtherDialects (FutureTy ts) = rbind (mapM (convertToVhlo allowOtherDialects) ts) (\<lambda>ts'. Inr (FutureV1 ts'))"
| "convertToVhlo allowOtherDialects (VhloTy t) = Inr t"
| "convertToVhlo allowOtherDialects (OtherTy n) =
     (if allowOtherDialects then Inr (OtherDialectType n) else Inl (Failure ''''))"

section \<open>VHLO to StableHLO\<close>

fun scalarFromVhlo :: "VhloScalar \<Rightarrow> ProgramType" where
  "scalarFromVhlo BooleanV1 = IntegerTy Signless 1"
| "scalarFromVhlo IndexV1 = IndexTy"
| "scalarFromVhlo NoneV1 = NoneTy"
| "scalarFromVhlo TokenV1 = TokenTy"
| "scalarFromVhlo WitnessV1 = WitnessTy"
| "scalarFromVhlo FloatBF16V1 = FloatTy BFloat16"
| "scalarFromVhlo FloatF16V1 = FloatTy Float16"
| "scalarFromVhlo FloatF32V1 = FloatTy Float32"
| "scalarFromVhlo FloatF64V1 = FloatTy Float64"
| "scalarFromVhlo FloatF4E2M1FNV1 = FloatTy Float4E2M1FN"
| "scalarFromVhlo FloatF6E2M3FNV1 = FloatTy Float6E2M3FN"
| "scalarFromVhlo FloatF6E3M2FNV1 = FloatTy Float6E3M2FN"
| "scalarFromVhlo FloatF8E3M4V1 = FloatTy Float8E3M4"
| "scalarFromVhlo FloatF8E4M3V1 = FloatTy Float8E4M3"
| "scalarFromVhlo FloatF8E4M3FNV1 = FloatTy Float8E4M3FN"
| "scalarFromVhlo FloatF8E5M2V1 = FloatTy Float8E5M2"
| "scalarFromVhlo FloatF8E4M3FNUZV1 = FloatTy Float8E4M3FNUZ"
| "scalarFromVhlo FloatF8E4M3B11FNUZV1 = FloatTy Float8E4M3B11FNUZ"
| "scalarFromVhlo FloatF8E5M2FNUZV1 = FloatTy Float8E5M2FNUZ"
| "scalarFromVhlo FloatF8E8M0FNUV1 = FloatTy Float8E8M0FNU"
| "scalarFromVhlo FloatTF32V1 = FloatTy FloatTF32"
| "scalarFromVhlo IntegerSI2V1 = IntegerTy Signless 2"
| "scalarFromVhlo IntegerSI4V1 = IntegerTy Signless 4"
| "scalarFromVhlo IntegerSI8V1 = IntegerTy Signless 8"
| "scalarFromVhlo IntegerSI16V1 = IntegerTy Signless 16"
| "scalarFromVhlo IntegerSI32V1 = IntegerTy Signless 32"
| "scalarFromVhlo IntegerSI64V1 = IntegerTy Signless 64"
| "scalarFromVhlo IntegerUI2V1 = IntegerTy Unsigned 2"
| "scalarFromVhlo IntegerUI4V1 = IntegerTy Unsigned 4"
| "scalarFromVhlo IntegerUI8V1 = IntegerTy Unsigned 8"
| "scalarFromVhlo IntegerUI16V1 = IntegerTy Unsigned 16"
| "scalarFromVhlo IntegerUI32V1 = IntegerTy Unsigned 32"
| "scalarFromVhlo IntegerUI64V1 = IntegerTy Unsigned 64"

fun encodingFromVhlo :: "VhloAttr \<Rightarrow> TensorEncoding" where
  "encodingFromVhlo (LeafV1 (TypeExtensionsV1Attr bounds)) = TypeExtensionsAttr bounds"
| "encodingFromVhlo (OtherDialectAttr n) = OtherEncodingAttr n"
| "encodingFromVhlo a = VhloEncoding a"

fun convertFromVhlo :: "VhloType \<Rightarrow> ProgramType" where
  "convertFromVhlo (OtherDialectType n) = OtherTy n"
| "convertFromVhlo (ScalarV1 s) = scalarFromVhlo s"
| "convertFromVhlo (ComplexV1 t) = ComplexTy (convertFromVhlo t)"
| "convertFromVhlo (FunctionV1 inputs outputs) = FunctionTy (map convertFromVhlo inputs) (map convertFromVhlo outputs)"
| "convertFromVhlo (RankedTensorV1 shape t encoding) = RankedTensorTy shape (convertFromVhlo t) (map_option encodingFromVhlo encoding)"
| "convertFromVhlo (FutureV1 ts) = FutureTy (map convertFromVhlo ts)"
| "convertFromVhlo (TupleV1 ts) = TupleTy (map convertFromVhlo ts)"
| "convertFromVhlo (UniformQuantizedV1 flags storage expressed scale zp lo hi) =
     UniformQuantizedTy flags (convertFromVhlo storage) (convertFromVhlo expressed) scale zp lo hi"
| "convertFromVhlo (UniformQuantizedPerAxisV1 flags storage expressed dim scales zps lo hi) =
     UniformQuantizedPerAxisTy flags (convertFromVhlo storage) (convertFromVhlo expressed) scales zps dim lo hi"
| "convertFromVhlo (UnrankedTensorV1 t) = UnrankedTensorTy (convertFromVhlo t)"
| "convertFromVhlo (RankedBufferV1 shape t) = MemRefTy shape (convertFromVhlo t) None None"

end
