(* ===== verification/Vhlo_Correct.thy ===== *)
theory Vhlo_Correct
  imports Vhlo_Convert
begin

text \<open>
  Compatibility: converting the types of a program to VHLO and back is the identity, the legality check accepts exactly the types
  whose parts the target version knows (as far as it looks into them), and for every target version exactly one
  version of an operation is legal, which its upgrades and downgrades reach without loss.
\<close>

section \<open>Types\<close>

text \<open>The types of a program before the conversion: no VHLO types yet, and buffers of the default layout.\<close>

fun plain_encoding :: "TensorEncoding \<Rightarrow> bool" where
  "plain_encoding (VhloEncoding a) = False"
| "plain_encoding _ = True"

fun plain :: "ProgramType \<Rightarrow> bool" where
  "plain (ComplexTy t) = plain t"
| "plain (FunctionTy ins outs) = (list_all plain ins \<and> list_all plain outs)"
| "plain (RankedTensorTy shape t encoding) = (plain t \<and> (case encoding of None \<Rightarrow> True | Some e \<Rightarrow> plain_encoding e))"
| "plain (TupleTy ts) = list_all plain ts"
| "plain (UniformQuantizedTy flags s e scale zp lo hi) = (plain s \<and> plain e)"
| "plain (UniformQuantizedPerAxisTy flags s e scales zps dim lo hi) = (plain s \<and> plain e)"
| "plain (UnrankedTensorTy t) = plain t"
| "plain (MemRefTy shape t layout space) = (plain t \<and> layout = None \<and> space = None)"
| "plain (FutureTy ts) = list_all plain ts"
| "plain (VhloTy t) = False"
| "plain _ = True"

lemma integer_round_trip: "convertBuiltinIntegerType s w = Inr t \<Longrightarrow> scalarFromVhlo t = IntegerTy s w"
  by (cases s) (auto simp: convertBuiltinIntegerType_def split: if_splits)

lemma float_round_trip: "convertFloatType f = Inr t \<Longrightarrow> scalarFromVhlo t = FloatTy f"
  by (cases f) auto

lemma encoding_round_trip: "encodingToVhlo e = Inr a \<Longrightarrow> plain_encoding e \<Longrightarrow> encodingFromVhlo a = e"
  by (cases e) auto

lemma mapM_round_trip:
  "mapM f xs = Inr ys \<Longrightarrow> (\<And>x y. x \<in> set xs \<Longrightarrow> f x = Inr y \<Longrightarrow> g y = x) \<Longrightarrow> map g ys = xs"
  by (induction xs arbitrary: ys) (auto simp: rbind_eq_Inr)

lemma convert_round_trip: "convertToVhlo other t = Inr v \<Longrightarrow> plain t \<Longrightarrow> convertFromVhlo v = t"
proof (induction other t arbitrary: v rule: convertToVhlo.induct)
  case (7 other shape t encoding)
  then show ?case
    by (auto simp: rbind_eq_Inr optional_def encoding_round_trip split: option.splits)
qed (auto simp: rbind_eq_Inr integer_round_trip float_round_trip list_all_iff split: sum.splits if_splits
    intro!: mapM_round_trip)

text \<open>What the verifier of the ranked tensor type ensures: its encoding is a VHLO attribute.\<close>

fun verified :: "VhloType \<Rightarrow> bool" where
  "verified (ComplexV1 t) = verified t"
| "verified (FunctionV1 ins outs) = (list_all verified ins \<and> list_all verified outs)"
| "verified (RankedTensorV1 shape t encoding) = (verified t \<and> (case encoding of Some (OtherDialectAttr n) \<Rightarrow> False | _ \<Rightarrow> True))"
| "verified (FutureV1 ts) = list_all verified ts"
| "verified (TupleV1 ts) = list_all verified ts"
| "verified (UniformQuantizedV1 flags s e scale zp lo hi) = (verified s \<and> verified e)"
| "verified (UniformQuantizedPerAxisV1 flags s e dim scales zps lo hi) = (verified s \<and> verified e)"
| "verified (UnrankedTensorV1 t) = verified t"
| "verified (RankedBufferV1 shape t) = verified t"
| "verified _ = True"

lemma scalar_convert: "convertToVhlo other (scalarFromVhlo s) = Inr (ScalarV1 s)"
  by (cases s) (simp_all add: convertBuiltinIntegerType_def)

lemma encoding_convert: "(\<And>n. a \<noteq> OtherDialectAttr n) \<Longrightarrow> encodingToVhlo (encodingFromVhlo a) = Inr a"
  by (cases a rule: encodingFromVhlo.cases) auto

lemma mapM_convert: "(\<And>v. v \<in> set vs \<Longrightarrow> f (g v) = Inr v) \<Longrightarrow> mapM f (map g vs) = Inr vs"
  by (induction vs) auto

lemma convert_back: "verified v \<Longrightarrow> convertToVhlo True (convertFromVhlo v) = Inr v"
proof (induction v rule: convertFromVhlo.induct)
  case (5 shape t encoding)
  then show ?case
    by (auto simp: optional_def encoding_convert split: option.splits VhloAttr.splits)
qed (auto simp: scalar_convert list_all_iff mapM_convert)

text \<open>
  C27: the conversion of types to VHLO and back. Whenever the type of a program converts to VHLO, converting the result back gives
  the type itself, and every verified VHLO type comes back from the StableHLO type it converts to.
\<close>

theorem vhlo_type_round_trip:
  assumes "plain t" "verified w"
  shows "(convertToVhlo other t = Inr v \<longrightarrow> convertFromVhlo v = t) \<and> convertToVhlo True (convertFromVhlo w) = Inr w"
  using assms convert_round_trip convert_back by blast

section \<open>Legality\<close>

text \<open>The versions that introduced the parts of a type: itself and everything inside it.\<close>

fun type_versions :: "VhloType \<Rightarrow> Version list"
  and attr_versions :: "VhloAttr \<Rightarrow> Version list" where
  "type_versions (OtherDialectType n) = []"
| "type_versions (ScalarV1 s) = [scalar_minVersion s]"
| "type_versions (ComplexV1 t) = Version 0 9 0 # type_versions t"
| "type_versions (FunctionV1 ins outs) = Version 0 9 0 # concat (map type_versions ins) @ concat (map type_versions outs)"
| "type_versions (RankedTensorV1 shape t encoding) =
     Version 0 9 0 # type_versions t @ (case encoding of Some a \<Rightarrow> attr_versions a | None \<Rightarrow> [])"
| "type_versions (FutureV1 ts) = Version 1 15 0 # concat (map type_versions ts)"
| "type_versions (TupleV1 ts) = Version 0 9 0 # concat (map type_versions ts)"
| "type_versions (UniformQuantizedV1 flags s e scale zp lo hi) = Version 0 9 0 # type_versions s @ type_versions e"
| "type_versions (UniformQuantizedPerAxisV1 flags s e dim scales zps lo hi) = Version 0 18 0 # type_versions s @ type_versions e"
| "type_versions (UnrankedTensorV1 t) = Version 0 9 0 # type_versions t"
| "type_versions (RankedBufferV1 shape t) = Version 1 13 0 # type_versions t"
| "attr_versions (OtherDialectAttr n) = []"
| "attr_versions (LeafV1 a) = [leaf_minVersion a]"
| "attr_versions (ArrayV1 as) = Version 0 9 0 # concat (map attr_versions as)"
| "attr_versions (DictionaryV1 entries) =
     Version 0 9 0 # concat (map (\<lambda>entry. attr_versions (fst entry) @ attr_versions (snd entry)) entries)"
| "attr_versions (FloatV1 t x) = Version 0 9 0 # type_versions t"
| "attr_versions (IntegerV1 t n) = Version 0 9 0 # type_versions t"
| "attr_versions (TensorV1 t bytes) = Version 0 9 0 # type_versions t"
| "attr_versions (TypeV1 t) = Version 0 9 0 # type_versions t"
| "attr_versions (ResultAccuracyV1 atol rtol ulps mode) = Version 1 9 0 # attr_versions mode"
| "attr_versions (AxisRefV1 name sub) =
     Version 1 16 0 # attr_versions name @ (case sub of Some a \<Rightarrow> attr_versions a | None \<Rightarrow> [])"
| "attr_versions (ReplicaGroupMeshAxesV1 mesh axes) = Version 1 16 0 # attr_versions mesh @ attr_versions axes"
| "attr_versions (MeshAxisV1 name n) = Version 1 16 0 # attr_versions name"
| "attr_versions (MeshV1 axes ids) =
     Version 1 16 0 # attr_versions axes @ (case ids of Some a \<Rightarrow> attr_versions a | None \<Rightarrow> [])"

text \<open>
  The check does not look inside futures, types quantized per axis and meshes. It is exact when what they hold is not newer than
  they are.
\<close>

fun settled_type :: "VhloType \<Rightarrow> bool"
  and settled_attr :: "VhloAttr \<Rightarrow> bool" where
  "settled_type (ComplexV1 t) = settled_type t"
| "settled_type (FunctionV1 ins outs) = (list_all settled_type ins \<and> list_all settled_type outs)"
| "settled_type (RankedTensorV1 shape t encoding) =
     (settled_type t \<and> (case encoding of Some a \<Rightarrow> settled_attr a | None \<Rightarrow> True))"
| "settled_type (FutureV1 ts) = list_all (\<lambda>v. v \<le> Version 1 15 0) (type_versions (FutureV1 ts))"
| "settled_type (TupleV1 ts) = list_all settled_type ts"
| "settled_type (UniformQuantizedV1 flags s e scale zp lo hi) = (settled_type s \<and> settled_type e)"
| "settled_type (UniformQuantizedPerAxisV1 flags s e dim scales zps lo hi) =
     list_all (\<lambda>v. v \<le> Version 0 18 0) (type_versions (UniformQuantizedPerAxisV1 flags s e dim scales zps lo hi))"
| "settled_type (UnrankedTensorV1 t) = settled_type t"
| "settled_type (RankedBufferV1 shape t) = settled_type t"
| "settled_type (OtherDialectType n) = True"
| "settled_type (ScalarV1 s) = True"
| "settled_attr (OtherDialectAttr n) = True"
| "settled_attr (LeafV1 a) = True"
| "settled_attr (ArrayV1 as) = list_all settled_attr as"
| "settled_attr (DictionaryV1 entries) = list_all (\<lambda>entry. settled_attr (fst entry) \<and> settled_attr (snd entry)) entries"
| "settled_attr (FloatV1 t x) = settled_type t"
| "settled_attr (IntegerV1 t n) = settled_type t"
| "settled_attr (TensorV1 t bytes) = settled_type t"
| "settled_attr (TypeV1 t) = settled_type t"
| "settled_attr (ResultAccuracyV1 atol rtol ulps mode) = settled_attr mode"
| "settled_attr (AxisRefV1 name sub) = (settled_attr name \<and> (case sub of Some a \<Rightarrow> settled_attr a | None \<Rightarrow> True))"
| "settled_attr (ReplicaGroupMeshAxesV1 mesh axes) = (settled_attr mesh \<and> settled_attr axes)"
| "settled_attr (MeshAxisV1 name n) = list_all (\<lambda>v. v \<le> Version 1 16 0) (attr_versions (MeshAxisV1 name n))"
| "settled_attr (MeshV1 axes ids) = list_all (\<lambda>v. v \<le> Version 1 16 0) (attr_versions (MeshV1 axes ids))"

lemma list_all_supports_settled:
  "list_all (\<lambda>v. v \<le> m) vs \<Longrightarrow> m \<in> set vs \<Longrightarrow> list_all (\<lambda>v. supports v target) vs \<longleftrightarrow> supports m target"
  by (auto simp: list_all_iff isLegalVersion_def)

lemma list_all_concat: "list_all P (concat xss) \<longleftrightarrow> list_all (list_all P) xss"
  by (induction xss) auto

lemma legal_settled:
  "settled_type t \<Longrightarrow> isLegalType t target \<longleftrightarrow> list_all (\<lambda>v. supports v target) (type_versions t)"
  "settled_attr a \<Longrightarrow> isLegalAttribute a target \<longleftrightarrow> list_all (\<lambda>v. supports v target) (attr_versions a)"
proof (induction t target and a target rule: isLegalType_isLegalAttribute.induct)
  case (6 types target)
  then show ?case by (subst list_all_supports_settled [of "Version 1 15 0"]) simp_all
next
  case (9 flags storage expressed dim scales zps lo hi target)
  then show ?case by (subst list_all_supports_settled [of "Version 0 18 0"]) simp_all
next
  case (23 name n target)
  then show ?case by (subst list_all_supports_settled [of "Version 1 16 0"]) simp_all
next
  case (24 axes ids target)
  then show ?case by (subst list_all_supports_settled [of "Version 1 16 0"]) simp_all
qed (auto simp: list_all_concat list.pred_map list_all_iff split: option.splits)

text \<open>
  C28: the legality of types and attributes. As long as futures, types quantized per axis and meshes hold nothing newer than
  themselves, a type or an attribute is legal for a target version exactly when the target knows every type and attribute it is
  made of; so what is legal for a version stays legal for every later one in the window. Without the first condition it fails:
  the check does not look into types quantized per axis, as \<open>per_axis_storage_unchecked\<close> shows.
\<close>

theorem legality_exact:
  assumes "settled_type t" "settled_attr a"
  shows "(isLegalType t target \<longleftrightarrow> list_all (\<lambda>v. isLegalVersion v getCurrentVersion target) (type_versions t)) \<and>
    (isLegalAttribute a target \<longleftrightarrow> list_all (\<lambda>v. isLegalVersion v getCurrentVersion target) (attr_versions a)) \<and>
    (isLegalType t target \<and> target \<le> later \<and> later \<le> getCurrentVersion \<longrightarrow> isLegalType t later) \<and>
    (isLegalAttribute a target \<and> target \<le> later \<and> later \<le> getCurrentVersion \<longrightarrow> isLegalAttribute a later)"
proof (intro conjI impI)
  assume "isLegalType t target \<and> target \<le> later \<and> later \<le> getCurrentVersion"
  then show "isLegalType t later"
    unfolding legal_settled(1) [OF assms(1)] by (auto simp: list_all_iff isLegalVersion_def intro: order_trans)
next
  assume "isLegalAttribute a target \<and> target \<le> later \<and> later \<le> getCurrentVersion"
  then show "isLegalAttribute a later"
    unfolding legal_settled(2) [OF assms(2)] by (auto simp: list_all_iff isLegalVersion_def intro: order_trans)
qed (use legal_settled assms in blast)+

text \<open>A type quantized per axis over a two-bit integer, which version 1.2.0 introduced, passes the check for version 1.0.0.\<close>

lemma per_axis_storage_unchecked:
  "isLegalType (UniformQuantizedPerAxisV1 1 (ScalarV1 IntegerSI2V1) (ScalarV1 FloatF32V1) 0 [(1, 0)] [0] (- 2) 1) (Version 1 0 0) \<and>
   \<not> isLegalType (ScalarV1 IntegerSI2V1) (Version 1 0 0)"
  by (simp add: isLegalVersion_def getCurrentVersion_def)

section \<open>Operations\<close>

text \<open>The version ranges of \<^verbatim>\<open>VhloOps.td\<close> for the operations that are upgraded and downgraded by hand.\<close>

definition op_ranges :: "((Version \<times> Version) \<times> (Version \<times> Version)) list" where
  "op_ranges =
     [((Version 0 9 0, Version 1 0 0), (Version 1 1 0, getCurrentVersion)),
      ((Version 0 9 0, Version 1 4 0), (Version 1 5 0, getCurrentVersion)),
      ((Version 0 19 0, Version 1 13 0), (Version 1 14 0, getCurrentVersion)),
      ((Version 0 9 0, Version 1 17 0), (Version 1 18 0, getCurrentVersion))]"

lemma isEmptyArray_iff: "isEmptyArray a \<longleftrightarrow> a = getEmptyArray"
  by (cases a) (auto simp: getEmptyArray_def)

lemma custom_call_downgrade: "CustomCallOpV2ToV1 cc2 = Inr cc \<Longrightarrow> CustomCallOpV1ToV2 cc = cc2"
  by (cases cc2) (auto simp: CustomCallOpV2ToV1_def CustomCallOpV1ToV2_def CustomCallOpV1.defs isEmptyArray_iff split: if_splits)

lemma composite_downgrade: "CompositeOpV2ToV1 co2 = Inr co \<Longrightarrow> CompositeOpV1ToV2 co = co2"
  by (cases co2) (auto simp: CompositeOpV2ToV1_def CompositeOpV1ToV2_def CompositeOpV1.defs split: if_splits)

lemma upgrade_downgrade:
  "ScatterOpV2ToV1 (ScatterOpV1ToV2 sc) = Inr sc" "AllReduceOpV2ToV1 (AllReduceOpV1ToV2 ar) = Inr ar"
  "CompositeOpV2ToV1 (CompositeOpV1ToV2 co) = Inr co" "CustomCallOpV2ToV1 (CustomCallOpV1ToV2 cc) = Inr cc"
  by (simp_all add: ScatterOpV2ToV1_def ScatterOpV1ToV2_def getEmptyI64Tensor_def ScatterOpV1.defs AllReduceOpV2ToV1_def
      AllReduceOpV1ToV2_def CompositeOpV2ToV1_def CompositeOpV1ToV2_def CompositeOpV1.defs CustomCallOpV2ToV1_def
      CustomCallOpV1ToV2_def CustomCallOpV1.defs isEmptyArray_iff)

text \<open>
  Versions of operations. For every target version that validation accepts and the older version of an operation does not
  predate, exactly one of the two versions of \<open>scatter\<close>, \<open>all_reduce\<close>, \<open>composite\<close> and \<open>custom_call\<close> is legal; an operation that
  is upgraded can be downgraded again and is the same, and a downgrade that succeeds loses nothing but the form of empty attributes.
\<close>

theorem op_versions_partition:
  assumes "validateTargetVersion s = Inr v" "((lo1, hi1), (lo2, hi2)) \<in> set op_ranges" "lo1 \<le> v"
  shows "isLegalVersion lo1 hi1 v \<noteq> isLegalVersion lo2 hi2 v \<and>
    ScatterOpV2ToV1 (ScatterOpV1ToV2 sc) = Inr sc \<and> AllReduceOpV2ToV1 (AllReduceOpV1ToV2 ar) = Inr ar \<and>
    CompositeOpV2ToV1 (CompositeOpV1ToV2 co) = Inr co \<and> CustomCallOpV2ToV1 (CustomCallOpV1ToV2 cc) = Inr cc \<and>
    (CompositeOpV2ToV1 co2 = Inr co \<longrightarrow> CompositeOpV1ToV2 co = co2) \<and> (CustomCallOpV2ToV1 cc2 = Inr cc \<longrightarrow> CustomCallOpV1ToV2 cc = cc2)"
proof (intro conjI impI)
  obtain a b where v: "v = Version a b 0" "v \<le> getCurrentVersion"
    using assms(1) first_patch_window by (auto simp: validate_iff)
  show "isLegalVersion lo1 hi1 v \<noteq> isLegalVersion lo2 hi2 v"
    using assms(2,3) v by (auto simp: op_ranges_def isLegalVersion_def getCurrentVersion_def)
qed (use upgrade_downgrade composite_downgrade custom_call_downgrade in blast)+

section \<open>Witnesses\<close>

definition bounded_tensor :: ProgramType where
  "bounded_tensor = RankedTensorTy [- 1, 4] (ComplexTy (FloatTy Float32)) (Some (TypeExtensionsAttr [8, - 1]))"

definition bounded_tensor_v1 :: VhloType where
  "bounded_tensor_v1 = RankedTensorV1 [- 1, 4] (ComplexV1 (ScalarV1 FloatF32V1)) (Some (LeafV1 (TypeExtensionsV1Attr [8, - 1])))"

lemma vhlo_type_round_trip_witness:
  "convertToVhlo False bounded_tensor = Inr bounded_tensor_v1 \<and> convertFromVhlo bounded_tensor_v1 = bounded_tensor"
  using vhlo_type_round_trip [of bounded_tensor bounded_tensor_v1 False bounded_tensor_v1]
  by (simp add: bounded_tensor_def bounded_tensor_v1_def optional_def)

lemma legality_exact_witness:
  "isLegalType bounded_tensor_v1 (Version 1 0 0) \<and>
   \<not> isLegalAttribute (TypeV1 (ScalarV1 IntegerSI2V1)) (Version 1 0 0) \<and> isLegalType bounded_tensor_v1 getCurrentVersion"
proof -
  have "settled_type bounded_tensor_v1" "settled_attr (TypeV1 (ScalarV1 IntegerSI2V1))" by (simp_all add: bounded_tensor_v1_def)
  from legality_exact [OF this, of "Version 1 0 0" getCurrentVersion] show ?thesis
    by (simp add: bounded_tensor_v1_def isLegalVersion_def getCurrentVersion_def)
qed

lemma op_versions_partition_witness:
  "isLegalVersion (Version 0 9 0) (Version 1 4 0) (Version 1 4 0) \<noteq> isLegalVersion (Version 1 5 0) getCurrentVersion (Version 1 4 0)"
proof -
  have "validateTargetVersion ''1.4.2'' = Inr (Version 1 4 0)" by code_simp
  moreover have "((Version 0 9 0, Version 1 4 0), (Version 1 5 0, getCurrentVersion)) \<in> set op_ranges" by (simp add: op_ranges_def)
  moreover have "Version 0 9 0 \<le> Version 1 4 0" by simp
  ultimately show ?thesis by (rule op_versions_partition [THEN conjunct1])
qed

end
