(* ===== verification/Replica_Groups.thy ===== *)
theory Replica_Groups
  imports APInt Index_Space
begin

text \<open>
  \<^verbatim>\<open>stablehlo/dialect/ReplicaGroupUtils.cpp\<close>: replica groups given by axes of a device mesh, flattened to lists of device
  identifiers. A mesh is a list of named axes; a communication axis names one of them or a part of it.
\<close>

section \<open>Meshes\<close>

record MeshAxis =
  ax_name :: string
  ax_size :: int

record AxisRef =
  ref_name :: string
  ref_subAxis :: "(int \<times> int) option"

record Mesh =
  mesh_axes :: "MeshAxis list"
  mesh_deviceIds :: "int list option"

section \<open>Splitting the axes\<close>

definition checkCommAxis :: "MeshAxis list \<Rightarrow> AxisRef \<Rightarrow> unit result" where
  "checkCommAxis axesInMesh ref =
     (case find (\<lambda>m. ax_name m = ref_name ref) axesInMesh of
        None \<Rightarrow> Inl (Failure ''axis not found in mesh definition'')
      | Some meshAxis \<Rightarrow>
          (case ref_subAxis ref of
             None \<Rightarrow> Inr ()
           | Some (preSize, s) \<Rightarrow>
               if preSize < 1 \<or> s < 1 then Inl (Failure ''sub-axis pre_size and size must be at least 1'')
               else if ax_size meshAxis < preSize * s \<or> trunc_mod (ax_size meshAxis) (preSize * s) \<noteq> 0
               then Inl (Failure ''sub-axis (pre_size * size) must divide mesh axis size'')
               else Inr ()))"

text \<open>The boundaries inside an axis, and the segments between neighbouring ones: their pre-size and size.\<close>

definition preSizes :: "MeshAxis \<Rightarrow> AxisRef list \<Rightarrow> int list" where
  "preSizes meshAxis commAxes =
     remdups_adj (sort (1 # ax_size meshAxis #
       concat (map (\<lambda>ref. if ref_name ref = ax_name meshAxis
                          then (case ref_subAxis ref of Some (p, s) \<Rightarrow> [p, p * s] | None \<Rightarrow> []) else []) commAxes)))"

fun segments :: "int list \<Rightarrow> (int \<times> int) list result" where
  "segments (p # q # rest) =
     rbind (checked_div q p) (\<lambda>s. rbind (segments (q # rest)) (\<lambda>ss. Inr ((p, s) # ss)))"
| "segments _ = Inr []"

definition splitAxis :: "AxisRef list \<Rightarrow> MeshAxis \<Rightarrow> (string \<times> int \<times> int) list result" where
  "splitAxis commAxes meshAxis =
     (if ax_size meshAxis = 1 then Inr [(ax_name meshAxis, 1, 1)]
      else rbind (segments (preSizes meshAxis commAxes)) (\<lambda>ss. Inr (map (\<lambda>(p, s). (ax_name meshAxis, p, s)) ss)))"

text \<open>The position of the split dimension a communication axis stands for.\<close>

definition requested :: "MeshAxis list \<Rightarrow> AxisRef \<Rightarrow> string \<times> int \<times> int" where
  "requested axesInMesh ref =
     (case ref_subAxis ref of
        Some (p, s) \<Rightarrow> (ref_name ref, p, s)
      | None \<Rightarrow> (ref_name ref, 1, case find (\<lambda>m. ax_name m = ref_name ref) axesInMesh of Some m \<Rightarrow> ax_size m | None \<Rightarrow> 0))"

fun matchCommAxes ::
  "MeshAxis list \<Rightarrow> (string \<times> int \<times> int) list \<Rightarrow> AxisRef list \<Rightarrow> int list \<Rightarrow> int list result" where
  "matchCommAxes axesInMesh splitDims [] grouped = Inr grouped"
| "matchCommAxes axesInMesh splitDims (ref # rest) grouped =
     (case find_index (requested axesInMesh ref) splitDims of
        None \<Rightarrow> Inl (Failure ''Invalid or overlapping communication axis'')
      | Some k \<Rightarrow>
          if int k \<in> set grouped then Inl (Failure ''Duplicate or overlapping communication axis'')
          else matchCommAxes axesInMesh splitDims rest (grouped @ [int k]))"

text \<open>An attribute that is no axis reference is \<open>None\<close>.\<close>

definition computeReindexedAxes ::
  "MeshAxis list \<Rightarrow> AxisRef option list \<Rightarrow> (int list \<times> int list) result" where
  "computeReindexedAxes axesInMesh attrs =
     rbind (mapM (\<lambda>attr. case attr of None \<Rightarrow> Inl (Failure ''expected AxisRefAttr in comm_axes'')
                         | Some ref \<Rightarrow> rbind (checkCommAxis axesInMesh ref) (\<lambda>_. Inr ref)) attrs) (\<lambda>commAxes.
     rbind (mapM (splitAxis commAxes) axesInMesh) (\<lambda>splits.
     let splitDims = concat splits in
     rbind (matchCommAxes axesInMesh splitDims commAxes []) (\<lambda>groupedAxisIndices.
       Inr (map (\<lambda>(_, _, s). s) splitDims, groupedAxisIndices))))"

section \<open>Flattening\<close>

definition transposeAxes :: "int list \<Rightarrow> int list \<Rightarrow> int list" where
  "transposeAxes axisSizes groupedAxisIndices =
     filter (\<lambda>i. i \<notin> set groupedAxisIndices) (upto_int (int (length axisSizes))) @ groupedAxisIndices"

text \<open>The strides of a shape: the loop from the last axis to the first one.\<close>

fun strides_of :: "int list \<Rightarrow> int list" where
  "strides_of [] = []"
| "strides_of [d] = [1]"
| "strides_of (d # e # ds) = (case strides_of (e # ds) of s # ss \<Rightarrow> s * e # s # ss | [] \<Rightarrow> [])"

definition originalIndex :: "int list \<Rightarrow> int list \<Rightarrow> int list \<Rightarrow> int \<Rightarrow> int result" where
  "originalIndex axisSizes transposedSizes axes linearTransposeIdx =
     foldM (\<lambda>k originalIndex.
       rbind (vec_nth (strides_of transposedSizes) k) (\<lambda>stride.
       rbind (vec_nth transposedSizes k) (\<lambda>d.
       rbind (checked_div linearTransposeIdx stride) (\<lambda>q.
       rbind (checked_mod q d) (\<lambda>coord.
       rbind (vec_nth axes k) (\<lambda>axis.
       rbind (vec_nth (strides_of axisSizes) axis) (\<lambda>s. Inr (originalIndex + coord * s))))))))
       (upto_int (int (length axisSizes))) 0"

definition flattenedReplicaGroupsFromTransposePermutation ::
  "int list \<Rightarrow> int list \<Rightarrow> int list \<Rightarrow> int \<Rightarrow> int list list result" where
  "flattenedReplicaGroupsFromTransposePermutation axisSizes groupedAxisIndices deviceIds totalDevices =
     (let axes = transposeAxes axisSizes groupedAxisIndices in
      rbind (mapM (\<lambda>i. rbind (vec_nth axes i) (vec_nth axisSizes)) (upto_int (int (length axisSizes)))) (\<lambda>transposedSizes.
      rbind (mapM (vec_nth axisSizes) groupedAxisIndices) (\<lambda>groupedSizes.
      let numDevicesPerGroup = prod_list groupedSizes in
      rbind (checked_div totalDevices numDevicesPerGroup) (\<lambda>numGroups.
        mapM (\<lambda>i.
          mapM (\<lambda>j. rbind (originalIndex axisSizes transposedSizes axes (i * numDevicesPerGroup + j)) (vec_nth deviceIds))
            (upto_int numDevicesPerGroup))
          (upto_int numGroups)))))"

definition flattenReplicaGroupMeshAxes :: "Mesh \<Rightarrow> AxisRef option list \<Rightarrow> int list list result" where
  "flattenReplicaGroupMeshAxes mesh commAxes =
     rbind (computeReindexedAxes (mesh_axes mesh) commAxes) (\<lambda>(splitAxisSizes, groupedAxisIndices).
     let totalDevices = prod_list (map ax_size (mesh_axes mesh));
         deviceIds = (case mesh_deviceIds mesh of
             Some ids \<Rightarrow> if ids = [] then upto_int totalDevices else ids
           | None \<Rightarrow> upto_int totalDevices)
     in flattenedReplicaGroupsFromTransposePermutation splitAxisSizes groupedAxisIndices deviceIds totalDevices)"

end
