(* ===== verification/Replica_Groups_Correct.thy ===== *)
theory Replica_Groups_Correct
  imports Replica_Groups Rearrange_Correct Reshape_Correct "HOL-Library.Multiset"
begin

text \<open>
  Replica groups given by mesh axes: flattening them is the reshape of the devices by the split axes, a transposition and a
  reshape into groups, so the groups partition the devices.
\<close>

section \<open>Coordinates\<close>

lemma trunc_nonneg [simp]: "0 \<le> a \<Longrightarrow> 0 < b \<Longrightarrow> trunc_div a b = a div b" "0 \<le> a \<Longrightarrow> 0 < b \<Longrightarrow> trunc_mod a b = a mod b"
  by (cases "a = 0"; simp add: trunc_div_def trunc_mod_def)+

lemma strides_of_length [simp]: "length (strides_of sizes) = length sizes"
  by (induction sizes rule: strides_of.induct) (auto split: list.splits)

lemma strides_of_nth: "k < length sizes \<Longrightarrow> strides_of sizes ! k = prod_list (drop (Suc k) sizes)"
proof (induction sizes arbitrary: k rule: strides_of.induct)
  case (3 d e ds)
  obtain s ss where s: "strides_of (e # ds) = s # ss" by (metis length_Suc_conv strides_of_length list.size(4))
  then have "s = prod_list ds" using 3(1) [of 0] by simp
  then show ?case using 3(1) [of "k - 1"] 3(2) s by (cases k) auto
qed auto

lemma flat_coordinate:
  assumes "inBounds i sizes" "k < length sizes"
  shows "flat sizes i div prod_list (drop (Suc k) sizes) mod (sizes ! k) = i ! k"
  using assms
proof (induction sizes i arbitrary: k rule: flat.induct)
  case (1 n ns x xs)
  have f: "0 \<le> flat ns xs" "flat ns xs < prod_list ns" "0 \<le> x" "x < n" using 1(2) flat_bounds [of xs ns] by auto
  show ?case
  proof (cases k)
    case 0 with f show ?thesis by simp
  next
    case (Suc m)
    then have m: "m < length ns" using 1(3) by simp
    let ?S = "prod_list (drop (Suc m) ns)"
    have split: "prod_list ns = prod_list (take m ns) * (ns ! m) * ?S"
      using m by (metis id_take_nth_drop mult.assoc prod_list.Cons prod_list.append)
    then have "?S \<noteq> 0" using f by auto
    then have "(x * prod_list ns + flat ns xs) div ?S = x * prod_list (take m ns) * (ns ! m) + flat ns xs div ?S"
      unfolding split by (metis (no_types, lifting) ab_semigroup_mult_class.mult_ac(1) add.commute div_mult_self1)
    then have "(x * prod_list ns + flat ns xs) div ?S mod (ns ! m) = flat ns xs div ?S mod (ns ! m)" by simp
    with Suc 1 m show ?thesis by auto
  qed
qed auto

section \<open>The transposition\<close>

lemma foldM_sum:
  "(\<And>k acc. k < n \<Longrightarrow> f (int k) acc = Inr (acc + g k)) \<Longrightarrow> foldM f (upto_int (int n)) a = Inr (a + (\<Sum>k<n. g k :: int))"
proof (induction n)
  case (Suc n)
  have "upto_int (int (Suc n)) = upto_int (int n) @ [int n]" by (simp add: upto_int_def upto_rec2)
  with Suc show ?case by (simp add: foldM_append)
qed simp

lemma unpermute_sum:
  assumes "distinct axes" "set axes = {0..<int (length axes)}" "length j = length axes"
  shows "(\<Sum>k<length axes. j ! k * g (nat (axes ! k))) = (\<Sum>m<length axes. g m * unpermute axes j ! m :: int)"
proof -
  have ax: "nat (axes ! k) < length axes" "0 \<le> axes ! k" if "k < length axes" for k using assms(2) nth_mem [OF that] by auto
  have bij: "bij_betw (\<lambda>k. nat (axes ! k)) {..<length axes} {..<length axes}"
  proof (rule bij_betw_imageI)
    show "inj_on (\<lambda>k. nat (axes ! k)) {..<length axes}"
      using ax assms(1) by (auto simp: inj_on_def) (metis int_nat_eq nth_eq_iff_index_eq)
    then show "(\<lambda>k. nat (axes ! k)) ` {..<length axes} = {..<length axes}"
      using ax by (intro card_subset_eq) (auto simp: card_image)
  qed
  have "unpermute axes j ! nat (axes ! k) = j ! k" if "k < length axes" for k
    using permuted_unpermute [OF assms] that by (metis length_map nth_map permuted_def)
  then have "(\<Sum>k<length axes. j ! k * g (nat (axes ! k))) = (\<Sum>k<length axes. g (nat (axes ! k)) * unpermute axes j ! nat (axes ! k))"
    by (intro sum.cong) (auto simp: mult.commute)
  also have "\<dots> = (\<Sum>m<length axes. g m * unpermute axes j ! m)" by (rule sum.reindex_bij_betw [OF bij])
  finally show ?thesis .
qed

lemma permuted_pos:
  assumes "set axes = {0..<int (length axes)}" "length sizes = length axes" "list_all (\<lambda>d. 0 < d) sizes"
  shows "list_all (\<lambda>d. 0 < d) (permuted axes sizes)"
proof -
  have "0 < sizes ! nat p" if "p \<in> set axes" for p
    using that assms by (auto simp: list_all_length)
  then show ?thesis by (simp add: permuted_def list_all_iff)
qed

lemma originalIndex_flat:
  assumes perm: "distinct axes" "set axes = {0..<int (length axes)}" "length sizes = length axes"
    and j: "inBounds j (permuted axes sizes)" and pos: "list_all (\<lambda>d. 0 < d) sizes"
  shows "originalIndex sizes (permuted axes sizes) axes (flat (permuted axes sizes) j) = Inr (flat sizes (unpermute axes j))"
proof -
  let ?n = "length axes" and ?t = "permuted axes sizes" and ?S = "\<lambda>k. prod_list (drop (Suc k) sizes)"
  have lt: "length ?t = ?n" "length j = ?n" using inBounds_length [OF j] by (simp_all add: permuted_def)
  have ax: "nat (axes ! k) < ?n" "0 \<le> axes ! k" if "k < ?n" for k using perm(2) nth_mem [OF that] by auto
  have tpos: "list_all (\<lambda>d. 0 < d) ?t" by (rule permuted_pos [OF perm(2,3) pos])
  then have spos: "0 < prod_list (drop (Suc k) ?t)" for k by (intro prod_list_pos) (meson in_set_dropD list_all_iff)
  have "originalIndex sizes ?t axes (flat ?t j) = Inr (0 + (\<Sum>k<?n. j ! k * ?S (nat (axes ! k))))"
    unfolding originalIndex_def perm(3)
  proof (rule foldM_sum)
    fix k acc assume k: "k < ?n"
    have "flat ?t j div prod_list (drop (Suc k) ?t) mod (?t ! k) = j ! k" using flat_coordinate [OF j] k lt by simp
    moreover have "0 \<le> flat ?t j div prod_list (drop (Suc k) ?t)" using flat_bounds [OF j] spos [of k] by (simp add: pos_imp_zdiv_nonneg_iff)
    moreover have "0 < ?t ! k" using tpos k lt by (simp add: list_all_length)
    ultimately show "rbind (vec_nth (strides_of ?t) (int k)) (\<lambda>stride. rbind (vec_nth ?t (int k)) (\<lambda>d.
       rbind (checked_div (flat ?t j) stride) (\<lambda>q. rbind (checked_mod q d) (\<lambda>coord.
       rbind (vec_nth axes (int k)) (\<lambda>axis. rbind (vec_nth (strides_of sizes) axis) (\<lambda>s. Inr (acc + coord * s))))))) =
       Inr (acc + j ! k * ?S (nat (axes ! k)))"
      using k lt ax [OF k] perm(3) spos [of k] flat_bounds [OF j]
      by (simp add: checked_div_def checked_mod_def strides_of_nth vec_nth_def less_imp_neq [THEN not_sym])
  qed
  also have "(\<Sum>k<?n. j ! k * ?S (nat (axes ! k))) = flat sizes (unpermute axes j)"
    using unpermute_sum [OF perm(1,2) lt(2), of ?S] flat_sum [of "unpermute axes j" sizes] perm(3) by (simp add: unpermute_def)
  finally show ?thesis by simp
qed

lemma transposeAxes_perm:
  assumes "distinct grouped" "set grouped \<subseteq> {0..<int (length sizes)}"
  shows "distinct (transposeAxes sizes grouped)" "set (transposeAxes sizes grouped) = {0..<int (length sizes)}"
    "length (transposeAxes sizes grouped) = length sizes"
proof -
  show d: "distinct (transposeAxes sizes grouped)" and s: "set (transposeAxes sizes grouped) = {0..<int (length sizes)}"
    using assms by (auto simp: transposeAxes_def)
  show "length (transposeAxes sizes grouped) = length sizes" using distinct_card [OF d] s by simp
qed

lemma mset_upto_permutation: "distinct xs \<Longrightarrow> set xs = {0..<n} \<Longrightarrow> mset xs = mset (upto_int n)"
  by (simp add: set_eq_iff_mset_eq_distinct [symmetric])

lemma map_nth_upto_int: "length xs = nat n \<Longrightarrow> map (\<lambda>i. xs ! nat i) (upto_int n) = xs"
  by (rule length_eq_nth_imp) auto

lemma prod_permuted:
  assumes "distinct axes" "set axes = {0..<int (length sizes)}"
  shows "prod_list (permuted axes sizes) = prod_list sizes"
proof -
  have "mset (permuted axes sizes) = image_mset (\<lambda>p. sizes ! nat p) (mset axes)" by (simp add: permuted_def)
  also have "\<dots> = mset (map (\<lambda>p. sizes ! nat p) (upto_int (int (length sizes))))" using mset_upto_permutation [OF assms] by simp
  also have "\<dots> = mset sizes" by (simp add: map_nth_upto_int)
  finally show ?thesis by (metis prod_mset_prod_list)
qed

lemma unpermuted_positions:
  assumes perm: "distinct axes" "set axes = {0..<int (length axes)}" "length sizes = length axes"
    and pos: "list_all (\<lambda>d. 0 < d) sizes"
  shows "mset (map (\<lambda>j. flat sizes (unpermute axes j)) (index_space (permuted axes sizes))) = mset (upto_int (prod_list sizes))"
proof (rule mset_upto_permutation)
  let ?js = "index_space (permuted axes sizes)"
  have sh: "list_all (\<lambda>d. 0 \<le> d) (permuted axes sizes)"
    using permuted_pos [OF perm(2,3) pos] by (simp add: list_all_iff less_imp_le)
  have j: "inBounds j (permuted axes sizes)" if "j \<in> set ?js" for j using that by (simp add: index_space_set)
  have inj: "inj_on (\<lambda>j. flat sizes (unpermute axes j)) (set ?js)"
  proof (rule inj_onI)
    fix x y assume xy: "x \<in> set ?js" "y \<in> set ?js" "flat sizes (unpermute axes x) = flat sizes (unpermute axes y)"
    then have "unpermute axes x = unpermute axes y"
      by (intro flat_inj [OF unpermute_inBounds [OF perm j [OF xy(1)]] unpermute_inBounds [OF perm j [OF xy(2)]]])
    moreover have "length x = length axes" "length y = length axes" using j [OF xy(1)] j [OF xy(2)] inBounds_length by (fastforce simp: permuted_def)+
    ultimately show "x = y" by (metis permuted_unpermute [OF perm(1,2)])
  qed
  then show "distinct (map (\<lambda>j. flat sizes (unpermute axes j)) ?js)" by (simp add: distinct_map index_space_distinct)
  have "set (map (\<lambda>j. flat sizes (unpermute axes j)) ?js) \<subseteq> {0..<prod_list sizes}"
    using flat_bounds [OF unpermute_inBounds [OF perm j]] by auto
  moreover have "card (set (map (\<lambda>j. flat sizes (unpermute axes j)) ?js)) = card {0..<prod_list sizes}"
    using inj length_index_space [OF sh] prod_permuted [of axes sizes] perm
    by (simp add: card_image distinct_card index_space_distinct)
  ultimately show "set (map (\<lambda>j. flat sizes (unpermute axes j)) ?js) = {0..<prod_list sizes}" by (intro card_subset_eq) auto
qed

section \<open>The groups\<close>

lemma concat_blocks:
  assumes "0 \<le> p"
  shows "concat (map (\<lambda>i. map (\<lambda>j. g (i * p + j)) (upto_int p)) (upto_int (int q))) = map g (upto_int (int q * p))"
proof (induction q)
  case (Suc q)
  have "upto_int (int (Suc q)) = upto_int (int q) @ [int q]" by (simp add: upto_int_def upto_rec2)
  moreover have "upto_int (int (Suc q) * p) = upto_int (int q * p) @ map (\<lambda>j. int q * p + j) (upto_int p)"
    by (rule length_eq_nth_imp) (use assms in \<open>auto simp: nth_append nat_add_distrib distrib_right\<close>)
  ultimately show ?case using Suc by (simp add: comp_def)
qed simp

lemma mapM_blocks:
  assumes "\<And>n. 0 \<le> n \<Longrightarrow> n < int q * p \<Longrightarrow> f n = Inr (g n)"
  shows "mapM (\<lambda>i. mapM (\<lambda>j. f (i * p + j)) (upto_int p)) (upto_int (int q)) =
    Inr (map (\<lambda>i. map (\<lambda>j. g (i * p + j)) (upto_int p)) (upto_int (int q)))"
proof (intro mapM_Inr)
  fix i j assume i: "i \<in> set (upto_int (int q))" and j: "j \<in> set (upto_int p)"
  have "i * p + j < (i + 1) * p" using j by (simp add: distrib_right)
  also have "\<dots> \<le> int q * p" using i j by (intro mult_right_mono) auto
  finally show "f (i * p + j) = Inr (g (i * p + j))" using i j by (intro assms) auto
qed

lemma originalIndex_position:
  assumes perm: "distinct axes" "set axes = {0..<int (length axes)}" "length sizes = length axes"
    and pos: "list_all (\<lambda>d. 0 < d) sizes" and n: "0 \<le> n" "n < prod_list sizes"
  shows "originalIndex sizes (permuted axes sizes) axes n = Inr (flat sizes (unpermute axes (index_space (permuted axes sizes) ! nat n)))"
    "0 \<le> flat sizes (unpermute axes (index_space (permuted axes sizes) ! nat n))"
    "flat sizes (unpermute axes (index_space (permuted axes sizes) ! nat n)) < prod_list sizes"
proof -
  let ?t = "permuted axes sizes" and ?j = "index_space (permuted axes sizes) ! nat n"
  have sh: "list_all (\<lambda>d. 0 \<le> d) ?t"
    using permuted_pos [OF perm(2,3) pos] by (simp add: list_all_iff less_imp_le)
  have T: "prod_list ?t = prod_list sizes" using prod_permuted [of axes sizes] perm by simp
  have k: "nat n < length (index_space ?t)" using length_index_space [OF sh] T n by simp
  then have j: "inBounds ?j ?t" using nth_mem [OF k] by (simp add: index_space_set)
  have "flat ?t ?j = upto_int (prod_list ?t) ! nat n" using flat_index_space [OF sh] k by (metis nth_map)
  then have "flat ?t ?j = n" using n T by simp
  then show "originalIndex sizes ?t axes n = Inr (flat sizes (unpermute axes ?j))" using originalIndex_flat [OF perm j pos] by simp
  show "0 \<le> flat sizes (unpermute axes ?j)" "flat sizes (unpermute axes ?j) < prod_list sizes"
    using flat_bounds [OF unpermute_inBounds [OF perm j]] by simp_all
qed

lemma flattened_groups_partition:
  assumes grouped: "distinct grouped" "set grouped \<subseteq> {0..<int (length sizes)}"
    and pos: "list_all (\<lambda>d. 0 < d) sizes" and ids: "length ids = nat (prod_list sizes)"
  shows "\<exists>groups. flattenedReplicaGroupsFromTransposePermutation sizes grouped ids (prod_list sizes) = Inr groups \<and>
    mset (concat groups) = mset ids \<and> (\<forall>g \<in> set groups. int (length g) = prod_list (map (\<lambda>i. sizes ! nat i) grouped))"
proof -
  define axes where "axes = transposeAxes sizes grouped"
  note perm = transposeAxes_perm [OF grouped, folded axes_def]
  let ?t = "permuted axes sizes" and ?p = "prod_list (map (\<lambda>i. sizes ! nat i) grouped)" and ?T = "prod_list sizes"
  have perm': "set axes = {0..<int (length axes)}" "length sizes = length axes" using perm by simp_all
  have ax: "0 \<le> i \<and> i < int (length sizes) \<and> nat i < length sizes" if "i \<in> set axes \<or> i \<in> set grouped" for i
    using that perm(2) subsetD [OF grouped(2), of i] by auto
  have gpos: "0 < ?p" by (rule prod_list_pos) (use ax pos in \<open>auto simp: list_all_iff\<close>)
  have "?T = prod_list (map (\<lambda>i. sizes ! nat i) (filter (\<lambda>i. i \<notin> set grouped) (upto_int (int (length sizes))))) * ?p"
    using prod_permuted [OF perm(1,2)] by (simp add: permuted_def axes_def transposeAxes_def)
  then obtain q where q: "?T = int q * ?p"
    using prod_list_pos [OF pos] gpos by (metis int_nat_eq less_le_not_le nat_less_le zero_less_mult_pos2 order_less_le pos_int_cases)
  have t: "mapM (\<lambda>i. rbind (vec_nth axes i) (vec_nth sizes)) (upto_int (int (length sizes))) = Inr ?t"
    using ax [OF disjI1, OF nth_mem] perm(3) by (auto simp: mapM_eq_Inr permuted_def vec_nth_def)
  have g: "mapM (vec_nth sizes) grouped = Inr (map (\<lambda>i. sizes ! nat i) grouped)"
    by (rule mapM_Inr) (use ax in \<open>simp add: vec_nth_def\<close>)
  define \<sigma> where "\<sigma> = (\<lambda>n. flat sizes (unpermute axes (index_space ?t ! nat n)))"
  note orig = originalIndex_position [OF perm(1) perm' pos]
  let ?groups = "map (\<lambda>i. map (\<lambda>j. ids ! nat (\<sigma> (i * ?p + j))) (upto_int ?p)) (upto_int (int q))"
  have "rbind (originalIndex sizes ?t axes n) (vec_nth ids) = Inr (ids ! nat (\<sigma> n))" if "0 \<le> n" "n < int q * ?p" for n
    using orig [of n] that q ids by (simp add: vec_nth_def nat_less_iff \<sigma>_def)
  from mapM_blocks [OF this] have flat: "flattenedReplicaGroupsFromTransposePermutation sizes grouped ids ?T = Inr ?groups"
    using gpos q by (simp add: flattenedReplicaGroupsFromTransposePermutation_def axes_def [symmetric] t g Let_def checked_div_def)
  have sh: "list_all (\<lambda>d. 0 \<le> d) ?t"
    using permuted_pos [OF perm' pos] by (simp add: list_all_iff less_imp_le)
  have "map \<sigma> (upto_int ?T) = map (\<lambda>j. flat sizes (unpermute axes j)) (index_space ?t)"
    by (rule length_eq_nth_imp) (use length_index_space [OF sh] prod_permuted [OF perm(1,2)] in \<open>auto simp: \<sigma>_def\<close>)
  then have "mset (map \<sigma> (upto_int ?T)) = mset (upto_int ?T)"
    using unpermuted_positions [OF perm(1) perm' pos] by simp
  then have "image_mset (\<lambda>m. ids ! nat m) (mset (map \<sigma> (upto_int ?T))) = image_mset (\<lambda>m. ids ! nat m) (mset (upto_int ?T))"
    by (simp only:)
  then have "mset (map (\<lambda>n. ids ! nat (\<sigma> n)) (upto_int ?T)) = mset (map (\<lambda>m. ids ! nat m) (upto_int ?T))"
    by (simp only: mset_map multiset.map_comp comp_def)
  then have "mset (map (\<lambda>n. ids ! nat (\<sigma> n)) (upto_int ?T)) = mset ids" unfolding map_nth_upto_int [OF ids] .
  moreover have "concat ?groups = map (\<lambda>n. ids ! nat (\<sigma> n)) (upto_int ?T)"
    using concat_blocks [of ?p "\<lambda>n. ids ! nat (\<sigma> n)" q] gpos q by simp
  ultimately have "mset (concat ?groups) = mset ids" by (simp only:)
  with flat gpos show ?thesis by auto
qed

section \<open>Splitting the axes\<close>

lemma matchCommAxes_grouped:
  assumes "matchCommAxes axes dims refs acc = Inr grouped" "distinct acc" "set acc \<subseteq> {0..<int (length dims)}"
  shows "distinct grouped \<and> set grouped \<subseteq> {0..<int (length dims)}"
  using assms
proof (induction axes dims refs acc rule: matchCommAxes.induct)
  case (2 axes dims ref rest acc)
  then obtain k where k: "find_index (requested axes ref) dims = Some k" "int k \<notin> set acc"
    "matchCommAxes axes dims rest (acc @ [int k]) = Inr grouped"
    by (auto split: option.splits if_splits)
  with 2 find_index_less [OF k(1)] show ?case by auto
qed simp

text \<open>The boundaries of an axis divide one another.\<close>

fun divides_chain :: "int list \<Rightarrow> bool" where
  "divides_chain (p # q # rest) = (p dvd q \<and> divides_chain (q # rest))"
| "divides_chain _ = True"

lemma segments_product:
  assumes "divides_chain ps" "list_all (\<lambda>p. 0 < p) ps" "ps \<noteq> []"
  shows "\<exists>ss. segments ps = Inr ss \<and> list_all (\<lambda>s. 0 < s) (map snd ss) \<and> hd ps * prod_list (map snd ss) = last ps"
  using assms
proof (induction ps rule: segments.induct)
  case (1 p q rest)
  have pq: "0 < p" "0 < q" "p dvd q" using 1 by auto
  then have d: "checked_div q p = Inr (q div p)" "0 < q div p" "p * (q div p) = q"
    by (simp_all add: checked_div_def pos_imp_zdiv_pos_iff zdvd_imp_le)
  from 1 obtain ss where ss: "segments (q # rest) = Inr ss" "list_all (\<lambda>s. 0 < s) (map snd ss)" "q * prod_list (map snd ss) = last (q # rest)"
    using 1(1) [OF d(1)] by auto
  then have "p * ((q div p) * prod_list (map snd ss)) = last (q # rest)" by (simp only: d(3) flip: mult.assoc)
  with ss d show ?case by simp
qed auto

text \<open>What the check of the communication axes ensures of the boundaries.\<close>

lemma preSizes_ends:
  assumes "1 \<le> ax_size a" "\<And>ref p s. ref \<in> set refs \<Longrightarrow> ref_name ref = ax_name a \<Longrightarrow> ref_subAxis ref = Some (p, s) \<Longrightarrow>
      1 \<le> p \<and> 1 \<le> s \<and> p * s \<le> ax_size a"
  shows "preSizes a refs \<noteq> [] \<and> hd (preSizes a refs) = 1 \<and> last (preSizes a refs) = ax_size a \<and> list_all (\<lambda>p. 0 < p) (preSizes a refs)"
proof -
  define bs where "bs = 1 # ax_size a # concat (map (\<lambda>ref. if ref_name ref = ax_name a
      then (case ref_subAxis ref of Some (p, s) \<Rightarrow> [p, p * s] | None \<Rightarrow> []) else []) refs)"
  have b: "1 \<le> x \<and> x \<le> ax_size a" if x: "x \<in> set bs" for x
  proof -
    have e: "1 \<le> p \<and> p \<le> ax_size a \<and> 1 \<le> p * s \<and> p * s \<le> ax_size a"
      if "ref \<in> set refs" "ref_name ref = ax_name a" "ref_subAxis ref = Some (p, s)" for ref p s
    proof -
      have h: "1 \<le> p" "1 \<le> s" "p * s \<le> ax_size a" using assms(2) [OF that] by auto
      then have "p * 1 \<le> p * s" by (intro mult_left_mono) auto
      with h show ?thesis by linarith
    qed
    consider "x = 1" | "x = ax_size a"
      | ref p s where "ref \<in> set refs" "ref_name ref = ax_name a" "ref_subAxis ref = Some (p, s)" "x = p \<or> x = p * s"
      using x by (auto simp: bs_def split: if_splits option.splits) (metis+)
    then show ?thesis
    proof cases
      case 3 with e show ?thesis by auto
    qed (use assms(1) in auto)
  qed
  have ps: "preSizes a refs = remdups_adj (sort bs)" by (simp add: preSizes_def bs_def)
  then have ps': "set (preSizes a refs) = set bs" by simp
  have srt: "sorted (preSizes a refs)" by (simp add: ps sorted_remdups_adj)
  have in1: "1 \<in> set (preSizes a refs)" "ax_size a \<in> set (preSizes a refs)" unfolding ps' by (simp_all add: bs_def)
  then have ne: "preSizes a refs \<noteq> []" by auto
  have "hd (preSizes a refs) \<le> 1" using srt in1(1) by (cases "preSizes a refs") auto
  moreover have "ax_size a \<le> last (preSizes a refs)"
    using srt in1(2) by (cases "preSizes a refs" rule: rev_cases) (auto simp: sorted_append)
  moreover have "1 \<le> hd (preSizes a refs)" "last (preSizes a refs) \<le> ax_size a"
    using b [of "hd (preSizes a refs)"] b [of "last (preSizes a refs)"] ne by (simp_all flip: ps')
  moreover have "list_all (\<lambda>p. 0 < p) (preSizes a refs)" unfolding list_all_iff ps' using b by fastforce
  ultimately show ?thesis using ne by simp
qed

text \<open>An accepted list of communication axes over a mesh with distinct axis names.\<close>

lemma checkCommAxis_sub:
  assumes "checkCommAxis axes ref = Inr ()" "distinct (map ax_name axes)" "a \<in> set axes" "ref_name ref = ax_name a"
    "ref_subAxis ref = Some (p, s)"
  shows "1 \<le> p \<and> 1 \<le> s \<and> p * s \<le> ax_size a"
proof -
  have "find (\<lambda>m. ax_name m = ref_name ref) axes = Some a"
    using assms(2-4) by (induction axes) auto
  with assms show ?thesis by (auto simp: checkCommAxis_def split: if_splits)
qed

lemma splitAxis_product:
  assumes "\<And>ref. ref \<in> set refs \<Longrightarrow> checkCommAxis axes ref = Inr ()" "distinct (map ax_name axes)"
    "a \<in> set axes" "1 \<le> ax_size a" "divides_chain (preSizes a refs)"
  shows "\<exists>ds. splitAxis refs a = Inr ds \<and> list_all (\<lambda>d. 0 < d) (map (\<lambda>(_, _, s). s) ds) \<and>
    prod_list (map (\<lambda>(_, _, s). s) ds) = ax_size a"
proof (cases "ax_size a = 1")
  case False
  have ends: "preSizes a refs \<noteq> [] \<and> hd (preSizes a refs) = 1 \<and> last (preSizes a refs) = ax_size a \<and>
      list_all (\<lambda>p. 0 < p) (preSizes a refs)"
    using assms(4) checkCommAxis_sub [OF assms(1) assms(2,3)] by (rule preSizes_ends)
  obtain ss where "segments (preSizes a refs) = Inr ss" "list_all (\<lambda>s. 0 < s) (map snd ss)" "prod_list (map snd ss) = ax_size a"
    using segments_product [OF assms(5)] ends by auto
  then show ?thesis using False by (simp add: splitAxis_def comp_def case_prod_beta)
qed (simp add: splitAxis_def)

lemma splitAxes_product:
  assumes "\<And>a. a \<in> set axes \<Longrightarrow> \<exists>ds. f a = Inr ds \<and> list_all (\<lambda>d. 0 < d) (map g ds) \<and> prod_list (map g ds) = (h a :: int)"
  shows "\<exists>splits. mapM f axes = Inr splits \<and> list_all (\<lambda>d. 0 < d) (map g (concat splits)) \<and>
    prod_list (map g (concat splits)) = prod_list (map h axes)"
  using assms
proof (induction axes)
  case (Cons a axes)
  obtain ds where ds: "f a = Inr ds" "list_all (\<lambda>d. 0 < d) (map g ds)" "prod_list (map g ds) = h a" using Cons.prems [of a] by auto
  obtain ss where ss: "mapM f axes = Inr ss" "list_all (\<lambda>d. 0 < d) (map g (concat ss))"
    "prod_list (map g (concat ss)) = prod_list (map h axes)"
    using Cons by auto
  then show ?case using ds by (intro exI [of _ "ds # ss"]) simp
qed simp

lemma computeReindexedAxes_shape:
  assumes acc: "computeReindexedAxes axes (map Some refs) = Inr (sizes, grouped)"
    and axes: "distinct (map ax_name axes)" "\<And>a. a \<in> set axes \<Longrightarrow> 1 \<le> ax_size a \<and> divides_chain (preSizes a refs)"
  shows "distinct grouped" "set grouped \<subseteq> {0..<int (length sizes)}" "list_all (\<lambda>d. 0 < d) sizes"
    "prod_list sizes = prod_list (map ax_size axes)"
proof -
  have *: "mapM (\<lambda>attr. case attr of None \<Rightarrow> Inl e | Some ref \<Rightarrow> rbind (checkCommAxis axes ref) (\<lambda>_. Inr ref)) (map Some rs) = Inr cs \<Longrightarrow>
      cs = rs \<and> (\<forall>ref \<in> set rs. checkCommAxis axes ref = Inr ())" for e rs cs
    by (induction rs arbitrary: cs) (auto simp: rbind_eq_Inr)
  obtain splits where r: "\<And>ref. ref \<in> set refs \<Longrightarrow> checkCommAxis axes ref = Inr ()" "mapM (splitAxis refs) axes = Inr splits"
    "matchCommAxes axes (concat splits) refs [] = Inr grouped" "sizes = map (\<lambda>(_, _, s). s) (concat splits)"
    using acc by (auto simp: computeReindexedAxes_def Let_def rbind_eq_Inr dest!: *)
  show "distinct grouped" "set grouped \<subseteq> {0..<int (length sizes)}" using matchCommAxes_grouped [OF r(3)] r(4) by auto
  have "\<exists>ds. splitAxis refs a = Inr ds \<and> list_all (\<lambda>d. 0 < d) (map (\<lambda>(_, _, s). s) ds) \<and>
    prod_list (map (\<lambda>(_, _, s). s) ds) = ax_size a" if "a \<in> set axes" for a
    using splitAxis_product [OF r(1) axes(1) that] axes(2) [OF that] by simp
  from splitAxes_product [of axes "splitAxis refs" "\<lambda>(_, _, s). s" ax_size, OF this] show "list_all (\<lambda>d. 0 < d) sizes" "prod_list sizes = prod_list (map ax_size axes)"
    using r(2,4) by auto
qed

text \<open>The devices of a mesh: its list of identifiers, or the first ones.\<close>

definition mesh_devices :: "Mesh \<Rightarrow> int list" where
  "mesh_devices mesh = (case mesh_deviceIds mesh of
       Some (d # ds) \<Rightarrow> d # ds
     | _ \<Rightarrow> upto_int (prod_list (map ax_size (mesh_axes mesh))))"

text \<open>
  C16: When the axes of a mesh have positive sizes and distinct names, the boundaries of the sub-axes divide one another, there
  is a device for every position of the mesh and the communication axes are accepted, the groups are computed, each device of
  the mesh is in exactly one of them as often as the mesh lists it, and all groups have the size of the grouped axes.
\<close>

theorem replica_groups_partition:
  assumes "distinct (map ax_name (mesh_axes mesh))"
    and "\<And>a. a \<in> set (mesh_axes mesh) \<Longrightarrow> 1 \<le> ax_size a \<and> divides_chain (preSizes a refs)"
    and "length (mesh_devices mesh) = nat (prod_list (map ax_size (mesh_axes mesh)))"
    and "computeReindexedAxes (mesh_axes mesh) (map Some refs) = Inr (sizes, grouped)"
  shows "\<exists>groups. flattenReplicaGroupMeshAxes mesh (map Some refs) = Inr groups \<and>
    mset (concat groups) = mset (mesh_devices mesh) \<and>
    (\<forall>g \<in> set groups. int (length g) = prod_list (map (\<lambda>i. sizes ! nat i) grouped))"
proof -
  note shape = computeReindexedAxes_shape [OF assms(4,1,2)]
  have "flattenReplicaGroupMeshAxes mesh (map Some refs) =
      flattenedReplicaGroupsFromTransposePermutation sizes grouped (mesh_devices mesh) (prod_list sizes)"
    using assms(4) shape(4)
    by (auto simp: flattenReplicaGroupMeshAxes_def mesh_devices_def Let_def split: option.splits list.splits)
  then show ?thesis using flattened_groups_partition [OF shape(1-3)] assms(3) shape(4) by simp
qed

definition sample_mesh :: Mesh where
  "sample_mesh = \<lparr>mesh_axes = [\<lparr>ax_name = ''x'', ax_size = 2\<rparr>, \<lparr>ax_name = ''y'', ax_size = 4\<rparr>], mesh_deviceIds = None\<rparr>"

definition sample_refs :: "AxisRef list" where
  "sample_refs = [\<lparr>ref_name = ''y'', ref_subAxis = Some (2, 2)\<rparr>]"

theorem replica_groups_partition_witness:
  "\<exists>groups. flattenReplicaGroupMeshAxes sample_mesh (map Some sample_refs) = Inr groups \<and>
    mset (concat groups) = mset (mesh_devices sample_mesh) \<and>
    computeReindexedAxes (mesh_axes sample_mesh) (map Some sample_refs) = Inr ([2, 2, 2], [2])"
proof -
  have "computeReindexedAxes (mesh_axes sample_mesh) (map Some sample_refs) = Inr ([2, 2, 2], [2])" by code_simp
  moreover have "length (mesh_devices sample_mesh) = nat (prod_list (map ax_size (mesh_axes sample_mesh)))" by code_simp
  moreover have "distinct (map ax_name (mesh_axes sample_mesh))" by code_simp
  moreover have "list_all (\<lambda>a. 1 \<le> ax_size a \<and> divides_chain (preSizes a sample_refs)) (mesh_axes sample_mesh)" by code_simp
  ultimately show ?thesis using replica_groups_partition [of sample_mesh sample_refs "[2, 2, 2]" "[2]"] by (auto simp: list_all_iff)
qed

text \<open>Sub-axes whose boundaries do not divide one another are accepted, and four of the twelve devices are in no group.\<close>

lemma overlapping_sub_axes_accepted:
  "flattenReplicaGroupMeshAxes \<lparr>mesh_axes = [\<lparr>ax_name = ''x'', ax_size = 12\<rparr>], mesh_deviceIds = None\<rparr>
     [Some \<lparr>ref_name = ''x'', ref_subAxis = Some (1, 4)\<rparr>, Some \<lparr>ref_name = ''x'', ref_subAxis = Some (6, 2)\<rparr>] =
   Inr [[0, 1, 2, 3, 4, 5, 6, 7]]"
  by code_simp

end
