(* ===== verification/Value_Types.thy ===== *)
theory Value_Types
  imports Type_Inference
begin

text \<open>
  \<^verbatim>\<open>stablehlo/dialect/Base.cpp\<close> on the types of values, which are ranked tensors, tokens and tuples: compatibility of types, bounds,
  tuples, known dot algorithms and quantized element types. A value that may be a constant is its optional list of integers.
\<close>

datatype ValueType = TensorType RankedTensorType | TokenType | TupleType "ValueType list"

fun isTensorType :: "ValueType \<Rightarrow> bool" where
  "isTensorType (TensorType _) = True"
| "isTensorType _ = False"

fun isTokenType :: "ValueType \<Rightarrow> bool" where
  "isTokenType TokenType = True"
| "isTokenType _ = False"

text \<open>\<^verbatim>\<open>cast<ShapedType>\<close>.\<close>

fun castShaped :: "ValueType \<Rightarrow> RankedTensorType result" where
  "castShaped (TensorType t) = Inr t"
| "castShaped _ = Inl (UB ''cast to a shaped type'')"

definition scalarType :: "Type \<Rightarrow> RankedTensorType" where
  "scalarType t = mkRankedTensorType [] t NoEncoding"

section \<open>Compatibility\<close>

text \<open>MLIR's \<^verbatim>\<open>verifyCompatibleShape\<close> on types.\<close>

fun verifyCompatibleShapeTypes :: "ValueType \<Rightarrow> ValueType \<Rightarrow> bool" where
  "verifyCompatibleShapeTypes (TensorType t1) (TensorType t2) = verifyCompatibleShape (getShape t1) (getShape t2)"
| "verifyCompatibleShapeTypes (TensorType _) _ = False"
| "verifyCompatibleShapeTypes _ (TensorType _) = False"
| "verifyCompatibleShapeTypes _ _ = True"

definition shape_within_bounds :: "int list \<Rightarrow> Encoding \<Rightarrow> bool" where
  "shape_within_bounds shape encoding =
     (case encoding of
        TypeExtensions bounds \<Rightarrow>
          shape = [] \<or> list_all (\<lambda>(dim_size, bound). isDynamicDimSize bound \<or> dim_size \<le> bound) (zip shape bounds)
      | _ \<Rightarrow> True)"

fun verifyCompatibleShapeWithBounds :: "ValueType \<Rightarrow> ValueType \<Rightarrow> bool" where
  "verifyCompatibleShapeWithBounds (TensorType t1) (TensorType t2) =
     (verifyCompatibleShapeTypes (TensorType t1) (TensorType t2) \<and>
      shape_within_bounds (getShape t1) (getEncoding t2) \<and> shape_within_bounds (getShape t2) (getEncoding t1))"
| "verifyCompatibleShapeWithBounds t1 t2 = verifyCompatibleShapeTypes t1 t2"

definition isCompatibleElementTypeForHloTypeInference :: "Type \<Rightarrow> Type \<Rightarrow> bool" where
  "isCompatibleElementTypeForHloTypeInference tp1 tp2 =
     (if isQuantizedType tp1 \<and> isQuantizedType tp2 then
        q_storage tp1 = q_storage tp2 \<and> q_min tp1 = q_min tp2 \<and> q_max tp1 = q_max tp2 \<and>
        q_expressed tp1 = q_expressed tp2 \<and> isPerAxisType tp1 = isPerAxisType tp2
      else if isQuantizedType tp1 \<or> isQuantizedType tp2 then False
      else tp1 = tp2)"

fun isCompatibleForHloTypeInference :: "ValueType \<Rightarrow> ValueType \<Rightarrow> bool" where
  "isCompatibleForHloTypeInference (TensorType t1) (TensorType t2) =
     (verifyCompatibleShapeWithBounds (TensorType t1) (TensorType t2) \<and>
      isCompatibleElementTypeForHloTypeInference (getElementType t1) (getElementType t2))"
| "isCompatibleForHloTypeInference t1 t2 = (t1 = t2)"

definition isCompatibleForHloTypeInferenceRange :: "ValueType list \<Rightarrow> ValueType list \<Rightarrow> bool" where
  "isCompatibleForHloTypeInferenceRange tp1 tp2 \<longleftrightarrow>
     length tp1 = length tp2 \<and> list_all (\<lambda>(lt, rt). isCompatibleForHloTypeInference lt rt) (zip tp1 tp2)"

definition isCompatibleShapeForHloTypeInference :: "int list \<Rightarrow> ValueType \<Rightarrow> bool" where
  "isCompatibleShapeForHloTypeInference shape1 tp2 =
     (if list_ex (\<lambda>x. x < 0) shape1 then False
      else case tp2 of
        TensorType t2 \<Rightarrow>
          isCompatibleForHloTypeInference (TensorType (mkRankedTensorType shape1 (getElementType t2) NoEncoding)) tp2
      | _ \<Rightarrow> False)"

definition isCompatibleValueForHloTypeInference :: "int list option \<Rightarrow> ValueType \<Rightarrow> bool" where
  "isCompatibleValueForHloTypeInference shape1 tp2 =
     (case shape1 of None \<Rightarrow> True | Some shapeVec1 \<Rightarrow> isCompatibleShapeForHloTypeInference shapeVec1 tp2)"

definition getSameShapeTensorType :: "RankedTensorType \<Rightarrow> Type \<Rightarrow> RankedTensorType" where
  "getSameShapeTensorType shapedType elementType = shapedType\<lparr>getElementType := elementType\<rparr>"

definition createRealType :: "RankedTensorType \<Rightarrow> RankedTensorType" where
  "createRealType type = getSameShapeTensorType type (case getElementType type of ComplexType t \<Rightarrow> t | t \<Rightarrow> t)"

section \<open>Bounds\<close>

definition verifyBounds :: "int list \<Rightarrow> RankedTensorType \<Rightarrow> unit result" where
  "verifyBounds bounds type =
     (if int (length bounds) \<noteq> rt_rank type then Inl (Failure ''Bounds length is not equal to rank of the tensor'')
      else foldM (\<lambda>(bound, dimSize) _.
        if bound \<noteq> kDynamic \<and> dimSize \<noteq> kDynamic then Inl (Failure ''Static dimension cannot have a bound'') else Inr ())
        (zip bounds (getShape type)) ())"

fun isBoundedDynamic :: "ValueType \<Rightarrow> bool" where
  "isBoundedDynamic (TensorType t) = (case getEncoding t of TypeExtensions _ \<Rightarrow> True | _ \<Rightarrow> False)"
| "isBoundedDynamic _ = False"

definition hasSingleBoundedDimension :: "RankedTensorType \<Rightarrow> bool" where
  "hasSingleBoundedDimension t =
     (case getEncoding t of
        TypeExtensions bounds \<Rightarrow>
          length (filter isStaticDimSize bounds) = 1 \<and> length (filter isDynamicDimSize (getShape t)) = 1
      | _ \<Rightarrow> False)"

section \<open>Tuples\<close>

fun tuple_types :: "ValueType list \<Rightarrow> ValueType list list" where
  "tuple_types [] = []"
| "tuple_types (TupleType ts # rest) = ts # tuple_types rest"
| "tuple_types (_ # rest) = tuple_types rest"

definition mapOverTupleElements ::
  "ValueType list \<Rightarrow> (ValueType list \<Rightarrow> ValueType result) \<Rightarrow> ValueType result" where
  "mapOverTupleElements inputTypes fn =
     (case tuple_types inputTypes of
        [] \<Rightarrow> fn inputTypes
      | first # _ \<Rightarrow>
          if length (tuple_types inputTypes) \<noteq> length inputTypes
          then Inl (Failure ''Mismatched type kinds: either all types must be tuples, or no types must be tuples'')
          else if list_ex (\<lambda>ts. length ts \<noteq> length first) (tuple_types inputTypes)
          then Inl (Failure ''Mismatched tuple sizes: all tuple sizes must be the same'')
          else rbind (mapM (\<lambda>i. fn (map (\<lambda>ts. ts ! i) (tuple_types inputTypes))) [0..<length first]) (\<lambda>results.
                 Inr (TupleType results)))"

fun ranked_types :: "ValueType list \<Rightarrow> RankedTensorType list" where
  "ranked_types [] = []"
| "ranked_types (TensorType t # rest) = t # ranked_types rest"
| "ranked_types (_ # rest) = ranked_types rest"

definition inferLeastSpecificType :: "ValueType list \<Rightarrow> ValueType result" where
  "inferLeastSpecificType inputTypes =
     mapOverTupleElements inputTypes (\<lambda>types.
       case find (\<lambda>t. \<not> isTensorType t) types of
         Some t \<Rightarrow> Inr t
       | None \<Rightarrow> rbind (inferLeastSpecificShapedType (ranked_types types)) (\<lambda>t. Inr (TensorType t)))"

definition inferMostSpecificType :: "ValueType list \<Rightarrow> ValueType result" where
  "inferMostSpecificType inputTypes =
     mapOverTupleElements inputTypes (\<lambda>types.
       case ranked_types types of
         [] \<Rightarrow> (case types of [] \<Rightarrow> Inl (UB ''vector subscript out of range'') | t # _ \<Rightarrow> Inr t)
       | _ \<Rightarrow> rbind (inferMostSpecificShapedType (ranked_types types)) (\<lambda>t. Inr (TensorType t)))"

definition inferMostSpecificTypeComponents :: "ValueType list \<Rightarrow> RankedTensorType result" where
  "inferMostSpecificTypeComponents inputTypes =
     rbind (inferMostSpecificType inputTypes) (\<lambda>inferredType.
       case inferredType of TensorType t \<Rightarrow> Inr t | _ \<Rightarrow> Inl (Failure ''''))"

fun flattenTupleTypes :: "ValueType list \<Rightarrow> ValueType list" where
  "flattenTupleTypes [] = []"
| "flattenTupleTypes (TupleType ts # rest) = flattenTupleTypes ts @ flattenTupleTypes rest"
| "flattenTupleTypes (t # rest) = t # flattenTupleTypes rest"

text \<open>
  The loop of \<^verbatim>\<open>unflattenTupleTypes\<close> returns the number of consumed types, or nothing on failure, and extends \<open>result\<close>. The outer function
  compares that optional number with \<open>-1\<close>, so a failure of the loop is a success of the function.
\<close>

fun unflatten_loop :: "ValueType list \<Rightarrow> ValueType list \<Rightarrow> ValueType list \<Rightarrow> int option \<times> ValueType list" where
  "unflatten_loop [] types result = (if types = [] then Some 0 else None, result)"
| "unflatten_loop (prototype # prototypes) [] result = (None, result)"
| "unflatten_loop (TupleType ts # prototypes) (type # types) result =
     (case unflatten_loop ts (type # types) [] of
        (None, _) \<Rightarrow> (None, result)
      | (Some consumedFront, tupleResult) \<Rightarrow>
          (case unflatten_loop prototypes (drop (nat consumedFront) (type # types)) result of
             (None, result') \<Rightarrow> (None, result')
           | (Some consumedRest, result') \<Rightarrow> (Some (consumedFront + consumedRest), result' @ [TupleType tupleResult])))"
| "unflatten_loop (_ # prototypes) (type # types) result =
     (case unflatten_loop prototypes types (result @ [type]) of
        (None, result') \<Rightarrow> (None, result')
      | (Some consumed, result') \<Rightarrow> (Some (consumed + 1), result'))"

definition unflattenTupleTypes :: "ValueType list \<Rightarrow> ValueType list \<Rightarrow> ValueType list result" where
  "unflattenTupleTypes prototype types =
     (let (consumed, result) = unflatten_loop prototype types [] in
      if consumed \<noteq> Some (- 1) then Inr result else Inl (Failure ''''))"

text \<open>\<^verbatim>\<open>mapOverLeafTypes\<close>: the leaves of a type in order, with the path of tuple positions to each.\<close>

fun mapOverLeafTypesImpl :: "ValueType \<Rightarrow> (ValueType \<Rightarrow> int list \<Rightarrow> unit result) \<Rightarrow> int list \<Rightarrow> unit result"
  and mapOverLeafTypesList :: "ValueType list \<Rightarrow> int \<Rightarrow> (ValueType \<Rightarrow> int list \<Rightarrow> unit result) \<Rightarrow> int list \<Rightarrow> unit result" where
  "mapOverLeafTypesImpl (TupleType ts) fn indices = mapOverLeafTypesList ts 0 fn indices"
| "mapOverLeafTypesImpl t fn indices = fn t indices"
| "mapOverLeafTypesList [] i fn indices = Inr ()"
| "mapOverLeafTypesList (t # ts) i fn indices =
     rbind (mapOverLeafTypesImpl t fn (indices @ [i])) (\<lambda>_. mapOverLeafTypesList ts (i + 1) fn indices)"

definition mapOverLeafTypes :: "ValueType \<Rightarrow> (ValueType \<Rightarrow> int list \<Rightarrow> unit result) \<Rightarrow> unit result" where
  "mapOverLeafTypes type fn = mapOverLeafTypesImpl type fn []"

text \<open>\<^verbatim>\<open>getShapeRefinements\<close>: the attribute is its values, rank and element type; an operand is its constant value, if any.\<close>

definition getShapeRefinements ::
  "(int list \<times> int \<times> Type) option \<Rightarrow> int list option list \<Rightarrow> ValueType list \<Rightarrow> int list list result" where
  "getShapeRefinements indicesAttr operands resultTypes =
     (case indicesAttr of
        None \<Rightarrow> Inl (Failure '''')
      | Some (indices, rank, elementType) \<Rightarrow>
          let flattened = flattenTupleTypes resultTypes in
          if length indices \<noteq> length flattened
          then Inl (Failure ''indices_of_shape_operands: number of elements must be equal to the number of operation results'')
          else if rank \<noteq> 1 then Inl (Failure ''indices_of_shape_operands: must have rank = 1'')
          else if elementType \<noteq> IntegerType Signless 64 \<and> elementType \<noteq> IntegerType Signed 64 \<and> elementType \<noteq> IntegerType Unsigned 64
          then Inl (Failure ''indices_of_shape_operands: must have i64 element type'')
          else mapM (\<lambda>(operandIndex, resultType).
            if operandIndex < 0 \<or> int (length operands) \<le> operandIndex
            then Inl (Failure ''indices_of_shape_operands: index must be within bounds for operation operands'')
            else case operands ! nat operandIndex of
              None \<Rightarrow> Inl (Failure '''')
            | Some refinement \<Rightarrow>
                if \<not> isCompatibleShapeForHloTypeInference refinement resultType
                then Inl (Failure ''indices_of_shape_operands: refinement must be compatible with operation result'')
                else Inr refinement)
            (zip indices flattened))"

section \<open>Dot algorithms and quantized element types\<close>

datatype KnownDotAlgorithm =
    ANY_F8_ANY_F8_F32 | ANY_F8_ANY_F8_F32_FAST_ACCUM | F16_F16_F16 | F16_F16_F32 | BF16_BF16_BF16 | BF16_BF16_F32
  | BF16_BF16_F32_X3 | F8E4M3FN_F8E4M3FN_F32_X3 | F8E4M3FN_F8E4M3FN_F32_X4 | BF16_BF16_F32_X6 | BF16_BF16_F32_X9
  | TF32_TF32_F32 | TF32_TF32_F32_X3 | F32_F32_F32 | F64_F64_F64

definition isAnyF8 :: "Type \<Rightarrow> bool" where
  "isAnyF8 t \<longleftrightarrow> t \<in> set (map FloatType [Float8E3M4, Float8E4M3, Float8E4M3FN, Float8E5M2, Float8E4M3FNUZ,
     Float8E4M3B11FNUZ, Float8E5M2FNUZ])"

definition isFp8Type :: "Type \<Rightarrow> bool" where
  "isFp8Type t \<longleftrightarrow> t \<in> set (map FloatType [Float8E3M4, Float8E4M3, Float8E4M3FN, Float8E5M2, Float8E4M3FNUZ,
     Float8E4M3B11FNUZ, Float8E5M2FNUZ, Float8E8M0FNU])"

definition knownDotAlgorithms :: "((Type \<times> Type \<times> Type \<times> int) \<times> KnownDotAlgorithm) list" where
  "knownDotAlgorithms =
     (let bf16 = FloatType BFloat16; f16 = FloatType Float16; f32 = FloatType Float32; f64 = FloatType Float64;
          tf32 = FloatType FloatTF32; f8e4m3fn = FloatType Float8E4M3FN
      in [((f16, f16, f16, 1), F16_F16_F16), ((f16, f16, f32, 1), F16_F16_F32),
          ((bf16, bf16, bf16, 1), BF16_BF16_BF16), ((bf16, bf16, f32, 1), BF16_BF16_F32),
          ((bf16, bf16, f32, 3), BF16_BF16_F32_X3), ((f8e4m3fn, f8e4m3fn, f32, 3), F8E4M3FN_F8E4M3FN_F32_X3),
          ((f8e4m3fn, f8e4m3fn, f32, 4), F8E4M3FN_F8E4M3FN_F32_X4), ((bf16, bf16, f32, 6), BF16_BF16_F32_X6),
          ((bf16, bf16, f32, 9), BF16_BF16_F32_X9), ((tf32, tf32, f32, 1), TF32_TF32_F32),
          ((tf32, tf32, f32, 3), TF32_TF32_F32_X3), ((f32, f32, f32, 1), F32_F32_F32), ((f64, f64, f64, 1), F64_F64_F64)])"

definition getKnownDotAlgorithm :: "Type \<Rightarrow> Type \<Rightarrow> Type \<Rightarrow> int \<Rightarrow> int \<Rightarrow> int \<Rightarrow> bool \<Rightarrow> KnownDotAlgorithm result" where
  "getKnownDotAlgorithm lhsPrecisionType rhsPrecisionType accumulationType lhsComponentCount rhsComponentCount
     numPrimitiveOperations allowImpreciseAccumulation =
     (if lhsComponentCount \<noteq> 1 \<or> rhsComponentCount \<noteq> 1 then Inl (Failure '''')
      else if isAnyF8 lhsPrecisionType \<and> isAnyF8 rhsPrecisionType \<and> accumulationType = FloatType Float32 \<and> numPrimitiveOperations = 1
      then Inr (if allowImpreciseAccumulation then ANY_F8_ANY_F8_F32_FAST_ACCUM else ANY_F8_ANY_F8_F32)
      else if allowImpreciseAccumulation then Inl (Failure '''')
      else case map_of knownDotAlgorithms (lhsPrecisionType, rhsPrecisionType, accumulationType, numPrimitiveOperations) of
        Some algorithm \<Rightarrow> Inr algorithm
      | None \<Rightarrow> Inl (Failure ''''))"

definition isKnownDotAlgorithm :: "Type \<Rightarrow> Type \<Rightarrow> Type \<Rightarrow> int \<Rightarrow> int \<Rightarrow> int \<Rightarrow> bool \<Rightarrow> bool" where
  "isKnownDotAlgorithm lhsPrecisionType rhsPrecisionType accumulationType lhsComponentCount rhsComponentCount
     numPrimitiveOperations allowImpreciseAccumulation =
     (case getKnownDotAlgorithm lhsPrecisionType rhsPrecisionType accumulationType lhsComponentCount rhsComponentCount
       numPrimitiveOperations allowImpreciseAccumulation of Inl _ \<Rightarrow> False | Inr _ \<Rightarrow> True)"

fun isValidStablehloQuantizedElementType :: "Type \<Rightarrow> bool" where
  "isValidStablehloQuantizedElementType (UniformQuantizedType _ _ mn mx _ zeroPoint) = (mn \<le> zeroPoint \<and> zeroPoint \<le> mx)"
| "isValidStablehloQuantizedElementType (UniformQuantizedPerAxisType _ _ mn mx _ zeroPoints _) =
     (\<not> list_ex (\<lambda>zeroPoint. zeroPoint < mn \<or> mx < zeroPoint) zeroPoints)"
| "isValidStablehloQuantizedElementType _ = False"

fun isValidQuantizedDimension :: "ValueType \<Rightarrow> bool" where
  "isValidQuantizedDimension (TensorType t) =
     (case getElementType t of
        UniformQuantizedPerAxisType _ _ _ _ scales _ quantDim \<Rightarrow>
          quantDim < rt_rank t \<and>
          (isDynamicDimSize (getShape t ! nat quantDim) \<or> int (length scales) = getShape t ! nat quantDim)
      | _ \<Rightarrow> True)"
| "isValidQuantizedDimension _ = True"

end
