(* ===== verification/Region_Types.thy ===== *)
theory Region_Types
  imports Value_Types
begin

text \<open>
  The shape functions and verifiers of \<^verbatim>\<open>TypeInference.cpp\<close> for operations with regions: conditionals, loops, map, sort, reductions and
  scatters. Of a block the types of its arguments and the types of the operands of its terminator matter; a block without
  terminator has none, and a region without block is \<open>None\<close>.
\<close>

record Block =
  blk_arguments :: "ValueType list"
  blk_terminator :: "ValueType list option"

text \<open>\<^verbatim>\<open>region.front()\<close> and \<^verbatim>\<open>block.getTerminator()\<close>.\<close>

definition front_block :: "Block option \<Rightarrow> Block result" where
  "front_block region = (case region of None \<Rightarrow> Inl (UB ''front of an empty region'') | Some block \<Rightarrow> Inr block)"

definition getTerminator :: "Block \<Rightarrow> ValueType list result" where
  "getTerminator block = (case blk_terminator block of None \<Rightarrow> Inl (UB ''block without terminator'') | Some types \<Rightarrow> Inr types)"

definition isInteger :: "Type \<Rightarrow> nat \<Rightarrow> bool" where
  "isInteger t width = (case t of IntegerType _ w \<Rightarrow> w = width | _ \<Rightarrow> False)"

section \<open>Reducers\<close>

fun matchesType :: "Type \<Rightarrow> Type \<Rightarrow> bool" where
  "matchesType (IntegerType _ _) (IntegerType _ _) = True"
| "matchesType (FloatType _) (FloatType _) = True"
| "matchesType (ComplexType _) (ComplexType _) = True"
| "matchesType a b = (isQuantizedType a \<and> isQuantizedType b \<and> q_expressed a = q_expressed b)"

definition isPromotableElementType :: "Type \<Rightarrow> Type \<Rightarrow> bool \<Rightarrow> bool result" where
  "isPromotableElementType tensorEl1 tensorEl2 ignoreFpPrecision =
     (if \<not> matchesType tensorEl1 tensorEl2 then Inr False
      else if ignoreFpPrecision \<and> isFloatType tensorEl1 then Inr True
      else rbind (getTypeBitWidth tensorEl1) (\<lambda>w1. rbind (getTypeBitWidth tensorEl2) (\<lambda>w2. Inr (w1 \<le> w2))))"

text \<open>The callers pass a shaped type first, so a type that is not shaped is not compatible.\<close>

fun compatibleShapeAndElementType :: "RankedTensorType \<Rightarrow> ValueType \<Rightarrow> bool \<Rightarrow> bool" where
  "compatibleShapeAndElementType t1 (TensorType t2) ignoreFpPrecision =
     (verifyCompatibleShape (getShape t1) (getShape t2) \<and>
      tensorsHaveSameElType [getElementType t1, getElementType t2] ignoreFpPrecision)"
| "compatibleShapeAndElementType t1 _ ignoreFpPrecision = False"

definition getAccumulatorTypesOrInputTypes :: "Block option \<Rightarrow> RankedTensorType list \<Rightarrow> RankedTensorType list result" where
  "getAccumulatorTypesOrInputTypes region inputTypes =
     (case region of None \<Rightarrow> Inr inputTypes
      | Some block \<Rightarrow> rbind (getTerminator block) (mapM castShaped))"

text \<open>The greedy match of an argument's shape against the allowed dimensions; what remains of the argument's shape.\<close>

fun match_allowed :: "int list \<Rightarrow> int list \<Rightarrow> int list" where
  "match_allowed (allowed # rest) (d # ds) =
     (if verifyCompatibleDims allowed d then match_allowed rest ds else match_allowed rest (d # ds))"
| "match_allowed _ argShape = argShape"

definition verifyReducerArgument ::
  "Block \<Rightarrow> int \<Rightarrow> RankedTensorType \<Rightarrow> RankedTensorType \<Rightarrow> RankedTensorType \<Rightarrow> int list \<Rightarrow> int \<Rightarrow> unit result" where
  "verifyReducerArgument block numInputs accumulator inputType initValueType allowedDimensions inputIdx =
     rbind (vec_nth (blk_arguments block) inputIdx) (\<lambda>arg1.
     rbind (vec_nth (blk_arguments block) (numInputs + inputIdx)) (\<lambda>arg2.
     rbind (guard (compatibleShapeAndElementType accumulator arg1 False)
       (Failure ''The type of reduction-region's parameter is different than the corresponding result type'')) (\<lambda>_.
     rbind (guard (compatibleShapeAndElementType accumulator arg2 True)
       (Failure ''The type of reduction-region's parameter is different than the corresponding result type'')) (\<lambda>_.
     rbind (guard (verifyCompatibleShape (getShape initValueType) (getShape accumulator))
       (Failure ''The shape of reduction-region's result type differs from the op's corresponding init-value type'')) (\<lambda>_.
     rbind (isPromotableElementType (getElementType initValueType) (getElementType accumulator) True) (\<lambda>promotable.
     rbind (guard promotable
       (Failure ''The element-type of reduction-region's result type is expected to be promotable from the op's corresponding init-value element-type'')) (\<lambda>_.
     rbind (castShaped arg2) (\<lambda>blockArgTensorTy.
     rbind (isPromotableElementType (getElementType inputType) (getElementType blockArgTensorTy) True) (\<lambda>promotable2.
     rbind (guard promotable2
       (Failure ''The element-type of reduction-region's argument is expected to be promotable'')) (\<lambda>_.
     rbind (guard (length (getShape blockArgTensorTy) \<le> length allowedDimensions)
       (Failure ''The rank of reduction-region's argument is too large'')) (\<lambda>_.
       guard (match_allowed allowedDimensions (getShape blockArgTensorTy) = [])
         (Failure ''The shape of reduction-region's argument is not compatible with that of reduce-op's input-parameter'')
     )))))))))))"

definition verifyReducerShape ::
  "Block \<Rightarrow> RankedTensorType list \<Rightarrow> RankedTensorType list \<Rightarrow> int list \<Rightarrow> unit result" where
  "verifyReducerShape block inputTypes initValueTypes allowedDimensions =
     (let numInputs = int (length inputTypes) in
      rbind (guard (int (length (blk_arguments block)) = numInputs * 2)
        (Failure ''Reduction-region must take twice as many parameters'')) (\<lambda>_.
      case blk_terminator block of
        None \<Rightarrow> Inl (Failure ''The reduction-region expected to have a terminator'')
      | Some returned \<Rightarrow>
          rbind (guard (returned \<noteq> []) (Failure ''The reduction-region expected to return some value(s)'')) (\<lambda>_.
          rbind (guard (int (length returned) = numInputs) (Failure ''Reduction-region here must produce another number of tensors'')) (\<lambda>_.
          rbind (guard (list_all isTensorType returned) (Failure ''Reduction-region here must produce tensor-typed result(s)'')) (\<lambda>_.
            foldM (\<lambda>inputIdx _.
              rbind (vec_nth (ranked_types returned) inputIdx) (\<lambda>accumulator.
              rbind (vec_nth inputTypes inputIdx) (\<lambda>inputType.
              rbind (vec_nth initValueTypes inputIdx) (\<lambda>initValueType.
                verifyReducerArgument block numInputs accumulator inputType initValueType allowedDimensions inputIdx))))
              (upto_int numInputs) ())))))"

definition verifyReduceOp ::
  "RankedTensorType list \<Rightarrow> RankedTensorType list \<Rightarrow> int list \<Rightarrow> Block option \<Rightarrow> unit result" where
  "verifyReduceOp inputTypes initValueTypes dimensions body =
     rbind (verifyReduceOpInputsAndInferShape inputTypes dimensions) (\<lambda>(newDimensions, encoding).
     rbind (front_block body) (\<lambda>block.
       verifyReducerShape block inputTypes initValueTypes newDimensions))"

section \<open>Windows\<close>

text \<open>A dense attribute of integers: its shape and its values.\<close>

type_synonym DenseInts = "int list \<times> int list"

fun pairs_of :: "int list \<Rightarrow> (int \<times> int) list" where
  "pairs_of (first # second # rest) = (first, second) # pairs_of rest"
| "pairs_of _ = []"

definition convertPaddingAttribute :: "DenseInts option \<Rightarrow> (int \<times> int) list result" where
  "convertPaddingAttribute optionalAttr =
     (case optionalAttr of None \<Rightarrow> Inr []
      | Some (shape, values) \<Rightarrow>
          if length shape \<noteq> 2 \<or> shape ! 1 \<noteq> 2
          then Inl (Failure ''expects the shape of padding-attribute to be {N, 2}'')
          else Inr (pairs_of values))"

definition convert1DAttribute :: "DenseInts option \<Rightarrow> int list result" where
  "convert1DAttribute optionalAttr =
     (case optionalAttr of None \<Rightarrow> Inr []
      | Some (shape, values) \<Rightarrow>
          if length shape \<noteq> 1 then Inl (Failure ''expects the shape of attribute to be 1-D'') else Inr values)"

definition value_or_empty :: "'a list option \<Rightarrow> 'a list" where
  "value_or_empty x = (case x of None \<Rightarrow> [] | Some xs \<Rightarrow> xs)"

definition verifyReduceWindowOpInputsAndInferWindow ::
  "RankedTensorType list \<Rightarrow> RankedTensorType list \<Rightarrow> int list \<Rightarrow> int list option \<Rightarrow> int list option \<Rightarrow> int list option \<Rightarrow>
   DenseInts option \<Rightarrow> WindowDimension list result" where
  "verifyReduceWindowOpInputsAndInferWindow inputTypes initValueTypes windowDimensions windowStrides baseDilations
     windowDilations padding =
     (case inputTypes of
        [] \<Rightarrow> Inl (Failure ''requires at least 1 input value'')
      | witnessType # rest \<Rightarrow>
          rbind (guard (list_all (\<lambda>t. verifyCompatibleShape (getShape witnessType) (getShape t)) rest)
            (Failure ''expects all inputs to have compatible shapes'')) (\<lambda>_.
          rbind (convertPaddingAttribute padding) (\<lambda>paddings.
          rbind (guard (list_all (\<lambda>t. rt_rank t = int (length windowDimensions)) inputTypes)
            (Failure ''expects window-dimensions size == input rank'')) (\<lambda>_.
            verifyWindowAttributesAndInferWindowDimensions windowDimensions (value_or_empty windowStrides) paddings
              (value_or_empty baseDilations) (value_or_empty windowDilations) []))))"

definition inferReduceWindowOp ::
  "RankedTensorType list \<Rightarrow> RankedTensorType list \<Rightarrow> int list \<Rightarrow> int list option \<Rightarrow> int list option \<Rightarrow> int list option \<Rightarrow>
   DenseInts option \<Rightarrow> Block option \<Rightarrow> RankedTensorType list result" where
  "inferReduceWindowOp inputTypes initValueTypes windowDimensions windowStrides baseDilations windowDilations padding body =
     rbind (verifyReduceWindowOpInputsAndInferWindow inputTypes initValueTypes windowDimensions windowStrides baseDilations
       windowDilations padding) (\<lambda>inferredWindow.
     rbind (getAccumulatorTypesOrInputTypes body inputTypes) (\<lambda>accumulatorTypes.
       mapM (\<lambda>i.
         rbind (vec_nth inputTypes i) (\<lambda>inputType.
         rbind (vec_nth accumulatorTypes i) (\<lambda>accumulatorType.
         let resultShape = inferWindowOutputShape (getShape inputType) inferredWindow;
             inputBounds = encodingToBounds (getEncoding inputType) in
         if inputBounds = [] then Inr (mkRankedTensorType resultShape (getElementType accumulatorType) NoEncoding)
         else rbind (boundsToEncoding (getEncoding inputType) (inferWindowOutputShape inputBounds inferredWindow)) (\<lambda>encoding.
                Inr (mkRankedTensorType resultShape (getElementType accumulatorType) encoding)))))
         (upto_int (int (length inputTypes)))))"

definition verifyReduceWindowOp ::
  "RankedTensorType list \<Rightarrow> RankedTensorType list \<Rightarrow> int list \<Rightarrow> int list option \<Rightarrow> int list option \<Rightarrow> int list option \<Rightarrow>
   DenseInts option \<Rightarrow> Block option \<Rightarrow> unit result" where
  "verifyReduceWindowOp inputTypes initValueTypes windowDimensions windowStrides baseDilations windowDilations padding body =
     rbind (verifyReduceWindowOpInputsAndInferWindow inputTypes initValueTypes windowDimensions windowStrides baseDilations
       windowDilations padding) (\<lambda>inferredWindow.
     rbind (front_block body) (\<lambda>block. verifyReducerShape block inputTypes initValueTypes windowDimensions))"

section \<open>Scatter and select\<close>

text \<open>\<open>inferScatterOp\<close>, \<open>inferSelectAndScatterOp\<close>, \<open>inferAllReduceOp\<close>: the inputs' shapes with the element types of the accumulators.\<close>

definition inferScatterOp :: "RankedTensorType list \<Rightarrow> Block option \<Rightarrow> RankedTensorType list result" where
  "inferScatterOp inputTypes updateComputation =
     rbind (getAccumulatorTypesOrInputTypes updateComputation inputTypes) (\<lambda>accumulatorTypes.
       mapM (\<lambda>inputIdx. rbind (vec_nth inputTypes inputIdx) (\<lambda>inputType.
         rbind (vec_nth accumulatorTypes inputIdx) (\<lambda>accumulatorType.
           Inr (getSameShapeTensorType inputType (getElementType accumulatorType)))))
         (upto_int (int (length inputTypes))))"

definition inferSelectAndScatterOp :: "RankedTensorType \<Rightarrow> Block option \<Rightarrow> RankedTensorType result" where
  "inferSelectAndScatterOp inputType scatter =
     rbind (getAccumulatorTypesOrInputTypes scatter [inputType]) (\<lambda>accumulatorTypes.
     rbind (vec_nth accumulatorTypes 0) (\<lambda>accumulatorType.
       Inr (getSameShapeTensorType inputType (getElementType accumulatorType))))"

definition verifySelectAndScatterOp ::
  "RankedTensorType \<Rightarrow> RankedTensorType \<Rightarrow> RankedTensorType \<Rightarrow> int list option \<Rightarrow> int list option \<Rightarrow> DenseInts option \<Rightarrow>
   Block option \<Rightarrow> Block option \<Rightarrow> unit result" where
  "verifySelectAndScatterOp operandType sourceType initValueType windowDimensionsOpt windowStridesOpt padding select scatter =
     rbind (front_block select) (\<lambda>selectBlock.
     rbind (guard (length (blk_arguments selectBlock) = 2) (Failure ''expects the select-region to take 2 parameters'')) (\<lambda>_.
     rbind (guard (list_all (\<lambda>arg. compatibleShapeAndElementType (scalarType (getElementType operandType)) arg True)
         (blk_arguments selectBlock)) (Failure ''expects the type of select-region's parameter to match the operand'')) (\<lambda>_.
     rbind (getTerminator selectBlock) (\<lambda>selectResult.
     rbind (guard (length selectResult = 1) (Failure ''expects select-region to return single value'')) (\<lambda>_.
     rbind (guard (case hd selectResult of TensorType t \<Rightarrow> isInteger (getElementType t) 1 \<and> rt_rank t = 0 | _ \<Rightarrow> False)
       (Failure ''expects the return-type of select-region to be tensor<i1>'')) (\<lambda>_.
     rbind (front_block scatter) (\<lambda>scatterBlock.
     rbind (verifyReducerShape scatterBlock [scalarType (getElementType sourceType)] [initValueType] []) (\<lambda>_.
     let windowDims = value_or_empty windowDimensionsOpt in
     rbind (guard (rt_rank operandType = int (length windowDims)) (Failure ''expects window-dimensions size == operand rank'')) (\<lambda>_.
     rbind (convertPaddingAttribute padding) (\<lambda>paddings.
     rbind (verifyWindowAttributesAndInferWindowDimensions windowDims (value_or_empty windowStridesOpt) paddings [] [] []) (\<lambda>window.
     guard (compatibleShapeAndElementType
              (mkRankedTensorType (inferWindowOutputShape (getShape operandType) window) (getElementType operandType) NoEncoding)
              (TensorType sourceType) True)
       (Failure ''expects source-type to be the result type of the window operation''))))))))))))"

section \<open>Conditionals, loops, map and sort\<close>

definition inferConditionalOp :: "RankedTensorType \<Rightarrow> Block option list \<Rightarrow> ValueType list result" where
  "inferConditionalOp operandType branches =
     rbind (guard (rt_rank operandType = 0) (Failure ''operand should be rank 0 tensor'')) (\<lambda>_.
     rbind (guard (branches \<noteq> []) (Failure ''expect at least one branch'')) (\<lambda>_.
     rbind (guard (list_all (\<lambda>region. region \<noteq> None) branches) (Failure ''expect non-empty region'')) (\<lambda>_.
     let blocks = map the branches in
     rbind (getTerminator (hd blocks)) (\<lambda>branch0ResultTypes.
     rbind (mapM (\<lambda>block.
              rbind (guard (blk_arguments block = []) (Failure ''branch must have 0 arguments'')) (\<lambda>_.
              rbind (getTerminator block) (\<lambda>branchResultTypes.
              rbind (guard (isCompatibleForHloTypeInferenceRange branch0ResultTypes branchResultTypes)
                (Failure ''branches have mismatched return types'')) (\<lambda>_. Inr branchResultTypes)))) blocks) (\<lambda>resultTypes.
       mapM (\<lambda>i. rbind (mapM (\<lambda>types. vec_nth types i) resultTypes) inferLeastSpecificType)
         (upto_int (int (length branch0ResultTypes))))))))"

definition inferMapOp :: "RankedTensorType list \<Rightarrow> int list \<Rightarrow> Block option \<Rightarrow> RankedTensorType result" where
  "inferMapOp inputTypes dimensions computation =
     (case computation of None \<Rightarrow> Inl (Failure ''expect non-empty region'')
      | Some block \<Rightarrow>
          rbind (guard (length inputTypes = length (blk_arguments block))
            (Failure ''expects number of operands to match the arity of map computation'')) (\<lambda>_.
          rbind (foldM (\<lambda>(arg, inputType) _. rbind (castShaped arg) (\<lambda>argType.
                   rbind (guard (rt_rank argType = 0) (Failure ''computation arguments must be 0-rank tensor'')) (\<lambda>_.
                     guard (getElementType argType = getElementType inputType)
                       (Failure ''element type of operands and computation arguments must match''))))
                 (zip (blk_arguments block) inputTypes) ()) (\<lambda>_.
          rbind (getTerminator block) (\<lambda>outputs.
          rbind (guard (length outputs = 1) (Failure ''computation must return single output'')) (\<lambda>_.
          rbind (castShaped (hd outputs)) (\<lambda>outputType.
          rbind (guard (rt_rank outputType = 0) (Failure ''computation must return 0-rank tensor'')) (\<lambda>_.
          rbind (guard (dimensions = upto_int (int (length dimensions)))
            (Failure ''requires monotonically increasing dimension numbers'')) (\<lambda>_.
          rbind (guard (list_all (\<lambda>t. length dimensions = length (getShape t)) inputTypes)
            (Failure ''applied to a subset of dimensions currently not supported'')) (\<lambda>_.
            Inr (mkRankedTensorType (if inputTypes = [] then [] else getShape (last inputTypes)) (getElementType outputType) NoEncoding))))))))))"

definition verifySortOp :: "RankedTensorType list \<Rightarrow> int \<Rightarrow> Block option \<Rightarrow> unit result" where
  "verifySortOp operandTypes dimension comparator =
     rbind (case operandTypes of [] \<Rightarrow> Inr ()
            | t # _ \<Rightarrow> guard (- rt_rank t \<le> dimension \<and> dimension < rt_rank t)
                         (Failure ''dimension attribute value must be in range'')) (\<lambda>_.
     rbind (front_block comparator) (\<lambda>block.
     rbind (guard (length (blk_arguments block) = 2 * length operandTypes)
       (Failure ''comparator block should have twice as many arguments'')) (\<lambda>_.
     rbind (foldM (\<lambda>index _. rbind (vec_nth operandTypes index) (\<lambda>operandType.
              foldM (\<lambda>i _. rbind (vec_nth (blk_arguments block) i) (\<lambda>argType.
                guard (argType = TensorType (scalarType (getElementType operandType)))
                  (Failure ''comparator block argument should be of another type''))) [2 * index, 2 * index + 1] ()))
            (upto_int (int (length operandTypes))) ()) (\<lambda>_.
     rbind (getTerminator block) (\<lambda>comparatorResult.
     rbind (guard (length comparatorResult = 1) (Failure ''comparator must return single output'')) (\<lambda>_.
     rbind (castShaped (hd comparatorResult)) (\<lambda>comparatorResultType.
       guard (rt_rank comparatorResultType = 0 \<and> isInteger (getElementType comparatorResultType) 1)
         (Failure ''comparator must return tensor<i1>''))))))))"

definition verifyWhileOp :: "ValueType list \<Rightarrow> Block option \<Rightarrow> Block option \<Rightarrow> unit result" where
  "verifyWhileOp operandTypes cond body =
     rbind (front_block cond) (\<lambda>condBlock.
     rbind (front_block body) (\<lambda>bodyBlock.
     rbind (guard (isCompatibleForHloTypeInferenceRange operandTypes (blk_arguments condBlock))
       (Failure ''expect operands to be compatible with condition block arguments'')) (\<lambda>_.
     rbind (guard (isCompatibleForHloTypeInferenceRange operandTypes (blk_arguments bodyBlock))
       (Failure ''expect operands to be compatible with body block arguments'')) (\<lambda>_.
     case blk_terminator bodyBlock of
       None \<Rightarrow> Inl (Failure ''The while body-region expected to have a terminator'')
     | Some bodyReturnTypes \<Rightarrow>
         rbind (guard (isCompatibleForHloTypeInferenceRange operandTypes bodyReturnTypes)
           (Failure ''expect operands to be compatible with body block return types'')) (\<lambda>_.
         rbind (getTerminator condBlock) (\<lambda>condReturnTypes.
         rbind (guard (length condReturnTypes = 1) (Failure ''expect condition body returns a single value'')) (\<lambda>_.
         rbind (castShaped (hd condReturnTypes)) (\<lambda>operandType.
           guard (rt_rank operandType = 0 \<and> isInteger (getElementType operandType) 1)
             (Failure ''expect condition block return a zero-ranked tensor of i1'')))))))))"

end
