(* ===== verification/Conv_Types.thy ===== *)
theory Conv_Types
  imports Region_Types APInt
begin

text \<open>
  The shape functions and verifiers of \<^verbatim>\<open>TypeInference.cpp\<close> for \<open>convolution\<close> and \<open>dynamic_conv\<close>, and the checks of precision configurations and
  quantization that they share with \<open>dot\<close> and \<open>dot_general\<close>.
\<close>

record ConvDimensionNumbers =
  inputBatchDimension :: int
  inputFeatureDimension :: int
  inputSpatialDimensions :: "int list"
  kernelInputFeatureDimension :: int
  kernelOutputFeatureDimension :: int
  kernelSpatialDimensions :: "int list"
  outputBatchDimension :: int
  outputFeatureDimension :: int
  outputSpatialDimensions :: "int list"

definition isSpatialDimensionsValid :: "RankedTensorType \<Rightarrow> ConvDimensionNumbers \<Rightarrow> unit result" where
  "isSpatialDimensionsValid lhsType dn =
     (let spatialDimNum = length (inputSpatialDimensions dn);
          inputDimNums = inputBatchDimension dn # inputFeatureDimension dn # inputSpatialDimensions dn;
          windowDimNums = kernelInputFeatureDimension dn # kernelOutputFeatureDimension dn # kernelSpatialDimensions dn;
          outputDimNums = outputBatchDimension dn # outputFeatureDimension dn # outputSpatialDimensions dn;
          inRange = (\<lambda>i. 0 \<le> i \<and> i < rt_rank lhsType) in
      rbind (guard (spatialDimNum = length (kernelSpatialDimensions dn) \<and> spatialDimNum = length (outputSpatialDimensions dn))
        (Failure ''expects the same size for input, kernel and output spatial-dimensions'')) (\<lambda>_.
      rbind (guard (list_all inRange inputDimNums \<and> list_all inRange windowDimNums \<and> list_all inRange outputDimNums)
        (Failure ''expects input, kernel, and output dimension-numbers to be in-range'')) (\<lambda>_.
      rbind (guard (isUnique inputDimNums) (Failure ''expects input dimension-numbers to be unique'')) (\<lambda>_.
      rbind (guard (isUnique windowDimNums) (Failure ''expects kernel dimension-numbers to be unique'')) (\<lambda>_.
        guard (isUnique outputDimNums) (Failure ''expects output dimension-numbers to be unique''))))))"

text \<open>Of a precision configuration only the number of entries is checked.\<close>

definition verifyPrecisionConfig :: "int option \<Rightarrow> unit result" where
  "verifyPrecisionConfig maybeArrayAttr =
     (case maybeArrayAttr of None \<Rightarrow> Inr ()
      | Some n \<Rightarrow> guard (n \<le> 2) (Failure ''expects precision config to be empty or have <= 2 elements''))"

definition verifyConvolutionAttributes ::
  "RankedTensorType \<Rightarrow> RankedTensorType \<Rightarrow> ConvDimensionNumbers \<Rightarrow> int \<Rightarrow> int \<Rightarrow> int option \<Rightarrow> unit result" where
  "verifyConvolutionAttributes lhsType rhsType dn featureGroupCount batchGroupCount precisionConfig =
     rbind (isSpatialDimensionsValid lhsType dn) (\<lambda>_.
     rbind (guard (\<not> (1 < batchGroupCount \<and> 1 < featureGroupCount))
       (Failure ''expects batch_group_count and feature_group_count not to be both greater than 1'')) (\<lambda>_.
     rbind (vec_nth (getShape lhsType) (inputFeatureDimension dn)) (\<lambda>inputFeatures.
     rbind (vec_nth (getShape lhsType) (inputBatchDimension dn)) (\<lambda>inputBatch.
     rbind (vec_nth (getShape rhsType) (kernelInputFeatureDimension dn)) (\<lambda>kernelInputFeatures.
     rbind (vec_nth (getShape rhsType) (kernelOutputFeatureDimension dn)) (\<lambda>kernelOutputFeatures.
     rbind (if isDynamicDimSize inputBatch then Inr ()
            else rbind (checked_mod inputBatch batchGroupCount) (\<lambda>r.
              guard (r = 0) (Failure ''expects input batch dimension to be divisible by batch_group_count''))) (\<lambda>_.
     rbind (if isDynamicDimSize inputFeatures then Inr ()
            else rbind (checked_mod inputFeatures featureGroupCount) (\<lambda>r.
                 rbind (guard (r = 0) (Failure ''expects input feature dimension to be a multiple of feature_group_count'')) (\<lambda>_.
                 if isDynamicDimSize kernelInputFeatures then Inr ()
                 else rbind (checked_div inputFeatures featureGroupCount) (\<lambda>q.
                   guard (q = kernelInputFeatures)
                     (Failure ''expects input feature dimension / feature_group_count = kernel input feature dimension''))))) (\<lambda>_.
     rbind (if isDynamicDimSize kernelOutputFeatures then Inr ()
            else rbind (checked_mod kernelOutputFeatures batchGroupCount) (\<lambda>r.
                 rbind (guard (r = 0) (Failure ''expects output feature dimension size to be a multiple of batch_group_count'')) (\<lambda>_.
                 rbind (checked_mod kernelOutputFeatures featureGroupCount) (\<lambda>r.
                   guard (r = 0) (Failure ''expects kernel output feature dimension to be divisible by feature_group_count''))))) (\<lambda>_.
       verifyPrecisionConfig precisionConfig)))))))))"

text \<open>The checks that \<open>convolution\<close> and \<open>dynamic_conv\<close> make before they look at the padding; they give the sizes of the window.\<close>

definition verifyConvolutionArguments ::
  "RankedTensorType \<Rightarrow> RankedTensorType \<Rightarrow> ConvDimensionNumbers \<Rightarrow> int \<Rightarrow> int \<Rightarrow> int option \<Rightarrow> int list result" where
  "verifyConvolutionArguments lhsType rhsType dn featureGroupCount batchGroupCount precisionConfig =
     rbind (guard (2 \<le> rt_rank lhsType) (Failure ''expects convolution arguments to have >= 2 dimensions'')) (\<lambda>_.
     rbind (guard (rt_rank lhsType = rt_rank rhsType) (Failure ''expects convolution arguments to have same number of dimensions'')) (\<lambda>_.
     rbind (guard (isQuantizedType (getElementType lhsType) \<or> isQuantizedType (getElementType rhsType) \<or>
                   isCompatibleElementTypeForHloTypeInference (getElementType lhsType) (getElementType rhsType) \<or>
                   (isFp8Type (getElementType lhsType) \<and> isFp8Type (getElementType rhsType)))
       (Failure ''expects lhs and rhs to have compatible element type'')) (\<lambda>_.
     rbind (verifyConvolutionAttributes lhsType rhsType dn featureGroupCount batchGroupCount precisionConfig) (\<lambda>_.
     rbind (guard (rt_rank lhsType = int (length (inputSpatialDimensions dn)) + 2)
       (Failure ''expects convolution arguments to have another number of dimensions'')) (\<lambda>_.
       mapM (vec_nth (getShape rhsType)) (kernelSpatialDimensions dn))))))"

definition convolution_shape ::
  "RankedTensorType \<Rightarrow> RankedTensorType \<Rightarrow> ConvDimensionNumbers \<Rightarrow> int \<Rightarrow> WindowDimension list \<Rightarrow> int list result" where
  "convolution_shape lhsType rhsType dn batchGroupCount window =
     rbind (mapM (vec_nth (getShape lhsType)) (inputSpatialDimensions dn)) (\<lambda>inputSpatialDimVals.
     rbind (foldM (\<lambda>(d, n) dims. vec_set dims d n)
              (zip (outputSpatialDimensions dn) (inferWindowOutputShape inputSpatialDimVals window))
              (replicate (length (getShape lhsType)) kDynamic)) (\<lambda>outputDimensions.
     rbind (vec_nth (getShape lhsType) (inputBatchDimension dn)) (\<lambda>inputBatch.
     rbind (vec_nth (getShape rhsType) (kernelOutputFeatureDimension dn)) (\<lambda>kernelOutputFeatures.
     rbind (if isDynamicDimSize inputBatch then Inr kDynamic else checked_div inputBatch batchGroupCount) (\<lambda>outputBatch.
     rbind (vec_set outputDimensions (outputBatchDimension dn) outputBatch) (\<lambda>dims.
       vec_set dims (outputFeatureDimension dn) kernelOutputFeatures))))))"

definition inferConvolutionOp ::
  "RankedTensorType \<Rightarrow> RankedTensorType \<Rightarrow> int list option \<Rightarrow> DenseInts option \<Rightarrow> int list option \<Rightarrow> int list option \<Rightarrow>
   bool list option \<Rightarrow> ConvDimensionNumbers \<Rightarrow> int \<Rightarrow> int \<Rightarrow> int option \<Rightarrow> int list result" where
  "inferConvolutionOp lhsType rhsType windowStrides padding lhsDilation rhsDilation windowReversal dn featureGroupCount
     batchGroupCount precisionConfig =
     rbind (verifyConvolutionArguments lhsType rhsType dn featureGroupCount batchGroupCount precisionConfig) (\<lambda>windowDimensions.
     rbind (convertPaddingAttribute padding) (\<lambda>paddings.
     rbind (verifyWindowAttributesAndInferWindowDimensions windowDimensions (value_or_empty windowStrides) paddings
              (value_or_empty lhsDilation) (value_or_empty rhsDilation) (value_or_empty windowReversal)) (\<lambda>window.
       convolution_shape lhsType rhsType dn batchGroupCount window)))"

text \<open>The padding of \<open>dynamic_conv\<close> is an operand: its type, and its values when it is a constant. Without them no shape is inferred.\<close>

definition inferDynamicConvOp ::
  "RankedTensorType \<Rightarrow> RankedTensorType \<Rightarrow> RankedTensorType \<Rightarrow> int list option \<Rightarrow> int list option \<Rightarrow> int list option \<Rightarrow> int list option \<Rightarrow>
   bool list option \<Rightarrow> ConvDimensionNumbers \<Rightarrow> int \<Rightarrow> int \<Rightarrow> int option \<Rightarrow> int list option result" where
  "inferDynamicConvOp lhsType rhsType paddingType paddingValues windowStrides lhsDilation rhsDilation windowReversal dn
     featureGroupCount batchGroupCount precisionConfig =
     rbind (verifyConvolutionArguments lhsType rhsType dn featureGroupCount batchGroupCount precisionConfig) (\<lambda>windowDimensions.
     rbind (guard (rt_rank paddingType = 2) (Failure ''expects padding to be of rank 2'')) (\<lambda>_.
     rbind (guard (getShape paddingType = [rt_rank lhsType - 2, 2]) (Failure ''expects padding to be of another shape'')) (\<lambda>_.
     case paddingValues of None \<Rightarrow> Inr None
     | Some values \<Rightarrow>
         rbind (verifyWindowAttributesAndInferWindowDimensions windowDimensions (value_or_empty windowStrides) (pairs_of values)
                  (value_or_empty lhsDilation) (value_or_empty rhsDilation) (value_or_empty windowReversal)) (\<lambda>window.
         rbind (convolution_shape lhsType rhsType dn batchGroupCount window) (\<lambda>shape. Inr (Some shape))))))"

definition verifyConvolutionOpQuantizationConstraints :: "Type \<Rightarrow> Type \<Rightarrow> Type \<Rightarrow> int \<Rightarrow> int \<Rightarrow> unit result" where
  "verifyConvolutionOpQuantizationConstraints lhsElementType rhsElementType resultElementType kernelOutputFeatureDim outputFeatureDim =
     (if isPerAxisType rhsElementType \<and> q_dimension rhsElementType \<noteq> kernelOutputFeatureDim
      then Inl (Failure ''quantization dimension of rhs should be same with kernel_output_feature_dimension'')
      else if isPerAxisType resultElementType \<and> q_dimension resultElementType \<noteq> outputFeatureDim
      then Inl (Failure ''quantization dimension of result should be same with output_feature_dimension'')
      else verifyConvolutionDotGeneralCommonQuantizationConstraints lhsElementType rhsElementType resultElementType)"

definition anyQuantized :: "RankedTensorType list \<Rightarrow> bool" where
  "anyQuantized types = list_ex (\<lambda>t. isQuantizedType (getElementType t)) types"

definition verifyConvolutionOp ::
  "RankedTensorType \<Rightarrow> RankedTensorType \<Rightarrow> int list option \<Rightarrow> DenseInts option \<Rightarrow> int list option \<Rightarrow> int list option \<Rightarrow>
   bool list option \<Rightarrow> ConvDimensionNumbers \<Rightarrow> int \<Rightarrow> int \<Rightarrow> int option \<Rightarrow> RankedTensorType \<Rightarrow> unit result" where
  "verifyConvolutionOp lhsType rhsType windowStrides padding lhsDilation rhsDilation windowReversal dn featureGroupCount
     batchGroupCount precisionConfig resultType =
     rbind (inferConvolutionOp lhsType rhsType windowStrides padding lhsDilation rhsDilation windowReversal dn featureGroupCount
              batchGroupCount precisionConfig) (\<lambda>inferredShape.
     rbind (guard (verifyCompatibleShape inferredShape (getShape resultType))
       (Failure ''inferred shape is incompatible with return type of operation'')) (\<lambda>_.
       if anyQuantized [lhsType, rhsType, resultType] then
         verifyConvolutionOpQuantizationConstraints (getElementType lhsType) (getElementType rhsType) (getElementType resultType)
           (kernelOutputFeatureDimension dn) (outputFeatureDimension dn)
       else Inr ()))"

definition verifyDynamicConvOp ::
  "RankedTensorType \<Rightarrow> RankedTensorType \<Rightarrow> RankedTensorType \<Rightarrow> int list option \<Rightarrow> int list option \<Rightarrow> int list option \<Rightarrow> int list option \<Rightarrow>
   bool list option \<Rightarrow> ConvDimensionNumbers \<Rightarrow> int \<Rightarrow> int \<Rightarrow> int option \<Rightarrow> RankedTensorType \<Rightarrow> unit result" where
  "verifyDynamicConvOp lhsType rhsType paddingType paddingValues windowStrides lhsDilation rhsDilation windowReversal dn
     featureGroupCount batchGroupCount precisionConfig resultType =
     rbind (inferDynamicConvOp lhsType rhsType paddingType paddingValues windowStrides lhsDilation rhsDilation windowReversal dn
              featureGroupCount batchGroupCount precisionConfig) (\<lambda>_.
       if anyQuantized [lhsType, rhsType, resultType] then
         verifyConvolutionOpQuantizationConstraints (getElementType lhsType) (getElementType rhsType) (getElementType resultType)
           (kernelOutputFeatureDimension dn) (outputFeatureDimension dn)
       else Inr ())"

section \<open>Dot\<close>

definition pushDimensionAndBoundSize :: "int \<Rightarrow> RankedTensorType \<Rightarrow> int list \<Rightarrow> (int \<times> int) result" where
  "pushDimensionAndBoundSize dimension type bounds =
     rbind (vec_nth (getShape type) dimension) (\<lambda>d. rbind (bound_at bounds dimension) (\<lambda>b. Inr (d, b)))"

definition inferDotOp :: "RankedTensorType \<Rightarrow> RankedTensorType \<Rightarrow> int option \<Rightarrow> (int list \<times> Encoding) result" where
  "inferDotOp lhsType rhsType precisionConfig =
     rbind (verifyPrecisionConfig precisionConfig) (\<lambda>_.
     let lhsBounds = encodingToBounds (getEncoding lhsType); rhsBounds = encodingToBounds (getEncoding rhsType) in
     rbind (case (getShape lhsType, getShape rhsType) of
         ([l0], [r0]) \<Rightarrow> if verifyCompatibleDims l0 r0 then Inr [] else Inl (Failure ''expected both lhs/rhs ranks to be either 1 or 2'')
       | ([l0, l1], [r0]) \<Rightarrow>
           if verifyCompatibleDims l1 r0 then mapM (\<lambda>(d, t, b). pushDimensionAndBoundSize d t b) [(0, lhsType, lhsBounds)]
           else Inl (Failure ''expected both lhs/rhs ranks to be either 1 or 2'')
       | ([l0], [r0, r1]) \<Rightarrow>
           if verifyCompatibleDims l0 r0 then mapM (\<lambda>(d, t, b). pushDimensionAndBoundSize d t b) [(1, rhsType, rhsBounds)]
           else Inl (Failure ''expected both lhs/rhs ranks to be either 1 or 2'')
       | ([l0, l1], [r0, r1]) \<Rightarrow>
           if verifyCompatibleDims l1 r0
           then mapM (\<lambda>(d, t, b). pushDimensionAndBoundSize d t b) [(0, lhsType, lhsBounds), (1, rhsType, rhsBounds)]
           else Inl (Failure ''expected both lhs/rhs ranks to be either 1 or 2'')
       | _ \<Rightarrow> Inl (Failure ''expected both lhs/rhs ranks to be either 1 or 2'')) (\<lambda>dims.
     rbind (boundsToEncoding (if getEncoding lhsType \<noteq> NoEncoding then getEncoding lhsType else getEncoding rhsType) (map snd dims))
       (\<lambda>encoding. Inr (map fst dims, encoding))))"

definition verifyDotOp :: "RankedTensorType \<Rightarrow> RankedTensorType \<Rightarrow> int option \<Rightarrow> RankedTensorType \<Rightarrow> unit result" where
  "verifyDotOp lhsType rhsType precisionConfig resultType =
     rbind (inferDotOp lhsType rhsType precisionConfig) (\<lambda>(inferredShape, _).
       guard (verifyCompatibleShape inferredShape (getShape resultType))
         (Failure ''inferred shape is incompatible with return type of operation''))"

fun verifyDotGeneralOpQuantizationConstraints :: "Type \<Rightarrow> Type \<Rightarrow> Type \<Rightarrow> int list \<Rightarrow> unit result" where
  "verifyDotGeneralOpQuantizationConstraints lhsEl rhsEl resultEl rhsContractingDimensions =
     rbind (case rhsEl of
         UniformQuantizedType _ _ _ _ _ zeroPoint \<Rightarrow> guard (zeroPoint = 0) (Failure ''Zero point of rhs should be 0'')
       | UniformQuantizedPerAxisType _ _ _ _ _ zeroPoints dim \<Rightarrow>
           rbind (guard (\<not> list_ex (\<lambda>z. z \<noteq> 0) zeroPoints) (Failure ''Zero points of rhs should be 0'')) (\<lambda>_.
             guard (dim \<notin> set rhsContractingDimensions)
               (Failure ''Quantization dimension of rhs should not be in the contracting dimension of rhs''))
       | _ \<Rightarrow> Inr ()) (\<lambda>_.
       verifyConvolutionDotGeneralCommonQuantizationConstraints lhsEl rhsEl resultEl)"

definition verifyDotGeneralOp ::
  "RankedTensorType \<Rightarrow> RankedTensorType \<Rightarrow> int list \<Rightarrow> int list \<Rightarrow> int list \<Rightarrow> int list \<Rightarrow> int option \<Rightarrow> bool \<Rightarrow> bool \<Rightarrow>
   RankedTensorType \<Rightarrow> unit result" where
  "verifyDotGeneralOp lhsType rhsType lhsBatchingDimensions rhsBatchingDimensions lhsContractingDimensions rhsContractingDimensions
     precisionConfig isDefaultPrecisionConfig hasAlgorithmSpecified resultType =
     rbind (verifyPrecisionConfig precisionConfig) (\<lambda>_.
     rbind (inferDotGeneralOp lhsType rhsType lhsBatchingDimensions rhsBatchingDimensions lhsContractingDimensions
              rhsContractingDimensions) (\<lambda>(inferredShape, _).
     rbind (guard (verifyCompatibleShape inferredShape (getShape resultType))
       (Failure ''inferred shape is incompatible with return type of operation'')) (\<lambda>_.
     rbind (guard (\<not> (\<not> isDefaultPrecisionConfig \<and> hasAlgorithmSpecified))
       (Failure ''must specify DEFAULT precision config when algorithm is set.'')) (\<lambda>_.
       if anyQuantized [lhsType, rhsType, resultType] then
         verifyDotGeneralOpQuantizationConstraints (getElementType lhsType) (getElementType rhsType) (getElementType resultType)
           rhsContractingDimensions
       else Inr ()))))"

definition verifyDotAlgorithmAttr :: "Type \<Rightarrow> Type \<Rightarrow> Type \<Rightarrow> int \<Rightarrow> int \<Rightarrow> int \<Rightarrow> bool \<Rightarrow> unit result" where
  "verifyDotAlgorithmAttr lhsPrecisionType rhsPrecisionType accumulationType lhsComponentCount rhsComponentCount
     numPrimitiveOperations allowImpreciseAccumulation =
     rbind (guard (1 \<le> lhsComponentCount) (Failure ''lhs component count must be positive'')) (\<lambda>_.
     rbind (guard (1 \<le> rhsComponentCount) (Failure ''rhs component count must be positive'')) (\<lambda>_.
     rbind (guard (1 \<le> numPrimitiveOperations) (Failure ''num primitive operations must be positive'')) (\<lambda>_.
       guard (isKnownDotAlgorithm lhsPrecisionType rhsPrecisionType accumulationType lhsComponentCount rhsComponentCount
                numPrimitiveOperations allowImpreciseAccumulation)
         (Failure ''dot algorithm not known to be supported on any hardware''))))"

end
