(* ===== verification/Collective_Types.thy ===== *)
theory Collective_Types
  imports Region_Types APInt
begin

text \<open>
  The shape functions and verifiers of \<^verbatim>\<open>TypeInference.cpp\<close> for collective operations, for \<open>send\<close>, \<open>recv\<close>, \<open>infeed\<close>, and for \<open>composite\<close>. Replica groups
  are a dense attribute, its shape and values, or an attribute on mesh axes, which these checks accept.
\<close>

datatype ReplicaGroups = DenseGroups (groups_shape: "int list") (groups_values: "int list") | MeshAxesGroups

text \<open>The loop over the replica ids: those seen, in reverse order.\<close>

fun collect_replica_ids :: "bool \<Rightarrow> int list \<Rightarrow> int list \<Rightarrow> int list result" where
  "collect_replica_ids allGroupsMustHaveSameSize [] seen = Inr seen"
| "collect_replica_ids allGroupsMustHaveSameSize (replicaId # rest) seen =
     (if replicaId = - 1 then
        (if \<not> allGroupsMustHaveSameSize then collect_replica_ids allGroupsMustHaveSameSize rest seen
         else Inl (Failure ''Invalid replica id -1''))
      else if replicaId \<in> set seen then Inl (Failure ''replica id seen more than once'')
      else collect_replica_ids allGroupsMustHaveSameSize rest (replicaId # seen))"

definition verifyReplicaGroups :: "ReplicaGroups \<Rightarrow> bool \<Rightarrow> bool \<Rightarrow> int option \<Rightarrow> unit result" where
  "verifyReplicaGroups replicaGroups allGroupsMustHaveSameSize useGlobalDeviceIds expectedGroupSize =
     (case replicaGroups of
        MeshAxesGroups \<Rightarrow> Inr ()
      | DenseGroups shape replicaIds \<Rightarrow>
          rbind (guard (length shape = 2) (Failure ''replica groups should be a rank 2 tensor'')) (\<lambda>_.
          rbind (guard (\<not> (useGlobalDeviceIds \<and> shape ! 0 * shape ! 1 = 0))
            (Failure ''if `use_global_device_ids` is set, the replica groups cannot be empty'')) (\<lambda>_.
          rbind (collect_replica_ids allGroupsMustHaveSameSize replicaIds []) (\<lambda>seen.
          rbind (guard (list_all (\<lambda>id. id \<in> set seen) (upto_int (int (length seen))))
            (Failure ''replica id not seen in replica groups'')) (\<lambda>_.
            case expectedGroupSize of
              None \<Rightarrow> Inr ()
            | Some expected \<Rightarrow>
                if allGroupsMustHaveSameSize \<and>
                   (shape ! 0 = 0 \<or> trunc_div (int (length replicaIds)) (shape ! 0) \<noteq> expected)
                then Inl (Failure ''group size of replica_groups must be the expected one'')
                else Inr ())))))"

section \<open>Shape functions\<close>

definition scale_dims :: "int list \<Rightarrow> int \<Rightarrow> int \<Rightarrow> int \<Rightarrow> int list result" where
  "scale_dims dims splitDimension concatDimension splitCount =
     rbind (vec_nth dims splitDimension) (\<lambda>s.
     rbind (if isStaticDimSize s then rbind (checked_div s splitCount) (vec_set dims splitDimension) else Inr dims) (\<lambda>dims'.
     rbind (vec_nth dims' concatDimension) (\<lambda>c.
       if isStaticDimSize c then vec_set dims' concatDimension (c * splitCount) else Inr dims')))"

definition inferAllToAllOp ::
  "RankedTensorType list \<Rightarrow> int \<Rightarrow> int \<Rightarrow> int \<Rightarrow> ReplicaGroups \<Rightarrow> RankedTensorType list result" where
  "inferAllToAllOp operandTypes splitDimension concatDimension splitCount replicaGroups =
     rbind (verifyReplicaGroups replicaGroups True False (Some splitCount)) (\<lambda>_.
       mapM (\<lambda>operandType.
         rbind (guard (splitDimension < rt_rank operandType) (Failure ''AllToAll split_dimension is out-of-bounds'')) (\<lambda>_.
         rbind (guard (concatDimension < rt_rank operandType) (Failure ''AllToAll concat_dimension is out-of-bounds'')) (\<lambda>_.
         rbind (vec_nth (getShape operandType) splitDimension) (\<lambda>s.
         rbind (if isStaticDimSize s then rbind (checked_mod s splitCount) (\<lambda>r.
                  guard (r = 0) (Failure ''split dimension expected to be a multiple of split_count'')) else Inr ()) (\<lambda>_.
         rbind (scale_dims (getShape operandType) splitDimension concatDimension splitCount) (\<lambda>resultShape.
         let bounds = encodingToBounds (getEncoding operandType) in
         rbind (if bounds = [] then Inr [] else scale_dims bounds splitDimension concatDimension splitCount) (\<lambda>resultBounds.
         rbind (boundsToEncoding (getEncoding operandType) resultBounds) (\<lambda>encoding.
           Inr (mkRankedTensorType resultShape (getElementType operandType) encoding)))))))))
         operandTypes)"

definition inferAllReduceOp :: "RankedTensorType list \<Rightarrow> Block option \<Rightarrow> RankedTensorType list result" where
  "inferAllReduceOp inputTypes computation =
     rbind (getAccumulatorTypesOrInputTypes computation inputTypes) (\<lambda>accumulatorTypes.
       mapM (\<lambda>inputType. rbind (vec_nth accumulatorTypes 0) (\<lambda>accumulatorType.
         Inr (getSameShapeTensorType inputType (getElementType accumulatorType)))) inputTypes)"

text \<open>\<^verbatim>\<open>operands.drop_back(1)\<close>.\<close>

definition data_operands :: "bool \<Rightarrow> 'a list \<Rightarrow> 'a list" where
  "data_operands hasDynamicRoot operands = (if hasDynamicRoot then butlast operands else operands)"

definition inferCollectiveBroadcastOp :: "ValueType list \<Rightarrow> bool \<Rightarrow> ValueType list" where
  "inferCollectiveBroadcastOp operandTypes hasDynamicRoot = data_operands hasDynamicRoot operandTypes"

definition inferCollectiveReduceOp :: "RankedTensorType list \<Rightarrow> Block option \<Rightarrow> bool \<Rightarrow> RankedTensorType list result" where
  "inferCollectiveReduceOp operandTypes computation hasDynamicRoot =
     mapM (\<lambda>inputType. rbind (getAccumulatorTypesOrInputTypes computation [inputType]) (\<lambda>accTypes.
       rbind (vec_nth accTypes 0) (\<lambda>accType. Inr (getSameShapeTensorType inputType (getElementType accType)))))
       (data_operands hasDynamicRoot operandTypes)"

definition inferSendOp :: "bool \<Rightarrow> bool \<Rightarrow> bool \<Rightarrow> ValueType result" where
  "inferSendOp isDeviceToDevice isDeviceToHost isHostTransfer =
     rbind (guard (isHostTransfer \<or> isDeviceToDevice)
       (Failure ''channel_type should be DEVICE_TO_DEVICE when is_host_transfer is false'')) (\<lambda>_.
     rbind (guard (\<not> isHostTransfer \<or> isDeviceToHost)
       (Failure ''channel_type should be DEVICE_TO_HOST when is_host_transfer is true'')) (\<lambda>_.
       Inr TokenType))"

section \<open>Verifiers\<close>

text \<open>
  The loop of \<open>all_gather\<close> over operands and results. When the gathered dimension of a pair is dynamic, the verifier returns successfully and
  the pairs after it are not checked.
\<close>

fun verify_gathered :: "(RankedTensorType \<times> RankedTensorType) list \<Rightarrow> int \<Rightarrow> unit result" where
  "verify_gathered [] allGatherDim = Inr ()"
| "verify_gathered ((operandType, resultType) # rest) allGatherDim =
     rbind (guard (allGatherDim < rt_rank operandType) (Failure ''all_gather_dim must be a valid index of operand'')) (\<lambda>_.
     rbind (vec_nth (getShape operandType) allGatherDim) (\<lambda>operandSize.
     rbind (guard (operandSize \<noteq> 0) (Failure ''dimension size of operand at all_gather_dim cannot be zero'')) (\<lambda>_.
     rbind (guard (rt_rank resultType = rt_rank operandType) (Failure ''operand and result must have the same rank'')) (\<lambda>_.
     rbind (guard (list_all (\<lambda>i. i = allGatherDim \<or> verifyCompatibleDims (getShape resultType ! nat i) (getShape operandType ! nat i))
         (upto_int (rt_rank operandType)))
       (Failure ''operand and result should have the same shape except for the dimension size at all_gather_dim'')) (\<lambda>_.
     rbind (vec_nth (getShape resultType) allGatherDim) (\<lambda>resultSize.
       if isDynamicDimSize operandSize \<or> isDynamicDimSize resultSize then Inr ()
       else rbind (guard (trunc_mod resultSize operandSize = 0)
              (Failure ''result gather dimension expected to be a multiple of operand gather dimension size'')) (\<lambda>_.
            verify_gathered rest allGatherDim)))))))"

definition verifyAllGatherOp ::
  "RankedTensorType list \<Rightarrow> int \<Rightarrow> ReplicaGroups \<Rightarrow> int \<Rightarrow> bool \<Rightarrow> RankedTensorType list \<Rightarrow> unit result" where
  "verifyAllGatherOp operandTypes allGatherDim replicaGroups channelId useGlobalDeviceIds resultTypes =
     rbind (verifyReplicaGroups replicaGroups True useGlobalDeviceIds None) (\<lambda>_.
     rbind (guard (\<not> (useGlobalDeviceIds \<and> channelId < 0))
       (Failure ''channel_id cannot be negative when useGlobalDeviceIds is set'')) (\<lambda>_.
       verify_gathered (zip operandTypes resultTypes) allGatherDim))"

definition verifyChannelPositive :: "bool \<Rightarrow> int \<Rightarrow> unit result" where
  "verifyChannelPositive useGlobalDeviceIds channelId =
     guard (\<not> (useGlobalDeviceIds \<and> channelId \<le> 0)) (Failure ''channel_id must be positive when useGlobalDeviceIds is set'')"

text \<open>The computation of a collective operation reduces scalars of each operand's element type.\<close>

definition verifyScalarReducer :: "Block option \<Rightarrow> RankedTensorType \<Rightarrow> unit result" where
  "verifyScalarReducer computation operandType =
     rbind (front_block computation) (\<lambda>block.
       verifyReducerShape block [operandType] [scalarType (getElementType operandType)] [])"

definition verifyAllReduceOp ::
  "RankedTensorType list \<Rightarrow> ReplicaGroups \<Rightarrow> int \<Rightarrow> bool \<Rightarrow> Block option \<Rightarrow> unit result" where
  "verifyAllReduceOp operandTypes replicaGroups channelId useGlobalDeviceIds computation =
     rbind (verifyReplicaGroups replicaGroups False useGlobalDeviceIds None) (\<lambda>_.
     rbind (verifyChannelPositive useGlobalDeviceIds channelId) (\<lambda>_.
       foldM (\<lambda>operandType _. verifyScalarReducer computation operandType) operandTypes ()))"

text \<open>The operands of \<open>collective_reduce\<close> and \<open>collective_broadcast\<close>, of which the last one may be the dynamic root.\<close>

definition verifyRootOperand :: "ValueType list \<Rightarrow> bool \<Rightarrow> unit result" where
  "verifyRootOperand operandTypes hasDynamicRoot =
     rbind (guard (\<not> (\<not> hasDynamicRoot \<and> operandTypes = [])) (Failure ''requires at least one data operand'')) (\<lambda>_.
     if \<not> hasDynamicRoot then Inr ()
     else rbind (guard (2 \<le> length operandTypes) (Failure ''requires at least two operands (data + root)'')) (\<lambda>_.
       case last operandTypes of
         TensorType rootType \<Rightarrow>
           rbind (guard (isInteger (getElementType rootType) 32 \<and> rt_rank rootType = 1)
             (Failure ''last operand must be a rank-1 i32 tensor'')) (\<lambda>_.
             guard (getShape rootType ! 0 = int (length operandTypes) - 1)
               (Failure ''last operand must have the same number of elements as data operands''))
       | _ \<Rightarrow> Inl (Failure ''last operand must be a rank-1 i32 tensor'')))"

definition verifyCollectiveReduceOp ::
  "ValueType list \<Rightarrow> ReplicaGroups \<Rightarrow> int \<Rightarrow> bool \<Rightarrow> bool \<Rightarrow> Block option \<Rightarrow> unit result" where
  "verifyCollectiveReduceOp operandTypes replicaGroups channelId useGlobalDeviceIds hasDynamicRoot computation =
     rbind (verifyReplicaGroups replicaGroups False useGlobalDeviceIds None) (\<lambda>_.
     rbind (verifyChannelPositive useGlobalDeviceIds channelId) (\<lambda>_.
     rbind (verifyRootOperand operandTypes hasDynamicRoot) (\<lambda>_.
       foldM (\<lambda>t _. rbind (castShaped t) (verifyScalarReducer computation)) (data_operands hasDynamicRoot operandTypes) ())))"

fun check_unique_replicas :: "int list \<Rightarrow> int list \<Rightarrow> unit result" where
  "check_unique_replicas [] seen = Inr ()"
| "check_unique_replicas (replicaId # rest) seen =
     (if replicaId < 0 then Inl (Failure ''replica_groups values must be positive'')
      else if replicaId \<in> set seen then Inl (Failure ''replica id seen more than once'')
      else check_unique_replicas rest (replicaId # seen))"

definition verifyCollectiveBroadcastOp :: "ValueType list \<Rightarrow> ReplicaGroups \<Rightarrow> bool \<Rightarrow> unit result" where
  "verifyCollectiveBroadcastOp operandTypes replicaGroups hasDynamicRoot =
     rbind (case replicaGroups of
              MeshAxesGroups \<Rightarrow> Inr ()
            | DenseGroups shape replicaIds \<Rightarrow>
                rbind (guard (length shape = 2) (Failure ''replica groups should be a rank 2 tensor'')) (\<lambda>_.
                  check_unique_replicas replicaIds [])) (\<lambda>_.
       verifyRootOperand operandTypes hasDynamicRoot)"

text \<open>Sources are the values at even positions, targets those at odd positions.\<close>

fun check_source_targets :: "int list \<Rightarrow> int list \<Rightarrow> int list \<Rightarrow> unit result" where
  "check_source_targets (source # rest) sources targets =
     (if source < 0 then Inl (Failure ''replica ids in source_target_pairs must be >= 0.'')
      else if source \<in> set sources then Inl (Failure ''duplicate sources not allowed.'')
      else case rest of [] \<Rightarrow> Inr ()
        | target # rest' \<Rightarrow>
            if target < 0 then Inl (Failure ''replica ids in source_target_pairs must be >= 0.'')
            else if target \<in> set targets then Inl (Failure ''duplicate targets not allowed.'')
            else check_source_targets rest' (source # sources) (target # targets))"
| "check_source_targets [] sources targets = Inr ()"

definition verifyCollectivePermuteOp :: "DenseInts \<Rightarrow> unit result" where
  "verifyCollectivePermuteOp sourceTargetPairs =
     (let (shape, values) = sourceTargetPairs in
      rbind (guard (length shape = 2) (Failure ''expect source_target_pairs attribute to be of rank 2'')) (\<lambda>_.
      rbind (guard (shape ! 1 = 2) (Failure ''expect source_target_pairs attribute of shape (N, 2)'')) (\<lambda>_.
        check_source_targets values [] [])))"

definition verifyReduceScatterOp ::
  "RankedTensorType \<Rightarrow> int \<Rightarrow> ReplicaGroups \<Rightarrow> int \<Rightarrow> bool \<Rightarrow> Block option \<Rightarrow> RankedTensorType \<Rightarrow> unit result" where
  "verifyReduceScatterOp operandType scatterDimension replicaGroups channelId useGlobalDeviceIds computation resultType =
     rbind (verifyReplicaGroups replicaGroups True useGlobalDeviceIds None) (\<lambda>_.
     rbind (verifyScalarReducer computation operandType) (\<lambda>_.
     rbind (guard (rt_rank operandType = rt_rank resultType) (Failure ''operand and result should have same rank'')) (\<lambda>_.
     rbind (guard (scatterDimension < rt_rank operandType) (Failure ''scatter dim should be less than operand/result rank'')) (\<lambda>_.
     rbind (verifyChannelPositive useGlobalDeviceIds channelId) (\<lambda>_.
     rbind (vec_nth (getShape operandType) scatterDimension) (\<lambda>operandSize.
     rbind (vec_nth (getShape resultType) scatterDimension) (\<lambda>resultSize.
     if isDynamicDimSize operandSize \<or> isDynamicDimSize resultSize then Inr ()
     else
       rbind (guard (resultSize \<noteq> 0) (Failure ''result dimension size at scatter_dimension cannot be zero'')) (\<lambda>_.
       rbind (guard (operandSize \<noteq> 0) (Failure ''operand dimension size at scatter_dimension cannot be zero'')) (\<lambda>_.
       rbind (guard (trunc_mod operandSize resultSize = 0)
         (Failure ''operand scatter dimension expected to be a multiple of result scatter dimension size'')) (\<lambda>_.
       rbind (guard (list_all (\<lambda>i. i = scatterDimension \<or> verifyCompatibleDims (getShape operandType ! nat i) (getShape resultType ! nat i))
           (upto_int (rt_rank operandType))) (Failure ''non scatter dimensions should be same for operand and result'')) (\<lambda>_.
       rbind (getAccumulatorTypesOrInputTypes computation [operandType]) (\<lambda>accumulatorTypes.
       rbind (vec_nth accumulatorTypes 0) (\<lambda>accumulatorType.
         guard (getElementType resultType = getElementType accumulatorType)
           (Failure ''result element-type is expected to be that of the accumulator''))))))))))))))"

text \<open>\<open>infeed\<close> and \<open>recv\<close>: tensors and a token at the end. A layout is a list of children, each a list of leaves that may be integers.\<close>

definition verifyInfeedOp :: "(int option list option) list option \<Rightarrow> ValueType list \<Rightarrow> unit result" where
  "verifyInfeedOp layout resultTypes =
     rbind (guard (resultTypes \<noteq> []) (Failure ''result is expected to be at least of size 1'')) (\<lambda>_.
     rbind (guard (list_all isTensorType (butlast resultTypes))
       (Failure ''all elements of result types, except the last element, are expected to be of tensor type'')) (\<lambda>_.
     rbind (guard (isTokenType (last resultTypes)) (Failure ''last element of result types is expected to be of token type'')) (\<lambda>_.
     case layout of None \<Rightarrow> Inr ()
     | Some children \<Rightarrow>
         rbind (guard (length children = length resultTypes - 1) (Failure ''layout-attribute size must be the number of op-results - 1'')) (\<lambda>_.
           foldM (\<lambda>child _. case child of None \<Rightarrow> Inl (Failure ''layout-attribute expected to have elements of type array'')
             | Some leaves \<Rightarrow> guard (list_all (\<lambda>leaf. leaf \<noteq> None) leaves)
                 (Failure ''layout-attribute's leaf elements are expected to be of type integer'')) children ()))))"

definition verifyRecvOp :: "bool \<Rightarrow> bool \<Rightarrow> bool \<Rightarrow> ValueType list \<Rightarrow> unit result" where
  "verifyRecvOp isDeviceToDevice isHostToDevice isHostTransfer resultTypes =
     rbind (guard (isHostTransfer \<or> isDeviceToDevice)
       (Failure ''channel_type should be DEVICE_TO_DEVICE when is_host_transfer is false'')) (\<lambda>_.
     rbind (guard (\<not> isHostTransfer \<or> isHostToDevice)
       (Failure ''channel_type should be HOST_TO_DEVICE when is_host_transfer is true'')) (\<lambda>_.
     rbind (guard (resultTypes \<noteq> []) (Failure ''result is expected to be at least of size 1'')) (\<lambda>_.
     rbind (guard (list_all isTensorType (butlast resultTypes))
       (Failure ''everything but the last element of result types is expected to be of tensor type'')) (\<lambda>_.
       guard (isTokenType (last resultTypes)) (Failure ''last element of result types is expected to be of token type'')))))"

section \<open>Composite\<close>

text \<open>The regular expression \<^verbatim>\<open>^[a-zA-Z][a-zA-Z0-9_]*([.][a-zA-Z0-9_$]+)+$\<close>: segments between dots, the first one a word.\<close>

definition isLetter :: "char \<Rightarrow> bool" where
  "isLetter c = (let n = of_char c :: nat in (97 \<le> n \<and> n \<le> 122) \<or> (65 \<le> n \<and> n \<le> 90))"

definition isWordChar :: "char \<Rightarrow> bool" where
  "isWordChar c = (let n = of_char c :: nat in isLetter c \<or> (48 \<le> n \<and> n \<le> 57) \<or> c = CHR ''_'')"

fun split_dots :: "string \<Rightarrow> string list" where
  "split_dots [] = [[]]"
| "split_dots (c # cs) =
     (if c = CHR ''.'' then [] # split_dots cs
      else case split_dots cs of s # ss \<Rightarrow> (c # s) # ss | [] \<Rightarrow> [[c]])"

definition isCompositeName :: "string \<Rightarrow> bool" where
  "isCompositeName name =
     (case split_dots name of
        [] \<Rightarrow> False
      | first # rest \<Rightarrow>
          first \<noteq> [] \<and> isLetter (hd first) \<and> list_all isWordChar (tl first) \<and> rest \<noteq> [] \<and>
          list_all (\<lambda>s. s \<noteq> [] \<and> list_all (\<lambda>c. isWordChar c \<or> c = CHR ''$'') s) rest)"

text \<open>The symbol table gives the type of the decomposition, its inputs and results, when it is a function.\<close>

definition verifyCompositeOp ::
  "ValueType list \<Rightarrow> ValueType list \<Rightarrow> string \<Rightarrow> string \<Rightarrow> (string \<Rightarrow> (ValueType list \<times> ValueType list) option) \<Rightarrow> unit result" where
  "verifyCompositeOp operandTypes resultTypes name decomposition symbolTable =
     rbind (guard (isCompositeName name) (Failure ''name must be a valid namespaced op name'')) (\<lambda>_.
     case symbolTable decomposition of
       None \<Rightarrow> Inl (Failure ''decomposition does not reference a valid function'')
     | Some (inputs, results) \<Rightarrow>
         rbind (guard (length operandTypes = length inputs) (Failure ''number of operands differs from the decomposition'')) (\<lambda>_.
         rbind (guard (operandTypes = inputs) (Failure ''operand has a type other than the decomposition'')) (\<lambda>_.
         rbind (guard (length resultTypes = length results) (Failure ''number of results differs from the decomposition'')) (\<lambda>_.
           guard (resultTypes = results) (Failure ''result has a type other than the decomposition'')))))"

end
