(* ===== verification/Vhlo_Bytecode.thy ===== *)
theory Vhlo_Bytecode
  imports Vhlo_Convert
begin

text \<open>
  \<^verbatim>\<open>stablehlo/dialect/VhloBytecode.cpp\<close>: how the attributes and types of VHLO are written to and read from MLIR's bytecode. MLIR's
  \<^verbatim>\<open>DialectBytecodeWriter\<close> and \<^verbatim>\<open>DialectBytecodeReader\<close> are the parameter \<open>bytecode\<close>, a record of their operations: a writer
  returns what it appends to the stream, a reader takes the stream and returns what it read with the rest of the stream. A null
  attribute or type that a reader returns is a failure.
\<close>

section \<open>MLIR's writers and readers\<close>

type_synonym ('a, 'b) reader = "'b list \<Rightarrow> ('a \<times> 'b list) result"

text \<open>
  An \<^verbatim>\<open>APFloat\<close> and an \<^verbatim>\<open>APInt\<close> carry their format and their width: \<open>float_fits\<close> and \<open>int_fits\<close> tell which. Nested attributes and
  types go through MLIR's numbering.
\<close>

record 'b bytecode =
  w_VarInt :: "nat \<Rightarrow> 'b list"
  r_VarInt :: "(nat, 'b) reader"
  w_SignedVarInt :: "int \<Rightarrow> 'b list"
  r_SignedVarInt :: "(int, 'b) reader"
  w_SignedVarInts :: "int list \<Rightarrow> 'b list"
  r_SignedVarInts :: "(int list, 'b) reader"
  w_String :: "string \<Rightarrow> 'b list"
  r_String :: "(string, 'b) reader"
  w_Blob :: "int list \<Rightarrow> 'b list"
  r_Blob :: "(int list, 'b) reader"
  w_APFloat :: "double_attr \<Rightarrow> 'b list"
  r_APFloat :: "FloatFormat \<Rightarrow> (double_attr, 'b) reader"
  w_APInt :: "int \<Rightarrow> 'b list"
  r_APInt :: "nat \<Rightarrow> (int, 'b) reader"
  w_Attribute :: "VhloAttr \<Rightarrow> 'b list"
  r_Attribute :: "(VhloAttr, 'b) reader"
  w_OptionalAttribute :: "VhloAttr option \<Rightarrow> 'b list"
  r_OptionalAttribute :: "(VhloAttr option, 'b) reader"
  w_Attributes :: "VhloAttr list \<Rightarrow> 'b list"
  r_Attributes :: "(VhloAttr list, 'b) reader"
  w_Type :: "VhloType \<Rightarrow> 'b list"
  r_Type :: "(VhloType, 'b) reader"
  w_Types :: "VhloType list \<Rightarrow> 'b list"
  r_Types :: "(VhloType list, 'b) reader"
  w_PairList :: "(VhloAttr \<times> VhloAttr \<Rightarrow> 'b list) \<Rightarrow> (VhloAttr \<times> VhloAttr) list \<Rightarrow> 'b list"
  r_PairList :: "(VhloAttr \<times> VhloAttr, 'b) reader \<Rightarrow> ((VhloAttr \<times> VhloAttr) list, 'b) reader"
  w_FloatList :: "(double_attr \<Rightarrow> 'b list) \<Rightarrow> double_attr list \<Rightarrow> 'b list"
  r_FloatList :: "(double_attr, 'b) reader \<Rightarrow> (double_attr list, 'b) reader"
  w_IntList :: "(int \<Rightarrow> 'b list) \<Rightarrow> int list \<Rightarrow> 'b list"
  r_IntList :: "(int, 'b) reader \<Rightarrow> (int list, 'b) reader"
  float_fits :: "FloatFormat \<Rightarrow> double_attr \<Rightarrow> bool"
  int_fits :: "nat \<Rightarrow> int \<Rightarrow> bool"

section \<open>Codes\<close>

text \<open>The markers of attributes and types; \<open>attributeCode_of\<close> and \<open>typeCode_of\<close> are what the \<^verbatim>\<open>switch\<close> statements match.\<close>

datatype AttributeCode =
    kArrayV1Attr | kBooleanV1Attr | kComparisonDirectionV1Attr | kComparisonTypeV1Attr | kCustomCallApiVersionV1Attr |
    kDictionaryV1Attr | kFftTypeV1Attr | kFloatV1Attr | kIntegerV1Attr | kOutputOperandAliasV1Attr | kPrecisionV1Attr |
    kRngAlgorithmV1Attr | kRngDistributionV1Attr | kStringV1Attr | kTensorV1Attr | kTransposeV1Attr | kTypeV1Attr |
    kTypeExtensionsV1Attr | kResultAccuracyModeV1Attr | kResultAccuracyV1Attr | kSubAxisInfoV1Attr | kAxisRefV1Attr |
    kReplicaGroupMeshAxesV1Attr | kMeshAxisV1Attr | kMeshV1Attr

fun attributeCode :: "AttributeCode \<Rightarrow> nat" where
  "attributeCode kArrayV1Attr = 1"
| "attributeCode kBooleanV1Attr = 2"
| "attributeCode kComparisonDirectionV1Attr = 3"
| "attributeCode kComparisonTypeV1Attr = 4"
| "attributeCode kCustomCallApiVersionV1Attr = 5"
| "attributeCode kDictionaryV1Attr = 6"
| "attributeCode kFftTypeV1Attr = 7"
| "attributeCode kFloatV1Attr = 8"
| "attributeCode kIntegerV1Attr = 9"
| "attributeCode kOutputOperandAliasV1Attr = 10"
| "attributeCode kPrecisionV1Attr = 11"
| "attributeCode kRngAlgorithmV1Attr = 12"
| "attributeCode kRngDistributionV1Attr = 13"
| "attributeCode kStringV1Attr = 14"
| "attributeCode kTensorV1Attr = 15"
| "attributeCode kTransposeV1Attr = 16"
| "attributeCode kTypeV1Attr = 17"
| "attributeCode kTypeExtensionsV1Attr = 18"
| "attributeCode kResultAccuracyModeV1Attr = 19"
| "attributeCode kResultAccuracyV1Attr = 20"
| "attributeCode kSubAxisInfoV1Attr = 21"
| "attributeCode kAxisRefV1Attr = 22"
| "attributeCode kReplicaGroupMeshAxesV1Attr = 23"
| "attributeCode kMeshAxisV1Attr = 24"
| "attributeCode kMeshV1Attr = 25"

definition attributeCodes :: "AttributeCode list" where
  "attributeCodes = [
     kArrayV1Attr, kBooleanV1Attr, kComparisonDirectionV1Attr, kComparisonTypeV1Attr, kCustomCallApiVersionV1Attr,
     kDictionaryV1Attr, kFftTypeV1Attr, kFloatV1Attr, kIntegerV1Attr, kOutputOperandAliasV1Attr, kPrecisionV1Attr,
     kRngAlgorithmV1Attr, kRngDistributionV1Attr, kStringV1Attr, kTensorV1Attr, kTransposeV1Attr, kTypeV1Attr,
     kTypeExtensionsV1Attr, kResultAccuracyModeV1Attr, kResultAccuracyV1Attr, kSubAxisInfoV1Attr, kAxisRefV1Attr,
     kReplicaGroupMeshAxesV1Attr, kMeshAxisV1Attr, kMeshV1Attr]"

datatype TypeCode =
    kBooleanV1Type | kComplexV1Type | kFloatBF16V1Type | kFloatF16V1Type | kFloatF32V1Type | kFloatF64V1Type |
    kFloatF8E3M4V1Type | kFloatF8E4M3V1Type | kFloatF8E4M3FNV1Type | kFloatF8E5M2V1Type | kFloatTF32V1Type |
    kFunctionV1Type | kIndexV1Type | kIntegerSI2V1Type | kIntegerSI4V1Type | kIntegerSI8V1Type | kIntegerSI16V1Type |
    kIntegerSI32V1Type | kIntegerSI64V1Type | kIntegerUI2V1Type | kIntegerUI4V1Type | kIntegerUI8V1Type |
    kIntegerUI16V1Type | kIntegerUI32V1Type | kIntegerUI64V1Type | kRankedTensorV1Type |
    kRankedTensorV1TypeWithEncoding | kTokenV1Type | kTupleV1Type | kUniformQuantizedV1Type | kUnrankedTensorV1Type |
    kWitnessV1Type | kFloatF4E2M1FNV1Type | kFloatF6E2M3FNV1Type | kFloatF6E3M2FNV1Type | kFloatF8E4M3FNUZV1Type |
    kFloatF8E5M2FNUZV1Type | kFloatF8E4M3B11FNUZV1Type | kFloatF8E8M0FNUV1Type | kUniformQuantizedPerAxisV1Type |
    kRankedBufferV1Type | kNoneV1Type | kFutureV1Type

fun typeCode :: "TypeCode \<Rightarrow> nat" where
  "typeCode kBooleanV1Type = 0"
| "typeCode kComplexV1Type = 1"
| "typeCode kFloatBF16V1Type = 2"
| "typeCode kFloatF16V1Type = 3"
| "typeCode kFloatF32V1Type = 4"
| "typeCode kFloatF64V1Type = 5"
| "typeCode kFloatF8E3M4V1Type = 36"
| "typeCode kFloatF8E4M3V1Type = 35"
| "typeCode kFloatF8E4M3FNV1Type = 6"
| "typeCode kFloatF8E5M2V1Type = 7"
| "typeCode kFloatTF32V1Type = 34"
| "typeCode kFunctionV1Type = 8"
| "typeCode kIndexV1Type = 9"
| "typeCode kIntegerSI2V1Type = 31"
| "typeCode kIntegerSI4V1Type = 10"
| "typeCode kIntegerSI8V1Type = 11"
| "typeCode kIntegerSI16V1Type = 12"
| "typeCode kIntegerSI32V1Type = 13"
| "typeCode kIntegerSI64V1Type = 14"
| "typeCode kIntegerUI2V1Type = 32"
| "typeCode kIntegerUI4V1Type = 15"
| "typeCode kIntegerUI8V1Type = 16"
| "typeCode kIntegerUI16V1Type = 17"
| "typeCode kIntegerUI32V1Type = 18"
| "typeCode kIntegerUI64V1Type = 19"
| "typeCode kRankedTensorV1Type = 20"
| "typeCode kRankedTensorV1TypeWithEncoding = 21"
| "typeCode kTokenV1Type = 22"
| "typeCode kTupleV1Type = 23"
| "typeCode kUniformQuantizedV1Type = 24"
| "typeCode kUnrankedTensorV1Type = 25"
| "typeCode kWitnessV1Type = 26"
| "typeCode kFloatF4E2M1FNV1Type = 37"
| "typeCode kFloatF6E2M3FNV1Type = 38"
| "typeCode kFloatF6E3M2FNV1Type = 39"
| "typeCode kFloatF8E4M3FNUZV1Type = 27"
| "typeCode kFloatF8E5M2FNUZV1Type = 28"
| "typeCode kFloatF8E4M3B11FNUZV1Type = 29"
| "typeCode kFloatF8E8M0FNUV1Type = 40"
| "typeCode kUniformQuantizedPerAxisV1Type = 30"
| "typeCode kRankedBufferV1Type = 41"
| "typeCode kNoneV1Type = 33"
| "typeCode kFutureV1Type = 42"

definition typeCodes :: "TypeCode list" where
  "typeCodes = [
     kBooleanV1Type, kComplexV1Type, kFloatBF16V1Type, kFloatF16V1Type, kFloatF32V1Type, kFloatF64V1Type,
     kFloatF8E3M4V1Type, kFloatF8E4M3V1Type, kFloatF8E4M3FNV1Type, kFloatF8E5M2V1Type, kFloatTF32V1Type,
     kFunctionV1Type, kIndexV1Type, kIntegerSI2V1Type, kIntegerSI4V1Type, kIntegerSI8V1Type, kIntegerSI16V1Type,
     kIntegerSI32V1Type, kIntegerSI64V1Type, kIntegerUI2V1Type, kIntegerUI4V1Type, kIntegerUI8V1Type,
     kIntegerUI16V1Type, kIntegerUI32V1Type, kIntegerUI64V1Type, kRankedTensorV1Type, kRankedTensorV1TypeWithEncoding,
     kTokenV1Type, kTupleV1Type, kUniformQuantizedV1Type, kUnrankedTensorV1Type, kWitnessV1Type, kFloatF4E2M1FNV1Type,
     kFloatF6E2M3FNV1Type, kFloatF6E3M2FNV1Type, kFloatF8E4M3FNUZV1Type, kFloatF8E5M2FNUZV1Type,
     kFloatF8E4M3B11FNUZV1Type, kFloatF8E8M0FNUV1Type, kUniformQuantizedPerAxisV1Type, kRankedBufferV1Type,
     kNoneV1Type, kFutureV1Type]"

definition attributeCode_of :: "nat \<Rightarrow> AttributeCode option" where
  "attributeCode_of code = find (\<lambda>c. attributeCode c = code) attributeCodes"

definition typeCode_of :: "nat \<Rightarrow> TypeCode option" where
  "typeCode_of code = find (\<lambda>c. typeCode c = code) typeCodes"

section \<open>Enumerations\<close>

text \<open>\<^verbatim>\<open>VhloEnums.td\<close>: the names of the enumerators with their values.\<close>

definition ComparisonDirectionV1 :: "(string \<times> nat) list" where
  "ComparisonDirectionV1 = [(''EQ'', 0), (''NE'', 1), (''GE'', 2), (''GT'', 3), (''LE'', 4), (''LT'', 5)]"

definition ComparisonTypeV1 :: "(string \<times> nat) list" where
  "ComparisonTypeV1 = [(''NOTYPE'', 0), (''FLOAT'', 1), (''TOTALORDER'', 2), (''SIGNED'', 3), (''UNSIGNED'', 4)]"

definition CustomCallApiVersionV1 :: "(string \<times> nat) list" where
  "CustomCallApiVersionV1 =
     [(''API_VERSION_UNSPECIFIED'', 0), (''API_VERSION_ORIGINAL'', 1), (''API_VERSION_STATUS_RETURNING'', 2),
      (''API_VERSION_STATUS_RETURNING_UNIFIED'', 3), (''API_VERSION_TYPED_FFI'', 4)]"

definition FftTypeV1 :: "(string \<times> nat) list" where
  "FftTypeV1 = [(''FFT'', 0), (''IFFT'', 1), (''RFFT'', 2), (''IRFFT'', 3)]"

definition PrecisionV1 :: "(string \<times> nat) list" where
  "PrecisionV1 = [(''DEFAULT'', 0), (''HIGH'', 1), (''HIGHEST'', 2)]"

definition RngAlgorithmV1 :: "(string \<times> nat) list" where
  "RngAlgorithmV1 = [(''DEFAULT'', 0), (''THREE_FRY'', 1), (''PHILOX'', 2)]"

definition RngDistributionV1 :: "(string \<times> nat) list" where
  "RngDistributionV1 = [(''UNIFORM'', 1), (''NORMAL'', 2)]"

definition TransposeV1 :: "(string \<times> nat) list" where
  "TransposeV1 = [(''TRANSPOSE_INVALID'', 0), (''NO_TRANSPOSE'', 1), (''TRANSPOSE'', 2), (''ADJOINT'', 3)]"

definition ResultAccuracyModeV1 :: "(string \<times> nat) list" where
  "ResultAccuracyModeV1 = [(''DEFAULT'', 0), (''HIGHEST'', 1), (''TOLERANCE'', 2)]"

text \<open>\<^verbatim>\<open>symbolize\<close> finds the enumerator with a value, which \<^verbatim>\<open>readEnumAttribute\<close> cuts to 32 bits.\<close>

definition symbolize :: "(string \<times> nat) list \<Rightarrow> nat \<Rightarrow> string option" where
  "symbolize enum code = map_option fst (find (\<lambda>(name, value). value = code) enum)"

definition readEnumAttribute :: "'b bytecode \<Rightarrow> (string \<times> nat) list \<Rightarrow> (string \<Rightarrow> VhloLeaf) \<Rightarrow> (VhloAttr, 'b) reader" where
  "readEnumAttribute B enum attr s =
     rbind (r_VarInt B s) (\<lambda>(code, s).
       case symbolize enum (code mod 2 ^ 32) of None \<Rightarrow> Inl (Failure '''') | Some value \<Rightarrow> Inr (LeafV1 (attr value), s))"

definition writeEnumAttribute :: "'b bytecode \<Rightarrow> (string \<times> nat) list \<Rightarrow> string \<Rightarrow> 'b list result" where
  "writeEnumAttribute B enum value =
     (case map_of enum value of None \<Rightarrow> Inl (UB ''not an enumerator'') | Some code \<Rightarrow> Inr (w_VarInt B code))"

definition marked :: "'b bytecode \<Rightarrow> AttributeCode \<Rightarrow> 'b list \<Rightarrow> 'b list" where
  "marked B code body = w_VarInt B (attributeCode code) @ body"

section \<open>Attributes of enumerations\<close>

definition readComparisonDirectionV1Attr :: "'b bytecode \<Rightarrow> (VhloAttr, 'b) reader" where
  "readComparisonDirectionV1Attr B = readEnumAttribute B ComparisonDirectionV1 (EnumV1Attr ''ComparisonDirectionV1'')"

definition writeComparisonDirectionV1Attr :: "'b bytecode \<Rightarrow> string \<Rightarrow> 'b list result" where
  "writeComparisonDirectionV1Attr B value = rbind (writeEnumAttribute B ComparisonDirectionV1 value) (\<lambda>bytes. Inr (marked B kComparisonDirectionV1Attr bytes))"

definition readComparisonTypeV1Attr :: "'b bytecode \<Rightarrow> (VhloAttr, 'b) reader" where
  "readComparisonTypeV1Attr B = readEnumAttribute B ComparisonTypeV1 (EnumV1Attr ''ComparisonTypeV1'')"

definition writeComparisonTypeV1Attr :: "'b bytecode \<Rightarrow> string \<Rightarrow> 'b list result" where
  "writeComparisonTypeV1Attr B value = rbind (writeEnumAttribute B ComparisonTypeV1 value) (\<lambda>bytes. Inr (marked B kComparisonTypeV1Attr bytes))"

definition readFftTypeV1Attr :: "'b bytecode \<Rightarrow> (VhloAttr, 'b) reader" where
  "readFftTypeV1Attr B = readEnumAttribute B FftTypeV1 (EnumV1Attr ''FftTypeV1'')"

definition writeFftTypeV1Attr :: "'b bytecode \<Rightarrow> string \<Rightarrow> 'b list result" where
  "writeFftTypeV1Attr B value = rbind (writeEnumAttribute B FftTypeV1 value) (\<lambda>bytes. Inr (marked B kFftTypeV1Attr bytes))"

definition readPrecisionV1Attr :: "'b bytecode \<Rightarrow> (VhloAttr, 'b) reader" where
  "readPrecisionV1Attr B = readEnumAttribute B PrecisionV1 (EnumV1Attr ''PrecisionV1'')"

definition writePrecisionV1Attr :: "'b bytecode \<Rightarrow> string \<Rightarrow> 'b list result" where
  "writePrecisionV1Attr B value = rbind (writeEnumAttribute B PrecisionV1 value) (\<lambda>bytes. Inr (marked B kPrecisionV1Attr bytes))"

definition readRngAlgorithmV1Attr :: "'b bytecode \<Rightarrow> (VhloAttr, 'b) reader" where
  "readRngAlgorithmV1Attr B = readEnumAttribute B RngAlgorithmV1 (EnumV1Attr ''RngAlgorithmV1'')"

definition writeRngAlgorithmV1Attr :: "'b bytecode \<Rightarrow> string \<Rightarrow> 'b list result" where
  "writeRngAlgorithmV1Attr B value = rbind (writeEnumAttribute B RngAlgorithmV1 value) (\<lambda>bytes. Inr (marked B kRngAlgorithmV1Attr bytes))"

definition readRngDistributionV1Attr :: "'b bytecode \<Rightarrow> (VhloAttr, 'b) reader" where
  "readRngDistributionV1Attr B = readEnumAttribute B RngDistributionV1 (EnumV1Attr ''RngDistributionV1'')"

definition writeRngDistributionV1Attr :: "'b bytecode \<Rightarrow> string \<Rightarrow> 'b list result" where
  "writeRngDistributionV1Attr B value = rbind (writeEnumAttribute B RngDistributionV1 value) (\<lambda>bytes. Inr (marked B kRngDistributionV1Attr bytes))"

definition readTransposeV1Attr :: "'b bytecode \<Rightarrow> (VhloAttr, 'b) reader" where
  "readTransposeV1Attr B = readEnumAttribute B TransposeV1 (EnumV1Attr ''TransposeV1'')"

definition writeTransposeV1Attr :: "'b bytecode \<Rightarrow> string \<Rightarrow> 'b list result" where
  "writeTransposeV1Attr B value = rbind (writeEnumAttribute B TransposeV1 value) (\<lambda>bytes. Inr (marked B kTransposeV1Attr bytes))"

definition readCustomCallApiVersionV1Attr :: "'b bytecode \<Rightarrow> (VhloAttr, 'b) reader" where
  "readCustomCallApiVersionV1Attr B = readEnumAttribute B CustomCallApiVersionV1 CustomCallApiVersionV1Attr"

definition writeCustomCallApiVersionV1Attr :: "'b bytecode \<Rightarrow> string \<Rightarrow> 'b list result" where
  "writeCustomCallApiVersionV1Attr B value = rbind (writeEnumAttribute B CustomCallApiVersionV1 value) (\<lambda>bytes. Inr (marked B kCustomCallApiVersionV1Attr bytes))"

definition readResultAccuracyModeV1Attr :: "'b bytecode \<Rightarrow> (VhloAttr, 'b) reader" where
  "readResultAccuracyModeV1Attr B = readEnumAttribute B ResultAccuracyModeV1 ResultAccuracyModeV1Attr"

definition writeResultAccuracyModeV1Attr :: "'b bytecode \<Rightarrow> string \<Rightarrow> 'b list result" where
  "writeResultAccuracyModeV1Attr B value = rbind (writeEnumAttribute B ResultAccuracyModeV1 value) (\<lambda>bytes. Inr (marked B kResultAccuracyModeV1Attr bytes))"

section \<open>Other attributes\<close>

definition readArrayV1Attr :: "'b bytecode \<Rightarrow> (VhloAttr, 'b) reader" where
  "readArrayV1Attr B s = rbind (r_Attributes B s) (\<lambda>(elements, s). Inr (ArrayV1 elements, s))"

definition writeArrayV1Attr :: "'b bytecode \<Rightarrow> VhloAttr list \<Rightarrow> 'b list" where
  "writeArrayV1Attr B elements = marked B kArrayV1Attr (w_Attributes B elements)"

definition readBooleanV1Attr :: "'b bytecode \<Rightarrow> (VhloAttr, 'b) reader" where
  "readBooleanV1Attr B s =
     rbind (r_VarInt B s) (\<lambda>(int_value, s).
       if int_value \<noteq> 0 \<and> int_value \<noteq> 1 then Inl (Failure ''unsupported value: '')
       else Inr (LeafV1 (BooleanV1Attr (int_value = 1)), s))"

definition writeBooleanV1Attr :: "'b bytecode \<Rightarrow> bool \<Rightarrow> 'b list" where
  "writeBooleanV1Attr B value = marked B kBooleanV1Attr (w_VarInt B (if value then 1 else 0))"

definition readNamedAttr :: "'b bytecode \<Rightarrow> (VhloAttr \<times> VhloAttr, 'b) reader" where
  "readNamedAttr B s =
     rbind (r_Attribute B s) (\<lambda>(name, s). rbind (r_Attribute B s) (\<lambda>(value, s). Inr ((name, value), s)))"

definition readDictionaryV1Attr :: "'b bytecode \<Rightarrow> (VhloAttr, 'b) reader" where
  "readDictionaryV1Attr B s = rbind (r_PairList B (readNamedAttr B) s) (\<lambda>(attrs, s). Inr (DictionaryV1 attrs, s))"

definition writeDictionaryV1Attr :: "'b bytecode \<Rightarrow> (VhloAttr \<times> VhloAttr) list \<Rightarrow> 'b list" where
  "writeDictionaryV1Attr B attrs =
     marked B kDictionaryV1Attr (w_PairList B (\<lambda>(name, value). w_Attribute B name @ w_Attribute B value) attrs)"

fun getFloatSemantics :: "VhloType \<Rightarrow> FloatFormat result" where
  "getFloatSemantics (ScalarV1 FloatBF16V1) = Inr BFloat16"
| "getFloatSemantics (ScalarV1 FloatF16V1) = Inr Float16"
| "getFloatSemantics (ScalarV1 FloatF32V1) = Inr Float32"
| "getFloatSemantics (ScalarV1 FloatF4E2M1FNV1) = Inr Float4E2M1FN"
| "getFloatSemantics (ScalarV1 FloatF64V1) = Inr Float64"
| "getFloatSemantics (ScalarV1 FloatF6E2M3FNV1) = Inr Float6E2M3FN"
| "getFloatSemantics (ScalarV1 FloatF6E3M2FNV1) = Inr Float6E3M2FN"
| "getFloatSemantics (ScalarV1 FloatF8E3M4V1) = Inr Float8E3M4"
| "getFloatSemantics (ScalarV1 FloatF8E4M3FNUZV1) = Inr Float8E4M3FNUZ"
| "getFloatSemantics (ScalarV1 FloatF8E4M3B11FNUZV1) = Inr Float8E4M3B11FNUZ"
| "getFloatSemantics (ScalarV1 FloatF8E4M3FNV1) = Inr Float8E4M3FN"
| "getFloatSemantics (ScalarV1 FloatF8E4M3V1) = Inr Float8E4M3"
| "getFloatSemantics (ScalarV1 FloatF8E5M2FNUZV1) = Inr Float8E5M2FNUZ"
| "getFloatSemantics (ScalarV1 FloatF8E5M2V1) = Inr Float8E5M2"
| "getFloatSemantics (ScalarV1 FloatF8E8M0FNUV1) = Inr Float8E8M0FNU"
| "getFloatSemantics (ScalarV1 FloatTF32V1) = Inr FloatTF32"
| "getFloatSemantics _ = Inl (Fatal ''unsupported floating-point type'')"

definition readFloatV1Attr :: "'b bytecode \<Rightarrow> (VhloAttr, 'b) reader" where
  "readFloatV1Attr B s =
     rbind (r_Type B s) (\<lambda>(type, s). rbind (getFloatSemantics type) (\<lambda>semantics.
     rbind (r_APFloat B semantics s) (\<lambda>(value, s). Inr (FloatV1 type value, s))))"

definition writeFloatV1Attr :: "'b bytecode \<Rightarrow> VhloType \<Rightarrow> double_attr \<Rightarrow> 'b list" where
  "writeFloatV1Attr B type value = marked B kFloatV1Attr (w_Type B type @ w_APFloat B value)"

fun getBitWidthForIntegerType :: "VhloType \<Rightarrow> nat result" where
  "getBitWidthForIntegerType (ScalarV1 IntegerSI4V1) = Inr 4"
| "getBitWidthForIntegerType (ScalarV1 IntegerUI4V1) = Inr 4"
| "getBitWidthForIntegerType (ScalarV1 IntegerSI8V1) = Inr 8"
| "getBitWidthForIntegerType (ScalarV1 IntegerUI8V1) = Inr 8"
| "getBitWidthForIntegerType (ScalarV1 IntegerSI16V1) = Inr 16"
| "getBitWidthForIntegerType (ScalarV1 IntegerUI16V1) = Inr 16"
| "getBitWidthForIntegerType (ScalarV1 IntegerSI32V1) = Inr 32"
| "getBitWidthForIntegerType (ScalarV1 IntegerUI32V1) = Inr 32"
| "getBitWidthForIntegerType (ScalarV1 IntegerSI64V1) = Inr 64"
| "getBitWidthForIntegerType (ScalarV1 IntegerUI64V1) = Inr 64"
| "getBitWidthForIntegerType _ = Inl (Fatal ''unsupported integer type'')"

text \<open>\<^verbatim>\<open>IndexType::kInternalStorageBitWidth\<close> is 64.\<close>

definition integer_width :: "VhloType \<Rightarrow> nat result" where
  "integer_width type = (if type = ScalarV1 IndexV1 then Inr 64 else getBitWidthForIntegerType type)"

definition readIntegerV1Attr :: "'b bytecode \<Rightarrow> (VhloAttr, 'b) reader" where
  "readIntegerV1Attr B s =
     rbind (r_Type B s) (\<lambda>(type, s). rbind (integer_width type) (\<lambda>bitWidth.
     rbind (r_APInt B bitWidth s) (\<lambda>(value, s). Inr (IntegerV1 type value, s))))"

definition writeIntegerV1Attr :: "'b bytecode \<Rightarrow> VhloType \<Rightarrow> int \<Rightarrow> 'b list" where
  "writeIntegerV1Attr B type value = marked B kIntegerV1Attr (w_Type B type @ w_APInt B value)"

definition readOutputOperandAliasV1Attr :: "'b bytecode \<Rightarrow> (VhloAttr, 'b) reader" where
  "readOutputOperandAliasV1Attr B s =
     rbind (r_SignedVarInts B s) (\<lambda>(outputTupleIndices, s). rbind (r_SignedVarInt B s) (\<lambda>(operandIndex, s).
     rbind (r_SignedVarInts B s) (\<lambda>(operandTupleIndices, s).
       Inr (LeafV1 (OutputOperandAliasV1Attr outputTupleIndices operandIndex operandTupleIndices), s))))"

definition writeOutputOperandAliasV1Attr :: "'b bytecode \<Rightarrow> int list \<Rightarrow> int \<Rightarrow> int list \<Rightarrow> 'b list" where
  "writeOutputOperandAliasV1Attr B outputTupleIndices operandIndex operandTupleIndices =
     marked B kOutputOperandAliasV1Attr
       (w_SignedVarInts B outputTupleIndices @ w_SignedVarInt B operandIndex @ w_SignedVarInts B operandTupleIndices)"

definition readStringV1Attr :: "'b bytecode \<Rightarrow> (VhloAttr, 'b) reader" where
  "readStringV1Attr B s = rbind (r_String B s) (\<lambda>(string, s). Inr (LeafV1 (StringV1Attr string), s))"

definition writeStringV1Attr :: "'b bytecode \<Rightarrow> string \<Rightarrow> 'b list" where
  "writeStringV1Attr B value = marked B kStringV1Attr (w_String B value)"

definition readTypeV1Attr :: "'b bytecode \<Rightarrow> (VhloAttr, 'b) reader" where
  "readTypeV1Attr B s = rbind (r_Type B s) (\<lambda>(type, s). Inr (TypeV1 type, s))"

definition writeTypeV1Attr :: "'b bytecode \<Rightarrow> VhloType \<Rightarrow> 'b list" where
  "writeTypeV1Attr B type = marked B kTypeV1Attr (w_Type B type)"

definition readTypeExtensionsV1Attr :: "'b bytecode \<Rightarrow> (VhloAttr, 'b) reader" where
  "readTypeExtensionsV1Attr B s = rbind (r_SignedVarInts B s) (\<lambda>(bounds, s). Inr (LeafV1 (TypeExtensionsV1Attr bounds), s))"

definition writeTypeExtensionsV1Attr :: "'b bytecode \<Rightarrow> int list \<Rightarrow> 'b list" where
  "writeTypeExtensionsV1Attr B bounds = marked B kTypeExtensionsV1Attr (w_SignedVarInts B bounds)"

text \<open>\<^verbatim>\<open>readAttribute(mode)\<close> fails when the attribute is not of the class of \<open>mode\<close>.\<close>

fun is_result_accuracy_mode :: "VhloAttr \<Rightarrow> bool" where
  "is_result_accuracy_mode (LeafV1 (ResultAccuracyModeV1Attr mode)) = True"
| "is_result_accuracy_mode _ = False"

definition readResultAccuracyV1Attr :: "'b bytecode \<Rightarrow> (VhloAttr, 'b) reader" where
  "readResultAccuracyV1Attr B s =
     rbind (r_APFloat B Float64 s) (\<lambda>(atol, s). rbind (r_APFloat B Float64 s) (\<lambda>(rtol, s).
     rbind (r_SignedVarInt B s) (\<lambda>(ulps, s). rbind (r_Attribute B s) (\<lambda>(mode, s).
       if is_result_accuracy_mode mode then Inr (ResultAccuracyV1 atol rtol ulps mode, s) else Inl (Failure '''')))))"

definition writeResultAccuracyV1Attr :: "'b bytecode \<Rightarrow> double_attr \<Rightarrow> double_attr \<Rightarrow> int \<Rightarrow> VhloAttr \<Rightarrow> 'b list" where
  "writeResultAccuracyV1Attr B atol rtol ulps mode =
     marked B kResultAccuracyV1Attr (w_APFloat B atol @ w_APFloat B rtol @ w_SignedVarInt B ulps @ w_Attribute B mode)"

definition readSubAxisInfoV1Attr :: "'b bytecode \<Rightarrow> (VhloAttr, 'b) reader" where
  "readSubAxisInfoV1Attr B s =
     rbind (r_SignedVarInt B s) (\<lambda>(preSize, s). rbind (r_SignedVarInt B s) (\<lambda>(sz, s).
       Inr (LeafV1 (SubAxisInfoV1Attr preSize sz), s)))"

definition writeSubAxisInfoV1Attr :: "'b bytecode \<Rightarrow> int \<Rightarrow> int \<Rightarrow> 'b list" where
  "writeSubAxisInfoV1Attr B preSize sz = marked B kSubAxisInfoV1Attr (w_SignedVarInt B preSize @ w_SignedVarInt B sz)"

definition readAxisRefV1Attr :: "'b bytecode \<Rightarrow> (VhloAttr, 'b) reader" where
  "readAxisRefV1Attr B s =
     rbind (r_Attribute B s) (\<lambda>(name, s). rbind (r_VarInt B s) (\<lambda>(hasSubAxisInfo, s).
       if hasSubAxisInfo \<noteq> 0 then rbind (r_Attribute B s) (\<lambda>(subAxisInfo, s). Inr (AxisRefV1 name (Some subAxisInfo), s))
       else Inr (AxisRefV1 name None, s)))"

definition writeAxisRefV1Attr :: "'b bytecode \<Rightarrow> VhloAttr \<Rightarrow> VhloAttr option \<Rightarrow> 'b list" where
  "writeAxisRefV1Attr B name subAxisInfo =
     marked B kAxisRefV1Attr (w_Attribute B name @
       (case subAxisInfo of Some info \<Rightarrow> w_VarInt B 1 @ w_Attribute B info | None \<Rightarrow> w_VarInt B 0))"

definition readReplicaGroupMeshAxesV1Attr :: "'b bytecode \<Rightarrow> (VhloAttr, 'b) reader" where
  "readReplicaGroupMeshAxesV1Attr B s =
     rbind (r_Attribute B s) (\<lambda>(mesh, s). rbind (r_Attribute B s) (\<lambda>(axes, s). Inr (ReplicaGroupMeshAxesV1 mesh axes, s)))"

definition writeReplicaGroupMeshAxesV1Attr :: "'b bytecode \<Rightarrow> VhloAttr \<Rightarrow> VhloAttr \<Rightarrow> 'b list" where
  "writeReplicaGroupMeshAxesV1Attr B mesh axes =
     marked B kReplicaGroupMeshAxesV1Attr (w_Attribute B mesh @ w_Attribute B axes)"

definition readMeshAxisV1Attr :: "'b bytecode \<Rightarrow> (VhloAttr, 'b) reader" where
  "readMeshAxisV1Attr B s =
     rbind (r_Attribute B s) (\<lambda>(name, s). rbind (r_SignedVarInt B s) (\<lambda>(sz, s). Inr (MeshAxisV1 name sz, s)))"

definition writeMeshAxisV1Attr :: "'b bytecode \<Rightarrow> VhloAttr \<Rightarrow> int \<Rightarrow> 'b list" where
  "writeMeshAxisV1Attr B name sz = marked B kMeshAxisV1Attr (w_Attribute B name @ w_SignedVarInt B sz)"

definition readMeshV1Attr :: "'b bytecode \<Rightarrow> (VhloAttr, 'b) reader" where
  "readMeshV1Attr B s =
     rbind (r_Attribute B s) (\<lambda>(axes, s). rbind (r_OptionalAttribute B s) (\<lambda>(device_ids, s). Inr (MeshV1 axes device_ids, s)))"

definition writeMeshV1Attr :: "'b bytecode \<Rightarrow> VhloAttr \<Rightarrow> VhloAttr option \<Rightarrow> 'b list" where
  "writeMeshV1Attr B axes device_ids = marked B kMeshV1Attr (w_Attribute B axes @ w_OptionalAttribute B device_ids)"

section \<open>Tensor attributes\<close>

text \<open>
  The data of a tensor attribute are its bytes; of a splat only one element is stored. Tensors of booleans are packed to bits, with
  0xFF for a splat of true; older files have them unpacked.
\<close>

fun isBooleanType :: "VhloType \<Rightarrow> bool" where
  "isBooleanType (RankedTensorV1 shape elementType encoding) = (elementType = ScalarV1 BooleanV1)"
| "isBooleanType _ = False"

fun tensor_shape :: "VhloType \<Rightarrow> int list" where
  "tensor_shape (RankedTensorV1 shape elementType encoding) = shape"
| "tensor_shape _ = []"

definition getNumElements_of :: "VhloType \<Rightarrow> nat" where
  "getNumElements_of type = nat (prod_list (tensor_shape type))"

definition packedSize :: "nat \<Rightarrow> nat" where
  "packedSize numElements = (numElements + 7) div 8"

definition bit_of_byte :: "int \<Rightarrow> nat \<Rightarrow> bool" where
  "bit_of_byte byte k \<longleftrightarrow> and byte (push_bit k 1) \<noteq> 0"

definition unpack :: "nat \<Rightarrow> int list \<Rightarrow> int list" where
  "unpack numElements blob = map (\<lambda>i. if bit_of_byte (blob ! (i div 8)) (i mod 8) then 1 else 0) [0..<numElements]"

definition readVhloTensorV1Attr :: "'b bytecode \<Rightarrow> VhloType \<Rightarrow> (int list, 'b) reader" where
  "readVhloTensorV1Attr B type s =
     rbind (r_Blob B s) (\<lambda>(blob, s).
       if \<not> isBooleanType type then Inr (blob, s)
       else let numElements = getNumElements_of type in
         if blob = [255] then Inr ([1], s)
         else if length blob = packedSize numElements \<and> length blob \<noteq> numElements then Inr (unpack numElements blob, s)
         else Inr (blob, s))"

text \<open>The loop that sets one bit after the other.\<close>

definition pack :: "nat \<Rightarrow> int list \<Rightarrow> int list" where
  "pack numElements rawData =
     foldl (\<lambda>data i. if rawData ! i \<noteq> 0 then data[i div 8 := or (data ! (i div 8)) (push_bit (i mod 8) 1)] else data)
       (replicate (packedSize numElements) 0) [0..<numElements]"

definition writeVhloTensorV1Attr :: "'b bytecode \<Rightarrow> VhloType \<Rightarrow> int list \<Rightarrow> 'b list result" where
  "writeVhloTensorV1Attr B type rawData =
     (if \<not> isBooleanType type then Inr (w_Blob B rawData)
      else let numElements = getNumElements_of type in
        if length rawData = 1 \<and> 1 < numElements then Inr (w_Blob B [if rawData ! 0 \<noteq> 0 then 255 else 0])
        else if length rawData < numElements then Inl (UB ''read past the end of the raw data'')
        else Inr (w_Blob B (pack numElements rawData)))"

fun is_shaped :: "VhloType \<Rightarrow> bool" where
  "is_shaped (RankedTensorV1 shape elementType encoding) = True"
| "is_shaped (UnrankedTensorV1 elementType) = True"
| "is_shaped (RankedBufferV1 shape elementType) = True"
| "is_shaped _ = False"

definition readTensorV1Attr :: "'b bytecode \<Rightarrow> (VhloAttr, 'b) reader" where
  "readTensorV1Attr B s =
     rbind (r_Type B s) (\<lambda>(type, s). rbind (readVhloTensorV1Attr B type s) (\<lambda>(blob, s).
       if is_shaped type then Inr (TensorV1 type blob, s) else Inl (UB ''cast to a shaped type'')))"

definition writeTensorV1Attr :: "'b bytecode \<Rightarrow> VhloType \<Rightarrow> int list \<Rightarrow> 'b list result" where
  "writeTensorV1Attr B type rawData =
     rbind (writeVhloTensorV1Attr B type rawData) (\<lambda>blob. Inr (marked B kTensorV1Attr (w_Type B type @ blob)))"

section \<open>Types\<close>

definition marked_type :: "'b bytecode \<Rightarrow> TypeCode \<Rightarrow> 'b list \<Rightarrow> 'b list" where
  "marked_type B code body = w_VarInt B (typeCode code) @ body"

definition readComplexV1Type :: "'b bytecode \<Rightarrow> (VhloType, 'b) reader" where
  "readComplexV1Type B s = rbind (r_Type B s) (\<lambda>(elementType, s). Inr (ComplexV1 elementType, s))"

definition writeComplexV1Type :: "'b bytecode \<Rightarrow> VhloType \<Rightarrow> 'b list" where
  "writeComplexV1Type B elementType = marked_type B kComplexV1Type (w_Type B elementType)"

definition readFunctionV1Type :: "'b bytecode \<Rightarrow> (VhloType, 'b) reader" where
  "readFunctionV1Type B s =
     rbind (r_Types B s) (\<lambda>(inputs, s). rbind (r_Types B s) (\<lambda>(outputs, s). Inr (FunctionV1 inputs outputs, s)))"

definition writeFunctionV1Type :: "'b bytecode \<Rightarrow> VhloType list \<Rightarrow> VhloType list \<Rightarrow> 'b list" where
  "writeFunctionV1Type B inputs outputs = marked_type B kFunctionV1Type (w_Types B inputs @ w_Types B outputs)"

definition readRankedTensorV1Type :: "'b bytecode \<Rightarrow> bool \<Rightarrow> (VhloType, 'b) reader" where
  "readRankedTensorV1Type B hasEncoding s =
     rbind (if hasEncoding then rbind (r_Attribute B s) (\<lambda>(encoding, s). Inr (Some encoding, s)) else Inr (None, s))
       (\<lambda>(encoding, s). rbind (r_SignedVarInts B s) (\<lambda>(shape, s). rbind (r_Type B s) (\<lambda>(elementType, s).
         Inr (RankedTensorV1 shape elementType encoding, s))))"

definition writeRankedTensorV1Type :: "'b bytecode \<Rightarrow> int list \<Rightarrow> VhloType \<Rightarrow> VhloAttr option \<Rightarrow> 'b list" where
  "writeRankedTensorV1Type B shape elementType encoding =
     (case encoding of
        Some a \<Rightarrow> marked_type B kRankedTensorV1TypeWithEncoding (w_Attribute B a)
      | None \<Rightarrow> marked_type B kRankedTensorV1Type []) @ w_SignedVarInts B shape @ w_Type B elementType"

definition readTokenV1Type :: "'b bytecode \<Rightarrow> (VhloType, 'b) reader" where
  "readTokenV1Type B s = Inr (ScalarV1 TokenV1, s)"

definition readFutureV1Type :: "'b bytecode \<Rightarrow> (VhloType, 'b) reader" where
  "readFutureV1Type B s = rbind (r_Types B s) (\<lambda>(types, s). Inr (FutureV1 types, s))"

definition writeFutureV1Type :: "'b bytecode \<Rightarrow> VhloType list \<Rightarrow> 'b list" where
  "writeFutureV1Type B types = marked_type B kFutureV1Type (w_Types B types)"

definition readTupleV1Type :: "'b bytecode \<Rightarrow> (VhloType, 'b) reader" where
  "readTupleV1Type B s = rbind (r_Types B s) (\<lambda>(elements, s). Inr (TupleV1 elements, s))"

definition writeTupleV1Type :: "'b bytecode \<Rightarrow> VhloType list \<Rightarrow> 'b list" where
  "writeTupleV1Type B types = marked_type B kTupleV1Type (w_Types B types)"

text \<open>Whatever fails in a quantized type is reported as an invalid type; fatal errors of the readers stay fatal.\<close>

definition reported :: "string \<Rightarrow> 'a result \<Rightarrow> 'a result" where
  "reported msg r = (case r of Inl (Failure _) \<Rightarrow> Inl (Failure msg) | _ \<Rightarrow> r)"

definition readUniformQuantizedPerAxisV1Type :: "'b bytecode \<Rightarrow> (VhloType, 'b) reader" where
  "readUniformQuantizedPerAxisV1Type B s = reported ''invalid UniformQuantizedPerAxisType''
     (rbind (r_VarInt B s) (\<lambda>(flags, s). rbind (r_Type B s) (\<lambda>(storageType, s). rbind (r_Type B s) (\<lambda>(expressedType, s).
      rbind (r_VarInt B s) (\<lambda>(quantizedDimension, s). rbind (r_SignedVarInt B s) (\<lambda>(storageTypeMin, s).
      rbind (r_SignedVarInt B s) (\<lambda>(storageTypeMax, s). rbind (r_FloatList B (r_APFloat B Float64) s) (\<lambda>(scales, s).
      rbind (r_IntList B (r_SignedVarInt B) s) (\<lambda>(zeroPoints, s).
        Inr (UniformQuantizedPerAxisV1 flags storageType expressedType (int quantizedDimension) scales zeroPoints
               storageTypeMin storageTypeMax, s))))))))))"

definition writeUniformQuantizedPerAxisV1Type ::
  "'b bytecode \<Rightarrow> nat \<Rightarrow> VhloType \<Rightarrow> VhloType \<Rightarrow> int \<Rightarrow> double_attr list \<Rightarrow> int list \<Rightarrow> int \<Rightarrow> int \<Rightarrow> 'b list" where
  "writeUniformQuantizedPerAxisV1Type B flags storageType expressedType quantizedDimension scales zeroPoints storageTypeMin storageTypeMax =
     marked_type B kUniformQuantizedPerAxisV1Type
       (w_VarInt B flags @ w_Type B storageType @ w_Type B expressedType @ w_VarInt B (nat quantizedDimension) @
        w_SignedVarInt B storageTypeMin @ w_SignedVarInt B storageTypeMax @ w_FloatList B (w_APFloat B) scales @
        w_IntList B (w_SignedVarInt B) zeroPoints)"

definition readUniformQuantizedV1Type :: "'b bytecode \<Rightarrow> (VhloType, 'b) reader" where
  "readUniformQuantizedV1Type B s = reported ''invalid UniformQuantizedType''
     (rbind (r_VarInt B s) (\<lambda>(flags, s). rbind (r_Type B s) (\<lambda>(storageType, s). rbind (r_Type B s) (\<lambda>(expressedType, s).
      rbind (r_APFloat B Float64 s) (\<lambda>(scale, s). rbind (r_SignedVarInt B s) (\<lambda>(zeroPoint, s).
      rbind (r_SignedVarInt B s) (\<lambda>(storageTypeMin, s). rbind (r_SignedVarInt B s) (\<lambda>(storageTypeMax, s).
        Inr (UniformQuantizedV1 flags storageType expressedType scale zeroPoint storageTypeMin storageTypeMax, s)))))))))"

definition writeUniformQuantizedV1Type ::
  "'b bytecode \<Rightarrow> nat \<Rightarrow> VhloType \<Rightarrow> VhloType \<Rightarrow> double_attr \<Rightarrow> int \<Rightarrow> int \<Rightarrow> int \<Rightarrow> 'b list" where
  "writeUniformQuantizedV1Type B flags storageType expressedType scale zeroPoint storageTypeMin storageTypeMax =
     marked_type B kUniformQuantizedV1Type
       (w_VarInt B flags @ w_Type B storageType @ w_Type B expressedType @ w_APFloat B scale @ w_SignedVarInt B zeroPoint @
        w_SignedVarInt B storageTypeMin @ w_SignedVarInt B storageTypeMax)"

definition readUnrankedTensorV1Type :: "'b bytecode \<Rightarrow> (VhloType, 'b) reader" where
  "readUnrankedTensorV1Type B s = rbind (r_Type B s) (\<lambda>(elementType, s). Inr (UnrankedTensorV1 elementType, s))"

definition writeUnrankedTensorV1Type :: "'b bytecode \<Rightarrow> VhloType \<Rightarrow> 'b list" where
  "writeUnrankedTensorV1Type B elementType = marked_type B kUnrankedTensorV1Type (w_Type B elementType)"

definition readRankedBufferV1Type :: "'b bytecode \<Rightarrow> (VhloType, 'b) reader" where
  "readRankedBufferV1Type B s =
     rbind (r_SignedVarInts B s) (\<lambda>(shape, s). rbind (r_Type B s) (\<lambda>(elementType, s). Inr (RankedBufferV1 shape elementType, s)))"

definition writeRankedBufferV1Type :: "'b bytecode \<Rightarrow> int list \<Rightarrow> VhloType \<Rightarrow> 'b list" where
  "writeRankedBufferV1Type B shape elementType = marked_type B kRankedBufferV1Type (w_SignedVarInts B shape @ w_Type B elementType)"

text \<open>The two sides of the scalar types: what \<^verbatim>\<open>writeType\<close> emits and what \<^verbatim>\<open>readType\<close> makes of a code.\<close>

fun scalarTypeCode :: "VhloScalar \<Rightarrow> TypeCode" where
  "scalarTypeCode BooleanV1 = kBooleanV1Type"
| "scalarTypeCode FloatBF16V1 = kFloatBF16V1Type"
| "scalarTypeCode FloatF16V1 = kFloatF16V1Type"
| "scalarTypeCode FloatF32V1 = kFloatF32V1Type"
| "scalarTypeCode FloatF4E2M1FNV1 = kFloatF4E2M1FNV1Type"
| "scalarTypeCode FloatF64V1 = kFloatF64V1Type"
| "scalarTypeCode FloatF6E2M3FNV1 = kFloatF6E2M3FNV1Type"
| "scalarTypeCode FloatF6E3M2FNV1 = kFloatF6E3M2FNV1Type"
| "scalarTypeCode FloatF8E3M4V1 = kFloatF8E3M4V1Type"
| "scalarTypeCode FloatF8E4M3V1 = kFloatF8E4M3V1Type"
| "scalarTypeCode FloatF8E4M3FNV1 = kFloatF8E4M3FNV1Type"
| "scalarTypeCode FloatF8E5M2V1 = kFloatF8E5M2V1Type"
| "scalarTypeCode FloatF8E4M3FNUZV1 = kFloatF8E4M3FNUZV1Type"
| "scalarTypeCode FloatF8E4M3B11FNUZV1 = kFloatF8E4M3B11FNUZV1Type"
| "scalarTypeCode FloatF8E5M2FNUZV1 = kFloatF8E5M2FNUZV1Type"
| "scalarTypeCode FloatF8E8M0FNUV1 = kFloatF8E8M0FNUV1Type"
| "scalarTypeCode FloatTF32V1 = kFloatTF32V1Type"
| "scalarTypeCode IndexV1 = kIndexV1Type"
| "scalarTypeCode IntegerSI2V1 = kIntegerSI2V1Type"
| "scalarTypeCode IntegerSI4V1 = kIntegerSI4V1Type"
| "scalarTypeCode IntegerSI8V1 = kIntegerSI8V1Type"
| "scalarTypeCode IntegerSI16V1 = kIntegerSI16V1Type"
| "scalarTypeCode IntegerSI32V1 = kIntegerSI32V1Type"
| "scalarTypeCode IntegerSI64V1 = kIntegerSI64V1Type"
| "scalarTypeCode IntegerUI2V1 = kIntegerUI2V1Type"
| "scalarTypeCode IntegerUI4V1 = kIntegerUI4V1Type"
| "scalarTypeCode IntegerUI8V1 = kIntegerUI8V1Type"
| "scalarTypeCode IntegerUI16V1 = kIntegerUI16V1Type"
| "scalarTypeCode IntegerUI32V1 = kIntegerUI32V1Type"
| "scalarTypeCode IntegerUI64V1 = kIntegerUI64V1Type"
| "scalarTypeCode NoneV1 = kNoneV1Type"
| "scalarTypeCode WitnessV1 = kWitnessV1Type"
| "scalarTypeCode TokenV1 = kTokenV1Type"

fun readTypeCode :: "'b bytecode \<Rightarrow> TypeCode \<Rightarrow> (VhloType, 'b) reader" where
  "readTypeCode B kBooleanV1Type s = Inr (ScalarV1 BooleanV1, s)"
| "readTypeCode B kFloatBF16V1Type s = Inr (ScalarV1 FloatBF16V1, s)"
| "readTypeCode B kFloatF16V1Type s = Inr (ScalarV1 FloatF16V1, s)"
| "readTypeCode B kFloatF32V1Type s = Inr (ScalarV1 FloatF32V1, s)"
| "readTypeCode B kFloatF4E2M1FNV1Type s = Inr (ScalarV1 FloatF4E2M1FNV1, s)"
| "readTypeCode B kFloatF64V1Type s = Inr (ScalarV1 FloatF64V1, s)"
| "readTypeCode B kFloatF6E2M3FNV1Type s = Inr (ScalarV1 FloatF6E2M3FNV1, s)"
| "readTypeCode B kFloatF6E3M2FNV1Type s = Inr (ScalarV1 FloatF6E3M2FNV1, s)"
| "readTypeCode B kFloatF8E5M2V1Type s = Inr (ScalarV1 FloatF8E5M2V1, s)"
| "readTypeCode B kFloatF8E4M3V1Type s = Inr (ScalarV1 FloatF8E4M3V1, s)"
| "readTypeCode B kFloatF8E4M3FNV1Type s = Inr (ScalarV1 FloatF8E4M3FNV1, s)"
| "readTypeCode B kFloatF8E5M2FNUZV1Type s = Inr (ScalarV1 FloatF8E5M2FNUZV1, s)"
| "readTypeCode B kFloatF8E4M3FNUZV1Type s = Inr (ScalarV1 FloatF8E4M3FNUZV1, s)"
| "readTypeCode B kFloatF8E4M3B11FNUZV1Type s = Inr (ScalarV1 FloatF8E4M3B11FNUZV1, s)"
| "readTypeCode B kFloatF8E3M4V1Type s = Inr (ScalarV1 FloatF8E3M4V1, s)"
| "readTypeCode B kFloatF8E8M0FNUV1Type s = Inr (ScalarV1 FloatF8E8M0FNUV1, s)"
| "readTypeCode B kFloatTF32V1Type s = Inr (ScalarV1 FloatTF32V1, s)"
| "readTypeCode B kIndexV1Type s = Inr (ScalarV1 IndexV1, s)"
| "readTypeCode B kIntegerSI2V1Type s = Inr (ScalarV1 IntegerSI2V1, s)"
| "readTypeCode B kIntegerSI4V1Type s = Inr (ScalarV1 IntegerSI4V1, s)"
| "readTypeCode B kIntegerSI8V1Type s = Inr (ScalarV1 IntegerSI8V1, s)"
| "readTypeCode B kIntegerSI16V1Type s = Inr (ScalarV1 IntegerSI16V1, s)"
| "readTypeCode B kIntegerSI32V1Type s = Inr (ScalarV1 IntegerSI32V1, s)"
| "readTypeCode B kIntegerSI64V1Type s = Inr (ScalarV1 IntegerSI64V1, s)"
| "readTypeCode B kIntegerUI2V1Type s = Inr (ScalarV1 IntegerUI2V1, s)"
| "readTypeCode B kIntegerUI4V1Type s = Inr (ScalarV1 IntegerUI4V1, s)"
| "readTypeCode B kIntegerUI8V1Type s = Inr (ScalarV1 IntegerUI8V1, s)"
| "readTypeCode B kIntegerUI16V1Type s = Inr (ScalarV1 IntegerUI16V1, s)"
| "readTypeCode B kIntegerUI32V1Type s = Inr (ScalarV1 IntegerUI32V1, s)"
| "readTypeCode B kIntegerUI64V1Type s = Inr (ScalarV1 IntegerUI64V1, s)"
| "readTypeCode B kNoneV1Type s = Inr (ScalarV1 NoneV1, s)"
| "readTypeCode B kWitnessV1Type s = Inr (ScalarV1 WitnessV1, s)"
| "readTypeCode B kComplexV1Type s = readComplexV1Type B s"
| "readTypeCode B kFunctionV1Type s = readFunctionV1Type B s"
| "readTypeCode B kRankedTensorV1Type s = readRankedTensorV1Type B False s"
| "readTypeCode B kRankedTensorV1TypeWithEncoding s = readRankedTensorV1Type B True s"
| "readTypeCode B kTokenV1Type s = readTokenV1Type B s"
| "readTypeCode B kFutureV1Type s = readFutureV1Type B s"
| "readTypeCode B kTupleV1Type s = readTupleV1Type B s"
| "readTypeCode B kUniformQuantizedPerAxisV1Type s = readUniformQuantizedPerAxisV1Type B s"
| "readTypeCode B kUniformQuantizedV1Type s = readUniformQuantizedV1Type B s"
| "readTypeCode B kUnrankedTensorV1Type s = readUnrankedTensorV1Type B s"
| "readTypeCode B kRankedBufferV1Type s = readRankedBufferV1Type B s"

definition readType :: "'b bytecode \<Rightarrow> (VhloType, 'b) reader" where
  "readType B s =
     rbind (r_VarInt B s) (\<lambda>(code, s).
       case typeCode_of code of None \<Rightarrow> Inl (Failure ''unknown vhlo type code: '') | Some c \<Rightarrow> readTypeCode B c s)"

text \<open>A type that is not one of VHLO's is a failure, upon which MLIR falls back to text.\<close>

fun writeType :: "'b bytecode \<Rightarrow> VhloType \<Rightarrow> 'b list result" where
  "writeType B (ScalarV1 t) = Inr (marked_type B (scalarTypeCode t) [])"
| "writeType B (ComplexV1 elementType) = Inr (writeComplexV1Type B elementType)"
| "writeType B (FunctionV1 inputs outputs) = Inr (writeFunctionV1Type B inputs outputs)"
| "writeType B (RankedTensorV1 shape elementType encoding) = Inr (writeRankedTensorV1Type B shape elementType encoding)"
| "writeType B (FutureV1 types) = Inr (writeFutureV1Type B types)"
| "writeType B (TupleV1 types) = Inr (writeTupleV1Type B types)"
| "writeType B (UniformQuantizedV1 flags storage expressed scale zp lo hi) =
     Inr (writeUniformQuantizedV1Type B flags storage expressed scale zp lo hi)"
| "writeType B (UniformQuantizedPerAxisV1 flags storage expressed dim scales zps lo hi) =
     Inr (writeUniformQuantizedPerAxisV1Type B flags storage expressed dim scales zps lo hi)"
| "writeType B (UnrankedTensorV1 elementType) = Inr (writeUnrankedTensorV1Type B elementType)"
| "writeType B (RankedBufferV1 shape elementType) = Inr (writeRankedBufferV1Type B shape elementType)"
| "writeType B (OtherDialectType n) = Inl (Failure '''')"

section \<open>Reading and writing an attribute\<close>

fun readAttributeCode :: "'b bytecode \<Rightarrow> AttributeCode \<Rightarrow> (VhloAttr, 'b) reader" where
  "readAttributeCode B kArrayV1Attr s = readArrayV1Attr B s"
| "readAttributeCode B kBooleanV1Attr s = readBooleanV1Attr B s"
| "readAttributeCode B kComparisonDirectionV1Attr s = readComparisonDirectionV1Attr B s"
| "readAttributeCode B kComparisonTypeV1Attr s = readComparisonTypeV1Attr B s"
| "readAttributeCode B kCustomCallApiVersionV1Attr s = readCustomCallApiVersionV1Attr B s"
| "readAttributeCode B kDictionaryV1Attr s = readDictionaryV1Attr B s"
| "readAttributeCode B kFftTypeV1Attr s = readFftTypeV1Attr B s"
| "readAttributeCode B kFloatV1Attr s = readFloatV1Attr B s"
| "readAttributeCode B kIntegerV1Attr s = readIntegerV1Attr B s"
| "readAttributeCode B kOutputOperandAliasV1Attr s = readOutputOperandAliasV1Attr B s"
| "readAttributeCode B kPrecisionV1Attr s = readPrecisionV1Attr B s"
| "readAttributeCode B kRngAlgorithmV1Attr s = readRngAlgorithmV1Attr B s"
| "readAttributeCode B kRngDistributionV1Attr s = readRngDistributionV1Attr B s"
| "readAttributeCode B kStringV1Attr s = readStringV1Attr B s"
| "readAttributeCode B kTensorV1Attr s = readTensorV1Attr B s"
| "readAttributeCode B kTransposeV1Attr s = readTransposeV1Attr B s"
| "readAttributeCode B kTypeV1Attr s = readTypeV1Attr B s"
| "readAttributeCode B kTypeExtensionsV1Attr s = readTypeExtensionsV1Attr B s"
| "readAttributeCode B kResultAccuracyModeV1Attr s = readResultAccuracyModeV1Attr B s"
| "readAttributeCode B kResultAccuracyV1Attr s = readResultAccuracyV1Attr B s"
| "readAttributeCode B kSubAxisInfoV1Attr s = readSubAxisInfoV1Attr B s"
| "readAttributeCode B kAxisRefV1Attr s = readAxisRefV1Attr B s"
| "readAttributeCode B kReplicaGroupMeshAxesV1Attr s = readReplicaGroupMeshAxesV1Attr B s"
| "readAttributeCode B kMeshAxisV1Attr s = readMeshAxisV1Attr B s"
| "readAttributeCode B kMeshV1Attr s = readMeshV1Attr B s"

definition readAttribute :: "'b bytecode \<Rightarrow> (VhloAttr, 'b) reader" where
  "readAttribute B s =
     rbind (r_VarInt B s) (\<lambda>(code, s).
       case attributeCode_of code of None \<Rightarrow> Inl (Failure ''unknown vhlo attribute code: '') | Some c \<Rightarrow> readAttributeCode B c s)"

definition writeEnumAttr :: "'b bytecode \<Rightarrow> string \<Rightarrow> string \<Rightarrow> 'b list result" where
  "writeEnumAttr B enum value =
     (if enum = ''ComparisonDirectionV1'' then writeComparisonDirectionV1Attr B value
      else if enum = ''ComparisonTypeV1'' then writeComparisonTypeV1Attr B value
      else if enum = ''FftTypeV1'' then writeFftTypeV1Attr B value
      else if enum = ''PrecisionV1'' then writePrecisionV1Attr B value
      else if enum = ''RngAlgorithmV1'' then writeRngAlgorithmV1Attr B value
      else if enum = ''RngDistributionV1'' then writeRngDistributionV1Attr B value
      else if enum = ''TransposeV1'' then writeTransposeV1Attr B value
      else Inl (Failure ''''))"

fun writeAttribute :: "'b bytecode \<Rightarrow> VhloAttr \<Rightarrow> 'b list result" where
  "writeAttribute B (ArrayV1 elements) = Inr (writeArrayV1Attr B elements)"
| "writeAttribute B (LeafV1 (BooleanV1Attr value)) = Inr (writeBooleanV1Attr B value)"
| "writeAttribute B (LeafV1 (EnumV1Attr enum value)) = writeEnumAttr B enum value"
| "writeAttribute B (LeafV1 (CustomCallApiVersionV1Attr value)) = writeCustomCallApiVersionV1Attr B value"
| "writeAttribute B (LeafV1 (ResultAccuracyModeV1Attr value)) = writeResultAccuracyModeV1Attr B value"
| "writeAttribute B (LeafV1 (StringV1Attr value)) = Inr (writeStringV1Attr B value)"
| "writeAttribute B (LeafV1 (TypeExtensionsV1Attr bounds)) = Inr (writeTypeExtensionsV1Attr B bounds)"
| "writeAttribute B (LeafV1 (SubAxisInfoV1Attr preSize sz)) = Inr (writeSubAxisInfoV1Attr B preSize sz)"
| "writeAttribute B (LeafV1 (OutputOperandAliasV1Attr out operandIndex operand)) =
     Inr (writeOutputOperandAliasV1Attr B out operandIndex operand)"
| "writeAttribute B (DictionaryV1 attrs) = Inr (writeDictionaryV1Attr B attrs)"
| "writeAttribute B (FloatV1 type value) = Inr (writeFloatV1Attr B type value)"
| "writeAttribute B (IntegerV1 type value) = Inr (writeIntegerV1Attr B type value)"
| "writeAttribute B (TensorV1 type rawData) = writeTensorV1Attr B type rawData"
| "writeAttribute B (TypeV1 type) = Inr (writeTypeV1Attr B type)"
| "writeAttribute B (ResultAccuracyV1 atol rtol ulps mode) = Inr (writeResultAccuracyV1Attr B atol rtol ulps mode)"
| "writeAttribute B (AxisRefV1 name subAxisInfo) = Inr (writeAxisRefV1Attr B name subAxisInfo)"
| "writeAttribute B (ReplicaGroupMeshAxesV1 mesh axes) = Inr (writeReplicaGroupMeshAxesV1Attr B mesh axes)"
| "writeAttribute B (MeshAxisV1 name sz) = Inr (writeMeshAxisV1Attr B name sz)"
| "writeAttribute B (MeshV1 axes device_ids) = Inr (writeMeshV1Attr B axes device_ids)"
| "writeAttribute B (OtherDialectAttr n) = Inl (Failure '''')"

end
