(* ===== verification/Vhlo_Bytecode_Correct.thy ===== *)
theory Vhlo_Bytecode_Correct
  imports Vhlo_Bytecode
begin

text \<open>
  What is written to bytecode is read back: round trips of types, attributes and packed boolean tensors, for every implementation of MLIR's
  primitive readers and writers that reads back what it wrote, in front of any rest of the stream.
\<close>

section \<open>What MLIR's readers and writers promise\<close>

definition int64 :: "int \<Rightarrow> bool" where
  "int64 v \<longleftrightarrow> - (2 ^ 63) \<le> v \<and> v < 2 ^ 63"

definition uint64 :: "nat \<Rightarrow> bool" where
  "uint64 n \<longleftrightarrow> n < 2 ^ 64"

definition reads_back :: "('a \<Rightarrow> 'b list) \<Rightarrow> ('a, 'b) reader \<Rightarrow> 'a \<Rightarrow> bool" where
  "reads_back w r x \<longleftrightarrow> (\<forall>rest. r (w x @ rest) = Inr (x, rest))"

text \<open>A list is read back when the callbacks read its elements back.\<close>

definition list_reads_back ::
  "(('a \<Rightarrow> 'b list) \<Rightarrow> 'a list \<Rightarrow> 'b list) \<Rightarrow> (('a, 'b) reader \<Rightarrow> ('a list, 'b) reader) \<Rightarrow> bool" where
  "list_reads_back wl rl \<longleftrightarrow> (\<forall>w r xs. (\<forall>x \<in> set xs. reads_back w r x) \<longrightarrow> reads_back (wl w) (rl r) xs)"

definition bytecode_ok :: "'b bytecode \<Rightarrow> bool" where
  "bytecode_ok B \<longleftrightarrow>
     (\<forall>n. uint64 n \<longrightarrow> reads_back (w_VarInt B) (r_VarInt B) n) \<and>
     (\<forall>v. int64 v \<longrightarrow> reads_back (w_SignedVarInt B) (r_SignedVarInt B) v) \<and>
     (\<forall>vs. list_all int64 vs \<longrightarrow> reads_back (w_SignedVarInts B) (r_SignedVarInts B) vs) \<and>
     (\<forall>str. reads_back (w_String B) (r_String B) str) \<and>
     (\<forall>bytes. list_all (\<lambda>b. 0 \<le> b \<and> b < 256) bytes \<longrightarrow> reads_back (w_Blob B) (r_Blob B) bytes) \<and>
     (\<forall>f x. float_fits B f x \<longrightarrow> reads_back (w_APFloat B) (r_APFloat B f) x) \<and>
     (\<forall>k v. int_fits B k v \<longrightarrow> reads_back (w_APInt B) (r_APInt B k) v) \<and>
     (\<forall>a. reads_back (w_Attribute B) (r_Attribute B) a) \<and>
     (\<forall>a. reads_back (w_OptionalAttribute B) (r_OptionalAttribute B) a) \<and>
     (\<forall>as. reads_back (w_Attributes B) (r_Attributes B) as) \<and>
     (\<forall>t. reads_back (w_Type B) (r_Type B) t) \<and>
     (\<forall>ts. reads_back (w_Types B) (r_Types B) ts) \<and>
     list_reads_back (w_PairList B) (r_PairList B) \<and> list_reads_back (w_FloatList B) (r_FloatList B) \<and>
     list_reads_back (w_IntList B) (r_IntList B)"

lemma list_reads_back_at:
  "list_reads_back wl rl \<Longrightarrow> (\<And>x rest. x \<in> set xs \<Longrightarrow> r (w x @ rest) = Inr (x, rest)) \<Longrightarrow> rl r (wl w xs @ rest) = Inr (xs, rest)"
  by (simp add: list_reads_back_def reads_back_def)

lemma primitives_read_back:
  assumes "bytecode_ok B"
  shows "uint64 n \<Longrightarrow> r_VarInt B (w_VarInt B n @ rest) = Inr (n, rest)"
    "int64 v \<Longrightarrow> r_SignedVarInt B (w_SignedVarInt B v @ rest) = Inr (v, rest)"
    "list_all int64 vs \<Longrightarrow> r_SignedVarInts B (w_SignedVarInts B vs @ rest) = Inr (vs, rest)"
    "r_String B (w_String B str @ rest) = Inr (str, rest)"
    "list_all (\<lambda>b. 0 \<le> b \<and> b < 256) bytes \<Longrightarrow> r_Blob B (w_Blob B bytes @ rest) = Inr (bytes, rest)"
    "float_fits B f x \<Longrightarrow> r_APFloat B f (w_APFloat B x @ rest) = Inr (x, rest)"
    "int_fits B k v \<Longrightarrow> r_APInt B k (w_APInt B v @ rest) = Inr (v, rest)"
    "r_Attribute B (w_Attribute B a @ rest) = Inr (a, rest)"
    "r_OptionalAttribute B (w_OptionalAttribute B ao @ rest) = Inr (ao, rest)"
    "r_Attributes B (w_Attributes B as @ rest) = Inr (as, rest)"
    "r_Type B (w_Type B t @ rest) = Inr (t, rest)"
    "r_Types B (w_Types B ts @ rest) = Inr (ts, rest)"
    "list_reads_back (w_PairList B) (r_PairList B)" "list_reads_back (w_FloatList B) (r_FloatList B)"
    "list_reads_back (w_IntList B) (r_IntList B)"
  using assms by (simp_all add: bytecode_ok_def reads_back_def del: split_paired_All)

section \<open>Codes\<close>

lemma attributeCode_of_code: "attributeCode_of (attributeCode c) = Some c"
  by (cases c) (simp_all add: attributeCode_of_def attributeCodes_def)

lemma typeCode_of_code: "typeCode_of (typeCode c) = Some c"
  by (cases c) (simp_all add: typeCode_of_def typeCodes_def)

lemma codes_small: "uint64 (attributeCode c)" "uint64 (typeCode d)"
  by (cases c; simp add: uint64_def) (cases d; simp add: uint64_def)

lemma readAttribute_marked: "bytecode_ok B \<Longrightarrow> readAttribute B (marked B c body) = readAttributeCode B c body"
  by (simp add: readAttribute_def marked_def primitives_read_back codes_small attributeCode_of_code)

lemma marked_append: "marked B c body @ rest = marked B c (body @ rest)"
  by (simp add: marked_def)

lemma marked_type_append: "marked_type B c body @ rest = marked_type B c (body @ rest)"
  by (simp add: marked_type_def)

lemma readType_marked: "bytecode_ok B \<Longrightarrow> readType B (marked_type B c body) = readTypeCode B c body"
  by (simp add: readType_def marked_type_def primitives_read_back codes_small typeCode_of_code)

section \<open>Types\<close>

text \<open>
  What the C++ types of the members promise: sizes and bounds are of 64 bits, flags are not negative, scales are doubles. Types of
  other dialects have no VHLO bytecode.
\<close>

fun writable_type :: "'b bytecode \<Rightarrow> VhloType \<Rightarrow> bool" where
  "writable_type B (OtherDialectType n) = False"
| "writable_type B (RankedTensorV1 shape t encoding) = list_all int64 shape"
| "writable_type B (UniformQuantizedV1 flags storage expressed scale zp lo hi) =
     (uint64 flags \<and> float_fits B Float64 scale \<and> int64 zp \<and> int64 lo \<and> int64 hi)"
| "writable_type B (UniformQuantizedPerAxisV1 flags storage expressed dim scales zps lo hi) =
     (uint64 flags \<and> 0 \<le> dim \<and> uint64 (nat dim) \<and> list_all (float_fits B Float64) scales \<and> list_all int64 zps \<and> int64 lo \<and> int64 hi)"
| "writable_type B (RankedBufferV1 shape t) = list_all int64 shape"
| "writable_type B _ = True"

lemmas type_readers = readComplexV1Type_def readFunctionV1Type_def readRankedTensorV1Type_def readTokenV1Type_def
  readFutureV1Type_def readTupleV1Type_def readUniformQuantizedPerAxisV1Type_def readUniformQuantizedV1Type_def
  readUnrankedTensorV1Type_def readRankedBufferV1Type_def reported_def

lemmas type_writers = writeComplexV1Type_def writeFunctionV1Type_def writeRankedTensorV1Type_def writeFutureV1Type_def
  writeTupleV1Type_def writeUniformQuantizedPerAxisV1Type_def writeUniformQuantizedV1Type_def writeUnrankedTensorV1Type_def
  writeRankedBufferV1Type_def

lemma float_list_back:
  "bytecode_ok B \<Longrightarrow> list_all (float_fits B f) xs \<Longrightarrow>
   r_FloatList B (r_APFloat B f) (w_FloatList B (w_APFloat B) xs @ rest) = Inr (xs, rest)"
  by (rule list_reads_back_at) (simp_all add: primitives_read_back list_all_iff)

lemma int_list_back:
  "bytecode_ok B \<Longrightarrow> list_all int64 xs \<Longrightarrow>
   r_IntList B (r_SignedVarInt B) (w_IntList B (w_SignedVarInt B) xs @ rest) = Inr (xs, rest)"
  by (rule list_reads_back_at) (simp_all add: primitives_read_back list_all_iff)

text \<open>
  C34: a VHLO type that is written to bytecode is read back as the same type, and reading stops where writing stopped, so that whatever
  follows in the stream is not touched; types of other dialects are refused.
\<close>

theorem type_bytecode_round_trip:
  assumes "bytecode_ok B" "writable_type B t"
  shows "\<exists>bytes. writeType B t = Inr bytes \<and> readType B (bytes @ rest) = Inr (t, rest)"
proof -
  note reads = primitives_read_back [OF assms(1)] float_list_back [OF assms(1)] int_list_back [OF assms(1)]
  note mark = readType_marked [OF assms(1)]
  show ?thesis
  proof (cases t)
    case (ScalarV1 sc)
    then show ?thesis by (cases sc) (simp_all add: marked_type_append mark type_readers)
  next
    case (RankedTensorV1 shape el encoding)
    then show ?thesis
      using assms(2) by (cases encoding) (simp_all add: type_writers marked_type_append mark type_readers reads)
  qed (use assms(2) in \<open>simp_all add: type_writers marked_type_append mark type_readers reads\<close>)
qed

section \<open>Packed booleans\<close>

lemma bit_of_byte_bit: "bit_of_byte byte k = bit byte k"
  by (simp add: bit_of_byte_def bit_iff_and_push_bit_not_eq_0)

definition set_flag :: "int list \<Rightarrow> int list \<Rightarrow> nat \<Rightarrow> int list" where
  "set_flag raw data i = (if raw ! i \<noteq> 0 then data[i div 8 := or (data ! (i div 8)) (push_bit (i mod 8) 1)] else data)"

lemma pack_set_flag: "pack n raw = foldl (set_flag raw) (replicate (packedSize n) 0) [0..<n]"
  unfolding pack_def set_flag_def by (rule foldl_cong) simp_all

lemma set_flag_bit:
  assumes "i div 8 < length data" "k < 8"
  shows "bit (set_flag raw data i ! j) k \<longleftrightarrow> bit (data ! j) k \<or> raw ! i \<noteq> 0 \<and> i = 8 * j + k"
proof -
  have "i = 8 * j + k \<longleftrightarrow> j = i div 8 \<and> k = i mod 8"
    using assms(2) by auto
  then show ?thesis
    using assms by (cases "j = i div 8") (auto simp: set_flag_def bit_or_iff bit_exp_iff push_bit_eq_mult)
qed

definition are_bytes :: "int list \<Rightarrow> bool" where
  "are_bytes = list_all (\<lambda>b. 0 \<le> b \<and> b < 256)"

lemma set_flag_bytes:
  assumes "are_bytes data" "i div 8 < length data"
  shows "are_bytes (set_flag raw data i)"
proof -
  have "(2::int) ^ (i mod 8) < 2 ^ 8"
    by (rule power_strict_increasing) simp_all
  moreover have "0 \<le> data ! (i div 8)" "data ! (i div 8) < 2 ^ 8"
    using assms by (simp_all add: are_bytes_def list_all_length)
  ultimately have "0 \<le> or (data ! (i div 8)) (push_bit (i mod 8) 1)" "or (data ! (i div 8)) (push_bit (i mod 8) 1) < 2 ^ 8"
    using OR_upper [of "data ! (i div 8)" 8 "2 ^ (i mod 8)"] by (simp_all add: push_bit_eq_mult)
  then show ?thesis
    using assms by (auto simp: set_flag_def are_bytes_def list_all_length nth_list_update)
qed

lemma pack_prefix:
  fixes raw :: "int list" and n m :: nat
  assumes "m \<le> n"
  defines "data \<equiv> foldl (set_flag raw) (replicate (packedSize n) 0) [0..<m]"
  shows "length data = packedSize n \<and> are_bytes data \<and>
    (\<forall>j < packedSize n. \<forall>k < 8. bit (data ! j) k \<longleftrightarrow> 8 * j + k < m \<and> raw ! (8 * j + k) \<noteq> 0)"
  unfolding data_def using assms(1)
proof (induction m)
  case 0
  then show ?case by (simp add: are_bytes_def list_all_length)
next
  case (Suc m)
  let ?data = "foldl (set_flag raw) (replicate (packedSize n) 0) [0..<m]"
  have step: "length ?data = packedSize n" "are_bytes ?data" "m div 8 < packedSize n"
    "\<And>j k. j < packedSize n \<Longrightarrow> k < 8 \<Longrightarrow> bit (?data ! j) k \<longleftrightarrow> 8 * j + k < m \<and> raw ! (8 * j + k) \<noteq> 0"
    using Suc by (simp_all add: packedSize_def)
  have "length (set_flag raw ?data m) = packedSize n"
    using step(1) by (simp add: set_flag_def)
  moreover have "are_bytes (set_flag raw ?data m)"
    using step by (simp add: set_flag_bytes)
  moreover have "bit (set_flag raw ?data m ! j) k \<longleftrightarrow> 8 * j + k < Suc m \<and> raw ! (8 * j + k) \<noteq> 0"
    if "j < packedSize n" "k < 8" for j k
    using step that by (auto simp: set_flag_bit less_Suc_eq)
  ultimately show ?case by simp
qed

lemma pack_facts:
  shows "length (pack n raw) = packedSize n" "are_bytes (pack n raw)"
    "i < n \<Longrightarrow> bit (pack n raw ! (i div 8)) (i mod 8) \<longleftrightarrow> raw ! i \<noteq> 0"
proof -
  note facts = pack_prefix [where m = n and n = n and raw = raw, simplified, folded pack_set_flag]
  show "length (pack n raw) = packedSize n" "are_bytes (pack n raw)"
    using facts by simp_all
  assume "i < n"
  then have "i div 8 < packedSize n" by (simp add: packedSize_def)
  with facts \<open>i < n\<close> show "bit (pack n raw ! (i div 8)) (i mod 8) \<longleftrightarrow> raw ! i \<noteq> 0"
    by simp
qed

text \<open>How MLIR reads an element of raw data: a single stored element stands for all.\<close>

definition raw_element :: "int list \<Rightarrow> nat \<Rightarrow> int" where
  "raw_element raw i = (if length raw = 1 then raw ! 0 else raw ! i)"

definition well_sized :: "nat \<Rightarrow> int list \<Rightarrow> bool" where
  "well_sized n raw \<longleftrightarrow> length raw = n \<or> length raw = 1 \<and> 0 < n"

text \<open>What the reader makes of the packed bytes, and of the two splat bytes.\<close>

definition unpacked :: "nat \<Rightarrow> int list \<Rightarrow> int list" where
  "unpacked n blob =
     (if blob = [255] then [1] else if length blob = packedSize n \<and> length blob \<noteq> n then unpack n blob else blob)"

definition same_flags :: "nat \<Rightarrow> int list \<Rightarrow> int list \<Rightarrow> bool" where
  "same_flags n raw blob \<longleftrightarrow>
     well_sized n blob \<and> (\<forall>i < n. raw_element blob i = (if raw_element raw i \<noteq> 0 then 1 else 0))"

lemma unpack_element:
  "i < n \<Longrightarrow> unpack n blob ! i = (if bit (blob ! (i div 8)) (i mod 8) then 1 else 0)"
  by (simp add: unpack_def bit_of_byte_bit)

lemma unpacked_pack:
  assumes "length raw = n"
  shows "same_flags n raw (unpacked n (pack n raw))"
proof -
  let ?p = "pack n raw"
  note p = pack_facts [where n = n and raw = raw]
  consider (all) "?p = [255]" | (bits) "?p \<noteq> [255]" "packedSize n \<noteq> n" | (small) "?p \<noteq> [255]" "packedSize n = n"
    by blast
  then show ?thesis
  proof cases
    case all
    then have "packedSize n = 1" using p(1) by simp
    then have n: "0 < n" "n \<le> 8" by (auto simp: packedSize_def)
    have "raw ! i \<noteq> 0" if "i < n" for i
    proof -
      have "i < 8" using that n(2) by simp
      then have "i \<in> {0, 1, 2, 3, 4, 5, 6, 7}" by auto
      then have "bit (255 :: int) i" by auto
      then show ?thesis using p(3) [OF that] all \<open>i < 8\<close> by simp
    qed
    then show ?thesis
      using all n assms by (auto simp: same_flags_def unpacked_def well_sized_def raw_element_def)
  next
    case bits
    then have "n \<noteq> 1" "n \<noteq> 0" by (auto simp: packedSize_def)
    then show ?thesis
      using bits assms p by (simp add: same_flags_def unpacked_def well_sized_def raw_element_def unpack_element)
        (simp add: unpack_def)
  next
    case small
    then consider "n = 0" | "n = 1" by (fastforce simp: packedSize_def)
    then show ?thesis
    proof cases
      case 1
      then show ?thesis using small p(1) assms by (simp add: same_flags_def unpacked_def well_sized_def)
    next
      case 2
      have "?p ! 0 = (if raw ! 0 \<noteq> 0 then 1 else 0)"
        using 2 by (simp add: pack_def packedSize_def)
      then show ?thesis
        using 2 small p(1) assms by (simp add: same_flags_def unpacked_def well_sized_def raw_element_def)
    qed
  qed
qed

lemma unpacked_splat:
  assumes "1 < n" "length raw = 1"
  shows "same_flags n raw (unpacked n [if raw ! 0 \<noteq> 0 then 255 else 0])"
proof -
  have "unpack n [0] ! i = 0" if "i < n" "packedSize n = 1" for i
    using that by (simp add: unpack_element packedSize_def)
  then show ?thesis
    using assms by (simp add: same_flags_def unpacked_def well_sized_def raw_element_def) (simp add: unpack_def)
qed

text \<open>
  C36: a tensor of booleans is packed eight to a byte, with 0xFF for a splat of true. Whatever its data were, what is read back is well
  sized and has the same truth value at every index, though a splat may come back spread out, and eight times true as a splat.
\<close>

theorem boolean_tensor_round_trip:
  assumes "bytecode_ok B" "isBooleanType type" "well_sized (getNumElements_of type) raw"
  shows "\<exists>bytes blob. writeAttribute B (TensorV1 type raw) = Inr bytes \<and>
    readAttribute B (bytes @ rest) = Inr (TensorV1 type blob, rest) \<and> same_flags (getNumElements_of type) raw blob"
proof -
  let ?n = "getNumElements_of type"
  define stored where
    "stored = (if length raw = 1 \<and> 1 < ?n then [if raw ! 0 \<noteq> 0 then 255 else 0] else pack ?n raw)"
  have shaped: "is_shaped type" using assms(2) by (cases type) simp_all
  have sized: "\<not> (length raw = 1 \<and> 1 < ?n) \<Longrightarrow> length raw = ?n"
    using assms(3) by (auto simp: well_sized_def)
  have "list_all (\<lambda>b. 0 \<le> b \<and> b < 256) stored"
    using pack_facts(2) by (simp add: stored_def are_bytes_def)
  moreover have "writeVhloTensorV1Attr B type raw = Inr (w_Blob B stored)"
    using assms(2) sized by (auto simp: writeVhloTensorV1Attr_def stored_def Let_def)
  moreover have "readVhloTensorV1Attr B type (w_Blob B stored @ rest) = Inr (unpacked ?n stored, rest)"
    using assms(1,2) calculation(1) by (simp add: readVhloTensorV1Attr_def primitives_read_back unpacked_def Let_def)
  moreover have "same_flags ?n raw (unpacked ?n stored)"
    using sized unpacked_pack [of raw ?n] unpacked_splat [of ?n raw] by (auto simp: stored_def)
  ultimately show ?thesis
    using assms(1,2) shaped
    by (simp add: writeTensorV1Attr_def marked_append readAttribute_marked primitives_read_back readTensorV1Attr_def)
qed

section \<open>Attributes\<close>

definition enumerators :: "string \<Rightarrow> string set" where
  "enumerators enum =
     (if enum = ''ComparisonDirectionV1'' then fst ` set ComparisonDirectionV1
      else if enum = ''ComparisonTypeV1'' then fst ` set ComparisonTypeV1
      else if enum = ''FftTypeV1'' then fst ` set FftTypeV1
      else if enum = ''PrecisionV1'' then fst ` set PrecisionV1
      else if enum = ''RngAlgorithmV1'' then fst ` set RngAlgorithmV1
      else if enum = ''RngDistributionV1'' then fst ` set RngDistributionV1
      else if enum = ''TransposeV1'' then fst ` set TransposeV1
      else {})"

text \<open>
  What the C++ types of the members promise: values of 64 bits, a value that has the format or the width of its type, an enumerator of its
  enumeration, bytes. Of integers the reader must know the width, which it does not of two bits or of a boolean.
\<close>

fun writable_leaf :: "VhloLeaf \<Rightarrow> bool" where
  "writable_leaf (EnumV1Attr enum value) = (value \<in> enumerators enum)"
| "writable_leaf (CustomCallApiVersionV1Attr value) = (value \<in> fst ` set CustomCallApiVersionV1)"
| "writable_leaf (ResultAccuracyModeV1Attr value) = (value \<in> fst ` set ResultAccuracyModeV1)"
| "writable_leaf (TypeExtensionsV1Attr bounds) = list_all int64 bounds"
| "writable_leaf (SubAxisInfoV1Attr preSize sz) = (int64 preSize \<and> int64 sz)"
| "writable_leaf (OutputOperandAliasV1Attr out operandIndex operand) =
     (list_all int64 out \<and> int64 operandIndex \<and> list_all int64 operand)"
| "writable_leaf _ = True"

fun writable_attr :: "'b bytecode \<Rightarrow> VhloAttr \<Rightarrow> bool" where
  "writable_attr B (LeafV1 leaf) = writable_leaf leaf"
| "writable_attr B (FloatV1 type value) = (case getFloatSemantics type of Inr f \<Rightarrow> float_fits B f value | Inl _ \<Rightarrow> False)"
| "writable_attr B (IntegerV1 type value) = (case integer_width type of Inr k \<Rightarrow> int_fits B k value | Inl _ \<Rightarrow> False)"
| "writable_attr B (TensorV1 type raw) = (is_shaped type \<and> \<not> isBooleanType type \<and> are_bytes raw)"
| "writable_attr B (ResultAccuracyV1 atol rtol ulps mode) =
     (float_fits B Float64 atol \<and> float_fits B Float64 rtol \<and> int64 ulps \<and> is_result_accuracy_mode mode)"
| "writable_attr B (MeshAxisV1 name sz) = int64 sz"
| "writable_attr B (OtherDialectAttr n) = False"
| "writable_attr B _ = True"

lemmas enum_tables = ComparisonDirectionV1_def ComparisonTypeV1_def CustomCallApiVersionV1_def FftTypeV1_def PrecisionV1_def
  RngAlgorithmV1_def RngDistributionV1_def TransposeV1_def ResultAccuracyModeV1_def

text \<open>An enumeration: its enumerators and their values are distinct, and the values have 32 bits.\<close>

definition enum_ok :: "(string \<times> nat) list \<Rightarrow> bool" where
  "enum_ok enum \<longleftrightarrow> distinct (map snd enum) \<and> list_all (\<lambda>code. code < 2 ^ 32) (map snd enum)"

lemma enum_tables_ok:
  "enum_ok ComparisonDirectionV1" "enum_ok ComparisonTypeV1" "enum_ok CustomCallApiVersionV1" "enum_ok FftTypeV1" "enum_ok PrecisionV1"
  "enum_ok RngAlgorithmV1" "enum_ok RngDistributionV1" "enum_ok TransposeV1" "enum_ok ResultAccuracyModeV1"
  by (simp_all add: enum_ok_def enum_tables)

lemma symbolize_value:
  "distinct (map snd enum) \<Longrightarrow> (value, code) \<in> set enum \<Longrightarrow> symbolize enum code = Some value"
  unfolding symbolize_def by (induction enum) (force simp: image_iff)+

lemma enum_back:
  assumes "bytecode_ok B" "enum_ok enum" "value \<in> fst ` set enum"
  shows "\<exists>bytes. writeEnumAttribute B enum value = Inr bytes \<and>
    (\<forall>rest. readEnumAttribute B enum attr (bytes @ rest) = Inr (LeafV1 (attr value), rest))"
proof -
  obtain code where code: "map_of enum value = Some code"
    using assms(3) by (metis map_of_eq_None_iff not_None_eq)
  then have entry: "(value, code) \<in> set enum" by (rule map_of_SomeD)
  then have "code < 2 ^ 32" using assms(2) by (force simp: enum_ok_def list_all_iff)
  moreover have "symbolize enum code = Some value"
    using assms(2) entry by (simp add: enum_ok_def symbolize_value)
  ultimately show ?thesis
    using assms(1) code
    by (simp add: writeEnumAttribute_def readEnumAttribute_def primitives_read_back uint64_def)
qed

lemmas enum_readers = readComparisonDirectionV1Attr_def readComparisonTypeV1Attr_def readFftTypeV1Attr_def readPrecisionV1Attr_def
  readRngAlgorithmV1Attr_def readRngDistributionV1Attr_def readTransposeV1Attr_def readCustomCallApiVersionV1Attr_def
  readResultAccuracyModeV1Attr_def

lemmas enum_writers = writeComparisonDirectionV1Attr_def writeComparisonTypeV1Attr_def writeFftTypeV1Attr_def writePrecisionV1Attr_def
  writeRngAlgorithmV1Attr_def writeRngDistributionV1Attr_def writeTransposeV1Attr_def writeCustomCallApiVersionV1Attr_def
  writeResultAccuracyModeV1Attr_def

lemmas attr_readers = readArrayV1Attr_def readBooleanV1Attr_def readDictionaryV1Attr_def readFloatV1Attr_def readIntegerV1Attr_def
  readOutputOperandAliasV1Attr_def readStringV1Attr_def readTypeV1Attr_def readTypeExtensionsV1Attr_def readResultAccuracyV1Attr_def
  readSubAxisInfoV1Attr_def readAxisRefV1Attr_def readReplicaGroupMeshAxesV1Attr_def readMeshAxisV1Attr_def readMeshV1Attr_def
  readTensorV1Attr_def readVhloTensorV1Attr_def

lemmas attr_writers = writeArrayV1Attr_def writeBooleanV1Attr_def writeDictionaryV1Attr_def writeFloatV1Attr_def writeIntegerV1Attr_def
  writeOutputOperandAliasV1Attr_def writeStringV1Attr_def writeTypeV1Attr_def writeTypeExtensionsV1Attr_def
  writeResultAccuracyV1Attr_def writeSubAxisInfoV1Attr_def writeAxisRefV1Attr_def writeReplicaGroupMeshAxesV1Attr_def
  writeMeshAxisV1Attr_def writeMeshV1Attr_def writeTensorV1Attr_def writeVhloTensorV1Attr_def

lemma pair_list_back:
  "bytecode_ok B \<Longrightarrow>
   r_PairList B (readNamedAttr B) (w_PairList B (\<lambda>(name, value). w_Attribute B name @ w_Attribute B value) attrs @ rest) =
   Inr (attrs, rest)"
  by (rule list_reads_back_at) (auto simp: primitives_read_back readNamedAttr_def)

lemma enum_round_trip:
  assumes "bytecode_ok B" "enum_ok enum" "value \<in> fst ` set enum"
    and reader: "readAttributeCode B c = readEnumAttribute B enum attr"
  shows "\<exists>bytes. rbind (writeEnumAttribute B enum value) (\<lambda>bytes. Inr (marked B c bytes)) = Inr bytes \<and>
    readAttribute B (bytes @ rest) = Inr (LeafV1 (attr value), rest)"
  using enum_back [OF assms(1-3), of attr] reader assms(1) by (auto simp: marked_append readAttribute_marked)

lemma enum_readers_by_code:
  "readAttributeCode B kComparisonDirectionV1Attr = readEnumAttribute B ComparisonDirectionV1 (EnumV1Attr ''ComparisonDirectionV1'')"
  "readAttributeCode B kComparisonTypeV1Attr = readEnumAttribute B ComparisonTypeV1 (EnumV1Attr ''ComparisonTypeV1'')"
  "readAttributeCode B kFftTypeV1Attr = readEnumAttribute B FftTypeV1 (EnumV1Attr ''FftTypeV1'')"
  "readAttributeCode B kPrecisionV1Attr = readEnumAttribute B PrecisionV1 (EnumV1Attr ''PrecisionV1'')"
  "readAttributeCode B kRngAlgorithmV1Attr = readEnumAttribute B RngAlgorithmV1 (EnumV1Attr ''RngAlgorithmV1'')"
  "readAttributeCode B kRngDistributionV1Attr = readEnumAttribute B RngDistributionV1 (EnumV1Attr ''RngDistributionV1'')"
  "readAttributeCode B kTransposeV1Attr = readEnumAttribute B TransposeV1 (EnumV1Attr ''TransposeV1'')"
  "readAttributeCode B kCustomCallApiVersionV1Attr = readEnumAttribute B CustomCallApiVersionV1 CustomCallApiVersionV1Attr"
  "readAttributeCode B kResultAccuracyModeV1Attr = readEnumAttribute B ResultAccuracyModeV1 ResultAccuracyModeV1Attr"
  by (rule ext, simp add: enum_readers)+

lemma leaf_round_trip:
  assumes "bytecode_ok B" "writable_leaf leaf"
  shows "\<exists>bytes. writeAttribute B (LeafV1 leaf) = Inr bytes \<and> readAttribute B (bytes @ rest) = Inr (LeafV1 leaf, rest)"
proof -
  note reads = primitives_read_back [OF assms(1)] marked_append readAttribute_marked [OF assms(1)]
  note enum_back' = enum_round_trip [OF assms(1) enum_tables_ok(1) _ enum_readers_by_code(1)]
    enum_round_trip [OF assms(1) enum_tables_ok(2) _ enum_readers_by_code(2)]
    enum_round_trip [OF assms(1) enum_tables_ok(4) _ enum_readers_by_code(3)]
    enum_round_trip [OF assms(1) enum_tables_ok(5) _ enum_readers_by_code(4)]
    enum_round_trip [OF assms(1) enum_tables_ok(6) _ enum_readers_by_code(5)]
    enum_round_trip [OF assms(1) enum_tables_ok(7) _ enum_readers_by_code(6)]
    enum_round_trip [OF assms(1) enum_tables_ok(8) _ enum_readers_by_code(7)]
    enum_round_trip [OF assms(1) enum_tables_ok(3) _ enum_readers_by_code(8)]
    enum_round_trip [OF assms(1) enum_tables_ok(9) _ enum_readers_by_code(9)]
  show ?thesis
  proof (cases leaf)
    case (EnumV1Attr enum v)
    with assms(2) show ?thesis
      by (simp add: enumerators_def writeEnumAttr_def enum_writers enum_back' split: if_splits)
  next
    case (CustomCallApiVersionV1Attr v)
    with assms(2) show ?thesis by (simp add: enum_writers enum_back')
  next
    case (ResultAccuracyModeV1Attr v)
    with assms(2) show ?thesis by (simp add: enum_writers enum_back')
  qed (use assms(2) in \<open>simp_all add: attr_writers reads attr_readers uint64_def\<close>)
qed

text \<open>
  C35: an attribute of VHLO that is written to bytecode is read back as the same attribute, and reading stops where writing stopped. The
  condition \<open>writable_attr\<close> has numbers in the ranges of their C++ fields, floats of formats that the reader knows, and integers of
  types whose width it knows: indices and integers of 4, 8, 16, 32 and 64 bits. An integer attribute of 2 bits or of a boolean is
  written, but ends in a fatal error when it is read (\<open>narrow_integer_unreadable\<close>). Tensors of booleans, which may come back in
  another form, are treated apart.
\<close>

theorem attribute_bytecode_round_trip:
  assumes "bytecode_ok B" "writable_attr B a"
  shows "\<exists>bytes. writeAttribute B a = Inr bytes \<and> readAttribute B (bytes @ rest) = Inr (a, rest)"
proof -
  note reads = primitives_read_back [OF assms(1)] marked_append readAttribute_marked [OF assms(1)] pair_list_back [OF assms(1)]
  show ?thesis
  proof (cases a)
    case (LeafV1 leaf)
    with assms show ?thesis by (simp add: leaf_round_trip)
  next
    case (AxisRefV1 name info)
    then show ?thesis by (cases info) (simp_all add: attr_writers reads attr_readers uint64_def)
  qed (use assms(2) in \<open>auto simp: attr_writers reads attr_readers are_bytes_def split: sum.splits\<close>)
qed

section \<open>Errors\<close>

text \<open>
  A stream that starts with a code no attribute has is refused by the reader of attributes, whatever follows it, and one that starts
  with a code no type has by the reader of types.
\<close>

theorem unknown_codes_refused:
  assumes "bytecode_ok B" "uint64 code"
  shows "(code \<notin> attributeCode ` set attributeCodes \<longrightarrow>
      readAttribute B (w_VarInt B code @ rest) = Inl (Failure ''unknown vhlo attribute code: '')) \<and>
    (code \<notin> typeCode ` set typeCodes \<longrightarrow> readType B (w_VarInt B code @ rest) = Inl (Failure ''unknown vhlo type code: ''))"
proof -
  have "code \<notin> attributeCode ` set attributeCodes \<Longrightarrow> attributeCode_of code = None"
    "code \<notin> typeCode ` set typeCodes \<Longrightarrow> typeCode_of code = None"
    by (auto simp: attributeCode_of_def typeCode_of_def find_None_iff)
  then show ?thesis
    using assms by (simp add: readAttribute_def readType_def primitives_read_back)
qed

text \<open>
  An integer attribute of a two-bit or a boolean type is written without complaint, and what was written cannot be read: the reader does
  not know the width of the type and stops with a fatal error.
\<close>

lemma narrow_integer_unreadable:
  assumes "bytecode_ok B" "t \<in> {IntegerSI2V1, IntegerUI2V1, BooleanV1}"
  shows "\<exists>bytes. writeAttribute B (IntegerV1 (ScalarV1 t) v) = Inr bytes \<and>
    readAttribute B (bytes @ rest) = Inl (Fatal ''unsupported integer type'')"
  using assms
  by (auto simp: writeIntegerV1Attr_def readIntegerV1Attr_def integer_width_def marked_append readAttribute_marked primitives_read_back)

end
