(* ===== verification/Vhlo_Bytecode_Witness.thy ===== *)
theory Vhlo_Bytecode_Witness
  imports Vhlo_Bytecode_Correct
begin

text \<open>
  A stream of tagged items reads back what it writes; the round trips of \<^verbatim>\<open>Vhlo_Bytecode_Correct\<close> are applied on it.
\<close>

section \<open>A stream of items\<close>

datatype item =
    Item_nat nat | Item_int int | Item_ints "int list" | Item_string string | Item_float double_attr
  | Item_attr VhloAttr | Item_opt "VhloAttr option" | Item_attrs "VhloAttr list"
  | Item_type VhloType | Item_types "VhloType list"

definition read_item :: "(item \<Rightarrow> 'a option) \<Rightarrow> ('a, item) reader" where
  "read_item f s =
     (case s of [] \<Rightarrow> Inl (Failure '''') | i # s \<Rightarrow> (case f i of None \<Rightarrow> Inl (Failure '''') | Some x \<Rightarrow> Inr (x, s)))"

fun read_times :: "nat \<Rightarrow> ('a, item) reader \<Rightarrow> ('a list, item) reader" where
  "read_times 0 r s = Inr ([], s)"
| "read_times (Suc n) r s = rbind (r s) (\<lambda>(x, s). rbind (read_times n r s) (\<lambda>(xs, s). Inr (x # xs, s)))"

definition write_items :: "('a \<Rightarrow> item list) \<Rightarrow> 'a list \<Rightarrow> item list" where
  "write_items w xs = Item_nat (length xs) # concat (map w xs)"

definition read_items :: "('a, item) reader \<Rightarrow> ('a list, item) reader" where
  "read_items r s = (case s of Item_nat n # s \<Rightarrow> read_times n r s | _ \<Rightarrow> Inl (Failure ''''))"

definition items :: "item bytecode" where
  "items = \<lparr>
     w_VarInt = \<lambda>n. [Item_nat n], r_VarInt = read_item (\<lambda>i. case i of Item_nat n \<Rightarrow> Some n | _ \<Rightarrow> None),
     w_SignedVarInt = \<lambda>v. [Item_int v], r_SignedVarInt = read_item (\<lambda>i. case i of Item_int v \<Rightarrow> Some v | _ \<Rightarrow> None),
     w_SignedVarInts = \<lambda>vs. [Item_ints vs], r_SignedVarInts = read_item (\<lambda>i. case i of Item_ints vs \<Rightarrow> Some vs | _ \<Rightarrow> None),
     w_String = \<lambda>str. [Item_string str], r_String = read_item (\<lambda>i. case i of Item_string str \<Rightarrow> Some str | _ \<Rightarrow> None),
     w_Blob = \<lambda>vs. [Item_ints vs], r_Blob = read_item (\<lambda>i. case i of Item_ints vs \<Rightarrow> Some vs | _ \<Rightarrow> None),
     w_APFloat = \<lambda>x. [Item_float x], r_APFloat = \<lambda>f. read_item (\<lambda>i. case i of Item_float x \<Rightarrow> Some x | _ \<Rightarrow> None),
     w_APInt = \<lambda>v. [Item_int v], r_APInt = \<lambda>k. read_item (\<lambda>i. case i of Item_int v \<Rightarrow> Some v | _ \<Rightarrow> None),
     w_Attribute = \<lambda>a. [Item_attr a], r_Attribute = read_item (\<lambda>i. case i of Item_attr a \<Rightarrow> Some a | _ \<Rightarrow> None),
     w_OptionalAttribute = \<lambda>a. [Item_opt a], r_OptionalAttribute = read_item (\<lambda>i. case i of Item_opt a \<Rightarrow> Some a | _ \<Rightarrow> None),
     w_Attributes = \<lambda>as. [Item_attrs as], r_Attributes = read_item (\<lambda>i. case i of Item_attrs as \<Rightarrow> Some as | _ \<Rightarrow> None),
     w_Type = \<lambda>t. [Item_type t], r_Type = read_item (\<lambda>i. case i of Item_type t \<Rightarrow> Some t | _ \<Rightarrow> None),
     w_Types = \<lambda>ts. [Item_types ts], r_Types = read_item (\<lambda>i. case i of Item_types ts \<Rightarrow> Some ts | _ \<Rightarrow> None),
     w_PairList = write_items, r_PairList = read_items, w_FloatList = write_items, r_FloatList = read_items,
     w_IntList = write_items, r_IntList = read_items,
     float_fits = \<lambda>f x. f = Float64, int_fits = \<lambda>k v. 0 \<le> v \<and> v < 2 ^ k\<rparr>"

lemma items_read_back: "list_reads_back write_items read_items"
  unfolding list_reads_back_def
proof (intro allI impI)
  fix w :: "'a \<Rightarrow> item list" and r :: "('a, item) reader" and xs
  assume "\<forall>x\<in>set xs. reads_back w r x"
  then have "read_times (length xs) r (concat (map w xs) @ rest) = Inr (xs, rest)" for rest
    by (induction xs) (simp_all add: reads_back_def)
  then show "reads_back (write_items w) (read_items r) xs"
    by (simp add: reads_back_def write_items_def read_items_def)
qed

lemma items_ok: "bytecode_ok items"
  by (simp add: bytecode_ok_def items_def items_read_back) (simp add: reads_back_def [abs_def] read_item_def)

section \<open>The round trips\<close>

definition quantized_type :: VhloType where
  "quantized_type =
     UniformQuantizedPerAxisV1 1 (ScalarV1 IntegerSI8V1) (ScalarV1 FloatF32V1) 1 [] [- 3, 4] (- 128) 127"

lemma type_bytecode_round_trip_witness:
  "\<exists>bytes. writeType items quantized_type = Inr bytes \<and> readType items (bytes @ [Item_nat 7]) = Inr (quantized_type, [Item_nat 7])"
  by (rule type_bytecode_round_trip) (simp_all add: items_ok quantized_type_def uint64_def int64_def)

definition mesh_axis :: VhloAttr where
  "mesh_axis = MeshAxisV1 (LeafV1 (StringV1Attr ''x'')) 4"

lemma attribute_bytecode_round_trip_witness:
  "\<exists>bytes. writeAttribute items mesh_axis = Inr bytes \<and> readAttribute items (bytes @ [Item_int 0]) = Inr (mesh_axis, [Item_int 0])"
  by (rule attribute_bytecode_round_trip) (simp_all add: items_ok mesh_axis_def int64_def)

text \<open>Ten booleans take two bytes.\<close>

definition ten_flags :: VhloType where
  "ten_flags = RankedTensorV1 [2, 5] (ScalarV1 BooleanV1) None"

lemma boolean_tensor_round_trip_witness:
  "pack 10 [1, 0, 1, 1, 0, 0, 0, 1, 0, 1] = [141, 2] \<and>
   (\<exists>bytes blob. writeAttribute items (TensorV1 ten_flags [1, 0, 1, 1, 0, 0, 0, 1, 0, 1]) = Inr bytes \<and>
      readAttribute items (bytes @ []) = Inr (TensorV1 ten_flags blob, []) \<and>
      same_flags (getNumElements_of ten_flags) [1, 0, 1, 1, 0, 0, 0, 1, 0, 1] blob)"
proof
  show "pack 10 [1, 0, 1, 1, 0, 0, 0, 1, 0, 1] = [141, 2]" by code_simp
qed (rule boolean_tensor_round_trip, simp_all add: items_ok ten_flags_def well_sized_def getNumElements_of_def)

lemma unknown_codes_refused_witness:
  "readAttribute items ([Item_nat 26] @ []) = Inl (Failure ''unknown vhlo attribute code: '')"
proof -
  have "w_VarInt items 26 = [Item_nat 26]" by (simp add: items_def)
  moreover have "(26 :: nat) \<notin> attributeCode ` set attributeCodes" by (simp add: attributeCodes_def)
  ultimately show ?thesis
    using unknown_codes_refused [of items 26 "[]"] by (simp add: items_ok uint64_def)
qed

end
