(* ===== verification/Gather_Types.thy ===== *)
theory Gather_Types
  imports Region_Types
begin

text \<open>
  The shape functions and verifiers of \<^verbatim>\<open>TypeInference.cpp\<close> for \<open>gather\<close>, \<open>dynamic_gather\<close> and \<open>scatter\<close>.
\<close>

section \<open>Gather\<close>

definition checkBatchingSizes :: "string \<Rightarrow> int list \<Rightarrow> int list \<Rightarrow> int list \<Rightarrow> int list \<Rightarrow> unit result" where
  "checkBatchingSizes msg shape1 shape2 dims1 dims2 =
     foldM (\<lambda>(d1, d2) _. rbind (vec_nth shape1 d1) (\<lambda>n1. rbind (vec_nth shape2 d2) (\<lambda>n2.
       guard (verifyCompatibleDims n1 n2) (Failure msg)))) (zip dims1 dims2) ()"

text \<open>The slice sizes are given by their rank and their number of elements.\<close>

definition verifyGather ::
  "int list \<Rightarrow> int list \<Rightarrow> int \<times> int \<Rightarrow> int list \<Rightarrow> int list \<Rightarrow> int list \<Rightarrow> int list \<Rightarrow> int list \<Rightarrow> int \<Rightarrow> unit result" where
  "verifyGather operandShape startIndicesShape sliceSizesShape offsetDims collapsedSliceDims operandBatchingDims
     startIndicesBatchingDims startIndexMap indexVectorDim =
     (let operandRank = int (length operandShape); startIndicesRank = int (length startIndicesShape) in
      rbind (guard (length operandShape = length offsetDims + length collapsedSliceDims + length operandBatchingDims)
        (Failure ''offset_dims size plus collapse_slice_dims size plus operand_batching_dims size is not equal to operand rank'')) (\<lambda>_.
      rbind (checkDimInBounds indexVectorDim startIndicesRank True) (\<lambda>_.
      rbind (let impliedTrailingDim = (indexVectorDim = startIndicesRank) in
             if impliedTrailingDim \<or> \<not> isDynamicDimSize (startIndicesShape ! nat indexVectorDim) then
               guard ((if impliedTrailingDim then 1 else startIndicesShape ! nat indexVectorDim) = int (length startIndexMap))
                 (Failure ''start_index_map size is not equal to size of index dimension of start_indices'')
             else Inr ()) (\<lambda>_.
      rbind (guard (sorted offsetDims) (Failure ''expects offset_dims to be sorted'')) (\<lambda>_.
      rbind (guard (isUnique offsetDims) (Failure ''expects offset_dims to not repeat'')) (\<lambda>_.
      rbind (checkDimsDistinct collapsedSliceDims operandBatchingDims) (\<lambda>_.
      rbind (guard (sorted collapsedSliceDims) (Failure ''expects collapsed_slice_dims to be sorted'')) (\<lambda>_.
      rbind (checkDimsInBounds collapsedSliceDims operandRank) (\<lambda>_.
      rbind (guard (sorted operandBatchingDims) (Failure ''expects operand_batching_dims to be sorted'')) (\<lambda>_.
      rbind (checkDimsInBounds operandBatchingDims operandRank) (\<lambda>_.
      rbind (guard (isUnique startIndicesBatchingDims) (Failure ''expects start_indices_batching_dims to not repeat'')) (\<lambda>_.
      rbind (checkDimsInBounds startIndicesBatchingDims startIndicesRank) (\<lambda>_.
      rbind (guard (indexVectorDim \<notin> set startIndicesBatchingDims)
        (Failure ''expects start_indices_batching_dims not to include index_vector_dim'')) (\<lambda>_.
      rbind (guard (length operandBatchingDims = length startIndicesBatchingDims)
        (Failure ''operand_batching_dims and start_indices_batching_dims should have the same size'')) (\<lambda>_.
      rbind (checkBatchingSizes ''operand_batching_dims and start_indices_batching_dims must have compatible sizes''
               operandShape startIndicesShape operandBatchingDims startIndicesBatchingDims) (\<lambda>_.
      rbind (checkDimsDistinct startIndexMap operandBatchingDims) (\<lambda>_.
      rbind (checkDimsInBounds startIndexMap operandRank) (\<lambda>_.
      rbind (guard (fst sliceSizesShape = 1) (Failure ''slice_sizes.rank != 1'')) (\<lambda>_.
        guard (snd sliceSizesShape = operandRank) (Failure ''slice_sizes size not equal to operand rank'')
      )))))))))))))))))))"

definition inferGatherShape ::
  "int \<Rightarrow> (int \<Rightarrow> int result) \<Rightarrow> (int \<Rightarrow> int result) \<Rightarrow> int list \<Rightarrow> int list \<Rightarrow> int list \<Rightarrow> int \<Rightarrow> int list result" where
  "inferGatherShape resultRank getStartIndicesDim getSliceDim offsetDims collapsedSliceDims operandBatchingDims indexVectorDim =
     (let collapsedAndBatchDims = collapsedSliceDims @ operandBatchingDims;
          maxOperandDim = (case collapsedAndBatchDims of [] \<Rightarrow> - 1 | d # ds \<Rightarrow> fold max ds d) in
      rbind (mapM getSliceDim (filter (\<lambda>d. d \<notin> set collapsedAndBatchDims) (upto_int (maxOperandDim + 1)))) (\<lambda>adjustedSliceSizePrefix.
      let getAdjustedSliceDim = (\<lambda>index.
            if index < int (length adjustedSliceSizePrefix) then Inr (adjustedSliceSizePrefix ! nat index)
            else getSliceDim (index + int (length collapsedSliceDims) + int (length operandBatchingDims)));
          batchDims = filter (\<lambda>d. d \<notin> set offsetDims) (upto_int resultRank) in
      mapM (\<lambda>i.
        case find_index i offsetDims of
          Some index \<Rightarrow> getAdjustedSliceDim (int index)
        | None \<Rightarrow>
            (case find_index i batchDims of
               None \<Rightarrow> Inl (UB ''assertion failed: batchDimsIt != batchDims.end()'')
             | Some index \<Rightarrow> getStartIndicesDim (if indexVectorDim \<le> int index then int index + 1 else int index)))
        (upto_int resultRank)))"

text \<open>The bounds of the batch dimensions, taken from the start indices one after the other.\<close>

fun gather_bounds :: "int list \<Rightarrow> int list \<Rightarrow> int \<Rightarrow> int list \<Rightarrow> int \<Rightarrow> int list result" where
  "gather_bounds [] offsetDims indexVectorDim startIndicesBounds startIndicesDim = Inr []"
| "gather_bounds (resultDim # rest) offsetDims indexVectorDim startIndicesBounds startIndicesDim =
     (if resultDim \<in> set offsetDims then
        rbind (gather_bounds rest offsetDims indexVectorDim startIndicesBounds startIndicesDim) (\<lambda>bs. Inr (kDynamic # bs))
      else let dim = (if startIndicesDim = indexVectorDim then startIndicesDim + 1 else startIndicesDim) in
        rbind (vec_nth startIndicesBounds dim) (\<lambda>b.
        rbind (gather_bounds rest offsetDims indexVectorDim startIndicesBounds (dim + 1)) (\<lambda>bs. Inr (b # bs))))"

definition inferGatherReturnTypeComponents ::
  "RankedTensorType \<Rightarrow> RankedTensorType \<Rightarrow> (int \<Rightarrow> int result) \<Rightarrow> int list \<Rightarrow> int list \<Rightarrow> int list \<Rightarrow> int \<Rightarrow> RankedTensorType result" where
  "inferGatherReturnTypeComponents operandType startIndicesType getSliceDim offsetDims collapsedSliceDims operandBatchingDims
     indexVectorDim =
     (let startIndicesRank = (if indexVectorDim = rt_rank startIndicesType then rt_rank startIndicesType + 1 else rt_rank startIndicesType);
          resultRank = int (length offsetDims) + startIndicesRank - 1;
          startIndicesBounds = encodingToBounds (getEncoding startIndicesType) in
      rbind (checkDimsInBounds offsetDims resultRank) (\<lambda>_.
      rbind (inferGatherShape resultRank (vec_nth (getShape startIndicesType)) getSliceDim offsetDims collapsedSliceDims
               operandBatchingDims indexVectorDim) (\<lambda>shape.
      rbind (if startIndicesBounds = [] then Inr (replicate (nat resultRank) kDynamic)
             else gather_bounds (upto_int resultRank) offsetDims indexVectorDim startIndicesBounds 0) (\<lambda>inferredBounds.
      rbind (boundsToEncoding (getEncoding startIndicesType) inferredBounds) (\<lambda>encoding.
        Inr (mkRankedTensorType shape (getElementType operandType) encoding))))))"

definition checkSliceSizesOne :: "int list \<Rightarrow> int list \<Rightarrow> unit result" where
  "checkSliceSizesOne sliceSizes dims =
     foldM (\<lambda>dim _. rbind (vec_nth sliceSizes dim) (\<lambda>sliceDimSize.
       guard (sliceDimSize \<le> 1) (Failure ''Expects that for each dim, slice_sizes[dim] should be <= 1''))) dims ()"

definition checkSliceSizesInBounds :: "int list \<Rightarrow> int list \<Rightarrow> unit result" where
  "checkSliceSizesInBounds operandShape sliceSizes =
     foldM (\<lambda>index _. rbind (vec_nth sliceSizes index) (\<lambda>sz. rbind (vec_nth operandShape index) (\<lambda>n.
       guard (\<not> (sz < 0 \<or> (\<not> isDynamicDimSize n \<and> n < sz))) (Failure ''slice size is out of bounds for operand dimension''))))
       (upto_int (int (length sliceSizes))) ()"

definition inferGatherOp ::
  "RankedTensorType \<Rightarrow> RankedTensorType \<Rightarrow> int list \<Rightarrow> int list \<Rightarrow> int list \<Rightarrow> int list \<Rightarrow> int list \<Rightarrow> int \<Rightarrow> int list \<Rightarrow>
   RankedTensorType result" where
  "inferGatherOp operandType startIndicesType offsetDims collapsedSliceDims operandBatchingDims startIndicesBatchingDims
     startIndexMap indexVectorDim sliceSizes =
     rbind (verifyGather (getShape operandType) (getShape startIndicesType) (1, int (length sliceSizes)) offsetDims
       collapsedSliceDims operandBatchingDims startIndicesBatchingDims startIndexMap indexVectorDim) (\<lambda>_.
     rbind (checkSliceSizesOne sliceSizes collapsedSliceDims) (\<lambda>_.
     rbind (checkSliceSizesOne sliceSizes operandBatchingDims) (\<lambda>_.
     rbind (checkSliceSizesInBounds (getShape operandType) sliceSizes) (\<lambda>_.
       inferGatherReturnTypeComponents operandType startIndicesType (vec_nth sliceSizes) offsetDims collapsedSliceDims
         operandBatchingDims indexVectorDim))))"

text \<open>Of the slice sizes of \<open>dynamic_gather\<close> the type is known and, when they are a constant, the values.\<close>

definition inferDynamicGatherOp ::
  "RankedTensorType \<Rightarrow> RankedTensorType \<Rightarrow> RankedTensorType \<Rightarrow> int list option \<Rightarrow> int list \<Rightarrow> int list \<Rightarrow> int list \<Rightarrow> int list \<Rightarrow>
   int list \<Rightarrow> int \<Rightarrow> RankedTensorType result" where
  "inferDynamicGatherOp operandType startIndicesType sliceSizesType sliceSizesValues offsetDims collapsedSliceDims
     operandBatchingDims startIndicesBatchingDims startIndexMap indexVectorDim =
     rbind (verifyGather (getShape operandType) (getShape startIndicesType) (rt_rank sliceSizesType, prod_list (getShape sliceSizesType))
       offsetDims collapsedSliceDims operandBatchingDims startIndicesBatchingDims startIndexMap indexVectorDim) (\<lambda>_.
     rbind (case sliceSizesValues of None \<Rightarrow> Inr ()
            | Some sliceSizes \<Rightarrow>
                rbind (checkSliceSizesOne sliceSizes collapsedSliceDims) (\<lambda>_.
                rbind (checkSliceSizesOne sliceSizes operandBatchingDims) (\<lambda>_.
                  checkSliceSizesInBounds (getShape operandType) sliceSizes))) (\<lambda>_.
       inferGatherReturnTypeComponents operandType startIndicesType
         (\<lambda>index. case sliceSizesValues of None \<Rightarrow> Inr kDynamic | Some sliceSizes \<Rightarrow> vec_nth sliceSizes index)
         offsetDims collapsedSliceDims operandBatchingDims indexVectorDim))"

section \<open>Scatter\<close>

definition validateScatterDimensionNumbers ::
  "RankedTensorType \<Rightarrow> int list \<Rightarrow> RankedTensorType \<Rightarrow> int list \<Rightarrow> int list \<Rightarrow> int list \<Rightarrow> int list \<Rightarrow> int list \<Rightarrow> int \<Rightarrow> unit result" where
  "validateScatterDimensionNumbers operandType scatterIndicesShape updateType updateWindowDims insertedWindowDims inputBatchingDims
     scatterIndicesBatchingDims scatterDimsToOperandDims indexVectorDim =
     rbind (guard (length (getShape operandType) = length updateWindowDims + length insertedWindowDims + length inputBatchingDims)
       (Failure ''Expects rank-of operand to match the window dimensions'')) (\<lambda>_.
     rbind (guard (sorted updateWindowDims) (Failure ''Expects update_window_dims to be sorted'')) (\<lambda>_.
     rbind (guard (isUnique updateWindowDims) (Failure ''Expects update_window_dims to not repeat'')) (\<lambda>_.
     rbind (checkDimsInBounds updateWindowDims (rt_rank updateType)) (\<lambda>_.
     rbind (checkDimsDistinct insertedWindowDims inputBatchingDims) (\<lambda>_.
     rbind (guard (sorted insertedWindowDims) (Failure ''Expects inserted_window_dims to be sorted'')) (\<lambda>_.
     rbind (checkDimsInBounds insertedWindowDims (rt_rank operandType)) (\<lambda>_.
     rbind (guard (sorted inputBatchingDims) (Failure ''Expects input_batching_dims to be sorted'')) (\<lambda>_.
     rbind (checkDimsInBounds inputBatchingDims (rt_rank operandType)) (\<lambda>_.
     rbind (guard (isUnique scatterIndicesBatchingDims) (Failure ''Expects scatter_indices_batching_dims to not repeat'')) (\<lambda>_.
     rbind (checkDimsInBounds scatterIndicesBatchingDims (int (length scatterIndicesShape))) (\<lambda>_.
     rbind (guard (indexVectorDim \<notin> set scatterIndicesBatchingDims)
       (Failure ''expects scatter_indices_batching_dims not to include index_vector_dim'')) (\<lambda>_.
     rbind (guard (length inputBatchingDims = length scatterIndicesBatchingDims)
       (Failure ''input_batching_dims and scatter_indices_batching_dims should have the same size'')) (\<lambda>_.
     rbind (checkBatchingSizes ''input_batching_dims and scatter_indices_batching_dims must have compatible sizes''
              (getShape operandType) scatterIndicesShape inputBatchingDims scatterIndicesBatchingDims) (\<lambda>_.
     rbind (guard (\<not> (indexVectorDim = int (length scatterIndicesShape) \<and> length scatterDimsToOperandDims \<noteq> 1))
       (Failure ''scatter_dims_to_operand_dims and the bound of index_vector_dim must be equal'')) (\<lambda>_.
     rbind (vec_nth scatterIndicesShape indexVectorDim) (\<lambda>indexSize.
     rbind (guard (isDynamicDimSize indexSize \<or> int (length scatterDimsToOperandDims) = indexSize)
       (Failure ''scatter_dims_to_operand_dims and the bound of index_vector_dim must be equal'')) (\<lambda>_.
     rbind (checkDimsDistinct scatterDimsToOperandDims inputBatchingDims) (\<lambda>_.
       checkDimsInBounds scatterDimsToOperandDims (rt_rank operandType)))))))))))))))))))"

text \<open>
  The sizes of the operand outside the inserted and the batching dimensions: the loop walks both sorted lists of dimensions along with
  the dimensions of the operand.
\<close>

fun max_update_slice_sizes :: "int list \<Rightarrow> int \<Rightarrow> int list \<Rightarrow> int list \<Rightarrow> int list" where
  "max_update_slice_sizes [] i inserted batching = []"
| "max_update_slice_sizes (n # shape) i inserted batching =
     (if inserted \<noteq> [] \<and> hd inserted = i then max_update_slice_sizes shape (i + 1) (tl inserted) batching
      else if batching \<noteq> [] \<and> hd batching = i then max_update_slice_sizes shape (i + 1) inserted (tl batching)
      else n # max_update_slice_sizes shape (i + 1) inserted batching)"

fun check_scatter_dims :: "int list \<Rightarrow> int \<Rightarrow> int list \<Rightarrow> int list \<Rightarrow> int \<Rightarrow> int \<Rightarrow> unit result" where
  "check_scatter_dims [] i updateWindowDims scatterIndicesShape indexVectorDim scatterDimsSeen = Inr ()"
| "check_scatter_dims (n # updatesShape) i updateWindowDims scatterIndicesShape indexVectorDim scatterDimsSeen =
     (if i \<in> set updateWindowDims
      then check_scatter_dims updatesShape (i + 1) updateWindowDims scatterIndicesShape indexVectorDim scatterDimsSeen
      else let seen = (if scatterDimsSeen = indexVectorDim then scatterDimsSeen + 1 else scatterDimsSeen) in
        rbind (vec_nth scatterIndicesShape seen) (\<lambda>bound.
        rbind (guard (verifyCompatibleDims n bound)
          (Failure ''expects bounds of the scatter dimensions of updates to be same as those of scatter indices'')) (\<lambda>_.
          check_scatter_dims updatesShape (i + 1) updateWindowDims scatterIndicesShape indexVectorDim (seen + 1))))"

definition check_window_dims :: "int list \<Rightarrow> int list \<Rightarrow> int list \<Rightarrow> unit result" where
  "check_window_dims updatesShape updateWindowDims maxUpdateSliceSizes =
     foldM (\<lambda>i _. rbind (vec_nth updateWindowDims i) (\<lambda>updateWindowDim.
       rbind (vec_nth updatesShape updateWindowDim) (\<lambda>updateSize.
       rbind (vec_nth maxUpdateSliceSizes i) (\<lambda>maxSize.
         guard (isDynamicDimSize updateSize \<or> isDynamicDimSize maxSize \<or> updateSize \<le> maxSize)
           (Failure ''expects bounds of the window dimensions of updates to not exceed the bounds of operand'')))))
       (upto_int (int (length updateWindowDims))) ()"

definition verifyScatterOp ::
  "RankedTensorType list \<Rightarrow> RankedTensorType \<Rightarrow> RankedTensorType list \<Rightarrow> int list \<Rightarrow> int list \<Rightarrow> int list \<Rightarrow> int list \<Rightarrow> int list \<Rightarrow>
   int \<Rightarrow> Block option \<Rightarrow> unit result" where
  "verifyScatterOp operandTypes scatterIndicesType updatesTypes updateWindowDims insertedWindowDims inputBatchingDims
     scatterIndicesBatchingDims scatterDimsToOperandDims indexVectorDim updateComputation =
     (let numOperands = int (length operandTypes);
          expandedScatterIndicesShape =
            (if rt_rank scatterIndicesType = indexVectorDim then getShape scatterIndicesType @ [1] else getShape scatterIndicesType) in
      rbind (guard (list_all (\<lambda>t. verifyCompatibleShape (getShape (hd operandTypes)) (getShape t)) operandTypes)
        (Failure ''Not all inputs have compatible shapes.'')) (\<lambda>_.
      rbind (guard (list_all (\<lambda>t. verifyCompatibleShape (getShape (hd updatesTypes)) (getShape t)) updatesTypes)
        (Failure ''Not all updates have compatible shapes.'')) (\<lambda>_.
      rbind (checkDimInBounds indexVectorDim (rt_rank scatterIndicesType) True) (\<lambda>_.
      rbind (mapM (\<lambda>i. rbind (vec_nth updatesTypes i) (\<lambda>t. Inr (scalarType (getElementType t)))) (upto_int numOperands)) (\<lambda>initValueTypes.
      rbind (front_block updateComputation) (\<lambda>block.
      rbind (verifyReducerShape block operandTypes initValueTypes []) (\<lambda>_.
      rbind (foldM (\<lambda>i _. rbind (vec_nth updatesTypes i) (\<lambda>updatesType.
               guard (rt_rank updatesType = int (length expandedScatterIndicesShape) - 1 + int (length updateWindowDims))
                 (Failure ''expects updates tensor must be of another rank''))) (upto_int numOperands) ()) (\<lambda>_.
      rbind (foldM (\<lambda>i _. rbind (vec_nth operandTypes i) (\<lambda>operandType. rbind (vec_nth updatesTypes i) (\<lambda>updatesType.
               validateScatterDimensionNumbers operandType expandedScatterIndicesShape updatesType updateWindowDims insertedWindowDims
                 inputBatchingDims scatterIndicesBatchingDims scatterDimsToOperandDims indexVectorDim))) (upto_int numOperands) ()) (\<lambda>_.
        foldM (\<lambda>i _. rbind (vec_nth operandTypes i) (\<lambda>operandType. rbind (vec_nth updatesTypes i) (\<lambda>updatesType.
          rbind (check_window_dims (getShape updatesType) updateWindowDims
                   (max_update_slice_sizes (getShape operandType) 0 insertedWindowDims inputBatchingDims)) (\<lambda>_.
            check_scatter_dims (getShape updatesType) 0 updateWindowDims expandedScatterIndicesShape indexVectorDim 0))))
          (upto_int numOperands) ())))))))))"

end
