(* ===== verification/Op_Types.thy ===== *)
theory Op_Types
  imports Region_Types APInt
begin

text \<open>
  The shape functions and verifiers of \<^verbatim>\<open>TypeInference.cpp\<close> for element-wise operations, batch normalisation, linear algebra, dimension sizes,
  quantization, and for the dynamic versions of structural operations. An operand that may be a constant comes as its optional values.
\<close>

section \<open>Checks shared by several operations\<close>

definition verifyPairwiseCompatibleShapes :: "RankedTensorType list \<Rightarrow> bool" where
  "verifyPairwiseCompatibleShapes types \<longleftrightarrow>
     list_all (\<lambda>t1. list_all (\<lambda>t2. verifyCompatibleShape (getShape t1) (getShape t2)) types) types"

definition verifyShapeOperandIsCompatibleWithResultType :: "int list option \<Rightarrow> RankedTensorType \<Rightarrow> unit result" where
  "verifyShapeOperandIsCompatibleWithResultType shapeOperand resultType =
     (case shapeOperand of None \<Rightarrow> Inr ()
      | Some shape \<Rightarrow> guard (isCompatibleShapeForHloTypeInference shape (TensorType resultType))
          (Failure ''output shape is incompatible with return type of operation''))"

definition verifyAddOp :: "Type \<Rightarrow> Type \<Rightarrow> Type \<Rightarrow> unit result" where
  "verifyAddOp lhsType rhsType resultType =
     (if list_ex isQuantizedType [lhsType, rhsType, resultType]
      then verifyBinaryOpQuantizationConstraints lhsType rhsType resultType
      else guard (lhsType = rhsType \<and> lhsType = resultType)
        (Failure ''op requires the same element type for all operands and results''))"

definition verifyTransposeOp :: "Type \<Rightarrow> int list \<Rightarrow> Type \<Rightarrow> unit result" where
  "verifyTransposeOp operandEl permutation resultEl =
     rbind (verifyQPerTensorScaleAndZeroPointConstraints operandEl resultEl) (\<lambda>_.
     rbind (verifyQPerAxisScaleAndZeroPointConstraints operandEl resultEl) (\<lambda>_.
     if \<not> isPerAxisType resultEl then Inr ()
     else if \<not> isPerAxisType operandEl then Inl (UB ''cast to per-axis quantized type'')
     else rbind (vec_nth permutation (q_dimension resultEl)) (\<lambda>p.
       guard (q_dimension operandEl = p) (Failure ''operand quantization_dimension is not same as permutation''))))"

section \<open>Batch normalisation\<close>

definition verifyBatchNorm :: "RankedTensorType list \<Rightarrow> RankedTensorType list \<Rightarrow> int \<Rightarrow> unit result" where
  "verifyBatchNorm multiDimOperands singleDimOperands featureIndex =
     rbind (guard (verifyPairwiseCompatibleShapes multiDimOperands)
       (Failure ''expects multi-dimensional operands to have compatible shapes.'')) (\<lambda>_.
     rbind (guard (verifyPairwiseCompatibleShapes singleDimOperands)
       (Failure ''expects single-dimensional operands to have compatible shapes.'')) (\<lambda>_.
     rbind (vec_nth multiDimOperands 0) (\<lambda>multiDimType.
     rbind (guard (featureIndex < rt_rank multiDimType)
       (Failure ''expects featureIndex to be smaller than the rank of multi-dimensional operands'')) (\<lambda>_.
     rbind (vec_nth (getShape multiDimType) featureIndex) (\<lambda>featureCount.
     rbind (vec_nth singleDimOperands 0) (\<lambda>singleDimType.
     rbind (vec_nth (getShape singleDimType) 0) (\<lambda>singleDimSize.
       guard (verifyCompatibleDims singleDimSize featureCount)
         (Failure ''expects the size of single-dimensional operands to be compatible with feature count''))))))))"

definition inferBatchNormOp ::
  "RankedTensorType list \<Rightarrow> RankedTensorType list \<Rightarrow> int \<Rightarrow> bool \<Rightarrow> RankedTensorType list result" where
  "inferBatchNormOp multiDimOperands singleDimOperands featureIndex is_inference =
     rbind (verifyBatchNorm multiDimOperands singleDimOperands featureIndex) (\<lambda>_.
     rbind (vec_nth multiDimOperands 0) (\<lambda>multiDimType.
     if is_inference then Inr [multiDimType]
     else
       rbind (vec_nth (getShape multiDimType) featureIndex) (\<lambda>featureCount.
       let multiDimBounds = encodingToBounds (getEncoding multiDimType) in
       rbind (if multiDimBounds = [] then Inr NoEncoding
              else rbind (vec_nth multiDimBounds featureIndex) (\<lambda>b. boundsToEncoding (getEncoding multiDimType) [b])) (\<lambda>encoding.
       let singleDimType = mkRankedTensorType [featureCount] (getElementType multiDimType) encoding in
         Inr [multiDimType, singleDimType, singleDimType]))))"

definition inferBatchNormGradOp ::
  "RankedTensorType \<Rightarrow> RankedTensorType \<Rightarrow> RankedTensorType \<Rightarrow> RankedTensorType \<Rightarrow> RankedTensorType \<Rightarrow> int \<Rightarrow>
   RankedTensorType list result" where
  "inferBatchNormGradOp operand scale mean variance gradOutput featureIndex =
     inferBatchNormOp [operand, gradOutput] [scale, mean, variance] featureIndex False"

definition inferBatchNormInferenceOp ::
  "RankedTensorType \<Rightarrow> RankedTensorType \<Rightarrow> RankedTensorType \<Rightarrow> RankedTensorType \<Rightarrow> RankedTensorType \<Rightarrow> int \<Rightarrow>
   RankedTensorType list result" where
  "inferBatchNormInferenceOp operand scale offset mean variance featureIndex =
     inferBatchNormOp [operand] [scale, offset, mean, variance] featureIndex True"

definition inferBatchNormTrainingOp ::
  "RankedTensorType \<Rightarrow> RankedTensorType \<Rightarrow> RankedTensorType \<Rightarrow> int \<Rightarrow> RankedTensorType list result" where
  "inferBatchNormTrainingOp operand scale offset featureIndex =
     inferBatchNormOp [operand] [scale, offset] featureIndex False"

section \<open>Element-wise operations\<close>

definition real_element :: "Type \<Rightarrow> Type" where
  "real_element t = (case t of ComplexType c \<Rightarrow> c | _ \<Rightarrow> t)"

definition inferAbsOp :: "RankedTensorType \<Rightarrow> RankedTensorType" where
  "inferAbsOp operandTy = operandTy\<lparr>getElementType := real_element (getElementType operandTy)\<rparr>"

definition inferBroadcastOp :: "RankedTensorType \<Rightarrow> int list \<Rightarrow> RankedTensorType result" where
  "inferBroadcastOp operandType broadcastSizes =
     rbind (guard (\<not> list_ex (\<lambda>n. n < 0) broadcastSizes) (Failure ''Broadcast with negative dimension size'')) (\<lambda>_.
       Inr (mkRankedTensorType (broadcastSizes @ getShape operandType) (getElementType operandType) NoEncoding))"

definition inferClampOp :: "RankedTensorType \<Rightarrow> RankedTensorType \<Rightarrow> RankedTensorType \<Rightarrow> RankedTensorType result" where
  "inferClampOp minType operandType maxType =
     rbind (guard (verifyCompatibleShape (getShape minType) (getShape operandType) \<or> rt_rank minType = 0)
       (Failure ''min shape is not scalar and is not compatible to operand shape'')) (\<lambda>_.
     rbind (guard (verifyCompatibleShape (getShape maxType) (getShape operandType) \<or> rt_rank maxType = 0)
       (Failure ''max shape is not scalar and is not compatible to operand shape'')) (\<lambda>_.
       Inr operandType))"

definition inferCompareOp :: "RankedTensorType \<Rightarrow> RankedTensorType" where
  "inferCompareOp argTy = mkRankedTensorType (getShape argTy) (IntegerType Signless 1) (getEncoding argTy)"

definition inferComplexOp :: "RankedTensorType \<Rightarrow> RankedTensorType" where
  "inferComplexOp operandType = getSameShapeTensorType operandType (ComplexType (getElementType operandType))"

definition inferImagOp :: "RankedTensorType \<Rightarrow> RankedTensorType" where
  "inferImagOp operandType = createRealType operandType"

definition inferRealOp :: "RankedTensorType \<Rightarrow> RankedTensorType" where
  "inferRealOp operandType = createRealType operandType"

definition inferIsFiniteOp :: "RankedTensorType \<Rightarrow> RankedTensorType" where
  "inferIsFiniteOp argTy = getSameShapeTensorType argTy (IntegerType Signless 1)"

definition inferSelectOp :: "RankedTensorType \<Rightarrow> RankedTensorType \<Rightarrow> RankedTensorType \<Rightarrow> RankedTensorType result" where
  "inferSelectOp predType trueType falseType =
     rbind (guard (compatibleShapeAndElementType trueType (TensorType falseType) False)
       (Failure ''requires compatible types for non-predicate operands'')) (\<lambda>_.
     rbind (guard (rt_rank predType = 0 \<or> verifyCompatibleShape (getShape predType) (getShape trueType))
       (Failure ''requires the same shape for all operands'')) (\<lambda>_.
       inferMostSpecificTypeComponents [TensorType trueType, TensorType falseType]))"

definition verifyUniformQuantizeOp :: "Type \<Rightarrow> Type \<Rightarrow> unit result" where
  "verifyUniformQuantizeOp operandElementType resultElementType =
     (if \<not> isQuantizedType resultElementType \<or> (\<not> isFloatType operandElementType \<and> \<not> isQuantizedType operandElementType)
      then Inl (UB ''cast to a quantized type'')
      else guard (q_expressed resultElementType =
                  (if isFloatType operandElementType then operandElementType else q_expressed operandElementType))
        (Failure ''Expressed type of result is not the expected one''))"

definition inferUniformDequantizeOp :: "RankedTensorType \<Rightarrow> RankedTensorType result" where
  "inferUniformDequantizeOp operandType =
     (if isQuantizedType (getElementType operandType)
      then Inr (mkRankedTensorType (getShape operandType) (q_expressed (getElementType operandType)) NoEncoding)
      else Inl (UB ''cast to a quantized type''))"

section \<open>Linear algebra\<close>

definition last2 :: "int list \<Rightarrow> int \<times> int" where
  "last2 shape = (shape ! (length shape - 2), shape ! (length shape - 1))"

definition inferCholeskyOp :: "RankedTensorType \<Rightarrow> RankedTensorType result" where
  "inferCholeskyOp aType =
     rbind (guard (2 \<le> length (getShape aType)) (Failure ''argument 'a' must have rank >= 2'')) (\<lambda>_.
     rbind (guard (case last2 (getShape aType) of (m, n) \<Rightarrow> verifyCompatibleDims m n)
       (Failure ''minor dimensions of 'a' must have equal size'')) (\<lambda>_. Inr aType))"

definition inferTriangularSolveOp :: "RankedTensorType \<Rightarrow> RankedTensorType \<Rightarrow> bool \<Rightarrow> bool \<Rightarrow> RankedTensorType result" where
  "inferTriangularSolveOp aType bType leftSide isTransposeAInvalid =
     (let aShape = getShape aType; bShape = getShape bType in
      rbind (guard (2 \<le> length aShape) (Failure ''operand 'a' must have rank >= 2'')) (\<lambda>_.
      rbind (guard (case last2 aShape of (m, n) \<Rightarrow> verifyCompatibleDims m n)
        (Failure ''two minor dimensions of operand 'a' must be compatible'')) (\<lambda>_.
      rbind (guard (length aShape = length bShape) (Failure ''operands must have equal rank'')) (\<lambda>_.
      rbind (guard (case last2 bShape of (m, n) \<Rightarrow> verifyCompatibleDims (snd (last2 aShape)) (if leftSide then m else n))
        (Failure ''shared dimension of operands 'a' and 'b' must be compatible'')) (\<lambda>_.
      rbind (guard (verifyCompatibleShape (take (length aShape - 2) aShape) (take (length bShape - 2) bShape))
        (Failure ''batch dimensions of the operands must be compatible'')) (\<lambda>_.
      rbind (guard (\<not> isTransposeAInvalid) (Failure ''Invalid transpose option value for triangular solve'')) (\<lambda>_.
        Inr bType)))))))"

text \<open>\<open>fft\<close>: the result's innermost dimension follows the kind of transformation.\<close>

definition compatible_pairs :: "int list \<Rightarrow> int list \<Rightarrow> bool" where
  "compatible_pairs xs ys \<longleftrightarrow> list_all (\<lambda>(x, y). verifyCompatibleDims x y) (zip xs ys)"

definition take_back :: "nat \<Rightarrow> 'a list \<Rightarrow> 'a list" where
  "take_back n xs = drop (length xs - n) xs"

definition inferFftOp :: "RankedTensorType \<Rightarrow> bool \<Rightarrow> bool \<Rightarrow> int list \<Rightarrow> RankedTensorType result" where
  "inferFftOp operandType isFftTypeRfft isFftTypeIrfft fftLength =
     (let fftRank = length fftLength; operandElementType = getElementType operandType;
          operandShape = getShape operandType; lastLength = fftLength ! (fftRank - 1) in
      rbind (guard (1 \<le> fftRank \<and> fftRank \<le> 3) (Failure ''rank must be between 1 and 3'')) (\<lambda>_.
      rbind (if isFftTypeRfft
             then guard (operandElementType = FloatType Float32 \<or> operandElementType = FloatType Float64)
                    (Failure ''RFFT requires f32 or f64 input type'')
             else guard (isComplexType operandElementType)
                    (Failure ''FFT/IFFT/IRFFT take a complex tensor as input'')) (\<lambda>_.
      let resultElementType = (if isFftTypeRfft then ComplexType operandElementType
            else if isFftTypeIrfft then real_element operandElementType else operandElementType) in
      rbind (guard (fftRank \<le> length operandShape) (Failure ''operand rank must not be less than fft rank'')) (\<lambda>_.
      rbind (if isFftTypeRfft then
               rbind (guard (compatible_pairs (take_back fftRank operandShape) fftLength)
                 (Failure ''RFFT requires innermost dimensions to be compatible with fft_length'')) (\<lambda>_.
                 Inr (if lastLength \<noteq> 0 then operandShape[length operandShape - 1 := trunc_div lastLength 2 + 1] else operandShape))
             else Inr operandShape) (\<lambda>shape1.
      rbind (if isFftTypeIrfft then
               rbind (guard (compatible_pairs (butlast (take_back fftRank operandShape)) fftLength)
                 (Failure ''IRFFT requires non-final dimensions to be compatible with fft_length'')) (\<lambda>_.
               rbind (guard (\<not> ((\<not> verifyCompatibleDims (last operandShape) 0 \<or> lastLength \<noteq> 0) \<and>
                                 \<not> verifyCompatibleDims (last operandShape) (trunc_div lastLength 2 + 1)))
                 (Failure ''IRFFT requires innermost dimension to be compatible with fft_length[-1]/2+1'')) (\<lambda>_.
                 Inr (shape1[length shape1 - 1 := lastLength])))
             else Inr shape1) (\<lambda>resultShape.
      let bounds = encodingToBounds (getEncoding operandType);
          resultBounds = (if (isFftTypeIrfft \<or> isFftTypeRfft) \<and> bounds \<noteq> [] then butlast bounds @ [kDynamic] else bounds) in
      rbind (boundsToEncoding (getEncoding operandType) resultBounds) (\<lambda>encoding.
        Inr (mkRankedTensorType resultShape resultElementType encoding))))))))"

section \<open>Sizes of dimensions\<close>

definition inferGetDimensionSizeOp :: "RankedTensorType \<Rightarrow> int \<Rightarrow> RankedTensorType result" where
  "inferGetDimensionSizeOp operandType dimension =
     rbind (verifyDimInBounds operandType dimension) (\<lambda>_. Inr (scalarType (IntegerType Signless 32)))"

text \<open>The size operand's type and, when it is a constant, its value.\<close>

definition inferSetDimensionSizeOp :: "RankedTensorType \<Rightarrow> RankedTensorType \<Rightarrow> int option \<Rightarrow> int \<Rightarrow> RankedTensorType result" where
  "inferSetDimensionSizeOp inputType sizeType sizeValue dimension =
     rbind (guard (rt_rank sizeType = 0) (Failure ''size operand should be of rank-0'')) (\<lambda>_.
     rbind (verifyDimInBounds inputType dimension) (\<lambda>_.
     let inputBounds = encodingToBounds (getEncoding inputType);
         bounds = (if inputBounds = [] then replicate (length (getShape inputType)) kDynamic else inputBounds) in
     rbind (vec_nth (getShape inputType) dimension) (\<lambda>n.
     rbind (if isDynamicDimSize n then Inr bounds else vec_set bounds dimension n) (\<lambda>bounds1.
     rbind (vec_set (getShape inputType) dimension kDynamic) (\<lambda>shape1.
     rbind (vec_nth bounds1 dimension) (\<lambda>b.
     rbind (if sizeValue = Some b then vec_set shape1 dimension b else Inr shape1) (\<lambda>shape2.
     rbind (if sizeValue = Some b then vec_set bounds1 dimension kDynamic else Inr bounds1) (\<lambda>bounds2.
       Inr (mkRankedTensorType shape2 (getElementType inputType)
         (if list_all isDynamicDimSize bounds2 then NoEncoding else TypeExtensions bounds2))))))))))"

definition inferTopKOp :: "RankedTensorType \<Rightarrow> int \<Rightarrow> RankedTensorType list result" where
  "inferTopKOp operandType k =
     (let operandLastDim = rt_rank operandType - 1; bounds = encodingToBounds (getEncoding operandType) in
      rbind (guard (1 \<le> rt_rank operandType) (Failure ''operand's rank must be at least 1'')) (\<lambda>_.
      rbind (vec_nth (getShape operandType) operandLastDim) (\<lambda>n.
      rbind (guard (isDynamicDimSize n \<or> k \<le> n) (Failure ''operand's last dimension must be at least k'')) (\<lambda>_.
      rbind (vec_set (getShape operandType) operandLastDim k) (\<lambda>resultShape.
      rbind (if bounds = [] then Inr [] else vec_set bounds operandLastDim kDynamic) (\<lambda>resultBounds.
      rbind (boundsToEncoding (getEncoding operandType) resultBounds) (\<lambda>encoding.
        Inr [mkRankedTensorType resultShape (getElementType operandType) encoding,
             mkRankedTensorType resultShape (IntegerType Signless 32) encoding])))))))"

definition inferRngOp :: "Type \<Rightarrow> Type \<Rightarrow> RankedTensorType \<Rightarrow> int list option \<Rightarrow> bool \<Rightarrow> RankedTensorType result" where
  "inferRngOp muTy sigmaTy shapeOperandType shapeAttr isRngDistributionUniform =
     rbind (guard (isRngDistributionUniform \<or> (isFloatType muTy \<and> isFloatType sigmaTy)) (Failure ''mu and sigma must be floats'')) (\<lambda>_.
     case shapeAttr of
       None \<Rightarrow> rbind (vec_nth (getShape shapeOperandType) 0) (\<lambda>n. Inr (mkRankedTensorType (replicate (nat n) kDynamic) sigmaTy NoEncoding))
     | Some shape \<Rightarrow> Inr (mkRankedTensorType shape sigmaTy NoEncoding))"

definition inferGetTupleElementOp :: "ValueType \<Rightarrow> int \<Rightarrow> ValueType result" where
  "inferGetTupleElementOp operandType index =
     (case operandType of
        TupleType types \<Rightarrow>
          rbind (guard (index < int (length types)) (Failure ''index is out of bounds of operand'')) (\<lambda>_. vec_nth types index)
      | _ \<Rightarrow> Inl (Failure ''''))"

definition verifyRngBitGeneratorOp :: "RankedTensorType \<Rightarrow> RankedTensorType \<Rightarrow> unit result" where
  "verifyRngBitGeneratorOp initialShape outputShape =
     guard (verifyCompatibleShape (getShape initialShape) (getShape outputShape))
       (Failure ''output state shape must be compatible with initial state shape'')"

section \<open>Dynamic versions of structural operations\<close>

definition check_expansion_hints :: "int list option \<Rightarrow> int list option \<Rightarrow> int \<Rightarrow> unit result" where
  "check_expansion_hints knownExpandingDimensions knownNonexpandingDimensions operandRank =
     (let hints = value_or_empty knownExpandingDimensions @ value_or_empty knownNonexpandingDimensions in
      rbind (guard (distinct hints) (Failure ''duplicate expansion hint for at least one operand dimension'')) (\<lambda>_.
        guard (\<not> list_ex (\<lambda>i. i < 0 \<or> operandRank \<le> i) hints)
          (Failure ''hint for expanding dimension does not refer to a valid operand dimension'')))"

definition verifyDynamicBroadcastInDimOp ::
  "RankedTensorType \<Rightarrow> int list option \<Rightarrow> int list \<Rightarrow> int list option \<Rightarrow> int list option \<Rightarrow> RankedTensorType \<Rightarrow> unit result" where
  "verifyDynamicBroadcastInDimOp operandType outputDimensions broadcastDimensions knownExpandingDimensions
     knownNonexpandingDimensions resultType =
     (let operandEl = getElementType operandType; resultEl = getElementType resultType; resultRank = rt_rank resultType in
      rbind (guard (isQuantizedType operandEl \<or> isQuantizedType resultEl \<or> isCompatibleElementTypeForHloTypeInference operandEl resultEl)
        (Failure ''expects operand and result to have compatible element type'')) (\<lambda>_.
      rbind (guard (int (length broadcastDimensions) = rt_rank operandType)
        (Failure ''broadcast_dimensions size does not match operand rank'')) (\<lambda>_.
      rbind (guard (rt_rank operandType \<le> resultRank) (Failure ''result rank is less than operand rank'')) (\<lambda>_.
      rbind (guard (isUnique broadcastDimensions) (Failure ''broadcast_dimensions should not have duplicates'')) (\<lambda>_.
      rbind (foldM (\<lambda>(dimIndex, dimSize) _.
               rbind (guard (0 \<le> dimIndex \<and> dimIndex < resultRank) (Failure ''broadcast_dimensions contains invalid value'')) (\<lambda>_.
               guard (dimSize = 1 \<or> verifyCompatibleDims dimSize (getShape resultType ! nat dimIndex))
                 (Failure ''size of operand dimension is not compatible with size of result dimension'')))
               (zip broadcastDimensions (getShape operandType)) ()) (\<lambda>_.
      rbind (verifyShapeOperandIsCompatibleWithResultType outputDimensions resultType) (\<lambda>_.
      rbind (check_expansion_hints knownExpandingDimensions knownNonexpandingDimensions (rt_rank operandType)) (\<lambda>_.
      rbind (case outputDimensions of
               Some shape \<Rightarrow>
                 if hasStaticShape operandType then
                   foldM (\<lambda>(dimIndex, dimSize) _. rbind (vec_nth shape dimIndex) (\<lambda>shapeDimSize.
                     guard (dimSize = 1 \<or> dimSize = shapeDimSize)
                       (Failure ''size of operand dimension is not equal to 1 or value of shape'')))
                     (zip broadcastDimensions (getShape operandType)) ()
                 else Inr ()
             | None \<Rightarrow> Inr ()) (\<lambda>_.
        if isPerAxisType resultEl then verifyBroadcastInDimOpQuantConstraints operandType resultType broadcastDimensions
        else Inr ())))))))))"

definition verifyDynamicIotaOp :: "int list option \<Rightarrow> int \<Rightarrow> RankedTensorType \<Rightarrow> unit result" where
  "verifyDynamicIotaOp outputShape iotaDimension resultType =
     rbind (guard (iotaDimension < rt_rank resultType) (Failure ''iota dimension cannot go beyond the output rank.'')) (\<lambda>_.
       verifyShapeOperandIsCompatibleWithResultType outputShape resultType)"

definition verifyDynamicPadOp ::
  "RankedTensorType \<Rightarrow> RankedTensorType \<Rightarrow> int list option \<Rightarrow> int list option \<Rightarrow> int list option \<Rightarrow> RankedTensorType \<Rightarrow> unit result" where
  "verifyDynamicPadOp inputType paddingLowType edgePaddingLow edgePaddingHigh interiorPadding outputType =
     rbind (vec_nth (getShape paddingLowType) 0) (\<lambda>paddingSize.
     rbind (guard (paddingSize = rt_rank inputType) (Failure ''padding operands size must match operand rank'')) (\<lambda>_.
     rbind (guard (case interiorPadding of None \<Rightarrow> True | Some is \<Rightarrow> \<not> list_ex (\<lambda>i. i < 0) is)
       (Failure ''interior_padding must be non-negative'')) (\<lambda>_.
     if \<not> hasStaticShape inputType \<or> \<not> hasStaticShape outputType then Inr ()
     else case (interiorPadding, edgePaddingLow, edgePaddingHigh) of
       (Some interiors, Some lows, Some highs) \<Rightarrow>
         foldM (\<lambda>(i, out, low, high, interior) _.
           guard (out = i + low + max (i - 1) 0 * interior + high) (Failure ''expected output dimension to be another one''))
           (zip (getShape inputType) (zip (getShape outputType) (zip lows (zip highs interiors)))) ()
     | _ \<Rightarrow> Inr ())))"

definition verifyDynamicReshapeOp :: "RankedTensorType \<Rightarrow> RankedTensorType \<Rightarrow> int list option \<Rightarrow> RankedTensorType \<Rightarrow> unit result" where
  "verifyDynamicReshapeOp operandType outputShapeType outputShape resultType =
     (let operandEl = getElementType operandType; resultEl = getElementType resultType in
      rbind (guard (isQuantizedType operandEl \<or> isQuantizedType resultEl \<or> isCompatibleElementTypeForHloTypeInference operandEl resultEl)
        (Failure ''expects operand and result to have compatible element type'')) (\<lambda>_.
      rbind (guard (\<not> (hasStaticShape resultType \<and> hasStaticShape operandType \<and>
                        prod_list (getShape resultType) \<noteq> prod_list (getShape operandType)))
        (Failure ''number of output elements does not match expected number of elements'')) (\<lambda>_.
      rbind (verifyShapeOperandIsCompatibleWithResultType outputShape resultType) (\<lambda>_.
      rbind (vec_nth (getShape outputShapeType) 0) (\<lambda>n.
      rbind (guard (n = rt_rank resultType) (Failure ''result should have a rank equal to the number of elements in output_shape'')) (\<lambda>_.
      rbind (case outputShape of
               Some shape \<Rightarrow> guard (\<not> hasStaticShape operandType \<or> prod_list (getShape operandType) = prod_list shape)
                 (Failure ''output_shape is incompatible with input type of operation'')
             | None \<Rightarrow> Inr ()) (\<lambda>_.
        if isQuantizedType operandEl \<or> isQuantizedType resultEl then verifyReshapeOpQuantizationConstraints operandType resultType
        else Inr ())))))))"

definition verifyRealDynamicSliceOp ::
  "RankedTensorType \<Rightarrow> RankedTensorType \<Rightarrow> RankedTensorType \<Rightarrow> RankedTensorType \<Rightarrow> unit result" where
  "verifyRealDynamicSliceOp inputType startType limitType stridesType =
     rbind (guard (rt_rank inputType = prod_list (getShape startType)) (Failure ''has mismatched number of operand rank and start_indices size'')) (\<lambda>_.
     rbind (guard (rt_rank inputType = prod_list (getShape limitType)) (Failure ''has mismatched number of operand rank and limit_indices size'')) (\<lambda>_.
       guard (rt_rank inputType = prod_list (getShape stridesType)) (Failure ''has mismatched number of operand rank and strides size'')))"

section \<open>Result accuracy\<close>

text \<open>The tolerances are read through their signs: zero, negative, or neither.\<close>

definition verifyResultAccuracyCombination :: "double_attr \<Rightarrow> double_attr \<Rightarrow> int \<Rightarrow> string \<Rightarrow> unit result" where
  "verifyResultAccuracyCombination atol rtol ulps mode =
     guard (\<not> ((mode = ''DEFAULT'' \<or> mode = ''HIGHEST'') \<and> \<not> (fst atol = 0 \<and> fst rtol = 0 \<and> ulps = 0)))
       (Failure ''Invalid tolerances for ResultAccuracyAttr, must be all zero.'')"

definition verifyResultAccuracyAttr :: "double_attr \<Rightarrow> double_attr \<Rightarrow> int \<Rightarrow> string \<Rightarrow> unit result" where
  "verifyResultAccuracyAttr atol rtol ulps mode =
     rbind (guard (\<not> (fst atol < 0 \<or> fst rtol < 0 \<or> ulps < 0)) (Failure ''Negative tolerance'')) (\<lambda>_.
       verifyResultAccuracyCombination atol rtol ulps mode)"

end
