(* ===== verification/Op_Types_Correct.thy ===== *)
theory Op_Types_Correct
  imports Op_Types Elementwise_Correct
begin

text \<open>
  The shape functions of element-wise operations against the interpreter: what \<^verbatim>\<open>inferSelectOp\<close> and \<^verbatim>\<open>inferClampOp\<close> accept on
  static types, \<open>select\<close> and \<open>clamp\<close> turn into a tensor of the inferred type with every element set.
\<close>

section \<open>Types that agree\<close>

lemma verifyCompatibleShape_static:
  assumes "list_all isStaticDimSize xs" "list_all isStaticDimSize ys"
  shows "verifyCompatibleShape xs ys \<longleftrightarrow> xs = ys"
  using assms by (auto simp: verifyCompatibleShape_def verifyCompatibleDims_def list_all2_nth_iff list_all_length
      isStaticDimSize_def intro!: length_eq_nth_imp)

lemma as_shaped_as_ranked [simp]: "as_shaped (as_ranked ty) = ty"
  by (simp add: as_ranked_def mkRankedTensorType_def as_shaped_def)

lemma denotes_static_dims: "denotes F t f \<Longrightarrow> list_all isStaticDimSize (t_shape t)"
  using denotes_static(2) by (force simp: list_all_iff isStaticDimSize_def)

lemma merge_type_same:
  assumes "list_all isStaticDimSize sh"
  shows "merge_type inferMostSpecificDimAndBound (int (length sh)) (as_ranked \<lparr>getShape = sh, getElementType = t\<rparr>) (sh, replicate (length sh) kDynamic)
    = Inr (sh, replicate (length sh) kDynamic)"
  unfolding merge_type_def
proof (rule foldM_unchanged)
  fix x assume "x \<in> set (upto_int (int (length sh)))"
  then show "(case (sh, replicate (length sh) kDynamic) of (sizes, bounds') \<Rightarrow>
      let bounds = encodingToBounds (getEncoding (as_ranked \<lparr>getShape = sh, getElementType = t\<rparr>)) in
       rbind (vec_nth sizes x) (\<lambda>leftSize.
       rbind (vec_nth (getShape (as_ranked \<lparr>getShape = sh, getElementType = t\<rparr>)) x) (\<lambda>rightSize.
       rbind (vec_nth bounds' x) (\<lambda>leftBound.
       rbind (if bounds = [] then Inr kDynamic else vec_nth bounds x) (\<lambda>rightBound.
       rbind (inferMostSpecificDimAndBound x leftSize rightSize leftBound rightBound) (\<lambda>(size, bound).
       rbind (vec_set sizes x size) (\<lambda>sizes'.
       rbind (vec_set bounds' x bound) (\<lambda>bounds''. Inr (sizes', bounds'')))))))))
     = Inr (sh, replicate (length sh) kDynamic)"
    using assms by (auto simp: inferMostSpecificDimAndBound_def list_all_length isStaticDimSize_def isDynamicDimSize_def
        nat_less_iff Let_def list_update_same_conv)
qed

lemma inferMostSpecific_same:
  assumes "list_all isStaticDimSize (getShape ty)"
  shows "inferMostSpecificTypeComponents [Value_Types.TensorType (as_ranked ty), Value_Types.TensorType (as_ranked ty)] = Inr (as_ranked ty)"
proof -
  have ty: "as_ranked ty = as_ranked \<lparr>getShape = getShape ty, getElementType = getElementType ty\<rparr>" by simp
  show ?thesis
    using merge_type_same [OF assms, of "getElementType ty"]
    by (simp add: inferMostSpecificTypeComponents_def inferMostSpecificType_def mapOverTupleElements_def
        inferMostSpecificShapedType_def inferTypeWithCustomFn_def encodingToBounds.simps boundsToEncoding_def Let_def
        mkRankedTensorType_def as_ranked_def rt_rank_def)
qed

section \<open>Select\<close>

text \<open>Operands of rank zero are read at the empty index at every position.\<close>

definition spread :: "Tensor \<Rightarrow> Index \<Rightarrow> Index" where
  "spread t i = (if t_shape t = [] then [] else i)"

lemma spread_rank: "(if getRank t \<noteq> 0 then i else []) = spread t i"
  by (simp add: spread_def getRank_def)

lemma spread_inBounds:
  "t_shape t = sh \<or> t_shape t = [] \<Longrightarrow> inBounds i sh \<Longrightarrow> inBounds (spread t i) (t_shape t)"
  by (auto simp: spread_def inBounds_def)

lemma inferSelectOp_static:
  assumes "inferSelectOp (as_ranked p) (as_ranked t) (as_ranked f) = Inr rt"
    and "list_all isStaticDimSize (getShape p)" "list_all isStaticDimSize (getShape t)" "list_all isStaticDimSize (getShape f)"
  shows "rt = as_ranked t" "f = t" "getShape p = getShape t \<or> getShape p = []"
proof -
  from assms have "getShape f = getShape t" "getElementType f = getElementType t"
    and "getShape p = getShape t \<or> getShape p = []"
    and i: "inferMostSpecificTypeComponents [Value_Types.TensorType (as_ranked t), Value_Types.TensorType (as_ranked f)] = Inr rt"
    by (auto simp: inferSelectOp_def result_simps verifyCompatibleShape_static tensorsHaveSameElType_def)
  then show "getShape p = getShape t \<or> getShape p = []" "f = t" by simp_all
  with i show "rt = as_ranked t" using inferMostSpecific_same [OF assms(3)] by simp
qed

lemma select_denotes:
  assumes "denotes F pred (\<lambda>i. bool_el (p i))" "denotes F onTrue f" "denotes F onFalse g"
    and "inferSelectOp (as_ranked (t_type pred)) (as_ranked (t_type onTrue)) (as_ranked (t_type onFalse)) = Inr rt"
  shows "\<exists>r. selectOp F pred onTrue onFalse (as_shaped rt) = Inr r \<and> as_ranked (t_type r) = rt \<and>
    denotes F r (\<lambda>i. if p (if t_shape pred = [] then [] else i) then f i else g i)"
proof -
  note st = inferSelectOp_static [OF assms(4) denotes_static_dims [OF assms(1)] denotes_static_dims [OF assms(2)]
      denotes_static_dims [OF assms(3)]]
  have "\<exists>r. selectOp F pred onTrue onFalse (t_type onTrue) = Inr r \<and> t_type r = t_type onTrue \<and>
    denotes F r (\<lambda>i. if p (spread pred i) then f i else g i)"
    unfolding selectOp_def
  proof (rule fill_result_denotes)
    show "wf_type (t_type onTrue)" using assms(2) by (simp add: denotes_wf wf_tensor_type)
    fix i assume i: "inBounds i (t_shape onTrue)"
    have "Tensor_get F pred (if getRank pred \<noteq> 0 then i else []) = Inr (bool_el (p (spread pred i)))"
      unfolding spread_rank by (intro denotes_get [OF assms(1)] spread_inBounds [OF st(3) i])
    then show "rbind (Tensor_get F pred (if getRank pred \<noteq> 0 then i else [])) (\<lambda>predValue. rbind (getBooleanValue predValue)
          (\<lambda>b. if b then Tensor_get F onTrue i else Tensor_get F onFalse i)) = Inr (if p (spread pred i) then f i else g i) \<and>
        storable F (t_elementType onTrue) (if p (spread pred i) then f i else g i)"
      using i st(2) denotes_get [OF assms(2)] denotes_get [OF assms(3)] denotes_storable [OF assms(2)] denotes_storable [OF assms(3)]
      by (simp del: One_nat_def)
  qed
  then show ?thesis by (auto simp: st(1) spread_def)
qed

text \<open>
  C31: \<open>select\<close> is sound for its shape function. Whenever \<^verbatim>\<open>inferSelectOp\<close> accepts the types of three tensors, the first of them of
  booleans, \<open>select\<close> returns a tensor of exactly the inferred type, with every element set: the one of \<open>on_true\<close> or of
  \<open>on_false\<close> that the predicate chooses at the same index, or the scalar predicate at every index.
\<close>

theorem select_sound:
  assumes "denotes F pred (\<lambda>i. bool_el (p i))" "denotes F onTrue f" "denotes F onFalse g"
    and "inferSelectOp (as_ranked (t_type pred)) (as_ranked (t_type onTrue)) (as_ranked (t_type onFalse)) = Inr rt"
  shows "\<exists>r. selectOp F pred onTrue onFalse (as_shaped rt) = Inr r \<and> as_ranked (t_type r) = rt \<and>
    denotes F r (\<lambda>i. if p (if t_shape pred = [] then [] else i) then f i else g i)"
  by (rule select_denotes [OF assms])

section \<open>Clamp\<close>

lemma int_el_max_min:
  assumes "isSupportedIntegerType (IntegerType s w)" "in_range s w a" "in_range s w b"
  shows "el_max F (int_el s w a) (int_el s w b) = Inr (int_el s w (max a b))"
    "el_min F (int_el s w a) (int_el s w b) = Inr (int_el s w (min a b))"
  using read_in_range [OF assms(1,2)] read_in_range [OF assms(1,3)] assms(1)
  by (auto simp: el_max_def el_min_def map_element2_def supported_signed_iff ap_smax_def ap_umax_def ap_smin_def ap_umin_def
      max_def min_def)

text \<open>
  \<open>clamp\<close> is sound for its shape function on integer tensors of one element type: the result has the operand's type, and its
  elements are those of the operand, first raised to the minimum and then lowered to the maximum.
\<close>

theorem clamp_sound:
  assumes "denotes_int F mn s w l" "denotes_int F operand s w x" "denotes_int F mx s w u"
    and "inferClampOp (as_ranked (t_type mn)) (as_ranked (t_type operand)) (as_ranked (t_type mx)) = Inr rt"
  shows "\<exists>r. clampOp F mn operand mx (as_shaped rt) = Inr r \<and> as_ranked (t_type r) = rt \<and>
    denotes F r (\<lambda>i. int_el s w (min (max (x i) (l (spread mn i))) (u (spread mx i))))"
proof -
  let ?h = "\<lambda>i. min (max (x i) (l (spread mn i))) (u (spread mx i))"
  have d: "denotes F mn (\<lambda>i. int_el s w (l i))" "denotes F operand (\<lambda>i. int_el s w (x i))" "denotes F mx (\<lambda>i. int_el s w (u i))"
    and ty: "isSupportedIntegerType (IntegerType s w)" "t_elementType operand = IntegerType s w"
    using assms(1-3) by (auto simp: denotes_int_def)
  have rt: "rt = as_ranked (t_type operand)" and sh: "t_shape mn = t_shape operand \<or> t_shape mn = []"
    "t_shape mx = t_shape operand \<or> t_shape mx = []"
    using assms(4) d [THEN denotes_static_dims] by (auto simp: inferClampOp_def result_simps verifyCompatibleShape_static)
  have "\<exists>r. clampOp F mn operand mx (t_type operand) = Inr r \<and> t_type r = t_type operand \<and> denotes F r (\<lambda>i. int_el s w (?h i))"
    unfolding clampOp_def spread_rank
  proof (rule fill_result_denotes)
    show "wf_type (t_type operand)" using d(2) by (simp add: denotes_wf wf_tensor_type)
    fix i assume i: "inBounds i (t_shape operand)"
    note b = spread_inBounds [OF sh(1) i] spread_inBounds [OF sh(2) i]
    have r: "in_range s w (l (spread mn i))" "in_range s w (x i)" "in_range s w (u (spread mx i))"
      using assms(1-3) b i by (auto simp: denotes_int_def)
    then have "in_range s w (max (x i) (l (spread mn i)))" by (simp add: max_def)
    with r i ty(2)
    show "rbind (Tensor_get F mn (spread mn i)) (\<lambda>minElement. rbind (Tensor_get F mx (spread mx i)) (\<lambda>maxElement.
        rbind (Tensor_get F operand i) (\<lambda>e. rbind (el_max F e minElement) (\<lambda>m. el_min F m maxElement)))) = Inr (int_el s w (?h i)) \<and>
      storable F (t_elementType operand) (int_el s w (?h i))"
      by (simp add: denotes_get [OF d(1) b(1)] denotes_get [OF d(3) b(2)] denotes_get [OF d(2) i] int_el_max_min [OF ty(1)]
          int_el_storable [OF ty(1)])
  qed
  then show ?thesis by (auto simp: rt)
qed

end
