(* ===== verification/Gather_Correct.thy ===== *)
theory Gather_Correct
  imports Gather_Types Op_Types_Correct
begin

text \<open>
  \<open>gather\<close> against its shape function: what \<^verbatim>\<open>inferGatherOp\<close> accepts, the shape it infers, and the element of the operand that
  \<open>gatherOp\<close> puts at each index of the result.
\<close>

section \<open>What the verifier accepts\<close>

lemma ex_unit: "(\<exists>u :: unit. P u) \<longleftrightarrow> P ()"
  by (metis old.unit.exhaust)

lemma checkDimsInBounds_set: "checkDimsInBounds dims n = Inr u \<Longrightarrow> set dims \<subseteq> {0..<n}"
  by (auto simp: checkDimsInBounds_def foldM_checks split: if_splits)

lemma checkDimsDistinct_distinct: "checkDimsDistinct xs ys = Inr u \<Longrightarrow> distinct (xs @ ys)"
  using isUnique_loop_distinct [of "xs @ ys" "[]"] by (simp add: checkDimsDistinct_def split: if_splits)

text \<open>The dimensions of the operand that the result keeps, in order, and the batch dimensions of the result.\<close>

definition kept_dims :: "int \<Rightarrow> Axes \<Rightarrow> Axes" where
  "kept_dims n removed = filter (\<lambda>d. d \<notin> set removed) (upto_int n)"

definition gather_rank :: "int \<Rightarrow> Axes \<Rightarrow> int \<Rightarrow> int" where
  "gather_rank m od iv = int (length od) + (if iv = m then m + 1 else m) - 1"

definition gather_ok ::
  "int list \<Rightarrow> int list \<Rightarrow> Axes \<Rightarrow> Axes \<Rightarrow> Axes \<Rightarrow> Axes \<Rightarrow> Axes \<Rightarrow> int \<Rightarrow> int list \<Rightarrow> bool" where
  "gather_ok sh si od cd ob sb sm iv ss \<longleftrightarrow>
     length sh = length od + length cd + length ob \<and> 0 \<le> iv \<and> iv \<le> int (length si) \<and>
     (if iv = int (length si) then 1 else si ! nat iv) = int (length sm) \<and> sorted od \<and> distinct od \<and>
     distinct (cd @ ob) \<and> set cd \<subseteq> {0..<int (length sh)} \<and> set ob \<subseteq> {0..<int (length sh)} \<and> distinct sb \<and>
     set sb \<subseteq> {0..<int (length si)} \<and> iv \<notin> set sb \<and> length ob = length sb \<and>
     (\<forall>b < length ob. sh ! nat (ob ! b) = si ! nat (sb ! b)) \<and> distinct (sm @ ob) \<and> set sm \<subseteq> {0..<int (length sh)} \<and>
     length ss = length sh \<and> (\<forall>k < length sh. 0 \<le> ss ! k \<and> ss ! k \<le> sh ! k) \<and> (\<forall>d \<in> set cd. ss ! nat d \<le> 1)"

lemma verifyGather_static:
  assumes "verifyGather sh si (1, int (length ss)) od cd ob sb sm iv = Inr u"
    and "checkSliceSizesOne ss cd = Inr v" "checkSliceSizesInBounds sh ss = Inr w"
    and "list_all isStaticDimSize sh" "list_all isStaticDimSize si"
  shows "gather_ok sh si od cd ob sb sm iv ss"
proof -
  from assms(1) have len: "length sh = length od + length cd + length ob" and iv: "checkDimInBounds iv (int (length si)) True = Inr ()"
    and sm: "(let impliedTrailingDim = (iv = int (length si)) in
             if impliedTrailingDim \<or> \<not> isDynamicDimSize (si ! nat iv) then
               guard ((if impliedTrailingDim then 1 else si ! nat iv) = int (length sm))
                 (Failure ''start_index_map size is not equal to size of index dimension of start_indices'')
             else Inr ()) = Inr ()"
    and od: "sorted od" "isUnique od" and cd: "checkDimsDistinct cd ob = Inr ()" "checkDimsInBounds cd (int (length sh)) = Inr ()"
    and ob: "checkDimsInBounds ob (int (length sh)) = Inr ()"
    and sb: "isUnique sb" "checkDimsInBounds sb (int (length si)) = Inr ()" "iv \<notin> set sb" "length ob = length sb"
      "checkBatchingSizes ''operand_batching_dims and start_indices_batching_dims must have compatible sizes'' sh si ob sb = Inr ()"
    and sm': "checkDimsDistinct sm ob = Inr ()" "checkDimsInBounds sm (int (length sh)) = Inr ()"
    and ss: "length ss = length sh"
    unfolding verifyGather_def Let_def rbind_eq_Inr guard_eq_Inr ex_unit fst_conv snd_conv of_nat_eq_iff by blast+
  have iv': "0 \<le> iv \<and> iv \<le> int (length si)" using iv by (simp add: checkDimInBounds_def split: if_splits)
  then have st: "iv \<noteq> int (length si) \<Longrightarrow> \<not> isDynamicDimSize (si ! nat iv)"
    using assms(5) by (auto simp: list_all_length isStaticDimSize_def)
  have sm_len: "(if iv = int (length si) then 1 else si ! nat iv) = int (length sm)"
    using sm st by (auto simp: guard_eq_Inr split: if_splits)
  have sizes: "sh ! nat (ob ! b) = si ! nat (sb ! b)" if "b < length ob" for b
  proof -
    have "(ob ! b, sb ! b) \<in> set (zip ob sb)" using that sb(4) by (auto simp: set_zip)
    with sb(5) show ?thesis
      using assms(4,5) by (auto simp: checkBatchingSizes_def foldM_checks rbind_eq_Inr vec_nth_eq_Inr guard_eq_Inr
          verifyCompatibleDims_def list_all_length isStaticDimSize_def dest!: bspec)
  qed
  have bounds: "0 \<le> ss ! k \<and> ss ! k \<le> sh ! k" if "k < length sh" for k
    using assms(3,4) that ss by (auto simp: checkSliceSizesInBounds_def foldM_checks rbind_eq_Inr vec_nth_eq_Inr guard_eq_Inr
        list_all_length isStaticDimSize_def dest!: bspec [of _ _ "int k"])
  have one: "\<forall>d \<in> set cd. ss ! nat d \<le> 1"
    using assms(2) by (auto simp: checkSliceSizesOne_def foldM_checks rbind_eq_Inr vec_nth_eq_Inr guard_eq_Inr)
  show ?thesis
    unfolding gather_ok_def
    using len iv' sm_len od(1) isUnique_distinct [OF od(2)] checkDimsDistinct_distinct [OF cd(1)] checkDimsInBounds_set [OF cd(2)]
      checkDimsInBounds_set [OF ob] isUnique_distinct [OF sb(1)] checkDimsInBounds_set [OF sb(2)] sb(3,4) sizes
      checkDimsDistinct_distinct [OF sm'(1)] checkDimsInBounds_set [OF sm'(2)] ss bounds one
    by (intro conjI) simp_all
qed

section \<open>The inferred shape\<close>

lemma kept_dims_length:
  assumes "distinct removed" "set removed \<subseteq> {0..<n}" "0 \<le> n"
  shows "int (length (kept_dims n removed)) = n - int (length removed)"
proof -
  have "length (kept_dims n removed) = card ({0..<n} - set removed)"
    unfolding kept_dims_def by (subst distinct_card [symmetric]) (auto intro: arg_cong [where f = card])
  also have "\<dots> = nat n - length removed" using assms by (simp add: card_Diff_subset distinct_card)
  finally have k: "length (kept_dims n removed) = nat n - length removed" .
  have "length removed \<le> nat n" using assms card_mono [of "{0..<n}" "set removed"] by (simp add: distinct_card)
  with k assms(3) show ?thesis by (simp add: of_nat_diff)
qed

lemma kept_dims_split:
  assumes "\<forall>d \<in> set removed. d < m" "0 \<le> m" "m \<le> n"
  shows "kept_dims n removed = kept_dims m removed @ [m..n - 1]"
proof -
  have "upto_int n = upto_int m @ [m..n - 1]"
    using assms(2,3) upto_split1 [of 0 m "n - 1"] by (cases "m = n") (simp_all add: upto_int_def)
  moreover have "filter (\<lambda>d. d \<notin> set removed) [m..n - 1] = [m..n - 1]" using assms(1) by (auto simp: filter_id_conv)
  ultimately show ?thesis by (simp add: kept_dims_def)
qed

lemma kept_dims_props: "d \<in> set (kept_dims n removed) \<longleftrightarrow> 0 \<le> d \<and> d < n \<and> d \<notin> set removed" "distinct (kept_dims n removed)"
  by (auto simp: kept_dims_def)

definition max_removed :: "Axes \<Rightarrow> int" where
  "max_removed removed = (case removed of [] \<Rightarrow> - 1 | d # ds \<Rightarrow> fold max ds d)"

lemma max_removed:
  assumes "set removed \<subseteq> {0..<n}" "0 \<le> n"
  shows "\<forall>d \<in> set removed. d < max_removed removed + 1" "0 \<le> max_removed removed + 1" "max_removed removed + 1 \<le> n"
proof -
  have m: "max_removed removed = (if removed = [] then - 1 else Max (set removed))"
    by (cases removed) (simp_all add: max_removed_def Max.set_eq_fold [symmetric] del: list.set)
  moreover have "removed \<noteq> [] \<Longrightarrow> Max (set removed) \<in> set removed" by simp
  ultimately show "\<forall>d \<in> set removed. d < max_removed removed + 1" "0 \<le> max_removed removed + 1" "max_removed removed + 1 \<le> n"
    using assms by (auto simp: zle_add1_eq_le add1_zle_eq subset_iff dest!: spec [of _ "Max (set removed)"])
qed

text \<open>The size of the \<open>p\<close>-th offset dimension is the slice size of the \<open>p\<close>-th dimension that is kept.\<close>

lemma adjusted_slice_dim:
  assumes "gather_ok sh si od cd ob sb sm iv ss" "p < length od"
  defines "prefix \<equiv> kept_dims (max_removed (cd @ ob) + 1) (cd @ ob)" and "kept \<equiv> kept_dims (int (length sh)) (cd @ ob)"
  shows "length kept = length od" "mapM (vec_nth ss) prefix = Inr (map (\<lambda>d. ss ! nat d) prefix)"
    "(if int p < int (length prefix) then Inr (map (\<lambda>d. ss ! nat d) prefix ! p)
      else vec_nth ss (int p + int (length cd) + int (length ob))) = Inr (ss ! nat (kept ! p))"
proof -
  let ?m = "max_removed (cd @ ob) + 1" and ?n = "int (length sh)"
  have rm: "distinct (cd @ ob)" "set (cd @ ob) \<subseteq> {0..<?n}" "length ss = length sh"
    "length sh = length od + length cd + length ob"
    using assms(1) by (auto simp: gather_ok_def)
  note mx = max_removed [OF rm(2)]
  show len: "length kept = length od" using kept_dims_length [OF rm(1,2)] rm(4) by (simp add: kept_def)
  show "mapM (vec_nth ss) prefix = Inr (map (\<lambda>d. ss ! nat d) prefix)"
    using mx(3) rm(3) by (intro mapM_Inr) (auto simp: prefix_def kept_dims_props)
  have "set (cd @ ob) \<subseteq> {0..<?m}" using mx(1) rm(2) by auto
  from kept_dims_length [OF rm(1) this] mx(2) have pl: "int (length prefix) = ?m - int (length (cd @ ob))" by (simp add: prefix_def)
  have split: "kept = prefix @ [?m..?n - 1]"
    using kept_dims_split [of "cd @ ob" ?m ?n] mx by (simp add: kept_def prefix_def)
  show "(if int p < int (length prefix) then Inr (map (\<lambda>d. ss ! nat d) prefix ! p)
      else vec_nth ss (int p + int (length cd) + int (length ob))) = Inr (ss ! nat (kept ! p))"
  proof (cases "p < length prefix")
    case False
    then have "kept ! p = ?m + int (p - length prefix)"
      using assms(2) len by (simp add: split nth_append)
    also have "\<dots> = int p + int (length cd) + int (length ob)" using False pl by (simp add: of_nat_diff)
    finally have k: "kept ! p = int p + int (length cd) + int (length ob)" .
    then show ?thesis using False assms(2) rm(3,4) by simp
  qed (simp add: split nth_append)
qed

lemma mapM_upto_int: "mapM f (upto_int n) = Inr ys \<Longrightarrow> 0 \<le> d \<Longrightarrow> d < n \<Longrightarrow> f d = Inr (ys ! nat d)"
  by (auto simp: mapM_eq_Inr dest: spec [of _ "nat d"])

lemma inferGatherShape_static:
  assumes "gather_ok sh si od cd ob sb sm iv ss" "inferGatherShape R (vec_nth si) (vec_nth ss) od cd ob iv = Inr shape"
    and "set od \<subseteq> {0..<R}"
  shows "length shape = nat R"
    "p < length od \<Longrightarrow> shape ! nat (od ! p) = ss ! nat (kept_dims (int (length sh)) (cd @ ob) ! p)"
    "q < length (kept_dims R od) \<Longrightarrow> vec_nth si (if iv \<le> int q then int q + 1 else int q) = Inr (shape ! nat (kept_dims R od ! q))"
proof -
  let ?prefix = "kept_dims (max_removed (cd @ ob) + 1) (cd @ ob)" and ?batch = "kept_dims R od"
  have pre: "mapM (vec_nth ss) ?prefix = Inr (map (\<lambda>d. ss ! nat d) ?prefix)" if "p < length od" for p
    using adjusted_slice_dim(2) [OF assms(1) that] .
  let ?item = "\<lambda>pre i. case find_index i od of
        Some index \<Rightarrow> if int index < int (length pre) then Inr (pre ! nat (int index))
            else vec_nth ss (int index + int (length cd) + int (length ob))
      | None \<Rightarrow> (case find_index i ?batch of
               None \<Rightarrow> Inl (UB ''assertion failed: batchDimsIt != batchDims.end()'')
             | Some index \<Rightarrow> vec_nth si (if iv \<le> int index then int index + 1 else int index))"
  from assms(2) obtain pre where p: "mapM (vec_nth ss) ?prefix = Inr pre" "mapM (?item pre) (upto_int R) = Inr shape"
    unfolding inferGatherShape_def Let_def max_removed_def [symmetric] kept_dims_def [symmetric] by (auto simp: rbind_eq_Inr)
  show len: "length shape = nat R" using mapM_length [OF p(2)] by simp
  note item = mapM_upto_int [OF p(2)]
  have od: "distinct od" using assms(1) by (simp add: gather_ok_def)
  show "shape ! nat (od ! p) = ss ! nat (kept_dims (int (length sh)) (cd @ ob) ! p)" if "p < length od"
  proof -
    have "od ! p \<in> {0..<R}" using that assms(3) nth_mem by blast
    then have "?item pre (od ! p) = Inr (shape ! nat (od ! p))" by (intro item) simp_all
    moreover have "pre = map (\<lambda>d. ss ! nat d) ?prefix" using pre [OF that] p(1) by simp
    ultimately show ?thesis
      using adjusted_slice_dim(3) [OF assms(1) that] find_index_nth [OF od that] by (auto split: if_splits)
  qed
  show "vec_nth si (if iv \<le> int q then int q + 1 else int q) = Inr (shape ! nat (?batch ! q))" if "q < length ?batch"
  proof -
    have b: "0 \<le> ?batch ! q" "?batch ! q < R" "?batch ! q \<notin> set od"
      using nth_mem [OF that] kept_dims_props(1) by blast+
    then have "find_index (?batch ! q) od = None" by (simp add: find_index_None)
    with item [OF b(1,2)] find_index_nth [OF kept_dims_props(2) that] show ?thesis by simp
  qed
qed

lemma inferGatherShape_nonneg:
  assumes "gather_ok sh si od cd ob sb sm iv ss" "inferGatherShape R (vec_nth si) (vec_nth ss) od cd ob iv = Inr shape"
    and "set od \<subseteq> {0..<R}" "list_all (\<lambda>d. 0 \<le> d) si"
  shows "list_all (\<lambda>d. 0 \<le> d) shape"
  unfolding list_all_length
proof (intro allI impI)
  fix k assume k: "k < length shape"
  note st = inferGatherShape_static [OF assms(1-3)]
  show "0 \<le> shape ! k"
  proof (cases "int k \<in> set od")
    case True
    then obtain p where p: "p < length od" "od ! p = int k" by (auto simp: in_set_conv_nth)
    let ?d = "kept_dims (int (length sh)) (cd @ ob) ! p"
    have "?d \<in> set (kept_dims (int (length sh)) (cd @ ob))"
      using p(1) adjusted_slice_dim(1) [OF assms(1) p(1)] by (intro nth_mem) simp
    then have "nat ?d < length sh" by (simp add: kept_dims_props nat_less_iff)
    with st(2) [OF p(1)] p(2) assms(1) show ?thesis by (simp add: gather_ok_def)
  next
    case False
    then have "int k \<in> set (kept_dims R od)" using k st(1) by (simp add: kept_dims_props)
    then obtain q where q: "q < length (kept_dims R od)" "kept_dims R od ! q = int k" by (auto simp: in_set_conv_nth)
    from st(3) [OF q(1)] q(2) assms(4) show ?thesis by (auto simp: vec_nth_eq_Inr list_all_length split: if_splits)
  qed
qed

section \<open>The start index of a batch\<close>

lemma evalIndex_denotes:
  assumes "isSupportedIntegerType (IntegerType Signless w)" "denotes F t (\<lambda>i. int_el Signless w (g i))"
  shows "evalIndex F t = Inr (map (\<lambda>i. sval (mkAPInt w (g i))) (index_space (t_shape t)))"
proof -
  have val: "evalScalar F t i = Inr (sval (mkAPInt w (g i)))" if "inBounds i (t_shape t)" for i
    using denotes_get [OF assms(2) that] assms(1) by (simp add: evalScalar_def)
  have "foldM (\<lambda>i res. rbind (evalScalar F t i) (\<lambda>v. Inr (res @ [v]))) xs acc = Inr (acc @ map (\<lambda>i. sval (mkAPInt w (g i))) xs)"
    if "\<And>i. i \<in> set xs \<Longrightarrow> inBounds i (t_shape t)" for xs acc
    using that by (induction xs arbitrary: acc) (simp_all add: val)
  from this [of "index_space (t_shape t)" "[]"] show ?thesis by (simp add: evalIndex_def forEachIndex_foldM)
qed

lemma index_space_ones: "index_space (replicate a 1) = [replicate a 0]"
  by (induction a) (simp_all add: upto_int_def)

lemma index_space_line: "index_space (replicate a 1 @ n # replicate b 1) = map (\<lambda>j. replicate a 0 @ j # replicate b 0) (upto_int n)"
proof (induction a)
  case 0
  then show ?case by (simp only: replicate_0 append_Nil index_space.simps index_space_ones) (simp add: concat_map_singleton)
next
  case (Suc a)
  then show ?case by (simp add: upto_int_def comp_def)
qed

text \<open>The index into the start indices with \<open>j\<close> at the index vector dimension.\<close>

definition start_position :: "Index \<Rightarrow> int \<Rightarrow> int \<Rightarrow> int \<Rightarrow> Index" where
  "start_position batch iv m j = (if iv < m then take (nat iv) batch @ j # drop (nat iv) batch else batch)"

lemma startIndicesIndex_position: "startIndicesIndex_of batch iv t = start_position batch iv (int (length (t_shape t))) kColon"
  by (simp add: startIndicesIndex_of_def start_position_def getRank_def)

lemma start_position_nth:
  assumes "0 \<le> iv" "length batch = (if iv < m then nat m - 1 else nat m)" "0 \<le> m" "k < nat m"
  shows "length (start_position batch iv m j) = nat m"
    "start_position batch iv m j ! k = (if iv < m \<and> k = nat iv then j else if iv < m \<and> nat iv < k then batch ! (k - 1) else batch ! k)"
proof -
  have "iv < m \<Longrightarrow> nat iv < nat m" using assms(1,3) by simp
  with assms show "length (start_position batch iv m j) = nat m"
    "start_position batch iv m j ! k = (if iv < m \<and> k = nat iv then j else if iv < m \<and> nat iv < k then batch ! (k - 1) else batch ! k)"
    by (auto simp: start_position_def nth_append nth_Cons')
qed

definition in_batch :: "Index \<Rightarrow> int \<Rightarrow> int list \<Rightarrow> bool" where
  "in_batch batch iv si \<longleftrightarrow> 0 \<le> iv \<and> iv \<le> int (length si) \<and>
     length batch = (if iv < int (length si) then length si - 1 else length si) \<and>
     (\<forall>k < length si. k \<noteq> nat iv \<longrightarrow> 0 \<le> start_position batch iv (int (length si)) 0 ! k \<and> start_position batch iv (int (length si)) 0 ! k < si ! k)"

lemma position_ranges:
  assumes "in_batch batch iv (t_shape t)"
  defines "m \<equiv> length (t_shape t)"
  shows "mapM (\<lambda>i. rbind (vec_nth (start_position batch iv (int m) kColon) i) (\<lambda>x.
      if x = - 1 then rbind (vec_nth (t_shape t) i) (\<lambda>n. Inr (0, n)) else Inr (x, x + 1))) (upto_int (getRank t)) =
    Inr (map (\<lambda>k. if int k = iv then (0, t_shape t ! k) else (start_position batch iv (int m) 0 ! k, start_position batch iv (int m) 0 ! k + 1)) [0..<m])"
proof -
  have b: "0 \<le> iv" "length batch = (if iv < int m then nat (int m) - 1 else nat (int m))"
    using assms(1) by (auto simp: in_batch_def m_def)
  note pos = start_position_nth [OF b, simplified]
  have "start_position batch iv (int m) kColon ! k = (if int k = iv then - 1 else start_position batch iv (int m) 0 ! k)"
    if "k < m" for k
    using pos(2) [OF that, of kColon] pos(2) [OF that, of 0] b(1) that by (auto simp: kColon_def)
  moreover have "0 \<le> start_position batch iv (int m) 0 ! k" if "k < m" "int k \<noteq> iv" for k
    using assms(1) that by (auto simp: in_batch_def m_def)
  moreover have "k < m \<Longrightarrow> length (start_position batch iv (int m) kColon) = m" for k using pos(1) by simp
  ultimately show ?thesis
    by (auto simp: mapM_eq_Inr getRank_def m_def rbind_eq_Inr) force
qed

definition line_shape :: "int \<Rightarrow> int list \<Rightarrow> int list" where
  "line_shape iv si = map (\<lambda>k. if int k = iv then si ! k else 1) [0..<length si]"

lemma infer_line:
  assumes "in_batch batch iv (getShape ty)" "list_all isStaticDimSize (getShape ty)" "list_all (\<lambda>d. 0 \<le> d) (getShape ty)"
  defines "m \<equiv> length (getShape ty)" and "pos \<equiv> start_position batch iv (int (length (getShape ty))) 0"
  shows "inferSliceOp (as_ranked ty) (map (\<lambda>k. if int k = iv then 0 else pos ! k) [0..<m])
      (map (\<lambda>k. if int k = iv then getShape ty ! k else pos ! k + 1) [0..<m]) (replicate m 1) =
    Inr (as_ranked \<lparr>getShape = line_shape iv (getShape ty), getElementType = getElementType ty\<rparr>)"
proof -
  have dim: "slice_dim (getShape ty ! k) None (if int k = iv then 0 else pos ! k) (if int k = iv then getShape ty ! k else pos ! k + 1) 1 =
      Inr (line_shape iv (getShape ty) ! k)" if "k < m" for k
    using assms(1-3) that
    by (auto simp: slice_dim_def Let_def in_batch_def pos_def m_def line_shape_def list_all_length isStaticDimSize_def divideCeil_def)
  have dims: "slice_dim (getShape ty ! k) None 0 (getShape ty ! k) 1 = Inr (line_shape iv (getShape ty) ! k)" if "k < m" "int k = iv" for k
    using dim [OF that(1)] that(2) by simp
  have dims': "slice_dim (getShape ty ! k) None (pos ! k) (pos ! k + 1) 1 = Inr (line_shape iv (getShape ty) ! k)"
    if "k < m" "int k \<noteq> iv" for k
    using dim [OF that(1)] that(2) by simp
  have "length (line_shape iv (getShape ty)) = m" by (simp add: line_shape_def m_def)
  with dims dims' show ?thesis
    by (auto simp: inferSliceOp_def Let_def encodingToBounds.simps boundsToEncoding_def rbind_eq_Inr mapM_eq_Inr m_def as_ranked_def
        rt_rank_def mkRankedTensorType_def)
qed

lemma line_space:
  assumes "0 \<le> iv"
  shows "index_space (line_shape iv si) = (if iv < int (length si) then map (\<lambda>j. (replicate (length si) 0)[nat iv := j]) (upto_int (si ! nat iv))
    else [replicate (length si) 0])"
proof (cases "iv < int (length si)")
  case True
  let ?a = "nat iv" let ?b = "length si - 1 - nat iv"
  have len: "length si = ?a + (1 + ?b)" using True assms by simp
  have "line_shape iv si = replicate ?a 1 @ si ! nat iv # replicate ?b 1"
    by (rule nth_equalityI) (use len assms in \<open>auto simp: line_shape_def nth_append nth_Cons'\<close>)
  moreover have "(replicate (length si) (0 :: int))[nat iv := j] = replicate ?a 0 @ j # replicate ?b 0" for j
    using len by (intro nth_equalityI) (auto simp: nth_append nth_Cons' nth_list_update)
  ultimately show ?thesis using True index_space_line by simp
next
  case False
  then have "line_shape iv si = replicate (length si) 1"
    by (intro nth_equalityI) (auto simp: line_shape_def)
  with False show ?thesis by (simp add: index_space_ones)
qed

lemma start_position_inBounds:
  assumes "in_batch batch iv si" "0 \<le> j" "iv < int (length si) \<Longrightarrow> j < si ! nat iv"
  shows "inBounds (start_position batch iv (int (length si)) j) si"
proof -
  have b: "0 \<le> iv" "length batch = (if iv < int (length si) then nat (int (length si)) - 1 else nat (int (length si)))"
    using assms(1) by (auto simp: in_batch_def)
  note pos = start_position_nth [OF b, simplified]
  have "0 \<le> start_position batch iv (int (length si)) j ! k \<and> start_position batch iv (int (length si)) j ! k < si ! k"
    if "k < length si" for k
  proof (cases "k = nat iv")
    case False
    then have "start_position batch iv (int (length si)) j ! k = start_position batch iv (int (length si)) 0 ! k"
      using pos(2) [OF that] by simp
    with False assms(1) that show ?thesis by (simp add: in_batch_def)
  next
    case True
    with that b(1) have "iv < int (length si)" by simp
    with True show ?thesis using pos(2) [OF that, of j] assms(2,3) by simp
  qed
  moreover have "length (start_position batch iv (int (length si)) j) = length si"
    using b pos(1) by (cases si) (auto simp: start_position_def)
  ultimately show ?thesis by (simp add: inBounds_nth)
qed

lemma start_vector:
  assumes "denotes_int F t Signless w g" "in_batch batch iv (t_shape t)"
  shows "rbind (sliceOp_colon F t (startIndicesIndex_of batch iv t)) (evalIndex F) =
    Inr (map (\<lambda>j. g (start_position batch iv (int (length (t_shape t))) j))
      (upto_int (if iv < int (length (t_shape t)) then t_shape t ! nat iv else 1)))"
proof -
  let ?m = "length (t_shape t)" and ?pos = "start_position batch iv (int (length (t_shape t)))"
  let ?start = "map (\<lambda>k. if int k = iv then 0 else ?pos 0 ! k) [0..<?m]"
  let ?limit = "map (\<lambda>k. if int k = iv then t_shape t ! k else ?pos 0 ! k + 1) [0..<?m]"
  have d: "denotes F t (\<lambda>i. int_el Signless w (g i))" and sup: "isSupportedIntegerType (IntegerType Signless w)"
    using assms(1) by (auto simp: denotes_int_def)
  have iv: "0 \<le> iv" using assms(2) by (simp add: in_batch_def)
  note inf = infer_line [OF assms(2) denotes_static_dims [OF d] denotes_static(1) [OF d]]
  from slice_denotes [OF d inf] obtain s where s: "sliceOp_limit F t ?start ?limit (replicate ?m 1) = Inr s"
    "t_shape s = line_shape iv (t_shape t)"
    "denotes F s (\<lambda>i. int_el Signless w (g (map2 (+) ?start (map2 (*) i (replicate ?m 1)))))"
    by auto
  have colon: "sliceOp_colon F t (startIndicesIndex_of batch iv t) = Inr s"
    using s(1) unfolding sliceOp_colon_def startIndicesIndex_position position_ranges [OF assms(2)]
    by (simp add: Sizes_fill_def comp_def if_distrib cong: if_cong)
  have len: "length (?pos j) = ?m" for j
    using assms(2) by (auto simp: start_position_def in_batch_def)
  have at: "map2 (+) ?start (map2 (*) i (replicate ?m 1)) = ?pos j"
    if "i = (if iv < int ?m then (replicate ?m 0)[nat iv := j] else replicate ?m 0)" for i j
  proof (rule nth_equalityI)
    show "length (map2 (+) ?start (map2 (*) i (replicate ?m 1))) = length (?pos j)" using that len by simp
    fix k assume "k < length (map2 (+) ?start (map2 (*) i (replicate ?m 1)))"
    then have k: "k < ?m" using that by simp
    have b: "length batch = (if iv < int ?m then nat (int ?m) - 1 else nat (int ?m))" using assms(2) by (simp add: in_batch_def)
    note pos = start_position_nth(2) [OF iv b, simplified, OF k]
    show "map2 (+) ?start (map2 (*) i (replicate ?m 1)) ! k = ?pos j ! k"
      using k iv that pos [of j] pos [of 0] by (auto simp: nth_list_update)
  qed
  have val: "sval (mkAPInt w (g (?pos j))) = g (?pos j)" if "0 \<le> j" "iv < int ?m \<Longrightarrow> j < t_shape t ! nat iv" for j
    using start_position_inBounds [OF assms(2) that] assms(1) supported_width_pos [OF sup]
    by (auto simp: denotes_int_def intro!: sval_in_range [of Signless])
  show ?thesis
  proof (cases "iv < int ?m")
    case True
    with at [OF refl] val show ?thesis
      by (simp add: colon evalIndex_denotes [OF sup s(3)] s(2) line_space [OF iv])
  next
    case False
    with at [OF refl, of 0] val [of 0] show ?thesis
      by (simp add: colon evalIndex_denotes [OF sup s(3)] s(2) line_space [OF iv] upto_int_def)
  qed
qed

section \<open>The operand index\<close>

text \<open>
  The index of the operand that an index \<open>r\<close> of the result stands for: in every dimension the start, clamped so that the slice
  fits, the position along a batching dimension, and the offset inside the slice.
\<close>

definition gather_source ::
  "int list \<Rightarrow> int list \<Rightarrow> Axes \<Rightarrow> Axes \<Rightarrow> Axes \<Rightarrow> Axes \<Rightarrow> Axes \<Rightarrow> int \<Rightarrow> int list \<Rightarrow> (Index \<Rightarrow> int) \<Rightarrow> Index \<Rightarrow> Index" where
  "gather_source sh si od cd ob sb sm iv ss g r =
     (let position = start_position (map (\<lambda>d. r ! nat d) (kept_dims (int (length r)) od)) iv (int (length si)) in
      map (\<lambda>k.
        (case find_index k sm of None \<Rightarrow> 0 | Some j \<Rightarrow> min (max (g (position (int j))) 0) (sh ! nat k - ss ! nat k)) +
        (case find_index k ob of None \<Rightarrow> 0 | Some b \<Rightarrow> position 0 ! nat (sb ! b)) +
        (case find_index k (kept_dims (int (length sh)) (cd @ ob)) of None \<Rightarrow> 0 | Some p \<Rightarrow> r ! nat (od ! p)))
        (upto_int (int (length sh))))"

lemma spread_offsets_at:
  assumes "distinct ds" "oi + length (filter (\<lambda>d. \<not> skip d) ds) \<le> length xs"
  shows "spread_offsets ds skip xs oi =
    Inr (map (\<lambda>d. case find_index d (filter (\<lambda>d. \<not> skip d) ds) of None \<Rightarrow> 0 | Some p \<Rightarrow> xs ! (oi + p)) ds)"
  using assms
proof (induction ds arbitrary: oi)
  case (Cons d ds)
  show ?case
  proof (cases "skip d")
    case True
    then have "find_index d (filter (\<lambda>d. \<not> skip d) ds) = None" by (simp add: find_index_None)
    with Cons True show ?thesis by simp
  next
    case False
    then have "spread_offsets ds skip xs (Suc oi) =
        Inr (map (\<lambda>d. case find_index d (filter (\<lambda>d. \<not> skip d) ds) of None \<Rightarrow> 0 | Some p \<Rightarrow> xs ! (Suc oi + p)) ds)"
      using Cons.prems by (intro Cons.IH) simp_all
    moreover have "(case find_index e (filter (\<lambda>d. \<not> skip d) ds) of None \<Rightarrow> 0 | Some p \<Rightarrow> xs ! (Suc oi + p)) =
        (case find_index e (d # filter (\<lambda>d. \<not> skip d) ds) of None \<Rightarrow> 0 | Some p \<Rightarrow> xs ! (oi + p))" if "e \<in> set ds" for e
      using that Cons.prems(1) by (auto split: option.splits)
    ultimately show ?thesis using False Cons.prems by simp
  qed
qed simp

lemma gather_in_batch:
  assumes "gather_ok sh si od cd ob sb sm iv ss"
    and "inferGatherShape (gather_rank (int (length si)) od iv) (vec_nth si) (vec_nth ss) od cd ob iv = Inr shape"
    and "set od \<subseteq> {0..<gather_rank (int (length si)) od iv}" "inBounds r shape"
  shows "in_batch (map (\<lambda>d. r ! nat d) (kept_dims (int (length r)) od)) iv si"
    "0 \<le> gather_rank (int (length si)) od iv" "int (length r) = gather_rank (int (length si)) od iv"
proof -
  let ?m = "int (length si)" let ?R = "gather_rank ?m od iv" let ?bd = "kept_dims ?R od"
  note st = inferGatherShape_static [OF assms(1-3)]
  have iv: "0 \<le> iv" "iv \<le> ?m" "distinct od" using assms(1) by (auto simp: gather_ok_def)
  show R: "0 \<le> ?R" using iv by (auto simp: gather_rank_def)
  show len: "int (length r) = ?R" using inBounds_length [OF assms(4)] st(1) R by simp
  have bl: "length ?bd = (if iv < ?m then length si - 1 else length si)"
    using kept_dims_length [OF iv(3) assms(3) R] iv by (auto simp: gather_rank_def)
  have at: "0 \<le> start_position (map (\<lambda>d. r ! nat d) ?bd) iv ?m 0 ! k \<and> start_position (map (\<lambda>d. r ! nat d) ?bd) iv ?m 0 ! k < si ! k"
    if k: "k < length si" "k \<noteq> nat iv" for k
  proof -
    let ?q = "if iv < ?m \<and> nat iv < k then k - 1 else k"
    have q: "?q < length ?bd" using k iv bl by auto
    have "?bd ! ?q \<in> set ?bd" using nth_mem [OF q] .
    then have b: "0 \<le> ?bd ! ?q" "?bd ! ?q < ?R" by (auto simp: kept_dims_props)
    have "(if iv \<le> int ?q then int ?q + 1 else int ?q) = int k" using k iv by auto
    with st(3) [OF q] have "si ! k = shape ! nat (?bd ! ?q)" by (simp add: vec_nth_eq_Inr)
    moreover have "0 \<le> r ! nat (?bd ! ?q) \<and> r ! nat (?bd ! ?q) < shape ! nat (?bd ! ?q)"
      using assms(4) b st(1) by (auto simp: inBounds_nth)
    moreover have "start_position (map (\<lambda>d. r ! nat d) ?bd) iv ?m 0 ! k = r ! nat (?bd ! ?q)"
      using start_position_nth(2) [of iv "map (\<lambda>d. r ! nat d) ?bd" ?m k 0] k iv bl q by auto
    ultimately show ?thesis by simp
  qed
  with iv bl len show "in_batch (map (\<lambda>d. r ! nat d) (kept_dims (int (length r)) od)) iv si"
    by (simp add: in_batch_def)
qed

lemma gather_source_inBounds:
  assumes "gather_ok sh si od cd ob sb sm iv ss"
    and "inferGatherShape (gather_rank (int (length si)) od iv) (vec_nth si) (vec_nth ss) od cd ob iv = Inr shape"
    and "set od \<subseteq> {0..<gather_rank (int (length si)) od iv}" "inBounds r shape" "\<forall>d \<in> set cd. ss ! nat d \<noteq> 0"
  shows "inBounds (gather_source sh si od cd ob sb sm iv ss g r) sh"
proof -
  let ?n = "int (length sh)" let ?kept = "kept_dims ?n (cd @ ob)"
  let ?pos = "start_position (map (\<lambda>d. r ! nat d) (kept_dims (int (length r)) od)) iv (int (length si))"
  note st = inferGatherShape_static [OF assms(1-3)] and ok = assms(1) [unfolded gather_ok_def]
  have batch: "in_batch (map (\<lambda>d. r ! nat d) (kept_dims (int (length r)) od)) iv si"
    using gather_in_batch(1) [OF assms(1-4)] .
  let ?idx = "\<lambda>k. (case find_index k sm of None \<Rightarrow> 0 | Some j \<Rightarrow> min (max (g (?pos (int j))) 0) (sh ! nat k - ss ! nat k)) +
      (case find_index k ob of None \<Rightarrow> 0 | Some b \<Rightarrow> ?pos 0 ! nat (sb ! b)) +
      (case find_index k ?kept of None \<Rightarrow> 0 | Some p \<Rightarrow> r ! nat (od ! p))"
  have "0 \<le> ?idx (int k) \<and> ?idx (int k) < sh ! k" if k: "k < length sh" for k
  proof -
    have size: "0 \<le> ss ! k" "ss ! k \<le> sh ! k" using ok k by auto
    have start: "0 \<le> (case find_index (int k) sm of None \<Rightarrow> 0 | Some j \<Rightarrow> min (max (g (?pos (int j))) 0) (sh ! nat (int k) - ss ! nat (int k))) \<and>
      (case find_index (int k) sm of None \<Rightarrow> 0 | Some j \<Rightarrow> min (max (g (?pos (int j))) 0) (sh ! nat (int k) - ss ! nat (int k))) \<le> sh ! k - ss ! k"
      using size by (auto split: option.split)
    consider (batching) b where "b < length ob" "ob ! b = int k" | (collapsed) "int k \<in> set cd" "int k \<notin> set ob"
      | (kept) p where "p < length ?kept" "?kept ! p = int k" "int k \<notin> set ob" "int k \<notin> set cd"
    proof (cases "int k \<in> set ob \<or> int k \<in> set cd")
      case False
      then have "int k \<in> set ?kept" using k by (simp add: kept_dims_props)
      with False kept show ?thesis by (auto simp: in_set_conv_nth)
    qed (use batching collapsed in \<open>auto simp: in_set_conv_nth\<close>)
    then show ?thesis
    proof cases
      case batching
      have sb: "sb ! b \<in> set sb" "length ob = length sb" "sb ! b \<noteq> iv" using batching(1) ok by auto
      moreover have "set sb \<subseteq> {0..<int (length si)}" using ok by blast
      ultimately have "0 \<le> sb ! b" "sb ! b < int (length si)" by (meson atLeastLessThan_iff subsetD)+
      then have "nat (sb ! b) < length si" "nat (sb ! b) \<noteq> nat iv" using sb(3) ok by (simp_all add: nat_eq_iff nat_less_iff)
      then have "0 \<le> ?pos 0 ! nat (sb ! b) \<and> ?pos 0 ! nat (sb ! b) < sh ! k"
        using batch batching ok by (auto simp: in_batch_def)
      moreover have "find_index (int k) ob = Some b" using find_index_nth [of ob b] batching ok by simp
      moreover have "find_index (int k) sm = None" "find_index (int k) ?kept = None"
        using batching ok nth_mem [OF batching(1)] by (auto simp: find_index_None kept_dims_props)
      ultimately show ?thesis by simp
    next
      case collapsed
      then have "find_index (int k) ob = None" "find_index (int k) ?kept = None" by (auto simp: find_index_None kept_dims_props)
      moreover have "ss ! k = 1" using collapsed(1) assms(5) ok size by (fastforce dest: bspec)
      ultimately show ?thesis using start by simp
    next
      case kept
      have p: "p < length od" using kept(1) adjusted_slice_dim(1) [OF assms(1)] assms(1)
        kept_dims_length [of "cd @ ob" ?n] by (auto simp: gather_ok_def)
      then have o: "0 \<le> od ! p" "od ! p < gather_rank (int (length si)) od iv" using subsetD [OF assms(3) nth_mem [OF p]] by simp_all
      have "r ! nat (od ! p) < ss ! k" "0 \<le> r ! nat (od ! p)"
        using assms(4) st(1) st(2) [OF p] o kept(2) by (auto simp: inBounds_nth dest!: spec [of _ "nat (od ! p)"])
      moreover have "find_index (int k) ?kept = Some p" using find_index_nth [OF kept_dims_props(2) kept(1)] kept(2) by simp
      moreover have "find_index (int k) ob = None" using kept(3) by (simp add: find_index_None)
      ultimately show ?thesis using start by simp
    qed
  qed
  note bound = this
  have src: "gather_source sh si od cd ob sb sm iv ss g r = map ?idx (upto_int ?n)"
    by (simp add: gather_source_def Let_def)
  have nth: "map ?idx (upto_int ?n) ! k = ?idx (int k)" if "k < length sh" for k
    using that by (simp only: nth_map upto_int_length nat_int upto_int_nth)
  show ?thesis
    unfolding inBounds_nth src
  proof (intro conjI allI impI)
    show "length (map ?idx (upto_int ?n)) = length sh" by simp
    fix k assume k: "k < length sh"
    from bound [OF k] show "0 \<le> map ?idx (upto_int ?n) ! k" unfolding nth [OF k] by (rule conjunct1)
    from bound [OF k] show "map ?idx (upto_int ?n) ! k < sh ! k" unfolding nth [OF k] by (rule conjunct2)
  qed
qed

lemma fullBatchingIndex_at:
  assumes "gather_ok sh si od cd ob sb sm iv ss" "in_batch batch iv si"
  shows "fullBatchingIndex_of (int (length sh)) ob sb (start_position batch iv (int (length si)) kColon) =
    Inr (map (\<lambda>k. case find_index k ob of None \<Rightarrow> 0 | Some b \<Rightarrow> start_position batch iv (int (length si)) 0 ! nat (sb ! b))
      (upto_int (int (length sh))))"
proof -
  have b: "0 \<le> iv" "length batch = (if iv < int (length si) then nat (int (length si)) - 1 else nat (int (length si)))"
    using assms(2) by (auto simp: in_batch_def)
  have "rbind (vec_nth sb (int j)) (vec_nth (start_position batch iv (int (length si)) kColon)) =
      Inr (start_position batch iv (int (length si)) 0 ! nat (sb ! j))" if "find_index k ob = Some j" for j k
  proof -
    have j: "j < length sb" using find_index_less [OF that] assms(1) by (simp add: gather_ok_def)
    have s: "sb ! j \<in> {0..<int (length si)}" "sb ! j \<noteq> iv"
      using nth_mem [OF j] assms(1) by (auto simp: gather_ok_def)
    then have n: "nat (sb ! j) < nat (int (length si))" "nat (sb ! j) \<noteq> nat iv" using b(1) by (simp_all add: nat_eq_iff nat_less_iff)
    note pos = start_position_nth [OF b _ n(1)]
    show ?thesis using j s n(2) pos(1) [of kColon] pos(2) [of kColon] pos(2) [of 0] by simp
  qed
  then show ?thesis unfolding fullBatchingIndex_of_def by (intro mapM_Inr) (simp split: option.split)
qed

lemma gather_operandIndex_source:
  assumes "gather_ok (t_shape operand) (t_shape t) od cd ob sb sm iv ss" "denotes_int F t Signless w g"
    and "inferGatherShape (gather_rank (int (length (t_shape t))) od iv) (vec_nth (t_shape t)) (vec_nth ss) od cd ob iv = Inr shape"
    and "set od \<subseteq> {0..<gather_rank (int (length (t_shape t))) od iv}" "inBounds r shape"
  shows "gather_operandIndex F operand t od cd ob sb sm iv ss (kept_dims (int (length shape)) od) r =
    Inr (gather_source (t_shape operand) (t_shape t) od cd ob sb sm iv ss g r)"
proof -
  let ?sh = "t_shape operand" and ?si = "t_shape t" let ?n = "int (length ?sh)" and ?m = "int (length ?si)"
  let ?batch = "map (\<lambda>d. r ! nat d) (kept_dims (int (length r)) od)" let ?pos = "start_position ?batch iv ?m"
  note ok = assms(1) [unfolded gather_ok_def]
  note gb = gather_in_batch [OF assms(1,3-5)]
  have len: "length shape = length r" using inBounds_length [OF assms(5)] by simp
  have batch: "mapM (vec_nth r) (kept_dims (int (length shape)) od) = Inr ?batch"
    unfolding len by (intro mapM_Inr) (auto simp: kept_dims_props)
  let ?start = "map (\<lambda>j. g (?pos j)) (upto_int (if iv < ?m then ?si ! nat iv else 1))"
  have count: "int (length sm) = (if iv < ?m then ?si ! nat iv else 1)" using ok by auto
  have starts: "mapM (\<lambda>d. case find_index d sm of None \<Rightarrow> Inr 0
      | Some dStart \<Rightarrow> rbind (vec_nth ?start (int dStart)) (\<lambda>s. rbind (vec_nth ?sh d) (\<lambda>n. rbind (vec_nth ss d) (\<lambda>m.
          if n - m < 0 then Inl (UB ''std::clamp with hi < lo'') else Inr (min (max s 0) (n - m)))))) (getAxes operand) =
    Inr (map (\<lambda>k. case find_index k sm of None \<Rightarrow> 0 | Some j \<Rightarrow> min (max (g (?pos (int j))) 0) (?sh ! nat k - ss ! nat k)) (upto_int ?n))"
    unfolding getAxes_def getRank_def
  proof (intro mapM_Inr)
    fix d assume "d \<in> set (upto_int ?n)"
    then have d: "0 \<le> d" "d < ?n" "nat d < length ?sh" by auto
    have "vec_nth ?start (int j) = Inr (g (?pos (int j)))" if "find_index d sm = Some j" for j
      using find_index_less [OF that] count by (cases "iv < ?m") auto
    moreover have "ss ! nat d \<le> ?sh ! nat d" "length ss = length ?sh" using ok d(3) by auto
    ultimately show "(case find_index d sm of None \<Rightarrow> Inr 0
      | Some dStart \<Rightarrow> rbind (vec_nth ?start (int dStart)) (\<lambda>s. rbind (vec_nth ?sh d) (\<lambda>n. rbind (vec_nth ss d) (\<lambda>m.
          if n - m < 0 then Inl (UB ''std::clamp with hi < lo'') else Inr (min (max s 0) (n - m)))))) =
      Inr (case find_index d sm of None \<Rightarrow> 0 | Some j \<Rightarrow> min (max (g (?pos (int j))) 0) (?sh ! nat d - ss ! nat d))"
      using d by (simp split: option.split split del: if_split)
  qed
  have od: "mapM (vec_nth r) od = Inr (map (\<lambda>d. r ! nat d) od)"
    using assms(4) gb(3) by (intro mapM_Inr) auto
  have skip: "(\<lambda>d. \<not> (d \<in> set cd \<or> d \<in> set ob)) = (\<lambda>d. d \<notin> set (cd @ ob))" by auto
  have kept: "int (length (kept_dims ?n (cd @ ob))) = int (length od)"
    using kept_dims_length [of "cd @ ob" ?n] ok by auto
  have spread: "spread_offsets (getAxes operand) (\<lambda>i. i \<in> set cd \<or> i \<in> set ob) (map (\<lambda>d. r ! nat d) od) 0 =
      Inr (map (\<lambda>k. case find_index k (kept_dims ?n (cd @ ob)) of None \<Rightarrow> 0 | Some p \<Rightarrow> r ! nat (od ! p)) (upto_int ?n))"
  proof -
    have "(case find_index d (kept_dims ?n (cd @ ob)) of None \<Rightarrow> 0 | Some p \<Rightarrow> map (\<lambda>d. r ! nat d) od ! (0 + p)) =
        (case find_index d (kept_dims ?n (cd @ ob)) of None \<Rightarrow> 0 | Some p \<Rightarrow> r ! nat (od ! p))" for d
      using find_index_less [of d "kept_dims ?n (cd @ ob)"] kept by (auto split: option.split)
    then show ?thesis
      using spread_offsets_at [of "upto_int ?n" 0 "\<lambda>i. i \<in> set cd \<or> i \<in> set ob" "map (\<lambda>d. r ! nat d) od"] kept
      unfolding skip getAxes_def getRank_def kept_dims_def [symmetric] by simp
  qed
  have source: "gather_source ?sh ?si od cd ob sb sm iv ss g r =
      map2 (+) (map2 (+)
        (map (\<lambda>k. case find_index k sm of None \<Rightarrow> 0 | Some j \<Rightarrow> min (max (g (?pos (int j))) 0) (?sh ! nat k - ss ! nat k)) (upto_int ?n))
        (map (\<lambda>k. case find_index k ob of None \<Rightarrow> 0 | Some b \<Rightarrow> ?pos 0 ! nat (sb ! b)) (upto_int ?n)))
        (map (\<lambda>k. case find_index k (kept_dims ?n (cd @ ob)) of None \<Rightarrow> 0 | Some p \<Rightarrow> r ! nat (od ! p)) (upto_int ?n))"
    by (simp add: gather_source_def Let_def map2_map_map zip_map1 zip_map2 zip_same_conv_map)
  have "rbind (sliceOp_colon F t (startIndicesIndex_of ?batch iv t)) (\<lambda>slice. rbind (evalIndex F slice) h) = rbind (Inr ?start) h"
    for h :: "Index \<Rightarrow> Index result"
    using start_vector [OF assms(2) gb(1)] by (simp add: rbind_assoc [symmetric])
  then show ?thesis
    using fullBatchingIndex_at [OF assms(1) gb(1)]
    by (simp add: gather_operandIndex_def batch starts od spread source startIndicesIndex_position getRank_def Let_def)
qed

section \<open>Soundness\<close>

lemma inferGatherOp_static:
  assumes "inferGatherOp (as_ranked ty) (as_ranked sty) od cd ob sb sm iv ss = Inr rt"
    and "list_all isStaticDimSize (getShape ty)" "list_all isStaticDimSize (getShape sty)"
  shows "gather_ok (getShape ty) (getShape sty) od cd ob sb sm iv ss"
    "set od \<subseteq> {0..<gather_rank (int (length (getShape sty))) od iv}"
    "inferGatherShape (gather_rank (int (length (getShape sty))) od iv) (vec_nth (getShape sty)) (vec_nth ss) od cd ob iv =
       Inr (getShape rt)"
    "rt = as_ranked \<lparr>getShape = getShape rt, getElementType = getElementType ty\<rparr>"
proof -
  from assms(1) have v: "verifyGather (getShape ty) (getShape sty) (1, int (length ss)) od cd ob sb sm iv = Inr ()"
    "checkSliceSizesOne ss cd = Inr ()" "checkSliceSizesInBounds (getShape ty) ss = Inr ()"
    and infer: "inferGatherReturnTypeComponents (as_ranked ty) (as_ranked sty) (vec_nth ss) od cd ob iv = Inr rt"
    by (simp_all add: inferGatherOp_def rbind_eq_Inr)
  show "gather_ok (getShape ty) (getShape sty) od cd ob sb sm iv ss" by (rule verifyGather_static [OF v assms(2,3)])
  let ?R = "gather_rank (int (length (getShape sty))) od iv"
  have R: "int (length od) + (if iv = rt_rank (as_ranked sty) then rt_rank (as_ranked sty) + 1 else rt_rank (as_ranked sty)) - 1 = ?R"
    by (simp add: gather_rank_def)
  from infer obtain shape where i: "checkDimsInBounds od ?R = Inr ()"
    "inferGatherShape ?R (vec_nth (getShape sty)) (vec_nth ss) od cd ob iv = Inr shape"
    "rt = mkRankedTensorType shape (getElementType ty) NoEncoding"
    unfolding inferGatherReturnTypeComponents_def Let_def R
    by (auto simp: rbind_eq_Inr encodingToBounds.simps boundsToEncoding_def list_all_length split: if_splits)
  show "set od \<subseteq> {0..<?R}" by (rule checkDimsInBounds_set [OF i(1)])
  show "inferGatherShape ?R (vec_nth (getShape sty)) (vec_nth ss) od cd ob iv = Inr (getShape rt)"
    using i(2,3) by (simp add: mkRankedTensorType_def)
  show "rt = as_ranked \<lparr>getShape = getShape rt, getElementType = getElementType ty\<rparr>"
    using i(3) by (simp add: as_ranked_def mkRankedTensorType_def)
qed

lemma gather_denotes:
  assumes "denotes F operand f" "denotes_int F startIndices Signless w g"
    and "inferGatherOp (as_ranked (t_type operand)) (as_ranked (t_type startIndices)) od cd ob sb sm iv ss = Inr rt"
    and "\<forall>d \<in> set cd. ss ! nat d \<noteq> 0"
  shows "\<exists>r. gatherOp F operand startIndices od cd ob sb sm iv ss sorted_hint (as_shaped rt) = Inr r \<and> as_ranked (t_type r) = rt \<and>
    denotes F r (\<lambda>i. f (gather_source (t_shape operand) (t_shape startIndices) od cd ob sb sm iv ss g i))"
proof -
  have d: "denotes F startIndices (\<lambda>i. int_el Signless w (g i))" using assms(2) by (simp add: denotes_int_def)
  note st = inferGatherOp_static [OF assms(3) denotes_static_dims [OF assms(1)] denotes_static_dims [OF d]]
  let ?ty = "\<lparr>getShape = getShape rt, getElementType = t_elementType operand\<rparr>"
  have ty: "as_shaped rt = ?ty" by (subst st(4)) simp
  have "\<exists>r. gatherOp F operand startIndices od cd ob sb sm iv ss sorted_hint ?ty = Inr r \<and> t_type r = ?ty \<and>
    denotes F r (\<lambda>i. f (gather_source (t_shape operand) (t_shape startIndices) od cd ob sb sm iv ss g i))"
    unfolding gatherOp_def Let_def kept_dims_def [symmetric]
    using gather_operandIndex_source [OF st(1) assms(2) st(3,2)] gather_source_inBounds [OF st(1,3,2) _ assms(4)]
      inferGatherShape_nonneg [OF st(1,3,2) denotes_static(1) [OF d]]
    by (intro fill_from_denotes [OF assms(1)]) simp_all
  then show ?thesis using ty st(4) by auto
qed

text \<open>
  C32: \<open>gather\<close> is sound for its shape function, for start indices of a signless integer type. Whenever \<^verbatim>\<open>inferGatherOp\<close> accepts
  static types and no collapsed dimension has a slice of size zero, \<open>gather\<close> returns a tensor of exactly the inferred type. Its element at \<open>r\<close> is the operand's element
  at \<open>gather_source r\<close>: the start index read for \<open>r\<close>'s batch, clamped so that the slice fits, plus the position along the batching
  dimensions, plus the offset inside the slice. Signless start indices may have any value; no index leaves its tensor. Unsigned start
  indices are left out: the interpreter reads them with their sign, as \<open>unsigned_start_read_as_negative\<close> states for \<open>dynamic_slice\<close>.
\<close>

theorem gather_sound:
  assumes "denotes F operand f" "denotes_int F startIndices Signless w g"
    and "inferGatherOp (as_ranked (t_type operand)) (as_ranked (t_type startIndices)) od cd ob sb sm iv ss = Inr rt"
    and "\<forall>d \<in> set cd. ss ! nat d \<noteq> 0"
  shows "\<exists>r. gatherOp F operand startIndices od cd ob sb sm iv ss sorted_hint (as_shaped rt) = Inr r \<and> as_ranked (t_type r) = rt \<and>
    denotes F r (\<lambda>i. f (gather_source (t_shape operand) (t_shape startIndices) od cd ob sb sm iv ss g i))"
  by (rule gather_denotes [OF assms])

end
