(* ===== verification/Types_Witness.thy ===== *)
theory Types_Witness
  imports Gather_Correct Region_Witness Structural_Witness
begin

text \<open>The theorems that tie the verifiers of \<open>Op_Types\<close> and \<open>Gather_Types\<close> to the interpreter, applied to small tensors.\<close>

section \<open>Tensors of booleans\<close>

definition bool_tensor :: "Sizes \<Rightarrow> bool list \<Rightarrow> Tensor" where
  "bool_tensor shape data =
     \<lparr>t_type = \<lparr>getShape = shape, getElementType = i1Type\<rparr>, t_data = map (\<lambda>b. Some (if b then 1 else 0)) data\<rparr>"

lemma bool_denotes:
  assumes "list_all (\<lambda>d. 0 \<le> d) shape" "int (length data) = prod_list shape"
  shows "denotes F (bool_tensor shape data) (\<lambda>i. bool_el (data ! nat (flat shape i)))"
proof -
  have wf: "wf_tensor (bool_tensor shape data)"
    using assms by (simp add: wf_tensor_def bool_tensor_def getNumElements_def)
  have "Tensor_get F (bool_tensor shape data) i = Inr (bool_el (data ! nat (flat shape i)))" if i: "inBounds i shape" for i
  proof -
    have k: "nat (flat shape i) < length data" using flat_bounds [OF i] assms(2) by (simp add: nat_less_iff)
    then have "take (Suc 0) (drop (nat (flat shape i)) (map (\<lambda>b. Some (if b then 1 else 0)) data)) =
        [Some (if data ! nat (flat shape i) then 1 else (0 :: int))]"
      by (simp add: take_Suc_conv_app_nth drop_map [symmetric] Cons_nth_drop_Suc [symmetric])
    then show ?thesis
      using i k by (simp add: Tensor_get_def bool_tensor_def flattenIndex_flat Let_def element_of_bytes_def supported_defs)
  qed
  with wf show ?thesis by (simp add: denotes_def bool_tensor_def bool_el_storable [simplified])
qed

text \<open>A predicate of the operands' shape, and a scalar one.\<close>

theorem select_sound_witness:
  "\<exists>r. selectOp fixed_api (bool_tensor [2] [True, False]) (i8_tensor [2] [1, 2]) (i8_tensor [2] [3, 4]) (i8_type [2]) = Inr r \<and>
     Tensor_get fixed_api r [0] = Inr (i8 1) \<and> Tensor_get fixed_api r [1] = Inr (i8 4)"
proof -
  let ?p = "bool_tensor [2] [True, False]" and ?t = "i8_tensor [2] [1, 2]" and ?f = "i8_tensor [2] [3, 4]"
  have p: "denotes fixed_api ?p (\<lambda>i. bool_el ([True, False] ! nat (flat [2] i)))" by (rule bool_denotes) simp_all
  have t: "denotes fixed_api ?t (\<lambda>i. i8 ([1, 2] ! nat (flat [2] i)))" and f: "denotes fixed_api ?f (\<lambda>i. i8 ([3, 4] ! nat (flat [2] i)))"
    by (rule i8_denotes, simp add: byte_tensor_ok_def)+
  have i: "inferSelectOp (as_ranked (t_type ?p)) (as_ranked (t_type ?t)) (as_ranked (t_type ?f)) = Inr (as_ranked (i8_type [2]))"
    using inferMostSpecific_same [of "i8_type [2]"]
    by (simp add: inferSelectOp_def verifyCompatibleShape_def verifyCompatibleDims_def tensorsHaveSameElType_def bool_tensor_def
        i8_tensor_def isStaticDimSize_def isDynamicDimSize_def kDynamic_def)
  from select_sound [OF p t f i] obtain r where r: "selectOp fixed_api ?p ?t ?f (i8_type [2]) = Inr r"
    "as_ranked (t_type r) = as_ranked (i8_type [2])"
    "denotes fixed_api r (\<lambda>i. if [True, False] ! nat (flat [2] (if t_shape ?p = [] then [] else i))
        then i8 ([1, 2] ! nat (flat [2] i)) else i8 ([3, 4] ! nat (flat [2] i)))"
    by auto
  then have "t_shape r = [2]" by (metis as_ranked_simps(1) i8_type_simps(1))
  with r(1) denotes_get [OF r(3), of "[0]"] denotes_get [OF r(3), of "[1]"] show ?thesis by (auto simp: bool_tensor_def)
qed

text \<open>Rows 2 and 0 of a 3x2 matrix; the start indices have no index dimension of their own.\<close>

theorem gather_sound_witness:
  "\<exists>r. gatherOp fixed_api (i8_tensor [3, 2] [1, 2, 3, 4, 5, 6]) (i8_tensor [2] [2, 0]) [1] [0] [] [] [0] 1 [1, 2] False (i8_type [2, 2])
     = Inr r \<and> Tensor_get fixed_api r [0, 1] = Inr (i8 6)"
proof -
  let ?t = "i8_tensor [3, 2] [1, 2, 3, 4, 5, 6]" and ?s = "i8_tensor [2] [2, 0]"
  have t: "denotes fixed_api ?t (\<lambda>i. i8 ([1, 2, 3, 4, 5, 6] ! nat (flat [3, 2] i)))"
    by (rule i8_denotes) (simp add: byte_tensor_ok_def)
  have s: "denotes_int fixed_api ?s Signless 8 (\<lambda>i. signed_byte ([2, 0] ! nat (flat [2] i)))"
    by (rule i8_denotes_int) (simp add: byte_tensor_ok_def)
  have i: "inferGatherOp (as_ranked (t_type ?t)) (as_ranked (t_type ?s)) [1] [0] [] [] [0] 1 [1, 2] = Inr (as_ranked (i8_type [2, 2]))"
    by code_simp
  from gather_sound [OF t s i] obtain r where r:
    "gatherOp fixed_api ?t ?s [1] [0] [] [] [0] 1 [1, 2] False (i8_type [2, 2]) = Inr r" "as_ranked (t_type r) = as_ranked (i8_type [2, 2])"
    "denotes fixed_api r (\<lambda>i. i8 ([1, 2, 3, 4, 5, 6] ! nat (flat [3, 2]
        (gather_source [3, 2] [2] [1] [0] [] [] [0] 1 [1, 2] (\<lambda>i. signed_byte ([2, 0] ! nat (flat [2] i))) i))))"
    by auto
  then have "t_shape r = [2, 2]" by (metis as_ranked_simps(1) i8_type_simps(1))
  moreover have "gather_source [3, 2] [2] [1] [0] [] [] [0] 1 [1, 2] (\<lambda>i. signed_byte ([2, 0] ! nat (flat [2] i))) [0, 1] = [2, 1]"
    by code_simp
  ultimately show ?thesis using r(1) denotes_get [OF r(3), of "[0, 1]"] by auto
qed

text \<open>
  The verifier accepts a collapsed dimension of slice size zero; the clamped start then may be one past the end of the operand, and
  reading there is a fatal error.
\<close>

lemma gather_zero_slice:
  "inferGatherOp (as_ranked (i8_type [2])) (as_ranked (i8_type [1])) [] [0] [] [] [0] 0 [0] = Inr (as_ranked (i8_type []))"
  "gatherOp fixed_api (i8_tensor [2] [1, 2]) (i8_tensor [1] [5]) [] [0] [] [] [0] 0 [0] False (i8_type []) =
     Inl (Fatal ''Incompatible index and shape found while flattening index'')"
  by code_simp+

end
