(* ===== verification/Value_Types_Correct.thy ===== *)
theory Value_Types_Correct
  imports Value_Types
begin

text \<open>
  What holds of the functions on tuples of types: on which lists of types \<^verbatim>\<open>unflattenTupleTypes\<close> is the inverse of
  \<^verbatim>\<open>flattenTupleTypes\<close>, and that it reports no failure.
\<close>

section \<open>The loop of unflattenTupleTypes\<close>

text \<open>Tuples stand at the end of the list they are in and are not empty.\<close>

fun tuples_last :: "ValueType list \<Rightarrow> bool" where
  "tuples_last [] = True"
| "tuples_last (TupleType ts # rest) = (rest = [] \<and> ts \<noteq> [] \<and> tuples_last ts)"
| "tuples_last (TensorType t # rest) = tuples_last rest"
| "tuples_last (TokenType # rest) = tuples_last rest"

lemma flatten_not_empty: "tuples_last p \<Longrightarrow> p \<noteq> [] \<Longrightarrow> flattenTupleTypes p \<noteq> []"
  by (induction p rule: tuples_last.induct) auto

lemma unflatten_empty_types: "unflatten_loop p [] acc = (if p = [] then Some 0 else None, acc)"
  by (cases p) simp_all

lemma unflatten_consumes_all: "unflatten_loop p ts acc = (Some c, r) \<Longrightarrow> c = int (length ts)"
proof (induction p ts acc arbitrary: c r rule: unflatten_loop.induct)
  case (3 inner p t ts acc)
  then show ?case by (fastforce split: prod.splits option.splits)
qed (auto split: prod.splits option.splits if_splits)

lemma unflatten_flatten:
  "tuples_last p \<Longrightarrow> unflatten_loop p (flattenTupleTypes p) acc = (Some (int (length (flattenTupleTypes p))), acc @ p)"
proof (induction p arbitrary: acc rule: tuples_last.induct)
  case (2 ts rest)
  then obtain t us where "flattenTupleTypes ts = t # us" using flatten_not_empty [of ts] by (cases "flattenTupleTypes ts") auto
  with 2 show ?case by simp
qed simp_all

lemma unflatten_fails:
  "\<not> tuples_last p \<Longrightarrow> \<exists>r. unflatten_loop p (flattenTupleTypes p) acc = (None, r) \<and> length r < length acc + length p"
proof (induction p arbitrary: acc rule: tuples_last.induct)
  case (2 ts rest)
  let ?types = "flattenTupleTypes ts @ flattenTupleTypes rest"
  show ?case
  proof (cases ?types)
    case (Cons t us)
    show ?thesis
    proof (cases "unflatten_loop ts ?types []")
      case (Pair consumed inner)
      show ?thesis
      proof (cases consumed)
        case (Some c)
        then have "c = int (length ?types)" using Pair unflatten_consumes_all by blast
        moreover have "rest \<noteq> []"
        proof
          assume "rest = []"
          moreover from this Cons "2.prems" have "\<not> tuples_last ts" by (cases ts) auto
          ultimately show False using "2.IH" [of "[]"] Pair Some by auto
        qed
        ultimately show ?thesis using Pair Some Cons by (simp add: unflatten_empty_types)
      qed (use Pair Cons in simp)
    qed
  qed (simp add: unflatten_empty_types)
next
  case (3 t rest)
  from "3.IH" [of "acc @ [TensorType t]"] "3.prems" show ?case by fastforce
next
  case (4 rest)
  from "4.IH" [of "acc @ [TokenType]"] "4.prems" show ?case by fastforce
qed simp

text \<open>
  C33: \<open>unflattenTupleTypes\<close> gives a list of types back from its flattening exactly when all tuples in it are at the end of the list
  that contains them and none is empty. It never reports a failure, whatever the prototype and the types: a tuple that is
  followed by another type, or types that do not match the prototype, lead to a wrong result instead.
\<close>

theorem unflatten_exact:
  "(unflattenTupleTypes p (flattenTupleTypes p) = Inr p \<longleftrightarrow> tuples_last p) \<and> (\<exists>r. unflattenTupleTypes q types = Inr r)"
proof
  show "unflattenTupleTypes p (flattenTupleTypes p) = Inr p \<longleftrightarrow> tuples_last p"
  proof (cases "tuples_last p")
    case True
    then show ?thesis using unflatten_flatten [of p "[]"] by (simp add: unflattenTupleTypes_def)
  next
    case False
    then show ?thesis using unflatten_fails [of p "[]"] by (auto simp: unflattenTupleTypes_def)
  qed
  show "\<exists>r. unflattenTupleTypes q types = Inr r"
    using unflatten_consumes_all [of q types "[]"]
    by (cases "unflatten_loop q types []") (auto simp: unflattenTupleTypes_def)
qed

lemma unflatten_loses_types:
  "unflattenTupleTypes [TupleType [TokenType], TokenType] [TokenType, TokenType] = Inr []"
  by (simp add: unflattenTupleTypes_def)

end
