(* ===== verification/Ops_Conv.thy ===== *)
theory Ops_Conv
  imports Ops_Linear Conv_Types
begin

text \<open>
  \<open>convolution\<close> and \<open>fft\<close> of \<^verbatim>\<open>stablehlo/reference/Ops.cpp\<close>. A convolution pads its left operand, takes a window of it for every
  spatial position of the result and contracts it with the kernel; groups are computed apart and concatenated. A discrete Fourier
  transform of one dimension is a sum per element, and the four kinds of \<open>fft\<close> are made of it.
\<close>

section \<open>Convolution\<close>

text \<open>\<^verbatim>\<open>concatAndPermute\<close>, with the default value of its element type that fills the result.\<close>

definition concatAndPermute :: "'a \<Rightarrow> 'a \<Rightarrow> 'a list \<Rightarrow> 'a \<Rightarrow> Axes \<Rightarrow> 'a list result" where
  "concatAndPermute init n hw c permutation =
     rbind (vec_nth permutation 0) (\<lambda>first.
     rbind (vec_set (replicate (length permutation) init) first n) (\<lambda>result.
     rbind (vec_nth permutation (int (length permutation) - 1)) (\<lambda>last.
     rbind (vec_set result last c) (\<lambda>result.
       foldM (\<lambda>i result. rbind (vec_nth permutation i) (\<lambda>p. rbind (vec_nth hw (i - 1)) (vec_set result p)))
         (map int [1..<length permutation - 1]) result))))"

record ConvAttributes =
  windowStrides :: "int list"
  convPadding :: "(int \<times> int) list"
  lhsDilation :: "int list"
  rhsDilation :: "int list"
  windowReversal :: "bool list"
  convDims :: ConvDimensionNumbers

text \<open>The overload that infers the result type, around a given convolution.\<close>

definition convolutionOp_infer ::
  "(ShapedType \<Rightarrow> Tensor result) \<Rightarrow> Tensor \<Rightarrow> Tensor \<Rightarrow> ConvAttributes \<Rightarrow> int \<Rightarrow> int \<Rightarrow> ShapedType \<Rightarrow> Tensor result" where
  "convolutionOp_infer conv lhs rhs attrs featureGroupCount batchGroupCount resultType =
     rbind (or_fatal ''Could not infer ConvolutionOp's return type''
              (inferConvolutionOp (as_ranked (t_type lhs)) (as_ranked (t_type rhs)) (Some (windowStrides attrs))
                 (Some ([getRank lhs - 2, 2], concat (map (\<lambda>(lo, hi). [lo, hi]) (convPadding attrs))))
                 (Some (lhsDilation attrs)) (Some (rhsDilation attrs)) (Some (windowReversal attrs)) (convDims attrs)
                 featureGroupCount batchGroupCount None)) (\<lambda>dims.
       conv \<lparr>getShape = dims, getElementType = getElementType resultType\<rparr>)"

definition lhs_permutation :: "ConvDimensionNumbers \<Rightarrow> Axes" where
  "lhs_permutation dn = inputBatchDimension dn # inputSpatialDimensions dn @ [inputFeatureDimension dn]"

definition result_permutation :: "ConvDimensionNumbers \<Rightarrow> Axes" where
  "result_permutation dn = outputBatchDimension dn # outputSpatialDimensions dn @ [outputFeatureDimension dn]"

definition pad_lhs :: "('f, 'd) float_api \<Rightarrow> Tensor \<Rightarrow> ConvAttributes \<Rightarrow> ShapedType \<Rightarrow> Tensor result" where
  "pad_lhs F lhs attrs resultType =
     (let permutation = lhs_permutation (convDims attrs) in
      rbind (Sizes_minus_scalar (lhsDilation attrs) 1) (\<lambda>dilations.
      rbind (concatAndPermute 0 0 dilations 0 permutation) (\<lambda>lhsBaseDilations.
      rbind (concatAndPermute (0, 0) (0, 0) (convPadding attrs) (0, 0) permutation) (\<lambda>lhsPadding.
      rbind (constant_double F (d_lit F 0) (getElementType resultType)) (\<lambda>paddingValue.
        padOp_high F lhs paddingValue (map fst lhsPadding) (map snd lhsPadding) lhsBaseDilations)))))"

text \<open>The window of the padded operand that belongs to a spatial position of the result.\<close>

definition lhs_window ::
  "('f, 'd) float_api \<Rightarrow> Tensor \<Rightarrow> ConvAttributes \<Rightarrow> Sizes \<Rightarrow> Sizes \<Rightarrow> Sizes \<Rightarrow> Index \<Rightarrow> Tensor result" where
  "lhs_window F paddedLhs attrs lhsWindowDimensions lhsWindowStrides lhsWindowDilations outputSpatialIndex =
     rbind (concatAndPermute 0 0 outputSpatialIndex 0 (lhs_permutation (convDims attrs))) (\<lambda>offsets.
     rbind (mapM (\<lambda>(i, offset). rbind (vec_nth lhsWindowStrides i) (\<lambda>s. Inr (s * offset)))
              (zip (upto_int (int (length offsets))) offsets)) (\<lambda>lhsWindowStart.
     rbind (mapM (\<lambda>(i, start).
              rbind (vec_nth lhsWindowDimensions i) (\<lambda>dim.
              rbind (vec_nth lhsWindowDilations i) (\<lambda>dilation.
              rbind (vec_nth (t_shape paddedLhs) i) (\<lambda>bound. Inr (min (start + dim * dilation) bound)))))
              (zip (upto_int (int (length lhsWindowStart))) lhsWindowStart)) (\<lambda>limitIndices.
     rbind (sliceOp_limit F paddedLhs lhsWindowStart limitIndices lhsWindowDilations) (\<lambda>lhsWindow.
     rbind (mapM (vec_nth (inputSpatialDimensions (convDims attrs)))
              (map fst (filter snd (zip (upto_int (int (length (windowReversal attrs)))) (windowReversal attrs))))) (\<lambda>reverseDims.
       reverseOp F lhsWindow reverseDims (t_type lhsWindow))))))"

text \<open>The elements of a dot product go to the result with an iterator over its other dimensions, in the order in which it has them.\<close>

definition place_products ::
  "('f, 'd) float_api \<Rightarrow> ConvDimensionNumbers \<Rightarrow> Tensor \<Rightarrow> Index \<Rightarrow> Tensor \<Rightarrow> Tensor result" where
  "place_products F dn dotProduct outputSpatialIndex result =
     (let resultNonSpatialDims =
            map (\<lambda>i. t_shape result ! nat i) (filter (\<lambda>i. i \<notin> set (outputSpatialDimensions dn)) (upto_int (getRank result))) in
      rbind (forEachIndex (t_shape dotProduct) (\<lambda>dotProductIndex (it, r).
               rbind (deref it) (\<lambda>nonSpatial.
               rbind (vec_nth nonSpatial 0) (\<lambda>x0.
               rbind (vec_nth nonSpatial 1) (\<lambda>x1.
               rbind (concatAndPermute 0 x0 outputSpatialIndex x1 (result_permutation dn)) (\<lambda>resultIndex.
               rbind (Tensor_get F dotProduct dotProductIndex) (\<lambda>e.
               rbind (Tensor_set F r resultIndex e) (\<lambda>r.
               rbind (incr it) (\<lambda>it. Inr (it, r)))))))))
               (IndexSpaceIterator_at resultNonSpatialDims (Some (Sizes_fill (length resultNonSpatialDims) 0)), result))
        (\<lambda>(_, r). Inr r))"

text \<open>The part of \<^verbatim>\<open>convolutionOp\<close> that computes one group.\<close>

definition convolution_group ::
  "('f, 'd) float_api \<Rightarrow> Tensor \<Rightarrow> Tensor \<Rightarrow> ConvAttributes \<Rightarrow> ShapedType \<Rightarrow> Tensor result" where
  "convolution_group F lhs rhs attrs resultType =
     (let dn = convDims attrs; permutation = lhs_permutation dn in
      rbind (newTensor resultType) (\<lambda>result.
      rbind (vec_nth (t_shape lhs) (inputBatchDimension dn)) (\<lambda>batch.
      rbind (extractElements (t_shape rhs) (kernelSpatialDimensions dn)) (\<lambda>kernel.
      rbind (vec_nth (t_shape lhs) (inputFeatureDimension dn)) (\<lambda>feature.
      rbind (concatAndPermute 0 batch kernel feature permutation) (\<lambda>lhsWindowDimensions.
      rbind (concatAndPermute 0 1 (windowStrides attrs) 1 permutation) (\<lambda>lhsWindowStrides.
      rbind (concatAndPermute 0 1 (rhsDilation attrs) 1 permutation) (\<lambda>lhsWindowDilations.
      rbind (pad_lhs F lhs attrs resultType) (\<lambda>paddedLhs.
      rbind (extractElements (getShape resultType) (outputSpatialDimensions dn)) (\<lambda>outputSpatial.
        forEachIndex outputSpatial (\<lambda>outputSpatialIndex result.
          rbind (lhs_window F paddedLhs attrs lhsWindowDimensions lhsWindowStrides lhsWindowDilations outputSpatialIndex)
            (\<lambda>reversedLhsWindow.
          rbind (dotGeneralOp_infer F reversedLhsWindow rhs (inputSpatialDimensions dn @ [inputFeatureDimension dn])
                   (kernelSpatialDimensions dn @ [kernelInputFeatureDimension dn]) (getElementType resultType)) (\<lambda>dotProduct.
            place_products F dn dotProduct outputSpatialIndex result))) result))))))))))"

text \<open>
  With groups the operands are split, each pair is convolved by the overload above, and the results are concatenated. The recursion of the
  source ends after at most two steps, as each sets one of the group counts to one.
\<close>

definition convolution_groups ::
  "('f, 'd) float_api \<Rightarrow> (Tensor \<Rightarrow> Tensor \<Rightarrow> Tensor result) \<Rightarrow> Tensor \<Rightarrow> Tensor \<Rightarrow> int \<Rightarrow> int \<Rightarrow> ConvDimensionNumbers \<Rightarrow> ShapedType \<Rightarrow>
   Tensor result" where
  "convolution_groups F conv lhs rhs groupCount lhsDimension dn resultType =
     rbind (newTensor resultType) (\<lambda>_.
     rbind (split F lhs groupCount lhsDimension) (\<lambda>lhses.
     rbind (split F rhs groupCount (kernelOutputFeatureDimension dn)) (\<lambda>rhses.
     rbind (mapM (\<lambda>(left, right). conv left right) (zip lhses rhses)) (\<lambda>results.
       concatenateOp F results (outputFeatureDimension dn) resultType))))"

definition convolution_batches ::
  "('f, 'd) float_api \<Rightarrow> Tensor \<Rightarrow> Tensor \<Rightarrow> ConvAttributes \<Rightarrow> int \<Rightarrow> int \<Rightarrow> ShapedType \<Rightarrow> Tensor result" where
  "convolution_batches F lhs rhs attrs featureGroupCount batchGroupCount resultType =
     (if 1 < batchGroupCount then
        convolution_groups F
          (\<lambda>left right. convolutionOp_infer (convolution_group F left right attrs) left right attrs featureGroupCount 1 resultType)
          lhs rhs batchGroupCount (inputBatchDimension (convDims attrs)) (convDims attrs) resultType
      else convolution_group F lhs rhs attrs resultType)"

definition convolutionOp ::
  "('f, 'd) float_api \<Rightarrow> Tensor \<Rightarrow> Tensor \<Rightarrow> ConvAttributes \<Rightarrow> int \<Rightarrow> int \<Rightarrow> ShapedType \<Rightarrow> Tensor result" where
  "convolutionOp F lhs rhs attrs featureGroupCount batchGroupCount resultType =
     (if 1 < featureGroupCount then
        convolution_groups F
          (\<lambda>left right. convolutionOp_infer (convolution_batches F left right attrs 1 batchGroupCount) left right attrs 1
             batchGroupCount resultType)
          lhs rhs featureGroupCount (inputFeatureDimension (convDims attrs)) (convDims attrs) resultType
      else convolution_batches F lhs rhs attrs featureGroupCount batchGroupCount resultType)"

section \<open>Fourier transforms\<close>

datatype FftType = FFT | IFFT | RFFT | IRFFT

text \<open>
  The phase is computed in double precision, with \<open>m_pi\<close> for \<^verbatim>\<open>M_PI\<close>. What \<^verbatim>\<open>constantOp\<close> makes of MLIR's dense attribute of one double is
  the argument \<open>dense\<close>, of a complex number or of a real one.
\<close>

definition fft_1d :: "('f, 'd) float_api \<Rightarrow> 'd \<Rightarrow> Tensor \<Rightarrow> ShapedType \<Rightarrow> int \<Rightarrow> Tensor result" where
  "fft_1d F m_pi operand resultType dimension =
     fill_result F resultType (\<lambda>resultIndex.
       rbind (vec_nth (t_shape operand) dimension) (\<lambda>N.
       rbind (Element_complex F (getElementType resultType) (APFloat_double F (d_lit F 0)) (APFloat_double F (d_lit F 0)))
         (foldM (\<lambda>n X.
            rbind (vec_set resultIndex dimension n) (\<lambda>operandIndex.
            rbind (case t_elementType operand of ComplexType t \<Rightarrow> Inr t | _ \<Rightarrow> Inl (UB ''cast to ComplexType'')) (\<lambda>floatType.
            rbind (vec_nth resultIndex dimension) (\<lambda>k.
            rbind (Element_float F floatType (APFloat_double F
                     (d_div F (d_mul F (d_mul F (d_mul F (d_lit F (- 2)) m_pi) (d_lit F n)) (d_lit F k)) (d_lit F N)))) (\<lambda>phase.
            rbind (el_cosine F phase) (\<lambda>c.
            rbind (el_sine F phase) (\<lambda>s.
            rbind (el_complex F c s) (\<lambda>rotator.
            rbind (Tensor_get F operand operandIndex) (\<lambda>x.
            rbind (el_mul F x rotator) (el_add F X)))))))))) (upto_int N))))"

definition fft_dims :: "ShapedType \<Rightarrow> int list \<Rightarrow> Axes" where
  "fft_dims resultType fftLength =
     map (\<lambda>i. int (length (getShape resultType)) - int (length fftLength) + int i) [0..<length fftLength]"

definition fft_forward :: "('f, 'd) float_api \<Rightarrow> 'd \<Rightarrow> Tensor \<Rightarrow> ShapedType \<Rightarrow> Axes \<Rightarrow> Tensor result" where
  "fft_forward F m_pi operand resultType dims = foldM (\<lambda>d result. fft_1d F m_pi result resultType d) (rev dims) operand"

definition conjugated_fft_1d :: "('f, 'd) float_api \<Rightarrow> 'd \<Rightarrow> Tensor \<Rightarrow> ShapedType \<Rightarrow> int \<Rightarrow> Tensor result" where
  "conjugated_fft_1d F m_pi operand resultType d =
     rbind (conjugate F operand) (\<lambda>c. rbind (fft_1d F m_pi c resultType d) (conjugate F))"

definition fft_inverse ::
  "('f, 'd) float_api \<Rightarrow> 'd \<Rightarrow> (ShapedType \<Rightarrow> 'd \<Rightarrow> Tensor result) \<Rightarrow> Tensor \<Rightarrow> ShapedType \<Rightarrow> Axes \<Rightarrow> Tensor result" where
  "fft_inverse F m_pi dense operand resultType dims =
     foldM (\<lambda>d result.
       rbind (vec_nth (getShape resultType) d) (\<lambda>size.
       rbind (dense resultType (d_lit F size)) (\<lambda>divisor.
       rbind (conjugated_fft_1d F m_pi result resultType d) (\<lambda>r. divideOp F r divisor resultType)))) dims operand"

definition fft_real :: "('f, 'd) float_api \<Rightarrow> 'd \<Rightarrow> Tensor \<Rightarrow> ShapedType \<Rightarrow> Axes \<Rightarrow> Tensor result" where
  "fft_real F m_pi operand resultType dims =
     rbind (convertOp F operand ((t_type operand)\<lparr>getElementType := getElementType resultType\<rparr>)) (\<lambda>result.
     if dims = [] then Inl (UB ''back of an empty vector'')
     else
       rbind (fft_1d F m_pi result (t_type result) (last dims)) (\<lambda>result.
       rbind (sliceOp F result (Sizes_fill (nat (getRank operand)) 0) (Sizes_fill (nat (getRank operand)) 1) resultType) (\<lambda>result.
         fft_forward F m_pi result resultType (butlast dims))))"

definition fft_inverse_real ::
  "('f, 'd) float_api \<Rightarrow> 'd \<Rightarrow> (ShapedType \<Rightarrow> 'd \<Rightarrow> Tensor result) \<Rightarrow> Tensor \<Rightarrow> ShapedType \<Rightarrow> Axes \<Rightarrow> Tensor result" where
  "fft_inverse_real F m_pi dense operand resultType dims =
     rbind (mapM (vec_nth (getShape resultType)) dims) (\<lambda>sizes.
     if dims = [] then Inl (UB ''pop of an empty vector'')
     else
       let renormFactor = prod_list sizes; d_irfft = last dims in
       rbind (foldM (\<lambda>d result. conjugated_fft_1d F m_pi result (t_type result) d) (butlast dims) operand) (\<lambda>result.
       if t_shape result = [] then Inl (UB ''back of an empty vector'')
       else
         rbind (sliceOp_limit F result (butlast (Sizes_fill (length (t_shape result)) 0) @ [1])
                  (butlast (t_shape result) @ [last (t_shape result) - 1]) (Sizes_fill (length (t_shape result)) 1)) (\<lambda>replica.
         rbind (reverseOp F replica [d_irfft] (t_type replica)) (\<lambda>reversed.
         rbind (conjugate F reversed) (\<lambda>replica.
         if \<not> isFloatType (getElementType resultType) then Inl (UB ''cast to FloatType'')
         else
           rbind (concatenateOp F [result, replica] d_irfft (resultType\<lparr>getElementType := ComplexType (getElementType resultType)\<rparr>))
             (\<lambda>result.
           rbind (conjugate F result) (\<lambda>conjugated.
           rbind (fft_1d F m_pi conjugated (t_type result) d_irfft) (\<lambda>transformed.
           rbind (realOp F transformed resultType) (\<lambda>result.
           rbind (dense resultType (d_lit F renormFactor)) (\<lambda>divisor. divideOp F result divisor resultType))))))))))"

definition fftOp ::
  "('f, 'd) float_api \<Rightarrow> 'd \<Rightarrow> (ShapedType \<Rightarrow> 'd \<Rightarrow> Tensor result) \<Rightarrow> Tensor \<Rightarrow> FftType \<Rightarrow> int list \<Rightarrow> ShapedType \<Rightarrow> Tensor result" where
  "fftOp F m_pi dense operand fftType fftLength resultType =
     (let dims = fft_dims resultType fftLength in
      case fftType of
        FFT \<Rightarrow> fft_forward F m_pi operand resultType dims
      | IFFT \<Rightarrow> fft_inverse F m_pi dense operand resultType dims
      | RFFT \<Rightarrow> fft_real F m_pi operand resultType dims
      | IRFFT \<Rightarrow> fft_inverse_real F m_pi dense operand resultType dims)"

end
