(* ===== verification/Conv_Witness.thy ===== *)
theory Conv_Witness
  imports Ops_Conv Types_Witness
begin

text \<open>Convolutions of bytes, evaluated: strides, padding, dilation, reversal and groups, and a layout of the result that fails.\<close>

definition rows_last :: ConvDimensionNumbers where
  "rows_last = \<lparr>inputBatchDimension = 0, inputFeatureDimension = 2, inputSpatialDimensions = [1], kernelInputFeatureDimension = 1,
     kernelOutputFeatureDimension = 2, kernelSpatialDimensions = [0], outputBatchDimension = 0, outputFeatureDimension = 2,
     outputSpatialDimensions = [1]\<rparr>"

definition plain_window :: ConvAttributes where
  "plain_window = \<lparr>windowStrides = [1], convPadding = [(0, 0)], lhsDilation = [1], rhsDilation = [1], windowReversal = [False],
     convDims = rows_last\<rparr>"

text \<open>A sequence of four and a kernel of two taps, with the windows that the attributes give.\<close>

definition convolve :: "ConvAttributes \<Rightarrow> Sizes \<Rightarrow> Tensor result" where
  "convolve attrs shape = convolutionOp fixed_api (i8_tensor [1, 4, 1] [1, 2, 3, 4]) (i8_tensor [2, 1, 1] [10, 1]) attrs 1 1 (i8_type shape)"

lemma convolution_examples:
  "convolve plain_window [1, 3, 1] = Inr (i8_tensor [1, 3, 1] [12, 23, 34])"
  "convolve (plain_window\<lparr>convPadding := [(1, 0)]\<rparr>) [1, 4, 1] = Inr (i8_tensor [1, 4, 1] [1, 12, 23, 34])"
  "convolve (plain_window\<lparr>windowStrides := [2]\<rparr>) [1, 2, 1] = Inr (i8_tensor [1, 2, 1] [12, 34])"
  "convolve (plain_window\<lparr>rhsDilation := [2]\<rparr>) [1, 2, 1] = Inr (i8_tensor [1, 2, 1] [13, 24])"
  "convolve (plain_window\<lparr>lhsDilation := [2]\<rparr>) [1, 6, 1] = Inr (i8_tensor [1, 6, 1] [10, 2, 20, 3, 30, 4])"
  "convolve (plain_window\<lparr>windowReversal := [True]\<rparr>) [1, 3, 1] = Inr (i8_tensor [1, 3, 1] [21, 32, 43])"
  by code_simp+

text \<open>Two feature groups: each half of the features has its own kernel.\<close>

lemma convolution_feature_groups:
  "convolutionOp fixed_api (i8_tensor [1, 2, 2] [1, 2, 3, 4]) (i8_tensor [1, 1, 2] [10, 5]) plain_window 2 1 (i8_type [1, 2, 2]) =
     Inr (i8_tensor [1, 2, 2] [10, 10, 30, 20])"
  by code_simp

text \<open>
  The non-spatial coordinates are listed in the order of the result dimensions but used as batch and feature. With the feature dimension
  first, two batches and one feature, the position of the second batch is taken for a feature: the same sums fail to be stored.
\<close>

lemma convolution_feature_first:
  "convolutionOp fixed_api (i8_tensor [2, 2, 1] [1, 2, 3, 4]) (i8_tensor [2, 1, 1] [10, 1]) plain_window 1 1 (i8_type [2, 1, 1]) =
     Inr (i8_tensor [2, 1, 1] [12, 34])"
  "convolutionOp fixed_api (i8_tensor [2, 2, 1] [1, 2, 3, 4]) (i8_tensor [2, 1, 1] [10, 1])
     (plain_window\<lparr>convDims := rows_last\<lparr>outputBatchDimension := 2, outputFeatureDimension := 0\<rparr>\<rparr>) 1 1 (i8_type [1, 1, 2]) =
     Inl (Fatal ''Incompatible index and shape found while flattening index'')"
  by code_simp+

end
