(* ===== verification/Dispatch.thy ===== *)
theory Dispatch
  imports Ops_Conv Collectives Replica_Groups Region_Types
begin

text \<open>
  The function \<open>eval\<close> of \<^verbatim>\<open>stablehlo/reference/Ops.cpp\<close> over the operations of the dialect: which operands every operation looks up, which
  attributes have defaults, what it computes and where its results go. \<open>Values\<close> has the loop over a block; here are its branches.
  Evaluation of nested regions and of called functions is by fuel for the depth of nesting.
\<close>

section \<open>Operations\<close>

datatype UnaryName =
    AbsOp | BitcastConvertOp | CbrtOp | CeilOp | ClzOp | ConvertOp | CosineOp | DynamicReshapeOp | ExpOp | Expm1Op | FloorOp |
    ImagOp | IsFiniteOp | Log1pOp | LogOp | LogisticOp | NegOp | NotOp | PopulationCountOp | RealOp | ReshapeOp |
    RoundNearestEvenOp | RoundOp | RsqrtOp | SignOp | SineOp | SqrtOp | TanOp | TanhOp

datatype BinaryName =
    AddOp | AndOp | Atan2Op | ComplexOp | DivOp | MaxOp | MinOp | MulOp | OrOp | PowOp | RemOp | ShiftLeftOp |
    ShiftRightArithmeticOp | ShiftRightLogicalOp | SubtractOp | XorOp

datatype DecomposableName =
    BatchNormGradOp | BatchNormInferenceOp | BatchNormTrainingOp | BroadcastOp | CholeskyOp | CreateTokenOp | CrossReplicaSumOp |
    DotOp | EinsumOp | RngBitGeneratorOp | RngOp | TorchIndexSelectOp | UnaryEinsumOp

text \<open>Attributes: replica groups, the dimension numbers of gathers and scatters, and the optional attributes of windows.\<close>

datatype ReplicaGroupsAttr =
    DenseReplicaGroups int int "int list" | MeshReplicaGroups "Mesh + string" "AxisRef option list" | NoReplicaGroups

record CollectiveAttrs =
  replicaGroups :: ReplicaGroupsAttr
  channelHandle :: "int option"
  useGlobalDeviceIds :: bool

record GatherDims =
  offsetDims :: Axes
  collapsedSliceDims :: Axes
  operandBatchingDims :: Axes
  startIndicesBatchingDims :: Axes
  startIndexMap :: Axes
  gatherIndexVectorDim :: int

record ScatterDims =
  updateWindowDims :: Axes
  insertedWindowDims :: Axes
  inputBatchingDims :: Axes
  scatterIndicesBatchingDims :: Axes
  scatterDimsToOperandDims :: Axes
  scatterIndexVectorDim :: int

record WindowAttrs =
  windowDimensionsAttr :: "int list option"
  windowStridesAttr :: "int list option"
  baseDilationsAttr :: "int list option"
  windowDilationsAttr :: "int list option"
  windowReversalAttr :: "bool list option"
  paddingAttr :: "DenseInts option"

text \<open>
  The operations by component, each with the values it reads, its attributes and its regions. The limits of a slice and the upper paddings
  are attributes that only the verifier reads.
\<close>

datatype ElementwiseOp =
    Unary UnaryName SsaValue
  | Binary BinaryName SsaValue SsaValue
  | ClampOp SsaValue SsaValue SsaValue
  | CompareOp SsaValue SsaValue ComparisonDirection
  | ReducePrecisionOp SsaValue int int
  | SelectOp SsaValue SsaValue SsaValue

datatype StructuralOp =
    BroadcastInDimOp SsaValue Axes
  | ConcatenateOp "SsaValue list" int
  | DynamicBroadcastInDimOp SsaValue Axes
  | DynamicGatherOp SsaValue SsaValue SsaValue GatherDims bool
  | DynamicIotaOp int
  | DynamicPadOp SsaValue SsaValue SsaValue SsaValue SsaValue
  | DynamicSliceOp SsaValue "SsaValue list" "int list"
  | DynamicUpdateSliceOp SsaValue SsaValue "SsaValue list"
  | GatherOp SsaValue SsaValue GatherDims "int list" bool
  | GetDimensionSizeOp SsaValue int
  | IotaOp int
  | PadOp SsaValue SsaValue "int list" "int list" "int list"
  | ReverseOp SsaValue Axes
  | SliceOp SsaValue "int list" "int list" "int list"
  | TransposeOp SsaValue Axes

datatype LinearOp =
    ConvolutionOp SsaValue SsaValue WindowAttrs ConvDimensionNumbers int int
  | DotGeneralOp SsaValue SsaValue Axes Axes Axes Axes
  | DynamicConvOp SsaValue SsaValue SsaValue WindowAttrs ConvDimensionNumbers int int
  | FftOp SsaValue FftType "int list"
  | TriangularSolveOp SsaValue SsaValue bool bool bool Transpose

datatype 'a ValueOp =
    AfterAllOp "SsaValue list"
  | ConstantOp 'a
  | GetTupleElementOp SsaValue int
  | OptimizationBarrierOp "SsaValue list"
  | TupleOp "SsaValue list"
  | Decomposable DecomposableName

datatype 'r RegionOp =
    CallOp "SsaValue list" string
  | CaseOp SsaValue "'r list"
  | CompositeOp "SsaValue list" string
  | IfOp SsaValue 'r 'r
  | MapOp "SsaValue list" 'r
  | ReduceOp "SsaValue list" "SsaValue list" Axes 'r
  | ReduceWindowOp "SsaValue list" "SsaValue list" WindowAttrs 'r
  | ScatterOp "SsaValue list" SsaValue "SsaValue list" ScatterDims 'r
  | SelectAndScatterOp SsaValue SsaValue SsaValue WindowAttrs 'r 'r
  | SortOp "SsaValue list" int bool 'r
  | WhileOp "SsaValue list" 'r 'r

datatype 'r ParallelOp =
    AllGatherOp "SsaValue list" int CollectiveAttrs
  | AllReduceOp "SsaValue list" CollectiveAttrs 'r
  | AllToAllOp "SsaValue list" int int int CollectiveAttrs
  | CollectiveBroadcastOp "SsaValue list" CollectiveAttrs bool
  | CollectiveReduceOp "SsaValue list" CollectiveAttrs bool 'r
  | CollectivePermuteOp SsaValue "int list" "int option"
  | InfeedOp SsaValue
  | OutfeedOp "SsaValue list" SsaValue
  | PartitionIdOp
  | RecvOp SsaValue "int option"
  | ReduceScatterOp SsaValue int CollectiveAttrs 'r
  | ReplicaIdOp
  | SendOp "SsaValue list" SsaValue "int option"

text \<open>
  A block is a list of operations, each with the values of its results. Attributes that hold constants are MLIR's: the type \<open>'a\<close>. An
  operation of another dialect is known by a number.
\<close>

datatype 'a Op =
    Elementwise "SsaValue list" ElementwiseOp
  | Structural "SsaValue list" StructuralOp
  | Linear "SsaValue list" LinearOp
  | Valued "SsaValue list" "'a ValueOp"
  | Regional "SsaValue list" "'a OpRegion RegionOp"
  | Parallel "SsaValue list" "'a OpRegion ParallelOp"
  | Return "SsaValue list"
  | OtherOp nat "SsaValue list"
and 'a OpRegion = OpRegion (region_arguments: "SsaValue list") (region_body: "'a Op list")

section \<open>What the interpreter is given\<close>

text \<open>
  Besides the number system: \<^verbatim>\<open>makeTensor\<close> on MLIR's attributes, the symbol tables of the module, the process with its operations on the
  grid, the unstable sort of the standard library, the fallback for other dialects, and a bound on the iterations of a loop.
\<close>

record ('f, 'd, 'a) interpreter =
  number_system :: "('f, 'd) float_api"
  m_pi :: 'd
  dense_splat :: "ShapedType \<Rightarrow> 'd \<Rightarrow> Tensor result"
  makeTensor :: "'a \<Rightarrow> Tensor result"
  fpMantissaWidth :: "FloatFormat \<Rightarrow> int"
  std_sort :: "(int \<Rightarrow> int \<Rightarrow> bool) \<Rightarrow> int list \<Rightarrow> int list"
  lookup_function :: "string \<Rightarrow> 'a OpRegion option"
  lookup_mesh :: "string \<Rightarrow> Mesh option option"
  the_grid_process :: "Process option"
  process_infeed :: "string result"
  process_outfeed :: "Tensor list \<Rightarrow> unit result"
  process_recv :: "int \<Rightarrow> Tensor list result"
  process_send :: "Tensor list \<Rightarrow> int \<Rightarrow> unit result"
  fallback :: "nat \<Rightarrow> Scope \<Rightarrow> Scope result"
  loop_fuel :: nat

section \<open>Types and attributes\<close>

definition shaped_type :: "SsaValue \<Rightarrow> ShapedType result" where
  "shaped_type v = (case ssa_type v of TensorType t \<Rightarrow> Inr t | _ \<Rightarrow> Inl (UB ''cast to ShapedType''))"

definition result_type :: "SsaValue list \<Rightarrow> ShapedType result" where
  "result_type results = rbind (vec_nth results 0) shaped_type"

definition result_types :: "SsaValue list \<Rightarrow> ShapedType list result" where
  "result_types results = mapM shaped_type results"

text \<open>A vector of a given length; the length comes from a rank and may be negative, which no vector has.\<close>

definition filled :: "int \<Rightarrow> 'x \<Rightarrow> 'x list result" where
  "filled n x = (if n < 0 then Inl (UB ''vector of negative size'') else Inr (replicate (nat n) x))"

definition extractAttributeOrDefault :: "'x list option \<Rightarrow> int \<Rightarrow> 'x \<Rightarrow> 'x list result" where
  "extractAttributeOrDefault attr sz init = (case attr of Some xs \<Rightarrow> Inr xs | None \<Rightarrow> filled sz init)"

definition padding_of :: "DenseInts option \<Rightarrow> (int \<times> int) list option result" where
  "padding_of attr =
     (case attr of None \<Rightarrow> Inr None
      | Some _ \<Rightarrow> rbind (or_fatal ''Invalid padding format found.'' (convertPaddingAttribute attr)) (\<lambda>ps. Inr (Some ps)))"

text \<open>Entries written one by one over defaults.\<close>

definition overwrite :: "'x list \<Rightarrow> 'x list \<Rightarrow> 'x list result" where
  "overwrite xs defaults = (if length defaults < length xs then Inl (UB ''vector subscript out of range'')
     else Inr (xs @ drop (length xs) defaults))"

definition channel_id :: "int option \<Rightarrow> int" where
  "channel_id channel = (case channel of None \<Rightarrow> 0 | Some handle \<Rightarrow> handle)"

definition uint32 :: "int \<Rightarrow> nat" where
  "uint32 v = nat (v mod 2 ^ 32)"

text \<open>\<^verbatim>\<open>getReplicaGroups\<close>: the rows of a dense attribute without their paddings of -1, or the groups that a mesh and its axes give.\<close>

definition getReplicaGroups :: "('f, 'd, 'a) interpreter \<Rightarrow> ReplicaGroupsAttr \<Rightarrow> nat list list result" where
  "getReplicaGroups E attr =
     (case attr of
        DenseReplicaGroups rows cols ids \<Rightarrow>
          rbind (filled rows ()) (\<lambda>_.
            mapM (\<lambda>r. rbind (mapM (\<lambda>c. vec_nth ids (r * cols + c)) (upto_int cols)) (\<lambda>row.
              Inr (map uint32 (filter (\<lambda>replicaId. replicaId \<noteq> - 1) row)))) (upto_int rows))
      | MeshReplicaGroups mesh axes \<Rightarrow>
          rbind (case mesh of Inl m \<Rightarrow> Inr m
                 | Inr symbol \<Rightarrow> (case lookup_mesh E symbol of
                     None \<Rightarrow> Inl (Fatal ''Failed to find mesh symbol'')
                   | Some None \<Rightarrow> Inl (Fatal ''Failed to find mesh attribute on symbol'')
                   | Some (Some m) \<Rightarrow> Inr m)) (\<lambda>m.
          rbind (or_fatal ''Failed to flatten replica group mesh axes'' (flattenReplicaGroupMeshAxes m axes)) (\<lambda>groups.
            Inr (map (map uint32) groups)))
      | NoReplicaGroups \<Rightarrow> Inr [])"

text \<open>The pairs of \<open>collective_permute\<close>.\<close>

fun source_target_pairs :: "int list \<Rightarrow> nat list list" where
  "source_target_pairs (s # t # rest) = [uint32 s, uint32 t] # source_target_pairs rest"
| "source_target_pairs _ = []"

section \<open>Element-wise operations\<close>

fun unary_of :: "('f, 'd, 'a) interpreter \<Rightarrow> UnaryName \<Rightarrow> Tensor \<Rightarrow> ShapedType \<Rightarrow> Tensor result" where
  "unary_of E AbsOp = absOp (number_system E)"
| "unary_of E BitcastConvertOp = bitcastConvertOp (number_system E)"
| "unary_of E CbrtOp = cbrtOp (number_system E)"
| "unary_of E CeilOp = ceilOp (number_system E)"
| "unary_of E ClzOp = clzOp (number_system E)"
| "unary_of E ConvertOp = convertOp (number_system E)"
| "unary_of E CosineOp = cosineOp (number_system E)"
| "unary_of E DynamicReshapeOp = reshapeOp (number_system E)"
| "unary_of E ExpOp = exponentialOp (number_system E)"
| "unary_of E Expm1Op = expm1Op (number_system E)"
| "unary_of E FloorOp = floorOp (number_system E)"
| "unary_of E ImagOp = imagOp (number_system E)"
| "unary_of E IsFiniteOp = isFiniteOp (number_system E)"
| "unary_of E Log1pOp = log1pOp (number_system E)"
| "unary_of E LogOp = logOp (number_system E)"
| "unary_of E LogisticOp = logisticOp (number_system E)"
| "unary_of E NegOp = negOp (number_system E)"
| "unary_of E NotOp = notOp (number_system E)"
| "unary_of E PopulationCountOp = populationCountOp (number_system E)"
| "unary_of E RealOp = realOp (number_system E)"
| "unary_of E ReshapeOp = reshapeOp (number_system E)"
| "unary_of E RoundNearestEvenOp = roundNearestEvenOp (number_system E)"
| "unary_of E RoundOp = roundOp (number_system E)"
| "unary_of E RsqrtOp = rsqrtOp (number_system E)"
| "unary_of E SignOp = signOp (number_system E)"
| "unary_of E SineOp = sineOp (number_system E)"
| "unary_of E SqrtOp = sqrtOp (number_system E)"
| "unary_of E TanOp = tanOp (number_system E)"
| "unary_of E TanhOp = tanhOp (number_system E)"

fun binary_of :: "('f, 'd, 'a) interpreter \<Rightarrow> BinaryName \<Rightarrow> Tensor \<Rightarrow> Tensor \<Rightarrow> ShapedType \<Rightarrow> Tensor result" where
  "binary_of E AddOp = addOp (number_system E)"
| "binary_of E AndOp = andOp (number_system E)"
| "binary_of E Atan2Op = atan2Op (number_system E)"
| "binary_of E ComplexOp = complexOp (number_system E)"
| "binary_of E DivOp = divideOp (number_system E)"
| "binary_of E MaxOp = maxOp (number_system E)"
| "binary_of E MinOp = minOp (number_system E)"
| "binary_of E MulOp = multiplyOp (number_system E)"
| "binary_of E OrOp = orOp (number_system E)"
| "binary_of E PowOp = powerOp (number_system E)"
| "binary_of E RemOp = remOp (number_system E)"
| "binary_of E ShiftLeftOp = shiftLeftOp (number_system E)"
| "binary_of E ShiftRightArithmeticOp = shiftRightArithmeticOp (number_system E)"
| "binary_of E ShiftRightLogicalOp = shiftRightLogicalOp (number_system E)"
| "binary_of E SubtractOp = subtractOp (number_system E)"
| "binary_of E XorOp = xorOp (number_system E)"

text \<open>The values an operation computes, from the scope and the type of its result.\<close>

fun elementwise_value :: "('f, 'd, 'a) interpreter \<Rightarrow> Scope \<Rightarrow> ShapedType \<Rightarrow> ElementwiseOp \<Rightarrow> Tensor result" where
  "elementwise_value E scope ty (Unary name operand) = rbind (findTensor scope operand) (\<lambda>operand. unary_of E name operand ty)"
| "elementwise_value E scope ty (Binary name lhs rhs) =
     rbind (findTensor scope lhs) (\<lambda>lhs. rbind (findTensor scope rhs) (\<lambda>rhs. binary_of E name lhs rhs ty))"
| "elementwise_value E scope ty (ClampOp mn operand mx) =
     rbind (findTensor scope mn) (\<lambda>mn. rbind (findTensor scope operand) (\<lambda>operand. rbind (findTensor scope mx) (\<lambda>mx.
       clampOp (number_system E) mn operand mx ty)))"
| "elementwise_value E scope ty (CompareOp lhs rhs direction) =
     rbind (findTensor scope lhs) (\<lambda>lhs. rbind (findTensor scope rhs) (\<lambda>rhs. compareOp (number_system E) lhs rhs direction ty))"
| "elementwise_value E scope ty (ReducePrecisionOp operand exponentBits mantissaBits) =
     rbind (findTensor scope operand) (\<lambda>operand.
       reducePrecisionOp (number_system E) (fpMantissaWidth E) operand exponentBits mantissaBits ty)"
| "elementwise_value E scope ty (SelectOp pred onTrue onFalse) =
     rbind (findTensor scope pred) (\<lambda>pred. rbind (findTensor scope onTrue) (\<lambda>onTrue. rbind (findTensor scope onFalse) (\<lambda>onFalse.
       selectOp (number_system E) pred onTrue onFalse ty)))"

section \<open>Operations that move elements\<close>

definition gather_with :: "('f, 'd) float_api \<Rightarrow> Tensor \<Rightarrow> Tensor \<Rightarrow> GatherDims \<Rightarrow> Sizes \<Rightarrow> bool \<Rightarrow> ShapedType \<Rightarrow> Tensor result" where
  "gather_with F operand startIndices dims sliceSizes indicesAreSorted ty =
     gatherOp F operand startIndices (offsetDims dims) (collapsedSliceDims dims) (operandBatchingDims dims)
       (startIndicesBatchingDims dims) (startIndexMap dims) (gatherIndexVectorDim dims) sliceSizes indicesAreSorted ty"

fun structural_value :: "('f, 'd, 'a) interpreter \<Rightarrow> Scope \<Rightarrow> ShapedType \<Rightarrow> StructuralOp \<Rightarrow> Tensor result" where
  "structural_value E scope ty (BroadcastInDimOp operand dims) =
     rbind (findTensor scope operand) (\<lambda>operand. broadcastInDimOp (number_system E) operand dims ty)"
| "structural_value E scope ty (ConcatenateOp operands dimension) =
     rbind (findTensors scope operands) (\<lambda>operands. concatenateOp (number_system E) operands dimension ty)"
| "structural_value E scope ty (DynamicBroadcastInDimOp operand dims) =
     rbind (findTensor scope operand) (\<lambda>operand. broadcastInDimOp (number_system E) operand dims ty)"
| "structural_value E scope ty (DynamicGatherOp operand startIndices sliceSizes dims indicesAreSorted) =
     rbind (findTensor scope operand) (\<lambda>operand. rbind (findTensor scope startIndices) (\<lambda>startIndices.
     rbind (findTensor scope sliceSizes) (\<lambda>sliceSizes. rbind (makeSizes (number_system E) sliceSizes) (\<lambda>sliceSizes.
       gather_with (number_system E) operand startIndices dims sliceSizes indicesAreSorted ty))))"
| "structural_value E scope ty (DynamicIotaOp iotaDimension) = iotaOp (number_system E) iotaDimension ty"
| "structural_value E scope ty (DynamicPadOp operand paddingValue low high interior) =
     rbind (findTensor scope operand) (\<lambda>operand. rbind (findTensor scope paddingValue) (\<lambda>paddingValue.
     rbind (findTensor scope low) (\<lambda>low. rbind (findTensor scope high) (\<lambda>high. rbind (findTensor scope interior) (\<lambda>interior.
     rbind (makeSizes (number_system E) low) (\<lambda>low. rbind (makeSizes (number_system E) high) (\<lambda>high.
     rbind (makeSizes (number_system E) interior) (\<lambda>interior.
       padOp_high (number_system E) operand paddingValue low high interior))))))))"
| "structural_value E scope ty (DynamicSliceOp operand startIndices sliceSizes) =
     rbind (findTensor scope operand) (\<lambda>operand. rbind (findTensors scope startIndices) (\<lambda>startIndices.
       dynamicSliceOp (number_system E) operand startIndices sliceSizes ty))"
| "structural_value E scope ty (DynamicUpdateSliceOp operand update startIndices) =
     rbind (findTensor scope operand) (\<lambda>operand. rbind (findTensor scope update) (\<lambda>update.
     rbind (findTensors scope startIndices) (\<lambda>startIndices.
       dynamicUpdateSliceOp (number_system E) operand update startIndices ty)))"
| "structural_value E scope ty (GatherOp operand startIndices dims sliceSizes indicesAreSorted) =
     rbind (findTensor scope operand) (\<lambda>operand. rbind (findTensor scope startIndices) (\<lambda>startIndices.
       gather_with (number_system E) operand startIndices dims sliceSizes indicesAreSorted ty))"
| "structural_value E scope ty (GetDimensionSizeOp operand dimension) =
     rbind (findTensor scope operand) (\<lambda>operand. getDimensionSizeOp (number_system E) operand dimension ty)"
| "structural_value E scope ty (IotaOp iotaDimension) = iotaOp (number_system E) iotaDimension ty"
| "structural_value E scope ty (PadOp operand paddingValue low high interior) =
     rbind (findTensor scope operand) (\<lambda>operand. rbind (findTensor scope paddingValue) (\<lambda>paddingValue.
       padOp (number_system E) operand paddingValue low interior ty))"
| "structural_value E scope ty (ReverseOp operand dimensions) =
     rbind (findTensor scope operand) (\<lambda>operand. reverseOp (number_system E) operand dimensions ty)"
| "structural_value E scope ty (SliceOp operand startIndices limitIndices strides) =
     rbind (findTensor scope operand) (\<lambda>operand. sliceOp (number_system E) operand startIndices strides ty)"
| "structural_value E scope ty (TransposeOp operand permutation) =
     rbind (findTensor scope operand) (\<lambda>operand. transposeOp (number_system E) operand permutation ty)"

section \<open>Linear algebra\<close>

text \<open>The optional attributes of a convolution get their defaults from the rank of the left operand.\<close>

definition conv_attributes ::
  "int \<Rightarrow> WindowAttrs \<Rightarrow> (int \<times> int) list \<Rightarrow> ConvDimensionNumbers \<Rightarrow> ConvAttributes result" where
  "conv_attributes rank attrs padding dims =
     rbind (extractAttributeOrDefault (windowStridesAttr attrs) (rank - 2) 1) (\<lambda>strides.
     rbind (extractAttributeOrDefault (baseDilationsAttr attrs) (rank - 2) 1) (\<lambda>lhsDilation.
     rbind (extractAttributeOrDefault (windowDilationsAttr attrs) (rank - 2) 1) (\<lambda>rhsDilation.
     rbind (extractAttributeOrDefault (windowReversalAttr attrs) (rank - 2) False) (\<lambda>reversal.
       Inr \<lparr>windowStrides = strides, convPadding = padding, lhsDilation = lhsDilation, rhsDilation = rhsDilation,
            windowReversal = reversal, convDims = dims\<rparr>))))"

text \<open>The loop over the padding operand of \<open>dynamic_conv\<close>, which moves its iterator twice per round.\<close>

fun read_paddings :: "('f, 'd) float_api \<Rightarrow> Tensor \<Rightarrow> Index list \<Rightarrow> (int \<times> int) list result" where
  "read_paddings F t [] = Inr []"
| "read_paddings F t [i] = rbind (evalScalar F t i) (\<lambda>_. Inl (Fatal ''Dereferencing a past-the-end iterator.''))"
| "read_paddings F t (i # j # rest) =
     rbind (evalScalar F t i) (\<lambda>low. rbind (evalScalar F t j) (\<lambda>high.
     rbind (read_paddings F t rest) (\<lambda>ps. Inr ((low, high) # ps))))"

fun linear_value :: "('f, 'd, 'a) interpreter \<Rightarrow> Scope \<Rightarrow> ShapedType \<Rightarrow> LinearOp \<Rightarrow> Tensor result" where
  "linear_value E scope ty (ConvolutionOp lhs rhs attrs dims featureGroupCount batchGroupCount) =
     rbind (findTensor scope lhs) (\<lambda>lhs. rbind (findTensor scope rhs) (\<lambda>rhs.
     rbind (filled (getRank lhs - 2) (0, 0)) (\<lambda>noPadding.
     rbind (padding_of (paddingAttr attrs)) (\<lambda>padding.
     rbind (conv_attributes (getRank lhs) attrs (case padding of None \<Rightarrow> noPadding | Some ps \<Rightarrow> ps) dims) (\<lambda>conv.
       convolutionOp (number_system E) lhs rhs conv featureGroupCount batchGroupCount ty)))))"
| "linear_value E scope ty (DotGeneralOp lhs rhs lhsBatching rhsBatching lhsContracting rhsContracting) =
     rbind (findTensor scope lhs) (\<lambda>lhs. rbind (findTensor scope rhs) (\<lambda>rhs.
       dotGeneralOp (number_system E) lhs rhs lhsBatching rhsBatching lhsContracting rhsContracting ty))"
| "linear_value E scope ty (DynamicConvOp lhs rhs dPadding attrs dims featureGroupCount batchGroupCount) =
     rbind (findTensor scope lhs) (\<lambda>lhs. rbind (findTensor scope rhs) (\<lambda>rhs. rbind (findTensor scope dPadding) (\<lambda>dPadding.
     rbind (conv_attributes (getRank lhs) attrs [] dims) (\<lambda>conv.
     rbind (read_paddings (number_system E) dPadding (iter_indices (index_begin (t_shape dPadding)))) (\<lambda>padding.
       convolutionOp (number_system E) lhs rhs (conv\<lparr>convPadding := padding\<rparr>) featureGroupCount batchGroupCount ty)))))"
| "linear_value E scope ty (FftOp operand fftType fftLength) =
     rbind (findTensor scope operand) (\<lambda>operand.
       fftOp (number_system E) (m_pi E) (dense_splat E) operand fftType fftLength ty)"
| "linear_value E scope ty (TriangularSolveOp A b leftSide lower unitDiagonal transposeA) =
     rbind (findTensor scope A) (\<lambda>A. rbind (findTensor scope b) (\<lambda>b.
       triangularSolveOp (number_system E) A b leftSide lower unitDiagonal transposeA ty))"

section \<open>Values\<close>

definition failOnDecomposableOp :: "'x result" where
  "failOnDecomposableOp = Inl (Fatal ''Operation is unsupported at the moment'')"

fun valued :: "('f, 'd, 'a) interpreter \<Rightarrow> Scope \<Rightarrow> SsaValue list \<Rightarrow> 'a ValueOp \<Rightarrow> InterpreterValue list result" where
  "valued E scope results (AfterAllOp inputs) = rbind (findTokens scope inputs) (\<lambda>tokens. Inr [afterAllOp tokens])"
| "valued E scope results (ConstantOp attr) = rbind (makeTensor E attr) (\<lambda>t. Inr [TensorValue t])"
| "valued E scope results (GetTupleElementOp operand index) =
     rbind (findTuple scope operand) (\<lambda>tuple. rbind (getTupleElementOp tuple index) (\<lambda>v. Inr [v]))"
| "valued E scope results (OptimizationBarrierOp operand) =
     rbind (Scope_find_all scope operand) (\<lambda>vs. Inr (optimizationBarrierOp vs))"
| "valued E scope results (TupleOp val) =
     rbind (Scope_find_all scope val) (\<lambda>vs.
     rbind (vec_nth results 0) (\<lambda>result.
       case ssa_type result of TupleType ts \<Rightarrow> Inr [tupleOp vs ts] | _ \<Rightarrow> Inl (UB ''cast to TupleType'')))"
| "valued E scope results (Decomposable name) = failOnDecomposableOp"

section \<open>Operations with regions\<close>

text \<open>
  A region is evaluated by \<open>ev\<close>, in a scope below the given one, with the fallback or without: most operations evaluate their regions
  without it. The element types of a region's terminator are what the shape function of \<open>reduce\<close> reads from it.
\<close>

type_synonym 'r evaluator = "bool \<Rightarrow> 'r \<Rightarrow> Scope \<Rightarrow> body"

definition accumulator_types :: "'a OpRegion \<Rightarrow> Type list result" where
  "accumulator_types r =
     (if region_body r = [] then Inl (UB ''terminator of an empty block'')
      else case last (region_body r) of
        Return vs \<Rightarrow> rbind (result_types vs) (\<lambda>ts. Inr (map getElementType ts))
      | _ \<Rightarrow> Inl (UB ''no terminator''))"

definition callOp :: "('f, 'd, 'a) interpreter \<Rightarrow> 'a OpRegion evaluator \<Rightarrow> bool \<Rightarrow> Tensor list \<Rightarrow> string \<Rightarrow> InterpreterValue list result" where
  "callOp E ev fb inputs funcName =
     (case lookup_function E funcName of
        None \<Rightarrow> Inl (UB ''null function'')
      | Some func \<Rightarrow> ev fb func [] (map TensorValue inputs))"

definition tensors :: "Tensor list result \<Rightarrow> InterpreterValue list result" where
  "tensors r = rbind r (\<lambda>ts. Inr (map TensorValue ts))"

definition tensor_value :: "Tensor result \<Rightarrow> InterpreterValue list result" where
  "tensor_value r = rbind r (\<lambda>t. Inr [TensorValue t])"

fun regional ::
  "('f, 'd, 'a) interpreter \<Rightarrow> 'a OpRegion evaluator \<Rightarrow> bool \<Rightarrow> Scope \<Rightarrow> SsaValue list \<Rightarrow> 'a OpRegion RegionOp \<Rightarrow>
   InterpreterValue list result" where
  "regional E ev fb scope results (CallOp operands callee) =
     rbind (findTensors scope operands) (\<lambda>operands. callOp E ev fb operands callee)"
| "regional E ev fb scope results (CaseOp index branches) =
     rbind (findTensor scope index) (\<lambda>index. caseOp (number_system E) index (map (\<lambda>b. ev False b scope) branches))"
| "regional E ev fb scope results (CompositeOp operands decomposition) =
     rbind (findTensors scope operands) (\<lambda>operands. callOp E ev fb operands decomposition)"
| "regional E ev fb scope results (IfOp pred trueBranch falseBranch) =
     rbind (findTensor scope pred) (\<lambda>pred. ifOp (number_system E) pred (ev False trueBranch scope) (ev False falseBranch scope))"
| "regional E ev fb scope results (MapOp inputs computation) =
     rbind (findTensors scope inputs) (\<lambda>inputs. rbind (result_types (region_arguments computation)) (\<lambda>argumentTypes.
     rbind (result_type results) (\<lambda>ty.
       tensor_value (mapOp (number_system E) inputs argumentTypes (ev False computation scope) ty))))"
| "regional E ev fb scope results (ReduceOp inputs initValues dimensions body) =
     rbind (findTensors scope inputs) (\<lambda>inputs. rbind (findTensors scope initValues) (\<lambda>initValues.
     rbind (result_types results) (\<lambda>tys.
       tensors (reduceOp (number_system E) inputs initValues dimensions (ev False body scope) tys))))"
| "regional E ev fb scope results (ReduceWindowOp inputs initValues attrs body) =
     rbind (findTensors scope inputs) (\<lambda>inputs. rbind (findTensors scope initValues) (\<lambda>initValues.
     rbind (vec_nth inputs 0) (\<lambda>input0. let rank = getRank input0 in
     rbind (extractAttributeOrDefault (windowStridesAttr attrs) rank 1) (\<lambda>strides.
     rbind (extractAttributeOrDefault (baseDilationsAttr attrs) rank 1) (\<lambda>baseDilations.
     rbind (extractAttributeOrDefault (windowDilationsAttr attrs) rank 1) (\<lambda>windowDilations.
     rbind (padding_of (paddingAttr attrs)) (\<lambda>padding.
     let pairs = (case padding of None \<Rightarrow> [] | Some ps \<Rightarrow> ps) in
     rbind (overwrite (map fst pairs) (replicate (nat rank) 0)) (\<lambda>paddingLow.
     rbind (overwrite (map snd pairs) (replicate (nat rank) 0)) (\<lambda>paddingHigh.
     rbind (result_types results) (\<lambda>tys.
     rbind (accumulator_types body) (\<lambda>accumulatorTypes.
     rbind (case windowDimensionsAttr attrs of None \<Rightarrow> Inl (UB ''missing attribute'') | Some ds \<Rightarrow> Inr ds) (\<lambda>windowDimensions.
       tensors (reduceWindowOp (number_system E) inputs initValues windowDimensions strides baseDilations windowDilations
         paddingLow paddingHigh (ev False body scope) accumulatorTypes tys)))))))))))))"
| "regional E ev fb scope results (ScatterOp inputs scatterIndices updates dims updateComputation) =
     rbind (findTensors scope inputs) (\<lambda>inputs. rbind (findTensor scope scatterIndices) (\<lambda>scatterIndices.
     rbind (findTensors scope updates) (\<lambda>updates.
       tensors (scatterOp (number_system E) inputs scatterIndices updates (updateWindowDims dims) (insertedWindowDims dims)
         (inputBatchingDims dims) (scatterIndicesBatchingDims dims) (scatterDimsToOperandDims dims) (scatterIndexVectorDim dims)
         (ev False updateComputation scope)))))"
| "regional E ev fb scope results (SelectAndScatterOp operand source initValue attrs select scatter) =
     rbind (findTensor scope operand) (\<lambda>operand. rbind (findTensor scope source) (\<lambda>source.
     rbind (findTensor scope initValue) (\<lambda>initValue. let rank = getRank operand in
     rbind (extractAttributeOrDefault (windowDimensionsAttr attrs) rank 1) (\<lambda>windowDimensions.
     rbind (extractAttributeOrDefault (windowStridesAttr attrs) rank 1) (\<lambda>strides.
     rbind (padding_of (paddingAttr attrs)) (\<lambda>padding.
     rbind (overwrite (map fst (case padding of None \<Rightarrow> [] | Some ps \<Rightarrow> ps)) (replicate (nat rank) 0)) (\<lambda>paddingLow.
     rbind (accumulator_types scatter) (\<lambda>accumulatorTypes.
     rbind (result_type results) (\<lambda>ty.
       tensor_value (selectAndScatterOp (number_system E) operand source initValue windowDimensions strides paddingLow
         (ev False select scope) (ev False scatter scope) accumulatorTypes ty))))))))))"
| "regional E ev fb scope results (SortOp inputs dimension isStable comparator) =
     rbind (findTensors scope inputs) (\<lambda>inputs.
       tensors (sortOp (number_system E) (std_sort E) inputs dimension isStable (ev False comparator scope)))"
| "regional E ev fb scope results (WhileOp operand cond body) =
     rbind (Scope_find_all scope operand) (\<lambda>operand.
       whileOp (number_system E) (loop_fuel E) operand (ev fb cond scope) (ev fb body scope))"

section \<open>Operations of several processes\<close>

fun parallel ::
  "('f, 'd, 'a) interpreter \<Rightarrow> 'a OpRegion evaluator \<Rightarrow> Scope \<Rightarrow> SsaValue list \<Rightarrow> 'a OpRegion ParallelOp \<Rightarrow>
   InterpreterValue list result" where
  "parallel E ev scope results (AllGatherOp operands allGatherDim attrs) =
     rbind (findTensors scope operands) (\<lambda>operands. rbind (getReplicaGroups E (replicaGroups attrs)) (\<lambda>groups.
     rbind (result_types results) (\<lambda>tys.
       tensors (allGatherOp (number_system E) operands allGatherDim groups (channel_id (channelHandle attrs))
         (useGlobalDeviceIds attrs) (the_grid_process E) tys))))"
| "parallel E ev scope results (AllReduceOp operands attrs computation) =
     rbind (findTensors scope operands) (\<lambda>operands. rbind (getReplicaGroups E (replicaGroups attrs)) (\<lambda>groups.
     rbind (result_types results) (\<lambda>tys.
       tensors (allReduceOp (number_system E) operands groups (channel_id (channelHandle attrs)) (useGlobalDeviceIds attrs)
         (ev False computation scope) (the_grid_process E) tys))))"
| "parallel E ev scope results (AllToAllOp operands splitDimension concatDimension splitCount attrs) =
     rbind (findTensors scope operands) (\<lambda>operands. rbind (getReplicaGroups E (replicaGroups attrs)) (\<lambda>groups.
     rbind (result_types results) (\<lambda>tys.
       tensors (allToAllOp (number_system E) operands splitDimension concatDimension splitCount groups
         (channel_id (channelHandle attrs)) (the_grid_process E) tys))))"
| "parallel E ev scope results (CollectiveBroadcastOp operands attrs hasDynamicRoot) =
     rbind (findTensors scope operands) (\<lambda>operands. rbind (getReplicaGroups E (replicaGroups attrs)) (\<lambda>groups.
       tensors (collectiveBroadcastOp (number_system E) operands groups (channel_id (channelHandle attrs)) hasDynamicRoot
         (the_grid_process E))))"
| "parallel E ev scope results (CollectiveReduceOp operands attrs hasDynamicRoot computation) =
     rbind (findTensors scope operands) (\<lambda>operands. rbind (getReplicaGroups E (replicaGroups attrs)) (\<lambda>groups.
     rbind (result_types results) (\<lambda>tys.
       tensors (collectiveReduceOp (number_system E) operands groups (channel_id (channelHandle attrs)) (useGlobalDeviceIds attrs)
         hasDynamicRoot (ev False computation scope) (the_grid_process E) tys))))"
| "parallel E ev scope results (CollectivePermuteOp operand pairs channel) =
     rbind (findTensor scope operand) (\<lambda>operand.
       tensor_value (collectivePermuteOp (number_system E) operand (source_target_pairs pairs) (channel_id channel) (the_grid_process E)))"
| "parallel E ev scope results (InfeedOp token) =
     rbind (findToken scope token) (\<lambda>_.
     rbind (the_process ''infeed is only supported when run via interpreter.run_parallel'' (the_grid_process E)) (\<lambda>_.
     rbind (process_infeed E) (\<lambda>mnemonic.
       case lookup_function E mnemonic of
         None \<Rightarrow> Inl (UB ''null function'')
       | Some func \<Rightarrow> rbind (ev False func scope []) (\<lambda>vs. Inr (vs @ [TokenValue])))))"
| "parallel E ev scope results (OutfeedOp inputs token) =
     rbind (findTensors scope inputs) (\<lambda>inputs. rbind (findToken scope token) (\<lambda>_.
     rbind (the_process ''outfeed is only supported when run via interpreter.run_parallel'' (the_grid_process E)) (\<lambda>_.
     rbind (process_outfeed E inputs) (\<lambda>_. Inr [TokenValue]))))"
| "parallel E ev scope results PartitionIdOp = tensor_value (partitionIdOp (number_system E) (the_grid_process E))"
| "parallel E ev scope results (RecvOp token channel) =
     rbind (findToken scope token) (\<lambda>_.
     if the_grid_process E = None then Inl (UB ''null process'')
     else rbind (process_recv E (channel_id channel)) (\<lambda>ts. Inr (map TensorValue ts @ [TokenValue])))"
| "parallel E ev scope results (ReduceScatterOp operand scatterDimension attrs computation) =
     rbind (findTensor scope operand) (\<lambda>operand. rbind (getReplicaGroups E (replicaGroups attrs)) (\<lambda>groups.
     rbind (result_type results) (\<lambda>ty.
       tensor_value (reduceScatterOp (number_system E) operand scatterDimension groups (channel_id (channelHandle attrs))
         (useGlobalDeviceIds attrs) (ev False computation scope) (the_grid_process E) ty))))"
| "parallel E ev scope results ReplicaIdOp = tensor_value (replicaIdOp (number_system E) (the_grid_process E))"
| "parallel E ev scope results (SendOp inputs token channel) =
     rbind (findTensors scope inputs) (\<lambda>inputs. rbind (findToken scope token) (\<lambda>_.
     if the_grid_process E = None then Inl (UB ''null process'')
     else rbind (process_send E inputs (channel_id channel)) (\<lambda>_. Inr [TokenValue])))"

section \<open>Evaluation\<close>

text \<open>
  One branch of \<open>eval\<close>: compute the results and add them to the scope. A return ends the evaluation, and an operation of another dialect is
  left to the fallback.
\<close>

fun op_results :: "'a Op \<Rightarrow> SsaValue list" where
  "op_results (Elementwise results op) = results"
| "op_results (Structural results op) = results"
| "op_results (Linear results op) = results"
| "op_results (Valued results op) = results"
| "op_results (Regional results op) = results"
| "op_results (Parallel results op) = results"
| "op_results (Return operands) = []"
| "op_results (OtherOp n results) = results"

fun op_values :: "('f, 'd, 'a) interpreter \<Rightarrow> 'a OpRegion evaluator \<Rightarrow> bool \<Rightarrow> 'a Op \<Rightarrow> Scope \<Rightarrow> InterpreterValue list result" where
  "op_values E ev fb (Elementwise results op) scope =
     rbind (result_type results) (\<lambda>ty. tensor_value (elementwise_value E scope ty op))"
| "op_values E ev fb (Structural results op) scope =
     rbind (result_type results) (\<lambda>ty. tensor_value (structural_value E scope ty op))"
| "op_values E ev fb (Linear results op) scope = rbind (result_type results) (\<lambda>ty. tensor_value (linear_value E scope ty op))"
| "op_values E ev fb (Valued results op) scope = valued E scope results op"
| "op_values E ev fb (Regional results op) scope = regional E ev fb scope results op"
| "op_values E ev fb (Parallel results op) scope = parallel E ev scope results op"
| "op_values E ev fb (Return operands) scope = Scope_find_all scope operands"
| "op_values E ev fb (OtherOp n results) scope = Inl (Fatal ''Unsupported op'')"

definition operation :: "('f, 'd, 'a) interpreter \<Rightarrow> 'a OpRegion evaluator \<Rightarrow> bool \<Rightarrow> 'a Op \<Rightarrow> Operation" where
  "operation E ev fb op =
     (case op of
        Return operands \<Rightarrow> ReturnOp operands
      | OtherOp n results \<Rightarrow> Compute results (\<lambda>scope. if fb then fallback E n scope else Inl (Fatal ''Unsupported op''))
      | _ \<Rightarrow> Compute (op_results op) (\<lambda>scope. rbind (op_values E ev fb op scope) (\<lambda>vs. Scope_add_all (op_results op) vs scope)))"

fun evaluate :: "('f, 'd, 'a) interpreter \<Rightarrow> nat \<Rightarrow> 'a OpRegion evaluator" where
  "evaluate E 0 fb r parent args = Inl OutOfFuel"
| "evaluate E (Suc depth) fb r parent args =
     eval \<lparr>rg_arguments = region_arguments r, rg_operations = map (operation E (evaluate E depth) fb) (region_body r)\<rparr> args parent"

end
