(* ===== verification/Folder.thy ===== *)
theory Folder
  imports Dispatch
begin

text \<open>
  The patterns of \<^verbatim>\<open>stablehlo/transforms/optimization/StablehloAggressiveFolder.cpp\<close>, which replace operations on constants by
  constants: the checks of every pattern, the evaluation of its operation on attributes, and the loops written by hand for slices,
  transpositions, reversals and concatenations. The driver that applies patterns is MLIR's.
\<close>

section \<open>Constants\<close>

text \<open>
  A \<^verbatim>\<open>DenseElementsAttr\<close>: a type and the elements in row-major order. Attributes know no booleans, the elements of an \<open>i1\<close> attribute
  are integers of width one. An attribute is a splat when all of its elements are the same.
\<close>

record 'f Dense =
  d_type :: ShapedType
  d_values :: "'f Value list"

abbreviation d_elementType :: "'f Dense \<Rightarrow> Type" where
  "d_elementType d \<equiv> getElementType (d_type d)"

definition d_numElements :: "'f Dense \<Rightarrow> int" where
  "d_numElements d = int (length (d_values d))"

definition isSplat :: "'f Dense \<Rightarrow> bool" where
  "isSplat d = (case d_values d of [] \<Rightarrow> False | v # vs \<Rightarrow> list_all (\<lambda>w. w = v) vs)"

definition getSplatValue :: "'f Dense \<Rightarrow> 'f Value result" where
  "getSplatValue d = (if isSplat d then vec_nth (d_values d) 0 else Inl (UB ''not a splat''))"

definition splat :: "ShapedType \<Rightarrow> 'f Value \<Rightarrow> 'f Dense" where
  "splat ty v = \<lparr>d_type = ty, d_values = replicate (nat (getNumElements ty)) v\<rparr>"

definition resizeSplat :: "'f Dense \<Rightarrow> ShapedType \<Rightarrow> 'f Dense result" where
  "resizeSplat d ty = rbind (getSplatValue d) (\<lambda>v. Inr (splat ty v))"

text \<open>\<^verbatim>\<open>DenseElementsAttr::get\<close> with one element for each position.\<close>

definition Dense_get :: "ShapedType \<Rightarrow> 'f Value list \<Rightarrow> 'f Dense result" where
  "Dense_get ty vs = (if int (length vs) = getNumElements ty then Inr \<lparr>d_type = ty, d_values = vs\<rparr>
     else Inl (UB ''expected one value for each element''))"

text \<open>
  What \<^verbatim>\<open>m_Constant\<close> matches: the constants that define values, and of them the splats. A pattern that does not match fails; failing is no
  error of the pass.
\<close>

type_synonym 'f constants = "SsaValue \<Rightarrow> 'f Dense option"

definition no_match :: "'x result" where
  "no_match = Inl (Failure ''match failure'')"

definition constant_operand :: "'f constants \<Rightarrow> SsaValue \<Rightarrow> 'f Dense result" where
  "constant_operand const v = (case const v of None \<Rightarrow> no_match | Some d \<Rightarrow> Inr d)"

definition splat_operand :: "'f constants \<Rightarrow> SsaValue \<Rightarrow> 'f Dense result" where
  "splat_operand const v = rbind (constant_operand const v) (\<lambda>d. if isSplat d then Inr d else no_match)"

section \<open>What MLIR provides\<close>

text \<open>
  The folding functions of \<^verbatim>\<open>CommonFolders.h\<close> and the index arithmetic of \<^verbatim>\<open>IndexingUtils.h\<close> are parameters, as are the statuses of the
  conversions of \<^verbatim>\<open>APFloat\<close> and comparisons of doubles.
\<close>

record ('f, 'd) mlir_api =
  constFoldUnaryOp :: "'f Dense \<Rightarrow> ('f Value \<Rightarrow> 'f Value result) \<Rightarrow> 'f Dense result"
  constFoldBinaryOp :: "'f Dense \<Rightarrow> 'f Dense \<Rightarrow> ShapedType \<Rightarrow> ('f Value \<Rightarrow> 'f Value \<Rightarrow> 'f Value result) \<Rightarrow> 'f Dense result"
  constFoldCastOp :: "'f Dense \<Rightarrow> ShapedType \<Rightarrow> ('f Value \<Rightarrow> 'f Value result) \<Rightarrow> 'f Dense result"
  computeStrides :: "Sizes \<Rightarrow> int list"
  linearize :: "int list \<Rightarrow> int list \<Rightarrow> int"
  delinearize :: "int \<Rightarrow> int list \<Rightarrow> int list"
  applyPermutation :: "int list \<Rightarrow> int list \<Rightarrow> int list"
  invertPermutationVector :: "int list \<Rightarrow> int list"
  fl_isInfinity :: "'f \<Rightarrow> bool"
  fl_getOne :: "FloatFormat \<Rightarrow> bool \<Rightarrow> 'f"
  convert_invalid :: "FloatFormat \<Rightarrow> 'f \<Rightarrow> bool"
  convertToInteger_invalid :: "nat \<Rightarrow> bool \<Rightarrow> 'f \<Rightarrow> bool"
  d_lt :: "'d \<Rightarrow> 'd \<Rightarrow> bool"

text \<open>Both APIs, and the options of the pass.\<close>

record FolderOptions =
  assumeNoUndeclaredSideEffects :: bool
  foldOpElementLimit :: int
  optimizeFloat :: bool

section \<open>Checks\<close>

fun isIntegerType :: "Type \<Rightarrow> bool" where
  "isIntegerType (IntegerType s w) = True"
| "isIntegerType _ = False"

fun isUnsignedIntegerType :: "Type \<Rightarrow> bool" where
  "isUnsignedIntegerType (IntegerType s w) = (s = Unsigned)"
| "isUnsignedIntegerType _ = False"

fun isFloatType :: "Type \<Rightarrow> bool" where
  "isFloatType (FloatType f) = True"
| "isFloatType _ = False"

fun isComplexType :: "Type \<Rightarrow> bool" where
  "isComplexType (ComplexType t) = True"
| "isComplexType _ = False"

text \<open>\<^verbatim>\<open>isInteger(1)\<close>, whatever the signedness.\<close>

fun isInteger1 :: "Type \<Rightarrow> bool" where
  "isInteger1 (IntegerType s w) = (w = 1)"
| "isInteger1 _ = False"

definition check :: "bool \<Rightarrow> 'x result \<Rightarrow> 'x result" where
  "check b r = (if b then r else no_match)"

definition validateStaticShapeResult :: "ShapedType \<Rightarrow> bool" where
  "validateStaticShapeResult ty = hasStaticShape ty"

definition validateElementCountForFold :: "FolderOptions \<Rightarrow> ShapedType \<Rightarrow> bool" where
  "validateElementCountForFold opts ty = (getNumElements ty \<le> foldOpElementLimit opts mod 2 ^ 64)"

definition validateShapeFoldDtype :: "FolderOptions \<Rightarrow> ShapedType \<Rightarrow> bool \<Rightarrow> bool" where
  "validateShapeFoldDtype opts ty allowComplex =
     (isIntegerType (getElementType ty) \<or>
      optimizeFloat opts \<and> (isFloatType (getElementType ty) \<or> allowComplex \<and> isComplexType (getElementType ty)))"

section \<open>Folding unary operations\<close>

text \<open>
  The overloads of \<^verbatim>\<open>EvaluateOp\<close> that a pattern has. \<^verbatim>\<open>FoldDispatch\<close> takes the most specific one for an element. The overloads on doubles
  belong to operations that the dialect does not have on integers.
\<close>

record ('f, 'd) EvaluateOp =
  on_APInt :: "(apint \<Rightarrow> apint result) option"
  on_APSInt :: "(bool \<Rightarrow> apint \<Rightarrow> apint result) option"
  on_APFloat :: "('f \<Rightarrow> 'f result) option"
  on_double :: "('d \<Rightarrow> 'd result) option"

definition no_overloads :: "('f, 'd) EvaluateOp" where
  "no_overloads = \<lparr>on_APInt = None, on_APSInt = None, on_APFloat = None, on_double = None\<rparr>"

definition FoldAsDouble :: "('f, 'd) float_api \<Rightarrow> ('d \<Rightarrow> 'd result) \<Rightarrow> 'f \<Rightarrow> 'f result" where
  "FoldAsDouble F fn operand =
     rbind (fn (convertToDouble F (fl_convert F Float64 operand))) (\<lambda>r.
       Inr (fl_convert F (getSemantics F operand) (APFloat_double F r)))"

fun FoldDispatch :: "('f, 'd) float_api \<Rightarrow> ('f, 'd) EvaluateOp \<Rightarrow> bool \<Rightarrow> 'f Value \<Rightarrow> 'f Value result" where
  "FoldDispatch F impl isSignedInt (VInt operand) =
     (case on_APInt impl of
        Some fn \<Rightarrow> rbind (fn operand) (\<lambda>r. Inr (VInt r))
      | None \<Rightarrow> (case on_APSInt impl of
          Some fn \<Rightarrow> rbind (fn (\<not> isSignedInt) operand) (\<lambda>r. Inr (VInt r))
        | None \<Rightarrow> no_match))"
| "FoldDispatch F impl isSignedInt (VFloat operand) =
     (case on_APFloat impl of
        Some fn \<Rightarrow> rbind (fn operand) (\<lambda>r. Inr (VFloat r))
      | None \<Rightarrow> (case on_double impl of
          Some fn \<Rightarrow> rbind (FoldAsDouble F fn operand) (\<lambda>r. Inr (VFloat r))
        | None \<Rightarrow> no_match))"
| "FoldDispatch F impl isSignedInt _ = no_match"

definition foldUnaryOpIntOrFloat ::
  "('f, 'd) mlir_api \<Rightarrow> 'f constants \<Rightarrow> SsaValue \<Rightarrow> ('f Value \<Rightarrow> 'f Value result) \<Rightarrow> 'f Dense result" where
  "foldUnaryOpIntOrFloat M const operand folder =
     rbind (constant_operand const operand) (\<lambda>attr.
       if isIntegerType (d_elementType attr) \<or> isFloatType (d_elementType attr) then constFoldUnaryOp M attr folder else no_match)"

definition FoldUnaryOpPattern ::
  "('f, 'd) float_api \<Rightarrow> ('f, 'd) mlir_api \<Rightarrow> ('f, 'd) EvaluateOp \<Rightarrow> 'f constants \<Rightarrow> ShapedType \<Rightarrow> SsaValue \<Rightarrow> 'f Dense result" where
  "FoldUnaryOpPattern F M impl const ty operand =
     (let elementType = getElementType ty in
      if isUnsignedIntegerType elementType then foldUnaryOpIntOrFloat M const operand (FoldDispatch F impl False)
      else if isIntegerType elementType then foldUnaryOpIntOrFloat M const operand (FoldDispatch F impl True)
      else if isFloatType elementType then foldUnaryOpIntOrFloat M const operand (FoldDispatch F impl False)
      else no_match)"

text \<open>The \<^verbatim>\<open>EvaluateOp\<close>s of the patterns.\<close>

definition FoldAbsOpPattern :: "('f, 'd) float_api \<Rightarrow> ('f, 'd) EvaluateOp" where
  "FoldAbsOpPattern F = no_overloads\<lparr>on_APInt := Some (\<lambda>v. Inr (ap_abs v)), on_APFloat := Some (\<lambda>v. Inr (fl_abs F v))\<rparr>"

definition FoldNegOpPattern :: "('f, 'd) float_api \<Rightarrow> ('f, 'd) EvaluateOp" where
  "FoldNegOpPattern F = no_overloads\<lparr>on_APInt := Some (\<lambda>v. Inr (ap_neg v)), on_APFloat := Some (\<lambda>v. Inr (fl_neg F v))\<rparr>"

definition FoldNotOpPattern :: "('f, 'd) EvaluateOp" where
  "FoldNotOpPattern = no_overloads\<lparr>on_APInt := Some (\<lambda>v. Inr (ap_not v))\<rparr>"

definition FoldRoundOpPattern :: "('f, 'd) float_api \<Rightarrow> ('f, 'd) EvaluateOp" where
  "FoldRoundOpPattern F = no_overloads\<lparr>on_APFloat := Some (\<lambda>v. Inr (roundToIntegral F NearestTiesToAway v))\<rparr>"

definition FoldRoundNearestEvenOpPattern :: "('f, 'd) float_api \<Rightarrow> ('f, 'd) EvaluateOp" where
  "FoldRoundNearestEvenOpPattern F = no_overloads\<lparr>on_APFloat := Some (\<lambda>v. Inr (roundToIntegral F NearestTiesToEven v))\<rparr>"

definition getAPSInt :: "nat \<Rightarrow> int \<Rightarrow> apint" where
  "getAPSInt bitWidth v = mkAPInt bitWidth (v mod 2 ^ 64)"

definition FoldSignOpPattern :: "('f, 'd) float_api \<Rightarrow> ('f, 'd) mlir_api \<Rightarrow> ('f, 'd) EvaluateOp" where
  "FoldSignOpPattern F M = no_overloads\<lparr>
     on_APFloat := Some (\<lambda>v.
       if fl_isNaN F v then no_match
       else if fl_isZero F v then Inr (getZero F (getSemantics F v))
       else Inr (fl_getOne M (getSemantics F v) (fl_isNegative F v))),
     on_APSInt := Some (\<lambda>isUnsigned v.
       if isUnsigned then no_match
       else Inr (getAPSInt (getBitWidth v) (if isNegative v then - 1 else if isZero v then 0 else 1)))\<rparr>"

definition fold_double :: "('d \<Rightarrow> 'd result) \<Rightarrow> ('f, 'd) EvaluateOp" where
  "fold_double f = no_overloads\<lparr>on_double := Some f\<rparr>"

definition FoldCosineOpPattern :: "('f, 'd) float_api \<Rightarrow> ('f, 'd) EvaluateOp" where
  "FoldCosineOpPattern F = fold_double (\<lambda>x. Inr (std_fn F Std_cos x))"

definition FoldExpOpPattern :: "('f, 'd) float_api \<Rightarrow> ('f, 'd) EvaluateOp" where
  "FoldExpOpPattern F = fold_double (\<lambda>x. Inr (std_fn F Std_exp x))"

definition FoldLogOpPattern :: "('f, 'd) float_api \<Rightarrow> ('f, 'd) EvaluateOp" where
  "FoldLogOpPattern F = fold_double (\<lambda>x. if d_le F x (d_lit F 0) then no_match else Inr (std_fn F Std_log x))"

definition FoldLogisticOpPattern :: "('f, 'd) float_api \<Rightarrow> ('f, 'd) EvaluateOp" where
  "FoldLogisticOpPattern F = fold_double (\<lambda>x. Inr (d_div F (d_lit F 1) (d_add F (d_lit F 1) (std_fn F Std_exp (d_neg F x)))))"

definition FoldRsqrtOpPattern :: "('f, 'd) float_api \<Rightarrow> ('f, 'd) EvaluateOp" where
  "FoldRsqrtOpPattern F =
     fold_double (\<lambda>x. if d_le F x (d_lit F 0) then no_match else Inr (d_div F (d_lit F 1) (std_fn F Std_sqrt x)))"

definition FoldSineOpPattern :: "('f, 'd) float_api \<Rightarrow> ('f, 'd) EvaluateOp" where
  "FoldSineOpPattern F = fold_double (\<lambda>x. Inr (std_fn F Std_sin x))"

definition FoldSqrtOpPattern :: "('f, 'd) float_api \<Rightarrow> ('f, 'd) mlir_api \<Rightarrow> ('f, 'd) EvaluateOp" where
  "FoldSqrtOpPattern F M = fold_double (\<lambda>x. if d_lt M x (d_lit F 0) then no_match else Inr (std_fn F Std_sqrt x))"

definition FoldTanOpPattern :: "('f, 'd) float_api \<Rightarrow> ('f, 'd) EvaluateOp" where
  "FoldTanOpPattern F = fold_double (\<lambda>x. Inr (std_fn F Std_tan x))"

definition FoldTanhOpPattern :: "('f, 'd) float_api \<Rightarrow> ('f, 'd) EvaluateOp" where
  "FoldTanhOpPattern F = fold_double (\<lambda>x. Inr (std_fn F Std_tanh x))"

section \<open>Conversions and reshapes\<close>

text \<open>The calculation of \<^verbatim>\<open>foldConvert\<close> for one element.\<close>

definition foldConvert :: "('f, 'd) float_api \<Rightarrow> ('f, 'd) mlir_api \<Rightarrow> Type \<Rightarrow> Type \<Rightarrow> nat \<Rightarrow> 'f Value \<Rightarrow> 'f Value result" where
  "foldConvert F M oldType newType newBitWidth v =
     (let isOldTypeUnsigned = isSignlessInteger oldType 1 \<or> isUnsignedIntegerType oldType;
          isNewTypeUnsigned = isSignlessInteger newType 1 \<or> isUnsignedIntegerType newType;
          isNewTypeBoolean = isSignlessInteger newType 1 in
      case v of
        VFloat operand \<Rightarrow>
          (case newType of
             FloatType f \<Rightarrow> if convert_invalid M f operand then no_match else Inr (VFloat (fl_convert F f operand))
           | _ \<Rightarrow>
             if isNewTypeBoolean then Inr (VInt (mkAPInt newBitWidth (if fl_isZero F operand then 0 else 1)))
             else if fl_isInfinity M operand \<or> fl_isZero F operand \<and> fl_isNegative F operand then no_match
             else if convertToInteger_invalid M newBitWidth isNewTypeUnsigned operand then no_match
             else Inr (VInt (convertToInteger F newBitWidth isNewTypeUnsigned operand)))
      | VInt operand \<Rightarrow>
          (case newType of
             FloatType f \<Rightarrow> Inr (VFloat (convertFromAPInt F f operand (\<not> isOldTypeUnsigned)))
           | _ \<Rightarrow>
             if isNewTypeBoolean then Inr (VInt (mkAPInt newBitWidth (if isZero operand then 0 else 1)))
             else Inr (VInt (mkAPInt newBitWidth (if isOldTypeUnsigned then uval operand else sval operand))))
      | _ \<Rightarrow> no_match)"

definition FoldConvertOpPattern ::
  "('f, 'd) float_api \<Rightarrow> ('f, 'd) mlir_api \<Rightarrow> FolderOptions \<Rightarrow> 'f constants \<Rightarrow> ShapedType \<Rightarrow> SsaValue \<Rightarrow> 'f Dense result" where
  "FoldConvertOpPattern F M opts const ty operand =
     check (validateStaticShapeResult ty \<and> validateShapeFoldDtype opts ty False \<and> validateElementCountForFold opts ty)
       (rbind (shaped_type operand) (\<lambda>operandType.
        check (optimizeFloat opts \<or> \<not> (isFloatType (getElementType operandType) \<or> isFloatType (getElementType ty)))
       (rbind (constant_operand const operand) (\<lambda>elements.
        rbind (getIntOrFloatBitWidth (getElementType ty)) (\<lambda>newBitWidth.
          constFoldCastOp M elements ty (foldConvert F M (d_elementType elements) (getElementType ty) newBitWidth))))))"

definition FoldReshapeOpPattern :: "FolderOptions \<Rightarrow> 'f constants \<Rightarrow> ShapedType \<Rightarrow> SsaValue \<Rightarrow> 'f Dense result" where
  "FoldReshapeOpPattern opts const ty operand =
     check (validateStaticShapeResult ty \<and> validateShapeFoldDtype opts ty True)
       (rbind (constant_operand const operand) (\<lambda>attr. Inr (attr\<lparr>d_type := ty\<rparr>)))"

text \<open>The unary operations that have patterns; of the others nothing is folded.\<close>

fun fold_unary ::
  "('f, 'd) float_api \<Rightarrow> ('f, 'd) mlir_api \<Rightarrow> FolderOptions \<Rightarrow> 'f constants \<Rightarrow> ShapedType \<Rightarrow> UnaryName \<Rightarrow> SsaValue \<Rightarrow> 'f Dense result" where
  "fold_unary F M opts const ty AbsOp a = FoldUnaryOpPattern F M (FoldAbsOpPattern F) const ty a"
| "fold_unary F M opts const ty ConvertOp a = FoldConvertOpPattern F M opts const ty a"
| "fold_unary F M opts const ty CosineOp a = FoldUnaryOpPattern F M (FoldCosineOpPattern F) const ty a"
| "fold_unary F M opts const ty ExpOp a = FoldUnaryOpPattern F M (FoldExpOpPattern F) const ty a"
| "fold_unary F M opts const ty LogOp a = FoldUnaryOpPattern F M (FoldLogOpPattern F) const ty a"
| "fold_unary F M opts const ty LogisticOp a = FoldUnaryOpPattern F M (FoldLogisticOpPattern F) const ty a"
| "fold_unary F M opts const ty NegOp a = FoldUnaryOpPattern F M (FoldNegOpPattern F) const ty a"
| "fold_unary F M opts const ty NotOp a = FoldUnaryOpPattern F M FoldNotOpPattern const ty a"
| "fold_unary F M opts const ty ReshapeOp a = FoldReshapeOpPattern opts const ty a"
| "fold_unary F M opts const ty RoundOp a = FoldUnaryOpPattern F M (FoldRoundOpPattern F) const ty a"
| "fold_unary F M opts const ty RoundNearestEvenOp a = FoldUnaryOpPattern F M (FoldRoundNearestEvenOpPattern F) const ty a"
| "fold_unary F M opts const ty RsqrtOp a = FoldUnaryOpPattern F M (FoldRsqrtOpPattern F) const ty a"
| "fold_unary F M opts const ty SignOp a = FoldUnaryOpPattern F M (FoldSignOpPattern F M) const ty a"
| "fold_unary F M opts const ty SineOp a = FoldUnaryOpPattern F M (FoldSineOpPattern F) const ty a"
| "fold_unary F M opts const ty SqrtOp a = FoldUnaryOpPattern F M (FoldSqrtOpPattern F M) const ty a"
| "fold_unary F M opts const ty TanOp a = FoldUnaryOpPattern F M (FoldTanOpPattern F) const ty a"
| "fold_unary F M opts const ty TanhOp a = FoldUnaryOpPattern F M (FoldTanhOpPattern F) const ty a"
| "fold_unary F M opts const ty _ a = no_match"

section \<open>Folding binary operations\<close>

text \<open>A folder of integers and floats, at the elements of two attributes.\<close>

fun int_or_float :: "(apint \<Rightarrow> apint \<Rightarrow> apint result) \<Rightarrow> ('f \<Rightarrow> 'f \<Rightarrow> 'f result) \<Rightarrow> 'f Value \<Rightarrow> 'f Value \<Rightarrow> 'f Value result" where
  "int_or_float onInt onFloat (VInt l) (VInt r) = rbind (onInt l r) (\<lambda>v. Inr (VInt v))"
| "int_or_float onInt onFloat (VFloat l) (VFloat r) = rbind (onFloat l r) (\<lambda>v. Inr (VFloat v))"
| "int_or_float onInt onFloat _ _ = no_match"

definition fold_binary_attrs ::
  "('f, 'd) mlir_api \<Rightarrow> ShapedType \<Rightarrow> 'f Dense \<Rightarrow> 'f Dense \<Rightarrow> ('f Value \<Rightarrow> 'f Value \<Rightarrow> 'f Value result) \<Rightarrow> 'f Dense result" where
  "fold_binary_attrs M ty lhs rhs folder =
     (if isIntegerType (d_elementType lhs) \<or> isFloatType (d_elementType lhs) then constFoldBinaryOp M lhs rhs ty folder else no_match)"

definition foldBinaryOpIntOrFloat ::
  "('f, 'd) mlir_api \<Rightarrow> 'f constants \<Rightarrow> ShapedType \<Rightarrow> SsaValue \<Rightarrow> SsaValue \<Rightarrow> ('f Value \<Rightarrow> 'f Value \<Rightarrow> 'f Value result) \<Rightarrow>
   'f Dense result" where
  "foldBinaryOpIntOrFloat M const ty lhs rhs folder =
     rbind (constant_operand const lhs) (\<lambda>lhsAttr.
     rbind (constant_operand const rhs) (\<lambda>rhsAttr. fold_binary_attrs M ty lhsAttr rhsAttr folder))"

definition FoldAddOpPattern ::
  "('f, 'd) float_api \<Rightarrow> ('f, 'd) mlir_api \<Rightarrow> FolderOptions \<Rightarrow> 'f constants \<Rightarrow> ShapedType \<Rightarrow> SsaValue \<Rightarrow> SsaValue \<Rightarrow> 'f Dense result" where
  "FoldAddOpPattern F M opts const ty lhs rhs =
     check (validateShapeFoldDtype opts ty False)
       (foldBinaryOpIntOrFloat M const ty lhs rhs (int_or_float (\<lambda>l r. Inr (ap_add l r)) (\<lambda>l r. Inr (fl_add F l r))))"

definition FoldSubtractOpPattern ::
  "('f, 'd) float_api \<Rightarrow> ('f, 'd) mlir_api \<Rightarrow> FolderOptions \<Rightarrow> 'f constants \<Rightarrow> ShapedType \<Rightarrow> SsaValue \<Rightarrow> SsaValue \<Rightarrow> 'f Dense result" where
  "FoldSubtractOpPattern F M opts const ty lhs rhs =
     check (validateShapeFoldDtype opts ty False)
       (foldBinaryOpIntOrFloat M const ty lhs rhs (int_or_float (\<lambda>l r. Inr (ap_sub l r)) (\<lambda>l r. Inr (fl_sub F l r))))"

definition FoldMulOpPattern ::
  "('f, 'd) float_api \<Rightarrow> ('f, 'd) mlir_api \<Rightarrow> FolderOptions \<Rightarrow> 'f constants \<Rightarrow> ShapedType \<Rightarrow> SsaValue \<Rightarrow> SsaValue \<Rightarrow> 'f Dense result" where
  "FoldMulOpPattern F M opts const ty lhs rhs =
     check (validateShapeFoldDtype opts ty False)
       (foldBinaryOpIntOrFloat M const ty lhs rhs (int_or_float (\<lambda>l r. Inr (ap_mul l r)) (\<lambda>l r. Inr (fl_mul F l r))))"

text \<open>The logical operations, on booleans and on other integers.\<close>

definition fold_logical ::
  "('f, 'd) mlir_api \<Rightarrow> 'f constants \<Rightarrow> ShapedType \<Rightarrow> SsaValue \<Rightarrow> SsaValue \<Rightarrow> (bool \<Rightarrow> bool \<Rightarrow> bool) \<Rightarrow> (apint \<Rightarrow> apint \<Rightarrow> apint) \<Rightarrow>
   'f Dense result" where
  "fold_logical M const ty lhs rhs logical bitwise =
     (if isInteger1 (getElementType ty) then
        foldBinaryOpIntOrFloat M const ty lhs rhs
          (int_or_float (\<lambda>l r. Inr (mkAPInt (getBitWidth l) (if logical (\<not> isZero l) (\<not> isZero r) then 1 else 0))) (\<lambda>l r. no_match))
      else if isIntegerType (getElementType ty) then
        foldBinaryOpIntOrFloat M const ty lhs rhs (int_or_float (\<lambda>l r. Inr (bitwise l r)) (\<lambda>l r. no_match))
      else no_match)"

definition FoldAndOpPattern :: "('f, 'd) mlir_api \<Rightarrow> 'f constants \<Rightarrow> ShapedType \<Rightarrow> SsaValue \<Rightarrow> SsaValue \<Rightarrow> 'f Dense result" where
  "FoldAndOpPattern M const ty lhs rhs = fold_logical M const ty lhs rhs (\<and>) ap_and"

definition FoldOrOpPattern :: "('f, 'd) mlir_api \<Rightarrow> 'f constants \<Rightarrow> ShapedType \<Rightarrow> SsaValue \<Rightarrow> SsaValue \<Rightarrow> 'f Dense result" where
  "FoldOrOpPattern M const ty lhs rhs = fold_logical M const ty lhs rhs (\<or>) ap_or"

definition FoldXorOpPattern :: "('f, 'd) mlir_api \<Rightarrow> 'f constants \<Rightarrow> ShapedType \<Rightarrow> SsaValue \<Rightarrow> SsaValue \<Rightarrow> 'f Dense result" where
  "FoldXorOpPattern M const ty lhs rhs = fold_logical M const ty lhs rhs (\<noteq>) ap_xor"

text \<open>Divisions are not folded when a divisor is zero.\<close>

definition integerDivisorHasZeroElement :: "'f constants \<Rightarrow> SsaValue \<Rightarrow> bool" where
  "integerDivisorHasZeroElement const rhs =
     (case const rhs of
        None \<Rightarrow> False
      | Some d \<Rightarrow> isIntegerType (d_elementType d) \<and>
          list_ex (\<lambda>v. case v of VInt x \<Rightarrow> isZero x | _ \<Rightarrow> False) (d_values d))"

definition FoldDivide :: "('f, 'd) float_api \<Rightarrow> bool \<Rightarrow> 'f Value \<Rightarrow> 'f Value \<Rightarrow> 'f Value result" where
  "FoldDivide F isUnsignedInt = int_or_float (if isUnsignedInt then ap_udiv else ap_sdiv) (\<lambda>l r. Inr (fl_div F l r))"

definition FoldRem :: "('f, 'd) float_api \<Rightarrow> bool \<Rightarrow> 'f Value \<Rightarrow> 'f Value \<Rightarrow> 'f Value result" where
  "FoldRem F isUnsignedInt = int_or_float (if isUnsignedInt then ap_urem else ap_srem)
     (\<lambda>l r. if getSemantics F l \<noteq> getSemantics F r then no_match else Inr (fl_mod F l r))"

definition FoldDivOpPattern ::
  "('f, 'd) float_api \<Rightarrow> ('f, 'd) mlir_api \<Rightarrow> FolderOptions \<Rightarrow> 'f constants \<Rightarrow> ShapedType \<Rightarrow> SsaValue \<Rightarrow> SsaValue \<Rightarrow> 'f Dense result" where
  "FoldDivOpPattern F M opts const ty lhs rhs =
     check (validateShapeFoldDtype opts ty False \<and> \<not> (isIntegerType (getElementType ty) \<and> integerDivisorHasZeroElement const rhs))
       (foldBinaryOpIntOrFloat M const ty lhs rhs (FoldDivide F (isUnsignedIntegerType (getElementType ty))))"

definition FoldRemOpPattern ::
  "('f, 'd) float_api \<Rightarrow> ('f, 'd) mlir_api \<Rightarrow> FolderOptions \<Rightarrow> 'f constants \<Rightarrow> ShapedType \<Rightarrow> SsaValue \<Rightarrow> SsaValue \<Rightarrow> 'f Dense result" where
  "FoldRemOpPattern F M opts const ty lhs rhs =
     check (validateShapeFoldDtype opts ty False \<and> \<not> (isIntegerType (getElementType ty) \<and> integerDivisorHasZeroElement const rhs))
       (foldBinaryOpIntOrFloat M const ty lhs rhs (FoldRem F (isUnsignedIntegerType (getElementType ty))))"

definition FoldMax :: "('f, 'd) float_api \<Rightarrow> bool \<Rightarrow> 'f Value \<Rightarrow> 'f Value \<Rightarrow> 'f Value result" where
  "FoldMax F isUnsignedInt =
     int_or_float (\<lambda>l r. Inr (if isUnsignedInt then ap_umax l r else ap_smax l r)) (\<lambda>l r. Inr (fl_maximum F l r))"

definition FoldMin :: "('f, 'd) float_api \<Rightarrow> bool \<Rightarrow> 'f Value \<Rightarrow> 'f Value \<Rightarrow> 'f Value result" where
  "FoldMin F isUnsignedInt =
     int_or_float (\<lambda>l r. Inr (if isUnsignedInt then ap_umin l r else ap_smin l r)) (\<lambda>l r. Inr (fl_minimum F l r))"

definition FoldMaxOpPattern ::
  "('f, 'd) float_api \<Rightarrow> ('f, 'd) mlir_api \<Rightarrow> FolderOptions \<Rightarrow> 'f constants \<Rightarrow> ShapedType \<Rightarrow> SsaValue \<Rightarrow> SsaValue \<Rightarrow> 'f Dense result" where
  "FoldMaxOpPattern F M opts const ty lhs rhs =
     check (validateShapeFoldDtype opts ty False)
       (foldBinaryOpIntOrFloat M const ty lhs rhs
         (FoldMax F (isUnsignedIntegerType (getElementType ty) \<or> isInteger1 (getElementType ty))))"

definition FoldMinOpPattern ::
  "('f, 'd) float_api \<Rightarrow> ('f, 'd) mlir_api \<Rightarrow> FolderOptions \<Rightarrow> 'f constants \<Rightarrow> ShapedType \<Rightarrow> SsaValue \<Rightarrow> SsaValue \<Rightarrow> 'f Dense result" where
  "FoldMinOpPattern F M opts const ty lhs rhs =
     check (validateShapeFoldDtype opts ty False)
       (foldBinaryOpIntOrFloat M const ty lhs rhs
         (FoldMin F (isUnsignedIntegerType (getElementType ty) \<or> isInteger1 (getElementType ty))))"

fun fold_binary ::
  "('f, 'd) float_api \<Rightarrow> ('f, 'd) mlir_api \<Rightarrow> FolderOptions \<Rightarrow> 'f constants \<Rightarrow> ShapedType \<Rightarrow> BinaryName \<Rightarrow> SsaValue \<Rightarrow> SsaValue \<Rightarrow>
   'f Dense result" where
  "fold_binary F M opts const ty AddOp a b = FoldAddOpPattern F M opts const ty a b"
| "fold_binary F M opts const ty AndOp a b = FoldAndOpPattern M const ty a b"
| "fold_binary F M opts const ty DivOp a b = FoldDivOpPattern F M opts const ty a b"
| "fold_binary F M opts const ty MaxOp a b = FoldMaxOpPattern F M opts const ty a b"
| "fold_binary F M opts const ty MinOp a b = FoldMinOpPattern F M opts const ty a b"
| "fold_binary F M opts const ty MulOp a b = FoldMulOpPattern F M opts const ty a b"
| "fold_binary F M opts const ty OrOp a b = FoldOrOpPattern M const ty a b"
| "fold_binary F M opts const ty RemOp a b = FoldRemOpPattern F M opts const ty a b"
| "fold_binary F M opts const ty SubtractOp a b = FoldSubtractOpPattern F M opts const ty a b"
| "fold_binary F M opts const ty XorOp a b = FoldXorOpPattern M const ty a b"
| "fold_binary F M opts const ty _ a b = no_match"

section \<open>Other element-wise operations\<close>

text \<open>Clamps are folded by a maximum and a minimum, without the check for booleans that the patterns of those have.\<close>

definition FoldClampOpPattern ::
  "('f, 'd) float_api \<Rightarrow> ('f, 'd) mlir_api \<Rightarrow> FolderOptions \<Rightarrow> 'f constants \<Rightarrow> ShapedType \<Rightarrow> SsaValue \<Rightarrow> SsaValue \<Rightarrow> SsaValue \<Rightarrow>
   'f Dense result" where
  "FoldClampOpPattern F M opts const ty mn operand mx =
     check (validateShapeFoldDtype opts ty False)
       (rbind (constant_operand const mn) (\<lambda>minAttr.
        rbind (constant_operand const operand) (\<lambda>operandAttr.
        rbind (constant_operand const mx) (\<lambda>maxAttr.
        let isUnsignedInt = isUnsignedIntegerType (getElementType ty) in
        rbind (fold_binary_attrs M ty minAttr operandAttr (FoldMax F isUnsignedInt)) (\<lambda>res.
          fold_binary_attrs M ty maxAttr res (FoldMin F isUnsignedInt))))))"

datatype ComparisonType = CompareNOTYPE | CompareFLOAT | CompareTOTALORDER | CompareSIGNED | CompareUNSIGNED

definition default_comparison :: "Type \<Rightarrow> ComparisonType" where
  "default_comparison elementType =
     (case elementType of
        IntegerType s w \<Rightarrow>
          if s = Unsigned \<or> s = Signless \<and> w = 1 then CompareUNSIGNED
          else if s = Signless then CompareSIGNED else CompareNOTYPE
      | FloatType f \<Rightarrow> CompareFLOAT
      | ComplexType t \<Rightarrow> CompareFLOAT
      | _ \<Rightarrow> CompareNOTYPE)"

definition getComparisonType :: "ComparisonType option \<Rightarrow> Type \<Rightarrow> ComparisonType" where
  "getComparisonType compareType elementType =
     (case compareType of
        Some CompareNOTYPE \<Rightarrow> default_comparison elementType
      | Some c \<Rightarrow> c
      | None \<Rightarrow> default_comparison elementType)"

fun compare_by :: "(bool \<times> bool \<times> bool) \<Rightarrow> ComparisonDirection \<Rightarrow> bool" where
  "compare_by (lt, eq, gt) EQ = eq"
| "compare_by (lt, eq, gt) NE = (\<not> eq)"
| "compare_by (lt, eq, gt) GE = (gt \<or> eq)"
| "compare_by (lt, eq, gt) GT = gt"
| "compare_by (lt, eq, gt) LE = (lt \<or> eq)"
| "compare_by (lt, eq, gt) LT = lt"

definition FoldCompare :: "('f, 'd) float_api \<Rightarrow> ComparisonDirection \<Rightarrow> ComparisonType \<Rightarrow> 'f Value \<Rightarrow> 'f Value \<Rightarrow> 'f Value result" where
  "FoldCompare F direction kind l r =
     (let answer = (\<lambda>b. Inr (VInt (mkAPInt 1 (if b then 1 else 0)))) in
      case (l, r) of
        (VFloat x, VFloat y) \<Rightarrow>
          if kind \<noteq> CompareFLOAT \<and> kind \<noteq> CompareTOTALORDER then Inl (Fatal ''invalid float comparison'')
          else answer (compare_by (fl_lt F x y, fl_eq F x y, fl_gt F x y) direction)
      | (VInt x, VInt y) \<Rightarrow>
          if kind \<noteq> CompareUNSIGNED \<and> kind \<noteq> CompareSIGNED then Inl (Fatal ''invalid integer comparison'')
          else if kind = CompareSIGNED then answer (compare_by (sval x < sval y, uval x = uval y, sval y < sval x) direction)
          else answer (compare_by (uval x < uval y, uval x = uval y, uval y < uval x) direction)
      | _ \<Rightarrow> no_match)"

definition FoldCompareOpPattern ::
  "('f, 'd) float_api \<Rightarrow> ('f, 'd) mlir_api \<Rightarrow> FolderOptions \<Rightarrow> 'f constants \<Rightarrow> ShapedType \<Rightarrow> ComparisonType option \<Rightarrow>
   SsaValue \<Rightarrow> SsaValue \<Rightarrow> ComparisonDirection \<Rightarrow> 'f Dense result" where
  "FoldCompareOpPattern F M opts const ty compareType lhs rhs direction =
     check (validateShapeFoldDtype opts ty False)
       (rbind (shaped_type lhs) (\<lambda>lhsType.
        let kind = getComparisonType compareType (getElementType lhsType) in
        check (kind \<noteq> CompareNOTYPE) (foldBinaryOpIntOrFloat M const ty lhs rhs (FoldCompare F direction kind))))"

fun zip3 :: "'x list \<Rightarrow> 'y list \<Rightarrow> 'z list \<Rightarrow> ('x \<times> 'y \<times> 'z) list" where
  "zip3 (x # xs) (y # ys) (z # zs) = (x, y, z) # zip3 xs ys zs"
| "zip3 _ _ _ = []"

definition value_isZero :: "'f Value \<Rightarrow> bool" where
  "value_isZero v = (case v of VInt x \<Rightarrow> isZero x | _ \<Rightarrow> False)"

definition FoldSelectOpPattern ::
  "FolderOptions \<Rightarrow> 'f constants \<Rightarrow> ShapedType \<Rightarrow> SsaValue \<Rightarrow> SsaValue \<Rightarrow> SsaValue \<Rightarrow> 'f Dense result" where
  "FoldSelectOpPattern opts const ty pred onTrue onFalse =
     check (validateStaticShapeResult ty \<and> validateShapeFoldDtype opts ty False)
       (rbind (constant_operand const pred) (\<lambda>predAttr.
        rbind (constant_operand const onTrue) (\<lambda>onTrueAttr.
        rbind (constant_operand const onFalse) (\<lambda>onFalseAttr.
        check (isIntegerType (d_elementType predAttr))
         (if isSplat predAttr then
            rbind (getSplatValue predAttr) (\<lambda>p. Inr (if value_isZero p then onFalseAttr else onTrueAttr))
          else if isFloatType (getElementType ty) then no_match
          else check (validateElementCountForFold opts ty)
            (Dense_get ty (map (\<lambda>(p, t, f). if \<not> value_isZero p then t else f)
               (zip3 (d_values predAttr) (d_values onTrueAttr) (d_values onFalseAttr)))))))))"

text \<open>The element-wise operations. The syntax of programs has no comparison type, the one of the operands' type is taken.\<close>

fun fold_elementwise ::
  "('f, 'd) float_api \<Rightarrow> ('f, 'd) mlir_api \<Rightarrow> FolderOptions \<Rightarrow> 'f constants \<Rightarrow> ShapedType \<Rightarrow> ElementwiseOp \<Rightarrow> 'f Dense result" where
  "fold_elementwise F M opts const ty (Unary name a) = fold_unary F M opts const ty name a"
| "fold_elementwise F M opts const ty (Binary name a b) = fold_binary F M opts const ty name a b"
| "fold_elementwise F M opts const ty (ClampOp a b c) = FoldClampOpPattern F M opts const ty a b c"
| "fold_elementwise F M opts const ty (CompareOp a b direction) = FoldCompareOpPattern F M opts const ty None a b direction"
| "fold_elementwise F M opts const ty (SelectOp a b c) = FoldSelectOpPattern opts const ty a b c"
| "fold_elementwise F M opts const ty (ReducePrecisionOp a e m) = no_match"

section \<open>Structural operations\<close>

definition FoldBroadcastInDimOpSplatPattern :: "FolderOptions \<Rightarrow> 'f constants \<Rightarrow> ShapedType \<Rightarrow> SsaValue \<Rightarrow> 'f Dense result" where
  "FoldBroadcastInDimOpSplatPattern opts const ty operand =
     check (validateStaticShapeResult ty \<and> validateShapeFoldDtype opts ty True)
       (rbind (splat_operand const operand) (\<lambda>cstAttr. resizeSplat cstAttr ty))"

text \<open>The elements of all inputs that belong to one index of the leading dimensions follow one another.\<close>

definition concatenate_elements :: "int \<Rightarrow> 'f Dense list \<Rightarrow> 'f Value list" where
  "concatenate_elements topSize constants =
     concat (map (\<lambda>i. concat (map (\<lambda>attr.
         let bottomSize = nat (d_numElements attr div topSize) in take bottomSize (drop (nat i * bottomSize) (d_values attr)))
       constants)) (upto_int topSize))"

definition FoldConcatenateOpPattern ::
  "FolderOptions \<Rightarrow> 'f constants \<Rightarrow> ShapedType \<Rightarrow> SsaValue list \<Rightarrow> int \<Rightarrow> 'f Dense result" where
  "FoldConcatenateOpPattern opts const ty inputs dimension =
     check (validateStaticShapeResult ty \<and> validateShapeFoldDtype opts ty False \<and> validateElementCountForFold opts ty)
       (rbind (mapM (constant_operand const) inputs) (\<lambda>constants.
        let topSize = prod_list (take (nat dimension) (getShape ty)) in
          Dense_get ty (concatenate_elements topSize constants)))"

datatype 'f NewOperand = Operand SsaValue | NewConstant "'f Dense"

definition is_constant_splat :: "'f constants \<Rightarrow> 'f Dense \<Rightarrow> SsaValue \<Rightarrow> bool" where
  "is_constant_splat const d v = (splat_operand const v = Inr d)"

function merge_splats :: "'f constants \<Rightarrow> int \<Rightarrow> SsaValue list \<Rightarrow> 'f NewOperand list result" where
  "merge_splats const dimension [] = Inr []"
| "merge_splats const dimension (v # vs) =
     (case splat_operand const v of
        Inl _ \<Rightarrow> rbind (merge_splats const dimension vs) (\<lambda>rest. Inr (Operand v # rest))
      | Inr currSplat \<Rightarrow>
          let more = takeWhile (is_constant_splat const currSplat) vs in
          if more = [] then rbind (merge_splats const dimension vs) (\<lambda>rest. Inr (Operand v # rest))
          else
            rbind (vec_nth (getShape (d_type currSplat)) dimension) (\<lambda>n.
            rbind (vec_set (getShape (d_type currSplat)) dimension (n * (1 + int (length more)))) (\<lambda>newShape.
            rbind (resizeSplat currSplat ((d_type currSplat)\<lparr>getShape := newShape\<rparr>)) (\<lambda>resized.
            rbind (merge_splats const dimension (drop (length more) vs)) (\<lambda>rest. Inr (NewConstant resized # rest))))))"
  by pat_completeness auto

termination by (relation "measure (\<lambda>(_, _, vs). length vs)") auto

definition FoldConcatenateAdjacentSplatsOpPattern ::
  "'f constants \<Rightarrow> SsaValue list \<Rightarrow> int \<Rightarrow> 'f NewOperand list result" where
  "FoldConcatenateAdjacentSplatsOpPattern const operands dimension =
     rbind (merge_splats const dimension operands) (\<lambda>newOperands.
       check (length newOperands \<noteq> length operands) (Inr newOperands))"

definition FoldDynamicSliceOpPattern :: "'f constants \<Rightarrow> ShapedType \<Rightarrow> SsaValue \<Rightarrow> 'f Dense result" where
  "FoldDynamicSliceOpPattern const ty operand =
     check (validateStaticShapeResult ty) (rbind (splat_operand const operand) (\<lambda>d. resizeSplat d ty))"

definition FoldGetDimensionSizeOpPattern ::
  "FolderOptions \<Rightarrow> ShapedType \<Rightarrow> SsaValue \<Rightarrow> int \<Rightarrow> 'f Dense result" where
  "FoldGetDimensionSizeOpPattern opts ty operand dimension =
     check (validateStaticShapeResult ty \<and> validateShapeFoldDtype opts ty False)
       (rbind (shaped_type operand) (\<lambda>operandType.
        rbind (vec_nth (getShape operandType) dimension) (\<lambda>n.
        check (\<not> isDynamicDimSize n) (Inr (splat ty (VInt (mkAPInt 32 n)))))))"

text \<open>\<open>set_dimension_size\<close>, which the interpreter does not have: the operand replaces the result when the size is the one it has.\<close>

definition FoldSetDimensionSizeOpPattern ::
  "'f constants \<Rightarrow> ShapedType \<Rightarrow> SsaValue \<Rightarrow> SsaValue \<Rightarrow> int \<Rightarrow> SsaValue result" where
  "FoldSetDimensionSizeOpPattern const ty operand sizeOperand dimension =
     rbind (shaped_type operand) (\<lambda>operandType.
     check (operandType = ty)
       (rbind (splat_operand const sizeOperand) (\<lambda>cst.
        rbind (getSplatValue cst) (\<lambda>v.
        rbind (vec_nth (getShape ty) dimension) (\<lambda>n.
        check (case v of VInt x \<Rightarrow> uval x = n mod 2 ^ 64 | _ \<Rightarrow> False) (Inr operand))))))"

definition FoldIotaOpPattern :: "FolderOptions \<Rightarrow> ShapedType \<Rightarrow> int \<Rightarrow> 'f Dense result" where
  "FoldIotaOpPattern opts ty dimension =
     check (validateElementCountForFold opts ty \<and> isIntegerType (getElementType ty))
       (let outputSize = getNumElements ty in
        if outputSize = 0 then Dense_get ty []
        else check (outputSize = 1)
          (rbind (getIntOrFloatBitWidth (getElementType ty)) (\<lambda>resultBitWidth.
           rbind (vec_nth (getShape ty) dimension) (\<lambda>sequenceMax.
           let sequences = prod_list (take (nat dimension) (getShape ty));
               elementRepetitions = prod_list (drop (nat dimension + 1) (getShape ty)) in
           Dense_get ty (concat (map (\<lambda>i. concat (map (\<lambda>v.
               map (\<lambda>k. VInt (mkAPInt resultBitWidth v)) (upto_int elementRepetitions)) (upto_int sequenceMax)))
             (upto_int sequences)))))))"

section \<open>Reversal\<close>

definition swap_elements :: "int \<Rightarrow> int \<Rightarrow> 'x list \<Rightarrow> 'x list result" where
  "swap_elements i j xs =
     rbind (vec_nth xs i) (\<lambda>x. rbind (vec_nth xs j) (\<lambda>y. rbind (vec_set xs i y) (\<lambda>xs. vec_set xs j x)))"

text \<open>The number of elements within a dimension and the ones after it.\<close>

fun reverse_strides :: "Sizes \<Rightarrow> int \<Rightarrow> int list result" where
  "reverse_strides [] n = Inr [n]"
| "reverse_strides (d # ds) n =
     (if d = 0 then Inl (UB ''division by zero'')
      else rbind (reverse_strides ds (trunc_div n d)) (\<lambda>rest. Inr (n # rest)))"

definition reverse_windows :: "int \<Rightarrow> int \<Rightarrow> int \<Rightarrow> 'x list \<Rightarrow> 'x list result" where
  "reverse_windows blockStart numWindows windowSize =
     foldM (\<lambda>window.
       foldM (\<lambda>i. swap_elements (blockStart + window * windowSize + i) (blockStart + (numWindows - window - 1) * windowSize + i))
         (upto_int windowSize)) (upto_int (numWindows div 2))"

definition reverse_dim :: "Sizes \<Rightarrow> int list \<Rightarrow> int \<Rightarrow> int \<Rightarrow> 'x list \<Rightarrow> 'x list result" where
  "reverse_dim shape stride numElements dim result =
     rbind (vec_nth shape dim) (\<lambda>numWindows.
     rbind (vec_nth stride dim) (\<lambda>s.
     rbind (checked_div s numWindows) (\<lambda>windowSize.
     rbind (checked_div numElements s) (\<lambda>numBlocks.
       foldM (\<lambda>block. reverse_windows (block * s) numWindows windowSize) (upto_int numBlocks) result))))"

definition foldReverseHelper :: "'f Dense \<Rightarrow> ShapedType \<Rightarrow> int list \<Rightarrow> 'f Dense result" where
  "foldReverseHelper attr ty dims =
     rbind (reverse_strides (getShape ty) (d_numElements attr)) (\<lambda>stride.
     rbind (foldM (reverse_dim (getShape ty) stride (d_numElements attr)) dims (d_values attr)) (Dense_get ty))"

definition FoldReverseOpPattern :: "FolderOptions \<Rightarrow> 'f constants \<Rightarrow> SsaValue \<Rightarrow> int list \<Rightarrow> 'f Dense result" where
  "FoldReverseOpPattern opts const operand dims =
     rbind (shaped_type operand) (\<lambda>shapedType.
     check (validateStaticShapeResult shapedType \<and> validateElementCountForFold opts shapedType)
       (rbind (constant_operand const operand) (\<lambda>inputAttr.
        rbind (mapM (vec_nth (getShape shapedType)) dims) (\<lambda>sizes.
        check (dims \<noteq> [] \<and> 1 < getNumElements shapedType \<and> \<not> isSplat inputAttr \<and> \<not> list_all (\<lambda>n. n = 1) sizes)
          (if isIntegerType (getElementType shapedType) \<or> isFloatType (getElementType shapedType)
           then foldReverseHelper inputAttr shapedType dims else no_match)))))"

section \<open>Slices and transpositions\<close>

text \<open>The index of the source moves by the strides, the last dimension first, and goes back to the start of a dimension at its end.\<close>

fun slice_advance :: "int list \<Rightarrow> int list \<Rightarrow> int list \<Rightarrow> nat \<Rightarrow> Index \<Rightarrow> Index result" where
  "slice_advance startIndex endIndex strides 0 srcIndex = Inr srcIndex"
| "slice_advance startIndex endIndex strides (Suc dim) srcIndex =
     rbind (vec_nth srcIndex (int dim)) (\<lambda>x.
     rbind (vec_nth strides (int dim)) (\<lambda>s.
     rbind (vec_nth endIndex (int dim)) (\<lambda>e.
     if e \<le> x + s then
       rbind (vec_nth startIndex (int dim)) (\<lambda>x0.
       rbind (vec_set srcIndex (int dim) x0) (slice_advance startIndex endIndex strides dim))
     else vec_set srcIndex (int dim) (x + s))))"

definition sliceType ::
  "('f, 'd) mlir_api \<Rightarrow> ShapedType \<Rightarrow> ShapedType \<Rightarrow> int list \<Rightarrow> int list \<Rightarrow> int list \<Rightarrow> 'f Value list \<Rightarrow> 'f Dense result" where
  "sliceType M operandType resultType startIndices limitIndices strides data =
     (let dimOffsets = computeStrides M (getShape operandType) in
      rbind (foldM (\<lambda>i (srcIndex, result).
               rbind (vec_nth data (linearize M srcIndex dimOffsets)) (\<lambda>x.
               rbind (slice_advance startIndices limitIndices strides (length srcIndex) srcIndex) (\<lambda>srcIndex.
                 Inr (srcIndex, result @ [x]))))
             (upto_int (getNumElements resultType)) (startIndices, [])) (\<lambda>(_, result). Dense_get resultType result))"

definition FoldSliceOpPattern ::
  "('f, 'd) mlir_api \<Rightarrow> FolderOptions \<Rightarrow> 'f constants \<Rightarrow> ShapedType \<Rightarrow> SsaValue \<Rightarrow> int list \<Rightarrow> int list \<Rightarrow> int list \<Rightarrow> 'f Dense result" where
  "FoldSliceOpPattern M opts const ty operand startIndices limitIndices strides =
     check (validateStaticShapeResult ty \<and> validateShapeFoldDtype opts ty False)
       (rbind (shaped_type operand) (\<lambda>operandType.
        check (hasStaticShape operandType)
         (rbind (constant_operand const operand) (\<lambda>els.
          if isSplat els then resizeSplat els ty
          else if isIntegerType (d_elementType els) \<or> isFloatType (d_elementType els)
          then sliceType M operandType ty startIndices limitIndices strides (d_values els)
          else no_match))))"

definition transposeType ::
  "('f, 'd) mlir_api \<Rightarrow> ShapedType \<Rightarrow> ShapedType \<Rightarrow> Axes \<Rightarrow> 'f Value list \<Rightarrow> 'f Dense result" where
  "transposeType M operandType resultType permutation data =
     (let operandStrides = computeStrides M (getShape operandType);
          resultStrides = computeStrides M (getShape resultType);
          inversePermutation = invertPermutationVector M permutation in
      rbind (mapM (\<lambda>i.
          let dstDimIndex = delinearize M i resultStrides;
              srcDimIndex = applyPermutation M dstDimIndex inversePermutation in
          vec_nth data (linearize M srcDimIndex operandStrides)) (upto_int (getNumElements resultType))) (Dense_get resultType))"

definition FoldTransposeOpPattern ::
  "('f, 'd) mlir_api \<Rightarrow> 'f constants \<Rightarrow> ShapedType \<Rightarrow> SsaValue \<Rightarrow> Axes \<Rightarrow> 'f Dense result" where
  "FoldTransposeOpPattern M const ty operand permutation =
     check (validateStaticShapeResult ty)
       (rbind (constant_operand const operand) (\<lambda>els.
        if isSplat els then resizeSplat els ty
        else if isIntegerType (d_elementType els) \<or> isFloatType (d_elementType els)
        then rbind (shaped_type operand) (\<lambda>operandType. transposeType M operandType ty permutation (d_values els))
        else no_match))"

fun fold_structural ::
  "('f, 'd) mlir_api \<Rightarrow> FolderOptions \<Rightarrow> 'f constants \<Rightarrow> ShapedType \<Rightarrow> StructuralOp \<Rightarrow> 'f Dense result" where
  "fold_structural M opts const ty (BroadcastInDimOp a dims) = FoldBroadcastInDimOpSplatPattern opts const ty a"
| "fold_structural M opts const ty (ConcatenateOp as dimension) = FoldConcatenateOpPattern opts const ty as dimension"
| "fold_structural M opts const ty (DynamicSliceOp a starts sizes) = FoldDynamicSliceOpPattern const ty a"
| "fold_structural M opts const ty (GetDimensionSizeOp a dimension) = FoldGetDimensionSizeOpPattern opts ty a dimension"
| "fold_structural M opts const ty (IotaOp dimension) = FoldIotaOpPattern opts ty dimension"
| "fold_structural M opts const ty (ReverseOp a dims) = FoldReverseOpPattern opts const a dims"
| "fold_structural M opts const ty (SliceOp a start limit strides) = FoldSliceOpPattern M opts const ty a start limit strides"
| "fold_structural M opts const ty (TransposeOp a permutation) = FoldTransposeOpPattern M const ty a permutation"
| "fold_structural M opts const ty _ = no_match"

section \<open>Operations with regions\<close>

text \<open>
  An operation is replaced by constants, by values that exist, or by the operations of one of its regions followed by such values.
\<close>

datatype ('f, 'a) Replacement =
    Constants "'f Dense list"
  | Existing "SsaValue list"
  | Inlined "'a Op list" "SsaValue list"

text \<open>
  The branch of a \<open>case\<close> on a constant is inlined. The emptied region gets placeholders of the result types, for which there must be a
  constant: \<open>has_placeholder\<close> is \<^verbatim>\<open>preparePlaceholderFor\<close>.
\<close>

definition InlineCaseOpWithConstantBranchIndex ::
  "'f constants \<Rightarrow> (Values.ValueType \<Rightarrow> bool) \<Rightarrow> bool \<Rightarrow> SsaValue list \<Rightarrow> SsaValue \<Rightarrow> 'a OpRegion list \<Rightarrow> ('f, 'a) Replacement result" where
  "InlineCaseOpWithConstantBranchIndex const has_placeholder use_empty results index branches =
     check (\<not> use_empty)
       (rbind (splat_operand const index) (\<lambda>indexAttr.
        rbind (getSplatValue indexAttr) (\<lambda>v.
        rbind (case v of VInt x \<Rightarrow> Inr (sval x) | _ \<Rightarrow> Inl (UB ''not an integer'')) (\<lambda>k.
        let selected = (if k < 0 \<or> int (length branches) \<le> k then int (length branches) - 1 else k) in
        rbind (vec_nth branches selected) (\<lambda>region.
        if region_body region = [] then Inl (UB ''terminator of an empty block'')
        else case last (region_body region) of
            Return vs \<Rightarrow> check (list_all (\<lambda>r. has_placeholder (ssa_type r)) results)
              (Inr (Inlined (butlast (region_body region)) vs))
          | _ \<Rightarrow> Inl (UB ''no terminator''))))))"

definition value_types :: "SsaValue list \<Rightarrow> Values.ValueType list" where
  "value_types vs = map ssa_type vs"

definition FoldReduceOpReducingZeroDims :: "SsaValue list \<Rightarrow> SsaValue list \<Rightarrow> Axes \<Rightarrow> ('f, 'a) Replacement result" where
  "FoldReduceOpReducingZeroDims results inputs dimensions =
     check (dimensions = [] \<and> value_types inputs = value_types results) (Inr (Existing inputs))"

text \<open>A body that returns constants: the result is taken to be these constants, whatever is reduced.\<close>

definition FoldReduceOpToConstantInitializer ::
  "'f constants \<Rightarrow> SsaValue list \<Rightarrow> 'a OpRegion \<Rightarrow> ('f, 'a) Replacement result" where
  "FoldReduceOpToConstantInitializer const results body =
     (case region_body body of
        [Return vs] \<Rightarrow>
          rbind (mapM (\<lambda>(v, r).
              rbind (constant_operand const v) (\<lambda>d. rbind (shaped_type r) (\<lambda>ty. resizeSplat d ty))) (zip vs results))
            (\<lambda>ds. Inr (Constants ds))
      | _ \<Rightarrow> no_match)"

definition defined_in :: "'a OpRegion \<Rightarrow> SsaValue \<Rightarrow> bool" where
  "defined_in r v = (v \<in> set (region_arguments r) \<union> set (concat (map op_results (region_body r))))"

definition FoldReduceOpWithRedundantResults :: "SsaValue list \<Rightarrow> 'a OpRegion \<Rightarrow> ('f, 'a) Replacement result" where
  "FoldReduceOpWithRedundantResults results body =
     (if region_body body = [] then no_match
      else case last (region_body body) of
        Return vs \<Rightarrow>
          check (list_all (\<lambda>(r, v). \<not> defined_in body v \<and> ssa_type v = ssa_type r) (zip results vs)) (Inr (Existing vs))
      | _ \<Rightarrow> no_match)"

text \<open>The constants that replace the arguments of a body with one logical operation, in the order of the operands of \<open>reduce\<close>.\<close>

definition LowerBoolSplatConstantsIntoReduceOpRegion ::
  "'f constants \<Rightarrow> SsaValue list \<Rightarrow> SsaValue list \<Rightarrow> 'a OpRegion \<Rightarrow> (SsaValue \<times> 'f Dense) list result" where
  "LowerBoolSplatConstantsIntoReduceOpRegion const inputs initValues body =
     (case region_body body of
        [Elementwise _ (Binary name _ _), _] \<Rightarrow>
          check (name = AndOp \<or> name = OrOp)
            (mapM (\<lambda>(v, bodyArg).
               rbind (splat_operand const v) (\<lambda>d. rbind (shaped_type bodyArg) (\<lambda>ty.
               rbind (resizeSplat d ty) (\<lambda>d. Inr (bodyArg, d))))) (zip (inputs @ initValues) (region_arguments body)))
      | _ \<Rightarrow> no_match)"

definition whileCondIsFalse :: "'f constants \<Rightarrow> 'a OpRegion \<Rightarrow> bool result" where
  "whileCondIsFalse const cond =
     (if region_body cond = [] then no_match
      else case last (region_body cond) of
        Return vs \<Rightarrow>
          rbind (vec_nth vs 0) (\<lambda>v.
          rbind (constant_operand const v) (\<lambda>condValue.
          check (isIntegerType (d_elementType condValue))
            (rbind (getSplatValue condValue) (\<lambda>b. Inr (value_isZero b)))))
      | _ \<Rightarrow> no_match)"

definition FoldWhileOpPattern ::
  "'f constants \<Rightarrow> bool \<Rightarrow> bool \<Rightarrow> SsaValue list \<Rightarrow> 'a OpRegion \<Rightarrow> ('f, 'a) Replacement result" where
  "FoldWhileOpPattern const use_empty trivially_dead operands cond =
     check (\<not> (use_empty \<and> \<not> trivially_dead))
       (rbind (whileCondIsFalse const cond) (\<lambda>false. check false (Inr (Existing operands))))"

text \<open>A loop that never runs is erased when nothing declares side effects and that may be assumed to mean that there are none.\<close>

definition FoldWhileOpIfDeadAndPresumedPure ::
  "FolderOptions \<Rightarrow> 'f constants \<Rightarrow> bool \<Rightarrow> bool \<Rightarrow> 'a OpRegion \<Rightarrow> ('f, 'a) Replacement result" where
  "FoldWhileOpIfDeadAndPresumedPure opts const use_empty declared_side_effects cond =
     check (assumeNoUndeclaredSideEffects opts \<and> use_empty)
       (rbind (whileCondIsFalse const cond) (\<lambda>false. check (false \<and> \<not> declared_side_effects) (Inr (Existing []))))"

end
