(* ===== verification/Folder_Loops.thy ===== *)
theory Folder_Loops
  imports Folder Gather_Correct
begin

text \<open>
  What the loops of the constant folder compute on the elements of a constant, which are stored in row-major order: the swaps of a
  reversal, the moving index of a slice, the pieces of a concatenation.
\<close>

section \<open>Positions\<close>

lemma index_space_nth_map:
  assumes "list_all (\<lambda>d. 0 \<le> d) shape" "inBounds i shape"
  shows "map f (index_space shape) ! nat (flat shape i) = f i" "nat (flat shape i) < length (index_space shape)"
proof -
  show l: "nat (flat shape i) < length (index_space shape)"
    using flat_bounds [OF assms(2)] by (simp add: length_index_space [OF assms(1)])
  then show "map f (index_space shape) ! nat (flat shape i) = f i"
    by (simp add: index_space_nth_flat [OF assms])
qed

lemma flat_append: "length i = length s \<Longrightarrow> flat (s @ t) (i @ j) = flat s i * prod_list t + flat t j"
  by (induction s i rule: flat.induct) (simp_all add: algebra_simps)

lemma concat_map_concat: "concat (map f (concat xss)) = concat (map (\<lambda>xs. concat (map f xs)) xss)"
  by (induction xss) simp_all

lemma index_space_append:
  "index_space (s @ t) = concat (map (\<lambda>a. map ((@) a) (index_space t)) (index_space s))"
proof (induction s)
  case Nil
  then show ?case by (simp add: map_idI)
next
  case (Cons n s)
  have "concat (map (\<lambda>a. map ((@) a) (index_space t)) (concat (map (\<lambda>k. map (Cons k) (index_space s)) (upto_int n)))) =
      concat (map (\<lambda>k. concat (map (\<lambda>a. map (\<lambda>x. k # a @ x) (index_space t)) (index_space s))) (upto_int n))"
    by (simp only: concat_map_concat map_map comp_def append_Cons [abs_def])
  with Cons show ?case by (simp add: map_concat comp_def)
qed

section \<open>Swaps\<close>

lemma foldM_product: "foldM (\<lambda>x. foldM (g x) ys) xs s = foldM (\<lambda>(x, y). g x y) (List.product xs ys) s"
proof (induction xs arbitrary: s)
  case (Cons x xs)
  have "foldM (\<lambda>(x, y). g x y) (List.product (x # xs) ys) s =
      rbind (foldM (\<lambda>y. g x y) ys s) (foldM (\<lambda>(x, y). g x y) (List.product xs ys))"
    by (simp add: foldM_append foldM_map)
  also have "\<dots> = rbind (foldM (g x) ys s) (foldM (\<lambda>x. foldM (g x) ys) xs)"
    by (rule rbind_cong) (simp_all add: Cons.IH)
  finally show ?case by simp
qed simp

text \<open>Positions are swapped with their images under an involution, each pair once.\<close>

lemma swaps_involution:
  assumes "\<And>a. 0 \<le> a \<Longrightarrow> a < int n \<Longrightarrow> 0 \<le> h a \<and> h a < int n \<and> h (h a) = a"
    and "distinct as" "set as \<subseteq> {0..<int n}" "set as \<inter> h ` set as = {}" "length xs = n"
  shows "\<exists>ys. foldM (\<lambda>a. swap_elements a (h a)) as xs = Inr ys \<and> length ys = n \<and>
    (\<forall>p. 0 \<le> p \<and> p < int n \<longrightarrow> ys ! nat p = xs ! nat (if p \<in> set as \<union> h ` set as then h p else p))"
  using assms(2-4)
proof (induction as rule: rev_induct)
  case Nil
  then show ?case using assms(5) by simp
next
  case (snoc a as)
  from snoc obtain ys where ys: "foldM (\<lambda>a. swap_elements a (h a)) as xs = Inr ys" "length ys = n"
    "\<And>p. 0 \<le> p \<Longrightarrow> p < int n \<Longrightarrow> ys ! nat p = xs ! nat (if p \<in> set as \<union> h ` set as then h p else p)"
    by auto
  have a: "0 \<le> a" "a < int n" "a \<notin> set as" "a \<notin> h ` set as" "h a \<noteq> a" "h a \<notin> set as" using snoc.prems by auto
  note ha = assms(1) [OF a(1,2)]
  have "h a \<notin> h ` set as"
  proof
    assume "h a \<in> h ` set as"
    then obtain b where b: "b \<in> set as" "h a = h b" by auto
    then have "0 \<le> b" "b < int n" using snoc.prems(2) by auto
    with assms(1) ha b have "a = b" by metis
    with b a(3) show False by simp
  qed
  then have v: "ys ! nat a = xs ! nat a" "ys ! nat (h a) = xs ! nat (h a)" using ys(3) a ha by auto
  let ?zs = "(ys[nat a := ys ! nat (h a)])[nat (h a) := ys ! nat a]"
  have "swap_elements a (h a) ys = Inr ?zs"
    using a ha ys(2) by (simp add: swap_elements_def)
  moreover have "?zs ! nat p = xs ! nat (if p \<in> set (as @ [a]) \<union> h ` set (as @ [a]) then h p else p)"
    if p: "0 \<le> p" "p < int n" for p
  proof -
    consider "p = a" | "p = h a" "p \<noteq> a" | "p \<noteq> a" "p \<noteq> h a" by blast
    then show ?thesis
    proof cases
      case 1
      then show ?thesis using a ha ys(2) v by (simp add: nth_list_update nat_eq_iff)
    next
      case 2
      have "nat (h a) < length ys" "nat a \<noteq> nat (h a)" using a ha ys(2) by auto
      then show ?thesis using 2 ha v by simp
    next
      case 3
      then have "nat p \<noteq> nat a" "nat p \<noteq> nat (h a)" using p a ha by auto
      then show ?thesis using 3 ys(3) [OF p] by simp
    qed
  qed
  ultimately show ?case using ys(1,2) by (simp add: foldM_append)
qed

section \<open>Reversal\<close>

text \<open>The position with the window of its block mirrored.\<close>

definition mirror :: "int \<Rightarrow> int \<Rightarrow> int \<Rightarrow> int" where
  "mirror N W p = p + (N - 1 - 2 * (p div W mod N)) * W"

lemma mirror_at:
  assumes "0 \<le> v" "v < N" "0 \<le> i" "i < W"
  shows "mirror N W ((b * N + v) * W + i) = (b * N + (N - 1 - v)) * W + i"
proof -
  have "((b * N + v) * W + i) div W = b * N + v" using assms by simp
  moreover have "(b * N + v) mod N = v" using assms by simp
  ultimately show ?thesis by (simp add: mirror_def algebra_simps)
qed

lemma position_cases:
  fixes N W p B :: int
  assumes "0 < N" "0 < W" "0 \<le> p" "p < B * (N * W)"
  obtains b v i where "p = (b * N + v) * W + i" "0 \<le> b" "b < B" "0 \<le> v" "v < N" "0 \<le> i" "i < W"
proof
  let ?q = "p div W"
  show "p = (?q div N * N + ?q mod N) * W + p mod W" by simp
  show "0 \<le> ?q div N" using assms by (simp add: pos_imp_zdiv_nonneg_iff)
  show "?q div N < B"
  proof -
    have "?q div N = p div (N * W)" using assms(1) by (simp add: zdiv_zmult2_eq mult.commute [of N])
    moreover have "p div (N * W) < B"
    proof (rule ccontr)
      assume "\<not> ?thesis"
      then have "B * (N * W) \<le> p div (N * W) * (N * W)" using assms by (intro mult_right_mono) auto
      also have "\<dots> \<le> p" using pos_mod_sign [of "N * W" p] assms(1,2) by (simp add: minus_mod_eq_div_mult [symmetric])
      finally show False using assms(4) by simp
    qed
    ultimately show ?thesis by simp
  qed
qed (use assms in auto)

lemma position_bound:
  fixes N W B :: int
  assumes "0 \<le> b" "b < B" "0 \<le> v" "v < N" "0 \<le> i" "i < W"
  shows "0 \<le> (b * N + v) * W + i" "(b * N + v) * W + i < B * (N * W)"
proof -
  have "(b + 1) * N \<le> B * N" using assms by (intro mult_right_mono) auto
  then have "b * N + v + 1 \<le> B * N" using assms(4) by (simp add: distrib_right)
  then have "(b * N + v + 1) * W \<le> B * N * W" using assms by (intro mult_right_mono) auto
  then show "(b * N + v) * W + i < B * (N * W)" using assms(6) by (simp add: distrib_right mult.assoc)
qed (use assms in simp)

lemma position_inject:
  fixes N W :: int
  assumes "(b * N + v) * W + i = (b' * N + v') * W + i'"
    and "0 \<le> v" "v < N" "0 \<le> i" "i < W" "0 \<le> v'" "v' < N" "0 \<le> i'" "i' < W"
  shows "b = b' \<and> v = v' \<and> i = i'"
proof -
  have q: "((c * N + u) * W + j) div W = c * N + u" "((c * N + u) * W + j) mod W = j" if "0 \<le> j" "j < W" for c u j
    using that by simp_all
  have "i = i'" "b * N + v = b' * N + v'" using assms q(1,2) by metis+
  moreover have "(c * N + u) div N = c" "(c * N + u) mod N = u" if "0 \<le> u" "u < N" for c u
    using that by simp_all
  ultimately show ?thesis using assms by metis
qed

lemma reverse_windows_product:
  "reverse_windows base N W = foldM (\<lambda>(v, i). swap_elements (base + v * W + i) (base + (N - v - 1) * W + i))
     (List.product (upto_int (N div 2)) (upto_int W))"
  by (rule ext) (simp add: reverse_windows_def foldM_product)

lemma reverse_dim_mirrors:
  assumes "vec_nth shape dim = Inr N" "vec_nth stride dim = Inr (N * W)" "0 < N" "0 < W" "0 \<le> B"
    and "numElements = B * (N * W)" "int (length xs) = numElements"
  shows "\<exists>ys. reverse_dim shape stride numElements dim xs = Inr ys \<and> length ys = length xs \<and>
    (\<forall>p. 0 \<le> p \<and> p < numElements \<longrightarrow> ys ! nat p = xs ! nat (mirror N W p))"
proof -
  let ?n = "length xs" and ?h = "mirror N W"
  let ?pos = "\<lambda>(b, v, i). (b * N + v) * W + i"
  let ?idx = "List.product (upto_int B) (List.product (upto_int (N div 2)) (upto_int W))"
  let ?as = "map ?pos ?idx"
  have half: "v < N" "N - 1 - v < N" "0 \<le> N - 1 - v" "\<not> N - 1 - v < N div 2" if "0 \<le> v" "v < N div 2" for v
    using that assms(3) by linarith+
  have n: "int ?n = B * (N * W)" using assms(6,7) by simp
  have h: "0 \<le> ?h a \<and> ?h a < int ?n \<and> ?h (?h a) = a" if "0 \<le> a" "a < int ?n" for a
  proof -
    obtain b v i where a: "a = (b * N + v) * W + i" and r: "0 \<le> b" "b < B" "0 \<le> v" "v < N" "0 \<le> i" "i < W"
      using position_cases [OF assms(3,4)] \<open>0 \<le> a\<close> \<open>a < int ?n\<close> n by metis
    have r': "0 \<le> N - 1 - v" "N - 1 - v < N" using r by auto
    show ?thesis
      using position_bound [OF r(1,2) r' r(5,6)] mirror_at [OF r(3-6), of b] mirror_at [OF r' r(5,6), of b] n a by simp
  qed
  have inj: "inj_on ?pos (set ?idx)"
    by (rule inj_onI) (auto dest!: position_inject half(1) simp: half(1))
  have dist: "distinct ?as"
    using inj by (simp add: distinct_map distinct_product)
  have range: "set ?as \<subseteq> {0..<int ?n}"
    using position_bound n half(1) by (fastforce simp: set_product)
  have disj: "set ?as \<inter> ?h ` set ?as = {}"
  proof (rule ccontr)
    assume "set ?as \<inter> ?h ` set ?as \<noteq> {}"
    then obtain b v i b' v' i' where e: "(b * N + v) * W + i = ?h ((b' * N + v') * W + i')"
      and r: "0 \<le> v" "v < N div 2" "0 \<le> i" "i < W" "0 \<le> v'" "v' < N div 2" "0 \<le> i'" "i' < W"
      by (auto simp: set_product)
    have "(b * N + v) * W + i = (b' * N + (N - 1 - v')) * W + i'" using e mirror_at half(1) r by simp
    then have "v = N - 1 - v'" using position_inject half r by metis
    then show False using half(4) r by simp
  qed
  have loops: "foldM (\<lambda>block. reverse_windows (block * (N * W)) N W) (upto_int B) xs = foldM (\<lambda>a. swap_elements a (?h a)) ?as xs"
  proof -
    have "foldM (\<lambda>block. reverse_windows (block * (N * W)) N W) (upto_int B) xs =
        foldM (\<lambda>(b, v, i). swap_elements (b * (N * W) + v * W + i) (b * (N * W) + (N - v - 1) * W + i)) ?idx xs"
      unfolding reverse_windows_product foldM_product by (simp add: case_prod_beta)
    also have "\<dots> = foldM (\<lambda>x. swap_elements (?pos x) (?h (?pos x))) ?idx xs"
    proof (rule foldM_cong [OF refl refl])
      fix x s assume "x \<in> set ?idx"
      then obtain b v i where x: "x = (b, v, i)" "0 \<le> v" "v < N div 2" "0 \<le> i" "i < W" by (auto simp: set_product)
      then show "(case x of (b, v, i) \<Rightarrow> swap_elements (b * (N * W) + v * W + i) (b * (N * W) + (N - v - 1) * W + i)) s =
          swap_elements (?pos x) (?h (?pos x)) s"
        using mirror_at [of v N i W b] half(1) by (simp add: distrib_right mult.assoc diff_diff_eq add.commute [of 1])
    qed
    finally show ?thesis by (simp add: foldM_map)
  qed
  obtain ys where ys: "foldM (\<lambda>a. swap_elements a (?h a)) ?as xs = Inr ys" "length ys = ?n"
    "\<And>p. 0 \<le> p \<Longrightarrow> p < int ?n \<Longrightarrow> ys ! nat p = xs ! nat (if p \<in> set ?as \<union> ?h ` set ?as then ?h p else p)"
    using swaps_involution [OF h dist range disj refl] by blast
  have fixed: "?h p = p" if "0 \<le> p" "p < int ?n" "p \<notin> set ?as \<union> ?h ` set ?as" for p
  proof -
    obtain b v i where p: "p = (b * N + v) * W + i" and r: "0 \<le> b" "b < B" "0 \<le> v" "v < N" "0 \<le> i" "i < W"
      using position_cases [OF assms(3,4)] \<open>0 \<le> p\<close> \<open>p < int ?n\<close> n by metis
    have as: "(b * N + u) * W + i \<in> set ?as" if "0 \<le> u" "u < N div 2" for u
      using that r by (force simp: set_product)
    have "\<not> v < N div 2" using as r p \<open>p \<notin> _\<close> by auto
    moreover have "\<not> N - 1 - v < N div 2"
    proof
      assume u: "N - 1 - v < N div 2"
      have "?h ((b * N + (N - 1 - v)) * W + i) = p" using mirror_at [of "N - 1 - v" N i W b] r p by simp
      then show False using as [OF _ u] r(4) \<open>p \<notin> _\<close> by (metis UnI2 diff_ge_0_iff_ge image_eqI zle_diff1_eq)
    qed
    ultimately have "N - 1 - v = v" by linarith
    then show ?thesis using mirror_at [OF r(3-6), of b] p by simp
  qed
  have "checked_div (N * W) N = Inr W" "checked_div numElements (N * W) = Inr B"
    using assms(3-6) by (auto simp: checked_div_def trunc_div_def abs_mult sgn_mult sgn_if)
  then have "reverse_dim shape stride numElements dim xs = Inr ys"
    using assms(1,2) loops ys(1) by (simp add: reverse_dim_def)
  moreover have "ys ! nat p = xs ! nat (?h p)" if "0 \<le> p" "p < numElements" for p
    using ys(3) [of p] fixed [of p] that assms(6,7) n by auto
  ultimately show ?thesis using ys(2) by blast
qed

text \<open>From positions to indices: a list is known by its elements at the positions of all indices.\<close>

lemma list_eq_space:
  assumes "list_all (\<lambda>d. 0 \<le> d) shape" "length ys = length (index_space shape)"
    and "\<And>i. inBounds i shape \<Longrightarrow> ys ! nat (flat shape i) = g i"
  shows "ys = map g (index_space shape)"
proof (rule length_eq_nth_imp)
  fix k assume "k < length ys"
  then have k: "k < length (index_space shape)" "int k < prod_list shape"
    using assms(2) length_index_space [OF assms(1)] by auto
  then have "flat shape (index_space shape ! k) = int k"
    using arg_cong [OF flat_index_space [OF assms(1)], of "\<lambda>xs. xs ! k"] by (simp add: upto_int_nth)
  then show "ys ! k = map g (index_space shape) ! k"
    using assms(3) [of "index_space shape ! k"] nth_mem [OF k(1)] k(1) by simp
qed (simp add: assms(2))

lemma reverse_strides_ok:
  assumes "list_all (\<lambda>d. 0 < d) shape"
  shows "reverse_strides shape (prod_list shape) = Inr (map (\<lambda>k. prod_list (drop k shape)) [0..<Suc (length shape)])"
  using assms
proof (induction shape)
  case (Cons d ds)
  have "trunc_div (d * prod_list ds) d = prod_list ds"
    using Cons.prems prod_list_pos [of ds] by (simp add: trunc_div_def sgn_mult abs_mult)
  with Cons show ?case by (simp add: upt_conv_Cons map_Suc_upt [symmetric] comp_def del: upt_Suc)
qed simp

definition flip :: "Sizes \<Rightarrow> nat \<Rightarrow> Index \<Rightarrow> Index" where
  "flip shape d i = i[d := shape ! d - i ! d - 1]"

lemma reverse_dim_flips:
  assumes "list_all (\<lambda>d. 0 < d) shape" "0 \<le> dim" "dim < int (length shape)"
  shows "reverse_dim shape (map (\<lambda>k. prod_list (drop k shape)) [0..<Suc (length shape)]) (prod_list shape) dim (map f (index_space shape)) =
    Inr (map (\<lambda>i. f (flip shape (nat dim) i)) (index_space shape))"
proof -
  define d where "d = nat dim"
  have d: "d < length shape" "dim = int d" using assms by (auto simp: d_def)
  define pre N post where s: "pre = take d shape" "N = shape ! d" "post = drop (Suc d) shape"
  have shape: "shape = pre @ N # post" "length pre = d" using d by (simp_all add: s id_take_nth_drop)
  have pos: "0 < N" "0 < prod_list post" "0 < prod_list pre"
    using assms(1) prod_list_pos [of pre] prod_list_pos [of post] by (simp_all add: shape(1))
  have nonneg: "list_all (\<lambda>d. 0 \<le> d) shape" using assms(1) by (auto simp: list_all_iff)
  have prod: "prod_list shape = prod_list pre * (N * prod_list post)" by (simp add: shape(1))
  have stride: "prod_list (drop d shape) = N * prod_list post" using shape by simp
  let ?xs = "map f (index_space shape)"
  obtain ys where ys: "reverse_dim shape (map (\<lambda>k. prod_list (drop k shape)) [0..<Suc (length shape)]) (prod_list shape) dim ?xs = Inr ys"
    "length ys = length ?xs"
    "\<And>p. 0 \<le> p \<Longrightarrow> p < prod_list shape \<Longrightarrow> ys ! nat p = ?xs ! nat (mirror N (prod_list post) p)"
    using reverse_dim_mirrors [of shape dim N "map (\<lambda>k. prod_list (drop k shape)) [0..<Suc (length shape)]" "prod_list post"
        "prod_list pre" "prod_list shape" ?xs] d s(2) stride prod pos length_index_space [OF nonneg]
    by (auto simp: vec_nth_int simp del: upt_Suc)
  have "ys ! nat (flat shape i) = f (flip shape d i)" if i: "inBounds i shape" for i
  proof -
    define a v b where "a = take d i" "v = i ! d" "b = drop (Suc d) i"
    have dl: "d < length i" using inBounds_length [OF i] d by simp
    then have idx: "i = a @ v # b" "length a = d" by (simp_all add: \<open>a = _\<close> \<open>v = _\<close> \<open>b = _\<close> id_take_nth_drop)
    have b: "inBounds (v # b) (N # post)" "inBounds a pre"
      using i idx(2) shape(2) unfolding idx(1) shape(1) by (simp_all add: inBounds_def list_all2_append)
    have at: "flat shape (a @ w # b) = (flat pre a * N + w) * prod_list post + flat post b" for w
      using flat_append [of a pre "N # post" "w # b"] idx(2) shape by (simp add: algebra_simps)
    have "inBounds (flip shape d i) shape" using i d by (auto simp: inBounds_nth flip_def nth_list_update)
    moreover have "mirror N (prod_list post) (flat shape i) = flat shape (flip shape d i)"
    proof -
      have "flip shape d i = a @ (N - 1 - v) # b"
        using idx s(2) by (simp add: flip_def nth_append list_update_append)
      then show ?thesis
        using mirror_at [of v N "flat post b" "prod_list post" "flat pre a"] b flat_bounds [of b post] at idx(1) by simp
    qed
    ultimately show ?thesis
      using ys(3) [of "flat shape i"] flat_bounds [OF i] index_space_nth_map(1) [OF nonneg, of "flip shape d i" f] by simp
  qed
  from list_eq_space [OF nonneg _ this] ys(2) have "ys = map (\<lambda>i. f (flip shape d i)) (index_space shape)" by simp
  with ys(1) show ?thesis by (simp add: d_def)
qed

lemma flip_reversed:
  assumes "int d \<notin> set dims" "d < length i" "length i = length shape"
  shows "flip shape d (reversed shape dims i) = reversed shape (int d # dims) i"
  using assms by (intro length_eq_nth_imp) (auto simp: flip_def reversed_def nth_list_update)

lemma reverse_dims:
  assumes "list_all (\<lambda>d. 0 < d) shape" "distinct dims" "set dims \<subseteq> {0..<int (length shape)}"
  shows "foldM (reverse_dim shape (map (\<lambda>k. prod_list (drop k shape)) [0..<Suc (length shape)]) (prod_list shape)) dims
      (map f (index_space shape)) = Inr (map (\<lambda>i. f (reversed shape dims i)) (index_space shape))"
  using assms(2,3)
proof (induction dims arbitrary: f)
  case Nil
  have "reversed shape [] i = i" for i by (simp add: reversed_def map_nth)
  then show ?case by simp
next
  case (Cons dim dims)
  have dim: "0 \<le> dim" "dim < int (length shape)" "dim \<notin> set dims" using Cons.prems by auto
  have "map (\<lambda>i. f (flip shape (nat dim) (reversed shape dims i))) (index_space shape) =
      map (\<lambda>i. f (reversed shape (dim # dims) i)) (index_space shape)"
    using flip_reversed [of "nat dim" dims] dim inBounds_length by (intro map_cong) auto
  then show ?case
    using Cons.IH [of "\<lambda>i. f (flip shape (nat dim) i)"] Cons.prems reverse_dim_flips [OF assms(1) dim(1,2), of f] by (simp del: upt_Suc)
qed

lemma foldReverseHelper_reverses:
  assumes "list_all (\<lambda>d. 0 < d) (getShape ty)" "distinct dims" "set dims \<subseteq> {0..<int (length (getShape ty))}"
    and "d_values d = map f (index_space (getShape ty))"
  shows "foldReverseHelper d ty dims =
    Inr \<lparr>d_type = ty, d_values = map (\<lambda>i. f (reversed (getShape ty) dims i)) (index_space (getShape ty))\<rparr>"
proof -
  have nonneg: "list_all (\<lambda>d. 0 \<le> d) (getShape ty)" using assms(1) by (auto simp: list_all_iff)
  have n: "d_numElements d = prod_list (getShape ty)" "int (length (index_space (getShape ty))) = getNumElements ty"
    using length_index_space [OF nonneg] prod_list_pos [OF assms(1)] by (simp_all add: d_numElements_def assms(4) getNumElements_def)
  then show ?thesis
    unfolding foldReverseHelper_def n(1) reverse_strides_ok [OF assms(1)] rbind_Inr assms(4) reverse_dims [OF assms(1-3)]
    by (simp add: Dense_get_def)
qed

section \<open>Slices\<close>

text \<open>What MLIR documents of its index arithmetic.\<close>

definition indexing_ok :: "('f, 'd) mlir_api \<Rightarrow> bool" where
  "indexing_ok M \<longleftrightarrow>
     (\<forall>shape. computeStrides M shape = map (\<lambda>k. prod_list (drop (Suc k) shape)) [0..<length shape]) \<and>
     (\<forall>offsets strides. linearize M offsets strides = sum_list (map2 (*) offsets strides)) \<and>
     (\<forall>shape i. inBounds i shape \<longrightarrow> delinearize M (linearize M i (computeStrides M shape)) (computeStrides M shape) = i) \<and>
     (\<forall>xs perm. applyPermutation M xs perm = map (\<lambda>k. xs ! nat k) perm) \<and>
     (\<forall>perm. distinct perm \<longrightarrow> set perm = {0..<int (length perm)} \<longrightarrow>
        length (invertPermutationVector M perm) = length perm \<and>
        (\<forall>k < length perm. invertPermutationVector M perm ! nat (perm ! k) = int k))"

lemma indexing_okD:
  assumes "indexing_ok M"
  shows "computeStrides M shape = map (\<lambda>k. prod_list (drop (Suc k) shape)) [0..<length shape]"
    "linearize M offsets strides = sum_list (map2 (*) offsets strides)"
    "inBounds i shape \<Longrightarrow> delinearize M (linearize M i (computeStrides M shape)) (computeStrides M shape) = i"
    "applyPermutation M xs perm = map (\<lambda>k. xs ! nat k) perm"
    "distinct perm \<Longrightarrow> set perm = {0..<int (length perm)} \<Longrightarrow> length (invertPermutationVector M perm) = length perm"
    "distinct perm \<Longrightarrow> set perm = {0..<int (length perm)} \<Longrightarrow> k < length perm \<Longrightarrow> invertPermutationVector M perm ! nat (perm ! k) = int k"
  using assms unfolding indexing_ok_def by blast+

lemma linearize_flat:
  assumes "indexing_ok M" "length i = length shape"
  shows "linearize M i (computeStrides M shape) = flat shape i"
proof -
  have "linearize M i (computeStrides M shape) = sum_list (map2 (*) i (map (\<lambda>k. prod_list (drop (Suc k) shape)) [0..<length shape]))"
    by (simp add: indexing_okD [OF assms(1)])
  also have "\<dots> = (\<Sum>k<length i. prod_list (drop (Suc k) shape) * i ! k)"
    using assms(2) by (simp add: sum_list_sum_nth atLeast0LessThan mult.commute)
  finally show ?thesis using flat_sum [OF assms(2)] by simp
qed

lemma divideCeil_le_iff: "0 < d \<Longrightarrow> divideCeil n d \<le> m \<longleftrightarrow> n \<le> m * d"
proof -
  assume d: "0 < d"
  have le: "x * d \<le> y \<longleftrightarrow> x \<le> y div d" for x y
  proof
    assume "x * d \<le> y"
    from zdiv_mono1 [OF this d] d show "x \<le> y div d" by simp
  next
    assume "x \<le> y div d"
    then have "x * d \<le> y div d * d" using d by (intro mult_right_mono) auto
    then show "x * d \<le> y" using pos_mod_sign [OF d, of y] by (simp add: minus_mod_eq_div_mult [symmetric])
  qed
  have "divideCeil n d \<le> m \<longleftrightarrow> \<not> m + 1 \<le> (n + d - 1) div d" by (auto simp: divideCeil_def)
  also have "\<dots> \<longleftrightarrow> \<not> (m + 1) * d \<le> n + d - 1" by (simp only: le)
  finally show ?thesis by (auto simp: distrib_right)
qed

definition slice_source :: "int list \<Rightarrow> int list \<Rightarrow> Index \<Rightarrow> Index" where
  "slice_source start strides i = map2 (+) start (map2 (*) i strides)"

definition slice_shape_ok :: "int list \<Rightarrow> int list \<Rightarrow> int list \<Rightarrow> Sizes \<Rightarrow> bool" where
  "slice_shape_ok start limit strides shape \<longleftrightarrow>
     length start = length shape \<and> length shape \<le> length limit \<and> length strides = length shape \<and>
     (\<forall>k < length shape. 0 < strides ! k \<and> shape ! k = divideCeil (limit ! k - start ! k) (strides ! k))"

lemma slice_source_update:
  assumes "slice_shape_ok start limit strides shape" "length i = length shape" "k < length shape"
  shows "slice_source start strides (i[k := x]) = (slice_source start strides i)[k := start ! k + x * strides ! k]"
  using assms by (intro length_eq_nth_imp) (auto simp: slice_source_def slice_shape_ok_def nth_list_update)

lemma slice_advance_incr:
  assumes "slice_shape_ok start limit strides shape" "inBounds i shape" "k \<le> length shape"
  shows "\<exists>j. slice_advance start limit strides k (slice_source start strides i) = Inr (slice_source start strides j) \<and>
    (incr_loop shape k i = Some j \<or> incr_loop shape k i = None)"
  using assms(2,3)
proof (induction k arbitrary: i)
  case (Suc k)
  note ok = assms(1) [unfolded slice_shape_ok_def]
  have k: "k < length shape" "length i = length shape" using Suc.prems inBounds_length by auto
  have src: "slice_source start strides i ! k = start ! k + i ! k * strides ! k" "length (slice_source start strides i) = length shape"
    using ok k by (simp_all add: slice_source_def)
  have wrap: "limit ! k \<le> start ! k + i ! k * strides ! k + strides ! k \<longleftrightarrow> shape ! k \<le> i ! k + 1"
    using ok k(1) divideCeil_le_iff [of "strides ! k" "limit ! k - start ! k" "i ! k + 1"] by (auto simp: algebra_simps)
  show ?case
  proof (cases "shape ! k \<le> i ! k + 1")
    case True
    have zero: "slice_source start strides (i[k := 0]) = (slice_source start strides i)[k := start ! k]"
      using slice_source_update [OF assms(1) k(2,1), of 0] by simp
    have "inBounds (i[k := 0]) shape" using Suc.prems(1) k by (auto simp: inBounds_nth nth_list_update)
    from Suc.IH [OF this] Suc.prems(2) obtain j where
      "slice_advance start limit strides k ((slice_source start strides i)[k := start ! k]) = Inr (slice_source start strides j)"
      "incr_loop shape k (i[k := 0]) = Some j \<or> incr_loop shape k (i[k := 0]) = None"
      unfolding zero by auto
    with True wrap src ok k show ?thesis by (auto simp: Let_def)
  next
    case False
    then show ?thesis
      using wrap src ok k slice_source_update [OF assms(1) k(2,1), of "i ! k + 1"]
      by (intro exI [of _ "i[k := i ! k + 1]"]) (auto simp: Let_def algebra_simps)
  qed
qed simp

lemma slice_step:
  assumes "slice_shape_ok start limit strides shape" "k < length (index_space shape)"
  shows "\<exists>s. slice_advance start limit strides (length shape) (slice_source start strides (index_space shape ! k)) = Inr s \<and>
    (Suc k < length (index_space shape) \<longrightarrow> s = slice_source start strides (index_space shape ! Suc k))"
proof -
  have i: "inBounds (index_space shape ! k) shape" using nth_mem [OF assms(2)] by simp
  from slice_advance_incr [OF assms(1) i order_refl] obtain j where
    j: "slice_advance start limit strides (length shape) (slice_source start strides (index_space shape ! k)) =
        Inr (slice_source start strides j)"
    "incr_loop shape (length shape) (index_space shape ! k) = Some j \<or>
     incr_loop shape (length shape) (index_space shape ! k) = None" by blast
  have "j = index_space shape ! Suc k" if "Suc k < length (index_space shape)"
  proof -
    have "shape \<noteq> []" using that by (cases shape) auto
    then have "incr_loop shape (length shape) (index_space shape ! k) = next_index shape (index_space shape ! k)"
      using incr_loop_next_index [OF i] by simp
    then show ?thesis using j(2) next_index_nth [OF assms(2)] that by auto
  qed
  with j(1) show ?thesis by auto
qed

lemma slice_loop:
  assumes "slice_shape_ok start limit strides shape" "k + length xs \<le> length (index_space shape)"
    and "xs \<noteq> [] \<Longrightarrow> s = slice_source start strides (index_space shape ! k)"
    and "\<And>i. inBounds i shape \<Longrightarrow> get (slice_source start strides i) = Inr (g i)"
  shows "\<exists>s'. foldM (\<lambda>_ (src, result). rbind (get src) (\<lambda>x.
      rbind (slice_advance start limit strides (length src) src) (\<lambda>src. Inr (src, result @ [x])))) xs (s, acc) =
    Inr (s', acc @ map g (take (length xs) (drop k (index_space shape))))"
  using assms(2,3)
proof (induction xs arbitrary: k s acc)
  case (Cons x xs)
  let ?i = "index_space shape ! k"
  have k: "k < length (index_space shape)" using Cons.prems by simp
  have i: "inBounds ?i shape" using nth_mem [OF k] by simp
  have s: "s = slice_source start strides ?i" using Cons.prems(2) by simp
  have len: "length s = length shape"
    using assms(1) inBounds_length [OF i] by (simp add: s slice_source_def slice_shape_ok_def)
  obtain s1 where s1: "slice_advance start limit strides (length shape) s = Inr s1"
    "Suc k < length (index_space shape) \<Longrightarrow> s1 = slice_source start strides (index_space shape ! Suc k)"
    using slice_step [OF assms(1) k] s by auto
  have "xs \<noteq> [] \<Longrightarrow> s1 = slice_source start strides (index_space shape ! Suc k)"
    using s1(2) Cons.prems(1) by (cases xs) auto
  from Cons.IH [OF _ this, of "acc @ [g ?i]"] Cons.prems(1) obtain s' where
    "foldM (\<lambda>_ (src, result). rbind (get src) (\<lambda>x.
        rbind (slice_advance start limit strides (length src) src) (\<lambda>src. Inr (src, result @ [x])))) xs (s1, acc @ [g ?i]) =
      Inr (s', (acc @ [g ?i]) @ map g (take (length xs) (drop (Suc k) (index_space shape))))" by auto
  with assms(4) [OF i] s s1(1) len k show ?case by (auto simp: Cons_nth_drop_Suc [symmetric])
qed simp

lemma sliceType_slices:
  assumes "indexing_ok M" "slice_shape_ok start limit strides (getShape ty)" "list_all (\<lambda>d. 0 \<le> d) (getShape ty)"
    and "list_all (\<lambda>d. 0 \<le> d) (getShape oty)" "data = map f (index_space (getShape oty))"
    and "\<And>i. inBounds i (getShape ty) \<Longrightarrow> inBounds (slice_source start strides i) (getShape oty)"
  shows "sliceType M oty ty start limit strides data =
    Inr \<lparr>d_type = ty, d_values = map (\<lambda>i. f (slice_source start strides i)) (index_space (getShape ty))\<rparr>"
proof -
  let ?space = "index_space (getShape ty)"
  have get: "vec_nth data (linearize M (slice_source start strides i) (computeStrides M (getShape oty))) = Inr (f (slice_source start strides i))"
    if i: "inBounds i (getShape ty)" for i
  proof -
    note b = assms(6) [OF i]
    show ?thesis
      using linearize_flat [OF assms(1) inBounds_length [OF b]] index_space_nth_map [OF assms(4) b] flat_bounds [OF b]
      by (simp add: assms(5) vec_nth_def nat_less_iff)
  qed
  have n: "int (length ?space) = getNumElements ty"
    using length_index_space [OF assms(3)] assms(3) by (simp add: getNumElements_def prod_list_nonneg list_all_iff)
  have start: "start = slice_source start strides (?space ! 0)" if "?space \<noteq> []"
  proof -
    have "?space ! 0 = replicate (length (getShape ty)) 0"
      using that index_space_empty space_from_zero space_from_step by (metis nth_Cons_0)
    then show ?thesis using assms(2) by (intro length_eq_nth_imp) (auto simp: slice_source_def slice_shape_ok_def)
  qed
  have fits: "0 + length (upto_int (getNumElements ty)) \<le> length ?space" using n by simp
  have "upto_int (getNumElements ty) \<noteq> [] \<Longrightarrow> start = slice_source start strides (?space ! 0)"
    using start n by (cases "?space = []") auto
  from slice_loop [where get = "\<lambda>src. vec_nth data (linearize M src (computeStrides M (getShape oty)))" and acc = "[]",
      OF assms(2) fits this get] obtain s' where
    "foldM (\<lambda>_ (src, result). rbind (vec_nth data (linearize M src (computeStrides M (getShape oty)))) (\<lambda>x.
      rbind (slice_advance start limit strides (length src) src) (\<lambda>src. Inr (src, result @ [x])))) (upto_int (getNumElements ty)) (start, []) =
    Inr (s', map (\<lambda>i. f (slice_source start strides i)) ?space)"
    using n by auto
  then show ?thesis by (simp add: sliceType_def Let_def Dense_get_def n)
qed

section \<open>Transpositions\<close>

lemma transposeType_transposes:
  assumes "indexing_ok M" "distinct perm" "set perm = {0..<int (length perm)}" "length (getShape oty) = length perm"
    and "getShape ty = permuted perm (getShape oty)" "list_all (\<lambda>d. 0 \<le> d) (getShape oty)" "data = map f (index_space (getShape oty))"
  shows "transposeType M oty ty perm data = Inr \<lparr>d_type = ty, d_values = map (\<lambda>j. f (unpermute perm j)) (index_space (getShape ty))\<rparr>"
proof -
  let ?shape = "getShape ty" and ?inv = "invertPermutationVector M perm"
  have inv: "length ?inv = length perm" "\<And>k. k < length perm \<Longrightarrow> ?inv ! nat (perm ! k) = int k"
    using indexing_okD(5,6) [OF assms(1-3)] by simp_all
  have nonneg: "list_all (\<lambda>d. 0 \<le> d) ?shape"
    using assms(3-6) by (auto simp: permuted_def list_all_iff)
  have source: "applyPermutation M j ?inv = unpermute perm j" for j
  proof (rule length_eq_nth_imp)
    show len: "length (applyPermutation M j ?inv) = length (unpermute perm j)"
      using inv(1) by (simp add: indexing_okD(4) [OF assms(1)] unpermute_def)
    fix k assume "k < length (applyPermutation M j ?inv)"
    then have k: "k < length perm" using len by (simp add: unpermute_def)
    then have "int k \<in> set perm" using assms(3) by simp
    then obtain m where m: "find_index (int k) perm = Some m" "m < length perm" "perm ! m = int k"
      using find_index_Some [of "int k" perm] by blast
    have "?inv ! k = int m" using inv(2) [OF m(2)] unfolding m(3) by simp
    then show "applyPermutation M j ?inv ! k = unpermute perm j ! k"
      using k m(1) inv(1) by (simp add: indexing_okD(4) [OF assms(1)] unpermute_def)
  qed
  have entry: "vec_nth data (linearize M (applyPermutation M (delinearize M (int k) (computeStrides M ?shape)) ?inv)
      (computeStrides M (getShape oty))) = Inr (f (unpermute perm (index_space ?shape ! k)))" if k: "k < length (index_space ?shape)" for k
  proof -
    let ?j = "index_space ?shape ! k"
    have j: "inBounds ?j ?shape" using nth_mem [OF k] by simp
    have "flat ?shape ?j = int k"
      using arg_cong [OF flat_index_space [OF nonneg], of "\<lambda>xs. xs ! k"] k length_index_space [OF nonneg] by (simp add: upto_int_nth)
    then have "delinearize M (int k) (computeStrides M ?shape) = ?j"
      using indexing_okD(3) [OF assms(1) j] linearize_flat [OF assms(1) inBounds_length [OF j]] by simp
    moreover have b: "inBounds (unpermute perm ?j) (getShape oty)"
      using unpermute_inBounds [of perm "getShape oty" ?j] assms(2-5) j by simp
    ultimately show ?thesis
      using linearize_flat [OF assms(1) inBounds_length [OF b]] index_space_nth_map [OF assms(6) b] flat_bounds [OF b]
      by (simp add: source assms(7) vec_nth_def nat_less_iff)
  qed
  have n: "getNumElements ty = int (length (index_space ?shape))"
    using length_index_space [OF nonneg] nonneg by (simp add: getNumElements_def prod_list_nonneg list_all_iff)
  have "mapM (\<lambda>i. vec_nth data (linearize M (applyPermutation M (delinearize M i (computeStrides M ?shape)) ?inv)
      (computeStrides M (getShape oty)))) (upto_int (getNumElements ty)) = Inr (map (\<lambda>j. f (unpermute perm j)) (index_space ?shape))"
    using entry by (auto simp: mapM_eq_Inr n)
  then show ?thesis by (simp add: transposeType_def Let_def Dense_get_def n)
qed

section \<open>Concatenations\<close>

lemma take_drop_concat:
  assumes "\<And>xs. xs \<in> set xss \<Longrightarrow> length xs = n" "k < length xss"
  shows "take n (drop (k * n) (concat xss)) = xss ! k"
  using assms
proof (induction xss arbitrary: k)
  case (Cons xs xss)
  then show ?case by (cases k) simp_all
qed simp

lemma upto_int_add: "0 \<le> m \<Longrightarrow> 0 \<le> n \<Longrightarrow> upto_int (m + n) = upto_int m @ map (\<lambda>x. m + x) (upto_int n)"
  by (intro length_eq_nth_imp) (auto simp: nth_append nat_add_distrib)

lemma index_space_Cons_add:
  assumes "0 \<le> m" "0 \<le> n"
  shows "index_space ((m + n) # post) = index_space (m # post) @ map (\<lambda>b. (m + hd b) # tl b) (index_space (n # post))"
  by (simp add: upto_int_add [OF assms] map_concat comp_def)

lemma concatenated_Cons:
  assumes "length a = d"
  shows "concatenated d (n # ns) (f # fs) (a @ v # b) = (if v < n then f (a @ v # b) else concatenated d ns fs (a @ (v - n) # b))"
  using assms by (simp add: concatenated_def nth_append list_update_append split: prod.split)

lemma concatenated_rows:
  assumes "length a = d" "list_all (\<lambda>n. 0 \<le> n) ns" "length fs = length ns"
  shows "concat (map2 (\<lambda>n f. map (\<lambda>b. f (a @ b)) (index_space (n # post))) ns fs) =
    map (\<lambda>b. concatenated d ns fs (a @ b)) (index_space (sum_list ns # post))"
  using assms(2,3)
proof (induction ns arbitrary: fs)
  case (Cons n ns)
  obtain f fs' where fs: "fs = f # fs'" "length fs' = length ns" using Cons.prems(2) by (cases fs) auto
  have nonneg: "0 \<le> n" "0 \<le> sum_list ns" using Cons.prems(1) by (auto simp: list_all_iff intro: sum_list_nonneg)
  have "map (\<lambda>b. concatenated d (n # ns) fs (a @ b)) (index_space (n # post)) = map (\<lambda>b. f (a @ b)) (index_space (n # post))"
    by (auto simp: concatenated_Cons [OF assms(1)] fs)
  moreover have "map (\<lambda>b. concatenated d (n # ns) fs (a @ (n + hd b) # tl b)) (index_space (sum_list ns # post)) =
      map (\<lambda>b. concatenated d ns fs' (a @ b)) (index_space (sum_list ns # post))"
    by (auto simp: concatenated_Cons [OF assms(1)] fs)
  ultimately show ?case
    using Cons.IH [of fs'] Cons.prems(1) fs index_space_Cons_add [OF nonneg, of post] by (simp add: comp_def del: index_space.simps)
qed simp

lemma concat_map_upto_int:
  assumes "\<And>k. k < length xs \<Longrightarrow> g (int k) = g' (xs ! k)" "n = int (length xs)"
  shows "concat (map g (upto_int n)) = concat (map g' xs)"
  using assms by (intro arg_cong [of _ _ concat] length_eq_nth_imp) auto

lemma concatenate_elements_correct:
  assumes "list_all (\<lambda>d. 0 \<le> d) pre" "list_all (\<lambda>d. 0 \<le> d) post" "list_all (\<lambda>n. 0 \<le> n) ns" "length fs = length ns"
    and "map d_values ds = map2 (\<lambda>n f. map f (index_space (pre @ n # post))) ns fs"
  shows "concatenate_elements (prod_list pre) ds =
    map (concatenated (length pre) ns fs) (index_space (pre @ sum_list ns # post))"
proof -
  let ?P = "index_space pre"
  have len: "length ds = length ns" using arg_cong [OF assms(5), of length] assms(4) by simp
  have P: "prod_list pre = int (length ?P)"
    using length_index_space [OF assms(1)] prod_list_nonneg [of pre] assms(1) by (simp add: list_all_iff)
  have chunk: "(let bottomSize = nat (d_numElements attr div prod_list pre) in take bottomSize (drop (i * bottomSize) (d_values attr))) =
      map (\<lambda>b. (fs ! m) (?P ! i @ b)) (index_space (ns ! m # post))"
    if m: "m < length ds" "attr = ds ! m" and i: "i < length ?P" for m attr i
  proof -
    let ?rows = "map (\<lambda>a. map (\<lambda>b. (fs ! m) (a @ b)) (index_space (ns ! m # post))) ?P"
    let ?L = "length (index_space (ns ! m # post))"
    have "d_values attr = map (fs ! m) (index_space (pre @ ns ! m # post))"
      using arg_cong [OF assms(5), of "\<lambda>xs. xs ! m"] m len assms(4) by simp
    also have "\<dots> = concat ?rows" by (simp add: index_space_append map_concat comp_def del: index_space.simps)
    finally have v: "d_values attr = concat ?rows" .
    then have "d_numElements attr = int (length ?P * ?L)"
      by (simp add: d_numElements_def length_concat comp_def sum_list_triv del: index_space.simps)
    moreover have "?P \<noteq> []" using i by auto
    ultimately have "nat (d_numElements attr div prod_list pre) = ?L" unfolding P by (simp del: index_space.simps)
    moreover have "take ?L (drop (i * ?L) (concat ?rows)) = ?rows ! i"
      by (rule take_drop_concat) (use i in auto)
    ultimately show ?thesis using i v by (simp add: Let_def del: index_space.simps)
  qed
  have inner: "concat (map (\<lambda>attr. let bottomSize = nat (d_numElements attr div prod_list pre) in
        take bottomSize (drop (nat (int i) * bottomSize) (d_values attr))) ds) =
      map (\<lambda>b. concatenated (length pre) ns fs (?P ! i @ b)) (index_space (sum_list ns # post))" if i: "i < length ?P" for i
  proof -
    have "map (\<lambda>attr. let bottomSize = nat (d_numElements attr div prod_list pre) in
        take bottomSize (drop (nat (int i) * bottomSize) (d_values attr))) ds =
      map2 (\<lambda>n f. map (\<lambda>b. f (?P ! i @ b)) (index_space (n # post))) ns fs"
      using chunk [OF _ refl i] len assms(4) by (intro length_eq_nth_imp) (simp_all add: Let_def del: index_space.simps)
    moreover have "length (?P ! i) = length pre" using nth_mem [OF i] inBounds_length by simp
    ultimately show ?thesis using concatenated_rows [OF _ assms(3,4)] by simp
  qed
  have "concatenate_elements (prod_list pre) ds =
      concat (map (\<lambda>a. map (\<lambda>b. concatenated (length pre) ns fs (a @ b)) (index_space (sum_list ns # post))) ?P)"
    unfolding concatenate_elements_def using inner P by (intro concat_map_upto_int) auto
  then show ?thesis by (simp add: index_space_append map_concat comp_def del: index_space.simps)
qed

end
