(* ===== verification/Program_Types.thy ===== *)
theory Program_Types
  imports Dispatch Gather_Correct Op_Types_Correct Dot_Correct Concat_Correct Reshape_Correct
begin

text \<open>
  Programs that the dialect's verifiers and shape functions accept do not go wrong: a notion of a well-typed program for a fragment of
  the dialect, built from the very functions of \<open>TypeInference.cpp\<close>, and the lemmas that its operations compute values of the declared
  types.
\<close>

section \<open>Outcomes\<close>

text \<open>
  Evaluation returns something good, or it runs out of fuel where that is allowed (\<open>loops\<close>); no error of the interpreter is possible.
\<close>

definition safe :: "bool \<Rightarrow> 'a result \<Rightarrow> ('a \<Rightarrow> bool) \<Rightarrow> bool" where
  "safe loops r P \<longleftrightarrow> (loops \<and> r = Inl OutOfFuel) \<or> (\<exists>x. r = Inr x \<and> P x)"

lemma safe_Inr [simp]: "safe loops (Inr x) P \<longleftrightarrow> P x"
  by (simp add: safe_def)

lemma safe_fuel [simp]: "safe loops (Inl OutOfFuel) P \<longleftrightarrow> loops"
  by (simp add: safe_def)

lemma safe_rbind: "safe loops m P \<Longrightarrow> (\<And>x. P x \<Longrightarrow> safe loops (f x) Q) \<Longrightarrow> safe loops (rbind m f) Q"
  by (cases m; fastforce simp: safe_def)

lemma safe_mono: "safe loops m P \<Longrightarrow> (\<And>x. P x \<Longrightarrow> Q x) \<Longrightarrow> safe loops m Q"
  by (auto simp: safe_def)

section \<open>Values and scopes of the declared types\<close>

definition good :: "('f, 'd) float_api \<Rightarrow> Values.ValueType \<Rightarrow> InterpreterValue \<Rightarrow> bool" where
  "good F ty v \<longleftrightarrow> (\<exists>t f. v = TensorValue t \<and> ty = Values.TensorType (t_type t) \<and> denotes F t f)"

definition scope_ok :: "('f, 'd) float_api \<Rightarrow> SsaValue list \<Rightarrow> Scope \<Rightarrow> bool" where
  "scope_ok F V scope \<longleftrightarrow> (\<forall>v \<in> set V. \<exists>x. Scope_find scope v = Inr x \<and> good F (ssa_type v) x)"

definition tensor_type :: "SsaValue \<Rightarrow> ShapedType" where
  "tensor_type v = (case ssa_type v of Values.TensorType t \<Rightarrow> t | _ \<Rightarrow> \<lparr>getShape = [], getElementType = i1Type\<rparr>)"

definition ranked :: "SsaValue \<Rightarrow> RankedTensorType" where
  "ranked v = as_ranked (tensor_type v)"

lemma scope_ok_tensor:
  assumes "scope_ok F V scope" "v \<in> set V"
  obtains t f where "findTensor scope v = Inr t" "t_type t = tensor_type v" "denotes F t f" "ssa_type v = Values.TensorType (t_type t)"
  using assms by (force simp: scope_ok_def good_def findTensor_def tensor_type_def)

lemma scope_ok_tensors:
  assumes "scope_ok F V scope" "set vs \<subseteq> set V"
  obtains ts fs where "findTensors scope vs = Inr ts" "map t_type ts = map tensor_type vs" "list_all2 (denotes F) ts fs"
  using assms(2)
proof (induction vs arbitrary: thesis)
  case Nil
  then show ?case by (simp add: findTensors_def)
next
  case (Cons v vs)
  obtain t f where t: "findTensor scope v = Inr t" "t_type t = tensor_type v" "denotes F t f"
    using Cons.prems(2) by (auto intro: scope_ok_tensor [OF assms(1), of v])
  obtain ts fs where "findTensors scope vs = Inr ts" "map t_type ts = map tensor_type vs" "list_all2 (denotes F) ts fs"
    using Cons.IH Cons.prems(2) by auto
  with t show ?case by (intro Cons.prems(1) [of "t # ts" "f # fs"]) (simp_all add: findTensors_def)
qed

lemma scope_ok_all:
  assumes "scope_ok F V scope" "set vs \<subseteq> set V"
  obtains xs where "Scope_find_all scope vs = Inr xs" "list_all2 (good F) (map ssa_type vs) xs"
  using assms(2)
proof (induction vs arbitrary: thesis)
  case Nil
  then show ?case by (simp add: Scope_find_all_def)
next
  case (Cons v vs)
  obtain x where x: "Scope_find scope v = Inr x" "good F (ssa_type v) x"
    using assms(1) Cons.prems(2) by (auto simp: scope_ok_def)
  obtain xs where "Scope_find_all scope vs = Inr xs" "list_all2 (good F) (map ssa_type vs) xs"
    using Cons.IH Cons.prems(2) by auto
  with x show ?case by (intro Cons.prems(1) [of "x # xs"]) (simp_all add: Scope_find_all_def)
qed

section \<open>Integer tensors\<close>

definition integers :: "ShapedType \<Rightarrow> bool" where
  "integers ty = (case getElementType ty of IntegerType s w \<Rightarrow> isSupportedIntegerType (IntegerType s w) | _ \<Rightarrow> False)"

lemma integers_denote:
  assumes "denotes F t f" "integers (t_type t)"
  obtains s w a where "denotes_int F t s w a" "t_elementType t = IntegerType s w"
proof -
  obtain s w where el: "t_elementType t = IntegerType s w" and sup: "isSupportedIntegerType (IntegerType s w)"
    using assms(2) by (auto simp: integers_def split: Type.splits)
  have "\<exists>x. inBounds i (t_shape t) \<longrightarrow> f i = int_el s w x \<and> in_range s w x" for i
    using denotes_storable [OF assms(1), of i] storable_int_el [OF sup, of F "f i"] el by metis
  then obtain a where a: "inBounds i (t_shape t) \<Longrightarrow> f i = int_el s w (a i) \<and> in_range s w (a i)" for i
    by metis
  then have "denotes F t (\<lambda>i. int_el s w (a i))" by (auto intro: denotes_cong [OF assms(1)])
  then have "denotes_int F t s w a" using el sup a by (simp add: denotes_int_def)
  then show thesis using el that by blast
qed

lemma bools_denote:
  assumes "denotes F t f" "t_elementType t = i1Type"
  obtains p where "denotes F t (\<lambda>i. bool_el (p i))"
proof -
  have "\<exists>b. inBounds i (t_shape t) \<longrightarrow> f i = bool_el b" for i
    using denotes_storable [OF assms(1), of i] assms(2)
    by (auto simp: storable_def element_of_bytes_def supported_defs Element_bool_def split: if_splits) metis+
  then obtain p where p: "inBounds i (t_shape t) \<Longrightarrow> f i = bool_el (p i)" for i by metis
  show thesis by (rule that [OF denotes_cong [OF assms(1) p]])
qed

lemma scalar_evaluates:
  assumes "denotes F t f" "integers (t_type t)" "t_shape t = []"
  obtains v where "evalScalar F t [] = Inr v"
proof -
  obtain s w a where a: "denotes_int F t s w a" by (rule integers_denote [OF assms(1,2)])
  then have "Tensor_get F t [] = Inr (int_el s w (a []))"
    using assms(3) by (auto simp: denotes_int_def intro: denotes_get)
  then show thesis using that a by (simp add: evalScalar_def denotes_int_def)
qed

lemma integer_max_min_denotes:
  assumes "denotes_int F lhs s w a" "denotes_int F rhs s w b" "t_type rhs = t_type lhs"
  shows "(\<exists>r. maxOp F lhs rhs (t_type lhs) = Inr r \<and> t_type r = t_type lhs \<and> denotes F r (\<lambda>i. int_el s w (max (a i) (b i)))) \<and>
    (\<exists>r. minOp F lhs rhs (t_type lhs) = Inr r \<and> t_type r = t_type lhs \<and> denotes F r (\<lambda>i. int_el s w (min (a i) (b i))))"
proof -
  have d: "denotes F lhs (\<lambda>i. int_el s w (a i))" "denotes F rhs (\<lambda>i. int_el s w (b i))" "t_elementType lhs = IntegerType s w"
    "isSupportedIntegerType (IntegerType s w)"
    and r: "\<And>i. inBounds i (t_shape lhs) \<Longrightarrow> in_range s w (a i) \<and> in_range s w (b i)"
    using assms by (auto simp: denotes_int_def)
  note lift = binaryOp_denotes [OF d(1,2) wf_tensor_type [OF denotes_wf [OF d(1)]] refl]
  show ?thesis
    unfolding maxOp_def minOp_def
    using d(3) assms(3) r by (intro conjI; intro lift) (simp_all add: int_el_max_min [OF d(4)] d(4) int_el_storable)
qed

section \<open>The fragment\<close>

definition infers :: "RankedTensorType result \<Rightarrow> ShapedType \<Rightarrow> bool" where
  "infers r ty = (case r of Inr rt \<Rightarrow> as_shaped rt = ty | Inl _ \<Rightarrow> False)"

lemma infersE: "infers r ty \<Longrightarrow> (\<And>rt. r = Inr rt \<Longrightarrow> ty = as_shaped rt \<Longrightarrow> thesis) \<Longrightarrow> thesis"
  by (auto simp: infers_def split: sum.splits)

text \<open>
  What the verifier of an operation with one tensor result checks, for the declared type \<open>ty\<close> of the result. Shapes are static. The
  arithmetic of the fragment is on integers.
\<close>

fun verified_elementwise :: "ShapedType \<Rightarrow> ElementwiseOp \<Rightarrow> bool" where
  "verified_elementwise ty (Unary name a) =
     (name = ReshapeOp \<and> verifyReshapeOp (ranked a) (as_ranked ty) = Inr () \<and> list_all (\<lambda>d. 0 \<le> d) (getShape ty) \<and>
      getElementType ty = getElementType (tensor_type a))"
| "verified_elementwise ty (Binary name a b) =
     (name \<in> {AddOp, SubtractOp, MulOp, MaxOp, MinOp} \<and> integers ty \<and> tensor_type a = ty \<and> tensor_type b = ty)"
| "verified_elementwise ty (ClampOp mn a mx) =
     (integers (tensor_type a) \<and> getElementType (tensor_type mn) = getElementType (tensor_type a) \<and>
      getElementType (tensor_type mx) = getElementType (tensor_type a) \<and> infers (inferClampOp (ranked mn) (ranked a) (ranked mx)) ty)"
| "verified_elementwise ty (CompareOp a b direction) =
     (integers (tensor_type a) \<and> tensor_type b = tensor_type a \<and> ty = \<lparr>getShape = getShape (tensor_type a), getElementType = i1Type\<rparr>)"
| "verified_elementwise ty (SelectOp p t f) =
     (getElementType (tensor_type p) = i1Type \<and> infers (inferSelectOp (ranked p) (ranked t) (ranked f)) ty)"
| "verified_elementwise ty (ReducePrecisionOp a e m) = False"

fun elementwise_operands :: "ElementwiseOp \<Rightarrow> SsaValue list" where
  "elementwise_operands (Unary name a) = [a]"
| "elementwise_operands (Binary name a b) = [a, b]"
| "elementwise_operands (ClampOp a b c) = [a, b, c]"
| "elementwise_operands (CompareOp a b direction) = [a, b]"
| "elementwise_operands (SelectOp a b c) = [a, b, c]"
| "elementwise_operands (ReducePrecisionOp a e m) = [a]"

definition scalar_integers :: "SsaValue list \<Rightarrow> bool" where
  "scalar_integers vs = list_all (\<lambda>v. getShape (tensor_type v) = [] \<and> integers (tensor_type v)) vs"

fun verified_structural :: "ShapedType \<Rightarrow> StructuralOp \<Rightarrow> bool" where
  "verified_structural ty (BroadcastInDimOp a dims) =
     (verifyBroadcastInDimOp (ranked a) dims (as_ranked ty) = Inr () \<and> list_all (\<lambda>d. 0 \<le> d) (getShape ty) \<and>
      getElementType ty = getElementType (tensor_type a))"
| "verified_structural ty (ConcatenateOp as dimension) =
     (infers (inferConcatenateOp (map ranked as) dimension) ty \<and>
      list_all (\<lambda>a. getElementType (tensor_type a) = getElementType ty) as)"
| "verified_structural ty (DynamicSliceOp a starts sizes) =
     (scalar_integers starts \<and>
      inferDynamicSliceOp (tensor_type a) (map (\<lambda>v. getElementType (tensor_type v)) starts) sizes = Inr ty)"
| "verified_structural ty (DynamicUpdateSliceOp a update starts) =
     (scalar_integers starts \<and> getElementType (tensor_type update) = getElementType (tensor_type a) \<and> ty = tensor_type a \<and>
      infers (inferDynamicUpdateSliceOp (ranked a) (tensor_type update) (map (\<lambda>v. getElementType (tensor_type v)) starts)) ty)"
| "verified_structural ty (GatherOp a indices dims sizes hint) =
     ((case getElementType (tensor_type indices) of
         IntegerType Signless w \<Rightarrow> isSupportedIntegerType (IntegerType Signless w) | _ \<Rightarrow> False) \<and>
      infers (inferGatherOp (ranked a) (ranked indices) (offsetDims dims) (collapsedSliceDims dims) (operandBatchingDims dims)
        (startIndicesBatchingDims dims) (startIndexMap dims) (gatherIndexVectorDim dims) sizes) ty \<and>
      list_all (\<lambda>d. sizes ! nat d \<noteq> 0) (collapsedSliceDims dims))"
| "verified_structural ty (PadOp a value low high interior) =
     (getShape (tensor_type value) = [] \<and> getElementType (tensor_type value) = getElementType (tensor_type a) \<and>
      length interior = length low \<and> infers (inferPadOp (ranked a) low high interior) ty)"
| "verified_structural ty (ReverseOp a dims) = (verifyReverseOp (tensor_type a) dims = Inr () \<and> ty = tensor_type a)"
| "verified_structural ty (SliceOp a start limit strides) =
     (length strides = length start \<and> infers (inferSliceOp (ranked a) start limit strides) ty)"
| "verified_structural ty (TransposeOp a permutation) = infers (inferTransposeOp (ranked a) permutation) ty"
| "verified_structural ty _ = False"

fun structural_operands :: "StructuralOp \<Rightarrow> SsaValue list" where
  "structural_operands (BroadcastInDimOp a dims) = [a]"
| "structural_operands (ConcatenateOp as dimension) = as"
| "structural_operands (DynamicBroadcastInDimOp a dims) = [a]"
| "structural_operands (DynamicGatherOp a b c dims hint) = [a, b, c]"
| "structural_operands (DynamicIotaOp d) = []"
| "structural_operands (DynamicPadOp a b c d e) = [a, b, c, d, e]"
| "structural_operands (DynamicSliceOp a starts sizes) = a # starts"
| "structural_operands (DynamicUpdateSliceOp a update starts) = a # update # starts"
| "structural_operands (GatherOp a b dims sizes hint) = [a, b]"
| "structural_operands (GetDimensionSizeOp a d) = [a]"
| "structural_operands (IotaOp d) = []"
| "structural_operands (PadOp a b low high interior) = [a, b]"
| "structural_operands (ReverseOp a dims) = [a]"
| "structural_operands (SliceOp a start limit strides) = [a]"
| "structural_operands (TransposeOp a permutation) = [a]"

text \<open>Of linear algebra the fragment has integer contractions of positions that exist: \<^verbatim>\<open>dotGeneralOp\<close> reads a pair before it checks.\<close>

fun verified_linear :: "ShapedType \<Rightarrow> LinearOp \<Rightarrow> bool" where
  "verified_linear ty (DotGeneralOp a b lb rb lc rc) =
     (integers ty \<and> integers (tensor_type a) \<and> integers (tensor_type b) \<and>
      (case inferDotGeneralOp (ranked a) (ranked b) lb rb lc rc of Inr (dims, _) \<Rightarrow> getShape ty = dims | Inl _ \<Rightarrow> False) \<and>
      list_all (\<lambda>d. 0 < getShape (tensor_type a) ! nat d) lc)"
| "verified_linear ty _ = False"

fun linear_operands :: "LinearOp \<Rightarrow> SsaValue list" where
  "linear_operands (ConvolutionOp a b attrs dims f g) = [a, b]"
| "linear_operands (DotGeneralOp a b lb rb lc rc) = [a, b]"
| "linear_operands (DynamicConvOp a b c attrs dims f g) = [a, b, c]"
| "linear_operands (FftOp a t l) = [a]"
| "linear_operands (TriangularSolveOp a b l lo u tr) = [a, b]"

section \<open>Operations of the fragment compute values of the declared type\<close>

definition computes :: "('f, 'd) float_api \<Rightarrow> Tensor result \<Rightarrow> ShapedType \<Rightarrow> bool" where
  "computes F r ty \<longleftrightarrow> (\<exists>t f. r = Inr t \<and> t_type t = ty \<and> denotes F t f)"

lemma computesI: "\<exists>t. r = Inr t \<and> t_type t = ty \<and> denotes F t f \<Longrightarrow> computes F r ty"
  by (auto simp: computes_def)

lemma fill_result_type: "fill_result F ty e = Inr r \<Longrightarrow> t_type r = ty"
proof -
  have type: "foldM (\<lambda>i r. rbind (e i) (Tensor_set F r i)) is t = Inr r \<Longrightarrow> t_type r = t_type t" for "is" t
    by (induction "is" arbitrary: t) (auto simp: rbind_eq_Inr dest: Tensor_set_type)
  assume "fill_result F ty e = Inr r"
  then show ?thesis
    by (auto simp: fill_result_def forEachIndex_foldM rbind_eq_Inr newTensor_def split: if_splits dest!: type)
qed

lemma elementwise_runs:
  assumes "scope_ok (number_system E) V scope" "set (elementwise_operands op) \<subseteq> set V" "verified_elementwise ty op"
  shows "computes (number_system E) (elementwise_value E scope ty op) ty"
proof -
  let ?F = "number_system E"
  note get = scope_ok_tensor [OF assms(1)]
  show ?thesis
  proof (cases op)
    case (Unary name a)
    obtain t f where t: "findTensor scope a = Inr t" "t_type t = tensor_type a" "denotes ?F t f"
      using assms(2) Unary by (auto intro: get)
    then show ?thesis
      using reshape_denotes [of ?F t f ty] assms(3) Unary by (auto simp: computes_def ranked_def)
  next
    case (Binary name a b)
    obtain t f where t: "findTensor scope a = Inr t" "t_type t = tensor_type a" "denotes ?F t f"
      using assms(2) Binary by (auto intro: get)
    obtain u g where u: "findTensor scope b = Inr u" "t_type u = tensor_type b" "denotes ?F u g"
      using assms(2) Binary by (auto intro: get)
    have v: "name \<in> {AddOp, SubtractOp, MulOp, MaxOp, MinOp}" "integers ty" "t_type t = ty" "t_type u = ty"
      using assms(3) Binary t(2) u(2) by auto
    obtain s w x where x: "denotes_int ?F t s w x" "t_elementType t = IntegerType s w"
      using integers_denote [OF t(3)] v by auto
    obtain y where y: "denotes_int ?F u s w y"
      using integers_denote [OF u(3)] v x(2) by (metis Type.inject(1))
    show ?thesis
      using integer_arithmetic_denotes [OF x(1) y] integer_max_min_denotes [OF x(1) y] v t(1) u(1) Binary
      by (auto simp: computes_def)
  next
    case (ClampOp mn a mx)
    obtain t f where t: "findTensor scope a = Inr t" "t_type t = tensor_type a" "denotes ?F t f"
      using assms(2) ClampOp by (auto intro: get)
    obtain u g where u: "findTensor scope mn = Inr u" "t_type u = tensor_type mn" "denotes ?F u g"
      using assms(2) ClampOp by (auto intro: get)
    obtain v h where v: "findTensor scope mx = Inr v" "t_type v = tensor_type mx" "denotes ?F v h"
      using assms(2) ClampOp by (auto intro: get)
    have el: "t_elementType u = t_elementType t" "t_elementType v = t_elementType t" "integers (t_type t)"
      using assms(3) ClampOp t u v by auto
    then have i: "integers (t_type u)" "integers (t_type v)" by (simp_all add: integers_def)
    obtain s w x where x: "denotes_int ?F t s w x" "t_elementType t = IntegerType s w"
      using integers_denote [OF t(3)] el by auto
    obtain y where y: "denotes_int ?F u s w y" using integers_denote [OF u(3) i(1)] el x(2) by (metis Type.inject(1))
    obtain z where z: "denotes_int ?F v s w z" using integers_denote [OF v(3) i(2)] el x(2) by (metis Type.inject(1))
    obtain rt where rt: "inferClampOp (ranked mn) (ranked a) (ranked mx) = Inr rt" "ty = as_shaped rt"
      using assms(3) ClampOp by (auto elim: infersE)
    show ?thesis
      using clamp_sound [OF y x(1) z, of rt] rt t u v ClampOp by (auto simp: computes_def ranked_def)
  next
    case (CompareOp a b direction)
    obtain t f where t: "findTensor scope a = Inr t" "t_type t = tensor_type a" "denotes ?F t f"
      using assms(2) CompareOp by (auto intro: get)
    obtain u g where u: "findTensor scope b = Inr u" "t_type u = tensor_type b" "denotes ?F u g"
      using assms(2) CompareOp by (auto intro: get)
    have v: "integers (t_type t)" "t_type u = t_type t" "ty = \<lparr>getShape = t_shape t, getElementType = i1Type\<rparr>"
      using assms(3) CompareOp t(2) u(2) by auto
    obtain s w x where x: "denotes_int ?F t s w x" "t_elementType t = IntegerType s w"
      using integers_denote [OF t(3) v(1)] by auto
    obtain y where y: "denotes_int ?F u s w y"
      using integers_denote [OF u(3)] v x(2) by (metis Type.inject(1))
    have "computes ?F (compareOp ?F t u direction ty) ty"
      using v(2) by (intro computesI [OF integer_tensor_compare [OF x(1) y _ v(3)]]) simp
    then show ?thesis using t(1) u(1) CompareOp by simp
  next
    case (SelectOp p a b)
    obtain t f where t: "findTensor scope p = Inr t" "t_type t = tensor_type p" "denotes ?F t f"
      using assms(2) SelectOp by (auto intro: get)
    obtain u g where u: "findTensor scope a = Inr u" "t_type u = tensor_type a" "denotes ?F u g"
      using assms(2) SelectOp by (auto intro: get)
    obtain v h where v: "findTensor scope b = Inr v" "t_type v = tensor_type b" "denotes ?F v h"
      using assms(2) SelectOp by (auto intro: get)
    obtain q where q: "denotes ?F t (\<lambda>i. bool_el (q i))"
      using bools_denote [OF t(3)] assms(3) SelectOp t(2) by auto
    obtain rt where rt: "inferSelectOp (ranked p) (ranked a) (ranked b) = Inr rt" "ty = as_shaped rt"
      using assms(3) SelectOp by (auto elim: infersE)
    show ?thesis
      using select_denotes [OF q u(3) v(3), of rt] rt t u v SelectOp by (auto simp: computes_def ranked_def)
  qed (use assms(3) in simp)
qed

lemma scalars_run:
  assumes "list_all2 (denotes F) ts fs" "map t_type ts = map tensor_type vs" "scalar_integers vs"
  obtains xs where "scalars_hold F ts xs"
  using assms
proof (induction ts arbitrary: fs vs thesis)
  case Nil
  then show ?case by (simp add: scalars_hold_def)
next
  case (Cons t ts)
  obtain f fs' where f: "fs = f # fs'" "denotes F t f" "list_all2 (denotes F) ts fs'"
    using Cons.prems(2) by (auto simp: list_all2_Cons1)
  obtain v vs' where v: "vs = v # vs'" "t_type t = tensor_type v" "map t_type ts = map tensor_type vs'"
    using Cons.prems(3) by (cases vs) auto
  have sc: "integers (t_type t)" "t_shape t = []" "scalar_integers vs'"
    using Cons.prems(4) v by (simp_all add: scalar_integers_def)
  obtain x where "evalScalar F t [] = Inr x" by (rule scalar_evaluates [OF f(2) sc(1,2)])
  moreover obtain xs where "scalars_hold F ts xs" using Cons.IH [OF _ f(3) v(3) sc(3)] by blast
  ultimately have "scalars_hold F (t # ts) (x # xs)" by (simp add: scalars_hold_def)
  then show ?case by (rule Cons.prems(1))
qed

lemma map_ranked: "map t_type ts = map tensor_type vs \<Longrightarrow> map (\<lambda>t. as_ranked (t_type t)) ts = map ranked vs"
  unfolding ranked_def by (metis (no_types, lifting) list.map_comp comp_apply list.map_cong0 map_eq_conv)

lemma map_elements:
  "map t_type ts = map tensor_type vs \<Longrightarrow> map t_elementType ts = map (\<lambda>v. getElementType (tensor_type v)) vs"
  by (metis (no_types, lifting) list.map_comp comp_apply map_eq_conv)

lemma structural_runs:
  assumes "scope_ok (number_system E) V scope" "set (structural_operands op) \<subseteq> set V" "verified_structural ty op"
  shows "computes (number_system E) (structural_value E scope ty op) ty"
proof -
  let ?F = "number_system E"
  note get = scope_ok_tensor [OF assms(1)] and gets = scope_ok_tensors [OF assms(1)]
  show ?thesis
  proof (cases op)
    case (BroadcastInDimOp a dims)
    obtain t f where t: "findTensor scope a = Inr t" "t_type t = tensor_type a" "denotes ?F t f"
      using assms(2) BroadcastInDimOp by (auto intro: get)
    then show ?thesis
      using broadcast_in_dim_denotes [of ?F t f dims ty] assms(3) BroadcastInDimOp by (auto simp: computes_def ranked_def)
  next
    case (ConcatenateOp as dimension)
    obtain ts fs where ts: "findTensors scope as = Inr ts" "map t_type ts = map tensor_type as" "list_all2 (denotes ?F) ts fs"
      using assms(2) ConcatenateOp by (auto intro: gets)
    obtain rt where rt: "inferConcatenateOp (map ranked as) dimension = Inr rt" "ty = as_shaped rt"
      using assms(3) ConcatenateOp by (auto elim: infersE)
    have "t_elementType ` set ts = (\<lambda>v. getElementType (tensor_type v)) ` set as"
      using arg_cong [OF map_elements [OF ts(2)], of set] by simp
    then have "\<forall>t \<in> set ts. t_elementType t = getElementType rt"
      using assms(3) ConcatenateOp rt(2) by (fastforce simp: list_all_iff as_shaped_def)
    then show ?thesis
      using concatenate_denotes [OF ts(3), of dimension rt] rt ts map_ranked [OF ts(2)] ConcatenateOp
      by (auto simp: computes_def)
  next
    case (DynamicSliceOp a starts sizes)
    obtain t f where t: "findTensor scope a = Inr t" "t_type t = tensor_type a" "denotes ?F t f"
      using assms(2) DynamicSliceOp by (auto intro: get)
    obtain ts fs where ts: "findTensors scope starts = Inr ts" "map t_type ts = map tensor_type starts" "list_all2 (denotes ?F) ts fs"
      using assms(2) DynamicSliceOp by (auto intro: gets)
    obtain xs where xs: "scalars_hold ?F ts xs"
      using scalars_run [OF ts(3,2)] assms(3) DynamicSliceOp by auto
    show ?thesis
      using dynamic_slice_denotes [OF t(3) xs, of sizes ty] t ts map_elements [OF ts(2)] assms(3) DynamicSliceOp
      by (auto simp: computes_def)
  next
    case (DynamicUpdateSliceOp a update starts)
    obtain t f where t: "findTensor scope a = Inr t" "t_type t = tensor_type a" "denotes ?F t f"
      using assms(2) DynamicUpdateSliceOp by (auto intro: get)
    obtain u g where u: "findTensor scope update = Inr u" "t_type u = tensor_type update" "denotes ?F u g"
      using assms(2) DynamicUpdateSliceOp by (auto intro: get)
    obtain ts fs where ts: "findTensors scope starts = Inr ts" "map t_type ts = map tensor_type starts" "list_all2 (denotes ?F) ts fs"
      using assms(2) DynamicUpdateSliceOp by (auto intro: gets)
    obtain xs where xs: "scalars_hold ?F ts xs"
      using scalars_run [OF ts(3,2)] assms(3) DynamicUpdateSliceOp by auto
    obtain rt where rt: "inferDynamicUpdateSliceOp (ranked a) (tensor_type update)
        (map (\<lambda>v. getElementType (tensor_type v)) starts) = Inr rt" "ty = as_shaped rt"
      using assms(3) DynamicUpdateSliceOp by (auto elim: infersE)
    show ?thesis
      using dynamic_update_slice_denotes [OF t(3) u(3) xs, of rt] rt t u ts map_elements [OF ts(2)] assms(3) DynamicUpdateSliceOp
      by (auto simp: computes_def ranked_def)
  next
    case (GatherOp a indices dims sizes hint)
    obtain t f where t: "findTensor scope a = Inr t" "t_type t = tensor_type a" "denotes ?F t f"
      using assms(2) GatherOp by (auto intro: get)
    obtain u g where u: "findTensor scope indices = Inr u" "t_type u = tensor_type indices" "denotes ?F u g"
      using assms(2) GatherOp by (auto intro: get)
    have sl: "\<exists>w. t_elementType u = IntegerType Signless w" "integers (t_type u)"
      using assms(3) GatherOp u(2) by (auto simp: integers_def split: Type.splits Signedness.splits)
    then obtain w x where x: "denotes_int ?F u Signless w x"
      using integers_denote [OF u(3)] by (metis Type.inject(1))
    obtain rt where rt: "inferGatherOp (ranked a) (ranked indices) (offsetDims dims) (collapsedSliceDims dims)
        (operandBatchingDims dims) (startIndicesBatchingDims dims) (startIndexMap dims) (gatherIndexVectorDim dims) sizes = Inr rt"
        "ty = as_shaped rt"
      using assms(3) GatherOp by (auto elim: infersE)
    show ?thesis
      using gather_denotes [OF t(3) x, of "offsetDims dims" "collapsedSliceDims dims" "operandBatchingDims dims"
          "startIndicesBatchingDims dims" "startIndexMap dims" "gatherIndexVectorDim dims" sizes rt hint] rt t u assms(3) GatherOp
      by (auto simp: computes_def ranked_def gather_with_def list_all_iff)
  next
    case (PadOp a pad low high interior)
    obtain t f where t: "findTensor scope a = Inr t" "t_type t = tensor_type a" "denotes ?F t f"
      using assms(2) PadOp by (auto intro: get)
    obtain u g where u: "findTensor scope pad = Inr u" "t_type u = tensor_type pad" "denotes ?F u g"
      using assms(2) PadOp by (auto intro: get)
    obtain rt where rt: "inferPadOp (ranked a) low high interior = Inr rt" "ty = as_shaped rt"
      using assms(3) PadOp by (auto elim: infersE)
    have pv: "Tensor_get ?F u [] = Inr (g [])" "storable ?F (t_elementType t) (g [])"
      using denotes_get [OF u(3), of "[]"] denotes_storable [OF u(3), of "[]"] assms(3) PadOp t(2) u(2) by simp_all
    show ?thesis
      using pad_denotes [OF t(3) pv, of low high interior rt] rt t u assms(3) PadOp
      by (auto simp: computes_def ranked_def padOp_high_def or_fatal_def)
  next
    case (ReverseOp a dims)
    obtain t f where t: "findTensor scope a = Inr t" "t_type t = tensor_type a" "denotes ?F t f"
      using assms(2) ReverseOp by (auto intro: get)
    then show ?thesis
      using reverse_denotes [of ?F t f dims] assms(3) ReverseOp by (auto simp: computes_def)
  next
    case (SliceOp a start limit strides)
    obtain t f where t: "findTensor scope a = Inr t" "t_type t = tensor_type a" "denotes ?F t f"
      using assms(2) SliceOp by (auto intro: get)
    obtain rt where rt: "inferSliceOp (ranked a) start limit strides = Inr rt" "ty = as_shaped rt"
      using assms(3) SliceOp by (auto elim: infersE)
    show ?thesis
      using slice_denotes [OF t(3), of start limit strides rt] rt t assms(3) SliceOp
      by (auto simp: computes_def ranked_def sliceOp_limit_def or_fatal_def)
  next
    case (TransposeOp a perm)
    obtain t f where t: "findTensor scope a = Inr t" "t_type t = tensor_type a" "denotes ?F t f"
      using assms(2) TransposeOp by (auto intro: get)
    obtain rt where rt: "inferTransposeOp (ranked a) perm = Inr rt" "ty = as_shaped rt"
      using assms(3) TransposeOp by (auto elim: infersE)
    obtain r where r: "transposeOp ?F t perm ty = Inr r" "t_shape r = permuted perm (t_shape t)"
        "t_elementType r = t_elementType t" "denotes ?F r (\<lambda>j. f (unpermute perm j))"
      using transpose_denotes [OF t(3), of perm rt] rt t(2) by (auto simp: ranked_def)
    moreover have "t_type r = ty"
      using r(2,3) inferTransposeOp_static(4,5) [of "t_type t" perm rt] rt t(2) by (simp add: ranked_def as_shaped_def)
    ultimately show ?thesis using t(1) TransposeOp by (auto intro: computesI)
  qed (use assms(3) in simp_all)
qed

lemma dotGeneralOp_type: "dotGeneralOp F lhs rhs lb rb lc rc ty = Inr r \<Longrightarrow> t_type r = ty"
  by (auto simp: dotGeneralOp_def Let_def intro: fill_result_type)

lemma linear_runs:
  assumes "scope_ok (number_system E) V scope" "set (linear_operands op) \<subseteq> set V" "verified_linear ty op"
  shows "computes (number_system E) (linear_value E scope ty op) ty"
proof (cases op)
  case (DotGeneralOp a b lb rb lc rc)
  let ?F = "number_system E"
  obtain t f where t: "findTensor scope a = Inr t" "t_type t = tensor_type a" "denotes ?F t f"
    using assms(2) DotGeneralOp by (auto intro: scope_ok_tensor [OF assms(1)])
  obtain u g where u: "findTensor scope b = Inr u" "t_type u = tensor_type b" "denotes ?F u g"
    using assms(2) DotGeneralOp by (auto intro: scope_ok_tensor [OF assms(1)])
  have v: "integers ty" "integers (t_type t)" "integers (t_type u)" "list_all (\<lambda>d. 0 < t_shape t ! nat d) lc"
    using assms(3) DotGeneralOp t(2) u(2) by auto
  obtain dims enc where inf: "inferDotGeneralOp (as_ranked (t_type t)) (as_ranked (t_type u)) lb rb lc rc = Inr (dims, enc)"
      "getShape ty = dims"
    using assms(3) DotGeneralOp t(2) u(2) by (auto simp: ranked_def split: sum.splits)
  obtain s1 w1 x where x: "denotes_int ?F t s1 w1 x" by (rule integers_denote [OF t(3) v(2)])
  obtain s2 w2 y where y: "denotes_int ?F u s2 w2 y" by (rule integers_denote [OF u(3) v(3)])
  obtain s w where ty: "ty = \<lparr>getShape = dims, getElementType = IntegerType s w\<rparr>" "isSupportedIntegerType (IntegerType s w)"
    using v(1) inf(2) by (cases ty) (auto simp: integers_def split: Type.splits)
  obtain r where r: "dotGeneralOp ?F t u lb rb lc rc ty = Inr r" "t_shape r = dims"
      "denotes ?F r (\<lambda>i. int_el s w (dot_sum t u lb rb lc rc x y i))"
    using dot_general_denotes [OF x y ty(2) inf(1) v(4)] ty(1) by auto
  then have "t_type r = ty" using dotGeneralOp_type by blast
  with r(1,3) show ?thesis using t(1) u(1) DotGeneralOp by (auto intro: computesI)
qed (use assms(3) in simp_all)

end
