(* ===== verification/Folder_Correct.thy ===== *)
theory Folder_Correct
  imports Folder_Loops Program_Types
begin

text \<open>
  Folding is evaluation ahead of time: the constant that a pattern of the folder puts in place of an operation holds the value that
  the interpreter computes for the operation, when the constants of its operands hold the values of these.
\<close>

section \<open>Constants that hold tensors\<close>

text \<open>Booleans are integers of width one in an attribute.\<close>

definition attr_value :: "'f Element \<Rightarrow> 'f Value" where
  "attr_value e = (case getValue e of VBool b \<Rightarrow> VInt (mkAPInt 1 (if b then 1 else 0)) | v \<Rightarrow> v)"

definition d_holds :: "('f, 'd) float_api \<Rightarrow> Tensor \<Rightarrow> 'f Dense \<Rightarrow> bool" where
  "d_holds F t d \<longleftrightarrow> t_type t = d_type d \<and>
     (\<exists>f. denotes F t f \<and> d_values d = map (\<lambda>i. attr_value (f i)) (index_space (t_shape t)))"

lemma d_holdsI:
  "denotes F t f \<Longrightarrow> t_type t = d_type d \<Longrightarrow> d_values d = map (\<lambda>i. attr_value (f i)) (index_space (t_shape t)) \<Longrightarrow> d_holds F t d"
  by (auto simp: d_holds_def)

text \<open>The constants agree with the values in scope.\<close>

definition consts_hold :: "('f, 'd) float_api \<Rightarrow> 'f constants \<Rightarrow> Scope \<Rightarrow> bool" where
  "consts_hold F const scope \<longleftrightarrow>
     (\<forall>v d. const v = Some d \<longrightarrow> (\<exists>t. findTensor scope v = Inr t \<and> ssa_type v = Values.TensorType (t_type t) \<and> d_holds F t d))"

lemma constant_d_holds:
  assumes "consts_hold F const scope" "constant_operand const v = Inr d"
  obtains t f where "findTensor scope v = Inr t" "t_type t = d_type d" "tensor_type v = d_type d" "denotes F t f"
    "shaped_type v = Inr (d_type d)" "d_values d = map (\<lambda>i. attr_value (f i)) (index_space (getShape (d_type d)))"
proof -
  have "const v = Some d" using assms(2) by (simp add: constant_operand_def no_match_def split: option.splits)
  with assms(1) obtain t where t: "findTensor scope v = Inr t" "ssa_type v = Values.TensorType (t_type t)" "d_holds F t d"
    unfolding consts_hold_def by blast
  then obtain f where "denotes F t f" "d_values d = map (\<lambda>i. attr_value (f i)) (index_space (t_shape t))" "t_type t = d_type d"
    by (auto simp: d_holds_def)
  with t(1,2) show thesis by (intro that [of t f]) (simp_all add: tensor_type_def shaped_type_def)
qed

lemma check_eq_Inr [result_simps]: "check b r = Inr x \<longleftrightarrow> b \<and> r = Inr x"
  by (simp add: check_def no_match_def)

lemma no_match_Inr [simp]: "no_match \<noteq> Inr x"
  by (simp add: no_match_def)

lemma splat_operand_eq [result_simps]: "splat_operand const v = Inr d \<longleftrightarrow> constant_operand const v = Inr d \<and> isSplat d"
  by (auto simp: splat_operand_def result_simps)

lemma isSplat_nth: "isSplat d \<Longrightarrow> v \<in> set (d_values d) \<Longrightarrow> getSplatValue d = Inr v"
  by (cases "d_values d") (auto simp: isSplat_def getSplatValue_def list_all_iff)

text \<open>An operation that moves the elements of a splat gives a splat.\<close>

lemma splat_d_holds:
  assumes "denotes F r (\<lambda>i. f (src i))" "t_type r = ty" "isSplat d" "resizeSplat d ty = Inr d'"
    and "d_values d = map (\<lambda>i. attr_value (f i)) (index_space shape)"
    and "\<And>i. inBounds i (getShape ty) \<Longrightarrow> inBounds (src i) shape"
  shows "d_holds F r d'"
proof -
  obtain v where v: "getSplatValue d = Inr v" "d' = splat ty v" using assms(4) by (auto simp: resizeSplat_def result_simps)
  have nonneg: "list_all (\<lambda>d. 0 \<le> d) (getShape ty)"
    using denotes_wf [OF assms(1)] assms(2) by (auto dest: wf_tensor_type simp: wf_type_def)
  then have n: "nat (getNumElements ty) = length (index_space (getShape ty))"
    using length_index_space [OF nonneg] by (simp add: getNumElements_def prod_list_nonneg list_all_iff)
  have "attr_value (f (src i)) = v" if "inBounds i (getShape ty)" for i
    using isSplat_nth [OF assms(3), of "attr_value (f (src i))"] v(1) assms(5) assms(6) [OF that] by auto
  then have "map (\<lambda>i. attr_value (f (src i))) (index_space (getShape ty)) = d_values d'"
    by (intro length_eq_nth_imp) (auto simp: v(2) splat_def n dest!: nth_mem)
  then show ?thesis using assms(1,2) v(2) by (intro d_holdsI) (auto simp: splat_def)
qed

lemma wf_shape: "denotes F t f \<Longrightarrow> list_all (\<lambda>d. 0 \<le> d) (t_shape t)"
  by (auto dest!: denotes_wf wf_tensor_type simp: wf_type_def)

section \<open>Operations that move elements\<close>

abbreviation computes_constant :: "('f, 'd, 'a) interpreter \<Rightarrow> Tensor result \<Rightarrow> ShapedType \<Rightarrow> 'f Dense \<Rightarrow> bool" where
  "computes_constant E r ty d \<equiv> (\<exists>t. r = Inr t \<and> t_type t = ty \<and> d_holds (number_system E) t d)"

lemma fold_slice:
  assumes "consts_hold (number_system E) const scope" "indexing_ok M" "verified_structural ty (SliceOp a start limit strides)"
    and "FoldSliceOpPattern M opts const ty a start limit strides = Inr d"
  shows "computes_constant E (structural_value E scope ty (SliceOp a start limit strides)) ty d"
proof -
  from assms(4) obtain els oty where els: "constant_operand const a = Inr els" "shaped_type a = Inr oty"
    and fold: "(if isSplat els then resizeSplat els ty
      else if isIntegerType (d_elementType els) \<or> isFloatType (d_elementType els)
      then sliceType M oty ty start limit strides (d_values els) else no_match) = Inr d"
    by (auto simp: FoldSliceOpPattern_def result_simps)
  obtain t f where t: "findTensor scope a = Inr t" "t_type t = d_type els" "tensor_type a = d_type els"
    "denotes (number_system E) t f" "shaped_type a = Inr (d_type els)"
    "d_values els = map (\<lambda>i. attr_value (f i)) (index_space (t_shape t))"
    using constant_d_holds [OF assms(1) els(1)] by metis
  then have oty: "oty = t_type t" using els(2) by simp
  obtain rt where rt: "inferSliceOp (as_ranked (t_type t)) start limit strides = Inr rt" "ty = as_shaped rt" "length strides = length start"
    using assms(3) t(2,3) by (auto simp: ranked_def elim: infersE)
  note st = inferSliceOp_static [OF rt(1)]
  have static: "d \<in> set (t_shape t) \<Longrightarrow> \<not> isDynamicDimSize d" for d
    using wf_shape [OF t(4)] by (auto simp: list_all_iff isDynamicDimSize_def kDynamic_def)
  obtain r where r: "sliceOp_limit (number_system E) t start limit strides = Inr r" "t_type r = ty"
      "denotes (number_system E) r (\<lambda>i. f (slice_source start strides i))"
    using slice_denotes [OF t(4) rt(1,3)] rt(2) by (auto simp: slice_source_def)
  have eval: "structural_value E scope ty (SliceOp a start limit strides) = Inr r"
    using r(1) rt(1,2) t(1) by (auto simp: sliceOp_limit_def or_fatal_def)
  have ok: "slice_shape_ok start limit strides (getShape ty)"
    using st static rt(2,3) by (auto simp: slice_shape_ok_def as_shaped_def)
  have src: "inBounds (slice_source start strides i) (t_shape t)" if i: "inBounds i (getShape ty)" for i
  proof -
    have "0 \<le> start ! k + i ! k * strides ! k \<and> start ! k + i ! k * strides ! k < t_shape t ! k" if k: "k < length (t_shape t)" for k
    proof -
      have d: "0 \<le> start ! k" "limit ! k \<le> t_shape t ! k" "0 < strides ! k" "getShape ty ! k = divideCeil (limit ! k - start ! k) (strides ! k)"
        using st(6) [OF static k] rt(2) by (auto simp: as_shaped_def)
      have ik: "0 \<le> i ! k" "i ! k < getShape ty ! k"
        using i k st(2) [OF static] rt(2) by (auto simp: inBounds_nth as_shaped_def)
      then have "\<not> divideCeil (limit ! k - start ! k) (strides ! k) \<le> i ! k" using d(4) by simp
      then have "start ! k + i ! k * strides ! k < limit ! k" using divideCeil_le_iff [OF d(3)] by auto
      with d ik show ?thesis by simp
    qed
    then show ?thesis
      using st(1,2) [OF static] rt(2,3) inBounds_length [OF i] by (auto simp: inBounds_nth slice_source_def as_shaped_def)
  qed
  have "d_holds (number_system E) r d"
  proof (cases "isSplat els")
    case True
    show ?thesis by (rule splat_d_holds [OF r(3,2) True _ t(6) src]) (use fold True in simp_all)
  next
    case False
    then have "sliceType M oty ty start limit strides (d_values els) = Inr d" using fold by (auto split: if_splits)
    moreover have "sliceType M oty ty start limit strides (d_values els) = Inr \<lparr>d_type = ty,
        d_values = map (\<lambda>i. attr_value (f (slice_source start strides i))) (index_space (getShape ty))\<rparr>"
      using sliceType_slices [OF assms(2) ok, of oty "d_values els" "\<lambda>i. attr_value (f i)"] wf_shape [OF r(3)] wf_shape [OF t(4)]
        t(6) src r(2) oty by auto
    ultimately show ?thesis using r by (auto intro!: d_holdsI [OF r(3)])
  qed
  with eval r(2) show ?thesis by blast
qed

lemma fold_transpose:
  assumes "consts_hold (number_system E) const scope" "indexing_ok M" "verified_structural ty (TransposeOp a perm)"
    and "FoldTransposeOpPattern M const ty a perm = Inr d"
  shows "computes_constant E (structural_value E scope ty (TransposeOp a perm)) ty d"
proof -
  from assms(4) obtain els where els: "constant_operand const a = Inr els"
    and fold: "(if isSplat els then resizeSplat els ty
      else if isIntegerType (d_elementType els) \<or> isFloatType (d_elementType els)
      then rbind (shaped_type a) (\<lambda>oty. transposeType M oty ty perm (d_values els)) else no_match) = Inr d"
    by (auto simp: FoldTransposeOpPattern_def result_simps)
  obtain t f where t: "findTensor scope a = Inr t" "t_type t = d_type els" "tensor_type a = d_type els"
    "denotes (number_system E) t f" "shaped_type a = Inr (d_type els)"
    "d_values els = map (\<lambda>i. attr_value (f i)) (index_space (t_shape t))"
    using constant_d_holds [OF assms(1) els] by metis
  obtain rt where rt: "inferTransposeOp (as_ranked (t_type t)) perm = Inr rt" "ty = as_shaped rt"
    using assms(3) t(2,3) by (auto simp: ranked_def elim: infersE)
  note st = inferTransposeOp_static [OF rt(1)]
  obtain r where r: "transposeOp (number_system E) t perm ty = Inr r" "t_shape r = permuted perm (t_shape t)"
      "t_elementType r = t_elementType t" "denotes (number_system E) r (\<lambda>j. f (unpermute perm j))"
    using transpose_denotes [OF t(4) rt(1)] rt(2) by auto
  have ty: "t_type r = ty" "getShape ty = permuted perm (t_shape t)" using r(2,3) st(4,5) rt(2) by (simp_all add: as_shaped_def)
  have src: "inBounds (unpermute perm i) (t_shape t)" if "inBounds i (getShape ty)" for i
    using unpermute_inBounds [OF st(2,3)] st(1) that ty(2) by simp
  have "d_holds (number_system E) r d"
  proof (cases "isSplat els")
    case True
    show ?thesis by (rule splat_d_holds [OF r(4) ty(1) True _ t(6) src]) (use fold True in simp_all)
  next
    case False
    then have "transposeType M (t_type t) ty perm (d_values els) = Inr d" using fold t(2,5) by (auto split: if_splits)
    then show ?thesis
      using transposeType_transposes [OF assms(2) st(2,3) _ ty(2) wf_shape [OF t(4)] t(6)] st(1) ty
      by (auto intro!: d_holdsI [OF r(4)])
  qed
  with ty(1) r(1) t(1) show ?thesis by auto
qed

lemma fold_reverse:
  assumes "consts_hold (number_system E) const scope" "verified_structural ty (ReverseOp a dims)"
    and "FoldReverseOpPattern opts const a dims = Inr d"
  shows "computes_constant E (structural_value E scope ty (ReverseOp a dims)) ty d"
proof -
  from assms(3) obtain els oty where els: "constant_operand const a = Inr els" "shaped_type a = Inr oty"
    "1 < getNumElements oty" and fold: "foldReverseHelper els oty dims = Inr d"
    by (auto simp: FoldReverseOpPattern_def result_simps split: if_splits)
  obtain t f where t: "findTensor scope a = Inr t" "t_type t = d_type els" "tensor_type a = d_type els"
    "denotes (number_system E) t f" "shaped_type a = Inr (d_type els)"
    "d_values els = map (\<lambda>i. attr_value (f i)) (index_space (t_shape t))"
    using constant_d_holds [OF assms(1) els(1)] by metis
  have ty: "ty = t_type t" "oty = t_type t" "verifyReverseOp (t_type t) dims = Inr ()"
    using assms(2) t(2,3,5) els(2) by auto
  note ok = verifyReverseOp_ok [OF ty(3)]
  obtain r where r: "reverseOp (number_system E) t dims (t_type t) = Inr r" "t_type r = t_type t"
    "denotes (number_system E) r (\<lambda>i. f (reversed (t_shape t) dims i))"
    using reverse_denotes [OF t(4) ty(3)] by blast
  have "0 \<notin> set (t_shape t)"
    using els(3) ty(2) by (auto simp: getNumElements_def prod_list_zero_iff [symmetric] simp del: prod_list_zero_iff)
  then have pos: "list_all (\<lambda>d. 0 < d) (t_shape t)" using wf_shape [OF t(4)] unfolding list_all_iff by (metis order_le_less)
  have "set dims \<subseteq> {0..<int (length (t_shape t))}" "distinct dims" using ok by auto
  from foldReverseHelper_reverses [OF pos this(2,1) t(6)] fold ty(2)
  have "d = \<lparr>d_type = t_type t, d_values = map (\<lambda>i. attr_value (f (reversed (t_shape t) dims i))) (index_space (t_shape t))\<rparr>"
    by simp
  then have "d_holds (number_system E) r d" using r by (auto intro: d_holdsI)
  with r(1,2) t(1) ty(1) show ?thesis by auto
qed

lemma broadcast_index_inBounds:
  assumes "verifyBroadcastInDimOp (as_ranked oty) dims (as_ranked rty) = Inr ()" "list_all (\<lambda>d. 0 \<le> d) (getShape oty)"
    and "inBounds i (getShape rty)"
  shows "inBounds (broadcast_index (getShape oty) dims i) (getShape oty)"
proof -
  have ran: "getShape (as_ranked ty) = getShape ty" for ty by (simp add: as_ranked_def mkRankedTensorType_def)
  note ok = verifyBroadcastInDimOp_ok [OF assms(1), unfolded ran]
  have "\<not> isDynamicDimSize (getShape oty ! k)" if "k < length (getShape oty)" for k
    using assms(2) that by (auto simp: list_all_length isDynamicDimSize_def kDynamic_def)
  then have "0 \<le> broadcast_index (getShape oty) dims i ! k \<and> broadcast_index (getShape oty) dims i ! k < getShape oty ! k"
    if "k < length (getShape oty)" for k
    using ok(1) ok(2) [of k] that assms(3) by (auto simp: inBounds_nth broadcast_index_def nat_less_iff)
  with ok(1) show ?thesis by (simp add: inBounds_nth broadcast_index_def)
qed

lemma fold_broadcast:
  assumes "consts_hold (number_system E) const scope" "verified_structural ty (BroadcastInDimOp a dims)"
    and "FoldBroadcastInDimOpSplatPattern opts const ty a = Inr d"
  shows "computes_constant E (structural_value E scope ty (BroadcastInDimOp a dims)) ty d"
proof -
  from assms(3) obtain els where els: "constant_operand const a = Inr els" "isSplat els" "resizeSplat els ty = Inr d"
    by (auto simp: FoldBroadcastInDimOpSplatPattern_def result_simps)
  obtain t f where t: "findTensor scope a = Inr t" "t_type t = d_type els" "tensor_type a = d_type els"
    "denotes (number_system E) t f" "d_values els = map (\<lambda>i. attr_value (f i)) (index_space (t_shape t))"
    using constant_d_holds [OF assms(1) els(1)] by metis
  have v: "verifyBroadcastInDimOp (as_ranked (t_type t)) dims (as_ranked ty) = Inr ()" "list_all (\<lambda>d. 0 \<le> d) (getShape ty)"
    "getElementType ty = t_elementType t"
    using assms(2) t(2,3) by (auto simp: ranked_def)
  obtain r where r: "broadcastInDimOp (number_system E) t dims ty = Inr r" "t_type r = ty"
    "denotes (number_system E) r (\<lambda>i. f (broadcast_index (t_shape t) dims i))"
    using broadcast_in_dim_denotes [OF t(4) v] by blast
  have "d_holds (number_system E) r d"
    using splat_d_holds [OF r(3,2) els(2,3) t(5)] broadcast_index_inBounds [OF v(1) wf_shape [OF t(4)]] by blast
  with r t(1) show ?thesis by auto
qed

lemma fold_dynamic_slice:
  assumes "consts_hold (number_system E) const scope" "scope_ok (number_system E) V scope" "set starts \<subseteq> set V"
    and "verified_structural ty (DynamicSliceOp a starts sizes)" "FoldDynamicSliceOpPattern const ty a = Inr d"
  shows "computes_constant E (structural_value E scope ty (DynamicSliceOp a starts sizes)) ty d"
proof -
  from assms(5) obtain els where els: "constant_operand const a = Inr els" "isSplat els" "resizeSplat els ty = Inr d"
    by (auto simp: FoldDynamicSliceOpPattern_def result_simps)
  obtain t f where t: "findTensor scope a = Inr t" "t_type t = d_type els" "tensor_type a = d_type els"
    "denotes (number_system E) t f" "d_values els = map (\<lambda>i. attr_value (f i)) (index_space (t_shape t))"
    using constant_d_holds [OF assms(1) els(1)] by metis
  obtain ts fs where ts: "findTensors scope starts = Inr ts" "map t_type ts = map tensor_type starts" "list_all2 (denotes (number_system E)) ts fs"
    using scope_ok_tensors [OF assms(2,3)] by metis
  obtain xs where xs: "scalars_hold (number_system E) ts xs" using scalars_run [OF ts(3,2)] assms(4) by auto
  have inf: "inferDynamicSliceOp (t_type t) (map t_elementType ts) sizes = Inr ty"
    using assms(4) t(2,3) map_elements [OF ts(2)] by auto
  note st = inferDynamicSliceOp_static [OF inf denotes_static(2) [OF t(4)]]
  obtain r where r: "dynamicSliceOp (number_system E) t ts sizes ty = Inr r" "t_type r = ty" "getShape ty = sizes"
    "denotes (number_system E) r (\<lambda>i. f (map2 (+) (clamped_start xs (t_shape t) sizes) i))"
    using dynamic_slice_denotes [OF t(4) xs inf] by blast
  have "inBounds (map2 (+) (clamped_start xs (t_shape t) sizes) i) (t_shape t)" if "inBounds i (getShape ty)" for i
    using clamped_start_inBounds [OF st(3)] st(2) scalars_hold_length [OF xs] that r(3) by simp
  then have "d_holds (number_system E) r d" using splat_d_holds [OF r(4,2) els(2,3) t(5)] by blast
  with r ts(1) t(1) show ?thesis by auto
qed

lemma constants_hold:
  assumes "consts_hold F const scope" "mapM (constant_operand const) vs = Inr ds"
  obtains ts fs where "findTensors scope vs = Inr ts" "map t_type ts = map d_type ds" "map t_type ts = map tensor_type vs"
    "list_all2 (denotes F) ts fs" "map d_values ds = map2 (\<lambda>t f. map (\<lambda>i. attr_value (f i)) (index_space (t_shape t))) ts fs"
  using assms(2)
proof (induction vs arbitrary: ds thesis)
  case Nil
  then show ?case by (auto simp: findTensors_def intro: Nil.prems(1) [of "[]" "[]"])
next
  case (Cons v vs)
  obtain d ds' where ds: "constant_operand const v = Inr d" "mapM (constant_operand const) vs = Inr ds'" "ds = d # ds'"
    using Cons.prems(2) by (auto simp: result_simps)
  obtain t f where t: "findTensor scope v = Inr t" "t_type t = d_type d" "tensor_type v = d_type d" "denotes F t f"
    "d_values d = map (\<lambda>i. attr_value (f i)) (index_space (t_shape t))"
    using constant_d_holds [OF assms(1) ds(1)] by metis
  obtain ts fs where "findTensors scope vs = Inr ts" "map t_type ts = map d_type ds'" "map t_type ts = map tensor_type vs"
    "list_all2 (denotes F) ts fs" "map d_values ds' = map2 (\<lambda>t f. map (\<lambda>i. attr_value (f i)) (index_space (t_shape t))) ts fs"
    by (rule Cons.IH [OF _ ds(2)])
  with t ds(3) show ?case by (intro Cons.prems(1) [of "t # ts" "f # fs"]) (simp_all add: findTensors_def)
qed

lemma concatenated_map:
  assumes "0 \<le> j ! d" "j ! d < sum_list ns" "d < length j" "length fs = length ns"
  shows "concatenated d ns (map (\<lambda>f i. g (f i)) fs) j = g (concatenated d ns fs j)"
  using concat_pos_ok [OF assms(1-3)] assms(4) by (auto simp: concatenated_def)

lemma fold_concatenate:
  assumes "consts_hold (number_system E) const scope" "verified_structural ty (ConcatenateOp as dimension)"
    and "FoldConcatenateOpPattern opts const ty as dimension = Inr d"
  shows "computes_constant E (structural_value E scope ty (ConcatenateOp as dimension)) ty d"
proof -
  let ?F = "number_system E" and ?d = "nat dimension"
  from assms(3) obtain ds where ds: "mapM (constant_operand const) as = Inr ds"
    and fold: "Dense_get ty (concatenate_elements (prod_list (take ?d (getShape ty))) ds) = Inr d"
    by (auto simp: FoldConcatenateOpPattern_def result_simps Let_def)
  obtain ts fs where ts: "findTensors scope as = Inr ts" "map t_type ts = map tensor_type as" "list_all2 (denotes ?F) ts fs"
    "map d_values ds = map2 (\<lambda>t f. map (\<lambda>i. attr_value (f i)) (index_space (t_shape t))) ts fs"
    using constants_hold [OF assms(1) ds] by metis
  obtain rt where "inferConcatenateOp (map ranked as) dimension = Inr rt" and ty: "ty = as_shaped rt"
    using assms(2) by (auto elim: infersE)
  then have rt: "inferConcatenateOp (map (\<lambda>t. as_ranked (t_type t)) ts) dimension = Inr rt"
    using map_ranked [OF ts(2)] by simp
  have "t_elementType ` set ts = (\<lambda>v. getElementType (tensor_type v)) ` set as"
    using arg_cong [OF map_elements [OF ts(2)], of set] by simp
  then have el: "\<forall>t \<in> set ts. t_elementType t = getElementType rt"
    using assms(2) ty by (fastforce simp: list_all_iff as_shaped_def)
  let ?ns = "map (\<lambda>t. t_shape t ! ?d) ts"
  obtain r where r: "concatenateOp ?F ts dimension ty = Inr r" "t_type r = ty" "denotes ?F r (concatenated ?d ?ns fs)"
    using concatenate_denotes [OF ts(3) rt el] ty by auto
  have den: "list_all (\<lambda>x. 0 \<le> x) (t_shape t)" if t: "t \<in> set ts" for t
  proof -
    obtain f where "denotes ?F t f" using t ts(3) by (auto simp: list_all2_conv_all_nth in_set_conv_nth)
    then show ?thesis by (rule wf_shape)
  qed
  have ran: "getShape (as_ranked ty) = getShape ty" "getEncoding (as_ranked ty) = NoEncoding" for ty
    by (simp_all add: as_ranked_def mkRankedTensorType_def)
  have enc: "getEncoding t = NoEncoding \<and> list_all (\<lambda>x. 0 \<le> x) (getShape t)" if "t \<in> set (map (\<lambda>t. as_ranked (t_type t)) ts)" for t
    using that den by (auto simp: ran)
  note inf = inferConcatenateOp_static [OF rt enc]
  have st: "0 \<le> dimension" "dimension < int (length (getShape ty))" "getShape ty ! ?d = sum_list ?ns"
    "\<And>t. t \<in> set ts \<Longrightarrow> length (t_shape t) = length (getShape ty)"
    "\<And>t k. t \<in> set ts \<Longrightarrow> k < length (getShape ty) \<Longrightarrow> k \<noteq> ?d \<Longrightarrow> t_shape t ! k = getShape ty ! k"
    using inf(2,3,5) inf(6,7) [of "as_ranked (t_type _)"] by (auto simp: ran ty as_shaped_def comp_def)
  let ?pre = "take ?d (getShape ty)" and ?post = "drop (Suc ?d) (getShape ty)"
  have d: "?d < length (getShape ty)" "length ?pre = ?d" using st(1,2) by auto
  have split: "t_shape t = ?pre @ t_shape t ! ?d # ?post" if "t \<in> set ts" for t
  proof -
    have "take ?d (t_shape t) = ?pre" "drop (Suc ?d) (t_shape t) = ?post"
      using st(4,5) [OF that] d(1) by (auto intro!: nth_equalityI)
    then show ?thesis using id_take_nth_drop [of ?d "t_shape t"] st(4) [OF that] d(1) by simp
  qed
  have whole: "getShape ty = ?pre @ sum_list ?ns # ?post"
    using id_take_nth_drop [OF d(1)] st(3) by simp
  have nonneg: "list_all (\<lambda>x. 0 \<le> x) (getShape ty)" using wf_shape [OF r(3)] r(2) by simp
  have parts: "list_all (\<lambda>x. 0 \<le> x) ?pre" "list_all (\<lambda>x. 0 \<le> x) ?post" "list_all (\<lambda>x. 0 \<le> x) ?ns"
    using nonneg den st(4) d(1) by (auto simp: list_all_iff dest: in_set_takeD in_set_dropD)
  have lens: "length fs = length ts" using ts(3) by (simp add: list_all2_lengthD)
  have "map d_values ds = map2 (\<lambda>n f. map f (index_space (?pre @ n # ?post))) ?ns (map (\<lambda>f i. attr_value (f i)) fs)"
    unfolding ts(4) using lens split by (intro length_eq_nth_imp) (auto simp del: index_space.simps simp flip: split)
  from concatenate_elements_correct [OF parts _ this] lens d(2)
  have "concatenate_elements (prod_list ?pre) ds = map (concatenated ?d ?ns (map (\<lambda>f i. attr_value (f i)) fs)) (index_space (getShape ty))"
    using whole by simp
  also have "\<dots> = map (\<lambda>i. attr_value (concatenated ?d ?ns fs i)) (index_space (getShape ty))"
    using st(3) d(1) lens by (intro map_cong refl concatenated_map) (auto simp: inBounds_nth)
  finally have "d_values d = map (\<lambda>i. attr_value (concatenated ?d ?ns fs i)) (index_space (t_shape r))" "d_type d = ty"
    using fold r(2) by (auto simp: Dense_get_def split: if_splits)
  then have "d_holds ?F r d" using r by (auto intro: d_holdsI)
  with r ts(1) show ?thesis by auto
qed

text \<open>
  C37: folding the operations that move elements is sound. For an operation that its verifier and its shape function accept, whose
  constant operands hold the values in scope, a constant that a pattern gives has the declared type and holds the tensor that the
  interpreter computes. This covers the moving source index of slices, the strides of transpositions, the swaps of reversals, the
  pieces of concatenations and the splats of broadcasts and dynamic slices.
\<close>

theorem fold_structural_sound:
  assumes "consts_hold (number_system E) const scope" "indexing_ok M"
    and "scope_ok (number_system E) V scope" "set (structural_operands op) \<subseteq> set V" "verified_structural ty op"
    and "fold_structural M opts const ty op = Inr d"
  shows "\<exists>t. structural_value E scope ty op = Inr t \<and> t_type t = ty \<and> d_holds (number_system E) t d"
proof (cases op)
  case (BroadcastInDimOp a dims)
  then show ?thesis using fold_broadcast [OF assms(1)] assms(5,6) by simp
next
  case (ConcatenateOp as dimension)
  then show ?thesis using fold_concatenate [OF assms(1)] assms(5,6) by simp
next
  case (DynamicSliceOp a starts sizes)
  then show ?thesis using fold_dynamic_slice [OF assms(1,3)] assms(4-6) by simp
next
  case (ReverseOp a dims)
  then show ?thesis using fold_reverse [OF assms(1)] assms(5,6) by simp
next
  case (SliceOp a start limit strides)
  then show ?thesis using fold_slice [OF assms(1,2)] assms(5,6) by simp
next
  case (TransposeOp a perm)
  then show ?thesis using fold_transpose [OF assms(1,2)] assms(5,6) by simp
qed (use assms(5,6) in simp_all)

section \<open>Operations on elements\<close>

text \<open>What MLIR documents of its folding functions: they apply the calculation to all elements, in order, or fail.\<close>

definition folding_ok :: "('f, 'd) mlir_api \<Rightarrow> bool" where
  "folding_ok M \<longleftrightarrow>
     (\<forall>a calculate d. constFoldUnaryOp M a calculate = Inr d \<longrightarrow>
        d_type d = d_type a \<and> mapM calculate (d_values a) = Inr (d_values d)) \<and>
     (\<forall>a b ty calculate d. constFoldBinaryOp M a b ty calculate = Inr d \<longrightarrow>
        d_type a = d_type b \<and> d_type d = ty \<and>
        (getShape ty = getShape (d_type a) \<longrightarrow>
           mapM (\<lambda>(x, y). calculate x y) (zip (d_values a) (d_values b)) = Inr (d_values d))) \<and>
     (\<forall>a ty calculate d. constFoldCastOp M a ty calculate = Inr d \<longrightarrow>
        d_type d = ty \<and> (getShape ty = getShape (d_type a) \<longrightarrow> mapM calculate (d_values a) = Inr (d_values d)))"

lemma folding_okD:
  assumes "folding_ok M"
  shows "constFoldUnaryOp M a calculate = Inr d \<Longrightarrow> d_type d = d_type a \<and> mapM calculate (d_values a) = Inr (d_values d)"
    "constFoldBinaryOp M a b ty calculate2 = Inr d \<Longrightarrow> d_type a = d_type b \<and> d_type d = ty"
    "constFoldBinaryOp M a b ty calculate2 = Inr d \<Longrightarrow> getShape ty = getShape (d_type a) \<Longrightarrow>
       mapM (\<lambda>(x, y). calculate2 x y) (zip (d_values a) (d_values b)) = Inr (d_values d)"
    "constFoldCastOp M a ty calculate = Inr d \<Longrightarrow> getShape ty = getShape (d_type a) \<Longrightarrow>
       d_type d = ty \<and> mapM calculate (d_values a) = Inr (d_values d)"
  using assms unfolding folding_ok_def by blast+

text \<open>A calculation on attributes that agrees with an operation on elements gives the elements of the result.\<close>

lemma calculated_elements:
  assumes "mapM calculate (map p (index_space shape)) = Inr vs"
    and "\<And>i v. inBounds i shape \<Longrightarrow> calculate (p i) = Inr v \<Longrightarrow> \<exists>e. Q i e \<and> attr_value e = v"
  obtains h where "\<And>i. inBounds i shape \<Longrightarrow> Q i (h i)" "vs = map (\<lambda>i. attr_value (h i)) (index_space shape)"
proof -
  let ?sp = "index_space shape"
  have at: "calculate (p (?sp ! k)) = Inr (vs ! k)" if "k < length ?sp" for k
    using assms(1) that by (auto simp: mapM_eq_Inr)
  have "\<exists>e. inBounds i shape \<longrightarrow> Q i e \<and> calculate (p i) = Inr (attr_value e)" for i
  proof (cases "inBounds i shape")
    case True
    then obtain k where "k < length ?sp" "?sp ! k = i" by (metis in_set_conv_nth index_space_mem)
    with at have "calculate (p i) = Inr (vs ! k)" by blast
    with assms(2) [OF True] show ?thesis by metis
  qed simp
  then obtain h where h: "\<And>i. inBounds i shape \<Longrightarrow> Q i (h i) \<and> calculate (p i) = Inr (attr_value (h i))"
    by metis
  have "vs = map (\<lambda>i. attr_value (h i)) ?sp"
  proof (rule nth_equalityI)
    show "length vs = length (map (\<lambda>i. attr_value (h i)) ?sp)" using assms(1) by (simp add: mapM_eq_Inr)
    fix k assume "k < length vs"
    then have k: "k < length ?sp" using assms(1) by (simp add: mapM_eq_Inr)
    then have "inBounds (?sp ! k) shape" using nth_mem [OF k] by simp
    with h at [OF k] k show "vs ! k = map (\<lambda>i. attr_value (h i)) ?sp ! k" by simp
  qed
  with h show thesis by (intro that) auto
qed

lemma unary_folds:
  assumes "denotes F t f" "wf_type ty" "getShape ty = t_shape t"
    and "mapM calculate (map (\<lambda>i. attr_value (f i)) (index_space (t_shape t))) = Inr (d_values d)" "d_type d = ty"
    and "\<And>e v. storable F (t_elementType t) e \<Longrightarrow> calculate (attr_value e) = Inr v \<Longrightarrow>
      \<exists>e'. fn e = Inr e' \<and> storable F (getElementType ty) e' \<and> attr_value e' = v"
  shows "\<exists>r. unaryOp F fn t ty = Inr r \<and> t_type r = ty \<and> d_holds F r d"
proof -
  obtain h where h: "\<And>i. inBounds i (t_shape t) \<Longrightarrow> fn (f i) = Inr (h i) \<and> storable F (getElementType ty) (h i)"
    "d_values d = map (\<lambda>i. attr_value (h i)) (index_space (t_shape t))"
  proof (rule calculated_elements [OF assms(4), of "\<lambda>i e. fn (f i) = Inr e \<and> storable F (getElementType ty) e"])
    fix i v assume "inBounds i (t_shape t)" "calculate (attr_value (f i)) = Inr v"
    then show "\<exists>e. (fn (f i) = Inr e \<and> storable F (getElementType ty) e) \<and> attr_value e = v"
      using assms(6) [OF denotes_storable [OF assms(1)], of i v] by blast
  qed blast
  obtain r where "unaryOp F fn t ty = Inr r" "t_type r = ty" "denotes F r h"
    using unaryOp_denotes [OF assms(1-3), of fn h] h(1) by blast
  with h(2) assms(3,5) show ?thesis by (auto intro!: d_holdsI)
qed

lemma zip_maps: "zip (map p xs) (map q xs) = map (\<lambda>i. (p i, q i)) xs"
  by (induction xs) simp_all

lemma binary_folds:
  assumes "denotes F t f" "denotes F u g" "wf_type ty" "getShape ty = t_shape t" "t_type u = t_type t"
    and "mapM (\<lambda>(x, y). calculate x y) (zip (map (\<lambda>i. attr_value (f i)) (index_space (t_shape t)))
      (map (\<lambda>i. attr_value (g i)) (index_space (t_shape t)))) = Inr (d_values d)" "d_type d = ty"
    and "\<And>e1 e2 v. storable F (t_elementType t) e1 \<Longrightarrow> storable F (t_elementType t) e2 \<Longrightarrow>
      calculate (attr_value e1) (attr_value e2) = Inr v \<Longrightarrow>
      \<exists>e'. fn e1 e2 = Inr e' \<and> storable F (getElementType ty) e' \<and> attr_value e' = v"
  shows "\<exists>r. binaryOp F fn t u ty = Inr r \<and> t_type r = ty \<and> d_holds F r d"
proof -
  obtain h where h: "\<And>i. inBounds i (t_shape t) \<Longrightarrow> fn (f i) (g i) = Inr (h i) \<and> storable F (getElementType ty) (h i)"
    "d_values d = map (\<lambda>i. attr_value (h i)) (index_space (t_shape t))"
  proof (rule calculated_elements [OF assms(6) [unfolded zip_maps], of "\<lambda>i e. fn (f i) (g i) = Inr e \<and> storable F (getElementType ty) e"])
    fix i v assume "inBounds i (t_shape t)" "(case (attr_value (f i), attr_value (g i)) of (x, y) \<Rightarrow> calculate x y) = Inr v"
    then show "\<exists>e. (fn (f i) (g i) = Inr e \<and> storable F (getElementType ty) e) \<and> attr_value e = v"
      using assms(8) [of "f i" "g i" v] denotes_storable [OF assms(1)] denotes_storable [OF assms(2)] assms(5) by auto
  qed blast
  obtain r where "binaryOp F fn t u ty = Inr r" "t_type r = ty" "denotes F r h"
    using binaryOp_denotes [OF assms(1-4), of fn h] h(1) assms(5) by auto
  with h(2) assms(4,7) show ?thesis by (auto intro!: d_holdsI)
qed

text \<open>The elements of supported integers and of booleans, and the attributes they have.\<close>

lemma storable_integer:
  assumes "isSupportedIntegerType (IntegerType s w)"
  shows "storable F (IntegerType s w) e \<longleftrightarrow> (\<exists>a. e = mkElement (IntegerType s w) (VInt a) \<and> wf_apint a \<and> getBitWidth a = w)"
proof
  assume "storable F (IntegerType s w) e"
  then obtain v where "e = int_el s w v" by (rule storable_int_el [OF assms])
  then show "\<exists>a. e = mkElement (IntegerType s w) (VInt a) \<and> wf_apint a \<and> getBitWidth a = w"
    by (auto simp: int_el_def)
next
  assume "\<exists>a. e = mkElement (IntegerType s w) (VInt a) \<and> wf_apint a \<and> getBitWidth a = w"
  then show "storable F (IntegerType s w) e"
    using storable_int [of F e] assms by (auto simp: wf_element_def)
qed

lemma storable_boolean: "storable F i1Type e \<longleftrightarrow> (\<exists>b. e = bool_el b)"
proof
  assume "storable F i1Type e"
  then show "\<exists>b. e = bool_el b"
    by (auto simp: storable_def element_of_bytes_def supported_defs Element_bool_def split: if_splits)
next
  assume "\<exists>b. e = bool_el b"
  then show "storable F i1Type e" using bool_el_storable by blast
qed

lemma attr_value_simps [simp]:
  "attr_value (mkElement t (VInt a)) = VInt a"
  "attr_value (mkElement t (VBool b)) = VInt (mkAPInt 1 (if b then 1 else 0))"
  "attr_value (mkElement t (VFloat x)) = VFloat x"
  "attr_value (int_el s w v) = VInt (mkAPInt w v)"
  by (simp_all add: attr_value_def)

lemma integer_element:
  assumes "isSupportedIntegerType (IntegerType s w)" "wf_apint a" "getBitWidth a = w"
  shows "Element_int (IntegerType s w) a = Inr (mkElement (IntegerType s w) (VInt a))"
    "getIntegerValue (mkElement (IntegerType s w) (VInt a)) = Inr a"
  using assms by (simp_all add: Element_int_def getIntegerValue_def)

text \<open>A calculation on attributes is the one of the interpreter on the elements of a type.\<close>

definition agrees1 :: "('f, 'd) float_api \<Rightarrow> Type \<Rightarrow> Type \<Rightarrow> ('f Value \<Rightarrow> 'f Value result) \<Rightarrow> ('f Element \<Rightarrow> 'f Element result) \<Rightarrow> bool" where
  "agrees1 F ty rty calculate fn \<longleftrightarrow> (\<forall>e v. storable F ty e \<longrightarrow> calculate (attr_value e) = Inr v \<longrightarrow>
     (\<exists>e'. fn e = Inr e' \<and> storable F rty e' \<and> attr_value e' = v))"

definition agrees2 ::
  "('f, 'd) float_api \<Rightarrow> Type \<Rightarrow> Type \<Rightarrow> ('f Value \<Rightarrow> 'f Value \<Rightarrow> 'f Value result) \<Rightarrow>
   ('f Element \<Rightarrow> 'f Element \<Rightarrow> 'f Element result) \<Rightarrow> bool" where
  "agrees2 F ty rty calculate fn \<longleftrightarrow> (\<forall>e1 e2 v. storable F ty e1 \<longrightarrow> storable F ty e2 \<longrightarrow>
     calculate (attr_value e1) (attr_value e2) = Inr v \<longrightarrow> (\<exists>e'. fn e1 e2 = Inr e' \<and> storable F rty e' \<and> attr_value e' = v))"

lemma agrees1_integers:
  assumes "isSupportedIntegerType (IntegerType s w)"
    and "\<And>a v. wf_apint a \<Longrightarrow> getBitWidth a = w \<Longrightarrow> calculate (VInt a) = Inr v \<Longrightarrow>
      \<exists>z. v = VInt z \<and> wf_apint z \<and> getBitWidth z = w \<and>
        fn (mkElement (IntegerType s w) (VInt a)) = Element_int (IntegerType s w) z"
  shows "agrees1 F (IntegerType s w) (IntegerType s w) calculate fn"
  unfolding agrees1_def storable_integer [OF assms(1)] using assms(2) integer_element(1) [OF assms(1)] by fastforce

lemma agrees2_integers:
  assumes "isSupportedIntegerType (IntegerType s w)"
    and "\<And>a b v. wf_apint a \<Longrightarrow> wf_apint b \<Longrightarrow> getBitWidth a = w \<Longrightarrow> getBitWidth b = w \<Longrightarrow> calculate (VInt a) (VInt b) = Inr v \<Longrightarrow>
      \<exists>z. v = VInt z \<and> wf_apint z \<and> getBitWidth z = w \<and>
        fn (mkElement (IntegerType s w) (VInt a)) (mkElement (IntegerType s w) (VInt b)) = Element_int (IntegerType s w) z"
  shows "agrees2 F (IntegerType s w) (IntegerType s w) calculate fn"
  unfolding agrees2_def storable_integer [OF assms(1)] using assms(2) integer_element(1) [OF assms(1)] by fastforce

lemma agrees2_booleans:
  assumes "\<And>a b. calculate (VInt (mkAPInt 1 (if a then 1 else 0))) (VInt (mkAPInt 1 (if b then 1 else 0))) =
      Inr (VInt (mkAPInt 1 (if op a b then 1 else 0)))"
    and "\<And>a b. fn (bool_el a) (bool_el b) = Inr (bool_el (op a b))"
  shows "agrees2 F i1Type i1Type calculate fn"
  unfolding agrees2_def storable_boolean using assms by fastforce

text \<open>The calculations of the patterns for binary operations.\<close>

lemma map_element2_integers:
  assumes "isSupportedIntegerType (IntegerType s w)" "wf_apint a" "wf_apint b" "getBitWidth a = w" "getBitWidth b = w"
  shows "map_element2 F (mkElement (IntegerType s w) (VInt a)) (mkElement (IntegerType s w) (VInt b)) fi fb ff fc =
    rbind (fi a b) (Element_int (IntegerType s w))"
  using assms by (simp add: map_element2_def integer_element)

lemma map_element_integers:
  assumes "isSupportedIntegerType (IntegerType s w)" "wf_apint a" "getBitWidth a = w"
  shows "map_element F (mkElement (IntegerType s w) (VInt a)) fi fb ff fc = rbind (fi a) (Element_int (IntegerType s w))"
  using assms by (simp add: map_element_def integer_element)

lemma ap_results [simp]:
  "wf_apint (ap_add a b)" "getBitWidth (ap_add a b) = getBitWidth a" "wf_apint (ap_sub a b)" "getBitWidth (ap_sub a b) = getBitWidth a"
  "wf_apint (ap_mul a b)" "getBitWidth (ap_mul a b) = getBitWidth a" "wf_apint (ap_and a b)" "getBitWidth (ap_and a b) = getBitWidth a"
  "wf_apint (ap_or a b)" "getBitWidth (ap_or a b) = getBitWidth a" "wf_apint (ap_xor a b)" "getBitWidth (ap_xor a b) = getBitWidth a"
  "wf_apint (ap_neg a)" "getBitWidth (ap_neg a) = getBitWidth a" "wf_apint (ap_not a)" "getBitWidth (ap_not a) = getBitWidth a"
  "getBitWidth (ap_abs a) = getBitWidth a" "wf_apint a \<Longrightarrow> wf_apint (ap_abs a)"
  by (simp_all add: ap_add_def ap_sub_def ap_mul_def ap_and_def ap_or_def ap_xor_def ap_neg_def ap_not_def ap_abs_def)

lemma ap_divisions:
  "ap_udiv a b = Inr z \<Longrightarrow> wf_apint z \<and> getBitWidth z = getBitWidth a" "ap_sdiv a b = Inr z \<Longrightarrow> wf_apint z \<and> getBitWidth z = getBitWidth a"
  "ap_urem a b = Inr z \<Longrightarrow> wf_apint z \<and> getBitWidth z = getBitWidth a" "ap_srem a b = Inr z \<Longrightarrow> wf_apint z \<and> getBitWidth z = getBitWidth a"
  by (auto simp: ap_udiv_def ap_sdiv_def ap_urem_def ap_srem_def split: if_splits)

lemma binary_integers:
  assumes "isSupportedIntegerType (IntegerType s w)"
  shows "agrees2 F (IntegerType s w) (IntegerType s w) (int_or_float (\<lambda>l r. Inr (ap_add l r)) ff) (el_add F)"
    "agrees2 F (IntegerType s w) (IntegerType s w) (int_or_float (\<lambda>l r. Inr (ap_sub l r)) ff) (el_sub F)"
    "agrees2 F (IntegerType s w) (IntegerType s w) (int_or_float (\<lambda>l r. Inr (ap_mul l r)) ff) (el_mul F)"
    "agrees2 F (IntegerType s w) (IntegerType s w) (int_or_float (\<lambda>l r. Inr (ap_and l r)) ff) (el_and F)"
    "agrees2 F (IntegerType s w) (IntegerType s w) (int_or_float (\<lambda>l r. Inr (ap_or l r)) ff) (el_or F)"
    "agrees2 F (IntegerType s w) (IntegerType s w) (int_or_float (\<lambda>l r. Inr (ap_xor l r)) ff) (el_xor F)"
    "agrees2 F (IntegerType s w) (IntegerType s w) (FoldMax F (s = Unsigned)) (el_max F)"
    "agrees2 F (IntegerType s w) (IntegerType s w) (FoldMin F (s = Unsigned)) (el_min F)"
    "agrees2 F (IntegerType s w) (IntegerType s w) (FoldDivide F (s = Unsigned)) (el_div F)"
    "agrees2 F (IntegerType s w) (IntegerType s w) (FoldRem F (s = Unsigned)) (el_rem F)"
proof -
  note me = map_element2_integers [OF assms]
  have signed: "isSupportedSignedIntegerType (IntegerType s w) \<longleftrightarrow> s \<noteq> Unsigned"
    using supported_signed_iff [OF assms] supported_signless [OF assms] by auto
  show "agrees2 F (IntegerType s w) (IntegerType s w) (int_or_float (\<lambda>l r. Inr (ap_add l r)) ff) (el_add F)"
    "agrees2 F (IntegerType s w) (IntegerType s w) (int_or_float (\<lambda>l r. Inr (ap_sub l r)) ff) (el_sub F)"
    "agrees2 F (IntegerType s w) (IntegerType s w) (int_or_float (\<lambda>l r. Inr (ap_mul l r)) ff) (el_mul F)"
    "agrees2 F (IntegerType s w) (IntegerType s w) (int_or_float (\<lambda>l r. Inr (ap_and l r)) ff) (el_and F)"
    "agrees2 F (IntegerType s w) (IntegerType s w) (int_or_float (\<lambda>l r. Inr (ap_or l r)) ff) (el_or F)"
    "agrees2 F (IntegerType s w) (IntegerType s w) (int_or_float (\<lambda>l r. Inr (ap_xor l r)) ff) (el_xor F)"
    by (rule agrees2_integers [OF assms]; auto simp: me el_add_def el_sub_def el_mul_def el_and_def el_or_def el_xor_def)+
  show "agrees2 F (IntegerType s w) (IntegerType s w) (FoldMax F (s = Unsigned)) (el_max F)"
    "agrees2 F (IntegerType s w) (IntegerType s w) (FoldMin F (s = Unsigned)) (el_min F)"
    by (rule agrees2_integers [OF assms]; auto simp: me signed FoldMax_def FoldMin_def el_max_def el_min_def ap_umax_def ap_smax_def
        ap_umin_def ap_smin_def)+
  show "agrees2 F (IntegerType s w) (IntegerType s w) (FoldDivide F (s = Unsigned)) (el_div F)"
    by (rule agrees2_integers [OF assms])
      (auto simp: signed FoldDivide_def el_div_def assms integer_element [OF assms] result_simps dest: ap_divisions)
  show "agrees2 F (IntegerType s w) (IntegerType s w) (FoldRem F (s = Unsigned)) (el_rem F)"
    by (rule agrees2_integers [OF assms]) (auto simp: me signed FoldRem_def el_rem_def result_simps dest: ap_divisions)
qed

lemma i1_element:
  "isSupportedBooleanType i1Type" "\<not> isSupportedIntegerType i1Type" "isSupportedBooleanType (IntegerType Signless (Suc 0))"
  "\<not> isSupportedIntegerType (IntegerType Signless (Suc 0))"
  by (simp_all add: supported_defs)

lemma binary_booleans:
  "agrees2 F i1Type i1Type (int_or_float (\<lambda>l r. Inr (ap_mul l r)) ff) (el_mul F)"
  "agrees2 F i1Type i1Type (int_or_float (\<lambda>l r. Inr (mkAPInt (getBitWidth l) (if \<not> isZero l \<and> \<not> isZero r then 1 else 0))) ff') (el_and F)"
  "agrees2 F i1Type i1Type (int_or_float (\<lambda>l r. Inr (mkAPInt (getBitWidth l) (if \<not> isZero l \<or> \<not> isZero r then 1 else 0))) ff') (el_or F)"
  "agrees2 F i1Type i1Type (int_or_float (\<lambda>l r. Inr (mkAPInt (getBitWidth l) (if (\<not> isZero l) \<noteq> (\<not> isZero r) then 1 else 0))) ff') (el_xor F)"
  "agrees2 F i1Type i1Type (FoldMax F True) (el_max F)" "agrees2 F i1Type i1Type (FoldMin F True) (el_min F)"
  by (rule agrees2_booleans [where op = "(\<and>)"] agrees2_booleans [where op = "(\<or>)"] agrees2_booleans [where op = "(\<noteq>)"];
      auto simp: el_mul_def el_and_def el_or_def el_xor_def el_max_def el_min_def FoldMax_def FoldMin_def map_element2_def i1_element
        isZero_def ap_mul_def mkAPInt_def ap_umax_def ap_umin_def)+

lemma compare_integers:
  assumes "isSupportedIntegerType (IntegerType s w)"
  shows "agrees2 F (IntegerType s w) i1Type (FoldCompare F dir (if s = Unsigned then CompareUNSIGNED else CompareSIGNED)) (compare_elements F dir)"
proof -
  have signed: "isSupportedSignedIntegerType (IntegerType s w) \<longleftrightarrow> s \<noteq> Unsigned"
    using supported_signed_iff [OF assms] supported_signless [OF assms] by auto
  have "\<exists>b. FoldCompare F dir (if s = Unsigned then CompareUNSIGNED else CompareSIGNED) (VInt x) (VInt y) = Inr (VInt (mkAPInt 1 (if b then 1 else 0))) \<and>
      compare_elements F dir (mkElement (IntegerType s w) (VInt x)) (mkElement (IntegerType s w) (VInt y)) = Inr (bool_el b)"
    if "wf_apint x" "wf_apint y" "getBitWidth x = w" "getBitWidth y = w" for x y
    using that assms
    by (cases dir) (auto simp: FoldCompare_def Let_def compare_elements_def el_lt_def el_gt_def el_eq_def el_ne_def el_le_def el_ge_def
        el_lnot_def el_lor_def integer_element signed)
  then show ?thesis
    unfolding agrees2_def storable_integer [OF assms] storable_boolean by fastforce
qed

lemma compare_booleans: "agrees2 F i1Type i1Type (FoldCompare F dir CompareUNSIGNED) (compare_elements F dir)"
proof -
  have "\<exists>b. FoldCompare F dir CompareUNSIGNED (VInt (mkAPInt 1 (if x then 1 else 0))) (VInt (mkAPInt 1 (if y then 1 else 0))) =
        Inr (VInt (mkAPInt 1 (if b then 1 else 0))) \<and>
      compare_elements F dir (bool_el x) (bool_el y) = Inr (bool_el b)" for x y
    by (cases dir; cases x; cases y)
      (auto simp: FoldCompare_def Let_def compare_elements_def el_lt_def el_gt_def el_eq_def el_ne_def el_le_def el_ge_def
        el_lnot_def el_lor_def i1_element)
  then show ?thesis
    unfolding agrees2_def storable_boolean by fastforce
qed

text \<open>The calculations of the patterns for unary operations.\<close>

lemma int64_exact:
  assumes "isSupportedIntegerType (IntegerType s w)" "wf_apint a" "getBitWidth a = w"
  shows "sval (mkAPInt 64 (sval a)) = sval a" "uval (mkAPInt 64 (uval a)) = uval a"
proof -
  have w: "0 < w" "w \<le> 64" using assms(1) by (auto simp: supported_IntegerType)
  have "(2::int) ^ (w - 1) \<le> 2 ^ (64 - 1)" "(2::int) ^ w \<le> 2 ^ 64" using w by (intro power_increasing; simp)+
  then show "sval (mkAPInt 64 (sval a)) = sval a" "uval (mkAPInt 64 (uval a)) = uval a"
    using sval_range [OF assms(2)] w assms(2,3)
    by (auto simp: wf_apint_def take_bit_int_eq_self intro!: sval_in_range [of Signless] simp: in_range_def)
qed

lemma convert_integers:
  assumes "isSupportedIntegerType (IntegerType s w)"
  shows "convert_int64 F (IntegerType s w) x = Element_int (IntegerType s w) (mkAPInt w (sval (mkAPInt 64 x)))"
    "convert_uint64 F (IntegerType s w) x = Element_int (IntegerType s w) (mkAPInt w (uval (mkAPInt 64 x)))"
  using assms by (auto simp: convert_int64_def convert_uint64_def convert_APSInt_def convert_APSInt_scalar_def supported_IntegerType
      supported_BooleanType supported_ComplexType)

lemma sign_values: "sval (mkAPInt 64 (- 1)) = - 1" "sval (mkAPInt 64 0) = 0" "sval (mkAPInt 64 1) = 1"
  by (simp_all add: sval_def isNegative_def mkAPInt_def take_bit_eq_mod)

lemma agrees1_int_only:
  assumes "isSupportedIntegerType (IntegerType s w)" "on_APInt impl = None" "on_APSInt impl = None"
  shows "agrees1 F (IntegerType s w) rty (FoldDispatch F impl b) fn"
  unfolding agrees1_def storable_integer [OF assms(1)] using assms(2,3) by auto

lemma unary_integers:
  assumes "isSupportedIntegerType (IntegerType s w)"
  shows "agrees1 F (IntegerType s w) (IntegerType s w) (FoldDispatch F (FoldAbsOpPattern F) b) (el_abs F)"
    "agrees1 F (IntegerType s w) (IntegerType s w) (FoldDispatch F (FoldNegOpPattern F) b) (el_neg F)"
    "agrees1 F (IntegerType s w) (IntegerType s w) (FoldDispatch F FoldNotOpPattern b) (el_not F)"
    "agrees1 F (IntegerType s w) (IntegerType s w) (FoldDispatch F (FoldSignOpPattern F M) b) (el_sign F)"
proof -
  show "agrees1 F (IntegerType s w) (IntegerType s w) (FoldDispatch F (FoldAbsOpPattern F) b) (el_abs F)"
  proof (rule agrees1_integers [OF assms])
    fix a v assume "wf_apint a" "getBitWidth a = w" "FoldDispatch F (FoldAbsOpPattern F) b (VInt a) = Inr v"
    then show "\<exists>z. v = VInt z \<and> wf_apint z \<and> getBitWidth z = w \<and>
        el_abs F (mkElement (IntegerType s w) (VInt a)) = Element_int (IntegerType s w) z"
      by (intro exI [of _ "ap_abs a"])
        (simp add: FoldAbsOpPattern_def no_overloads_def el_abs_def assms integer_element [OF assms])
  qed
  show "agrees1 F (IntegerType s w) (IntegerType s w) (FoldDispatch F (FoldNegOpPattern F) b) (el_neg F)"
    "agrees1 F (IntegerType s w) (IntegerType s w) (FoldDispatch F FoldNotOpPattern b) (el_not F)"
    by (rule agrees1_integers [OF assms]; auto simp: FoldNegOpPattern_def FoldNotOpPattern_def no_overloads_def
        el_neg_def el_not_def map_element_integers [OF assms])+
  show "agrees1 F (IntegerType s w) (IntegerType s w) (FoldDispatch F (FoldSignOpPattern F M) b) (el_sign F)"
  proof (rule agrees1_integers [OF assms])
    fix a v assume a: "wf_apint a" "getBitWidth a = w" "FoldDispatch F (FoldSignOpPattern F M) b (VInt a) = Inr v"
    have "getAPSInt w k = mkAPInt w (sval (mkAPInt 64 k))" if "k \<in> {- 1, 0, 1}" for k
    proof -
      have "w \<le> 64" using assms by (auto simp: supported_IntegerType)
      moreover have "k mod 2 ^ 64 = take_bit 64 k" by (simp add: take_bit_eq_mod)
      ultimately have "take_bit w (k mod 2 ^ 64) = take_bit w k" by (simp only: take_bit_take_bit min_absorb1)
      then show ?thesis using that sign_values by (auto simp: getAPSInt_def mkAPInt_def)
    qed
    note sign = this [of "if isNegative a then - 1 else if isZero a then 0 else 1"]
    have "v = VInt (getAPSInt w (if isNegative a then - 1 else if isZero a then 0 else 1))"
      using a(2,3) by (simp add: FoldSignOpPattern_def no_overloads_def no_match_def split: if_split_asm)
    moreover have "el_sign F (mkElement (IntegerType s w) (VInt a)) =
        convert_int64 F (IntegerType s w) (if isNegative a then - 1 else if isZero a then 0 else 1)"
      by (simp add: el_sign_def Let_def assms integer_element(2) [OF assms a(1,2)])
    ultimately show "\<exists>z. v = VInt z \<and> wf_apint z \<and> getBitWidth z = w \<and>
        el_sign F (mkElement (IntegerType s w) (VInt a)) = Element_int (IntegerType s w) z"
      using sign convert_integers(1) [OF assms] by auto
  qed
qed

lemma not_booleans: "agrees1 F i1Type i1Type (FoldDispatch F FoldNotOpPattern b) (el_not F)"
proof -
  have "ap_not (mkAPInt 1 (if c then 1 else 0)) = mkAPInt 1 (if \<not> c then 1 else 0)" for c
    by (cases c) (simp_all add: ap_not_def mkAPInt_def take_bit_eq_mod)
  moreover have "el_not F (bool_el c) = Inr (bool_el (\<not> c))" for c
    by (simp add: el_not_def map_element_def i1_element)
  ultimately show ?thesis
    unfolding agrees1_def storable_boolean by (auto simp: FoldNotOpPattern_def no_overloads_def)
qed

text \<open>Types of integers and of booleans.\<close>

definition discrete :: "Type \<Rightarrow> bool" where
  "discrete ty \<longleftrightarrow> isSupportedIntegerType ty \<or> ty = i1Type"

lemma discrete_cases:
  assumes "discrete ty"
  obtains (Integer) s w where "ty = IntegerType s w" "isSupportedIntegerType (IntegerType s w)" | (Boolean) "ty = i1Type"
  using assms by (auto simp: discrete_def supported_IntegerType)

lemma convert_discrete:
  assumes "discrete ty" "discrete rty" "getIntOrFloatBitWidth rty = Inr n"
  shows "agrees1 F ty rty (foldConvert F M ty rty n) (convert_Element F rty)"
  using assms(1)
proof (cases rule: discrete_cases)
  case (Integer s w)
  note ty = Integer(1) and sup = Integer(2)
  have signed: "isSupportedSignedIntegerType ty \<longleftrightarrow> s \<noteq> Unsigned" "isSupportedUnsignedIntegerType ty \<longleftrightarrow> s = Unsigned"
    "\<not> isSupportedBooleanType ty" "isSignlessInteger ty 1 \<or> isUnsignedIntegerType ty \<longleftrightarrow> s = Unsigned"
    using Integer by (auto simp: supported_IntegerType supported_defs)
  have "\<exists>e'. convert_Element F rty (mkElement ty (VInt a)) = Inr e' \<and> storable F rty e' \<and>
      foldConvert F M ty rty n (VInt a) = Inr (attr_value e')" if a: "wf_apint a" "getBitWidth a = w" for a
    using assms(2)
  proof (cases rule: discrete_cases)
    case (Integer s' w')
    have "convert_Element F rty (mkElement ty (VInt a)) = Element_int rty (mkAPInt w' (if s = Unsigned then uval a else sval a))"
      using int64_exact [OF sup a] a signed ty Integer sup
      by (cases "s = Unsigned") (simp_all add: convert_Element_def convert_integers getIntegerValue_def del: mkAPInt_uval)
    moreover have "foldConvert F M ty rty n (VInt a) = Inr (VInt (mkAPInt w' (if s = Unsigned then uval a else sval a)))"
      using signed(4) Integer assms(3) supported_width_pos [OF Integer(2)]
      by (auto simp: foldConvert_def Let_def)
    ultimately show ?thesis using Integer by (simp add: int_el_storable)
  next
    case Boolean
    have "convert_Element F rty (mkElement ty (VInt a)) = Inr (bool_el (\<not> isZero (mkAPInt 64 (if s = Unsigned then uval a else sval a))))"
      using signed ty sup Boolean
      by (cases "s = Unsigned") (simp_all add: getIntegerValue_def convert_Element_def convert_int64_def convert_uint64_def convert_APSInt_def convert_APSInt_scalar_def i1_element
          supported_ComplexType)
    moreover have "isZero (mkAPInt 64 (if s = Unsigned then uval a else sval a)) = isZero a"
    proof -
      have zero: "isZero x \<longleftrightarrow> sval x = 0" if "wf_apint x" "0 < getBitWidth x" for x
        using that by (auto simp: isZero_def sval_def wf_apint_def isNegative_def)
      show ?thesis
      proof (cases "s = Unsigned")
        case True
        then show ?thesis using int64_exact(2) [OF sup a] by (simp add: isZero_def del: mkAPInt_uval)
      next
        case False
        then show ?thesis
          using int64_exact(1) [OF sup a] zero [of a] zero [of "mkAPInt 64 (sval a)"] a supported_width_pos [OF sup] by simp
      qed
    qed
    ultimately show ?thesis
      using Boolean assms(3) storable_boolean by (auto simp: foldConvert_def Let_def)
  qed
  then have main: "\<exists>e'. convert_Element F rty (mkElement ty (VInt a)) = Inr e' \<and> storable F rty e' \<and>
      foldConvert F M ty rty n (VInt a) = Inr (attr_value e')" if "wf_apint a \<and> getBitWidth a = w" for a
    using that by blast
  show ?thesis
    unfolding agrees1_def
  proof (intro allI impI)
    fix e v assume e: "storable F ty e" "foldConvert F M ty rty n (attr_value e) = Inr v"
    then obtain a where a: "e = mkElement ty (VInt a)" "wf_apint a \<and> getBitWidth a = w"
      using storable_integer [OF sup, of F e] ty by auto
    with main [OF a(2)] e(2) show "\<exists>e'. convert_Element F rty e = Inr e' \<and> storable F rty e' \<and> attr_value e' = v" by auto
  qed
next
  case Boolean
  have "\<exists>e'. convert_Element F rty (bool_el b) = Inr e' \<and> storable F rty e' \<and>
      foldConvert F M ty rty n (VInt (mkAPInt 1 (if b then 1 else 0))) = Inr (attr_value e')" for b
    using assms(2)
  proof (cases rule: discrete_cases)
    case (Integer s' w')
    have "convert_Element F rty (bool_el b) = Element_int rty (mkAPInt w' (if b then 1 else 0))"
      using Integer supported_width_pos [OF Integer(2)]
      by (auto simp: convert_Element_def convert_bool_def i1_element convert_integers supported_BooleanType)
    moreover have "foldConvert F M ty rty n (VInt (mkAPInt 1 (if b then 1 else 0))) = Inr (VInt (mkAPInt w' (if b then 1 else 0)))"
      using Boolean Integer assms(3) supported_width_pos [OF Integer(2)]
      by (auto simp: foldConvert_def Let_def)
    ultimately show ?thesis using Integer by (simp add: int_el_storable)
  next
    case Boolean
    then show ?thesis
      using assms(3) \<open>ty = i1Type\<close> bool_el_storable [of F b]
      by (auto simp: convert_Element_def convert_bool_def i1_element foldConvert_def Let_def isZero_def)
  qed
  then have main: "\<exists>e'. convert_Element F rty (bool_el b) = Inr e' \<and> storable F rty e' \<and>
      foldConvert F M ty rty n (VInt (mkAPInt 1 (if b then 1 else 0))) = Inr (attr_value e')" for b
    by blast
  show ?thesis
    unfolding agrees1_def
  proof (intro allI impI)
    fix e v assume e: "storable F ty e" "foldConvert F M ty rty n (attr_value e) = Inr v"
    then obtain b where b: "e = bool_el b" using Boolean storable_boolean by blast
    then show "\<exists>e'. convert_Element F rty e = Inr e' \<and> storable F rty e' \<and> attr_value e' = v"
      using main [of b] e(2) by auto
  qed
qed

text \<open>
  The declared type \<open>ty\<close> of the result of an element-wise operation fits the operands: the arithmetic is on integers, the logical
  operations, the extrema and the product also on booleans.
\<close>

fun typed_elementwise :: "ShapedType \<Rightarrow> ElementwiseOp \<Rightarrow> bool" where
  "typed_elementwise ty (Unary name a) =
     (if name = ReshapeOp then
        verifyReshapeOp (ranked a) (as_ranked ty) = Inr () \<and> list_all (\<lambda>d. 0 \<le> d) (getShape ty) \<and>
        getElementType ty = getElementType (tensor_type a)
      else if name = ConvertOp then
        getShape (tensor_type a) = getShape ty \<and> discrete (getElementType (tensor_type a)) \<and> discrete (getElementType ty)
      else tensor_type a = ty \<and> (integers ty \<or> name = NotOp \<and> getElementType ty = i1Type))"
| "typed_elementwise ty (Binary name a b) =
     (tensor_type a = ty \<and> tensor_type b = ty \<and>
      (integers ty \<or> name \<in> {AndOp, OrOp, XorOp, MulOp, MaxOp, MinOp} \<and> getElementType ty = i1Type))"
| "typed_elementwise ty (CompareOp a b direction) =
     (discrete (getElementType (tensor_type a)) \<and> tensor_type b = tensor_type a \<and>
      ty = \<lparr>getShape = getShape (tensor_type a), getElementType = i1Type\<rparr>)"
| "typed_elementwise ty op = verified_elementwise ty op"

lemma integers_type:
  assumes "integers ty"
  obtains s w where "getElementType ty = IntegerType s w" "isSupportedIntegerType (IntegerType s w)"
  using assms by (auto simp: integers_def split: Type.splits)

lemma constant_binary:
  assumes "consts_hold (number_system E) const scope" "folding_ok M"
    and "foldBinaryOpIntOrFloat M const ty a b calculate = Inr d" "getShape (tensor_type a) = getShape ty"
    and "agrees2 (number_system E) (getElementType (tensor_type a)) (getElementType ty) calculate fn" "wf_type ty"
    and "\<And>t u. op t u = binaryOp (number_system E) fn t u ty"
  shows "computes_constant E (rbind (findTensor scope a) (\<lambda>t. rbind (findTensor scope b) (op t))) ty d"
proof -
  from assms(3) obtain x y where c: "constant_operand const a = Inr x" "constant_operand const b = Inr y"
    "constFoldBinaryOp M x y ty calculate = Inr d"
    by (auto simp: foldBinaryOpIntOrFloat_def fold_binary_attrs_def result_simps split: if_splits)
  obtain t f where t: "findTensor scope a = Inr t" "t_type t = d_type x" "tensor_type a = d_type x"
    "denotes (number_system E) t f" "d_values x = map (\<lambda>i. attr_value (f i)) (index_space (t_shape t))"
    using constant_d_holds [OF assms(1) c(1)] by metis
  obtain u g where u: "findTensor scope b = Inr u" "t_type u = d_type y" "denotes (number_system E) u g"
    "d_values y = map (\<lambda>i. attr_value (g i)) (index_space (t_shape u))"
    using constant_d_holds [OF assms(1) c(2)] by metis
  note ty = folding_okD(2) [OF assms(2) c(3)]
  have sh: "getShape ty = t_shape t" using assms(4) t(2,3) by simp
  have same: "t_type u = t_type t" using ty t(2) u(2) by simp
  have vals: "mapM (\<lambda>(x, y). calculate x y) (zip (d_values x) (d_values y)) = Inr (d_values d)"
    using folding_okD(3) [OF assms(2) c(3)] sh t(2) by simp
  have "\<exists>r. binaryOp (number_system E) fn t u ty = Inr r \<and> t_type r = ty \<and> d_holds (number_system E) r d"
  proof (rule binary_folds [OF t(4) u(3) assms(6) sh same])
    show "mapM (\<lambda>(x, y). calculate x y) (zip (map (\<lambda>i. attr_value (f i)) (index_space (t_shape t)))
        (map (\<lambda>i. attr_value (g i)) (index_space (t_shape t)))) = Inr (d_values d)" "d_type d = ty"
      using vals ty t(5) u(4) same by simp_all
  qed (use assms(5) t(2,3) in \<open>auto simp: agrees2_def\<close>)
  then show ?thesis using t(1) u(1) assms(7) by auto
qed

lemma constant_unary:
  assumes "consts_hold (number_system E) const scope" "folding_ok M"
    and "foldUnaryOpIntOrFloat M const a calculate = Inr d" "tensor_type a = ty"
    and "agrees1 (number_system E) (getElementType ty) (getElementType ty) calculate fn"
    and "\<And>t. op t = unaryOp (number_system E) fn t ty"
  shows "computes_constant E (rbind (findTensor scope a) op) ty d"
proof -
  from assms(3) obtain x where c: "constant_operand const a = Inr x" "constFoldUnaryOp M x calculate = Inr d"
    by (auto simp: foldUnaryOpIntOrFloat_def result_simps split: if_splits)
  obtain t f where t: "findTensor scope a = Inr t" "t_type t = d_type x" "tensor_type a = d_type x"
    "denotes (number_system E) t f" "d_values x = map (\<lambda>i. attr_value (f i)) (index_space (t_shape t))"
    using constant_d_holds [OF assms(1) c(1)] by metis
  have ty: "t_type t = ty" "wf_type ty" using t(2,3) assms(4) wf_tensor_type [OF denotes_wf [OF t(4)]] by auto
  have "\<exists>r. unaryOp (number_system E) fn t ty = Inr r \<and> t_type r = ty \<and> d_holds (number_system E) r d"
  proof (rule unary_folds [OF t(4) ty(2)])
    show "mapM calculate (map (\<lambda>i. attr_value (f i)) (index_space (t_shape t))) = Inr (d_values d)" "d_type d = ty"
      using folding_okD(1) [OF assms(2) c(2)] t(2,5) ty(1) by simp_all
  qed (use assms(5) ty(1) in \<open>auto simp: agrees1_def\<close>)
  then show ?thesis using t(1) assms(6) by auto
qed

lemma fold_convert:
  assumes "consts_hold (number_system E) const scope" "folding_ok M" "typed_elementwise ty (Unary ConvertOp a)"
    and "FoldConvertOpPattern (number_system E) M opts const ty a = Inr d"
  shows "computes_constant E (elementwise_value E scope ty (Unary ConvertOp a)) ty d"
proof -
  let ?F = "number_system E"
  from assms(4) obtain x n where c: "constant_operand const a = Inr x" "getIntOrFloatBitWidth (getElementType ty) = Inr n"
    "constFoldCastOp M x ty (foldConvert ?F M (d_elementType x) (getElementType ty) n) = Inr d"
    by (auto simp: FoldConvertOpPattern_def result_simps)
  obtain t f where t: "findTensor scope a = Inr t" "t_type t = d_type x" "tensor_type a = d_type x"
    "denotes ?F t f" "d_values x = map (\<lambda>i. attr_value (f i)) (index_space (t_shape t))"
    using constant_d_holds [OF assms(1) c(1)] by metis
  have ty: "getShape ty = t_shape t" "discrete (t_elementType t)" "discrete (getElementType ty)" using assms(3) t(2,3) by auto
  have wf: "wf_type ty"
    using wf_shape [OF t(4)] ty(1,3) isSupportedType_size [of "getElementType ty"]
    by (auto simp: wf_type_def discrete_def isSupportedType_def i1_element)
  have "\<exists>r. unaryOp ?F (convert_Element ?F (getElementType ty)) t ty = Inr r \<and> t_type r = ty \<and> d_holds ?F r d"
  proof (rule unary_folds [OF t(4) wf ty(1)])
    show "mapM (foldConvert ?F M (t_elementType t) (getElementType ty) n) (map (\<lambda>i. attr_value (f i)) (index_space (t_shape t))) =
        Inr (d_values d)" "d_type d = ty"
      using folding_okD(4) [OF assms(2) c(3)] t(2,5) ty(1) by simp_all
  qed (use convert_discrete [OF ty(2,3) c(2), of ?F M] in \<open>simp add: agrees1_def\<close>)
  then show ?thesis using t(1) by (auto simp: convertOp_def)
qed

lemma fold_reshape:
  assumes "consts_hold (number_system E) const scope" "typed_elementwise ty (Unary ReshapeOp a)"
    and "FoldReshapeOpPattern opts const ty a = Inr d"
  shows "computes_constant E (elementwise_value E scope ty (Unary ReshapeOp a)) ty d"
proof -
  let ?F = "number_system E"
  from assms(3) obtain x where c: "constant_operand const a = Inr x" "d = x\<lparr>d_type := ty\<rparr>"
    by (auto simp: FoldReshapeOpPattern_def result_simps)
  obtain t f where t: "findTensor scope a = Inr t" "t_type t = d_type x" "tensor_type a = d_type x"
    "denotes ?F t f" "d_values x = map (\<lambda>i. attr_value (f i)) (index_space (t_shape t))"
    using constant_d_holds [OF assms(1) c(1)] by metis
  let ?sh = "t_shape t" and ?rs = "getShape ty"
  have ty: "verifyReshapeOp (as_ranked (t_type t)) (as_ranked ty) = Inr ()" "list_all (\<lambda>d. 0 \<le> d) ?rs"
    "getElementType ty = t_elementType t"
    using assms(2) t(2,3) by (auto simp: ranked_def)
  obtain r where r: "reshapeOp ?F t ty = Inr r" "t_type r = ty" "denotes ?F r (\<lambda>j. f (index_space ?sh ! nat (flat ?rs j)))"
    using reshape_denotes [OF t(4) ty] by blast
  have stat: "list_all isStaticDimSize shape" if "list_all (\<lambda>d. 0 \<le> d) shape" for shape
    using that by (auto simp: list_all_iff isStaticDimSize_def isDynamicDimSize_def kDynamic_def)
  have "prod_list ?rs = prod_list ?sh"
    using ty(1) stat [OF ty(2)] stat [OF wf_shape [OF t(4)]]
    by (simp add: verifyReshapeOp_def as_ranked_def mkRankedTensorType_def hasStaticShape_def split: if_splits)
  then have len: "length (index_space ?rs) = length (index_space ?sh)"
    using length_index_space ty(2) wf_shape [OF t(4)] by simp
  have "map (\<lambda>j. attr_value (f (index_space ?sh ! nat (flat ?rs j)))) (index_space ?rs) =
      map (\<lambda>k. attr_value (f (index_space ?sh ! nat k))) (map (flat ?rs) (index_space ?rs))" by (simp add: comp_def)
  also have "\<dots> = d_values x"
    unfolding flat_index_space [OF ty(2)] t(5) using len length_index_space [OF ty(2)]
    by (intro nth_equalityI) (simp_all add: upto_int_nth)
  finally have "d_holds ?F r d" using r c(2) by (intro d_holdsI [OF r(3)]) simp_all
  with r t(1) show ?thesis by auto
qed

lemma fold_select:
  assumes "consts_hold (number_system E) const scope" "typed_elementwise ty (SelectOp p a b)"
    and "FoldSelectOpPattern opts const ty p a b = Inr d"
  shows "computes_constant E (elementwise_value E scope ty (SelectOp p a b)) ty d"
proof -
  let ?F = "number_system E"
  from assms(3) obtain x y z where c: "constant_operand const p = Inr x" "constant_operand const a = Inr y" "constant_operand const b = Inr z"
    and fold: "(if isSplat x then rbind (getSplatValue x) (\<lambda>p. Inr (if value_isZero p then z else y))
      else if isFloatType (getElementType ty) then no_match
      else check (validateElementCountForFold opts ty) (Dense_get ty (map (\<lambda>(p, t, f). if \<not> value_isZero p then t else f)
        (zip3 (d_values x) (d_values y) (d_values z))))) = Inr d"
    by (auto simp: FoldSelectOpPattern_def result_simps)
  obtain s p' where "findTensor scope p = Inr s" "t_type s = d_type x" "tensor_type p = d_type x"
    "denotes ?F s p'" "d_values x = map (\<lambda>i. attr_value (p' i)) (index_space (t_shape s))"
    using constant_d_holds [OF assms(1) c(1)] by metis
  note s = this
  obtain t f where "findTensor scope a = Inr t" "t_type t = d_type y" "tensor_type a = d_type y"
    "denotes ?F t f" "d_values y = map (\<lambda>i. attr_value (f i)) (index_space (t_shape t))"
    using constant_d_holds [OF assms(1) c(2)] by metis
  note t = this
  obtain u g where "findTensor scope b = Inr u" "t_type u = d_type z" "tensor_type b = d_type z"
    "denotes ?F u g" "d_values z = map (\<lambda>i. attr_value (g i)) (index_space (t_shape u))"
    using constant_d_holds [OF assms(1) c(3)] by metis
  note u = this
  obtain rt where rt: "inferSelectOp (as_ranked (t_type s)) (as_ranked (t_type t)) (as_ranked (t_type u)) = Inr rt" "ty = as_shaped rt"
    using assms(2) s(2,3) t(2,3) u(2,3) by (auto simp: ranked_def elim: infersE)
  obtain q where q: "denotes ?F s (\<lambda>i. bool_el (q i))"
    using bools_denote [OF s(4)] assms(2) s(2,3) by auto
  have p': "p' i = bool_el (q i)" if "inBounds i (t_shape s)" for i
    using denotes_get [OF s(4) that] denotes_get [OF q that] by simp
  note st = inferSelectOp_static [OF rt(1) denotes_static_dims [OF s(4)] denotes_static_dims [OF t(4)] denotes_static_dims [OF u(4)]]
  have ty: "ty = t_type t" "t_type u = t_type t" using st(1,2) rt(2) by simp_all
  obtain r where r: "selectOp ?F s t u ty = Inr r" "as_ranked (t_type r) = rt"
    "denotes ?F r (\<lambda>i. if q (if t_shape s = [] then [] else i) then f i else g i)"
    using select_denotes [OF q t(4) u(4) rt(1)] rt(2) by auto
  have rty: "t_type r = ty" using r(2) rt(2) by auto
  have isZ: "value_isZero (attr_value (bool_el c)) \<longleftrightarrow> \<not> c" for c
    by (simp add: value_isZero_def isZero_def)
  have spread: "inBounds (if t_shape s = [] then [] else i) (t_shape s)" if "inBounds i (t_shape t)" for i
    using st(3) that by (auto simp: inBounds_def)
  let ?h = "\<lambda>i. if q (if t_shape s = [] then [] else i) then f i else g i"
  have "d_type d = ty \<and> d_values d = map (\<lambda>i. attr_value (?h i)) (index_space (t_shape t))"
  proof (cases "isSplat x")
    case True
    then obtain v where v: "getSplatValue x = Inr v" "d = (if value_isZero v then z else y)" using fold by (auto simp: result_simps)
    have "attr_value (p' i) = v" if "inBounds i (t_shape s)" for i
      using isSplat_nth [OF True, of "attr_value (p' i)"] v(1) that s(5) by auto
    then have "value_isZero v \<longleftrightarrow> \<not> q i" if "inBounds i (t_shape s)" for i
      using isZ [of "q i"] p' [OF that] that by metis
    then have "q (if t_shape s = [] then [] else i) \<longleftrightarrow> \<not> value_isZero v" if "inBounds i (t_shape t)" for i
      using spread [OF that] by blast
    then show ?thesis using v(2) t(2,5) u(2,5) ty by auto
  next
    case False
    have ns: "t_shape s \<noteq> []" using False s(5) by (auto simp: isSplat_def)
    then have sh: "t_shape s = t_shape t" using st(3) by simp
    have zip3: "zip3 (map a' xs) (map b' xs) (map c' xs) = map (\<lambda>i. (a' i, b' i, c' i)) xs" for a' b' c' and xs :: "Index list"
      by (induction xs) simp_all
    have choice: "value_isZero (attr_value (p' i)) \<longleftrightarrow> \<not> q i" if "inBounds i (t_shape t)" for i
      using p' [of i] that isZ [of "q i"] sh by simp
    have "map (\<lambda>(p, t, f). if \<not> value_isZero p then t else f) (zip3 (d_values x) (d_values y) (d_values z)) =
        map (\<lambda>i. attr_value (?h i)) (index_space (t_shape t))"
      unfolding s(5) t(5) u(5) ty(2) sh zip3 map_map comp_def
      by (rule map_cong [OF refl]) (use choice ns sh in simp)
    with fold False ty(1) show ?thesis by (auto simp: Dense_get_def result_simps split: if_splits)
  qed
  then have "d_holds ?F r d" using rty ty(1) by (intro d_holdsI [OF r(3)]) simp_all
  with r(1) rty s(1) t(1) u(1) show ?thesis by auto
qed

lemma extrema_commute:
  assumes "isSupportedIntegerType (IntegerType s w)" "storable F (IntegerType s w) x" "storable F (IntegerType s w) y"
  shows "el_max F x y = el_max F y x" "el_min F x y = el_min F y x"
proof -
  obtain a where a: "x = int_el s w a" "in_range s w a" by (rule storable_int_el [OF assms(1,2)])
  obtain b where b: "y = int_el s w b" "in_range s w b" by (rule storable_int_el [OF assms(1,3)])
  show "el_max F x y = el_max F y x" "el_min F x y = el_min F y x"
    by (simp_all add: a(1) b(1) int_el_max_min [OF assms(1) a(2) b(2)] int_el_max_min [OF assms(1) b(2) a(2)] max.commute min.commute)
qed

lemma fold_clamp:
  assumes "consts_hold (number_system E) const scope" "folding_ok M" "typed_elementwise ty (ClampOp mn a mx)"
    and "FoldClampOpPattern (number_system E) M opts const ty mn a mx = Inr d"
  shows "computes_constant E (elementwise_value E scope ty (ClampOp mn a mx)) ty d"
proof -
  let ?F = "number_system E" and ?unsigned = "isUnsignedIntegerType (getElementType ty)"
  from assms(4) obtain x y z res where c: "constant_operand const mn = Inr x" "constant_operand const a = Inr y"
    "constant_operand const mx = Inr z" and fold: "constFoldBinaryOp M x y ty (FoldMax ?F ?unsigned) = Inr res"
    "constFoldBinaryOp M z res ty (FoldMin ?F ?unsigned) = Inr d"
    by (auto simp: FoldClampOpPattern_def fold_binary_attrs_def result_simps Let_def split: if_splits)
  obtain s l where "findTensor scope mn = Inr s" "t_type s = d_type x" "tensor_type mn = d_type x"
    "denotes ?F s l" "d_values x = map (\<lambda>i. attr_value (l i)) (index_space (t_shape s))"
    using constant_d_holds [OF assms(1) c(1)] by metis
  note s = this
  obtain t f where "findTensor scope a = Inr t" "t_type t = d_type y" "tensor_type a = d_type y"
    "denotes ?F t f" "d_values y = map (\<lambda>i. attr_value (f i)) (index_space (t_shape t))"
    using constant_d_holds [OF assms(1) c(2)] by metis
  note t = this
  obtain u g where "findTensor scope mx = Inr u" "t_type u = d_type z" "tensor_type mx = d_type z"
    "denotes ?F u g" "d_values z = map (\<lambda>i. attr_value (g i)) (index_space (t_shape u))"
    using constant_d_holds [OF assms(1) c(3)] by metis
  note u = this
  obtain rt where rt: "inferClampOp (as_ranked (t_type s)) (as_ranked (t_type t)) (as_ranked (t_type u)) = Inr rt" "ty = as_shaped rt"
    and int: "integers (t_type t)"
    using assms(3) s(2,3) t(2,3) u(2,3) by (auto simp: ranked_def elim: infersE)
  note types = folding_okD(2) [OF assms(2) fold(1)] folding_okD(2) [OF assms(2) fold(2)]
  have ty: "ty = t_type t"
    using rt denotes_static_dims [OF t(4)] by (auto simp: inferClampOp_def result_simps verifyCompatibleShape_static)
  have same: "t_type s = t_type t" "t_type u = t_type t" using types s(2) t(2) u(2) ty by simp_all
  obtain sg w where el: "t_elementType t = IntegerType sg w" "isSupportedIntegerType (IntegerType sg w)"
    using integers_type [OF int] by blast
  have unsigned: "?unsigned \<longleftrightarrow> sg = Unsigned" using ty el(1) by simp
  let ?sp = "index_space (t_shape t)"
  have st: "storable ?F (IntegerType sg w) (l i)" "storable ?F (IntegerType sg w) (f i)" "storable ?F (IntegerType sg w) (g i)"
    if "inBounds i (t_shape t)" for i
    using denotes_storable [OF s(4)] denotes_storable [OF t(4)] denotes_storable [OF u(4)] that same el(1) by auto
  have "mapM (\<lambda>(x, y). FoldMax ?F ?unsigned x y) (map (\<lambda>i. (attr_value (l i), attr_value (f i))) ?sp) = Inr (d_values res)"
    using folding_okD(3) [OF assms(2) fold(1)] s(2,5) t(2,5) same ty by (simp add: zip_maps)
  then obtain h where h: "\<And>i. inBounds i (t_shape t) \<Longrightarrow> el_max ?F (f i) (l i) = Inr (h i) \<and> storable ?F (IntegerType sg w) (h i)"
    "d_values res = map (\<lambda>i. attr_value (h i)) ?sp"
  proof (rule calculated_elements [where Q = "\<lambda>i e. el_max ?F (f i) (l i) = Inr e \<and> storable ?F (IntegerType sg w) e"])
    fix i v assume i: "inBounds i (t_shape t)" "(case (attr_value (l i), attr_value (f i)) of (x, y) \<Rightarrow> FoldMax ?F ?unsigned x y) = Inr v"
    then show "\<exists>e. (el_max ?F (f i) (l i) = Inr e \<and> storable ?F (IntegerType sg w) e) \<and> attr_value e = v"
      using binary_integers(7) [OF el(2), of ?F] st [OF i(1)] extrema_commute(1) [OF el(2), of ?F "f i" "l i"] unsigned
      unfolding agrees2_def by auto
  qed blast
  have "mapM (\<lambda>(x, y). FoldMin ?F ?unsigned x y) (map (\<lambda>i. (attr_value (g i), attr_value (h i))) ?sp) = Inr (d_values d)"
    using folding_okD(3) [OF assms(2) fold(2)] u(2,5) h(2) same ty t(2) by (simp add: zip_maps)
  then obtain k where k: "\<And>i. inBounds i (t_shape t) \<Longrightarrow> el_min ?F (h i) (g i) = Inr (k i) \<and> storable ?F (IntegerType sg w) (k i)"
    "d_values d = map (\<lambda>i. attr_value (k i)) ?sp"
  proof (rule calculated_elements [where Q = "\<lambda>i e. el_min ?F (h i) (g i) = Inr e \<and> storable ?F (IntegerType sg w) e"])
    fix i v assume i: "inBounds i (t_shape t)" "(case (attr_value (g i), attr_value (h i)) of (x, y) \<Rightarrow> FoldMin ?F ?unsigned x y) = Inr v"
    then show "\<exists>e. (el_min ?F (h i) (g i) = Inr e \<and> storable ?F (IntegerType sg w) e) \<and> attr_value e = v"
      using binary_integers(8) [OF el(2), of ?F] st [OF i(1)] h(1) [OF i(1)] extrema_commute(2) [OF el(2), of ?F "h i" "g i"] unsigned
      unfolding agrees2_def by auto
  qed blast
  have "\<exists>r. clampOp ?F s t u ty = Inr r \<and> t_type r = ty \<and> denotes ?F r k"
    unfolding clampOp_def spread_rank
  proof (rule fill_result_denotes)
    show "wf_type ty" using ty wf_tensor_type [OF denotes_wf [OF t(4)]] by simp
    fix i assume i: "inBounds i (getShape ty)"
    then have i': "inBounds i (t_shape t)" "spread s i = i" "spread u i = i" using ty same by (auto simp: spread_def inBounds_def)
    then show "rbind (Tensor_get ?F s (spread s i)) (\<lambda>minElement. rbind (Tensor_get ?F u (spread u i)) (\<lambda>maxElement.
        rbind (Tensor_get ?F t i) (\<lambda>e. rbind (el_max ?F e minElement) (\<lambda>m. el_min ?F m maxElement)))) = Inr (k i) \<and>
      storable ?F (getElementType ty) (k i)"
      using h(1) [OF i'(1)] k(1) [OF i'(1)] denotes_get [OF s(4), of i] denotes_get [OF t(4), of i] denotes_get [OF u(4), of i] same ty el(1)
      by simp
  qed
  then obtain r where r: "clampOp ?F s t u ty = Inr r" "t_type r = ty" "denotes ?F r k" by blast
  then have "d_holds ?F r d" using k(2) types ty by (intro d_holdsI [OF r(3)]) simp_all
  with r s(1) t(1) u(1) show ?thesis by auto
qed

lemma fold_unary_pattern:
  assumes "consts_hold (number_system E) const scope" "folding_ok M"
    and "FoldUnaryOpPattern (number_system E) M impl const ty a = Inr d" "tensor_type a = ty" "getElementType ty = IntegerType s w"
    and "\<And>b. agrees1 (number_system E) (IntegerType s w) (IntegerType s w) (FoldDispatch (number_system E) impl b) fn"
    and "\<And>t. op t = unaryOp (number_system E) fn t ty"
  shows "computes_constant E (rbind (findTensor scope a) op) ty d"
proof -
  obtain b where "foldUnaryOpIntOrFloat M const a (FoldDispatch (number_system E) impl b) = Inr d"
    using assms(3,5) by (auto simp: FoldUnaryOpPattern_def Let_def split: if_splits)
  from constant_unary [OF assms(1,2) this assms(4) _ assms(7)] assms(5,6) show ?thesis by simp
qed

lemma fold_unary_sound:
  assumes "consts_hold (number_system E) const scope" "folding_ok M" "typed_elementwise ty (Unary name a)"
    and "fold_unary (number_system E) M opts const ty name a = Inr d"
  shows "computes_constant E (elementwise_value E scope ty (Unary name a)) ty d"
proof (cases "name = ConvertOp \<or> name = ReshapeOp")
  case True
  then show ?thesis using fold_convert [OF assms(1,2)] fold_reshape [OF assms(1)] assms(3,4) by auto
next
  case False
  then have ty: "tensor_type a = ty" "integers ty \<or> name = NotOp \<and> getElementType ty = i1Type" using assms(3) by auto
  show ?thesis
  proof (cases "integers ty")
    case True
    then obtain s w where el: "getElementType ty = IntegerType s w" "isSupportedIntegerType (IntegerType s w)"
      by (rule integers_type)
    note pattern = fold_unary_pattern [OF assms(1,2) _ ty(1) el(1)]
    have float_only: "computes_constant E (rbind (findTensor scope a) op) ty d"
      if "FoldUnaryOpPattern (number_system E) M impl const ty a = Inr d" "on_APInt impl = None" "on_APSInt impl = None"
        "op = (\<lambda>t. unaryOp (number_system E) fn t ty)" for impl op fn
      using pattern [OF that(1) agrees1_int_only [OF el(2) that(2,3)], of op] that(4) by simp
    note ints = unary_integers [OF el(2)]
    note defs = fold_double_def no_overloads_def
    show ?thesis
    proof (cases name)
      case AbsOp
      with assms(4) show ?thesis by (auto simp: absOp_def intro!: pattern [OF _ ints(1)])
    next
      case NegOp
      with assms(4) show ?thesis by (auto simp: negOp_def intro!: pattern [OF _ ints(2)])
    next
      case NotOp
      with assms(4) show ?thesis by (auto simp: notOp_def intro!: pattern [OF _ ints(3)])
    next
      case SignOp
      with assms(4) show ?thesis by (auto simp: signOp_def intro!: pattern [OF _ ints(4)])
    next
      case CosineOp
      with assms(4) show ?thesis by (auto simp: cosineOp_def FoldCosineOpPattern_def defs intro!: float_only)
    next
      case ExpOp
      with assms(4) show ?thesis by (auto simp: exponentialOp_def FoldExpOpPattern_def defs intro!: float_only)
    next
      case LogOp
      with assms(4) show ?thesis by (auto simp: logOp_def FoldLogOpPattern_def defs intro!: float_only)
    next
      case LogisticOp
      with assms(4) show ?thesis by (auto simp: logisticOp_def FoldLogisticOpPattern_def defs intro!: float_only)
    next
      case RoundOp
      with assms(4) show ?thesis by (auto simp: roundOp_def FoldRoundOpPattern_def defs intro!: float_only)
    next
      case RoundNearestEvenOp
      with assms(4) show ?thesis by (auto simp: roundNearestEvenOp_def FoldRoundNearestEvenOpPattern_def defs intro!: float_only)
    next
      case RsqrtOp
      with assms(4) show ?thesis by (auto simp: rsqrtOp_def FoldRsqrtOpPattern_def defs intro!: float_only)
    next
      case SineOp
      with assms(4) show ?thesis by (auto simp: sineOp_def FoldSineOpPattern_def defs intro!: float_only)
    next
      case SqrtOp
      with assms(4) show ?thesis by (auto simp: sqrtOp_def FoldSqrtOpPattern_def defs intro!: float_only)
    next
      case TanOp
      with assms(4) show ?thesis by (auto simp: tanOp_def FoldTanOpPattern_def defs intro!: float_only)
    next
      case TanhOp
      with assms(4) show ?thesis by (auto simp: tanhOp_def FoldTanhOpPattern_def defs intro!: float_only)
    qed (use assms(4) False in simp_all)
  next
    case False
    then have not: "name = NotOp" "getElementType ty = i1Type" using ty(2) by auto
    show ?thesis
      unfolding elementwise_value.simps not(1) unary_of.simps
      by (rule fold_unary_pattern [OF assms(1,2) _ ty(1) not(2) not_booleans])
        (use assms(4) not(1) in \<open>simp_all add: notOp_def\<close>)
  qed
qed

lemma constant_wf:
  assumes "consts_hold F const scope" "constant_operand const a = Inr x"
  shows "wf_type (tensor_type a)"
  using constant_d_holds [OF assms] wf_tensor_type denotes_wf by metis

lemma fold_compare:
  assumes "consts_hold (number_system E) const scope" "folding_ok M" "typed_elementwise ty (CompareOp a b dir)"
    and "FoldCompareOpPattern (number_system E) M opts const ty None a b dir = Inr d"
  shows "computes_constant E (elementwise_value E scope ty (CompareOp a b dir)) ty d"
proof -
  let ?el = "getElementType (tensor_type a)"
  from assms(4) obtain aty where c: "shaped_type a = Inr aty"
    and fold: "foldBinaryOpIntOrFloat M const ty a b (FoldCompare (number_system E) dir (default_comparison (getElementType aty))) = Inr d"
    by (auto simp: FoldCompareOpPattern_def result_simps Let_def getComparisonType_def)
  have aty: "aty = tensor_type a" using c by (auto simp: shaped_type_def tensor_type_def split: Values.ValueType.splits)
  obtain x where "constant_operand const a = Inr x" using fold by (auto simp: foldBinaryOpIntOrFloat_def result_simps)
  then have "list_all (\<lambda>d. 0 \<le> d) (getShape ty)" using constant_wf [OF assms(1)] assms(3) by (auto simp: wf_type_def)
  then have wf: "wf_type ty" using assms(3) isSupportedType_size [of i1Type] by (auto simp: wf_type_def isSupportedType_def i1_element)
  have "agrees2 (number_system E) ?el i1Type (FoldCompare (number_system E) dir (default_comparison ?el)) (compare_elements (number_system E) dir)"
    using assms(3)
  proof -
    have "discrete ?el" using assms(3) by simp
    then show ?thesis
    proof (cases rule: discrete_cases)
      case (Integer s w)
      have "default_comparison ?el = (if s = Unsigned then CompareUNSIGNED else CompareSIGNED)"
        using Integer supported_signless [OF Integer(2)] supported_width_pos [OF Integer(2)] by (auto simp: default_comparison_def)
      then show ?thesis using compare_integers [OF Integer(2), of "number_system E" dir] Integer(1) by simp
    next
      case Boolean
      then show ?thesis using compare_booleans by (simp add: default_comparison_def)
    qed
  qed
  then show ?thesis
    unfolding elementwise_value.simps
    by (intro constant_binary [OF assms(1,2) fold [unfolded aty] _ _ wf]) (use assms(3) in \<open>simp_all add: compareOp_def\<close>)
qed

lemma fold_binary_sound:
  assumes "consts_hold (number_system E) const scope" "folding_ok M" "typed_elementwise ty (Binary name a b)"
    and "fold_binary (number_system E) M opts const ty name a b = Inr d"
  shows "computes_constant E (elementwise_value E scope ty (Binary name a b)) ty d"
proof -
  let ?F = "number_system E" and ?el = "getElementType ty"
  have ty: "tensor_type a = ty" "integers ty \<or> name \<in> {AndOp, OrOp, XorOp, MulOp, MaxOp, MinOp} \<and> ?el = i1Type"
    using assms(3) by auto
  have pattern: "computes_constant E (rbind (findTensor scope a) (\<lambda>t. rbind (findTensor scope b) (op t))) ty d"
    if fold: "foldBinaryOpIntOrFloat M const ty a b calculate = Inr d" and "agrees2 ?F ?el ?el calculate fn"
      and "\<And>t u. op t u = binaryOp ?F fn t u ty" for op calculate fn
  proof -
    obtain x where "constant_operand const a = Inr x" using fold by (auto simp: foldBinaryOpIntOrFloat_def result_simps)
    then have "wf_type ty" using constant_wf [OF assms(1)] ty(1) by auto
    with constant_binary [OF assms(1,2) that(1) _ _ _ that(3)] that(2) ty(1) show ?thesis by simp
  qed
  show ?thesis
  proof (cases "integers ty")
    case True
    then obtain s w where el: "?el = IntegerType s w" "isSupportedIntegerType (IntegerType s w)" by (rule integers_type)
    have w: "w \<noteq> 1" using supported_width_pos [OF el(2)] by simp
    note ints = binary_integers [OF el(2), folded el(1)]
    show ?thesis
    proof (cases name)
      case AddOp
      with assms(4) w el(1) show ?thesis
        by (auto simp: addOp_def FoldAddOpPattern_def fold_logical_def check_eq_Inr intro!: pattern [OF _ ints(1)])
    next
      case SubtractOp
      with assms(4) w el(1) show ?thesis
        by (auto simp: subtractOp_def FoldSubtractOpPattern_def fold_logical_def check_eq_Inr intro!: pattern [OF _ ints(2)])
    next
      case MulOp
      with assms(4) w el(1) show ?thesis
        by (auto simp: multiplyOp_def FoldMulOpPattern_def fold_logical_def check_eq_Inr intro!: pattern [OF _ ints(3)])
    next
      case AndOp
      with assms(4) w el(1) show ?thesis
        by (auto simp: andOp_def FoldAndOpPattern_def fold_logical_def check_eq_Inr intro!: pattern [OF _ ints(4)])
    next
      case OrOp
      with assms(4) w el(1) show ?thesis
        by (auto simp: orOp_def FoldOrOpPattern_def fold_logical_def check_eq_Inr intro!: pattern [OF _ ints(5)])
    next
      case XorOp
      with assms(4) w el(1) show ?thesis
        by (auto simp: xorOp_def FoldXorOpPattern_def fold_logical_def check_eq_Inr intro!: pattern [OF _ ints(6)])
    next
      case MaxOp
      with assms(4) w el(1) show ?thesis
        by (auto simp: maxOp_def FoldMaxOpPattern_def fold_logical_def check_eq_Inr intro!: pattern [OF _ ints(7)])
    next
      case MinOp
      with assms(4) w el(1) show ?thesis
        by (auto simp: minOp_def FoldMinOpPattern_def fold_logical_def check_eq_Inr intro!: pattern [OF _ ints(8)])
    next
      case DivOp
      with assms(4) w el(1) show ?thesis
        by (auto simp: divideOp_def FoldDivOpPattern_def fold_logical_def check_eq_Inr intro!: pattern [OF _ ints(9)])
    next
      case RemOp
      with assms(4) w el(1) show ?thesis
        by (auto simp: remOp_def FoldRemOpPattern_def fold_logical_def check_eq_Inr intro!: pattern [OF _ ints(10)])
    qed (use assms(4) in simp_all)
  next
    case False
    then have el: "?el = i1Type" and "name \<in> {AndOp, OrOp, XorOp, MulOp, MaxOp, MinOp}" using ty(2) by auto
    then consider "name = MulOp" | "name = AndOp" | "name = OrOp" | "name = XorOp" | "name = MaxOp" | "name = MinOp" by auto
    then show ?thesis
    proof cases
      case 1
      with assms(4) el show ?thesis
        by (auto simp: multiplyOp_def FoldMulOpPattern_def fold_logical_def check_eq_Inr intro!: pattern [OF _ binary_booleans(1) [folded el]])
    next
      case 2
      with assms(4) el show ?thesis
        by (auto simp: andOp_def FoldAndOpPattern_def fold_logical_def check_eq_Inr intro!: pattern [OF _ binary_booleans(2) [folded el]])
    next
      case 3
      with assms(4) el show ?thesis
        by (auto simp: orOp_def FoldOrOpPattern_def fold_logical_def check_eq_Inr intro!: pattern [OF _ binary_booleans(3) [folded el]])
    next
      case 4
      have "isInteger1 ?el" using el by simp
      with assms(4) have "foldBinaryOpIntOrFloat M const ty a b (int_or_float
          (\<lambda>l r. Inr (mkAPInt (getBitWidth l) (if (\<not> isZero l) \<noteq> (\<not> isZero r) then 1 else 0))) (\<lambda>l r. no_match)) = Inr d"
        by (simp only: 4 fold_binary.simps FoldXorOpPattern_def fold_logical_def if_True)
      from pattern [OF this binary_booleans(4) [folded el], of "\<lambda>t u. xorOp ?F t u ty"] 4 show ?thesis
        by (simp add: xorOp_def)
    next
      case 5
      with assms(4) el show ?thesis
        by (auto simp: maxOp_def FoldMaxOpPattern_def fold_logical_def check_eq_Inr intro!: pattern [OF _ binary_booleans(5) [folded el]])
    next
      case 6
      with assms(4) el show ?thesis
        by (auto simp: minOp_def FoldMinOpPattern_def fold_logical_def check_eq_Inr intro!: pattern [OF _ binary_booleans(6) [folded el]])
    qed
  qed
qed

text \<open>
  C38: folding element-wise operations is sound for the operations and types of \<open>typed_elementwise\<close>: on integers of every supported
  width and signedness all of them; on booleans \<open>and\<close>, \<open>or\<close>, \<open>xor\<close>, \<open>not\<close>, \<open>multiply\<close>, \<open>maximum\<close>, \<open>minimum\<close>, comparisons, conversions,
  reshapes and selections, but not \<open>add\<close>, \<open>subtract\<close> and \<open>clamp\<close>, where folding differs (\<open>boolean_folds_differ\<close>). When the constant operands hold the values in scope and MLIR's folding functions apply a calculation to all
  elements, a constant that a pattern gives for an operation has the declared type and holds the tensor that the interpreter
  computes: for the arithmetic with its wrap-around, divisions, logical operations, extrema, comparisons by signedness, conversions
  between integers and booleans, reshapes, clamps and selections.
\<close>

theorem fold_elementwise_sound:
  assumes "consts_hold (number_system E) const scope" "folding_ok M" "typed_elementwise ty op"
    and "fold_elementwise (number_system E) M opts const ty op = Inr d"
  shows "\<exists>t. elementwise_value E scope ty op = Inr t \<and> t_type t = ty \<and> d_holds (number_system E) t d"
proof (cases op)
  case (Unary name a)
  then show ?thesis using fold_unary_sound [OF assms(1,2)] assms(3,4) by simp
next
  case (Binary name a b)
  then show ?thesis using fold_binary_sound [OF assms(1,2)] assms(3,4) unfolding Binary fold_elementwise.simps by blast
next
  case (ClampOp mn a mx)
  then show ?thesis using fold_clamp [OF assms(1,2)] assms(3,4) by simp
next
  case (CompareOp a b direction)
  then show ?thesis using fold_compare [OF assms(1,2)] assms(3,4) by simp
next
  case (SelectOp p a b)
  then show ?thesis using fold_select [OF assms(1)] assms(3,4) by simp
qed (use assms(4) in simp)

end
