(* ===== verification/Program_Safety.thy ===== *)
theory Program_Safety
  imports Program_Types
begin

text \<open>
  Well-typed programs of the fragment do not go wrong: blocks in SSA form whose operations are verified, with constants, \<open>if\<close>,
  \<open>case\<close>, \<open>while\<close> and calls. Evaluation runs out of fuel or returns values of the declared types.
\<close>

section \<open>Well-typed programs\<close>

definition single_tensor :: "SsaValue list \<Rightarrow> (ShapedType \<Rightarrow> bool) \<Rightarrow> bool" where
  "single_tensor results P \<longleftrightarrow>
     (case results of [r] \<Rightarrow> (case ssa_type r of Values.TensorType ty \<Rightarrow> P ty | _ \<Rightarrow> False) | _ \<Rightarrow> False)"

definition scalar_bool :: Values.ValueType where
  "scalar_bool = Values.TensorType \<lparr>getShape = [], getElementType = i1Type\<rparr>"

definition return_types :: "'a OpRegion \<Rightarrow> Values.ValueType list" where
  "return_types r = (case last (region_body r) of Return vs \<Rightarrow> map ssa_type vs | _ \<Rightarrow> [])"

type_synonym 'r region_check = "SsaValue list \<Rightarrow> 'r \<Rightarrow> Values.ValueType list \<Rightarrow> Values.ValueType list \<Rightarrow> bool"

text \<open>
  An operation is accepted where the values \<open>V\<close> are visible: it reads only them, and the verifier of the operation accepts the declared
  types. Regions are checked by \<open>rk\<close> for the types of their arguments and of what they return.
\<close>

fun value_op_ok :: "('f, 'd, 'a) interpreter \<Rightarrow> SsaValue list \<Rightarrow> SsaValue list \<Rightarrow> 'a ValueOp \<Rightarrow> bool" where
  "value_op_ok E V results (ConstantOp attr) =
     single_tensor results (\<lambda>ty. case makeTensor E attr of Inr t \<Rightarrow> t_type t = ty | Inl _ \<Rightarrow> False)"
| "value_op_ok E V results (OptimizationBarrierOp vs) = (set vs \<subseteq> set V \<and> map ssa_type results = map ssa_type vs)"
| "value_op_ok E V results _ = False"

definition call_ok :: "('f, 'd, 'a) interpreter \<Rightarrow> SsaValue list \<Rightarrow> SsaValue list \<Rightarrow> SsaValue list \<Rightarrow> string \<Rightarrow> bool" where
  "call_ok E V results operands callee \<longleftrightarrow> set operands \<subseteq> set V \<and>
     (case lookup_function E callee of None \<Rightarrow> False
      | Some r \<Rightarrow> map ssa_type (region_arguments r) = map ssa_type operands \<and> return_types r = map ssa_type results)"

fun region_op_ok ::
  "('f, 'd, 'a) interpreter \<Rightarrow> bool \<Rightarrow> 'a OpRegion region_check \<Rightarrow> SsaValue list \<Rightarrow> SsaValue list \<Rightarrow> 'a OpRegion RegionOp \<Rightarrow> bool" where
  "region_op_ok E loops rk V results (IfOp pred t f) =
     (pred \<in> set V \<and> ssa_type pred = scalar_bool \<and> rk V t [] (map ssa_type results) \<and> rk V f [] (map ssa_type results))"
| "region_op_ok E loops rk V results (CaseOp index branches) =
     (index \<in> set V \<and> scalar_integers [index] \<and> branches \<noteq> [] \<and> list_all (\<lambda>b. rk V b [] (map ssa_type results)) branches)"
| "region_op_ok E loops rk V results (WhileOp operands cond body) =
     (loops \<and> set operands \<subseteq> set V \<and> map ssa_type operands = map ssa_type results \<and>
      rk V cond (map ssa_type results) [scalar_bool] \<and> rk V body (map ssa_type results) (map ssa_type results))"
| "region_op_ok E loops rk V results (CallOp operands callee) = (loops \<and> call_ok E V results operands callee)"
| "region_op_ok E loops rk V results (CompositeOp operands callee) = (loops \<and> call_ok E V results operands callee)"
| "region_op_ok E loops rk V results _ = False"

fun op_ok :: "('f, 'd, 'a) interpreter \<Rightarrow> bool \<Rightarrow> 'a OpRegion region_check \<Rightarrow> SsaValue list \<Rightarrow> 'a Op \<Rightarrow> bool" where
  "op_ok E loops rk V (Elementwise results op) =
     (set (elementwise_operands op) \<subseteq> set V \<and> single_tensor results (\<lambda>ty. verified_elementwise ty op))"
| "op_ok E loops rk V (Structural results op) =
     (set (structural_operands op) \<subseteq> set V \<and> single_tensor results (\<lambda>ty. verified_structural ty op))"
| "op_ok E loops rk V (Linear results op) =
     (set (linear_operands op) \<subseteq> set V \<and> single_tensor results (\<lambda>ty. verified_linear ty op))"
| "op_ok E loops rk V (Valued results op) = value_op_ok E V results op"
| "op_ok E loops rk V (Regional results op) = region_op_ok E loops rk V results op"
| "op_ok E loops rk V _ = False"

text \<open>A block in SSA form: every value is defined once, before it is used, and a return ends it.\<close>

fun block_ok :: "(SsaValue list \<Rightarrow> 'a Op \<Rightarrow> bool) \<Rightarrow> SsaValue list \<Rightarrow> 'a Op list \<Rightarrow> Values.ValueType list \<Rightarrow> bool" where
  "block_ok chk V [] rets = False"
| "block_ok chk V (op # ops) rets =
     (case op of
        Return vs \<Rightarrow> set vs \<subseteq> set V \<and> map ssa_type vs = rets
      | _ \<Rightarrow> chk V op \<and> distinct (op_results op) \<and> set (op_results op) \<inter> set V = {} \<and>
             list_all (\<lambda>v. static_type (ssa_type v)) (op_results op) \<and> block_ok chk (op_results op @ V) ops rets)"

text \<open>Regions are checked to a depth of nesting.\<close>

primrec region_ok :: "('f, 'd, 'a) interpreter \<Rightarrow> bool \<Rightarrow> nat \<Rightarrow> 'a OpRegion region_check" where
  "region_ok E loops 0 = (\<lambda>V r argTypes returnTypes. False)"
| "region_ok E loops (Suc n) = (\<lambda>V r argTypes returnTypes.
     map ssa_type (region_arguments r) = argTypes \<and> distinct (region_arguments r) \<and> set (region_arguments r) \<inter> set V = {} \<and>
     block_ok (op_ok E loops (region_ok E loops n)) (region_arguments r @ V) (region_body r) returnTypes)"

text \<open>
  What is asked of a module: its functions are well typed, and the tensors that MLIR's attributes hold have all their elements.
\<close>

definition module_ok :: "('f, 'd, 'a) interpreter \<Rightarrow> bool \<Rightarrow> nat \<Rightarrow> bool" where
  "module_ok E loops n \<longleftrightarrow>
     (\<forall>name r. loops \<longrightarrow> lookup_function E name = Some r \<longrightarrow>
        region_ok E loops n [] r (map ssa_type (region_arguments r)) (return_types r)) \<and>
     (\<forall>attr t. makeTensor E attr = Inr t \<longrightarrow> (\<exists>f. denotes (number_system E) t f))"

section \<open>Scopes\<close>

definition scope_inv :: "('f, 'd) float_api \<Rightarrow> SsaValue list \<Rightarrow> Scope \<Rightarrow> bool" where
  "scope_inv F V scope \<longleftrightarrow> scope_ok F V scope \<and> (\<exists>frame parents. scope = frame # parents \<and> dom frame \<subseteq> set V)"

lemma good_type: "good F ty v \<Longrightarrow> value_type v = ty"
  by (auto simp: good_def)

lemma Scope_add_inv:
  assumes "scope_inv F V scope" "r \<notin> set V" "good F (ssa_type r) x"
  shows "\<exists>scope'. Scope_add r x scope = Inr scope' \<and> scope_inv F (r # V) scope'"
proof -
  obtain frame parents where s: "scope = frame # parents" "dom frame \<subseteq> set V" and ok: "scope_ok F V scope"
    using assms(1) by (auto simp: scope_inv_def)
  have add: "Scope_add r x scope = Inr (frame(r \<mapsto> x) # parents)"
    using s assms(2) good_type [OF assms(3)] by (auto simp: dom_def)
  have "scope_ok F (r # V) (frame(r \<mapsto> x) # parents)"
    unfolding scope_ok_def
  proof
    fix v assume "v \<in> set (r # V)"
    then show "\<exists>y. Scope_find (frame(r \<mapsto> x) # parents) v = Inr y \<and> good F (ssa_type v) y"
      using Scope_find_added [OF add] Scope_find_other [OF add, of v] ok assms(3)
      by (cases "v = r") (auto simp: scope_ok_def simp del: Scope_find.simps)
  qed
  then show ?thesis using add s(2) by (auto simp: scope_inv_def)
qed

lemma Scope_add_all_inv:
  assumes "scope_inv F V scope" "distinct rs" "set rs \<inter> set V = {}" "list_all2 (good F) (map ssa_type rs) xs"
  shows "\<exists>scope'. Scope_add_all rs xs scope = Inr scope' \<and> scope_inv F (rs @ V) scope'"
proof -
  have "\<exists>scope'. foldM (\<lambda>(v, x). Scope_add v x) (zip rs xs) scope = Inr scope' \<and> scope_inv F (rev rs @ V) scope'"
    using assms
  proof (induction rs arbitrary: xs V scope)
    case (Cons r rs)
    obtain x xs' where xs: "xs = x # xs'" "good F (ssa_type r) x" "list_all2 (good F) (map ssa_type rs) xs'"
      using Cons.prems(4) by (auto simp: list_all2_Cons1)
    obtain s1 where s1: "Scope_add r x scope = Inr s1" "scope_inv F (r # V) s1"
      using Scope_add_inv [OF Cons.prems(1) _ xs(2)] Cons.prems(3) by auto
    show ?case
      using Cons.IH [OF s1(2) _ _ xs(3)] Cons.prems(2,3) s1(1) xs(1) by auto
  qed simp
  moreover have "scope_inv F (rev rs @ V) s = scope_inv F (rs @ V) s" for s
    by (simp add: scope_inv_def scope_ok_def)
  moreover have "length rs = length xs" using assms(4) by (auto dest: list_all2_lengthD)
  ultimately show ?thesis by (simp add: Scope_add_all_def)
qed

section \<open>Operations\<close>

lemma operation_computes:
  "op_ok E loops rk V op \<Longrightarrow>
   operation E ev fb op =
   Compute (op_results op) (\<lambda>scope. rbind (op_values E ev fb op scope) (\<lambda>vs. Scope_add_all (op_results op) vs scope))"
  by (cases op) (simp_all add: operation_def)

lemma single_tensor_values:
  assumes "single_tensor results P"
  obtains r ty where "results = [r]" "ssa_type r = Values.TensorType ty" "P ty" "result_type results = Inr ty"
proof -
  obtain r ty where "results = [r]" "ssa_type r = Values.TensorType ty" "P ty"
    using assms by (auto simp: single_tensor_def split: list.splits Values.ValueType.splits)
  then show thesis using that by (simp add: result_type_def shaped_type_def)
qed

lemma tensor_good: "computes F r ty \<Longrightarrow> safe loops (tensor_value r) (list_all2 (good F) [Values.TensorType ty])"
  by (auto simp: computes_def tensor_value_def good_def)

lemma findTensors_good:
  assumes "Scope_find_all scope vs = Inr xs" "list_all2 (good F) tys xs"
  shows "\<exists>ts. findTensors scope vs = Inr ts \<and> map TensorValue ts = xs"
proof -
  from assms(1) have "list_all2 (\<lambda>v x. Scope_find scope v = Inr x) vs xs"
    by (auto simp: Scope_find_all_def mapM_eq_Inr list_all2_conv_all_nth)
  then show ?thesis
    using assms(2)
  proof (induction vs xs arbitrary: tys rule: list_all2_induct)
    case Nil
    then show ?case by (simp add: findTensors_def)
  next
    case (Cons v vs x xs)
    then obtain t where "x = TensorValue t" by (auto simp: list_all2_Cons2 good_def)
    moreover obtain ts where "findTensors scope vs = Inr ts" "map TensorValue ts = xs"
      using Cons.IH Cons.prems by (auto simp: list_all2_Cons2)
    ultimately show ?case
      using Cons.hyps(1) by (intro exI [of _ "t # ts"]) (simp add: findTensors_def findTensor_def)
  qed
qed

text \<open>What the evaluation of nested regions and of called functions is known to do.\<close>

definition evaluator_safe ::
  "('f, 'd, 'a) interpreter \<Rightarrow> bool \<Rightarrow> 'a OpRegion evaluator \<Rightarrow> 'a OpRegion region_check \<Rightarrow> bool" where
  "evaluator_safe E loops ev rk \<longleftrightarrow>
     (\<forall>V r argTypes returnTypes fb scope args.
        rk V r argTypes returnTypes \<longrightarrow> scope_ok (number_system E) V scope \<longrightarrow>
        list_all2 (good (number_system E)) argTypes args \<longrightarrow>
        safe loops (ev fb r scope args) (list_all2 (good (number_system E)) returnTypes)) \<and>
     (loops \<longrightarrow> (\<forall>name r fb args.
        lookup_function E name = Some r \<longrightarrow>
        list_all2 (good (number_system E)) (map ssa_type (region_arguments r)) args \<longrightarrow>
        safe loops (ev fb r [] args) (list_all2 (good (number_system E)) (return_types r))))"

lemma evaluator_safe_region:
  "evaluator_safe E loops ev rk \<Longrightarrow> rk V r argTypes returnTypes \<Longrightarrow> scope_ok (number_system E) V scope \<Longrightarrow>
   list_all2 (good (number_system E)) argTypes args \<Longrightarrow> safe loops (ev fb r scope args) (list_all2 (good (number_system E)) returnTypes)"
  unfolding evaluator_safe_def by blast

lemma evaluator_safe_call:
  "evaluator_safe E loops ev rk \<Longrightarrow> loops \<Longrightarrow> lookup_function E name = Some r \<Longrightarrow>
   list_all2 (good (number_system E)) (map ssa_type (region_arguments r)) args \<Longrightarrow>
   safe loops (ev fb r [] args) (list_all2 (good (number_system E)) (return_types r))"
  unfolding evaluator_safe_def by blast

lemma while_loop_safe:
  assumes cond: "\<And>xs. list_all2 P tys xs \<Longrightarrow> safe loops (cond xs) (\<lambda>cs. \<exists>c b. cs = [TensorValue c] \<and> Tensor_get F c [] = Inr (bool_el b))"
    and body: "\<And>xs. list_all2 P tys xs \<Longrightarrow> safe loops (body xs) (list_all2 P tys)"
    and "list_all2 P tys xs" "loops"
  shows "safe loops (while_loop F cond body fuel xs) (list_all2 P tys)"
  using assms(3)
proof (induction fuel arbitrary: xs)
  case 0
  then show ?case using assms(4) by simp
next
  case (Suc fuel)
  have "safe loops (while_condition F cond xs) (\<lambda>b. True)"
    unfolding while_condition_def
    by (rule safe_rbind [OF cond [OF Suc.prems]]) (auto simp: first_result_def scalar_result_def vec_nth_def)
  moreover have "safe loops (rbind (body xs) (while_loop F cond body fuel)) (list_all2 P tys)"
    by (rule safe_rbind [OF body [OF Suc.prems] Suc.IH])
  ultimately show ?case
    unfolding while_loop.simps using Suc.prems by (auto intro: safe_rbind)
qed

lemma call_safe:
  assumes "evaluator_safe E loops ev rk" "scope_ok (number_system E) V scope" "call_ok E V results operands callee" "loops"
  shows "safe loops (rbind (findTensors scope operands) (\<lambda>operands. callOp E ev fb operands callee))
    (list_all2 (good (number_system E)) (map ssa_type results))"
proof -
  obtain r where r: "lookup_function E callee = Some r" "map ssa_type (region_arguments r) = map ssa_type operands"
      "return_types r = map ssa_type results" and ops: "set operands \<subseteq> set V"
    using assms(3) unfolding call_ok_def by (cases "lookup_function E callee") simp_all
  obtain xs where xs: "Scope_find_all scope operands = Inr xs" "list_all2 (good (number_system E)) (map ssa_type operands) xs"
    by (rule scope_ok_all [OF assms(2) ops])
  obtain ts where ts: "findTensors scope operands = Inr ts" "map TensorValue ts = xs"
    using findTensors_good [OF xs] by blast
  have "safe loops (ev fb r [] xs) (list_all2 (good (number_system E)) (return_types r))"
    by (rule evaluator_safe_call [OF assms(1,4) r(1)]) (simp only: r(2) xs(2))
  then show ?thesis unfolding ts(1) rbind_Inr callOp_def r(1) option.case ts(2) r(3) .
qed

lemma good_scalar_bool:
  assumes "good F scalar_bool x"
  obtains c b where "x = TensorValue c" "Tensor_get F c [] = Inr (bool_el b)"
proof -
  obtain c f where c: "x = TensorValue c" "t_type c = \<lparr>getShape = [], getElementType = i1Type\<rparr>" "denotes F c f"
    using assms by (auto simp: good_def scalar_bool_def)
  obtain p where "denotes F c (\<lambda>i. bool_el (p i))" using bools_denote [OF c(3)] c(2) by auto
  then have "Tensor_get F c [] = Inr (bool_el (p []))" by (rule denotes_get) (simp add: c(2))
  with c(1) show thesis by (rule that)
qed

lemma scope_ok_scalar_bool:
  assumes "scope_ok F V scope" "v \<in> set V" "ssa_type v = scalar_bool"
  obtains c b where "findTensor scope v = Inr c" "Tensor_get F c [] = Inr (bool_el b)"
proof -
  obtain x where x: "Scope_find scope v = Inr x" "good F scalar_bool x"
    using assms by (auto simp: scope_ok_def)
  obtain c b where "x = TensorValue c" "Tensor_get F c [] = Inr (bool_el b)" by (rule good_scalar_bool [OF x(2)])
  with x(1) that show thesis by (simp add: findTensor_def)
qed

lemma valued_safe:
  assumes "scope_ok (number_system E) V scope" "value_op_ok E V results op"
    and "\<And>attr t. makeTensor E attr = Inr t \<Longrightarrow> \<exists>f. denotes (number_system E) t f"
  shows "safe loops (valued E scope results op) (list_all2 (good (number_system E)) (map ssa_type results))"
proof (cases op)
  case (ConstantOp attr)
  obtain r ty where r: "results = [r]" "ssa_type r = Values.TensorType ty"
      "case makeTensor E attr of Inr t \<Rightarrow> t_type t = ty | Inl _ \<Rightarrow> False"
    using assms(2) ConstantOp by (auto elim: single_tensor_values)
  then obtain t where "makeTensor E attr = Inr t" "t_type t = ty" by (auto split: sum.splits)
  then show ?thesis using r(1,2) assms(3) ConstantOp by (auto simp: good_def)
next
  case (OptimizationBarrierOp vs)
  then have "set vs \<subseteq> set V" "map ssa_type results = map ssa_type vs" using assms(2) by simp_all
  moreover obtain xs where "Scope_find_all scope vs = Inr xs" "list_all2 (good (number_system E)) (map ssa_type vs) xs"
    by (rule scope_ok_all [OF assms(1) calculation(1)])
  ultimately show ?thesis using OptimizationBarrierOp by (simp add: optimizationBarrierOp_def)
qed (use assms(2) in simp_all)

lemma regional_safe:
  assumes "evaluator_safe E loops ev rk" "scope_ok (number_system E) V scope" "region_op_ok E loops rk V results op"
  shows "safe loops (regional E ev fb scope results op) (list_all2 (good (number_system E)) (map ssa_type results))"
proof (cases op)
  case (IfOp pred t f)
  then have ok: "pred \<in> set V" "ssa_type pred = scalar_bool" "rk V t [] (map ssa_type results)" "rk V f [] (map ssa_type results)"
    using assms(3) by simp_all
  obtain c b where c: "findTensor scope pred = Inr c" "Tensor_get (number_system E) c [] = Inr (bool_el b)"
    by (rule scope_ok_scalar_bool [OF assms(2) ok(1,2)])
  show ?thesis
    using evaluator_safe_region [OF assms(1) ok(3) assms(2), of "[]" False]
      evaluator_safe_region [OF assms(1) ok(4) assms(2), of "[]" False] c IfOp
    by (simp add: ifOp_def)
next
  case (CaseOp index branches)
  then have ok: "index \<in> set V" "getShape (tensor_type index) = []" "integers (tensor_type index)" "branches \<noteq> []"
      "list_all (\<lambda>b. rk V b [] (map ssa_type results)) branches"
    using assms(3) by (simp_all add: scalar_integers_def)
  obtain t f where t: "findTensor scope index = Inr t" "t_type t = tensor_type index" "denotes (number_system E) t f"
    by (rule scope_ok_tensor [OF assms(2) ok(1)])
  obtain v where v: "evalScalar (number_system E) t [] = Inr v"
    using scalar_evaluates [OF t(3)] ok(2,3) t(2) by auto
  define k where "k = (if v < 0 \<or> int (length branches) \<le> v then int (length branches) - 1 else v)"
  have "int (length branches) > 0" using ok(4) by simp
  then have "0 \<le> k" "k < int (length branches)" by (auto simp: k_def)
  then have k: "0 \<le> k" "nat k < length branches" by simp_all
  then have "rk V (branches ! nat k) [] (map ssa_type results)" using ok(5) by (simp add: list_all_length)
  from evaluator_safe_region [OF assms(1) this assms(2), of "[]" False] show ?thesis
    using t(1) v k ok(4) CaseOp by (auto simp: caseOp_def Let_def k_def vec_nth_def nth_map nat_less_iff split: if_splits)
next
  case (WhileOp operands cond body)
  then have ok: "set operands \<subseteq> set V" "map ssa_type operands = map ssa_type results"
      "rk V cond (map ssa_type results) [scalar_bool]" "rk V body (map ssa_type results) (map ssa_type results)" "loops"
    using assms(3) by simp_all
  obtain xs where xs: "Scope_find_all scope operands = Inr xs" "list_all2 (good (number_system E)) (map ssa_type operands) xs"
    by (rule scope_ok_all [OF assms(2) ok(1)])
  have "safe loops (while_loop (number_system E) (ev fb cond scope) (ev fb body scope) (loop_fuel E) xs)
      (list_all2 (good (number_system E)) (map ssa_type results))"
  proof (rule while_loop_safe)
    fix ys assume ys: "list_all2 (good (number_system E)) (map ssa_type results) ys"
    show "safe loops (ev fb cond scope ys) (\<lambda>cs. \<exists>c b. cs = [TensorValue c] \<and> Tensor_get (number_system E) c [] = Inr (bool_el b))"
      by (rule safe_mono [OF evaluator_safe_region [OF assms(1) ok(3) assms(2) ys]])
        (auto simp: list_all2_Cons1 elim!: good_scalar_bool)
    show "safe loops (ev fb body scope ys) (list_all2 (good (number_system E)) (map ssa_type results))"
      by (rule evaluator_safe_region [OF assms(1) ok(4) assms(2) ys])
  qed (use xs(2) ok(2,5) in simp_all)
  then show ?thesis using xs(1) WhileOp by (simp add: whileOp_def)
qed (use assms(3) call_safe [OF assms(1,2)] in simp_all)

lemma op_values_safe:
  assumes "evaluator_safe E loops ev rk" "scope_ok (number_system E) V scope" "op_ok E loops rk V op"
    and "\<And>attr t. makeTensor E attr = Inr t \<Longrightarrow> \<exists>f. denotes (number_system E) t f"
  shows "safe loops (op_values E ev fb op scope) (list_all2 (good (number_system E)) (map ssa_type (op_results op)))"
proof (cases op)
  case (Elementwise results eop)
  with assms(3) obtain r ty where "results = [r]" "ssa_type r = Values.TensorType ty" "verified_elementwise ty eop"
      "result_type results = Inr ty" and ops: "set (elementwise_operands eop) \<subseteq> set V"
    by (auto elim: single_tensor_values)
  then show ?thesis
    using tensor_good [OF elementwise_runs [OF assms(2) ops]] Elementwise by simp
next
  case (Structural results sop)
  with assms(3) obtain r ty where "results = [r]" "ssa_type r = Values.TensorType ty" "verified_structural ty sop"
      "result_type results = Inr ty" and ops: "set (structural_operands sop) \<subseteq> set V"
    by (auto elim: single_tensor_values)
  then show ?thesis
    using tensor_good [OF structural_runs [OF assms(2) ops]] Structural by simp
next
  case (Linear results lop)
  with assms(3) obtain r ty where "results = [r]" "ssa_type r = Values.TensorType ty" "verified_linear ty lop"
      "result_type results = Inr ty" and ops: "set (linear_operands lop) \<subseteq> set V"
    by (auto elim: single_tensor_values)
  then show ?thesis
    using tensor_good [OF linear_runs [OF assms(2) ops]] Linear by simp
next
  case (Valued results vop)
  then show ?thesis using valued_safe [OF assms(2) _ assms(4)] assms(3) by simp
next
  case (Regional results rop)
  then show ?thesis using regional_safe [OF assms(1,2)] assms(3) by simp
qed (use assms(3) in simp_all)

section \<open>Blocks and regions\<close>

lemma block_safe:
  assumes ev: "evaluator_safe E loops ev rk" and const: "\<And>attr t. makeTensor E attr = Inr t \<Longrightarrow> \<exists>f. denotes (number_system E) t f"
    and "block_ok (op_ok E loops rk) V ops rets" "scope_inv (number_system E) V scope"
  shows "safe loops (eval_operations (map (operation E ev fb) ops) scope) (list_all2 (good (number_system E)) rets)"
  using assms(3,4)
proof (induction ops arbitrary: V scope)
  case (Cons op ops)
  have scope: "scope_ok (number_system E) V scope" using Cons.prems(2) by (simp add: scope_inv_def)
  show ?case
  proof (cases "\<exists>vs. op = Return vs")
    case True
    then obtain vs where vs: "op = Return vs" "set vs \<subseteq> set V" "map ssa_type vs = rets" using Cons.prems(1) by auto
    obtain xs where "Scope_find_all scope vs = Inr xs" "list_all2 (good (number_system E)) (map ssa_type vs) xs"
      by (rule scope_ok_all [OF scope vs(2)])
    then show ?thesis using vs by (simp add: operation_def)
  next
    case False
    then have ok: "op_ok E loops rk V op" "distinct (op_results op)" "set (op_results op) \<inter> set V = {}"
        "list_all (\<lambda>v. static_type (ssa_type v)) (op_results op)" "block_ok (op_ok E loops rk) (op_results op @ V) ops rets"
      using Cons.prems(1) by (cases op; simp)+
    have "safe loops (rbind (rbind (op_values E ev fb op scope) (\<lambda>vs. Scope_add_all (op_results op) vs scope))
        (eval_operations (map (operation E ev fb) ops))) (list_all2 (good (number_system E)) rets)"
      unfolding rbind_assoc
    proof (rule safe_rbind [OF op_values_safe [OF ev scope ok(1) const]])
      fix vs assume "list_all2 (good (number_system E)) (map ssa_type (op_results op)) vs"
      from Scope_add_all_inv [OF Cons.prems(2) ok(2,3) this] obtain scope' where
        "Scope_add_all (op_results op) vs scope = Inr scope'" "scope_inv (number_system E) (op_results op @ V) scope'" by blast
      then show "safe loops (rbind (Scope_add_all (op_results op) vs scope) (eval_operations (map (operation E ev fb) ops)))
          (list_all2 (good (number_system E)) rets)"
        using Cons.IH [OF ok(5)] by simp
    qed
    then show ?thesis using ok(4) by (simp add: operation_computes [OF ok(1)])
  qed
qed simp

lemma region_safe:
  assumes "module_ok E loops N" "region_ok E loops n V r argTypes returnTypes" "scope_ok (number_system E) V parent"
    and "list_all2 (good (number_system E)) argTypes args" "loops \<or> n \<le> depth"
  shows "safe loops (evaluate E depth fb r parent args) (list_all2 (good (number_system E)) returnTypes)"
  using assms(2-)
proof (induction depth arbitrary: fb n V r argTypes returnTypes parent args)
  case 0
  then show ?case by (cases n) auto
next
  case (Suc depth)
  have const: "makeTensor E attr = Inr t \<Longrightarrow> \<exists>f. denotes (number_system E) t f" for attr t
    using assms(1) unfolding module_ok_def by blast
  obtain m where n: "n = Suc m" using Suc.prems(1) by (cases n) auto
  have ok: "map ssa_type (region_arguments r) = argTypes" "distinct (region_arguments r)" "set (region_arguments r) \<inter> set V = {}"
      "block_ok (op_ok E loops (region_ok E loops m)) (region_arguments r @ V) (region_body r) returnTypes"
    using Suc.prems(1) n by simp_all
  have ev: "evaluator_safe E loops (evaluate E depth) (region_ok E loops m)"
    unfolding evaluator_safe_def
  proof (intro conjI allI impI)
    fix name r fb args
    assume "loops" and r: "lookup_function E name = Some r" "list_all2 (good (number_system E)) (map ssa_type (region_arguments r)) args"
    have "region_ok E loops N [] r (map ssa_type (region_arguments r)) (return_types r)"
      using assms(1) r(1) \<open>loops\<close> unfolding module_ok_def by blast
    from Suc.IH [OF this _ r(2)] \<open>loops\<close> show "safe loops (evaluate E depth fb r [] args) (list_all2 (good (number_system E)) (return_types r))"
      by (simp add: scope_ok_def)
  qed (use Suc.prems(4) n in \<open>auto intro: Suc.IH\<close>)
  have "scope_inv (number_system E) V (Scope_new parent)"
    using Suc.prems(2) by (auto simp: scope_inv_def scope_ok_def Scope_new_def)
  from Scope_add_all_inv [OF this ok(2,3)] Suc.prems(3) ok(1) obtain scope where
    "Scope_add_all (region_arguments r) args (Scope_new parent) = Inr scope"
    "scope_inv (number_system E) (region_arguments r @ V) scope" by blast
  moreover have "length (region_arguments r) = length args"
    using Suc.prems(3) ok(1) by (auto dest: list_all2_lengthD)
  ultimately show ?case
    using block_safe [OF ev const ok(4)] by (simp add: eval_def)
qed

text \<open>
  C4: A program that the verifiers and the shape functions of the dialect accept does not go wrong. A function in SSA form of the
  modelled fragment, run on tensors of its argument types, returns tensors of its declared result types: no check of the interpreter
  fails, no index leaves a tensor, no value is missing. It always returns when it has no loop and no call and the fuel covers its
  nesting; with loops and calls it may also run out of fuel.
\<close>

theorem verified_programs_safe:
  assumes "module_ok E loops N" "region_ok E loops n [] r argTypes returnTypes"
    and "list_all2 (good (number_system E)) argTypes args" "loops \<or> n \<le> depth"
  shows "(\<exists>vs. evaluate E depth fb r [] args = Inr vs \<and> list_all2 (good (number_system E)) returnTypes vs) \<or>
    loops \<and> evaluate E depth fb r [] args = Inl OutOfFuel"
  using region_safe [OF assms(1,2) _ assms(3,4), of "[]" fb] by (auto simp: safe_def scope_ok_def)

end
