(* ===== verification/Program_Witness.thy ===== *)
theory Program_Witness
  imports Program_Safety Types_Witness
begin

text \<open>A program of several operations, checked and run: an addition, a slice, a comparison and a conditional.\<close>

section \<open>The interpreter on a concrete number system\<close>

text \<open>The constants are bytes.\<close>

definition byte_constant :: "int \<Rightarrow> Tensor result" where
  "byte_constant b = (if 0 \<le> b \<and> b < 256 then Inr (i8_tensor [] [b]) else Inl (Fatal ''unsupported attribute''))"

definition small_interpreter :: "(string \<Rightarrow> int OpRegion option) \<Rightarrow> (FloatFormat \<times> apint, int, int) interpreter" where
  "small_interpreter module_functions =
     \<lparr>number_system = fixed_api, m_pi = 3, dense_splat = (\<lambda>ty d. Inl (Fatal ''no floats'')), makeTensor = byte_constant,
      fpMantissaWidth = (\<lambda>f. 8), std_sort = (\<lambda>lt xs. xs), lookup_function = module_functions, lookup_mesh = (\<lambda>s. None),
      the_grid_process = None, process_infeed = Inl (Fatal ''no process''), process_outfeed = (\<lambda>ts. Inl (Fatal ''no process'')),
      process_recv = (\<lambda>c. Inl (Fatal ''no process'')), process_send = (\<lambda>ts c. Inl (Fatal ''no process'')),
      fallback = (\<lambda>n s. Inl (Fatal ''Unsupported op'')), loop_fuel = 10\<rparr>"

definition byte_value :: "nat \<Rightarrow> Sizes \<Rightarrow> SsaValue" where
  "byte_value n shape = \<lparr>ssa_id = n, ssa_type = Values.TensorType (i8_type shape)\<rparr>"

definition bool_value :: "nat \<Rightarrow> SsaValue" where
  "bool_value n = \<lparr>ssa_id = n, ssa_type = scalar_bool\<rparr>"

section \<open>A program\<close>

text \<open>Add two vectors; when the first entry of the sum is above 5, extend the first vector by it, otherwise pad the second.\<close>

definition sum_and_extend :: "int OpRegion" where
  "sum_and_extend = OpRegion [byte_value 0 [2], byte_value 1 [2]]
     [Elementwise [byte_value 2 [2]] (Binary AddOp (byte_value 0 [2]) (byte_value 1 [2])),
      Structural [byte_value 3 [1]] (SliceOp (byte_value 2 [2]) [0] [1] [1]),
      Elementwise [byte_value 4 []] (Unary ReshapeOp (byte_value 3 [1])),
      Valued [byte_value 5 []] (ConstantOp 5),
      Elementwise [bool_value 6] (CompareOp (byte_value 4 []) (byte_value 5 []) GT),
      Regional [byte_value 7 [3]] (IfOp (bool_value 6)
        (OpRegion [] [Structural [byte_value 8 [3]] (ConcatenateOp [byte_value 3 [1], byte_value 0 [2]] 0), Return [byte_value 8 [3]]])
        (OpRegion [] [Structural [byte_value 9 [3]] (PadOp (byte_value 1 [2]) (byte_value 5 []) [0] [1] [0]), Return [byte_value 9 [3]]])),
      Return [byte_value 7 [3], byte_value 2 [2]]]"

text \<open>Add the second byte to the first until it is at least 10; and a call of the loop.\<close>

definition add_until :: "int OpRegion" where
  "add_until = OpRegion [byte_value 0 [], byte_value 1 []]
     [Valued [byte_value 2 []] (ConstantOp 10),
      Regional [byte_value 3 []] (WhileOp [byte_value 0 []]
        (OpRegion [byte_value 4 []]
          [Elementwise [bool_value 5] (CompareOp (byte_value 4 []) (byte_value 2 []) LT), Return [bool_value 5]])
        (OpRegion [byte_value 6 []]
          [Elementwise [byte_value 7 []] (Binary AddOp (byte_value 6 []) (byte_value 1 [])), Return [byte_value 7 []]])),
      Return [byte_value 3 []]]"

definition call_add_until :: "int OpRegion" where
  "call_add_until = OpRegion [byte_value 0 []]
     [Valued [byte_value 1 []] (ConstantOp 3),
      Regional [byte_value 2 []] (CallOp [byte_value 0 [], byte_value 1 []] ''add_until''),
      Return [byte_value 2 []]]"

definition module_functions :: "string \<Rightarrow> int OpRegion option" where
  "module_functions name = (if name = ''add_until'' then Some add_until else if name = ''main'' then Some call_add_until else None)"

lemma constants_denote:
  assumes "makeTensor (small_interpreter fs) attr = Inr t"
  shows "\<exists>f. denotes (number_system (small_interpreter fs)) t f"
proof -
  have "0 \<le> attr" "attr < 256" "t = i8_tensor [] [attr]"
    using assms by (simp_all add: small_interpreter_def byte_constant_def split: if_splits)
  then show ?thesis using i8_denotes [of "[]" "[attr]" fixed_api] by (auto simp: byte_tensor_ok_def small_interpreter_def)
qed

text \<open>What the verifiers say of the programs.\<close>

lemma sum_and_extend_ok:
  "region_ok (small_interpreter (\<lambda>name. None)) False 2 [] sum_and_extend (replicate 2 (ssa_type (byte_value 0 [2])))
     (map (\<lambda>d. ssa_type (byte_value 0 [d])) [3, 2])"
  by code_simp

lemma add_until_ok:
  "region_ok (small_interpreter module_functions) True 2 [] add_until (map ssa_type (region_arguments add_until)) (return_types add_until)"
  by code_simp

lemma call_add_until_ok:
  "region_ok (small_interpreter module_functions) True 2 [] call_add_until (map ssa_type (region_arguments call_add_until))
     (return_types call_add_until)"
  by code_simp

lemma modules_ok:
  "module_ok (small_interpreter (\<lambda>name. None)) False n" "module_ok (small_interpreter module_functions) True 2"
proof -
  show "module_ok (small_interpreter (\<lambda>name. None)) False n"
    using constants_denote by (simp add: module_ok_def)
  have "lookup_function (small_interpreter module_functions) = module_functions" by (simp add: small_interpreter_def)
  then show "module_ok (small_interpreter module_functions) True 2"
    unfolding module_ok_def
    using constants_denote add_until_ok call_add_until_ok by (auto simp: module_functions_def split: if_splits)
qed

lemma byte_good:
  assumes "byte_tensor_ok shape data"
  shows "good fixed_api (ssa_type (byte_value n shape)) (TensorValue (i8_tensor shape data))"
  using i8_denotes [OF assms, of fixed_api] by (auto simp: good_def byte_value_def i8_tensor_def)

theorem verified_programs_safe_witness:
  "\<exists>v w. evaluate (small_interpreter (\<lambda>name. None)) 2 False sum_and_extend []
       [TensorValue (i8_tensor [2] [4, 1]), TensorValue (i8_tensor [2] [3, 1])] = Inr [v, w] \<and>
     value_type v = Values.TensorType (i8_type [3]) \<and> value_type w = Values.TensorType (i8_type [2])"
proof -
  let ?args = "[TensorValue (i8_tensor [2] [4, 1]), TensorValue (i8_tensor [2] [3, 1])]"
  have "list_all2 (good (number_system (small_interpreter (\<lambda>name. None)))) (replicate 2 (ssa_type (byte_value 0 [2]))) ?args"
    using byte_good [of "[2]" "[4, 1]" 0] byte_good [of "[2]" "[3, 1]" 0] by (simp add: numeral_2_eq_2 byte_tensor_ok_def small_interpreter_def)
  from verified_programs_safe [OF modules_ok(1) sum_and_extend_ok this, of 2 False] show ?thesis
    by (auto simp: list_all2_Cons1 byte_value_def dest!: good_type)
qed

text \<open>What the programs compute; the loop runs twice, on the values of an outer scope and its own.\<close>

lemma programs_compute:
  "evaluate (small_interpreter (\<lambda>name. None)) 2 False sum_and_extend []
     [TensorValue (i8_tensor [2] [4, 1]), TensorValue (i8_tensor [2] [3, 1])] =
   Inr [TensorValue (i8_tensor [3] [7, 4, 1]), TensorValue (i8_tensor [2] [7, 2])]"
  "evaluate (small_interpreter module_functions) 3 False call_add_until [] [TensorValue (i8_tensor [] [2])] =
   Inr [TensorValue (i8_tensor [] [11])]"
  by code_simp+

end
