(* ===== verification/Folder_Witness.thy ===== *)
theory Folder_Witness
  imports Folder_Correct Program_Witness
begin

text \<open>
  The folder on concrete constants: an instance of what MLIR provides, the witnesses of the properties, and the constants that differ
  from the values of the interpreter.
\<close>

section \<open>An instance of what MLIR provides\<close>

fun delinearize_by :: "int \<Rightarrow> int list \<Rightarrow> int list" where
  "delinearize_by n [] = []"
| "delinearize_by n (s # strides) = n div s # delinearize_by (n mod s) strides"

definition small_mlir :: "(FloatFormat \<times> apint, int) mlir_api" where
  "small_mlir =
     \<lparr>constFoldUnaryOp = (\<lambda>a calculate. rbind (mapM calculate (d_values a)) (\<lambda>vs. Inr (a\<lparr>d_values := vs\<rparr>))),
      constFoldBinaryOp = (\<lambda>a b ty calculate. if d_type a \<noteq> d_type b then no_match else
        rbind (mapM (\<lambda>(x, y). calculate x y) (zip (d_values a) (d_values b))) (\<lambda>vs. Inr \<lparr>d_type = ty, d_values = vs\<rparr>)),
      constFoldCastOp = (\<lambda>a ty calculate. rbind (mapM calculate (d_values a)) (\<lambda>vs. Inr \<lparr>d_type = ty, d_values = vs\<rparr>)),
      computeStrides = (\<lambda>shape. map (\<lambda>k. prod_list (drop (Suc k) shape)) [0..<length shape]),
      linearize = (\<lambda>offsets strides. sum_list (map2 (*) offsets strides)),
      delinearize = delinearize_by,
      applyPermutation = (\<lambda>xs perm. map (\<lambda>k. xs ! nat k) perm),
      invertPermutationVector = (\<lambda>perm. map (\<lambda>k. int (the (find_index k perm))) (upto_int (int (length perm)))),
      fl_isInfinity = (\<lambda>x. False),
      fl_getOne = (\<lambda>f negative. fixed_of f (if negative then - 1 else 1)),
      convert_invalid = (\<lambda>f x. False),
      convertToInteger_invalid = (\<lambda>w isUnsigned x. False),
      d_lt = (<)\<rparr>"

lemma small_mlir_folding: "folding_ok small_mlir"
  by (auto simp: folding_ok_def small_mlir_def result_simps no_match_def split: if_splits)

lemma delinearize_flat:
  "inBounds i shape \<Longrightarrow> delinearize_by (flat shape i) (map (\<lambda>k. prod_list (drop (Suc k) shape)) [0..<length shape]) = i"
proof (induction shape arbitrary: i)
  case Nil
  then show ?case by (simp add: inBounds_def)
next
  case (Cons n shape)
  obtain x j where i: "i = x # j" "inBounds j shape" using Cons.prems by (cases i) auto
  have "(x * prod_list shape + flat shape j) div prod_list shape = x" "(x * prod_list shape + flat shape j) mod prod_list shape = flat shape j"
    using flat_bounds [OF i(2)] by (auto simp: pos_imp_zdiv_nonneg_iff)
  then show ?case using Cons.IH [OF i(2)] i(1) by (simp add: upt_conv_Cons map_Suc_upt [symmetric] comp_def del: upt_Suc)
qed

lemma small_mlir_indexing: "indexing_ok small_mlir"
proof -
  have lin: "linearize small_mlir i (computeStrides small_mlir shape) = flat shape i" if "inBounds i shape" for i shape
    using flat_sum [OF inBounds_length [OF that]] inBounds_length [OF that]
    by (simp add: small_mlir_def sum_list_sum_nth atLeast0LessThan mult.commute)
  have "delinearize small_mlir (linearize small_mlir i (computeStrides small_mlir shape)) (computeStrides small_mlir shape) = i"
    if "inBounds i shape" for i shape
    using delinearize_flat [OF that] lin [OF that] by (simp add: small_mlir_def)
  moreover have "invertPermutationVector small_mlir perm ! nat (perm ! k) = int k"
    if "distinct perm" "set perm = {0..<int (length perm)}" "k < length perm" for perm k
  proof -
    have "perm ! k \<in> {0..<int (length perm)}" using that(2,3) nth_mem by metis
    then show ?thesis using find_index_nth [OF that(1,3)] by (simp add: small_mlir_def upto_int_nth nat_less_iff)
  qed
  ultimately show ?thesis
    unfolding indexing_ok_def by (simp add: small_mlir_def)
qed

section \<open>Constants of bytes and booleans\<close>

definition byte_dense :: "Sizes \<Rightarrow> int list \<Rightarrow> 'f Dense" where
  "byte_dense shape data = \<lparr>d_type = i8_type shape, d_values = map (\<lambda>b. VInt (ApInt 8 b)) data\<rparr>"

lemma byte_dense_holds:
  fixes F :: "('f, 'd) float_api"
  assumes "byte_tensor_ok shape data"
  shows "d_holds F (i8_tensor shape data) (byte_dense shape data)"
proof (rule d_holdsI [OF i8_denotes [OF assms]])
  have nonneg: "list_all (\<lambda>d. 0 \<le> d) shape" and len: "length data = nat (prod_list shape)"
    using assms by (auto simp: byte_tensor_ok_def)
  have "map (\<lambda>i. attr_value (i8 (data ! nat (flat shape i)) :: 'f Element)) (index_space shape) =
      map (\<lambda>k. VInt (ApInt 8 (data ! nat k))) (map (flat shape) (index_space shape))"
    by (simp add: attr_value_def i8_def comp_def)
  also have "\<dots> = map (\<lambda>b. VInt (ApInt 8 b)) data"
    unfolding flat_index_space [OF nonneg] using len by (intro nth_equalityI) (simp_all add: upto_int_nth)
  finally show "d_values (byte_dense shape data :: 'f Dense) =
      map (\<lambda>i. attr_value (i8 (data ! nat (flat shape i)))) (index_space (t_shape (i8_tensor shape data)))"
    by (simp add: byte_dense_def)
qed (simp add: byte_dense_def i8_tensor_def)

text \<open>Values of bytes, given by a number, a shape and data each: the constants and the scope that has them.\<close>

type_synonym bytes_table = "(nat \<times> Sizes \<times> int list) list"

fun entry :: "bytes_table \<Rightarrow> SsaValue \<Rightarrow> (nat \<times> Sizes \<times> int list) option" where
  "entry [] v = None"
| "entry ((n, shape, data) # table) v = (if v = byte_value n shape then Some (n, shape, data) else entry table v)"

definition table_constants :: "bytes_table \<Rightarrow> 'f constants" where
  "table_constants table v = (case entry table v of None \<Rightarrow> None | Some (n, shape, data) \<Rightarrow> Some (byte_dense shape data))"

definition table_scope :: "bytes_table \<Rightarrow> Scope" where
  "table_scope table =
     [\<lambda>v. case entry table v of None \<Rightarrow> None | Some (n, shape, data) \<Rightarrow> Some (TensorValue (i8_tensor shape data))]"

definition table_values :: "bytes_table \<Rightarrow> SsaValue list" where
  "table_values table = map (\<lambda>(n, shape, data). byte_value n shape) table"

lemma entry_Some:
  "entry table v = Some (n, shape, data) \<Longrightarrow> (n, shape, data) \<in> set table \<and> v = byte_value n shape"
  by (induction table v rule: entry.induct) (auto split: if_splits)

lemma entry_None: "entry table v = None \<Longrightarrow> v \<notin> set (table_values table)"
  by (induction table v rule: entry.induct) (auto simp: table_values_def split: if_splits)

lemma table_holds:
  assumes "list_all (\<lambda>(n, shape, data). byte_tensor_ok shape data) table"
  shows "consts_hold F (table_constants table) (table_scope table)" "scope_ok F (table_values table) (table_scope table)"
proof -
  have ok: "byte_tensor_ok shape data" if "entry table v = Some (n, shape, data)" for v n shape data
    using entry_Some [OF that] assms by (auto simp: list_all_iff)
  show "consts_hold F (table_constants table) (table_scope table)"
    unfolding consts_hold_def
  proof (intro allI impI)
    fix v and d :: "'a Dense" assume "table_constants table v = Some d"
    then obtain n shape data where e: "entry table v = Some (n, shape, data)" "d = byte_dense shape data"
      by (auto simp: table_constants_def split: option.splits)
    then show "\<exists>t. findTensor (table_scope table) v = Inr t \<and> ssa_type v = Values.TensorType (t_type t) \<and> d_holds F t d"
      using byte_dense_holds [OF ok [OF e(1)], of F] entry_Some [OF e(1)]
      by (intro exI [of _ "i8_tensor shape data"]) (simp add: findTensor_def table_scope_def byte_value_def i8_tensor_def)
  qed
  show "scope_ok F (table_values table) (table_scope table)"
    unfolding scope_ok_def
  proof
    fix v assume "v \<in> set (table_values table)"
    then have "entry table v \<noteq> None" using entry_None by blast
    then obtain n shape data where e: "entry table v = Some (n, shape, data)" by auto
    then show "\<exists>x. Scope_find (table_scope table) v = Inr x \<and> good F (ssa_type v) x"
      using byte_good [OF ok [OF e]] i8_denotes [OF ok [OF e], of F] entry_Some [OF e]
      by (auto simp: table_scope_def good_def byte_value_def i8_tensor_def)
  qed
qed

section \<open>Witnesses\<close>

definition folder_options :: FolderOptions where
  "folder_options = \<lparr>assumeNoUndeclaredSideEffects = False, foldOpElementLimit = 65536, optimizeFloat = True\<rparr>"

definition byte_table :: bytes_table where
  "byte_table = [(0, [2, 3], [1, 2, 3, 4, 5, 6]), (1, [2, 2], [7, 8, 9, 250])]"

lemma byte_table_ok: "list_all (\<lambda>(n, shape, data). byte_tensor_ok shape data) byte_table"
  by code_simp

lemma byte_table_holds:
  "consts_hold (number_system (small_interpreter fs)) (table_constants byte_table) (table_scope byte_table)"
  "scope_ok (number_system (small_interpreter fs)) (table_values byte_table) (table_scope byte_table)"
  using table_holds [OF byte_table_ok, of fixed_api] by (simp_all add: small_interpreter_def)

lemma folds_of_bytes:
  "fold_structural small_mlir folder_options (table_constants byte_table) (i8_type [2, 2]) (SliceOp (byte_value 0 [2, 3]) [0, 0] [2, 3] [1, 2]) =
     Inr (byte_dense [2, 2] [1, 3, 4, 6])"
  "fold_structural small_mlir folder_options (table_constants byte_table) (i8_type [2, 5])
     (ConcatenateOp [byte_value 0 [2, 3], byte_value 1 [2, 2]] 1) = Inr (byte_dense [2, 5] [1, 2, 3, 7, 8, 4, 5, 6, 9, 250])"
  "fold_structural small_mlir folder_options (table_constants byte_table) (i8_type [3, 2]) (TransposeOp (byte_value 0 [2, 3]) [1, 0]) =
     Inr (byte_dense [3, 2] [1, 4, 2, 5, 3, 6])"
  "fold_structural small_mlir folder_options (table_constants byte_table) (i8_type [2, 3]) (ReverseOp (byte_value 0 [2, 3]) [0, 1]) =
     Inr (byte_dense [2, 3] [6, 5, 4, 3, 2, 1])"
  by code_simp+

theorem fold_structural_sound_witness:
  "(\<exists>t. structural_value (small_interpreter (\<lambda>name. None)) (table_scope byte_table) (i8_type [2, 2])
      (SliceOp (byte_value 0 [2, 3]) [0, 0] [2, 3] [1, 2]) = Inr t \<and> d_holds fixed_api t (byte_dense [2, 2] [1, 3, 4, 6])) \<and>
   (\<exists>t. structural_value (small_interpreter (\<lambda>name. None)) (table_scope byte_table) (i8_type [2, 5])
      (ConcatenateOp [byte_value 0 [2, 3], byte_value 1 [2, 2]] 1) = Inr t \<and>
      d_holds fixed_api t (byte_dense [2, 5] [1, 2, 3, 7, 8, 4, 5, 6, 9, 250]))"
proof -
  have api: "number_system (small_interpreter fs) = fixed_api" for fs by (simp add: small_interpreter_def)
  have typed: "verified_structural (i8_type [2, 2]) (SliceOp (byte_value 0 [2, 3]) [0, 0] [2, 3] [1, 2])"
    "verified_structural (i8_type [2, 5]) (ConcatenateOp [byte_value 0 [2, 3], byte_value 1 [2, 2]] 1)"
    by code_simp+
  note sound = fold_structural_sound [OF byte_table_holds(1) small_mlir_indexing byte_table_holds(2)]
  show ?thesis
    using sound [OF _ typed(1) folds_of_bytes(1)] sound [OF _ typed(2) folds_of_bytes(2)]
    by (auto simp: table_values_def byte_table_def api)
qed

theorem fold_elementwise_sound_witness:
  "(\<exists>t. elementwise_value (small_interpreter (\<lambda>name. None)) (table_scope byte_table) (i8_type [2, 2])
      (Binary MulOp (byte_value 1 [2, 2]) (byte_value 1 [2, 2])) = Inr t \<and> d_holds fixed_api t (byte_dense [2, 2] [49, 64, 81, 36])) \<and>
   (\<exists>t. elementwise_value (small_interpreter (\<lambda>name. None)) (table_scope byte_table) (i8_type [2, 2])
      (Unary AbsOp (byte_value 1 [2, 2])) = Inr t \<and> d_holds fixed_api t (byte_dense [2, 2] [7, 8, 9, 6]))"
proof -
  have api: "number_system (small_interpreter fs) = fixed_api" for fs by (simp add: small_interpreter_def)
  have typed: "typed_elementwise (i8_type [2, 2]) (Binary MulOp (byte_value 1 [2, 2]) (byte_value 1 [2, 2]))"
    "typed_elementwise (i8_type [2, 2]) (Unary AbsOp (byte_value 1 [2, 2]))"
    by code_simp+
  have folds: "fold_elementwise fixed_api small_mlir folder_options (table_constants byte_table) (i8_type [2, 2])
      (Binary MulOp (byte_value 1 [2, 2]) (byte_value 1 [2, 2])) = Inr (byte_dense [2, 2] [49, 64, 81, 36])"
    "fold_elementwise fixed_api small_mlir folder_options (table_constants byte_table) (i8_type [2, 2])
      (Unary AbsOp (byte_value 1 [2, 2])) = Inr (byte_dense [2, 2] [7, 8, 9, 6])"
    by code_simp+
  note sound = fold_elementwise_sound [OF byte_table_holds(1) [of "\<lambda>name. None"] small_mlir_folding, unfolded api]
  show ?thesis
    using sound [OF typed(1) folds(1)] sound [OF typed(2) folds(2)] by blast
qed

section \<open>Where folding differs from the interpreter\<close>

definition bool_dense :: "bool \<Rightarrow> 'f Dense" where
  "bool_dense b = \<lparr>d_type = \<lparr>getShape = [], getElementType = i1Type\<rparr>, d_values = [VInt (mkAPInt 1 (if b then 1 else 0))]\<rparr>"

definition bool_constants :: "bool \<Rightarrow> bool \<Rightarrow> bool \<Rightarrow> 'f constants" where
  "bool_constants a b c v = (if v = bool_value 0 then Some (bool_dense a) else if v = bool_value 1 then Some (bool_dense b)
     else if v = bool_value 2 then Some (bool_dense c) else None)"

definition bool_scalar :: "bool \<Rightarrow> Tensor" where
  "bool_scalar b = \<lparr>t_type = \<lparr>getShape = [], getElementType = i1Type\<rparr>, t_data = [Some (if b then 1 else 0)]\<rparr>"

definition bool_scope :: "bool \<Rightarrow> bool \<Rightarrow> bool \<Rightarrow> Scope" where
  "bool_scope a b c = [[bool_value 0 \<mapsto> TensorValue (bool_scalar a), bool_value 1 \<mapsto> TensorValue (bool_scalar b),
     bool_value 2 \<mapsto> TensorValue (bool_scalar c)]]"

lemma bool_folds:
  "FoldAddOpPattern fixed_api small_mlir folder_options (bool_constants a b c) (t_type (bool_scalar True)) (bool_value 0) (bool_value 1) =
     Inr (bool_dense (a \<noteq> b))"
  "FoldClampOpPattern fixed_api small_mlir folder_options (bool_constants a b c) (t_type (bool_scalar True))
     (bool_value 0) (bool_value 1) (bool_value 2) = Inr (bool_dense (a \<and> b \<or> c))"
  by (induct a rule: bool.induct; induct b rule: bool.induct; induct c rule: bool.induct; code_simp)+

lemma bool_values:
  "elementwise_value (small_interpreter (\<lambda>name. None)) (bool_scope a b c) (t_type (bool_scalar True)) (Binary AddOp (bool_value 0) (bool_value 1)) =
     Inr (bool_scalar (a \<or> b))"
  "elementwise_value (small_interpreter (\<lambda>name. None)) (bool_scope a b c) (t_type (bool_scalar True))
     (ClampOp (bool_value 0) (bool_value 1) (bool_value 2)) = Inr (bool_scalar ((a \<or> b) \<and> c))"
  by (induct a rule: bool.induct; induct b rule: bool.induct; induct c rule: bool.induct; code_simp)+

text \<open>
  C39: why \<open>fold_elementwise_sound\<close> leaves out sums and clamps of booleans. For every scalar \<open>i1\<close> constants \<open>a\<close>, \<open>b\<close>, \<open>c\<close> the pattern
  for \<open>add\<close> gives the exclusive or of \<open>a\<close> and \<open>b\<close> while the interpreter computes their disjunction. The pattern for \<open>clamp\<close> takes the
  extrema of signed bits, where the bit 1 stands for -1, and gives \<open>a \<and> b \<or> c\<close>; the interpreter has \<open>false < true\<close> and computes
  \<open>(a \<or> b) \<and> c\<close>. So \<open>true + true\<close> folds to \<open>false\<close> and \<open>clamp(false, false, true)\<close> to \<open>true\<close>.
\<close>

theorem boolean_folds_differ:
  "FoldAddOpPattern fixed_api small_mlir folder_options (bool_constants a b c) (t_type (bool_scalar True)) (bool_value 0) (bool_value 1) =
     Inr (bool_dense (a \<noteq> b)) \<and>
   elementwise_value (small_interpreter (\<lambda>name. None)) (bool_scope a b c) (t_type (bool_scalar True)) (Binary AddOp (bool_value 0) (bool_value 1)) =
     Inr (bool_scalar (a \<or> b)) \<and>
   FoldClampOpPattern fixed_api small_mlir folder_options (bool_constants a b c) (t_type (bool_scalar True))
     (bool_value 0) (bool_value 1) (bool_value 2) = Inr (bool_dense (a \<and> b \<or> c)) \<and>
   elementwise_value (small_interpreter (\<lambda>name. None)) (bool_scope a b c) (t_type (bool_scalar True))
     (ClampOp (bool_value 0) (bool_value 1) (bool_value 2)) = Inr (bool_scalar ((a \<or> b) \<and> c))"
  using bool_folds bool_values by blast

text \<open>
  The patterns for \<open>reduce\<close> look at the region alone. The program reduces a vector over its dimension, from 5, with a region that
  returns the constant 7: the patterns give 7, also when the vector is empty and the value of \<open>reduce\<close> is 5. Without dimensions to
  reduce they give the input, without the initial value, which the interpreter adds.
\<close>

definition reduce_to_seven :: "int \<Rightarrow> int OpRegion" where
  "reduce_to_seven n = OpRegion [byte_value 0 [n]]
     [Valued [byte_value 1 []] (ConstantOp 5), Valued [byte_value 2 []] (ConstantOp 7),
      Regional [byte_value 3 []] (ReduceOp [byte_value 0 [n]] [byte_value 1 []] [0]
        (OpRegion [byte_value 4 [], byte_value 5 []] [Return [byte_value 2 []]])),
      Return [byte_value 3 []]]"

definition reduce_nothing :: "int OpRegion" where
  "reduce_nothing = OpRegion [byte_value 0 []]
     [Valued [byte_value 1 []] (ConstantOp 5),
      Regional [byte_value 2 []] (ReduceOp [byte_value 0 []] [byte_value 1 []] []
        (OpRegion [byte_value 3 [], byte_value 4 []]
          [Elementwise [byte_value 5 []] (Binary AddOp (byte_value 3 []) (byte_value 4 [])), Return [byte_value 5 []]])),
      Return [byte_value 2 []]]"

lemma reduce_patterns:
  "FoldReduceOpToConstantInitializer (table_constants [(2, [], [7])]) [byte_value 3 []]
     (OpRegion [byte_value 4 [], byte_value 5 []] [Return [byte_value 2 []]] :: int OpRegion) =
     Inr (Constants [byte_dense [] [7] :: (FloatFormat \<times> apint) Dense])"
  "FoldReduceOpWithRedundantResults [byte_value 3 []] (OpRegion [byte_value 4 [], byte_value 5 []] [Return [byte_value 2 []]] :: int OpRegion) =
     (Inr (Existing [byte_value 2 []]) :: ((FloatFormat \<times> apint, int) Replacement) result)"
  "evaluate (small_interpreter (\<lambda>name. None)) 2 False (reduce_to_seven 2) [] [TensorValue (i8_tensor [2] [1, 2])] =
     Inr [TensorValue (i8_tensor [] [7])]"
  "evaluate (small_interpreter (\<lambda>name. None)) 2 False (reduce_to_seven 0) [] [TensorValue (i8_tensor [0] [])] =
     Inr [TensorValue (i8_tensor [] [5])]"
  "FoldReduceOpReducingZeroDims [byte_value 2 []] [byte_value 0 []] [] =
     (Inr (Existing [byte_value 0 []]) :: ((FloatFormat \<times> apint, int) Replacement) result)"
  "evaluate (small_interpreter (\<lambda>name. None)) 2 False reduce_nothing [] [TensorValue (i8_tensor [] [1])] =
     Inr [TensorValue (i8_tensor [] [6])]"
  by code_simp+

end
