(* ===== verification/Spec2Isabelle.thy ===== *)
theory Spec2Isabelle
  imports Structural_Witness Element_Witness Collectives_Witness Vhlo_Correct Replica_Groups_Correct Conv_Types Collective_Types Vhlo_Bytecode_Witness
    Types_Witness Value_Types_Correct Conv_Witness Folder_Witness
begin

text \<open>
  A verification development of StableHLO: the reference interpreter, the shape functions its operations rely on, the
  process grid behind its collective operations, the versioning of the portable dialect VHLO, and the folding of constants.

  \<^bold>\<open>The program.\<close> StableHLO is an operation set for tensor programs. \<^verbatim>\<open>stablehlo/reference\<close> interprets such programs: an
  \<open>Element\<close> is a value with its type, a \<open>Tensor\<close> is a byte buffer with a type, \<^verbatim>\<open>Ops.cpp\<close> has one function per operation and
  the function \<open>eval\<close> that runs the operations of a region in a \<open>Scope\<close>, and \<^verbatim>\<open>ProcessGrid.cpp\<close> lets several interpreters meet.
  \<^verbatim>\<open>stablehlo/dialect/TypeInference.cpp\<close> and \<^verbatim>\<open>Base.cpp\<close> decide whether an operation is well-typed and which shape it has.
  \<^verbatim>\<open>stablehlo/dialect/Version.*\<close>, \<^verbatim>\<open>Vhlo*.cpp\<close> and \<^verbatim>\<open>stablehlo/transforms/VhloToVersion.cpp\<close> keep serialized programs readable across
  releases. \<^verbatim>\<open>stablehlo/transforms/optimization/StablehloAggressiveFolder.cpp\<close> replaces operations on constants by constants.

  \<^bold>\<open>Theories and sources.\<close>
  \<^item> \<open>Prelude\<close>: results (fatal errors, failed \<^verbatim>\<open>LogicalResult\<close>s and undefined behaviour as values) and monadic loops.
  \<^item> \<open>Index_Space\<close>: \<^verbatim>\<open>Index.{h,cpp}\<close>, \<^verbatim>\<open>Axes.{h,cpp}\<close>. \<open>Types\<close>: \<^verbatim>\<open>Types.{h,cpp}\<close>. \<open>APInt\<close>: what the sources use of LLVM's integers of fixed
    width. \<open>Element\<close>, \<open>Element_Ops\<close>, \<open>Reduce_Precision\<close>: \<^verbatim>\<open>Element.{h,cpp}\<close>. \<open>Tensor\<close>: \<^verbatim>\<open>Tensor.{h,cpp}\<close>.
  \<^item> \<open>Ops_Elementwise\<close>, \<open>Ops_Structural\<close>, \<open>Ops_Linear\<close>, \<open>Ops_Conv\<close>, \<open>Ops_Region\<close>, \<open>Collectives\<close>: the operations of \<^verbatim>\<open>Ops.cpp\<close>.
    \<open>Values\<close>: \<^verbatim>\<open>Value.*\<close>, \<^verbatim>\<open>Scope.*\<close> and the loop of \<open>eval\<close>. \<open>Dispatch\<close>: the syntax of programs and the branches of \<open>eval\<close>, which
    call the operations with their operands, attributes, defaults and regions.
  \<^item> \<open>Program_Types\<close>, \<open>Program_Safety\<close>: well-typed programs, by the verifiers of their operations, and their evaluation.
  \<^item> \<open>Dialect_Base\<close>, \<open>Value_Types\<close>: the rules for sizes and bounds and the types of values of \<^verbatim>\<open>Base.cpp\<close>. \<open>Type_Inference\<close>,
    \<open>Region_Types\<close>, \<open>Gather_Types\<close>, \<open>Conv_Types\<close>, \<open>Collective_Types\<close>, \<open>Op_Types\<close>: the shape functions and verifiers of
    \<^verbatim>\<open>TypeInference.cpp\<close>: what they share and the structural operations, regions, gather and scatter, convolution and dot,
    collective operations, everything else.
  \<^item> \<open>Process_Grid\<close>: \<^verbatim>\<open>ProcessGrid.{h,cpp}\<close>, with step relations for \<open>rendezvous\<close> and for \<open>send\<close> and \<open>recv\<close>.
  \<^item> \<open>Vhlo_Version\<close>: \<^verbatim>\<open>Version.{h,cpp}\<close> and \<open>validateTargetVersion\<close>. \<open>Vhlo\<close>: the types and attributes of \<^verbatim>\<open>VhloTypes.td\<close> and
    \<^verbatim>\<open>VhloAttrs.td\<close>, the legality checks and rewrites of \<^verbatim>\<open>VhloToVersion.cpp\<close>, the constraints of \<^verbatim>\<open>VhloOps.cpp\<close>. \<open>Vhlo_Convert\<close>:
    \<^verbatim>\<open>VhloTypes.cpp\<close>. \<open>Vhlo_Bytecode\<close>: \<^verbatim>\<open>VhloBytecode.cpp\<close>.
  \<^item> \<open>Folder\<close>: the patterns of \<^verbatim>\<open>StablehloAggressiveFolder.cpp\<close>. \<open>Folder_Loops\<close>: what the loops of its slices, reversals, transpositions
    and concatenations compute.
  \<^item> \<open>Replica_Groups\<close>: \<^verbatim>\<open>ReplicaGroupUtils.cpp\<close>, which turns axes of a device mesh into groups of devices.

  A theory \<open>X_Correct\<close> proves the properties of the definitions of \<open>X\<close>, and a theory \<open>X_Witness\<close> applies them to concrete inputs.

  \<^bold>\<open>How the code is represented.\<close>
  \<^item> A function that may end in \<^verbatim>\<open>llvm::report_fatal_error\<close>, return a failure or run into undefined behaviour returns \<open>error + 'a\<close>, with
    one constructor of \<open>error\<close> for each; the texts of diagnostics are kept without the values printed in them.
  \<^item> Sizes and indices (\<^verbatim>\<open>int64_t\<close>) are unbounded integers; \<^verbatim>\<open>kDynamic\<close> is its constant. Element values are integers of explicit
    width, with wrap-around and two's complement written out.
  \<^item> \<^verbatim>\<open>APFloat\<close>, \<^verbatim>\<open>double\<close> and the functions of \<^verbatim>\<open>libm\<close> are the parameter \<open>float_api\<close>, a record of operations; theorems that store floats
    assume \<open>float_bits_ok\<close>, that bits and values correspond. \<open>Concrete\<close> has an instance.
  \<^item> A tensor is its type and its bytes, a byte that was never written is \<open>None\<close>, and reading it is undefined behaviour. The buffer
    of a tensor is shared in C++ and the interpreter writes to it only while it builds a fresh result, so updates return a
    new tensor. \<open>denotes F t f\<close> says that \<open>t\<close> is well-formed and holds \<open>f i\<close> at every index \<open>i\<close>; the soundness theorems relate
    operations through it.
  \<^item> A region is passed to an operation as a function from arguments to results; \<open>eval\<close> of a \<open>Region\<close> is such a function. \<open>std::sort\<close> is a
    parameter of \<open>sortOp\<close>, of which \<open>std_sort_ok\<close> states what C++ promises.
  \<^item> A loop over the index space of a shape is a fold over \<open>index_space\<close>, which the iterator is proved to enumerate. \<open>while\<close> has
    fuel; \<open>while_iterates\<close> shows that it returns for some fuel exactly when the iteration reaches a false condition. The loop of
    \<open>dot_general\<close> has fuel for all contracted positions, which its correctness theorem shows to be enough.
  \<^item> A constant (\<^verbatim>\<open>DenseElementsAttr\<close>) is a type and the list of its elements in row-major order. What the folder uses of MLIR is the
    parameter \<open>mlir_api\<close>: the functions that apply a calculation to all elements, of which \<open>folding_ok\<close> states what they promise, and
    index arithmetic, of which \<open>indexing_ok\<close> does. A pattern that does not match returns an error.
  \<^item> What a process does while it holds the mutex of a channel is one step of a step relation; a wait that takes too
    long is a step to a fatal error. A collective operation takes the result of its call of \<open>rendezvous\<close>; the theorems tie that
    result to the executions of the step relation.

  \<^bold>\<open>What is proved.\<close>
  \<^item> Storage: the iterator enumerates a shape in lexicographic order, \<open>flattenIndex\<close> is a bijection, \<open>set\<close> and \<open>get\<close> are inverse for
    every supported element type (\<open>Tensor_Correct\<close>).
  \<^item> Elements: arithmetic modulo the width, comparisons, conversions, exponentiation by squaring, bit casts, the invariant of
    the class (\<open>Element_Correct\<close>).
  \<^item> Operations: whenever the shape function accepts, the operation returns a tensor of the inferred type with every element set
    to what the specification says (\<open>Slice_Correct\<close>, \<open>Rearrange_Correct\<close>, \<open>Reshape_Correct\<close>, \<open>Concat_Correct\<close>, \<open>Elementwise_Correct\<close>,
    \<open>Dot_Correct\<close>, \<open>Region_Correct\<close>, \<open>Sort_Correct\<close>, \<open>Gather_Correct\<close>, \<open>Op_Types_Correct\<close>).
  \<^item> Processes: the rendezvous is a barrier whose participants agree, it cannot get stuck, a channel delivers messages in
    order; \<open>all_gather\<close> and \<open>all_reduce\<close> are sound in every execution (\<open>Process_Grid_Correct\<close>, \<open>Collectives_Correct\<close>). Reuse of a
    channel and empty messages do not behave so, which is proved as well.
  \<^item> Programs: a program of the fragment in \<open>Program_Types\<close> that the verifiers accept, with constants, \<open>if\<close>, \<open>case\<close>, \<open>while\<close> and calls,
    evaluates to tensors of its declared types and never to an error (\<open>Program_Safety\<close>). The fuel of \<open>evaluate\<close> is for the depth
    of nested regions and calls: it is enough for a program without loops and calls when it covers the depth at which the program
    was checked.
  \<^item> Folding: when constants hold the values in scope (\<open>consts_hold\<close>), the constant that replaces an operation of the folder's
    element-wise operations on integers and booleans or of its operations that move elements holds the tensor that the interpreter
    computes (\<open>Folder_Correct\<close>). For sums and clamps of booleans it does not, nor for some reductions (\<open>Folder_Witness\<close>).
  \<^item> Versions: text and type conversions are round trips, the compatibility window is exact, the legality check is exact for
    settled types (\<open>Vhlo_Version\<close>, \<open>Vhlo_Correct\<close>). Types and attributes written to bytecode are read back, packed booleans included
    (\<open>Vhlo_Bytecode_Correct\<close>).
  \<^item> Meshes: the flattened replica groups partition the devices when the boundaries of the sub-axes divide one another; without
    that the code accepts axes for which they do not (\<open>Replica_Groups_Correct\<close>).

  \<^bold>\<open>Interfaces.\<close> The locale of \<open>Tensor\<close> states what operations rely on when they write and read elements, \<open>environment\<close> of
  \<open>Values\<close> what evaluation relies on in scopes, and \<open>fifo_source\<close> of \<open>Process_Grid_Correct\<close> what readers of queues rely on; each is
  interpreted by the definitions of the model.

  \<^bold>\<open>Not modelled.\<close> Printing and debugging output; the conversion of tensors from and to MLIR attributes; dynamic shapes in the interpreter, which
  rejects them; the conversion of VHLO attributes and operations; the CHLO dialect, assembly format and the bytecode of StableHLO
  itself, which repeats the scheme of that of VHLO; in the folder, its driver, the pattern for \<^verbatim>\<open>erf\<close> and the search for
  declared side effects; the other rewriting passes and the lowerings to other dialects, which are patterns over MLIR's IR; language bindings and file input
  and output.
\<close>

end
